(* ===== verification/Prelude.thy ===== *)
theory Prelude
  imports Main "HOL-Library.Sublist" "HOL-Library.Char_ord"
begin

text \<open>
  Shared vocabulary of the development: the JavaScript string and array operations the web
  console calls, with the lemmas the component theories rely on.

  A JavaScript string is a \<^typ>\<open>string\<close> that holds its UTF-8 bytes. Equality, concatenation,
  \<open>includes\<close>, \<open>startsWith\<close>, \<open>indexOf(..) !== -1\<close>, \<open>replace\<close> and \<open>split\<close> with a string pattern and
  \<open>join\<close> mean the same on the bytes as on the code units; \<open>length\<close>, \<open>slice\<close>, \<open>trim\<close> and the case
  conversions are those of ASCII text. Operations whose result depends on code units take a list
  of code units instead of a \<^typ>\<open>string\<close>.

  A value that may be \<open>undefined\<close> or \<open>null\<close> is an \<open>option\<close>. Where the source treats the empty
  string and a missing value alike (\<open>x || y\<close>, \<open>if (!x)\<close>), the model asks \<open>js_truthy\<close>.
\<close>

section \<open>Collections of facts\<close>

named_theorems js_defs \<open>definitions of the string operations\<close>
named_theorems web_simps \<open>equations of the web platform model\<close>
named_theorems flow_defs \<open>definitions of the sign-in flow\<close>

section \<open>Errors and results\<close>

text \<open>The exceptions that the modelled code can meet.\<close>

datatype js_error =
    TypeError            \<comment> \<open>a property of \<open>undefined\<close> or \<open>null\<close> is read\<close>
  | URIError             \<comment> \<open>\<open>decodeURIComponent\<close> of a malformed escape\<close>
  | InvalidCharacter     \<comment> \<open>\<open>btoa\<close> or \<open>atob\<close> of a string outside their domain\<close>
  | InvalidURL           \<comment> \<open>\<open>new URL\<close> of a string that is not an absolute URL\<close>
  | SyntaxError          \<comment> \<open>\<open>JSON.parse\<close> of malformed text\<close>

type_synonym 'a result = "js_error + 'a"

abbreviation Throw :: "js_error \<Rightarrow> 'a result" where
  "Throw e \<equiv> Inl e"

abbreviation Return :: "'a \<Rightarrow> 'a result" where
  "Return x \<equiv> Inr x"

definition bind_result :: "'a result \<Rightarrow> ('a \<Rightarrow> 'b result) \<Rightarrow> 'b result" where
  "bind_result r f = (case r of Inl e \<Rightarrow> Inl e | Inr x \<Rightarrow> f x)"

lemma bind_result_simps [simp]:
  "bind_result (Inl e) f = Inl e"
  "bind_result (Inr x) f = f x"
  by (simp_all add: bind_result_def)

lemma bind_result_Inr_iff:
  "bind_result r f = Inr y \<longleftrightarrow> (\<exists>x. r = Inr x \<and> f x = Inr y)"
  by (cases r) simp_all

section \<open>Truthiness and template strings\<close>

text \<open>A string value is truthy when it is there and is not empty.\<close>

definition js_truthy :: "string option \<Rightarrow> bool" where
  "js_truthy v = (case v of None \<Rightarrow> False | Some s \<Rightarrow> s \<noteq> [])"

lemma js_truthy_simps [simp]:
  "js_truthy None = False"
  "js_truthy (Some s) = (s \<noteq> [])"
  by (simp_all add: js_truthy_def)

text \<open>\<open>x || d\<close> on strings.\<close>

definition js_or :: "string option \<Rightarrow> string \<Rightarrow> string" where
  "js_or v d = (case v of None \<Rightarrow> d | Some s \<Rightarrow> if s = [] then d else s)"

lemma js_or_simps [simp]:
  "js_or None d = d"
  "js_or (Some s) d = (if s = [] then d else s)"
  by (simp_all add: js_or_def)

text \<open>\<open>x ?? ""\<close> on strings.\<close>

definition js_nullish :: "string option \<Rightarrow> string" where
  "js_nullish v = (case v of None \<Rightarrow> [] | Some s \<Rightarrow> s)"

lemma js_nullish_simps [simp]:
  "js_nullish None = []"
  "js_nullish (Some s) = s"
  by (simp_all add: js_nullish_def)

lemma js_or_empty [simp]: "js_or v [] = js_nullish v"
  by (cases v) auto

text \<open>The value of an \<open>undefined\<close> or of a \<open>null\<close> inside a template string.\<close>

definition js_undef_str :: "string option \<Rightarrow> string" where
  "js_undef_str v = (case v of None \<Rightarrow> ''undefined'' | Some s \<Rightarrow> s)"

definition js_null_str :: "string option \<Rightarrow> string" where
  "js_null_str v = (case v of None \<Rightarrow> ''null'' | Some s \<Rightarrow> s)"

lemma js_interp_simps [simp]:
  "js_undef_str None = ''undefined''" "js_undef_str (Some s) = s"
  "js_null_str None = ''null''" "js_null_str (Some s) = s"
  by (simp_all add: js_undef_str_def js_null_str_def)

section \<open>Searching in strings\<close>

text \<open>
  \<open>find_sub p s\<close> splits \<open>s\<close> around the first occurrence of \<open>p\<close>. All of \<open>includes\<close>, \<open>indexOf\<close>,
  \<open>replace\<close> and \<open>split\<close> are built on it.
\<close>

fun find_sub :: "'a list \<Rightarrow> 'a list \<Rightarrow> ('a list \<times> 'a list) option" where
  "find_sub p [] = (if p = [] then Some ([], []) else None)"
| "find_sub p (c # cs) =
     (if prefix p (c # cs) then Some ([], drop (length p) (c # cs))
      else map_option (\<lambda>(a, b). (c # a, b)) (find_sub p cs))"

lemma find_sub_Some: "find_sub p s = Some (a, b) \<Longrightarrow> s = a @ p @ b"
proof (induction s arbitrary: a)
  case Nil
  then show ?case by (simp split: if_splits)
next
  case (Cons c cs)
  show ?case
  proof (cases "prefix p (c # cs)")
    case True
    with Cons.prems have "a = []" and "b = drop (length p) (c # cs)" by auto
    with True show ?thesis by (metis append_Nil append_eq_conv_conj prefix_def)
  next
    case False
    with Cons.prems obtain a' where "find_sub p cs = Some (a', b)" and "a = c # a'"
      by auto
    with Cons.IH show ?thesis by simp
  qed
qed

lemma find_sub_None: "find_sub p s = None \<longleftrightarrow> \<not> sublist p s"
proof (induction s)
  case Nil
  then show ?case by simp
next
  case (Cons c cs)
  then show ?case by (auto simp: sublist_Cons_right)
qed

lemma find_sub_shorter: "find_sub p s = Some (a, b) \<Longrightarrow> p \<noteq> [] \<Longrightarrow> length b < length s"
  by (frule find_sub_Some) simp

definition js_includes :: "string \<Rightarrow> string \<Rightarrow> bool" where
  "js_includes s p = (find_sub p s \<noteq> None)"

lemma js_includes_sublist: "js_includes s p \<longleftrightarrow> sublist p s"
  by (simp add: js_includes_def find_sub_None)

lemma sublist_single: "sublist [c] s \<longleftrightarrow> c \<in> set s"
  by (induction s) (auto simp: sublist_Cons_right)

lemma js_includes_char [simp]: "js_includes s [c] \<longleftrightarrow> c \<in> set s"
  by (simp add: js_includes_sublist sublist_single)

abbreviation js_startsWith :: "string \<Rightarrow> string \<Rightarrow> bool" where
  "js_startsWith s p \<equiv> prefix p s"

text \<open>
  \<open>s.replace(p, r)\<close> with a string pattern replaces the first occurrence. In the replacement
  \<open>$$\<close> is a dollar sign, \<open>$&\<close> the match, \<open>$\<close> followed by a back quote the text before it and \<open>$\<close>
  followed by a quote the text after it.
\<close>

fun expand_replacement :: "string \<Rightarrow> string \<Rightarrow> string \<Rightarrow> string \<Rightarrow> string" where
  "expand_replacement m pre post (CHR ''$'' # d # r) =
     (if d = CHR ''$'' then CHR ''$'' # expand_replacement m pre post r
      else if d = CHR ''&'' then m @ expand_replacement m pre post r
      else if d = CHR 0x60 then pre @ expand_replacement m pre post r
      else if d = CHR 0x27 then post @ expand_replacement m pre post r
      else CHR ''$'' # expand_replacement m pre post (d # r))"
| "expand_replacement m pre post (c # r) = c # expand_replacement m pre post r"
| "expand_replacement m pre post [] = []"

lemma expand_replacement_plain: "CHR ''$'' \<notin> set r \<Longrightarrow> expand_replacement m pre post r = r"
  by (induction m pre post r rule: expand_replacement.induct) auto

definition js_replace :: "string \<Rightarrow> string \<Rightarrow> string \<Rightarrow> string" where
  "js_replace s p r =
     (case find_sub p s of None \<Rightarrow> s | Some (a, b) \<Rightarrow> a @ expand_replacement p a b r @ b)"

lemma js_replace_absent: "\<not> sublist p s \<Longrightarrow> js_replace s p r = s"
  by (simp add: js_replace_def find_sub_None [THEN iffD2])

text \<open>\<open>s.split(sep)\<close> with a non-empty separator; \<open>s.split("")\<close> gives the single characters.\<close>

function js_split :: "string \<Rightarrow> string \<Rightarrow> string list" where
  "js_split s sep =
     (if sep = [] then map (\<lambda>c. [c]) s
      else case find_sub sep s of None \<Rightarrow> [s] | Some (a, b) \<Rightarrow> a # js_split b sep)"
  by pat_completeness auto
termination
  by (relation "measure (\<lambda>(s, sep). length s)") (auto dest: find_sub_shorter)

declare js_split.simps [simp del]

lemma js_split_absent: "sep \<noteq> [] \<Longrightarrow> \<not> sublist sep s \<Longrightarrow> js_split s sep = [s]"
  by (simp add: js_split.simps [of s sep] find_sub_None [THEN iffD2])

lemma js_split_present:
  "sep \<noteq> [] \<Longrightarrow> find_sub sep s = Some (a, b) \<Longrightarrow> js_split s sep = a # js_split b sep"
  by (simp add: js_split.simps [of s sep])

lemma js_split_not_Nil: "sep \<noteq> [] \<Longrightarrow> js_split s sep \<noteq> []"
  by (subst js_split.simps) (simp split: option.split)

text \<open>\<open>xs.join(sep)\<close>.\<close>

fun js_join :: "string \<Rightarrow> string list \<Rightarrow> string" where
  "js_join sep [] = []"
| "js_join sep [x] = x"
| "js_join sep (x # y # ys) = x @ sep @ js_join sep (y # ys)"

lemma js_join_Cons: "ys \<noteq> [] \<Longrightarrow> js_join sep (x # ys) = x @ sep @ js_join sep ys"
  by (cases ys) simp_all

lemma js_join_split: "sep \<noteq> [] \<Longrightarrow> js_join sep (js_split s sep) = s"
proof (induction s sep rule: js_split.induct)
  case (1 s sep)
  show ?case
  proof (cases "find_sub sep s")
    case None
    with "1.prems" show ?thesis by (simp add: js_split.simps [of s sep])
  next
    case (Some p)
    obtain a b where p: "p = (a, b)" by (cases p)
    with Some "1.prems" "1.IH" have "js_join sep (js_split b sep) = b"
      by auto
    with Some p "1.prems" have "js_join sep (js_split s sep) = a @ sep @ b"
      by (simp add: js_split_present js_join_Cons js_split_not_Nil)
    also have "\<dots> = s"
      using Some p find_sub_Some [of sep s a b] by simp
    finally show ?thesis .
  qed
qed

section \<open>Case conversion and trimming\<close>

definition ascii_lower_char :: "char \<Rightarrow> char" where
  "ascii_lower_char c =
     (let n = of_char c :: nat in if 65 \<le> n \<and> n \<le> 90 then char_of (n + 32) else c)"

definition ascii_upper_char :: "char \<Rightarrow> char" where
  "ascii_upper_char c =
     (let n = of_char c :: nat in if 97 \<le> n \<and> n \<le> 122 then char_of (n - 32) else c)"

definition js_lower :: "string \<Rightarrow> string" where
  "js_lower s = map ascii_lower_char s"

definition js_upper :: "string \<Rightarrow> string" where
  "js_upper s = map ascii_upper_char s"

lemma js_lower_append [simp]: "js_lower (s @ t) = js_lower s @ js_lower t"
  by (simp add: js_lower_def)

lemma js_lower_idem [simp]: "js_lower (js_lower s) = js_lower s"
  by (simp add: js_lower_def ascii_lower_char_def Let_def)

definition is_space :: "char \<Rightarrow> bool" where
  "is_space c = (let n = of_char c :: nat in n = 32 \<or> (9 \<le> n \<and> n \<le> 13))"

definition js_trim :: "string \<Rightarrow> string" where
  "js_trim s = rev (dropWhile is_space (rev (dropWhile is_space s)))"

definition is_digit :: "char \<Rightarrow> bool" where
  "is_digit c = (let n = of_char c :: nat in 48 \<le> n \<and> n \<le> 57)"

definition is_lower :: "char \<Rightarrow> bool" where
  "is_lower c = (let n = of_char c :: nat in 97 \<le> n \<and> n \<le> 122)"

definition is_upper :: "char \<Rightarrow> bool" where
  "is_upper c = (let n = of_char c :: nat in 65 \<le> n \<and> n \<le> 90)"

definition is_alpha :: "char \<Rightarrow> bool" where
  "is_alpha c = (is_lower c \<or> is_upper c)"

definition is_ascii :: "char \<Rightarrow> bool" where
  "is_ascii c = ((of_char c :: nat) < 128)"

lemma of_char_less_256 [simp]: "(of_char c :: nat) < 256"
  using of_char_mod_256 [of c, where 'a = nat] by (metis mod_less_divisor zero_less_numeral)

lemma char_of_of_char_nat [simp]: "char_of (of_char c :: nat) = c"
  by (rule char_of_char)

section \<open>Arrays\<close>

text \<open>\<open>xs.slice(a, b)\<close> and \<open>xs.slice(a)\<close> for non-negative bounds.\<close>

definition js_slice :: "'a list \<Rightarrow> nat \<Rightarrow> nat \<Rightarrow> 'a list" where
  "js_slice xs a b = drop a (take b xs)"

definition js_slice_from :: "'a list \<Rightarrow> nat \<Rightarrow> 'a list" where
  "js_slice_from xs a = drop a xs"

lemma list_all_filter_iff: "list_all P (filter Q xs) \<longleftrightarrow> (\<forall>x \<in> set xs. Q x \<longrightarrow> P x)"
  by (auto simp: list_all_iff)

lemma filter_Nil_iff_list_ex: "filter P xs = [] \<longleftrightarrow> \<not> list_ex P xs"
  by (auto simp: list_ex_iff filter_empty_conv)

section \<open>Stable sorting with a comparator\<close>

text \<open>
  \<open>Array.prototype.sort\<close> is stable. With a comparator \<open>cmp\<close> an element moves in front of another
  only when \<open>cmp\<close> says it is smaller.
\<close>

fun insert_by :: "('a \<Rightarrow> 'a \<Rightarrow> int) \<Rightarrow> 'a \<Rightarrow> 'a list \<Rightarrow> 'a list" where
  "insert_by cmp x [] = [x]"
| "insert_by cmp x (y # ys) = (if cmp x y \<le> 0 then x # y # ys else y # insert_by cmp x ys)"

definition js_sort :: "('a \<Rightarrow> 'a \<Rightarrow> int) \<Rightarrow> 'a list \<Rightarrow> 'a list" where
  "js_sort cmp xs = foldr (insert_by cmp) xs []"

lemma set_insert_by [simp]: "set (insert_by cmp x xs) = insert x (set xs)"
  by (induction xs) auto

lemma length_insert_by [simp]: "length (insert_by cmp x xs) = Suc (length xs)"
  by (induction xs) auto

lemma set_js_sort [simp]: "set (js_sort cmp xs) = set xs"
  by (induction xs) (simp_all add: js_sort_def)

lemma length_js_sort [simp]: "length (js_sort cmp xs) = length xs"
  by (induction xs) (simp_all add: js_sort_def)

end
