(* ===== verification/Web_Platform.thy ===== *)
theory Web_Platform
  imports Prelude
begin

text \<open>
  The parts of the web platform that the sign-in code calls: \<open>encodeURIComponent\<close> and
  \<open>decodeURIComponent\<close>, the query parser behind \<open>URLSearchParams\<close>, \<open>btoa\<close> and \<open>atob\<close>, and the two
  browser storages. The encodings share the contract of the locale \<open>codec\<close>, which is interpreted
  for percent encoding, for the form encoding that a query parameter goes through, and for
  base64.

  Byte sequences that are not UTF-8 never occur as string values; \<open>decodeURIComponent\<close> rejects
  them, and the replacement character that \<open>URLSearchParams\<close> substitutes is not modelled.
\<close>

section \<open>The contract of an encoding\<close>

locale codec =
  fixes enc :: "'a \<Rightarrow> 'b"
    and dec :: "'b \<Rightarrow> 'a result"
    and valid :: "'a \<Rightarrow> bool"
  assumes roundtrip: "valid x \<Longrightarrow> dec (enc x) = Return x"
begin

lemma enc_inj: "valid x \<Longrightarrow> valid y \<Longrightarrow> enc x = enc y \<Longrightarrow> x = y"
  by (metis roundtrip sum.inject(2))

lemma inj_on_enc: "inj_on enc {x. valid x}"
  by (auto intro!: inj_onI dest: enc_inj)

end

section \<open>Percent encoding\<close>

definition uri_unreserved :: "char \<Rightarrow> bool" where
  "uri_unreserved c = (is_alpha c \<or> is_digit c \<or> c \<in> set ''-_.!~*()'' \<or> c = CHR 0x27)"

definition hex_digit :: "nat \<Rightarrow> char" where
  "hex_digit n = (if n < 10 then char_of (48 + n) else char_of (55 + n))"

definition hex_val :: "char \<Rightarrow> nat option" where
  "hex_val c =
     (let n = of_char c in
      if 48 \<le> n \<and> n \<le> 57 then Some (n - 48)
      else if 65 \<le> n \<and> n \<le> 70 then Some (n - 55)
      else if 97 \<le> n \<and> n \<le> 102 then Some (n - 87)
      else None)"

lemma hex_val_hex_digit [simp]: "n < 16 \<Longrightarrow> hex_val (hex_digit n) = Some n"
  by (auto simp: hex_val_def hex_digit_def Let_def of_char_of)

lemma hex_digit_alnum: "n < 16 \<Longrightarrow> is_digit (hex_digit n) \<or> is_upper (hex_digit n)"
  by (auto simp: is_digit_def is_upper_def hex_digit_def Let_def of_char_of)

definition pct_byte :: "char \<Rightarrow> string" where
  "pct_byte c = [CHR ''%'', hex_digit (of_char c div 16), hex_digit (of_char c mod 16)]"

definition encodeURIComponent :: "string \<Rightarrow> string" where
  "encodeURIComponent s = concat (map (\<lambda>c. if uri_unreserved c then [c] else pct_byte c) s)"

lemma encodeURIComponent_Nil [simp]: "encodeURIComponent [] = []"
  by (simp add: encodeURIComponent_def)

lemma encodeURIComponent_Cons:
  "encodeURIComponent (c # s) =
     (if uri_unreserved c then [c] else pct_byte c) @ encodeURIComponent s"
  by (simp add: encodeURIComponent_def)

lemma encodeURIComponent_append [simp]:
  "encodeURIComponent (s @ t) = encodeURIComponent s @ encodeURIComponent t"
  by (simp add: encodeURIComponent_def)

text \<open>What an encoded string is made of: no separator of a query survives.\<close>

lemma div16_less: "of_char c div 16 < (16::nat)"
  using of_char_less_256 [of c] by linarith

lemma set_encodeURIComponent:
  "set (encodeURIComponent s) \<subseteq> {c. uri_unreserved c} \<union> {CHR ''%''}"
proof (induction s)
  case Nil
  then show ?case by simp
next
  case (Cons c s)
  have "uri_unreserved (hex_digit (of_char c div 16))" "uri_unreserved (hex_digit (of_char c mod 16))"
    using hex_digit_alnum [OF div16_less [of c]] hex_digit_alnum [of "of_char c mod 16"]
    by (auto simp: uri_unreserved_def is_alpha_def)
  with Cons show ?case
    by (auto simp: encodeURIComponent_Cons pct_byte_def split: if_splits)
qed

lemma encodeURIComponent_no_sep:
  assumes "c \<in> set ''&=+#?/ ''"
  shows "c \<notin> set (encodeURIComponent s)"
proof -
  have "\<not> uri_unreserved c \<and> c \<noteq> CHR ''%''"
    using assms
    by (auto simp: uri_unreserved_def is_alpha_def is_lower_def is_upper_def is_digit_def)
  with set_encodeURIComponent [of s] show ?thesis by auto
qed

lemma encodeURIComponent_ascii: "list_all is_ascii (encodeURIComponent s)"
proof -
  have "is_ascii c" if "uri_unreserved c \<or> c = CHR ''%''" for c
    using that
    by (auto simp: uri_unreserved_def is_alpha_def is_lower_def is_upper_def is_digit_def
        is_ascii_def Let_def)
  with set_encodeURIComponent [of s] show ?thesis
    by (auto simp: list_all_iff)
qed

text \<open>Decoding: a \<open>%\<close> must be followed by two hexadecimal digits.\<close>

fun pct_decode :: "string \<Rightarrow> string option" where
  "pct_decode [] = Some []"
| "pct_decode (c # r) =
     (if c \<noteq> CHR ''%'' then map_option ((#) c) (pct_decode r)
      else case r of
        a # b # r' \<Rightarrow>
          (case (hex_val a, hex_val b) of
             (Some h, Some l) \<Rightarrow> map_option ((#) (char_of (16 * h + l))) (pct_decode r')
           | _ \<Rightarrow> None)
      | _ \<Rightarrow> None)"

lemma pct_decode_pct_byte:
  "pct_decode (pct_byte c @ r) = map_option ((#) c) (pct_decode r)"
  by (simp add: pct_byte_def div16_less)

lemma uri_unreserved_not_pct: "uri_unreserved c \<Longrightarrow> c \<noteq> CHR ''%'' \<and> c \<noteq> CHR ''+''"
  by (auto simp: uri_unreserved_def is_alpha_def is_lower_def is_upper_def is_digit_def)

lemma pct_decode_encode: "pct_decode (encodeURIComponent s) = Some s"
proof (induction s)
  case (Cons c s)
  then show ?case
    by (cases "uri_unreserved c")
       (simp_all add: encodeURIComponent_Cons pct_decode_pct_byte uri_unreserved_not_pct)
qed simp

text \<open>Well-formed UTF-8 (shortest forms, no surrogates, at most U+10FFFF).\<close>

definition utf8_cont :: "char \<Rightarrow> bool" where
  "utf8_cont c = (let n = of_char c :: nat in 128 \<le> n \<and> n < 192)"

fun utf8_valid :: "string \<Rightarrow> bool" where
  "utf8_valid [] = True"
| "utf8_valid (a # r) =
     (let n = of_char a :: nat in
      if n < 128 then utf8_valid r
      else if 194 \<le> n \<and> n < 224 then
        (case r of b # r' \<Rightarrow> utf8_cont b \<and> utf8_valid r' | _ \<Rightarrow> False)
      else if 224 \<le> n \<and> n < 240 then
        (case r of b # c # r' \<Rightarrow>
             utf8_cont b \<and> utf8_cont c
             \<and> (n = 224 \<longrightarrow> 160 \<le> (of_char b :: nat)) \<and> (n = 237 \<longrightarrow> (of_char b :: nat) < 160)
             \<and> utf8_valid r'
         | _ \<Rightarrow> False)
      else if 240 \<le> n \<and> n < 245 then
        (case r of b # c # d # r' \<Rightarrow>
             utf8_cont b \<and> utf8_cont c \<and> utf8_cont d
             \<and> (n = 240 \<longrightarrow> 144 \<le> (of_char b :: nat)) \<and> (n = 244 \<longrightarrow> (of_char b :: nat) < 144)
             \<and> utf8_valid r'
         | _ \<Rightarrow> False)
      else False)"

lemma utf8_valid_ascii: "list_all is_ascii s \<Longrightarrow> utf8_valid s"
  by (induction s) (auto simp: is_ascii_def Let_def)

definition decodeURIComponent :: "string \<Rightarrow> string result" where
  "decodeURIComponent s =
     (case pct_decode s of
        None \<Rightarrow> Throw URIError
      | Some t \<Rightarrow> if utf8_valid t then Return t else Throw URIError)"

interpretation uri: codec encodeURIComponent decodeURIComponent utf8_valid
  by unfold_locales (simp add: decodeURIComponent_def pct_decode_encode)

section \<open>Query strings\<close>

text \<open>
  \<open>URLSearchParams\<close> parses \<open>application/x-www-form-urlencoded\<close>: one leading \<open>?\<close> is dropped, the
  rest is cut at \<open>&\<close>, empty pieces are dropped, each piece is cut at its first \<open>=\<close>, \<open>+\<close> is a
  space, and a \<open>%\<close> that no two hexadecimal digits follow stands for itself.
\<close>

fun form_decode :: "string \<Rightarrow> string" where
  "form_decode [] = []"
| "form_decode (c # r) =
     (if c = CHR ''+'' then CHR '' '' # form_decode r
      else if c \<noteq> CHR ''%'' then c # form_decode r
      else case r of
        a # b # r' \<Rightarrow>
          (case (hex_val a, hex_val b) of
             (Some h, Some l) \<Rightarrow> char_of (16 * h + l) # form_decode r'
           | _ \<Rightarrow> c # form_decode r)
      | _ \<Rightarrow> c # form_decode r)"

lemma form_decode_pct_byte: "form_decode (pct_byte c @ r) = c # form_decode r"
  by (simp add: pct_byte_def div16_less)

lemma form_decode_encode: "form_decode (encodeURIComponent s) = s"
proof (induction s)
  case (Cons c s)
  then show ?case
    by (cases "uri_unreserved c")
       (simp_all add: encodeURIComponent_Cons form_decode_pct_byte uri_unreserved_not_pct)
qed simp

lemma form_decode_plain:
  "CHR ''+'' \<notin> set s \<Longrightarrow> CHR ''%'' \<notin> set s \<Longrightarrow> form_decode s = s"
  by (induction s) auto

interpretation form: codec encodeURIComponent "\<lambda>s. Return (form_decode s)" "\<lambda>_. True"
  by unfold_locales (simp add: form_decode_encode)

fun split_char :: "char \<Rightarrow> string \<Rightarrow> string list" where
  "split_char c [] = [[]]"
| "split_char c (x # xs) =
     (if x = c then [] # split_char c xs
      else case split_char c xs of [] \<Rightarrow> [[x]] | y # ys \<Rightarrow> (x # y) # ys)"

lemma split_char_not_Nil [simp]: "split_char c s \<noteq> []"
  by (cases s) (simp_all split: list.split)

lemma split_char_append:
  "split_char c (s @ c # t) = split_char c s @ split_char c t"
proof (induction s)
  case (Cons x s)
  then show ?case by (auto split: list.splits)
qed simp

lemma split_char_absent: "c \<notin> set s \<Longrightarrow> split_char c s = [s]"
  by (induction s) auto

definition parse_pair :: "string \<Rightarrow> string \<times> string" where
  "parse_pair p =
     (form_decode (takeWhile (\<lambda>c. c \<noteq> CHR ''='') p),
      form_decode (drop 1 (dropWhile (\<lambda>c. c \<noteq> CHR ''='') p)))"

definition parse_pairs :: "string \<Rightarrow> (string \<times> string) list" where
  "parse_pairs s = map parse_pair (filter (\<lambda>p. p \<noteq> []) (split_char CHR ''&'' s))"

definition URLSearchParams :: "string \<Rightarrow> (string \<times> string) list" where
  "URLSearchParams s =
     parse_pairs (case s of c # r \<Rightarrow> if c = CHR ''?'' then r else s | [] \<Rightarrow> [])"

text \<open>\<open>params.get(k)\<close> is the first value of a key, \<open>null\<close> when there is none.\<close>

definition usp_get :: "(string \<times> string) list \<Rightarrow> string \<Rightarrow> string option" where
  "usp_get ps k = map_of ps k"

lemma usp_get_simps [simp]:
  "usp_get [] k = None"
  "usp_get ((k', v) # ps) k = (if k = k' then Some v else usp_get ps k)"
  by (auto simp: usp_get_def)

lemma usp_get_append:
  "usp_get (ps @ qs) k = (case usp_get ps k of None \<Rightarrow> usp_get qs k | Some v \<Rightarrow> Some v)"
  by (induction ps) (auto simp: usp_get_def split: option.splits)

lemma parse_pairs_append: "parse_pairs (s @ CHR ''&'' # t) = parse_pairs s @ parse_pairs t"
  by (simp add: parse_pairs_def split_char_append)

lemma URLSearchParams_append:
  "URLSearchParams (s @ CHR ''&'' # t) = URLSearchParams s @ parse_pairs t"
proof (cases s)
  case Nil
  then show ?thesis by (simp add: URLSearchParams_def parse_pairs_def)
next
  case (Cons c r)
  then show ?thesis
    using parse_pairs_append [of r t] parse_pairs_append [of s t]
    by (simp add: URLSearchParams_def)
qed

lemma parse_pairs_single:
  assumes "CHR ''&'' \<notin> set k" "CHR ''='' \<notin> set k" "CHR ''&'' \<notin> set v"
  shows "parse_pairs (k @ CHR ''='' # v) = [(form_decode k, form_decode v)]"
proof -
  have tw: "takeWhile (\<lambda>c. c \<noteq> CHR ''='') (k @ CHR ''='' # v) = k"
    using assms(2) by (induction k) auto
  have dw: "dropWhile (\<lambda>c. c \<noteq> CHR ''='') (k @ CHR ''='' # v) = CHR ''='' # v"
    using assms(2) by (induction k) auto
  have "CHR ''&'' \<notin> set (k @ CHR ''='' # v)" using assms by simp
  then show ?thesis
    by (simp add: parse_pairs_def split_char_absent parse_pair_def tw dw)
qed

lemma parse_pairs_encoded:
  assumes "CHR ''&'' \<notin> set k" "CHR ''='' \<notin> set k" "form_decode k = k"
  shows "parse_pairs (k @ CHR ''='' # encodeURIComponent v) = [(k, v)]"
  using assms encodeURIComponent_no_sep [of "CHR ''&''" v]
  by (simp add: parse_pairs_single form_decode_encode)

text \<open>
  \<open>URLSearchParams.toString()\<close>: letters, digits and \<open>*-._\<close> stand for themselves, a space is
  written \<open>+\<close>.
\<close>

definition form_unreserved :: "char \<Rightarrow> bool" where
  "form_unreserved c = (is_alpha c \<or> is_digit c \<or> c \<in> set ''*-._'')"

definition form_encode_char :: "char \<Rightarrow> string" where
  "form_encode_char c =
     (if form_unreserved c then [c] else if c = CHR '' '' then ''+'' else pct_byte c)"

definition form_encode :: "string \<Rightarrow> string" where
  "form_encode s = concat (map form_encode_char s)"

definition usp_toString :: "(string \<times> string) list \<Rightarrow> string" where
  "usp_toString ps = js_join ''&'' (map (\<lambda>(k, v). form_encode k @ ''='' @ form_encode v) ps)"

lemma form_unreserved_plain:
  "form_unreserved c \<Longrightarrow> c \<notin> {CHR ''&'', CHR ''='', CHR ''+'', CHR ''%''}"
  by (auto simp: form_unreserved_def is_alpha_def is_lower_def is_upper_def is_digit_def)

lemma form_encode_char_sep:
  "CHR ''&'' \<notin> set (form_encode_char c)" "CHR ''='' \<notin> set (form_encode_char c)"
proof -
  have "form_unreserved (hex_digit n)" if "n < 16" for n
    using hex_digit_alnum [OF that] by (auto simp: form_unreserved_def is_alpha_def)
  from this [OF div16_less [of c], THEN form_unreserved_plain]
    this [of "of_char c mod 16", THEN form_unreserved_plain]
  have "CHR ''&'' \<notin> set (pct_byte c)" "CHR ''='' \<notin> set (pct_byte c)"
    by (auto simp: pct_byte_def)
  then show "CHR ''&'' \<notin> set (form_encode_char c)" "CHR ''='' \<notin> set (form_encode_char c)"
    using form_unreserved_plain [of c] by (auto simp: form_encode_char_def)
qed

lemma form_decode_encode_char: "form_decode (form_encode_char c @ r) = c # form_decode r"
  using form_unreserved_plain [of c] by (simp add: form_encode_char_def form_decode_pct_byte)

interpretation form_enc: codec form_encode "\<lambda>s. Return (form_decode s)" "\<lambda>_. True"
proof
  fix s
  show "Return (form_decode (form_encode s)) = Return s"
    by (induction s) (simp_all add: form_encode_def form_decode_encode_char)
qed

lemma form_decode_form_encode: "form_decode (form_encode s) = s"
  using form_enc.roundtrip [of s] by simp

lemma parse_pairs_form_encode:
  "parse_pairs (form_encode k @ CHR ''='' # form_encode v) = [(k, v)]"
  by (simp add: parse_pairs_single form_encode_def form_encode_char_sep
      form_decode_form_encode [unfolded form_encode_def])

lemma parse_pairs_toString: "parse_pairs (usp_toString ps) = ps"
proof (induction ps rule: induct_list012)
  case (3 x y zs)
  then show ?case
    by (cases x; cases y)
       (simp add: usp_toString_def parse_pairs_form_encode parse_pairs_append
          [of "form_encode a @ CHR ''='' # form_encode b" for a b, simplified])
next
  case 1
  then show ?case by (simp add: usp_toString_def parse_pairs_def)
qed (auto simp: usp_toString_def parse_pairs_form_encode)

text \<open>Writing a query and reading it again gives the same pairs.\<close>

lemma URLSearchParams_toString: "URLSearchParams (CHR ''?'' # usp_toString ps) = ps"
  by (simp add: URLSearchParams_def parse_pairs_toString)

text \<open>
  \<open>params.delete(k)\<close> and \<open>params.set(k, v)\<close>, which replaces the first value and drops the others, and
  the query that a \<open>URL\<close> has afterwards.
\<close>

definition usp_delete :: "(string \<times> string) list \<Rightarrow> string \<Rightarrow> (string \<times> string) list" where
  "usp_delete ps k = filter (\<lambda>e. fst e \<noteq> k) ps"

fun usp_set :: "(string \<times> string) list \<Rightarrow> string \<Rightarrow> string \<Rightarrow> (string \<times> string) list" where
  "usp_set [] k v = [(k, v)]"
| "usp_set (e # ps) k v = (if fst e = k then (k, v) # usp_delete ps k else e # usp_set ps k v)"

definition url_search :: "(string \<times> string) list \<Rightarrow> string" where
  "url_search ps = (if ps = [] then [] else CHR ''?'' # usp_toString ps)"

lemma usp_delete_idem [simp]: "usp_delete (usp_delete ps k) k = usp_delete ps k"
  by (simp add: usp_delete_def)

lemma usp_delete_set [simp]: "usp_delete (usp_set ps k v) k = usp_delete ps k"
proof (induction ps)
  case (Cons e ps)
  then show ?case using usp_delete_idem [of ps k] by (simp add: usp_delete_def)
qed (simp add: usp_delete_def)

lemma usp_get_delete [simp]: "usp_get (usp_delete ps k) k' = (if k' = k then None else usp_get ps k')"
  by (induction ps) (auto simp: usp_delete_def)

lemma usp_get_set [simp]: "usp_get (usp_set ps k v) k' = (if k' = k then Some v else usp_get ps k')"
proof (induction ps)
  case (Cons e ps)
  then show ?case by (cases e) auto
qed simp

lemma URLSearchParams_url_search [simp]: "URLSearchParams (url_search ps) = ps"
  by (simp add: url_search_def URLSearchParams_toString)
     (simp add: URLSearchParams_def parse_pairs_def)

text \<open>\<open>url.hash\<close>: empty also for a lone \<open>#\<close>.\<close>

definition url_hash :: "string \<Rightarrow> string" where
  "url_hash href =
     (case dropWhile (\<lambda>c. c \<noteq> CHR ''#'') href of [] \<Rightarrow> [] | [_] \<Rightarrow> [] | h \<Rightarrow> h)"

text \<open>
  \<open>queries.forEach((val, key) => {m[key.toLowerCase()] = val;})\<close>: the last of the values whose
  keys agree up to case.
\<close>

definition usp_lower :: "(string \<times> string) list \<Rightarrow> string \<Rightarrow> string option" where
  "usp_lower ps = map_of (rev (map (\<lambda>(k, v). (js_lower k, v)) ps))"

section \<open>Base64\<close>

definition b64_char :: "nat \<Rightarrow> char" where
  "b64_char n =
     (if n < 26 then char_of (65 + n) else if n < 52 then char_of (71 + n)
      else if n < 62 then char_of (n - 4) else if n = 62 then CHR ''+'' else CHR ''/'')"

definition b64_val :: "char \<Rightarrow> nat option" where
  "b64_val c =
     (let n = of_char c in
      if 65 \<le> n \<and> n \<le> 90 then Some (n - 65)
      else if 97 \<le> n \<and> n \<le> 122 then Some (n - 71)
      else if 48 \<le> n \<and> n \<le> 57 then Some (n + 4)
      else if n = 43 then Some 62 else if n = 47 then Some 63 else None)"

lemma b64_val_char [simp]: "n < 64 \<Longrightarrow> b64_val (b64_char n) = Some n"
  by (auto simp: b64_val_def b64_char_def Let_def of_char_of)

lemma b64_char_inj: "m < 64 \<Longrightarrow> n < 64 \<Longrightarrow> b64_char m = b64_char n \<longleftrightarrow> m = n"
  by (metis b64_val_char option.inject)

lemma b64_char_special:
  assumes "n < 64"
  shows "b64_char n \<noteq> CHR ''=''" "b64_char n \<noteq> CHR ''%''" "\<not> is_space (b64_char n)"
proof -
  have "b64_val c = None" if "c = CHR ''='' \<or> c = CHR ''%'' \<or> is_space c" for c
    using that by (auto simp: b64_val_def is_space_def Let_def)
  with b64_val_char [OF assms]
  show "b64_char n \<noteq> CHR ''=''" "b64_char n \<noteq> CHR ''%''" "\<not> is_space (b64_char n)"
    by fastforce+
qed

lemma b64_char_plus: "n < 64 \<Longrightarrow> b64_char n = CHR ''+'' \<longleftrightarrow> n = 62"
  using b64_char_inj [of n 62] by (simp add: b64_char_def)

fun b64_encode :: "nat list \<Rightarrow> string" where
  "b64_encode [] = []"
| "b64_encode [a] = [b64_char (a div 4), b64_char (a mod 4 * 16), CHR ''='', CHR ''='']"
| "b64_encode [a, b] =
     [b64_char (a div 4), b64_char (a mod 4 * 16 + b div 16), b64_char (b mod 16 * 4), CHR ''='']"
| "b64_encode (a # b # c # r) =
     b64_char (a div 4) # b64_char (a mod 4 * 16 + b div 16)
     # b64_char (b mod 16 * 4 + c div 64) # b64_char (c mod 64) # b64_encode r"

fun b64_bytes :: "nat list \<Rightarrow> nat list option" where
  "b64_bytes [] = Some []"
| "b64_bytes [p] = None"
| "b64_bytes [p, q] = Some [p * 4 + q div 16]"
| "b64_bytes [p, q, r] = Some [p * 4 + q div 16, q mod 16 * 16 + r div 4]"
| "b64_bytes (p # q # r # s # t) =
     map_option (\<lambda>bs. (p * 4 + q div 16) # (q mod 16 * 16 + r div 4) # (r mod 4 * 64 + s) # bs)
       (b64_bytes t)"

text \<open>
  The forgiving decoder behind \<open>atob\<close>: white space is removed; when the length is a multiple of
  four, one or two trailing \<open>=\<close> are removed; every remaining character must be of the alphabet.
\<close>

definition b64_strip :: "string \<Rightarrow> string" where
  "b64_strip s =
     (let t = filter (\<lambda>c. \<not> (is_space c \<and> c \<noteq> CHR 0x0B)) s in
      if length t mod 4 = 0 then
        (if length t \<ge> 2 \<and> drop (length t - 2) t = ''=='' then take (length t - 2) t
         else if t \<noteq> [] \<and> last t = CHR ''='' then butlast t else t)
      else t)"

fun b64_sextets :: "string \<Rightarrow> nat list option" where
  "b64_sextets [] = Some []"
| "b64_sextets (c # s) =
     (case b64_val c of None \<Rightarrow> None | Some n \<Rightarrow> map_option ((#) n) (b64_sextets s))"

definition b64_decode :: "string \<Rightarrow> nat list result" where
  "b64_decode s =
     (case b64_sextets (b64_strip s) of
        None \<Rightarrow> Throw InvalidCharacter
      | Some ns \<Rightarrow> (case b64_bytes ns of None \<Rightarrow> Throw InvalidCharacter | Some bs \<Rightarrow> Return bs))"

text \<open>An encoded string is a list of alphabet characters followed by its padding.\<close>

fun b64_sx :: "nat list \<Rightarrow> nat list" where
  "b64_sx [] = []"
| "b64_sx [a] = [a div 4, a mod 4 * 16]"
| "b64_sx [a, b] = [a div 4, a mod 4 * 16 + b div 16, b mod 16 * 4]"
| "b64_sx (a # b # c # r) =
     a div 4 # (a mod 4 * 16 + b div 16) # (b mod 16 * 4 + c div 64) # c mod 64 # b64_sx r"

definition b64_pad :: "nat list \<Rightarrow> string" where
  "b64_pad bs =
     (if length bs mod 3 = 1 then ''=='' else if length bs mod 3 = 2 then ''='' else [])"

lemma b64_encode_sx: "b64_encode bs = map b64_char (b64_sx bs) @ b64_pad bs"
  by (induction bs rule: b64_encode.induct) (auto simp: b64_pad_def)

lemma b64_sx_less: "list_all (\<lambda>b. b < 256) bs \<Longrightarrow> list_all (\<lambda>n. n < 64) (b64_sx bs)"
  by (induction bs rule: b64_sx.induct) auto

lemma b64_bytes_sx: "list_all (\<lambda>b. b < 256) bs \<Longrightarrow> b64_bytes (b64_sx bs) = Some bs"
  by (induction bs rule: b64_sx.induct) auto

lemma length_b64_sx: "length (b64_sx bs @ map (\<lambda>_. 0) (b64_pad bs)) mod 4 = 0"
  by (induction bs rule: b64_sx.induct) (auto simp: b64_pad_def)

lemma b64_sextets_chars:
  "list_all (\<lambda>n. n < 64) ns \<Longrightarrow> b64_sextets (map b64_char ns) = Some ns"
  by (induction ns) simp_all

lemma b64_strip_padded:
  assumes ns: "list_all (\<lambda>n. n < 64) ns" and len: "(length ns + length p) mod 4 = 0"
    and p: "p = [] \<or> p = ''='' \<or> p = ''==''"
  shows "b64_strip (map b64_char ns @ p) = map b64_char ns"
proof -
  let ?t = "map b64_char ns @ p"
  have chars: "\<forall>c \<in> set (map b64_char ns). c \<noteq> CHR ''='' \<and> \<not> is_space c"
    using ns b64_char_special by (auto simp: list_all_iff)
  have "filter (\<lambda>c. \<not> (is_space c \<and> c \<noteq> CHR 0x0B)) ?t = ?t"
    using chars p by (auto simp: filter_id_conv is_space_def Let_def)
  moreover have "length ?t mod 4 = 0" using len by simp
  moreover have "last (map b64_char ns) \<noteq> CHR ''=''" if "ns \<noteq> []"
    using chars that by (metis last_in_set map_is_Nil_conv)
  moreover have "drop (length ns - 1) (map b64_char ns @ ''='') \<noteq> ''==''"
  proof (cases ns rule: rev_cases)
    case (snoc ms m)
    then show ?thesis using chars by simp
  qed simp
  moreover have "drop (length ns - 2) (map b64_char ns) \<noteq> ''==''"
  proof -
    have "set (drop (length ns - 2) (map b64_char ns)) \<subseteq> set (map b64_char ns)"
      by (rule set_drop_subset)
    with chars show ?thesis by (metis list.set_intros(1) subsetD)
  qed
  ultimately show ?thesis
    using p by (auto simp: b64_strip_def Let_def)
qed

lemma b64_decode_encode: "list_all (\<lambda>b. b < 256) bs \<Longrightarrow> b64_decode (b64_encode bs) = Return bs"
proof -
  assume bs: "list_all (\<lambda>b. b < 256) bs"
  have "b64_strip (b64_encode bs) = map b64_char (b64_sx bs)"
    unfolding b64_encode_sx
    using length_b64_sx [of bs]
    by (intro b64_strip_padded b64_sx_less bs) (auto simp: b64_pad_def)
  with bs show ?thesis
    by (simp add: b64_decode_def b64_sextets_chars b64_sx_less b64_bytes_sx)
qed

interpretation b64: codec b64_encode b64_decode "list_all (\<lambda>b. b < 256)"
  by unfold_locales (rule b64_decode_encode)

text \<open>
  \<open>btoa\<close> takes one byte per code unit and fails above U+00FF; \<open>atob\<close> gives back one code unit per
  byte. Both sides are turned into UTF-8 here.
\<close>

fun latin1_of_utf8 :: "string \<Rightarrow> nat list option" where
  "latin1_of_utf8 [] = Some []"
| "latin1_of_utf8 (a # r) =
     (let n = of_char a in
      if n < 128 then map_option ((#) n) (latin1_of_utf8 r)
      else if n = 194 \<or> n = 195 then
        (case r of
           b # r' \<Rightarrow>
             if utf8_cont b then map_option ((#) ((n - 194) * 64 + of_char b)) (latin1_of_utf8 r')
             else None
         | [] \<Rightarrow> None)
      else None)"

definition utf8_of_byte :: "nat \<Rightarrow> string" where
  "utf8_of_byte n =
     (if n < 128 then [char_of n] else [char_of (192 + n div 64), char_of (128 + n mod 64)])"

definition utf8_of_latin1 :: "nat list \<Rightarrow> string" where
  "utf8_of_latin1 bs = concat (map utf8_of_byte bs)"

lemma utf8_of_latin1_simps [simp]:
  "utf8_of_latin1 [] = []"
  "utf8_of_latin1 (b # bs) = utf8_of_byte b @ utf8_of_latin1 bs"
  by (simp_all add: utf8_of_latin1_def)

lemma cont_div:
  assumes "128 \<le> (m::nat)" "m < 192"
  shows "m div 64 = 2" "128 + m mod 64 = m" "(64 + m) div 64 = 3" "(64 + m) mod 64 = m mod 64"
proof -
  obtain k where "m = 128 + k" using assms(1) le_Suc_ex by blast
  with assms(2) have k: "m = k + 2 * 64" "64 + m = k + 3 * 64" and "k < 64" by simp_all
  then show "m div 64 = 2" "128 + m mod 64 = m" "(64 + m) div 64 = 3" "(64 + m) mod 64 = m mod 64"
    unfolding k by (simp_all only: mod_mult_self1 div_mult_self1) simp_all
qed

lemma utf8_of_byte_cont:
  assumes "n = 194 \<or> n = 195" "utf8_cont b" "of_char a = n"
  shows "utf8_of_byte ((n - 194) * 64 + of_char b) = [a, b]"
proof -
  have b: "128 \<le> (of_char b :: nat)" "(of_char b :: nat) < 192"
    using assms(2) by (simp_all add: utf8_cont_def Let_def)
  have "char_of n = a" using assms(3) char_of_char by metis
  moreover have "char_of (of_char b :: nat) = b" by simp
  ultimately show ?thesis
  proof (cases "n = 194")
    case True
    with b \<open>char_of n = a\<close> show ?thesis by (simp add: utf8_of_byte_def cont_div)
  next
    case False
    then have n: "n = 195" using assms(1) by simp
    with b \<open>char_of n = a\<close> show ?thesis by (simp add: utf8_of_byte_def cont_div)
  qed
qed

lemma latin1_of_utf8_sound:
  "latin1_of_utf8 s = Some bs \<Longrightarrow> utf8_of_latin1 bs = s \<and> list_all (\<lambda>b. b < 256) bs"
proof (induction s arbitrary: bs rule: latin1_of_utf8.induct)
  case 1
  then show ?case by simp
next
  case (2 a r)
  consider (ascii) "(of_char a :: nat) < 128" | (two) "of_char a = (194::nat) \<or> of_char a = (195::nat)"
    using "2.prems" by (auto simp: Let_def split: if_splits)
  then show ?case
  proof cases
    case ascii
    with "2.prems" obtain cs where "latin1_of_utf8 r = Some cs" "bs = of_char a # cs"
      by (auto simp: Let_def)
    with "2.IH"(1) ascii show ?thesis by (simp add: utf8_of_byte_def)
  next
    case two
    with "2.prems" obtain b r' cs where r: "r = b # r'" "utf8_cont b"
      and cs: "latin1_of_utf8 r' = Some cs" "bs = ((of_char a - 194) * 64 + of_char b) # cs"
      by (auto simp: Let_def split: list.splits if_splits)
    have "(of_char a - 194) * 64 + of_char b < (256::nat)"
      using two r(2) by (auto simp: utf8_cont_def Let_def)
    with two r cs "2.IH"(2) [OF refl _ _ r] utf8_of_byte_cont [OF two r(2) refl]
    show ?thesis by auto
  qed
qed

lemma latin1_of_utf8_ascii:
  "list_all is_ascii s \<Longrightarrow> latin1_of_utf8 s = Some (map of_char s)"
  by (induction s) (simp_all add: is_ascii_def Let_def)

definition btoa :: "string \<Rightarrow> string result" where
  "btoa s =
     (case latin1_of_utf8 s of
        None \<Rightarrow> Throw InvalidCharacter
      | Some bs \<Rightarrow> Return (b64_encode bs))"

definition atob :: "string \<Rightarrow> string result" where
  "atob s =
     (case b64_decode s of Inl e \<Rightarrow> Inl e | Inr bs \<Rightarrow> Return (utf8_of_latin1 bs))"

lemma atob_btoa: "btoa s = Return t \<Longrightarrow> atob t = Return s"
  by (auto simp: btoa_def atob_def b64_decode_encode dest: latin1_of_utf8_sound
      split: option.splits)

lemma btoa_ascii: "list_all is_ascii s \<Longrightarrow> btoa s = Return (b64_encode (map of_char s))"
  by (simp add: btoa_def latin1_of_utf8_ascii)

section \<open>Storage\<close>

text \<open>\<open>sessionStorage\<close> and \<open>localStorage\<close>: \<open>getItem\<close> is application, an absent key gives \<open>null\<close>.\<close>

type_synonym storage = "string \<rightharpoonup> string"

definition setItem :: "storage \<Rightarrow> string \<Rightarrow> string \<Rightarrow> storage" where
  "setItem st k v = st(k \<mapsto> v)"

definition removeItem :: "storage \<Rightarrow> string \<Rightarrow> storage" where
  "removeItem st k = st(k := None)"

lemma storage_simps [simp]:
  "setItem st k v k' = (if k' = k then Some v else st k')"
  "removeItem st k k' = (if k' = k then None else st k')"
  by (simp_all add: setItem_def removeItem_def)

end
