(* ===== verification/Console_Types.thy ===== *)
theory Console_Types
  imports Web_Platform
begin

text \<open>
  The objects the console exchanges with its backend, with the fields the modelled code reads,
  and the browser as the modelled code sees it. The backend serialises every string and boolean
  field of a provider, an application item or an account, so these fields are plain values;
  arrays come as \<open>null\<close> when empty and are optional.
\<close>

section \<open>Backend objects\<close>

record provider =
  pr_owner :: string
  pr_name :: string
  pr_displayName :: string
  pr_category :: string
  pr_type :: string
  pr_subType :: string
  pr_method :: string
  pr_clientId :: string
  pr_clientId2 :: string
  pr_customAuthUrl :: string
  pr_customLogo :: string
  pr_scopes :: string
  pr_domain :: string
  pr_appId :: string
  pr_signName :: string
  pr_disableSsl :: bool
  pr_enablePkce :: bool

definition empty_provider :: provider where
  "empty_provider =
     \<lparr>pr_owner = [], pr_name = [], pr_displayName = [], pr_category = [], pr_type = [],
      pr_subType = [], pr_method = [], pr_clientId = [], pr_clientId2 = [],
      pr_customAuthUrl = [], pr_customLogo = [], pr_scopes = [], pr_domain = [],
      pr_appId = [], pr_signName = [], pr_disableSsl = False, pr_enablePkce = False\<rparr>"

record provider_item =
  pi_name :: string
  pi_provider :: "provider option"
  pi_canSignUp :: bool
  pi_canSignIn :: bool
  pi_prompted :: bool
  pi_rule :: string

record signup_item =
  si_name :: string
  si_visible :: bool
  si_prompted :: bool

record signin_item =
  sn_name :: string
  sn_rule :: string

record signin_method =
  sm_name :: string
  sm_rule :: string

record mfa_item =
  mi_name :: string
  mi_rule :: string

record mfa_prop =
  mp_mfaType :: string
  mp_enabled :: bool
  mp_isPreferred :: bool

record organization =
  org_name :: string
  org_mfaItems :: "mfa_item list option"

text \<open>
  An account. The third-party links and the other properties that the code reads by a computed
  name (\<open>user[provider.type.toLowerCase()]\<close>, \<open>user["region"]\<close>) are the map \<open>ac_props\<close>.
\<close>

record account =
  ac_owner :: string
  ac_name :: string
  ac_id :: string
  ac_displayName :: string
  ac_firstName :: string
  ac_lastName :: string
  ac_affiliation :: string
  ac_isAdmin :: bool
  ac_props :: "string \<rightharpoonup> string"
  ac_mfaItems :: "mfa_item list option"
  ac_multiFactorAuths :: "mfa_prop list"

record application =
  app_owner :: string
  app_name :: string
  app_organization :: string
  app_isShared :: bool
  app_forcedRedirectOrigin :: string
  app_homepageUrl :: string
  app_signinUrl :: string
  app_signupUrl :: string
  app_forgetUrl :: string
  app_providers :: "provider_item list option"
  app_signupItems :: "signup_item list option"
  app_signinItems :: "signin_item list option"
  app_signinMethods :: "signin_method list option"

definition empty_account :: account where
  "empty_account =
     \<lparr>ac_owner = [], ac_name = [], ac_id = [], ac_displayName = [], ac_firstName = [],
      ac_lastName = [], ac_affiliation = [], ac_isAdmin = False, ac_props = Map.empty,
      ac_mfaItems = None, ac_multiFactorAuths = []\<rparr>"

definition empty_application :: application where
  "empty_application =
     \<lparr>app_owner = [], app_name = [], app_organization = [], app_isShared = False,
      app_forcedRedirectOrigin = [], app_homepageUrl = [], app_signinUrl = [],
      app_signupUrl = [], app_forgetUrl = [], app_providers = None, app_signupItems = None,
      app_signinItems = None, app_signinMethods = None\<rparr>"

section \<open>The browser\<close>

text \<open>What the code does to the outside world, in the order in which it does it.\<close>

datatype effect =
    Message string string                        \<comment> \<open>\<open>showMessage(type, text)\<close>\<close>
  | GoToLink string                              \<comment> \<open>\<open>window.location.href = link\<close>\<close>
  | ReplaceLocation string                       \<comment> \<open>\<open>window.location.replace(link)\<close>\<close>
  | OpenWindow string                            \<comment> \<open>\<open>window.open\<close> and its location\<close>
  | HistoryPush string                           \<comment> \<open>\<open>history.push(link)\<close>\<close>
  | SubmitForm string "(string \<times> string) list"   \<comment> \<open>a hidden form, posted\<close>
  | LoginSuccess string                          \<comment> \<open>\<open>props.onLoginSuccess(url)\<close>\<close>
  | SetStatus string bool                        \<comment> \<open>the message that a callback page shows\<close>
  | AskMfa "mfa_prop option"                      \<comment> \<open>the form that verifies a second factor\<close>
  | ReactFallback string                         \<comment> \<open>the static page hands over to the React page\<close>

record browser =
  br_origin :: string
  br_pathname :: string
  br_search :: string
  br_href :: string
  br_userAgent :: string
  br_session :: storage
  br_local :: storage
  br_effects :: "effect list"

definition emit :: "effect \<Rightarrow> browser \<Rightarrow> browser" where
  "emit e b = b\<lparr>br_effects := br_effects b @ [e]\<rparr>"

lemma emit_simps [simp]:
  "br_effects (emit e b) = br_effects b @ [e]"
  "br_session (emit e b) = br_session b"
  "br_local (emit e b) = br_local b"
  "br_origin (emit e b) = br_origin b"
  "br_pathname (emit e b) = br_pathname b"
  "br_search (emit e b) = br_search b"
  "br_href (emit e b) = br_href b"
  "br_userAgent (emit e b) = br_userAgent b"
  by (simp_all add: emit_def)

definition set_session :: "string \<Rightarrow> string \<Rightarrow> browser \<Rightarrow> browser" where
  "set_session k v b = b\<lparr>br_session := setItem (br_session b) k v\<rparr>"

definition set_local :: "string \<Rightarrow> string \<Rightarrow> browser \<Rightarrow> browser" where
  "set_local k v b = b\<lparr>br_local := setItem (br_local b) k v\<rparr>"

definition remove_local :: "string \<Rightarrow> browser \<Rightarrow> browser" where
  "remove_local k b = b\<lparr>br_local := removeItem (br_local b) k\<rparr>"

definition remove_session :: "string \<Rightarrow> browser \<Rightarrow> browser" where
  "remove_session k b = b\<lparr>br_session := removeItem (br_session b) k\<rparr>"

lemmas storage_ops = set_session_def set_local_def remove_local_def remove_session_def

text \<open>A browser at an address, with empty storages, for concrete runs.\<close>

definition fresh_browser :: "string \<Rightarrow> string \<Rightarrow> string \<Rightarrow> browser" where
  "fresh_browser origin path search =
     \<lparr>br_origin = origin, br_pathname = path, br_search = search,
      br_href = origin @ path @ search, br_userAgent = [], br_session = Map.empty,
      br_local = Map.empty, br_effects = []\<rparr>"

end
