(* ===== verification/Auth_Util.thy ===== *)
theory Auth_Util
  imports Console_Types
begin

text \<open>
  \<open>web/src/auth/Util.js\<close>: how the sign-in pages read the parameters of a CAS, OAuth or SAML
  request from the address, and how the request is packed into the \<open>state\<close> that travels through
  the identity provider and is unpacked by the callback page.
\<close>

section \<open>Reading parameters\<close>

type_synonym params = "(string \<times> string) list"

definition getRefinedValue :: "string option \<Rightarrow> string" where
  "getRefinedValue value = js_nullish value"

lemma getRefinedValue_simps [simp]:
  "getRefinedValue None = []"
  "getRefinedValue (Some v) = v"
  by (simp_all add: getRefinedValue_def)

record cas_params =
  cas_service :: string
  cas_renew :: string
  cas_gateway :: string

definition queries_of :: "browser \<Rightarrow> params option \<Rightarrow> params" where
  "queries_of b ps = (case ps of Some q \<Rightarrow> q | None \<Rightarrow> URLSearchParams (br_search b))"

definition getCasParameters :: "browser \<Rightarrow> params option \<Rightarrow> cas_params" where
  "getCasParameters b ps =
     (let queries = queries_of b ps in
      \<lparr>cas_service = getRefinedValue (usp_get queries ''service''),
       cas_renew = getRefinedValue (usp_get queries ''renew''),
       cas_gateway = getRefinedValue (usp_get queries ''gateway'')\<rparr>)"

text \<open>
  The text after the first \<open>key=\<close> of an address, up to the next \<open>&\<close>, decoded. The search for
  \<open>key=\<close> does not look at parameter boundaries.
\<close>

definition raw_parameter :: "string \<Rightarrow> string \<Rightarrow> string result" where
  "raw_parameter key source =
     (case js_split source (key @ ''='') of
        _ # token # _ \<Rightarrow>
          if token = [] then Return []
          else (case js_split token ''&'' of
                  res # _ \<Rightarrow> if res = [] then Return [] else decodeURIComponent res
                | [] \<Rightarrow> Return [])
      | _ \<Rightarrow> Return [])"

definition getRawGetParameter :: "browser \<Rightarrow> string \<Rightarrow> string result" where
  "getRawGetParameter b key = raw_parameter key (br_href b)"

record cas_login_params =
  cl_id :: string
  cl_service :: string
  cl_type :: string

definition getCasLoginParameters ::
  "browser \<Rightarrow> string \<Rightarrow> string \<Rightarrow> cas_login_params result" where
  "getCasLoginParameters b owner name =
     (let queries = URLSearchParams (br_search b) in
      bind_result (getRawGetParameter b ''service'') (\<lambda>raw.
      let service = (if raw = [] then getRefinedValue (usp_get queries ''service'') else raw) in
      Return \<lparr>cl_id = owner @ ''/'' @ encodeURIComponent name,
              cl_service = service, cl_type = ''cas''\<rparr>))"

record oauth_params =
  oa_clientId :: string
  oa_responseType :: string
  oa_redirectUri :: string
  oa_scope :: string
  oa_state :: string
  oa_nonce :: string
  oa_challengeMethod :: string
  oa_codeChallenge :: string
  oa_responseMode :: string
  oa_samlRequest :: string
  oa_relayState :: string
  oa_noRedirect :: string
  oa_resource :: string
  oa_type :: string

definition getOAuthGetParameters ::
  "browser \<Rightarrow> params option \<Rightarrow> oauth_params option result" where
  "getOAuthGetParameters b ps =
     (let queries = queries_of b ps;
          lowercaseQueries = usp_lower queries;
          get = (\<lambda>k. getRefinedValue (usp_get queries k));
          clientId = get ''client_id'';
          responseType = get ''response_type'' in
      bind_result (getRawGetParameter b ''redirect_uri'') (\<lambda>rawRedirect.
      let redirectUri = (if rawRedirect = [] then get ''redirect_uri'' else rawRedirect);
          inFragment = js_includes redirectUri ''#'' in
      bind_result
        (if inFragment \<and> get ''scope'' = [] then getRawGetParameter b ''scope''
         else Return (get ''scope'')) (\<lambda>scope.
      bind_result
        (if inFragment \<and> get ''state'' = [] then getRawGetParameter b ''state''
         else Return (get ''state'')) (\<lambda>state.
      let samlRequest = getRefinedValue (lowercaseQueries ''samlrequest'');
          relayState = getRefinedValue (lowercaseQueries ''relaystate'');
          noRedirect = getRefinedValue (lowercaseQueries ''noredirect'') in
      if clientId = [] \<and> samlRequest = [] then Return None
      else Return (Some
        \<lparr>oa_clientId = clientId, oa_responseType = responseType, oa_redirectUri = redirectUri,
         oa_scope = scope, oa_state = state, oa_nonce = get ''nonce'',
         oa_challengeMethod = get ''code_challenge_method'',
         oa_codeChallenge = get ''code_challenge'', oa_responseMode = get ''response_mode'',
         oa_samlRequest = samlRequest, oa_relayState = relayState, oa_noRedirect = noRedirect,
         oa_resource = get ''resource'', oa_type = ''code''\<rparr>)))))"

section \<open>Packing the request into the state\<close>

definition stateQuery :: "browser \<Rightarrow> string \<Rightarrow> string \<Rightarrow> string \<Rightarrow> string" where
  "stateQuery b applicationName providerName method =
     (let query = br_search b @ ''&application='' @ encodeURIComponent applicationName
            @ ''&provider='' @ encodeURIComponent providerName @ ''&method='' @ method in
      if method = ''link'' then query @ ''&from='' @ br_pathname b else query)"

definition getStateFromQueryParams ::
  "browser \<Rightarrow> string \<Rightarrow> string \<Rightarrow> string \<Rightarrow> bool \<Rightarrow> (string \<times> browser) result" where
  "getStateFromQueryParams b applicationName providerName method isShortState =
     (let query = stateQuery b applicationName providerName method in
      if \<not> isShortState then bind_result (btoa query) (\<lambda>st. Return (st, b))
      else Return (providerName, set_session providerName query b))"

definition getQueryParamsFromState :: "browser \<Rightarrow> string \<Rightarrow> string result" where
  "getQueryParamsFromState b st =
     (case br_session b st of None \<Rightarrow> atob st | Some query \<Rightarrow> Return query)"

section \<open>Properties of the state\<close>

text \<open>
  The address of a page is ASCII: the browser percent-encodes everything else in a path or a
  query. The \<open>method\<close> is one of the literals the pages pass.
\<close>

definition ascii_location :: "browser \<Rightarrow> bool" where
  "ascii_location b = (list_all is_ascii (br_search b) \<and> list_all is_ascii (br_pathname b))"

lemma stateQuery_ascii:
  "ascii_location b \<Longrightarrow> list_all is_ascii method \<Longrightarrow> list_all is_ascii (stateQuery b a p method)"
  using encodeURIComponent_ascii [of a] encodeURIComponent_ascii [of p]
  by (simp add: stateQuery_def ascii_location_def Let_def is_ascii_def)

lemma getState_long:
  assumes "ascii_location b" "list_all is_ascii method"
  shows "getStateFromQueryParams b a p method False =
           Return (b64_encode (map of_char (stateQuery b a p method)), b)"
  using btoa_ascii [OF stateQuery_ascii [OF assms]]
  by (simp add: getStateFromQueryParams_def)

text \<open>Whatever form the state has, the query comes back from it.\<close>

lemma getQueryParams_getState:
  assumes st: "getStateFromQueryParams b a p method short = Return (st, b')"
    and fresh: "\<not> short \<Longrightarrow> br_session b st = None"
  shows "getQueryParamsFromState b' st = Return (stateQuery b a p method)"
proof (cases short)
  case True
  with st show ?thesis
    by (auto simp: getStateFromQueryParams_def getQueryParamsFromState_def storage_ops)
next
  case False
  let ?q = "stateQuery b a p method"
  from False st have eq: "bind_result (btoa ?q) (\<lambda>x. Return (x, b)) = Return (st, b')"
    by (simp add: getStateFromQueryParams_def)
  obtain x where x: "btoa ?q = Return x"
    using eq by (cases "btoa ?q") simp_all
  with eq have "x = st" and "b' = b" by simp_all
  with x have "atob st = Return ?q" by (simp add: atob_btoa)
  with fresh False \<open>b' = b\<close> show ?thesis
    by (simp add: getQueryParamsFromState_def)
qed

text \<open>The parameters the callback page then reads.\<close>

definition fromParams :: "browser \<Rightarrow> string \<Rightarrow> params" where
  "fromParams b method =
     (if method = ''link'' then parse_pairs (''from='' @ br_pathname b) else [])"

lemma parse_pairs_key:
  assumes "CHR ''&'' \<notin> set v" "CHR ''&'' \<notin> set k" "CHR ''='' \<notin> set k" "form_decode k = k"
  shows "parse_pairs (k @ CHR ''='' # v) = [(k, form_decode v)]"
  using parse_pairs_single [OF assms(2,3,1)] assms(4) by simp

lemma URLSearchParams_stateQuery:
  assumes m: "CHR ''&'' \<notin> set method" "form_decode method = method"
  shows "URLSearchParams (stateQuery b a p method) =
           URLSearchParams (br_search b)
           @ [(''application'', a), (''provider'', p), (''method'', method)] @ fromParams b method"
proof -
  let ?ap = "''application='' @ encodeURIComponent a"
  let ?pr = "''provider='' @ encodeURIComponent p"
  let ?me = "''method='' @ method"
  have ap: "parse_pairs ?ap = [(''application'', a)]"
    using parse_pairs_encoded [of "''application''" a] by simp
  have pr: "parse_pairs ?pr = [(''provider'', p)]"
    using parse_pairs_encoded [of "''provider''" p] by simp
  have me: "parse_pairs ?me = [(''method'', method)]"
    using parse_pairs_key [of "method" "''method''"] m by simp
  have tail: "URLSearchParams (br_search b @ CHR ''&'' # ?ap @ CHR ''&'' # ?pr @ CHR ''&'' # t)
      = URLSearchParams (br_search b) @ [(''application'', a), (''provider'', p)] @ parse_pairs t" for t
    using parse_pairs_append [of ?ap] parse_pairs_append [of ?pr]
    by (simp only: URLSearchParams_append ap pr) simp
  show ?thesis
  proof (cases "method = ''link''")
    case True
    have "parse_pairs (''method=link'' @ CHR ''&'' # ''from='' @ br_pathname b)
        = [(''method'', ''link'')] @ parse_pairs (''from='' @ br_pathname b)"
      using parse_pairs_append [of "''method=link''"] me True by simp
    with True tail [of "''method=link'' @ CHR ''&'' # ''from='' @ br_pathname b"] show ?thesis
      by (simp add: stateQuery_def fromParams_def)
  next
    case False
    with me tail [of ?me] show ?thesis
      by (simp add: stateQuery_def fromParams_def)
  qed
qed

end
