(* ===== verification/Provider_Catalogue.thy ===== *)
theory Provider_Catalogue
  imports Console_Types
begin

text \<open>
  The catalogue of providers in \<open>web/src/Setting.js\<close>: the types the editor offers for a category
  (\<open>getProviderTypeOptions\<close>), the logo and home page of the types that are not OAuth
  (\<open>OtherProviderInfo\<close>) and the logo of a provider (\<open>getProviderLogoURL\<close>). The host of the static
  files, \<open>StaticBaseUrl\<close>, is configured at run time and is the parameter \<open>base\<close>.
\<close>

section \<open>The types of a category\<close>

record type_option =
  to_id :: string
  to_name :: string

definition opt :: "string \<Rightarrow> string \<Rightarrow> type_option" where
  "opt i n = \<lparr>to_id = i, to_name = n\<rparr>"

lemma opt_sel [simp]: "to_id (opt i n) = i" "to_name (opt i n) = n"
  by (simp_all add: opt_def)

definition typeOptions_OAuth :: "type_option list" where
  "typeOptions_OAuth = [
     opt ''Google'' ''Google'',
     opt ''GitHub'' ''GitHub'',
     opt ''QQ'' ''QQ'',
     opt ''WeChat'' ''WeChat'',
     opt ''WeChatMiniProgram'' ''WeChat Mini Program'',
     opt ''Facebook'' ''Facebook'',
     opt ''DingTalk'' ''DingTalk'',
     opt ''Weibo'' ''Weibo'',
     opt ''Gitee'' ''Gitee'',
     opt ''LinkedIn'' ''LinkedIn'',
     opt ''WeCom'' ''WeCom'',
     opt ''Lark'' ''Lark'',
     opt ''GitLab'' ''GitLab'',
     opt ''ADFS'' ''ADFS'',
     opt ''Baidu'' ''Baidu'',
     opt ''Alipay'' ''Alipay'',
     opt ''Casdoor'' ''Casdoor'',
     opt ''Infoflow'' ''Infoflow'',
     opt ''Apple'' ''Apple'',
     opt ''AzureAD'' ''Azure AD'',
     opt ''AzureADB2C'' ''Azure AD B2C'',
     opt ''Slack'' ''Slack'',
     opt ''Steam'' ''Steam'',
     opt ''Bilibili'' ''Bilibili'',
     opt ''Okta'' ''Okta'',
     opt ''Douyin'' ''Douyin'',
     opt ''Kwai'' ''Kwai'',
     opt ''Line'' ''Line'',
     opt ''Amazon'' ''Amazon'',
     opt ''Auth0'' ''Auth0'',
     opt ''BattleNet'' ''Battle.net'',
     opt ''Bitbucket'' ''Bitbucket'',
     opt ''Box'' ''Box'',
     opt ''CloudFoundry'' ''Cloud Foundry'',
     opt ''Dailymotion'' ''Dailymotion'',
     opt ''Deezer'' ''Deezer'',
     opt ''DigitalOcean'' ''DigitalOcean'',
     opt ''Discord'' ''Discord'',
     opt ''Dropbox'' ''Dropbox'',
     opt ''EveOnline'' ''Eve Online'',
     opt ''Fitbit'' ''Fitbit'',
     opt ''Gitea'' ''Gitea'',
     opt ''Heroku'' ''Heroku'',
     opt ''InfluxCloud'' ''InfluxCloud'',
     opt ''Instagram'' ''Instagram'',
     opt ''Intercom'' ''Intercom'',
     opt ''Kakao'' ''Kakao'',
     opt ''Lastfm'' ''Lastfm'',
     opt ''Mailru'' ''Mailru'',
     opt ''Meetup'' ''Meetup'',
     opt ''MicrosoftOnline'' ''MicrosoftOnline'',
     opt ''Naver'' ''Naver'',
     opt ''Nextcloud'' ''Nextcloud'',
     opt ''OneDrive'' ''OneDrive'',
     opt ''Oura'' ''Oura'',
     opt ''Patreon'' ''Patreon'',
     opt ''PayPal'' ''PayPal'',
     opt ''SalesForce'' ''SalesForce'',
     opt ''Shopify'' ''Shopify'',
     opt ''Soundcloud'' ''Soundcloud'',
     opt ''Spotify'' ''Spotify'',
     opt ''Strava'' ''Strava'',
     opt ''Stripe'' ''Stripe'',
     opt ''Telegram'' ''Telegram'',
     opt ''TikTok'' ''TikTok'',
     opt ''Tumblr'' ''Tumblr'',
     opt ''Twitch'' ''Twitch'',
     opt ''Twitter'' ''Twitter'',
     opt ''Typetalk'' ''Typetalk'',
     opt ''Uber'' ''Uber'',
     opt ''VK'' ''VK'',
     opt ''Wepay'' ''Wepay'',
     opt ''Xero'' ''Xero'',
     opt ''Yahoo'' ''Yahoo'',
     opt ''Yammer'' ''Yammer'',
     opt ''Yandex'' ''Yandex'',
     opt ''Zoom'' ''Zoom'',
     opt ''Custom'' ''Custom'',
     opt ''Custom2'' ''Custom2'',
     opt ''Custom3'' ''Custom3'',
     opt ''Custom4'' ''Custom4'',
     opt ''Custom5'' ''Custom5'',
     opt ''Custom6'' ''Custom6'',
     opt ''Custom7'' ''Custom7'',
     opt ''Custom8'' ''Custom8'',
     opt ''Custom9'' ''Custom9'',
     opt ''Custom10'' ''Custom10'',
     opt ''Custom Flexible'' ''Custom Flexible'']"

definition typeOptions_Email :: "type_option list" where
  "typeOptions_Email = [
     opt ''Default'' ''Default'',
     opt ''SUBMAIL'' ''SUBMAIL'',
     opt ''Mailtrap'' ''Mailtrap'',
     opt ''Azure ACS'' ''Azure ACS'',
     opt ''SendGrid'' ''SendGrid'',
     opt ''Custom HTTP Email'' ''Custom HTTP Email'',
     opt ''Resend'' ''Resend'']"

definition typeOptions_SMS :: "type_option list" where
  "typeOptions_SMS = [
     opt ''Aliyun SMS'' ''Alibaba Cloud SMS'',
     opt ''Alibaba Cloud PNVS SMS'' ''Alibaba Cloud PNVS SMS'',
     opt ''Amazon SNS'' ''Amazon SNS'',
     opt ''Azure ACS'' ''Azure ACS'',
     opt ''Custom HTTP SMS'' ''Custom HTTP SMS'',
     opt ''Mock SMS'' ''Mock SMS'',
     opt ''OSON SMS'' ''OSON SMS'',
     opt ''Infobip SMS'' ''Infobip SMS'',
     opt ''Tencent Cloud SMS'' ''Tencent Cloud SMS'',
     opt ''Baidu Cloud SMS'' ''Baidu Cloud SMS'',
     opt ''Volc Engine SMS'' ''Volc Engine SMS'',
     opt ''Huawei Cloud SMS'' ''Huawei Cloud SMS'',
     opt ''UCloud SMS'' ''UCloud SMS'',
     opt ''Twilio SMS'' ''Twilio SMS'',
     opt ''SmsBao SMS'' ''SmsBao SMS'',
     opt ''SUBMAIL SMS'' ''SUBMAIL SMS'',
     opt ''Msg91 SMS'' ''Msg91 SMS'']"

definition typeOptions_Storage :: "type_option list" where
  "typeOptions_Storage = [
     opt ''Local File System'' ''Local File System'',
     opt ''AWS S3'' ''AWS S3'',
     opt ''MinIO'' ''MinIO'',
     opt ''Aliyun OSS'' ''Alibaba Cloud OSS'',
     opt ''Tencent Cloud COS'' ''Tencent Cloud COS'',
     opt ''Azure Blob'' ''Azure Blob'',
     opt ''Qiniu Cloud Kodo'' ''Qiniu Cloud Kodo'',
     opt ''Google Cloud Storage'' ''Google Cloud Storage'',
     opt ''Synology'' ''Synology'',
     opt ''Casdoor'' ''Built-in'',
     opt ''CUCloud OSS'' ''CUCloud OSS'']"

definition typeOptions_SAML :: "type_option list" where
  "typeOptions_SAML = [
     opt ''Aliyun IDaaS'' ''Aliyun IDaaS'',
     opt ''Keycloak'' ''Keycloak'',
     opt ''Custom'' ''Custom'',
     opt ''Custom Flexible'' ''Custom Flexible'']"

definition typeOptions_Payment :: "type_option list" where
  "typeOptions_Payment = [
     opt ''Dummy'' ''Dummy'',
     opt ''Balance'' ''Balance'',
     opt ''Alipay'' ''Alipay'',
     opt ''WeChat Pay'' ''WeChat Pay'',
     opt ''PayPal'' ''PayPal'',
     opt ''Stripe'' ''Stripe'',
     opt ''AirWallex'' ''AirWallex'',
     opt ''GC'' ''GC'',
     opt ''Polar'' ''Polar'',
     opt ''Paddle'' ''Paddle'',
     opt ''FastSpring'' ''FastSpring'',
     opt ''Lemon Squeezy'' ''Lemon Squeezy'',
     opt ''Adyen'' ''Adyen'']"

definition typeOptions_Captcha :: "type_option list" where
  "typeOptions_Captcha = [
     opt ''Default'' ''Default'',
     opt ''reCAPTCHA v2'' ''reCAPTCHA v2'',
     opt ''reCAPTCHA v3'' ''reCAPTCHA v3'',
     opt ''hCaptcha'' ''hCaptcha'',
     opt ''Aliyun Captcha'' ''Aliyun Captcha'',
     opt ''GEETEST'' ''GEETEST'',
     opt ''Cloudflare Turnstile'' ''Cloudflare Turnstile'']"

definition typeOptions_Web3 :: "type_option list" where
  "typeOptions_Web3 = [
     opt ''MetaMask'' ''MetaMask'',
     opt ''Web3Onboard'' ''Web3-Onboard'']"

definition typeOptions_Notification :: "type_option list" where
  "typeOptions_Notification = [
     opt ''Telegram'' ''Telegram'',
     opt ''Custom HTTP'' ''Custom HTTP'',
     opt ''DingTalk'' ''DingTalk'',
     opt ''Lark'' ''Lark'',
     opt ''Microsoft Teams'' ''Microsoft Teams'',
     opt ''Bark'' ''Bark'',
     opt ''Pushover'' ''Pushover'',
     opt ''Pushbullet'' ''Pushbullet'',
     opt ''Slack'' ''Slack'',
     opt ''Webpush'' ''Webpush'',
     opt ''Discord'' ''Discord'',
     opt ''Google Chat'' ''Google Chat'',
     opt ''Line'' ''Line'',
     opt ''Matrix'' ''Matrix'',
     opt ''Twitter'' ''Twitter'',
     opt ''Reddit'' ''Reddit'',
     opt ''Rocket Chat'' ''Rocket Chat'',
     opt ''Viber'' ''Viber'',
     opt ''CUCloud'' ''CUCloud'',
     opt ''WeCom'' ''WeCom'']"

definition typeOptions_FaceID :: "type_option list" where
  "typeOptions_FaceID = [
     opt ''Alibaba Cloud Facebody'' ''Alibaba Cloud Facebody'',
     opt ''Local UniFace'' ''Local UniFace'']"

definition typeOptions_MFA :: "type_option list" where
  "typeOptions_MFA = [
     opt ''RADIUS'' ''RADIUS'']"

definition typeOptions_IDVerification :: "type_option list" where
  "typeOptions_IDVerification = [
     opt ''Jumio'' ''Jumio'',
     opt ''Alibaba Cloud'' ''Alibaba Cloud'']"

definition typeOptions_Log :: "type_option list" where
  "typeOptions_Log = [
     opt ''Casdoor Permission Log'' ''Permission Log'',
     opt ''System Log'' ''System Log'',
     opt ''Agent'' ''Agent'',
     opt ''SELinux Log'' ''SELinux Log'']"

definition typeOptions_Scan :: "type_option list" where
  "typeOptions_Scan = [
     opt ''Security Scan'' ''Security Scan'',
     opt ''MCP Scan'' ''MCP Scan'']"

definition getProviderTypeOptions :: "string \<Rightarrow> type_option list" where
  "getProviderTypeOptions category =
     (if category = ''OAuth'' then typeOptions_OAuth
      else if category = ''Email'' then typeOptions_Email
      else if category = ''SMS'' then typeOptions_SMS
      else if category = ''Storage'' then typeOptions_Storage
      else if category = ''SAML'' then typeOptions_SAML
      else if category = ''Payment'' then typeOptions_Payment
      else if category = ''Captcha'' then typeOptions_Captcha
      else if category = ''Web3'' then typeOptions_Web3
      else if category = ''Notification'' then typeOptions_Notification
      else if category = ''Face ID'' then typeOptions_FaceID
      else if category = ''MFA'' then typeOptions_MFA
      else if category = ''ID Verification'' then typeOptions_IDVerification
      else if category = ''Log'' then typeOptions_Log
      else if category = ''Scan'' then typeOptions_Scan
      else [])"

section \<open>Logos and home pages\<close>

record provider_info =
  in_logo :: string
  in_url :: string

definition mk_pinfo :: "string \<Rightarrow> string \<Rightarrow> provider_info" where
  "mk_pinfo l u = \<lparr>in_logo = l, in_url = u\<rparr>"

lemma mk_pinfo_sel [simp]: "in_logo (mk_pinfo l u) = l" "in_url (mk_pinfo l u) = u"
  by (simp_all add: mk_pinfo_def)

definition otherInfo_SMS :: "string \<Rightarrow> (string \<times> provider_info) list" where
  "otherInfo_SMS base = [
     (''Aliyun SMS'', mk_pinfo (base @ ''/img/social_aliyun.png'') ''https://aliyun.com/product/sms''),
     (''Amazon SNS'', mk_pinfo (base @ ''/img/social_aws.png'') ''https://aws.amazon.com/cn/sns/''),
     (''Azure ACS'', mk_pinfo (base @ ''/img/social_azure.png'') ''https://azure.microsoft.com/en-us/products/communication-services''),
     (''Infobip SMS'', mk_pinfo (base @ ''/img/social_infobip.png'') ''https://portal.infobip.com/homepage/''),
     (''Tencent Cloud SMS'', mk_pinfo (base @ ''/img/social_tencent_cloud.jpg'') ''https://cloud.tencent.com/product/sms''),
     (''Baidu Cloud SMS'', mk_pinfo (base @ ''/img/social_baidu_cloud.png'') ''https://cloud.baidu.com/product/sms.html''),
     (''Volc Engine SMS'', mk_pinfo (base @ ''/img/social_volc_engine.jpg'') ''https://www.volcengine.com/products/cloud-sms''),
     (''Huawei Cloud SMS'', mk_pinfo (base @ ''/img/social_huawei.png'') ''https://www.huaweicloud.com/product/msgsms.html''),
     (''UCloud SMS'', mk_pinfo (base @ ''/img/social_ucloud.png'') ''https://www.ucloud.cn/site/product/usms.html''),
     (''Twilio SMS'', mk_pinfo (base @ ''/img/social_twilio.svg'') ''https://www.twilio.com/messaging''),
     (''SmsBao SMS'', mk_pinfo (base @ ''/img/social_smsbao.png'') ''https://www.smsbao.com/''),
     (''SUBMAIL SMS'', mk_pinfo (base @ ''/img/social_submail.svg'') ''https://www.mysubmail.com''),
     (''Msg91 SMS'', mk_pinfo (base @ ''/img/social_msg91.ico'') ''https://control.msg91.com/app/''),
     (''OSON SMS'', mk_pinfo (base @ ''/img/social_osonsms.svg'') ''https://osonsms.com/''),
     (''Custom HTTP SMS'', mk_pinfo (base @ ''/img/social_default.png'') []),
     (''Mock SMS'', mk_pinfo (base @ ''/img/social_default.png'') [])]"

definition otherInfo_Email :: "string \<Rightarrow> (string \<times> provider_info) list" where
  "otherInfo_Email base = [
     (''Default'', mk_pinfo (base @ ''/img/email_default.png'') []),
     (''SUBMAIL'', mk_pinfo (base @ ''/img/social_submail.svg'') ''https://www.mysubmail.com''),
     (''Mailtrap'', mk_pinfo (base @ ''/img/email_mailtrap.png'') ''https://mailtrap.io''),
     (''Azure ACS'', mk_pinfo (base @ ''/img/social_azure.png'') ''https://learn.microsoft.com/zh-cn/azure/communication-services''),
     (''SendGrid'', mk_pinfo (base @ ''/img/email_sendgrid.png'') ''https://sendgrid.com/''),
     (''Custom HTTP Email'', mk_pinfo (base @ ''/img/social_default.png'') []),
     (''Resend'', mk_pinfo (base @ ''/img/email_resend.png'') ''https://resend.com/'')]"

definition otherInfo_Storage :: "string \<Rightarrow> (string \<times> provider_info) list" where
  "otherInfo_Storage base = [
     (''Local File System'', mk_pinfo (base @ ''/img/social_file.png'') []),
     (''AWS S3'', mk_pinfo (base @ ''/img/social_aws.png'') ''https://aws.amazon.com/s3''),
     (''MinIO'', mk_pinfo (base @ ''/img/social_minio.png'') ''https://min.io/''),
     (''Aliyun OSS'', mk_pinfo (base @ ''/img/social_aliyun.png'') ''https://aliyun.com/product/oss''),
     (''Tencent Cloud COS'', mk_pinfo (base @ ''/img/social_tencent_cloud.jpg'') ''https://cloud.tencent.com/product/cos''),
     (''Azure Blob'', mk_pinfo (base @ ''/img/social_azure.png'') ''https://azure.microsoft.com/en-us/services/storage/blobs/''),
     (''Qiniu Cloud Kodo'', mk_pinfo (base @ ''/img/social_qiniu_cloud.png'') ''https://www.qiniu.com/solutions/storage''),
     (''Google Cloud Storage'', mk_pinfo (base @ ''/img/social_google_cloud.png'') ''https://cloud.google.com/storage''),
     (''Synology'', mk_pinfo (base @ ''/img/social_synology.png'') ''https://www.synology.com/en-global/dsm/feature/file_sharing''),
     (''Casdoor'', mk_pinfo (''/img/archguard-icon.png'') []),
     (''CUCloud OSS'', mk_pinfo (base @ ''/img/social_cucloud.png'') ''https://www.cucloud.cn/product/oss.html'')]"

definition otherInfo_SAML :: "string \<Rightarrow> (string \<times> provider_info) list" where
  "otherInfo_SAML base = [
     (''Aliyun IDaaS'', mk_pinfo (base @ ''/img/social_aliyun.png'') ''https://aliyun.com/product/idaas''),
     (''Keycloak'', mk_pinfo (base @ ''/img/social_keycloak.png'') ''https://www.keycloak.org/''),
     (''Custom'', mk_pinfo (base @ ''/img/social_custom.png'') ''https://door.casdoor.com/''),
     (''Custom Flexible'', mk_pinfo (base @ ''/img/social_custom.png'') ''https://door.casdoor.com/'')]"

definition otherInfo_Payment :: "string \<Rightarrow> (string \<times> provider_info) list" where
  "otherInfo_Payment base = [
     (''Dummy'', mk_pinfo (base @ ''/img/payment_paypal.png'') []),
     (''Balance'', mk_pinfo (base @ ''/img/payment_balance.svg'') []),
     (''Alipay'', mk_pinfo (base @ ''/img/payment_alipay.png'') ''https://www.alipay.com/''),
     (''WeChat Pay'', mk_pinfo (base @ ''/img/payment_wechat_pay.png'') ''https://pay.weixin.qq.com/''),
     (''PayPal'', mk_pinfo (base @ ''/img/payment_paypal.png'') ''https://www.paypal.com/''),
     (''Stripe'', mk_pinfo (base @ ''/img/social_stripe.png'') ''https://stripe.com/''),
     (''AirWallex'', mk_pinfo (base @ ''/img/payment_airwallex.svg'') ''https://airwallex.com/''),
     (''GC'', mk_pinfo (base @ ''/img/payment_gc.png'') ''https://gc.org''),
     (''Polar'', mk_pinfo (base @ ''/img/payment_polar.png'') ''https://polar.sh/''),
     (''Paddle'', mk_pinfo (base @ ''/img/payment_paddle.png'') ''https://www.paddle.com/''),
     (''FastSpring'', mk_pinfo (base @ ''/img/payment_fastspring.png'') ''https://fastspring.com/''),
     (''Lemon Squeezy'', mk_pinfo (base @ ''/img/payment_lemonsqueezy.jpg'') ''https://www.lemonsqueezy.com/''),
     (''Adyen'', mk_pinfo (base @ ''/img/payment_adyen.svg'') ''https://www.adyen.com/'')]"

definition otherInfo_Captcha :: "string \<Rightarrow> (string \<times> provider_info) list" where
  "otherInfo_Captcha base = [
     (''Default'', mk_pinfo (base @ ''/img/captcha_default.png'') ''https://pkg.go.dev/github.com/dchest/captcha''),
     (''reCAPTCHA'', mk_pinfo (base @ ''/img/social_recaptcha.png'') ''https://www.google.com/recaptcha''),
     (''reCAPTCHA v2'', mk_pinfo (base @ ''/img/social_recaptcha.png'') ''https://www.google.com/recaptcha''),
     (''reCAPTCHA v3'', mk_pinfo (base @ ''/img/social_recaptcha.png'') ''https://www.google.com/recaptcha''),
     (''hCaptcha'', mk_pinfo (base @ ''/img/social_hcaptcha.png'') ''https://www.hcaptcha.com''),
     (''Aliyun Captcha'', mk_pinfo (base @ ''/img/social_aliyun.png'') ''https://help.aliyun.com/product/28308.html''),
     (''GEETEST'', mk_pinfo (base @ ''/img/social_geetest.png'') ''https://www.geetest.com''),
     (''Cloudflare Turnstile'', mk_pinfo (base @ ''/img/social_cloudflare.png'') ''https://www.cloudflare.com/products/turnstile/'')]"

definition otherInfo_AI :: "string \<Rightarrow> (string \<times> provider_info) list" where
  "otherInfo_AI base = [
     (''OpenAI API - GPT'', mk_pinfo (base @ ''/img/social_openai.svg'') ''https://platform.openai.com'')]"

definition otherInfo_Web3 :: "string \<Rightarrow> (string \<times> provider_info) list" where
  "otherInfo_Web3 base = [
     (''MetaMask'', mk_pinfo (base @ ''/img/social_metamask.svg'') ''https://metamask.io/''),
     (''Web3Onboard'', mk_pinfo (base @ ''/img/social_web3onboard.svg'') ''https://onboard.blocknative.com/'')]"

definition otherInfo_Notification :: "string \<Rightarrow> (string \<times> provider_info) list" where
  "otherInfo_Notification base = [
     (''Telegram'', mk_pinfo (base @ ''/img/social_telegram.png'') ''https://telegram.org/''),
     (''Custom HTTP'', mk_pinfo (base @ ''/img/email_default.png'') []),
     (''DingTalk'', mk_pinfo (base @ ''/img/social_dingtalk.png'') ''https://www.dingtalk.com/''),
     (''Lark'', mk_pinfo (base @ ''/img/social_lark.png'') ''https://www.larksuite.com/''),
     (''Microsoft Teams'', mk_pinfo (base @ ''/img/social_teams.png'') ''https://www.microsoft.com/microsoft-teams''),
     (''Bark'', mk_pinfo (base @ ''/img/social_bark.png'') ''https://apps.apple.com/us/app/bark-customed-notifications/id1403753865''),
     (''Pushover'', mk_pinfo (base @ ''/img/social_pushover.png'') ''https://pushover.net/''),
     (''Pushbullet'', mk_pinfo (base @ ''/img/social_pushbullet.png'') ''https://www.pushbullet.com/''),
     (''Slack'', mk_pinfo (base @ ''/img/social_slack.png'') ''https://slack.com/''),
     (''Webpush'', mk_pinfo (base @ ''/img/email_default.png'') ''https://developer.mozilla.org/en-US/docs/Web/API/Push_API''),
     (''Discord'', mk_pinfo (base @ ''/img/social_discord.png'') ''https://discord.com/''),
     (''Google Chat'', mk_pinfo (base @ ''/img/social_google_chat.png'') ''https://workspace.google.com/intl/en/products/chat/''),
     (''Line'', mk_pinfo (base @ ''/img/social_line.png'') ''https://line.me/''),
     (''Matrix'', mk_pinfo (base @ ''/img/social_matrix.png'') ''https://www.matrix.org/''),
     (''Twitter'', mk_pinfo (base @ ''/img/social_twitter.png'') ''https://twitter.com/''),
     (''Reddit'', mk_pinfo (base @ ''/img/social_reddit.png'') ''https://www.reddit.com/''),
     (''Rocket Chat'', mk_pinfo (base @ ''/img/social_rocket_chat.png'') ''https://rocket.chat/''),
     (''Viber'', mk_pinfo (base @ ''/img/social_viber.png'') ''https://www.viber.com/''),
     (''CUCloud'', mk_pinfo (base @ ''/img/cucloud.png'') ''https://www.cucloud.cn/''),
     (''WeCom'', mk_pinfo (base @ ''/img/social_wecom.png'') ''https://work.weixin.qq.com/'')]"

definition otherInfo_FaceID :: "string \<Rightarrow> (string \<times> provider_info) list" where
  "otherInfo_FaceID base = [
     (''Alibaba Cloud Facebody'', mk_pinfo (base @ ''/img/social_aliyun.png'') ''https://vision.aliyun.com/facebody''),
     (''Local UniFace'', mk_pinfo (base @ ''/img/social_default.png'') ''https://github.com/yakhyo/uniface'')]"

definition otherInfo_MFA :: "string \<Rightarrow> (string \<times> provider_info) list" where
  "otherInfo_MFA base = [
     (''RADIUS'', mk_pinfo (base @ ''/img/mfa_radius.png'') [])]"

definition otherInfo_IDVerification :: "string \<Rightarrow> (string \<times> provider_info) list" where
  "otherInfo_IDVerification base = [
     (''Jumio'', mk_pinfo (base @ ''/img/social_jumio.png'') ''https://www.jumio.com/''),
     (''Alibaba Cloud'', mk_pinfo (base @ ''/img/social_aliyun.png'') ''https://www.aliyun.com/product/idverification'')]"

definition otherInfo_Log :: "string \<Rightarrow> (string \<times> provider_info) list" where
  "otherInfo_Log base = [
     (''Casdoor Permission Log'', mk_pinfo (base @ ''/img/social_default.png'') []),
     (''System Log'', mk_pinfo (base @ ''/img/social_default.png'') ''https://en.wikipedia.org/wiki/Syslog''),
     (''Agent'', mk_pinfo (base @ ''/img/social_default.png'') []),
     (''SELinux Log'', mk_pinfo (base @ ''/img/social_default.png'') ''https://github.com/SELinuxProject/selinux'')]"

definition otherInfo_Scan :: "string \<Rightarrow> (string \<times> provider_info) list" where
  "otherInfo_Scan base = [
     (''Security Scan'', mk_pinfo (base @ ''/img/social_default.png'') []),
     (''MCP Scan'', mk_pinfo (base @ ''/img/social_default.png'') [])]"

definition OtherProviderInfo :: "string \<Rightarrow> (string \<times> (string \<times> provider_info) list) list" where
  "OtherProviderInfo base = [
     (''SMS'', otherInfo_SMS base),
     (''Email'', otherInfo_Email base),
     (''Storage'', otherInfo_Storage base),
     (''SAML'', otherInfo_SAML base),
     (''Payment'', otherInfo_Payment base),
     (''Captcha'', otherInfo_Captcha base),
     (''AI'', otherInfo_AI base),
     (''Web3'', otherInfo_Web3 base),
     (''Notification'', otherInfo_Notification base),
     (''Face ID'', otherInfo_FaceID base),
     (''MFA'', otherInfo_MFA base),
     (''ID Verification'', otherInfo_IDVerification base),
     (''Log'', otherInfo_Log base),
     (''Scan'', otherInfo_Scan base)]"

text \<open>
  \<open>OtherProviderInfo[provider.category][provider.type]\<close>: an unknown category is a read of a
  property of \<open>undefined\<close>, an unknown type of a known category is \<open>undefined\<close>.
\<close>

definition otherProviderInfo :: "string \<Rightarrow> provider \<Rightarrow> provider_info option result" where
  "otherProviderInfo base p =
     (case map_of (OtherProviderInfo base) (pr_category p) of
        None \<Rightarrow> Throw TypeError
      | Some infos \<Rightarrow> Return (map_of infos (pr_type p)))"

definition getProviderLogoURL :: "string \<Rightarrow> provider \<Rightarrow> string result" where
  "getProviderLogoURL base p =
     (if js_startsWith (pr_type p) ''Custom'' \<and> pr_customLogo p \<noteq> [] then Return (pr_customLogo p)
      else if pr_category p = ''OAuth'' then
        let t = (if js_startsWith (pr_type p) ''Custom'' then ''Custom'' else pr_type p) in
        Return (base @ ''/img/social_'' @ js_lower t @ ''.png'')
      else bind_result (otherProviderInfo base p)
        (\<lambda>i. Return (case i of Some e \<Rightarrow> in_logo e | None \<Rightarrow> [])))"

section \<open>The catalogue is complete\<close>

lemmas otherInfo_defs =
  otherInfo_SMS_def otherInfo_Email_def otherInfo_Storage_def otherInfo_SAML_def
  otherInfo_Payment_def otherInfo_Captcha_def otherInfo_AI_def otherInfo_Web3_def
  otherInfo_Notification_def otherInfo_FaceID_def otherInfo_MFA_def
  otherInfo_IDVerification_def otherInfo_Log_def otherInfo_Scan_def

lemmas typeOptions_defs =
  typeOptions_Email_def typeOptions_SMS_def typeOptions_Storage_def typeOptions_SAML_def
  typeOptions_Payment_def typeOptions_Captcha_def typeOptions_Web3_def
  typeOptions_Notification_def typeOptions_FaceID_def typeOptions_MFA_def
  typeOptions_IDVerification_def typeOptions_Log_def typeOptions_Scan_def

definition noLogoTypes :: "(string \<times> string) list" where
  "noLogoTypes = [(''SMS'', ''Alibaba Cloud PNVS SMS'')]"

definition catalogued :: "string \<Rightarrow> string \<Rightarrow> (string \<times> provider_info) list \<Rightarrow> bool" where
  "catalogued c t infos =
     (case map_of infos t of
        None \<Rightarrow> (c, t) \<in> set noLogoTypes
      | Some e \<Rightarrow> in_logo e \<noteq> [] \<and> (c, t) \<notin> set noLogoTypes)"

definition categories :: "string list" where
  "categories =
     [''Email'', ''SMS'', ''Storage'', ''SAML'', ''Payment'', ''Captcha'', ''Web3'',
      ''Notification'', ''Face ID'', ''MFA'', ''ID Verification'', ''Log'', ''Scan'']"

lemma catalogue_entries:
  "list_all (\<lambda>c. case map_of (OtherProviderInfo base) c of
       None \<Rightarrow> False
     | Some infos \<Rightarrow> list_all (\<lambda>i. catalogued c (to_id i) infos) (getProviderTypeOptions c))
     categories"
  by (simp add: categories_def OtherProviderInfo_def getProviderTypeOptions_def otherInfo_defs
      typeOptions_defs catalogued_def noLogoTypes_def)

lemma options_category:
  "o' \<in> set (getProviderTypeOptions c) \<Longrightarrow> c = ''OAuth'' \<or> c \<in> set categories"
  by (auto simp: getProviderTypeOptions_def categories_def split: if_splits)

lemma catalogue_lookup:
  assumes "i \<in> set (getProviderTypeOptions c)" "c \<noteq> ''OAuth''"
    "pr_category p = c" "pr_type p = to_id i"
  shows "\<exists>r. otherProviderInfo base p = Return r \<and>
           (case r of None \<Rightarrow> (c, to_id i) \<in> set noLogoTypes
            | Some e \<Rightarrow> in_logo e \<noteq> [] \<and> (c, to_id i) \<notin> set noLogoTypes)"
proof -
  have c: "c \<in> set categories" using options_category assms(1,2) by blast
  obtain infos where infos: "map_of (OtherProviderInfo base) c = Some infos"
    using catalogue_entries [of base] c by (auto simp: list_all_iff split: option.splits)
  have "catalogued c (to_id i) infos"
    using catalogue_entries [of base] c infos assms(1) by (fastforce simp: list_all_iff)
  with infos assms(3,4) show ?thesis
    by (auto simp: otherProviderInfo_def catalogued_def)
qed

end
