(* ===== verification/OAuth_Provider.thy ===== *)
theory OAuth_Provider
  imports Auth_Util Provider_Catalogue
begin

text \<open>
  \<open>web/src/auth/Provider.js\<close>: the proof key for code exchange (PKCE), the table of the known OAuth
  providers and the construction of the address that starts a sign-in.

  The two functions of the environment are parameters: \<open>rnd\<close>, the 32 bytes that
  \<open>crypto.getRandomValues\<close> draws, and \<open>sha\<close>, the SHA-256 of crypto-js as a function from text to
  bytes.
\<close>

section \<open>PKCE\<close>

definition url_safe :: "string \<Rightarrow> string" where
  "url_safe s =
     filter (\<lambda>c. c \<noteq> CHR ''='')
       (map (\<lambda>c. if c = CHR ''/'' then CHR ''_'' else c)
         (map (\<lambda>c. if c = CHR ''+'' then CHR ''-'' else c) s))"

definition base64UrlEncode :: "nat list \<Rightarrow> string" where
  "base64UrlEncode buffer = url_safe (b64_encode buffer)"

definition generateCodeVerifier :: "nat list \<Rightarrow> string" where
  "generateCodeVerifier rnd = base64UrlEncode rnd"

definition generateCodeChallenge :: "(string \<Rightarrow> nat list) \<Rightarrow> string \<Rightarrow> string" where
  "generateCodeChallenge sha verifier = url_safe (b64_encode (sha verifier))"

definition pkce_key :: "string \<Rightarrow> string" where
  "pkce_key st = ''pkce_verifier_'' @ st"

definition storeCodeVerifier :: "string \<Rightarrow> string \<Rightarrow> browser \<Rightarrow> browser" where
  "storeCodeVerifier st verifier b = set_local (pkce_key st) verifier b"

text \<open>The callback interpolates the \<open>state\<close> it was given, \<open>null\<close> included.\<close>

definition getCodeVerifier :: "browser \<Rightarrow> string option \<Rightarrow> string option" where
  "getCodeVerifier b st = br_local b (pkce_key (js_null_str st))"

definition clearCodeVerifier :: "string option \<Rightarrow> browser \<Rightarrow> browser" where
  "clearCodeVerifier st b = remove_local (pkce_key (js_null_str st)) b"

section \<open>The table of providers\<close>

record auth_info =
  ai_scope :: "string option"
  ai_endpoint :: string
  ai_mpScope :: "string option"
  ai_mpEndpoint :: "string option"
  ai_silentEndpoint :: "string option"
  ai_internalEndpoint :: "string option"
  ai_endpoint2 :: "string option"

definition mk_info :: "string option \<Rightarrow> string \<Rightarrow> auth_info" where
  "mk_info scope endpoint =
     \<lparr>ai_scope = scope, ai_endpoint = endpoint, ai_mpScope = None, ai_mpEndpoint = None,
      ai_silentEndpoint = None, ai_internalEndpoint = None, ai_endpoint2 = None\<rparr>"

text \<open>The literal \<open>authInfo\<close>, in three parts.\<close>

definition authInfo1 :: "(string \<times> auth_info) list" where
  "authInfo1 = [
     (''Google'', mk_info (Some ''profile+email'') ''https://accounts.google.com/signin/oauth''),
     (''GitHub'', mk_info (Some ''user:email+read:user'') ''https://github.com/login/oauth/authorize''),
     (''QQ'', mk_info (Some ''get_user_info'') ''https://graph.qq.com/oauth2.0/authorize''),
     (''WeChat'', (mk_info (Some ''snsapi_login'') ''https://open.weixin.qq.com/connect/qrconnect'')\<lparr>ai_mpScope := Some ''snsapi_userinfo'', ai_mpEndpoint := Some ''https://open.weixin.qq.com/connect/oauth2/authorize''\<rparr>),
     (''WeChatMiniProgram'', mk_info None ''https://mp.weixin.qq.com/''),
     (''Facebook'', mk_info (Some ''email,public_profile'') ''https://www.facebook.com/dialog/oauth''),
     (''DingTalk'', mk_info (Some ''openid'') ''https://login.dingtalk.com/oauth2/auth''),
     (''Weibo'', mk_info (Some ''email'') ''https://api.weibo.com/oauth2/authorize''),
     (''Gitee'', mk_info (Some ''user_info%20emails'') ''https://gitee.com/oauth/authorize''),
     (''LinkedIn'', mk_info (Some ''r_liteprofile%20r_emailaddress'') ''https://www.linkedin.com/oauth/v2/authorization''),
     (''WeCom'', (mk_info (Some ''snsapi_userinfo'') ''https://login.work.weixin.qq.com/wwlogin/sso/login'')\<lparr>ai_silentEndpoint := Some ''https://open.weixin.qq.com/connect/oauth2/authorize'', ai_internalEndpoint := Some ''https://login.work.weixin.qq.com/wwlogin/sso/login''\<rparr>),
     (''Lark'', (mk_info None ''https://open.feishu.cn/open-apis/authen/v1/index'')\<lparr>ai_endpoint2 := Some ''https://accounts.larksuite.com/open-apis/authen/v1/authorize''\<rparr>),
     (''GitLab'', mk_info (Some ''read_user+profile'') ''https://gitlab.com/oauth/authorize''),
     (''ADFS'', mk_info (Some ''openid'') ''http://example.com''),
     (''Baidu'', mk_info (Some ''basic'') ''http://openapi.baidu.com/oauth/2.0/authorize''),
     (''Alipay'', mk_info (Some ''basic'') ''https://openauth.alipay.com/oauth2/publicAppAuthorize.htm''),
     (''Casdoor'', mk_info (Some ''openid%20profile%20email'') ''http://example.com''),
     (''Infoflow'', mk_info None ''https://xpc.im.baidu.com/oauth2/authorize''),
     (''Apple'', mk_info (Some ''name%20email'') ''https://appleid.apple.com/auth/authorize''),
     (''AzureAD'', mk_info (Some ''user.read'') ''https://login.microsoftonline.com/common/oauth2/v2.0/authorize''),
     (''AzureADB2C'', mk_info (Some ''openid'') ''https://tenant.b2clogin.com/tenant.onmicrosoft.com/userflow/oauth2/v2.0/authorize''),
     (''Slack'', mk_info (Some ''users:read'') ''https://slack.com/oauth/authorize''),
     (''Steam'', mk_info None ''https://steamcommunity.com/openid/login''),
     (''Okta'', mk_info (Some ''openid%20profile%20email'') ''http://example.com''),
     (''Douyin'', mk_info (Some ''user_info'') ''https://open.douyin.com/platform/oauth/connect''),
     (''Kwai'', mk_info (Some ''user_info'') ''https://open.kuaishou.com/oauth2/connect''),
     (''Custom'', mk_info None ''https://example.com/''),
     (''Bilibili'', mk_info None ''https://passport.bilibili.com/register/pc_oauth2.html'')]"

definition authInfo2 :: "(string \<times> auth_info) list" where
  "authInfo2 = [
     (''Line'', mk_info (Some ''profile%20openid%20email'') ''https://access.line.me/oauth2/v2.1/authorize''),
     (''Amazon'', mk_info (Some ''profile'') ''https://www.amazon.com/ap/oa''),
     (''Auth0'', mk_info (Some ''openid%20profile%20email'') ''http://auth0.com/authorize''),
     (''BattleNet'', mk_info (Some ''openid'') ''https://oauth.battlenet.com.cn/authorize''),
     (''Bitbucket'', mk_info (Some ''account'') ''https://bitbucket.org/site/oauth2/authorize''),
     (''Box'', mk_info (Some ''root_readwrite'') ''https://account.box.com/api/oauth2/authorize''),
     (''CloudFoundry'', mk_info (Some ''cloud_controller.read'') ''https://login.cloudfoundry.org/oauth/authorize''),
     (''Dailymotion'', mk_info (Some ''userinfo'') ''https://api.dailymotion.com/oauth/authorize''),
     (''Deezer'', mk_info (Some ''basic_access'') ''https://connect.deezer.com/oauth/auth.php''),
     (''DigitalOcean'', mk_info (Some ''read'') ''https://cloud.digitalocean.com/v1/oauth/authorize''),
     (''Discord'', mk_info (Some ''identify%20email'') ''https://discord.com/api/oauth2/authorize''),
     (''Dropbox'', mk_info (Some ''account_info.read'') ''https://www.dropbox.com/oauth2/authorize''),
     (''EveOnline'', mk_info (Some ''publicData'') ''https://login.eveonline.com/oauth/authorize''),
     (''Fitbit'', mk_info (Some ''activity%20heartrate%20location%20nutrition%20profile%20settings%20sleep%20social%20weight'') ''https://www.fitbit.com/oauth2/authorize''),
     (''Gitea'', mk_info (Some ''user:email'') ''https://gitea.com/login/oauth/authorize''),
     (''Heroku'', mk_info (Some ''global'') ''https://id.heroku.com/oauth/authorize''),
     (''InfluxCloud'', mk_info (Some ''read:org'') ''https://cloud2.influxdata.com/oauth/authorize''),
     (''Instagram'', mk_info (Some ''user_profile'') ''https://api.instagram.com/oauth/authorize''),
     (''Intercom'', mk_info (Some ''user.read'') ''https://app.intercom.com/oauth''),
     (''Kakao'', mk_info (Some ''account_email'') ''https://kauth.kakao.com/oauth/authorize''),
     (''Lastfm'', mk_info (Some ''user_read'') ''https://www.last.fm/api/auth''),
     (''Mailru'', mk_info (Some ''userinfo'') ''https://oauth.mail.ru/login''),
     (''Meetup'', mk_info (Some ''basic'') ''https://secure.meetup.com/oauth2/authorize''),
     (''MicrosoftOnline'', mk_info (Some ''openid%20profile%20email'') ''https://login.microsoftonline.com/common/oauth2/v2.0/authorize''),
     (''Naver'', mk_info (Some ''profile'') ''https://nid.naver.com/oauth2.0/authorize''),
     (''Nextcloud'', mk_info (Some ''openid%20profile%20email'') ''https://cloud.example.org/apps/oauth2/authorize''),
     (''OneDrive'', mk_info (Some ''offline_access%20onedrive.readonly'') ''https://login.live.com/oauth20_authorize.srf''),
     (''Oura'', mk_info (Some ''personal'') ''https://cloud.ouraring.com/oauth/authorize''),
     (''Patreon'', mk_info (Some ''identity'') ''https://www.patreon.com/oauth2/authorize'')]"

definition authInfo3 :: "(string \<times> auth_info) list" where
  "authInfo3 = [
     (''PayPal'', mk_info (Some ''openid%20profile%20email'') ''https://www.sandbox.paypal.com/connect''),
     (''SalesForce'', mk_info (Some ''openid%20profile%20email'') ''https://login.salesforce.com/services/oauth2/authorize''),
     (''Shopify'', mk_info (Some ''read_products'') ''https://myshopify.com/admin/oauth/authorize''),
     (''Soundcloud'', mk_info (Some ''non-expiring'') ''https://api.soundcloud.com/connect''),
     (''Spotify'', mk_info (Some ''user-read-email'') ''https://accounts.spotify.com/authorize''),
     (''Strava'', mk_info (Some ''read'') ''https://www.strava.com/oauth/authorize''),
     (''Stripe'', mk_info (Some ''read_only'') ''https://connect.stripe.com/oauth/authorize''),
     (''TikTok'', mk_info (Some ''user.info.basic'') ''https://www.tiktok.com/auth/authorize/''),
     (''Tumblr'', mk_info (Some ''basic'') ''https://www.tumblr.com/oauth2/authorize''),
     (''Twitch'', mk_info (Some ''user_read'') ''https://id.twitch.tv/oauth2/authorize''),
     (''Twitter'', mk_info (Some ''users.read%20tweet.read'') ''https://twitter.com/i/oauth2/authorize''),
     (''Telegram'', mk_info (Some '''') ''https://core.telegram.org/widgets/login''),
     (''Typetalk'', mk_info (Some ''my'') ''https://typetalk.com/oauth2/authorize''),
     (''Uber'', mk_info (Some ''profile'') ''https://login.uber.com/oauth/v2/authorize''),
     (''VK'', mk_info (Some ''email'') ''https://oauth.vk.com/authorize''),
     (''Wepay'', mk_info (Some ''manage_accounts%20view_user'') ''https://www.wepay.com/v2/oauth2/authorize''),
     (''Xero'', mk_info (Some ''openid%20profile%20email'') ''https://login.xero.com/identity/connect/authorize''),
     (''Yahoo'', mk_info (Some ''openid%20profile%20email'') ''https://api.login.yahoo.com/oauth2/request_auth''),
     (''Yammer'', mk_info (Some ''user'') ''https://www.yammer.com/oauth2/authorize''),
     (''Yandex'', mk_info (Some ''login:email'') ''https://oauth.yandex.com/authorize''),
     (''Zoom'', mk_info (Some ''user:read'') ''https://zoom.us/oauth/authorize''),
     (''MetaMask'', mk_info (Some '''') ''''),
     (''Web3Onboard'', mk_info (Some '''') '''')]"

definition authInfo :: "string \<Rightarrow> auth_info option" where
  "authInfo = map_of (authInfo1 @ authInfo2 @ authInfo3)"

text \<open>\<open>provider.type.startsWith("Custom") ? "Custom" : provider.type\<close>\<close>

definition normalizedType :: "provider \<Rightarrow> string" where
  "normalizedType p = (if js_startsWith (pr_type p) ''Custom'' then ''Custom'' else pr_type p)"

section \<open>Building the address\<close>

text \<open>The provider types whose address is the plain OAuth one.\<close>

definition plainTypes :: "string list" where
  "plainTypes =
     [''Google'', ''GitHub'', ''Facebook'', ''Weibo'', ''Gitee'', ''LinkedIn'', ''GitLab'',
      ''AzureAD'', ''Slack'', ''Line'', ''Amazon'', ''Auth0'', ''BattleNet'', ''Bitbucket'',
      ''Box'', ''CloudFoundry'', ''Dailymotion'', ''DigitalOcean'', ''Discord'', ''Dropbox'',
      ''EveOnline'', ''Gitea'', ''Heroku'', ''InfluxCloud'', ''Instagram'', ''Intercom'',
      ''Kakao'', ''MailRu'', ''Meetup'', ''MicrosoftOnline'', ''Naver'', ''Nextcloud'',
      ''OneDrive'', ''Oura'', ''Patreon'', ''PayPal'', ''SalesForce'', ''SoundCloud'',
      ''Spotify'', ''Strava'', ''Stripe'', ''Tumblr'', ''Twitch'', ''Typetalk'', ''Uber'',
      ''VK'', ''Wepay'', ''Xero'', ''Yahoo'', ''Yammer'', ''Yandex'', ''Zoom'']"

text \<open>What the address is built from.\<close>

record url_parts =
  up_endpoint :: string
  up_origin :: string
  up_redirectUri :: string
  up_scope :: string
  up_state :: string
  up_challenge :: string

definition wechatNoAccountMsg :: string where
  "wechatNoAccountMsg = ''login:Please open the login page in an external browser to sign in with WeChat, or ask the administrator to configure a WeChat Official Account''"

text \<open>
  The WeChat branch: inside the WeChat browser only an official account can sign in; a missing
  one is reported and the link leads nowhere.
\<close>

definition wechatUrl ::
  "browser \<Rightarrow> provider \<Rightarrow> auth_info \<Rightarrow> url_parts \<Rightarrow> string option \<Rightarrow> string \<times> effect list" where
  "wechatUrl b p info u code =
     (if js_includes (br_userAgent b) ''MicroMessenger'' then
        if pr_clientId2 p = [] then (''#'', [Message ''error'' wechatNoAccountMsg])
        else (js_undef_str (ai_mpEndpoint info) @ ''?appid='' @ pr_clientId2 p
              @ ''&redirect_uri='' @ up_redirectUri u @ ''&state='' @ up_state u
              @ ''&scope='' @ js_undef_str (ai_mpScope info)
              @ ''&response_type=code#wechat_redirect'', [])
      else if pr_clientId2 p \<noteq> [] \<and> pr_disableSsl p \<and> pr_signName p = ''media'' then
        (up_origin u @ ''/callback?state='' @ up_state u
         @ ''&code=wechat_oa:'' @ js_undef_str code, [])
      else (up_endpoint u @ ''?appid='' @ pr_clientId p @ ''&redirect_uri='' @ up_redirectUri u
            @ ''&scope='' @ up_scope u @ ''&response_type=code&state='' @ up_state u
            @ ''#wechat_redirect'', []))"

definition wecomSilentUrl :: "provider \<Rightarrow> auth_info \<Rightarrow> url_parts \<Rightarrow> string" where
  "wecomSilentUrl p info u =
     js_undef_str (ai_silentEndpoint info) @ ''?appid='' @ pr_clientId p
     @ ''&redirect_uri='' @ up_redirectUri u @ ''&state='' @ up_state u @ ''&scope='' @ up_scope u
     @ ''&response_type=code&agentid='' @ pr_appId p @ ''#wechat_redirect''"

definition wecomUrl :: "provider \<Rightarrow> auth_info \<Rightarrow> url_parts \<Rightarrow> string" where
  "wecomUrl p info u =
     (if pr_subType p = ''Internal'' then
        if pr_method p = ''Silent'' then wecomSilentUrl p info u
        else if pr_method p = ''Normal'' then
          js_undef_str (ai_internalEndpoint info) @ ''?login_type=CorpApp&appid='' @ pr_clientId p
          @ ''&agentid='' @ pr_appId p @ ''&redirect_uri='' @ up_redirectUri u
          @ ''&state='' @ up_state u
        else ''https://error:not-supported-provider-method:'' @ pr_method p
      else if pr_subType p = ''Third-party'' then
        if pr_method p = ''Silent'' then wecomSilentUrl p info u
        else if pr_method p = ''Normal'' then
          ai_endpoint info @ ''?login_type=ServiceApp&appid='' @ pr_clientId p
          @ ''&redirect_uri='' @ up_redirectUri u @ ''&state='' @ up_state u
        else ''https://error:not-supported-provider-method:'' @ pr_method p
      else ''https://error:not-supported-provider-sub-type:'' @ pr_subType p)"

text \<open>
  The chain of cases on \<open>provider.type\<close>. A type that no case names falls through, and the
  function returns \<open>undefined\<close>.
\<close>

definition authUrlByType ::
  "browser \<Rightarrow> provider \<Rightarrow> auth_info \<Rightarrow> url_parts \<Rightarrow> string option
     \<Rightarrow> string option \<times> effect list" where
  "authUrlByType b p info u code =
     (let t = pr_type p; endpoint = up_endpoint u; redirectUri = up_redirectUri u;
          scope = up_scope u; st = up_state u; cid = pr_clientId p;
          std = ''&redirect_uri='' @ redirectUri @ ''&state='' @ st
                @ ''&response_type=code&scope='' @ scope in
      if t \<in> set plainTypes then
        (Some (endpoint @ ''?client_id='' @ cid @ ''&redirect_uri='' @ redirectUri
               @ ''&scope='' @ scope @ ''&response_type=code&state='' @ st), [])
      else if t = ''QQ'' then
        (Some (endpoint @ ''?response_type=code&client_id='' @ cid
               @ ''&redirect_uri='' @ encodeURIComponent redirectUri
               @ ''&state='' @ encodeURIComponent st @ ''&scope='' @ encodeURIComponent scope), [])
      else if t = ''AzureADB2C'' then
        (Some (''https://'' @ pr_domain p @ ''.b2clogin.com/'' @ pr_domain p
               @ ''.onmicrosoft.com/'' @ pr_appId p @ ''/oauth2/v2.0/authorize?client_id='' @ cid
               @ ''&nonce=defaultNonce&redirect_uri='' @ encodeURIComponent redirectUri
               @ ''&scope='' @ scope @ ''&response_type=code&state='' @ st @ ''&prompt=login''), [])
      else if t = ''DingTalk'' then
        (Some (endpoint @ ''?client_id='' @ cid @ ''&redirect_uri='' @ redirectUri
               @ ''&scope='' @ scope @ ''&response_type=code&prompt=login%20consent&state='' @ st), [])
      else if t = ''WeChat'' then apfst Some (wechatUrl b p info u code)
      else if t = ''WeCom'' then (Some (wecomUrl p info u), [])
      else if t = ''Lark'' then
        (Some (endpoint @ ''?app_id='' @ cid @ ''&redirect_uri=''
               @ (if pr_disableSsl p then encodeURIComponent redirectUri else redirectUri)
               @ ''&state='' @ st), [])
      else if t = ''ADFS'' then
        (Some (pr_domain p @ ''/adfs/oauth2/authorize?client_id='' @ cid
               @ ''&redirect_uri='' @ redirectUri @ ''&state='' @ st
               @ ''&response_type=code&nonce=casdoor&scope=openid''), [])
      else if t = ''Baidu'' then
        (Some (endpoint @ ''?client_id='' @ cid @ std @ ''&display=popup''), [])
      else if t = ''Alipay'' then
        (Some (endpoint @ ''?app_id='' @ cid @ ''&scope=auth_user'' @ std @ ''&display=popup''), [])
      else if t = ''Casdoor'' then
        (Some (pr_domain p @ ''/login/oauth/authorize?client_id='' @ cid @ std), [])
      else if t = ''Infoflow'' then
        (Some (endpoint @ ''?appid='' @ cid @ ''&redirect_uri='' @ redirectUri
               @ ''?state='' @ st), [])
      else if t = ''Apple'' then
        (Some (endpoint @ ''?client_id='' @ cid @ ''&redirect_uri='' @ redirectUri
               @ ''&state='' @ st @ ''&response_type=code%20id_token&scope='' @ scope
               @ ''&response_mode=form_post''), [])
      else if t = ''Steam'' then
        (Some (endpoint @ ''?openid.claimed_id=http://specs.openid.net/auth/2.0/identifier_select&openid.identity=http://specs.openid.net/auth/2.0/identifier_select&openid.mode=checkid_setup&openid.ns=http://specs.openid.net/auth/2.0&openid.realm=''
               @ up_origin u @ ''&openid.return_to='' @ redirectUri @ ''?state='' @ st), [])
      else if t = ''Okta'' then
        (Some (pr_domain p @ ''/v1/authorize?client_id='' @ cid @ std), [])
      else if t = ''Douyin'' \<or> t = ''TikTok'' then
        (Some (endpoint @ ''?client_key='' @ cid @ std), [])
      else if t = ''Kwai'' then (Some (endpoint @ ''?app_id='' @ cid @ std), [])
      else if normalizedType p = ''Custom'' then
        (Some (pr_customAuthUrl p @ ''?client_id='' @ cid
               @ ''&redirect_uri='' @ encodeURIComponent redirectUri
               @ ''&scope='' @ encodeURIComponent (pr_scopes p)
               @ ''&response_type=code&state='' @ encodeURIComponent st
               @ (if pr_enablePkce p
                  then ''&code_challenge='' @ up_challenge u @ ''&code_challenge_method=S256''
                  else [])), [])
      else if t = ''Bilibili'' then
        (Some (endpoint @ ''#/?client_id='' @ cid @ ''&return_url='' @ redirectUri
               @ ''&state='' @ st @ ''&response_type=code''), [])
      else if t = ''Deezer'' then
        (Some (endpoint @ ''?app_id='' @ cid @ ''&redirect_uri='' @ redirectUri
               @ ''&perms='' @ scope), [])
      else if t = ''Lastfm'' then
        (Some (endpoint @ ''?api_key='' @ cid @ ''&cb='' @ redirectUri), [])
      else if t = ''Shopify'' then
        (Some (endpoint @ ''?client_id='' @ cid @ ''&redirect_uri='' @ redirectUri
               @ ''&scope='' @ scope @ ''&state='' @ st @ ''&grant_options[]=per-user''), [])
      else if t = ''Twitter'' \<or> t = ''Fitbit'' then
        (Some (endpoint @ ''?client_id='' @ cid @ std
               @ ''&code_challenge='' @ up_challenge u @ ''&code_challenge_method=S256''), [])
      else if t = ''Telegram'' then
        (Some (up_origin u @ ''/telegram-login?state='' @ st), [])
      else if t = ''MetaMask'' then (Some (redirectUri @ ''?state='' @ st), [])
      else if t = ''Web3Onboard'' then (Some (redirectUri @ ''?state='' @ st), [])
      else (None, []))"

text \<open>The endpoint, the redirect address and the scope after the corrections for single types.\<close>

definition authEndpoint :: "provider \<Rightarrow> auth_info \<Rightarrow> string" where
  "authEndpoint p info =
     (if pr_type p = ''AzureAD'' then
        if pr_domain p \<noteq> [] then js_replace (ai_endpoint info) ''common'' (pr_domain p)
        else ai_endpoint info
      else if pr_type p = ''Nextcloud'' then
        if pr_domain p \<noteq> [] then pr_domain p @ ''/apps/oauth2/authorize'' else ai_endpoint info
      else if pr_type p = ''Lark'' \<and> pr_disableSsl p then js_undef_str (ai_endpoint2 info)
      else ai_endpoint info)"

definition authScope :: "provider \<Rightarrow> auth_info \<Rightarrow> string" where
  "authScope p info =
     (let scope = (if js_trim (pr_scopes p) \<noteq> [] then Some (pr_scopes p) else ai_scope info) in
      if pr_type p = ''Google'' \<and> pr_disableSsl p
      then js_undef_str scope @ ''+https://www.googleapis.com/auth/user.phonenumbers.read''
      else js_undef_str scope)"

definition isShortState :: "browser \<Rightarrow> provider \<Rightarrow> bool" where
  "isShortState b p =
     (let isTelegramOIDC = (pr_type p = ''Telegram''
            \<or> (pr_type p = ''Custom'' \<and> pr_customAuthUrl p \<noteq> []
               \<and> js_includes (pr_customAuthUrl p) ''oauth.telegram.org'')) in
      (pr_type p = ''WeChat'' \<and> js_includes (br_userAgent b) ''MicroMessenger''
         \<and> pr_clientId2 p \<noteq> [])
      \<or> pr_type p = ''Twitter'' \<or> isTelegramOIDC)"

definition stateApplicationName :: "application \<Rightarrow> string" where
  "stateApplicationName a =
     (if app_isShared a then app_name a @ ''-org-'' @ app_organization a else app_name a)"

definition redirectOrigin :: "browser \<Rightarrow> application \<Rightarrow> string" where
  "redirectOrigin b a =
     (if app_forcedRedirectOrigin a \<noteq> [] then app_forcedRedirectOrigin a else br_origin b)"

definition authParts ::
  "nat list \<Rightarrow> (string \<Rightarrow> nat list) \<Rightarrow> browser \<Rightarrow> application \<Rightarrow> provider \<Rightarrow> auth_info \<Rightarrow> string
     \<Rightarrow> url_parts" where
  "authParts rnd sha b a p info st =
     \<lparr>up_endpoint = authEndpoint p info,
      up_origin = redirectOrigin b a,
      up_redirectUri =
        (if pr_type p = ''Apple'' then redirectOrigin b a @ ''/api/callback''
         else redirectOrigin b a @ ''/callback''),
      up_scope = authScope p info, up_state = st,
      up_challenge = generateCodeChallenge sha (generateCodeVerifier rnd)\<rparr>"

text \<open>
  \<open>getAuthUrl(application, provider, method, code)\<close>. A provider type without an entry of
  \<open>authInfo\<close> is a read of \<open>undefined.endpoint\<close>; \<open>btoa\<close> may throw; otherwise the verifier is stored
  under the state and the address, or \<open>undefined\<close>, is returned.
\<close>

definition getAuthUrl ::
  "nat list \<Rightarrow> (string \<Rightarrow> nat list) \<Rightarrow> browser \<Rightarrow> application option \<Rightarrow> provider option
     \<Rightarrow> string \<Rightarrow> string option \<Rightarrow> (string option \<times> browser) result" where
  "getAuthUrl rnd sha b application provider method code =
     (case (application, provider) of
        (Some a, Some p) \<Rightarrow>
          (case authInfo (normalizedType p) of
             None \<Rightarrow> Throw TypeError
           | Some info \<Rightarrow>
               bind_result
                 (getStateFromQueryParams b (stateApplicationName a) (pr_name p) method
                    (isShortState b p))
                 (\<lambda>(st, b1).
                    let b2 = storeCodeVerifier st (generateCodeVerifier rnd) b1;
                        (url, msgs) = authUrlByType b p info (authParts rnd sha b a p info st) code
                    in Return (url, fold emit msgs b2)))
      | _ \<Rightarrow> Return (Some [], b))"

section \<open>The home page of a provider\<close>

text \<open>The host of an \<open>http(s)\<close> address, as \<open>new URL(..)\<close> reads it from the entries of the table.\<close>

definition url_protocol_host :: "string \<Rightarrow> (string \<times> string) result" where
  "url_protocol_host s =
     (case find_sub ''://'' s of
        None \<Rightarrow> Throw InvalidURL
      | Some (scheme, rest) \<Rightarrow>
          let host = takeWhile (\<lambda>c. c \<notin> set ''/?#'') rest in
          if scheme \<in> {''http'', ''https''} \<and> host \<noteq> [] then Return (scheme @ '':'', host)
          else Throw InvalidURL)"

definition oauthProviderUrl :: "provider \<Rightarrow> string result" where
  "oauthProviderUrl p =
     (case authInfo (normalizedType p) of
        None \<Rightarrow> Throw TypeError
      | Some info \<Rightarrow>
          bind_result (url_protocol_host (ai_endpoint info)) (\<lambda>(protocol, host).
            let tokens = js_split host ''.'';
                tokens' = (if length tokens > 2 then js_slice_from tokens 1 else tokens)
            in Return (protocol @ ''//'' @ js_join ''.'' tokens')))"

definition getProviderUrl :: "string \<Rightarrow> provider \<Rightarrow> string result" where
  "getProviderUrl base p =
     (if pr_category p = ''OAuth'' then oauthProviderUrl p
      else bind_result (otherProviderInfo base p)
        (\<lambda>i. Return (case i of Some e \<Rightarrow> in_url e | None \<Rightarrow> [])))"

section \<open>The verifier\<close>

text \<open>The alphabet of base64url and its inverse.\<close>

lemma length_b64_sx_eq: "length (b64_sx bs) = (4 * length bs + 2) div 3"
  by (induction bs rule: b64_sx.induct) auto

definition b64url_char :: "nat \<Rightarrow> char" where
  "b64url_char n =
     (let c = b64_char n in
      if c = CHR ''+'' then CHR ''-'' else if c = CHR ''/'' then CHR ''_'' else c)"

lemma b64url_char_cases:
  assumes "n < 64"
  shows "b64url_char n = b64_char n \<and> (is_alpha (b64_char n) \<or> is_digit (b64_char n)) \<and> n < 62
    \<or> n = 62 \<and> b64url_char n = CHR ''-'' \<or> n = 63 \<and> b64url_char n = CHR ''_''"
proof -
  have "list_all (\<lambda>n. b64url_char n = b64_char n \<and> (is_alpha (b64_char n) \<or> is_digit (b64_char n)) \<and> n < 62
    \<or> n = 62 \<and> b64url_char n = CHR ''-'' \<or> n = 63 \<and> b64url_char n = CHR ''_'') [0..<64]"
    by code_simp
  with assms show ?thesis by (simp add: list_all_iff)
qed

definition b64url_val :: "char \<Rightarrow> nat option" where
  "b64url_val c =
     (if c = CHR ''-'' then Some 62 else if c = CHR ''_'' then Some 63 else b64_val c)"

lemma b64url_val_char: "n < 64 \<Longrightarrow> b64url_val (b64url_char n) = Some n"
proof -
  assume n: "n < 64"
  have "b64_val (CHR ''-'') = None" "b64_val (CHR ''_'') = None" by (simp_all add: b64_val_def)
  with b64_val_char [OF n] b64url_char_cases [OF n] show ?thesis
    by (auto simp: b64url_val_def)
qed

lemma b64url_char_inj: "m < 64 \<Longrightarrow> n < 64 \<Longrightarrow> b64url_char m = b64url_char n \<Longrightarrow> m = n"
  by (metis b64url_val_char option.inject)

lemma base64UrlEncode_sx:
  assumes "list_all (\<lambda>b. b < 256) bs"
  shows "base64UrlEncode bs = map b64url_char (b64_sx bs)"
proof -
  have pad: "url_safe (b64_pad bs) = []"
    by (simp add: url_safe_def b64_pad_def)
  have "url_safe (map b64_char ns) = map b64url_char ns" if "list_all (\<lambda>n. n < 64) ns" for ns
    using that
    by (induction ns) (auto simp: url_safe_def b64url_char_def Let_def dest: b64_char_special)
  with b64_sx_less [OF assms] have "url_safe (map b64_char (b64_sx bs)) = map b64url_char (b64_sx bs)"
    by simp
  with pad show ?thesis
    by (simp add: base64UrlEncode_def b64_encode_sx url_safe_def)
qed

lemma generateCodeVerifier_wf:
  assumes "length rnd = 32" "list_all (\<lambda>b. b < 256) rnd"
  shows "length (generateCodeVerifier rnd) = 43
    \<and> (\<forall>c \<in> set (generateCodeVerifier rnd). is_alpha c \<or> is_digit c \<or> c \<in> {CHR ''-'', CHR ''_''})"
proof -
  have "is_alpha (b64url_char n) \<or> is_digit (b64url_char n) \<or> b64url_char n \<in> {CHR ''-'', CHR ''_''}"
    if "n \<in> set (b64_sx rnd)" for n
    using b64_sx_less [OF assms(2)] that b64url_char_cases [of n] by (auto simp: list_all_iff)
  then show ?thesis
    using assms by (auto simp: generateCodeVerifier_def base64UrlEncode_sx length_b64_sx_eq)
qed

lemma generateCodeVerifier_inj:
  assumes "list_all (\<lambda>b. b < 256) rnd" "list_all (\<lambda>b. b < 256) rnd'"
    "generateCodeVerifier rnd = generateCodeVerifier rnd'"
  shows "rnd = rnd'"
proof -
  have "map b64url_char (b64_sx rnd) = map b64url_char (b64_sx rnd')"
    using assms by (simp add: generateCodeVerifier_def base64UrlEncode_sx)
  moreover have "inj_on b64url_char (set (b64_sx rnd) \<union> set (b64_sx rnd'))"
    using b64_sx_less [OF assms(1)] b64_sx_less [OF assms(2)] b64url_char_inj
    by (auto simp: list_all_iff inj_on_def)
  ultimately have "b64_sx rnd = b64_sx rnd'"
    by (metis map_inj_on)
  then show ?thesis
    using b64_bytes_sx assms(1,2) by (metis option.inject)
qed

section \<open>Which types have an address\<close>

text \<open>The types that some case of the chain names.\<close>

definition handledTypes :: "string list" where
  "handledTypes = plainTypes @
     [''QQ'', ''AzureADB2C'', ''DingTalk'', ''WeChat'', ''WeCom'', ''Lark'', ''ADFS'', ''Baidu'',
      ''Alipay'', ''Casdoor'', ''Infoflow'', ''Apple'', ''Steam'', ''Okta'', ''Douyin'', ''TikTok'',
      ''Kwai'', ''Bilibili'', ''Deezer'', ''Lastfm'', ''Shopify'', ''Twitter'', ''Fitbit'',
      ''Telegram'', ''MetaMask'', ''Web3Onboard'']"

lemma fst_if_None:
  "(fst (if c then (Some x, e) else r) = None) \<longleftrightarrow> \<not> c \<and> fst r = None"
  "(fst (if c then apfst Some y else r) = None) \<longleftrightarrow> \<not> c \<and> fst r = None"
  by (cases y, simp)+

lemma authUrlByType_None_iff:
  "fst (authUrlByType b p i u code) = None
     \<longleftrightarrow> pr_type p \<notin> set handledTypes \<and> normalizedType p \<noteq> ''Custom''"
  unfolding authUrlByType_def Let_def handledTypes_def
  by (simp only: fst_if_None fst_conv set_append
      list.set Un_iff insert_iff empty_iff de_Morgan_disj simp_thms)
     (rule iffI; elim conjE; intro conjI; assumption)

definition unsupportedTypes :: "string list" where
  "unsupportedTypes = [''WeChatMiniProgram'', ''Mailru'', ''Soundcloud'']"

lemma oauth_options_handled:
  "list_all (\<lambda>o'. (to_id o' \<in> set handledTypes \<or> js_startsWith (to_id o') ''Custom'')
      \<longleftrightarrow> to_id o' \<notin> set unsupportedTypes) (getProviderTypeOptions ''OAuth'')"
  by code_simp

lemma authInfo_dom: "authInfo t \<noteq> None \<longleftrightarrow> t \<in> set (map fst (authInfo1 @ authInfo2 @ authInfo3))"
  unfolding authInfo_def by (simp only: map_of_eq_None_iff not_not set_map)

lemma oauth_options_keys:
  "list_all (\<lambda>t. (if js_startsWith t ''Custom'' then ''Custom'' else t)
       \<in> set (map fst (authInfo1 @ authInfo2 @ authInfo3)))
     (map to_id (getProviderTypeOptions ''OAuth''))"
  by code_simp

lemma option_normalizedType:
  assumes "i \<in> set (getProviderTypeOptions ''OAuth'')" "pr_type p = to_id i"
  shows "authInfo (normalizedType p) \<noteq> None"
    and "(pr_type p \<in> set handledTypes \<or> normalizedType p = ''Custom'')
           \<longleftrightarrow> pr_type p \<notin> set unsupportedTypes"
proof -
  have "to_id i \<in> set (map to_id (getProviderTypeOptions ''OAuth''))" using assms(1) by simp
  from bspec [OF oauth_options_keys [unfolded list_all_iff] this]
  show "authInfo (normalizedType p) \<noteq> None"
    unfolding authInfo_dom normalizedType_def assms(2) .
  have "\<not> js_startsWith t ''Custom'' \<Longrightarrow> t \<noteq> ''Custom''" for t by auto
  then show "(pr_type p \<in> set handledTypes \<or> normalizedType p = ''Custom'')
           \<longleftrightarrow> pr_type p \<notin> set unsupportedTypes"
    using oauth_options_handled assms unfolding normalizedType_def
    by (auto simp: list_all_iff)
qed

section \<open>What a call leaves behind\<close>

lemma fold_emit_simps [simp]:
  "br_session (fold emit es b) = br_session b"
  "br_local (fold emit es b) = br_local b"
  "br_search (fold emit es b) = br_search b"
  "br_origin (fold emit es b) = br_origin b"
  by (induction es arbitrary: b) simp_all

text \<open>A call that does not throw has computed a state and stored the verifier under it.\<close>

lemma getAuthUrl_Return:
  assumes "getAuthUrl rnd sha b (Some a) (Some p) method code = Return (url, b')"
  obtains info st b1 msgs where
    "authInfo (normalizedType p) = Some info"
    "getStateFromQueryParams b (stateApplicationName a) (pr_name p) method (isShortState b p)
       = Return (st, b1)"
    "authUrlByType b p info (authParts rnd sha b a p info st) code = (url, msgs)"
    "b' = fold emit msgs (storeCodeVerifier st (generateCodeVerifier rnd) b1)"
proof -
  let ?gs = "getStateFromQueryParams b (stateApplicationName a) (pr_name p) method (isShortState b p)"
  obtain info where info: "authInfo (normalizedType p) = Some info"
    using assms by (cases "authInfo (normalizedType p)") (simp_all add: getAuthUrl_def)
  obtain st b1 where st: "?gs = Return (st, b1)"
    using assms info by (cases ?gs) (auto simp: getAuthUrl_def)
  obtain u msgs where u: "authUrlByType b p info (authParts rnd sha b a p info st) code = (u, msgs)"
    by (cases "authUrlByType b p info (authParts rnd sha b a p info st) code")
  have "url = u" "b' = fold emit msgs (storeCodeVerifier st (generateCodeVerifier rnd) b1)"
    using assms by (simp_all add: getAuthUrl_def info st u)
  with info st u show thesis using that by blast
qed

lemma getQueryParamsFromState_session:
  "br_session b = br_session b' \<Longrightarrow> getQueryParamsFromState b st = getQueryParamsFromState b' st"
  by (simp add: getQueryParamsFromState_def)

lemma storeCodeVerifier_simps [simp]:
  "br_session (storeCodeVerifier st v b) = br_session b"
  "br_local (storeCodeVerifier st v b) k = (if k = pkce_key st then Some v else br_local b k)"
  by (simp_all add: storeCodeVerifier_def storage_ops)

section \<open>The state in the address\<close>

text \<open>The elements at the positions 2, 5, 8 and so on.\<close>

fun thirds :: "'a list \<Rightarrow> 'a list" where
  "thirds (a # b # c # r) = c # thirds r"
| "thirds r = []"

lemma thirds_map: "thirds (map f xs) = map f (thirds xs)"
  by (induction xs rule: thirds.induct) simp_all

lemma sextet_plus:
  assumes "(a::nat) < 128" "b < 128" "c < 128"
  shows "a div 4 \<noteq> 62" "a mod 4 * 16 + b div 16 \<noteq> 62" "b mod 16 * 4 + c div 64 \<noteq> 62"
    "c mod 64 = 62 \<longleftrightarrow> c = 62 \<or> c = 126" "a mod 4 * 16 \<noteq> 62" "b mod 16 * 4 \<noteq> 62"
proof -
  have m16: "m * 16 + k \<noteq> 62" if "k < 8" for m k :: nat
    using that by presburger
  have m4: "m * 4 + k \<noteq> 62" if "k < 2" for m k :: nat
    using that by presburger
  show "a div 4 \<noteq> 62" using assms(1) by linarith
  have "b div 16 < 8" using assms(2) by linarith
  then show "a mod 4 * 16 + b div 16 \<noteq> 62" by (rule m16)
  have "c div 64 < 2" using assms(3) by linarith
  then show "b mod 16 * 4 + c div 64 \<noteq> 62" by (rule m4)
  show "a mod 4 * 16 \<noteq> 62" "b mod 16 * 4 \<noteq> 62"
    using m16 [of 0 "a mod 4"] m4 [of 0 "b mod 16"] by simp_all
  show "c mod 64 = 62 \<longleftrightarrow> c = 62 \<or> c = 126"
  proof (cases "c < 64")
    case False
    then obtain d where "c = d + 64" by (metis le_add_diff_inverse2 not_less)
    with assms(3) show ?thesis by simp
  qed simp
qed

lemma sextet_bounds:
  assumes "(a::nat) < 256" "b < 256" "c < 256"
  shows "a div 4 < 64" "a mod 4 * 16 + b div 16 < 64" "b mod 16 * 4 + c div 64 < 64"
    "c mod 64 < 64" "a mod 4 * 16 < 64" "b mod 16 * 4 < 64"
  using assms by linarith+

lemma b64_plus_iff:
  "list_all (\<lambda>b. b < 128) bs \<Longrightarrow>
     CHR ''+'' \<in> set (b64_encode bs) \<longleftrightarrow> (\<exists>c \<in> set (thirds bs). c = 62 \<or> c = 126)"
proof (induction bs rule: b64_encode.induct)
  case (2 a)
  then show ?case using sextet_plus [of a a a] sextet_bounds [of a a a]
    by (simp add: b64_char_plus [symmetric])
next
  case (3 a b)
  then show ?case using sextet_plus [of a b b] sextet_bounds [of a b b]
    by (simp add: b64_char_plus [symmetric])
next
  case (4 a b c r)
  then show ?case using sextet_plus [of a b c] sextet_bounds [of a b c]
    by (auto simp: b64_char_plus [symmetric])
qed simp

lemma form_decode_plus_iff:
  "CHR ''%'' \<notin> set s \<Longrightarrow> form_decode s = s \<longleftrightarrow> CHR ''+'' \<notin> set s"
  by (induction s) auto

lemma b64_encode_no_pct:
  "list_all (\<lambda>b. b < 256) bs \<Longrightarrow> CHR ''%'' \<notin> set (b64_encode bs)"
  unfolding b64_encode_sx using b64_sx_less [of bs] b64_char_special(2)
  by (fastforce simp: list_all_iff b64_pad_def split: if_splits)

lemma of_char_62_126:
  "(of_char c :: nat) = 62 \<longleftrightarrow> c = CHR ''>''" "(of_char c :: nat) = 126 \<longleftrightarrow> c = CHR ''~''"
  using of_char_eq_iff [of c "CHR ''>''", where 'a = nat] of_char_eq_iff [of c "CHR ''~''", where 'a = nat]
  by simp_all

section \<open>Properties\<close>

text \<open>A page, an application and a provider for concrete runs.\<close>

definition demo_browser :: browser where
  "demo_browser = fresh_browser ''https://door.example'' ''/login'' ''?client_id=abc''"

definition demo_app :: application where
  "demo_app = empty_application\<lparr>app_owner := ''admin'', app_name := ''app-demo'',
     app_organization := ''acme''\<rparr>"

definition demo_provider :: provider where
  "demo_provider = empty_provider\<lparr>pr_owner := ''admin'', pr_name := ''gh'',
     pr_category := ''OAuth'', pr_type := ''GitHub'', pr_clientId := ''cid''\<rparr>"

definition demo_state :: string where
  "demo_state = b64_encode (map of_char (stateQuery demo_browser ''app-demo'' ''gh'' ''signup''))"

lemmas demo_defs = demo_browser_def fresh_browser_def demo_app_def empty_application_def
  demo_provider_def empty_provider_def

lemma demo_location: "ascii_location demo_browser"
  by (simp add: ascii_location_def demo_defs is_ascii_def)

lemma demo_getState:
  "getStateFromQueryParams demo_browser (stateApplicationName demo_app) (pr_name demo_provider)
     ''signup'' (isShortState demo_browser demo_provider) = Return (demo_state, demo_browser)"
proof -
  have "isShortState demo_browser demo_provider = False"
    by (simp add: isShortState_def demo_defs)
  moreover have "stateApplicationName demo_app = ''app-demo''" "pr_name demo_provider = ''gh''"
    by (simp_all add: stateApplicationName_def demo_defs)
  ultimately show ?thesis
    using getState_long [OF demo_location, of "''signup''" "''app-demo''" "''gh''"]
    by (simp add: demo_state_def is_ascii_def)
qed

text \<open>
  For every OAuth provider type that the provider editor offers, starting a sign-in from an
  ordinary page never throws. It yields an address exactly when the type is none of
  \<open>WeChatMiniProgram\<close>, \<open>Mailru\<close> and \<open>Soundcloud\<close>: for these three the chain of cases names no
  branch (it spells the last two \<open>MailRu\<close> and \<open>SoundCloud\<close>) and the result is \<open>undefined\<close>.
\<close>

lemma getAuthUrl_offered_types:
  assumes "i \<in> set (getProviderTypeOptions ''OAuth'')" and "pr_type p = to_id i"
    and "ascii_location b" and "list_all is_ascii method"
  shows "\<exists>url b'. getAuthUrl rnd sha b (Some a) (Some p) method code = Return (url, b')
           \<and> (url = None \<longleftrightarrow> pr_type p \<in> {''WeChatMiniProgram'', ''Mailru'', ''Soundcloud''})"
proof -
  obtain info where info: "authInfo (normalizedType p) = Some info"
    using option_normalizedType(1) [OF assms(1,2)] by blast
  obtain st b1 where st: "getStateFromQueryParams b (stateApplicationName a) (pr_name p) method
      (isShortState b p) = Return (st, b1)"
    using getState_long [OF assms(3,4)]
    by (cases "isShortState b p") (auto simp: getStateFromQueryParams_def)
  obtain u msgs where u: "authUrlByType b p info (authParts rnd sha b a p info st) code = (u, msgs)"
    by (cases "authUrlByType b p info (authParts rnd sha b a p info st) code")
  then have "u = None \<longleftrightarrow> pr_type p \<in> set unsupportedTypes"
    using authUrlByType_None_iff [of b p info] option_normalizedType(2) [OF assms(1,2)]
    by (metis fst_conv)
  with info st u show ?thesis
    by (simp add: getAuthUrl_def unsupportedTypes_def)
qed

lemma getAuthUrl_offered_types_example:
  "\<exists>url b'. getAuthUrl (replicate 32 7) (\<lambda>_. replicate 32 1) demo_browser (Some demo_app)
       (Some demo_provider) ''signup'' None = Return (url, b') \<and> url \<noteq> None"
proof -
  have "opt ''GitHub'' ''GitHub'' \<in> set (getProviderTypeOptions ''OAuth'')"
    by (simp add: getProviderTypeOptions_def typeOptions_OAuth_def)
  moreover have "pr_type demo_provider = to_id (opt ''GitHub'' ''GitHub'')"
    by (simp add: demo_defs)
  moreover have "list_all is_ascii ''signup''" by (simp add: is_ascii_def)
  ultimately show ?thesis
    using getAuthUrl_offered_types [of "opt ''GitHub'' ''GitHub''" demo_provider demo_browser
        "''signup''" "replicate 32 7" "\<lambda>_. replicate 32 1" demo_app None] demo_location
    by fastforce
qed

text \<open>
  After \<open>getAuthUrl\<close> has returned, the state that it put into the address leads back to the code
  verifier drawn in that call and to the packed query.
\<close>

lemma state_roundtrip:
  assumes url: "getAuthUrl rnd sha b (Some a) (Some p) method code = Return (url, b')"
    and st: "getStateFromQueryParams b (stateApplicationName a) (pr_name p) method
               (isShortState b p) = Return (st, b1)"
    and meth: "method \<in> {''signup'', ''signin'', ''link''}"
    and own: "\<forall>k \<in> {''application'', ''provider'', ''method''}.
                usp_get (URLSearchParams (br_search b)) k = None"
    and fresh: "\<not> isShortState b p \<Longrightarrow> br_session b st = None"
  defines "q \<equiv> stateQuery b (stateApplicationName a) (pr_name p) method"
  shows "getCodeVerifier b' (Some st) = Some (generateCodeVerifier rnd)
    \<and> getQueryParamsFromState b' st = Return q
    \<and> usp_get (URLSearchParams q) ''application'' = Some (stateApplicationName a)
    \<and> usp_get (URLSearchParams q) ''provider'' = Some (pr_name p)
    \<and> usp_get (URLSearchParams q) ''method'' = Some method"
proof -
  let ?q = "stateQuery b (stateApplicationName a) (pr_name p) method"
  from url obtain msgs where b': "b' = fold emit msgs (storeCodeVerifier st (generateCodeVerifier rnd) b1)"
    using st by (elim getAuthUrl_Return) simp
  then have "getCodeVerifier b' (Some st) = Some (generateCodeVerifier rnd)"
    by (simp add: getCodeVerifier_def)
  moreover have "getQueryParamsFromState b' st = Return ?q"
    using getQueryParams_getState [OF st fresh] getQueryParamsFromState_session [of b' b1] b' by simp
  moreover have "CHR ''&'' \<notin> set method" "form_decode method = method"
    using meth by auto
  then have "URLSearchParams ?q = URLSearchParams (br_search b)
     @ [(''application'', stateApplicationName a), (''provider'', pr_name p), (''method'', method)]
     @ fromParams b method"
    by (rule URLSearchParams_stateQuery)
  ultimately show ?thesis
    using own by (simp add: usp_get_append q_def)
qed

lemma demo_getAuthUrl:
  "\<exists>url b'. getAuthUrl (replicate 32 7) (\<lambda>_. replicate 32 1) demo_browser (Some demo_app)
       (Some demo_provider) ''signup'' None = Return (url, b')"
proof -
  have "authInfo (normalizedType demo_provider) \<noteq> None"
    by (simp add: authInfo_def normalizedType_def demo_defs authInfo1_def)
  then show ?thesis by (auto simp: getAuthUrl_def demo_getState case_prod_beta)
qed

lemma demo_own_params:
  "\<forall>k \<in> {''application'', ''provider'', ''method''}.
     usp_get (URLSearchParams (br_search demo_browser)) k = None"
  by (simp add: demo_defs URLSearchParams_def parse_pairs_def parse_pair_def)

text \<open>
  Most addresses carry the state without encoding it, and the receiver reads \<open>+\<close> as a space. A
  long state comes back unchanged exactly when no character at a position 2, 5, 8, .. of the
  packed query is \<open>>\<close> or \<open>~\<close>; \<open>encodeURIComponent\<close> leaves \<open>~\<close> as it is, so an application name
  with a tilde can break the sign-in.
\<close>

lemma long_state_in_query:
  assumes "ascii_location b" and "list_all is_ascii method"
    and "getStateFromQueryParams b appName provName method False = Return (st, b')"
  shows "form_decode st = st
    \<longleftrightarrow> (\<forall>c \<in> set (thirds (stateQuery b appName provName method)). c \<noteq> CHR ''>'' \<and> c \<noteq> CHR ''~'')"
proof -
  let ?q = "stateQuery b appName provName method"
  have st: "st = b64_encode (map of_char ?q)"
    using assms(3) unfolding getState_long [OF assms(1,2)] by (metis Inr_inject fst_conv)
  have ascii: "list_all (\<lambda>n. n < 128) (map of_char ?q :: nat list)"
    using stateQuery_ascii [OF assms(1,2)] by (simp add: list_all_iff is_ascii_def)
  have "CHR ''%'' \<notin> set st" unfolding st by (rule b64_encode_no_pct) (use ascii in \<open>simp add: list_all_iff\<close>)
  then have "form_decode st = st \<longleftrightarrow> CHR ''+'' \<notin> set st"
    by (rule form_decode_plus_iff)
  also have "\<dots> \<longleftrightarrow> (\<forall>c \<in> set (thirds ?q). (of_char c :: nat) \<noteq> 62 \<and> (of_char c :: nat) \<noteq> 126)"
    unfolding st using b64_plus_iff [OF ascii] by (auto simp: thirds_map)
  also have "\<dots> \<longleftrightarrow> (\<forall>c \<in> set (thirds ?q). c \<noteq> CHR ''>'' \<and> c \<noteq> CHR ''~'')"
    using of_char_62_126 by simp
  finally show ?thesis .
qed

lemma long_state_in_query_example:
  "\<exists>st b'. getStateFromQueryParams demo_browser ''ap~demo'' ''gh'' ''signup'' False = Return (st, b')
     \<and> form_decode st \<noteq> st"
proof -
  have ascii: "list_all is_ascii ''signup''" by (simp add: is_ascii_def)
  note st = getState_long [OF demo_location ascii, of "''ap~demo''" "''gh''"]
  have "CHR ''~'' \<in> set (thirds (stateQuery demo_browser ''ap~demo'' ''gh'' ''signup''))"
    by (simp add: stateQuery_def demo_defs encodeURIComponent_def uri_unreserved_def is_alpha_def
        is_lower_def is_upper_def is_digit_def)
  with long_state_in_query [OF demo_location ascii st] st show ?thesis by blast
qed

text \<open>
  A code verifier made of 32 random bytes has the 43 characters of the URL-safe alphabet that
  RFC 7636 asks for, and different draws give different verifiers.
\<close>

lemma code_verifier_wf:
  assumes "length rnd = 32" and "list_all (\<lambda>b. b < 256) rnd"
    and "list_all (\<lambda>b. b < 256) rnd'"
  shows "length (generateCodeVerifier rnd) = 43
    \<and> (\<forall>c \<in> set (generateCodeVerifier rnd). is_alpha c \<or> is_digit c \<or> c \<in> {CHR ''-'', CHR ''_''})
    \<and> (generateCodeVerifier rnd = generateCodeVerifier rnd' \<longrightarrow> rnd = rnd')"
  using generateCodeVerifier_wf [OF assms(1,2)] generateCodeVerifier_inj [OF assms(2,3)] by blast

lemma code_verifier_wf_example:
  "length (generateCodeVerifier (replicate 32 7)) = 43
     \<and> list_all (\<lambda>c. is_alpha c \<or> is_digit c \<or> c \<in> {CHR ''-'', CHR ''_''})
          (generateCodeVerifier (replicate 32 7))
     \<and> generateCodeVerifier (replicate 32 7) \<noteq> generateCodeVerifier (replicate 32 8)"
proof -
  have "list_all (\<lambda>b::nat. b < 256) (replicate 32 7)" "list_all (\<lambda>b::nat. b < 256) (replicate 32 8)"
    by (simp_all add: list_all_iff)
  from code_verifier_wf [OF _ this] show ?thesis by (simp add: list_all_iff)
qed

end
