(* ===== verification/Js_Object.thy ===== *)
theory Js_Object
  imports Prelude "HOL-Library.AList" "HOL-Library.Multiset"
begin

text \<open>
  JavaScript values, objects and arrays as the editable tables of the console use them: an object
  is the list of its own properties in insertion order, an array read outside its bounds gives
  \<open>undefined\<close>, \<open>slice\<close> counts negative bounds from the end. Numbers are the integers the tables
  hold (row keys, counters, lengths).
\<close>

section \<open>Values\<close>

datatype jsval =
    JUndefined
  | JNull
  | JBool bool
  | JNum int
  | JStr string
  | JArr "jsval list"
  | JObj "(string \<times> jsval) list"

text \<open>An argument or a property that may be missing in either of the two ways.\<close>

datatype 'a arg = Undefined | Null | Val 'a

text \<open>\<open>obj[key]\<close>: reading a property of \<open>undefined\<close> or \<open>null\<close> throws.\<close>

definition prop_of :: "(string \<times> jsval) list \<Rightarrow> string \<Rightarrow> jsval" where
  "prop_of ps k = (case map_of ps k of None \<Rightarrow> JUndefined | Some v \<Rightarrow> v)"

fun js_get :: "jsval \<Rightarrow> string \<Rightarrow> jsval result" where
  "js_get (JObj ps) k = Return (prop_of ps k)"
| "js_get JUndefined k = Throw TypeError"
| "js_get JNull k = Throw TypeError"
| "js_get _ k = Return JUndefined"

text \<open>
  \<open>obj[key] = value\<close> in strict mode: an existing property keeps its place, a new one comes last; a
  property set on a primitive value throws. A named property of an array leaves its elements.
\<close>

fun js_set :: "jsval \<Rightarrow> string \<Rightarrow> jsval \<Rightarrow> jsval result" where
  "js_set (JObj ps) k v = Return (JObj (AList.update k v ps))"
| "js_set (JArr xs) k v = Return (JArr xs)"
| "js_set _ k v = Throw TypeError"

text \<open>\<open>delete obj[key]\<close> of an own property.\<close>

fun js_delete :: "jsval \<Rightarrow> string \<Rightarrow> jsval" where
  "js_delete (JObj ps) k = JObj (AList.delete k ps)"
| "js_delete v k = v"

definition is_obj :: "jsval \<Rightarrow> bool" where
  "is_obj v = (case v of JObj ps \<Rightarrow> True | _ \<Rightarrow> False)"

lemma is_obj_simps [simp]:
  "is_obj (JObj ps)" "\<not> is_obj JUndefined" "\<not> is_obj JNull" "\<not> is_obj (JStr s)"
  "\<not> is_obj (JBool b)" "\<not> is_obj (JNum n)" "\<not> is_obj (JArr xs)"
  by (simp_all add: is_obj_def)

lemma is_objE: "is_obj v \<Longrightarrow> (\<And>ps. v = JObj ps \<Longrightarrow> P) \<Longrightarrow> P"
  by (cases v) simp_all

lemma prop_of_simps [simp]:
  "prop_of [] k = JUndefined"
  "prop_of ((k', v) # ps) k = (if k' = k then v else prop_of ps k)"
  by (simp_all add: prop_of_def)

lemma prop_of_update [simp]: "prop_of (AList.update k v ps) k' = (if k' = k then v else prop_of ps k')"
  by (simp add: prop_of_def update_conv)

lemma prop_of_delete [simp]: "prop_of (AList.delete k ps) k' = (if k' = k then JUndefined else prop_of ps k')"
  by (simp add: prop_of_def delete_conv)

text \<open>The property of a row that is known to be an object.\<close>

definition field :: "jsval \<Rightarrow> string \<Rightarrow> jsval" where
  "field v k = (case v of JObj ps \<Rightarrow> prop_of ps k | _ \<Rightarrow> JUndefined)"

lemma field_simps [simp]:
  "field (JObj ps) k = prop_of ps k" "field JUndefined k = JUndefined"
  by (simp_all add: field_def)

lemma js_get_field: "is_obj v \<Longrightarrow> js_get v k = Return (field v k)"
  by (erule is_objE) simp

lemma js_set_obj:
  assumes "is_obj v"
  obtains w where "js_set v k x = Return w" "is_obj w"
    "\<And>k'. field w k' = (if k' = k then x else field v k')"
  using assms by (elim is_objE) simp

text \<open>\<open>Boolean(v)\<close>.\<close>

fun js_bool :: "jsval \<Rightarrow> bool" where
  "js_bool JUndefined = False"
| "js_bool JNull = False"
| "js_bool (JBool b) = b"
| "js_bool (JNum n) = (n \<noteq> 0)"
| "js_bool (JStr s) = (s \<noteq> [])"
| "js_bool (JArr xs) = True"
| "js_bool (JObj ps) = True"

section \<open>Numbers in template strings\<close>

function show_nat :: "nat \<Rightarrow> string" where
  "show_nat n = (if n < 10 then [char_of (48 + n)] else show_nat (n div 10) @ [char_of (48 + n mod 10)])"
  by pat_completeness auto
termination by (relation "measure id") auto

declare show_nat.simps [simp del]

lemma show_nat_small [simp]: "n < 10 \<Longrightarrow> show_nat n = [char_of (48 + n)]"
  by (simp add: show_nat.simps)

lemma show_nat_digits: "show_nat 0 = ''0''" "show_nat (Suc 0) = ''1''"
  by code_simp+

lemma show_nat_not_Nil [simp]: "show_nat n \<noteq> []"
  by (subst show_nat.simps) simp

lemma char_of_48_inj: "a < 10 \<Longrightarrow> b < 10 \<Longrightarrow> char_of (48 + a) = char_of (48 + (b::nat)) \<Longrightarrow> a = b"
  by (simp add: char_of_eq_iff of_char_of take_bit_eq_mod)

lemma show_nat_inj: "show_nat m = show_nat n \<Longrightarrow> m = n"
proof (induction m arbitrary: n rule: less_induct)
  case (less m)
  show ?case
  proof (cases "m < 10 \<and> n < 10")
    case True
    with less.prems show ?thesis using char_of_48_inj by simp
  next
    case False
    then have "\<not> m < 10" "\<not> n < 10"
      using less.prems show_nat.simps [of m] show_nat.simps [of n]
      by (auto split: if_splits dest: sym [of "[]"])
    with less.prems have "show_nat (m div 10) = show_nat (n div 10)"
      and digit: "char_of (48 + m mod 10) = char_of (48 + n mod 10)"
      by (simp_all add: show_nat.simps [of m] show_nat.simps [of n])
    moreover have "m div 10 < m" using \<open>\<not> m < 10\<close> by simp
    ultimately have "m div 10 = n div 10" by (intro less.IH)
    moreover have "m mod 10 = n mod 10"
      by (rule char_of_48_inj [OF _ _ digit]) simp_all
    ultimately show ?thesis by (metis div_mult_mod_eq)
  qed
qed

definition show_int :: "int \<Rightarrow> string" where
  "show_int n = (if n < 0 then CHR ''-'' # show_nat (nat (- n)) else show_nat (nat n))"

text \<open>\<open>String(v)\<close>, as a template string interpolates a value.\<close>

fun js_text :: "jsval \<Rightarrow> string" where
  "js_text JUndefined = ''undefined''"
| "js_text JNull = ''null''"
| "js_text (JBool b) = (if b then ''true'' else ''false'')"
| "js_text (JNum n) = show_int n"
| "js_text (JStr s) = s"
| "js_text (JArr xs) = js_join '','' (map (\<lambda>x. if x = JUndefined \<or> x = JNull then [] else js_text x) xs)"
| "js_text (JObj ps) = ''[object Object]''"

section \<open>Arrays\<close>

text \<open>\<open>xs[i]\<close>, \<open>xs.slice(a, b)\<close> and \<open>xs.slice(a)\<close> for any integers.\<close>

definition js_at :: "jsval list \<Rightarrow> int \<Rightarrow> jsval" where
  "js_at xs i = (if 0 \<le> i \<and> i < int (length xs) then xs ! nat i else JUndefined)"

definition slice_bound :: "'a list \<Rightarrow> int \<Rightarrow> nat" where
  "slice_bound xs i = (if i < 0 then nat (int (length xs) + i) else nat i)"

definition js_slice2 :: "'a list \<Rightarrow> int \<Rightarrow> int \<Rightarrow> 'a list" where
  "js_slice2 xs a b = js_slice xs (slice_bound xs a) (slice_bound xs b)"

definition js_slice1 :: "'a list \<Rightarrow> int \<Rightarrow> 'a list" where
  "js_slice1 xs a = drop (slice_bound xs a) xs"

lemma js_at_nth [simp]: "i < length xs \<Longrightarrow> js_at xs (int i) = xs ! i"
  by (simp add: js_at_def)

lemma slice_bound_nat [simp]: "slice_bound xs (int i) = i"
  by (simp add: slice_bound_def)

text \<open>\<open>xs[i] = v\<close>: an index past the end extends the array.\<close>

definition js_put :: "jsval list \<Rightarrow> nat \<Rightarrow> jsval \<Rightarrow> jsval list" where
  "js_put xs i v =
     (if i < length xs then xs[i := v] else xs @ replicate (i - length xs) JUndefined @ [v])"

lemma list_all_update: "list_all P xs \<Longrightarrow> P x \<Longrightarrow> list_all P (xs[i := x])"
  using set_update_subset_insert [of xs i x] by (auto simp: list_all_iff)

lemma find_hit: "x \<in> set xs \<Longrightarrow> P x \<Longrightarrow> \<exists>y \<in> set xs. P y \<and> find P xs = Some y"
  by (induction xs) auto

end
