(* ===== verification/Auth_Callback.thy ===== *)
theory Auth_Callback
  imports OAuth_Provider Js_Object
begin

text \<open>
  The page to which an identity provider returns. There are two of them: the React component
  \<open>web/src/auth/AuthCallback.js\<close> and the small static script \<open>web/public/AuthCallbackHandler.js\<close>
  that is served first and that repeats the component's logic. Both unpack the state, build the
  body of the login request, send it, and navigate where the answer says. The definitions of the
  static page carry the prefix \<open>static_\<close>.

  A request and the handling of its answer are separate operations, since the pages wait in
  between. What \<open>new URL\<close> computes of a foreign address is a parameter: its origin, and the address
  with a further query parameter. So is the JSON text of the payload that the static page leaves
  for the React page in the session storage.
\<close>

section \<open>The platform\<close>

record login_response =
  lr_status :: string
  lr_msg :: string
  lr_data :: string
  lr_data2 :: jsval
  lr_data3 :: bool

text \<open>
  What the React page reads of the payload; it also holds the request body, which only the form for
  a second factor needs.
\<close>

record react_payload =
  rp_search :: string
  rp_flow :: string
  rp_res :: login_response
  rp_responseType :: "string option"
  rp_innerParams :: "string option"
  rp_casService :: "string option"

record urls =
  url_origin :: "string \<Rightarrow> string result"                        \<comment> \<open>\<open>new URL(u).origin\<close>\<close>
  url_append :: "string \<Rightarrow> string \<Rightarrow> string \<Rightarrow> string result"      \<comment> \<open>\<open>searchParams.append(k, v)\<close>\<close>
  show_payload :: "react_payload \<Rightarrow> string"                      \<comment> \<open>\<open>JSON.stringify\<close>\<close>
  parse_payload :: "string \<Rightarrow> react_payload result"              \<comment> \<open>\<open>JSON.parse\<close>\<close>

text \<open>\<open>parseInt(s, 10)\<close>, with \<^term>\<open>None\<close> for \<open>NaN\<close>.\<close>

definition digits_val :: "string \<Rightarrow> int" where
  "digits_val ds = foldl (\<lambda>n c. 10 * n + (of_char c - 48)) 0 ds"

definition js_parseInt :: "string \<Rightarrow> int option" where
  "js_parseInt s =
     (let t = dropWhile is_space s;
          neg = (case t of c # _ \<Rightarrow> c = CHR ''-'' | [] \<Rightarrow> False);
          u = (case t of c # r \<Rightarrow> if c \<in> set ''+-'' then r else t | [] \<Rightarrow> []);
          ds = takeWhile is_digit u in
      if ds = [] then None else Some (if neg then - digits_val ds else digits_val ds))"

section \<open>Requests of AuthBackend.js\<close>

definition oAuthParamsToQuery :: "oauth_params option \<Rightarrow> string" where
  "oAuthParamsToQuery ps =
     (case ps of
        None \<Rightarrow> []
      | Some p \<Rightarrow>
          let resourceQuery = (if oa_resource p \<noteq> [] then ''&resource='' @ encodeURIComponent (oa_resource p) else []) in
          ''?clientId='' @ oa_clientId p @ ''&responseType='' @ oa_responseType p
          @ ''&redirectUri='' @ encodeURIComponent (oa_redirectUri p) @ ''&type='' @ oa_type p
          @ ''&scope='' @ oa_scope p @ ''&state='' @ oa_state p @ ''&nonce='' @ oa_nonce p
          @ ''&code_challenge_method='' @ oa_challengeMethod p
          @ ''&code_challenge='' @ oa_codeChallenge p @ resourceQuery)"

definition casLoginParamsToQuery :: "cas_login_params option \<Rightarrow> string" where
  "casLoginParamsToQuery ps =
     ''?type='' @ js_undef_str (map_option cl_type ps) @ ''&id='' @ js_undef_str (map_option cl_id ps)
     @ ''&redirectUri='' @ js_undef_str (map_option cl_service ps)"

definition login_url :: "string \<Rightarrow> oauth_params option \<Rightarrow> string" where
  "login_url serverUrl ps = serverUrl @ ''/api/login'' @ oAuthParamsToQuery ps"

definition loginCas_url :: "string \<Rightarrow> string option \<Rightarrow> string" where
  "loginCas_url serverUrl service = serverUrl @ ''/api/login?service='' @ js_null_str service"

section \<open>The body of the login request\<close>

text \<open>The code: text of the address, or the JSON text of the data that Telegram sends.\<close>

record telegram_data =
  tg_id :: "int option"
  tg_fields :: "(string \<times> string) list"

datatype callback_code =
    NoCode
  | CodeText string
  | TelegramCode telegram_data

record login_body =
  lb_type :: string
  lb_application :: "string option"
  lb_provider :: "string option"
  lb_code :: callback_code
  lb_samlRequest :: "string option"
  lb_state :: "string option"
  lb_invitationCode :: string
  lb_redirectUri :: string
  lb_method :: "string option"
  lb_codeVerifier :: "string option"

text \<open>The fields of Telegram: \<open>hash\<close> and \<open>auth_date\<close> when truthy, the optional ones when not empty.\<close>

definition telegramData :: "params \<Rightarrow> string \<Rightarrow> telegram_data" where
  "telegramData ps telegramId =
     \<lparr>tg_id = js_parseInt telegramId,
      tg_fields = List.map_filter (\<lambda>k. case usp_get ps k of
          None \<Rightarrow> None | Some v \<Rightarrow> if v = [] then None else Some (k, v))
        [''hash'', ''auth_date'', ''first_name'', ''last_name'', ''username'', ''photo_url'']\<rparr>"

definition withTelegram :: "params \<Rightarrow> string option \<Rightarrow> callback_code" where
  "withTelegram ps code =
     (case usp_get ps ''id'' of
        Some telegramId \<Rightarrow>
          if \<not> js_truthy code then TelegramCode (telegramData ps telegramId)
          else (case code of None \<Rightarrow> NoCode | Some c \<Rightarrow> CodeText c)
      | None \<Rightarrow> (case code of None \<Rightarrow> NoCode | Some c \<Rightarrow> CodeText c))"

definition callbackCode :: "browser \<Rightarrow> params \<Rightarrow> callback_code" where
  "callbackCode b ps =
     (let isSteam = usp_get ps ''openid.mode'';
          code1 = usp_get ps ''code'';
          code2 = (case code1 of None \<Rightarrow> usp_get ps ''auth_code'' | c \<Rightarrow> c);
          code3 = (case code2 of None \<Rightarrow> usp_get ps ''authCode'' | c \<Rightarrow> c);
          code4 = (case code3 of None \<Rightarrow> br_local b (js_null_str (usp_get ps ''web3AuthTokenKey'')) | c \<Rightarrow> c);
          code5 = (if isSteam \<noteq> None \<and> code4 = None then Some (br_search b) else code4) in
      withTelegram ps code5)"

text \<open>\<open>a || b || c\<close> on values that may be \<open>null\<close>.\<close>

definition js_or_opt :: "string option \<Rightarrow> string option \<Rightarrow> string option" where
  "js_or_opt a c = (if js_truthy a then a else c)"

definition static_extractCallbackCode :: "browser \<Rightarrow> params \<Rightarrow> callback_code" where
  "static_extractCallbackCode b ps =
     (let isSteam = usp_get ps ''openid.mode'';
          code1 = js_or_opt (js_or_opt (usp_get ps ''code'') (usp_get ps ''auth_code'')) (usp_get ps ''authCode'');
          code2 = (case code1 of
              None \<Rightarrow> (case usp_get ps ''web3AuthTokenKey'' of None \<Rightarrow> None | Some k \<Rightarrow> br_local b k)
            | c \<Rightarrow> c);
          code3 = (if isSteam \<noteq> None \<and> code2 = None then Some (br_search b) else code2) in
      withTelegram ps code3)"

section \<open>The response type\<close>

definition getResponseType :: "urls \<Rightarrow> string \<Rightarrow> params \<Rightarrow> string result" where
  "getResponseType u authServerUrl innerParams =
     (let meth = usp_get innerParams ''method'' in
      if meth = Some ''signup'' \<or> meth = Some ''signin'' then
        (case usp_get innerParams ''redirect_uri'' of
           None \<Rightarrow>
             let samlRequest = usp_get innerParams ''SAMLRequest'';
                 casService = usp_get innerParams ''service'' in
             Return (if samlRequest \<noteq> None \<and> samlRequest \<noteq> Some [] then ''saml''
                     else if casService \<noteq> None \<and> casService \<noteq> Some [] then ''cas''
                     else ''login'')
         | Some realRedirectUri \<Rightarrow>
             bind_result (url_origin u realRedirectUri) (\<lambda>realRedirectUrl.
               if authServerUrl = realRedirectUrl then Return ''login''
               else (case usp_get innerParams ''response_type'' of
                       Some responseType \<Rightarrow> Return responseType
                     | None \<Rightarrow> Return ''code'')))
      else if meth = Some ''link'' then Return ''link''
      else Return ''unknown'')"

definition static_getResponseType :: "urls \<Rightarrow> browser \<Rightarrow> params \<Rightarrow> string result" where
  "static_getResponseType u b innerParams =
     (let meth = usp_get innerParams ''method'' in
      if meth = Some ''signup'' \<or> meth = Some ''signin'' then
        (case usp_get innerParams ''redirect_uri'' of
           None \<Rightarrow>
             Return (if js_truthy (usp_get innerParams ''SAMLRequest'') then ''saml''
                     else if js_truthy (usp_get innerParams ''service'') then ''cas''
                     else ''login'')
         | Some realRedirectUri \<Rightarrow>
             bind_result (url_origin u realRedirectUri) (\<lambda>realRedirectUrl.
               if br_origin b = realRedirectUrl then Return ''login''
               else Return (js_or (usp_get innerParams ''response_type'') ''code'')))
      else if meth = Some ''link'' then Return ''link''
      else Return ''unknown'')"

section \<open>Sending the login request\<close>

definition reactFallbackPayloadKey :: string where
  "reactFallbackPayloadKey = ''casdoor_callback_react_fallback''"

datatype callback_request =
    CasLogin string login_body "string option"
  | OAuthLogin string login_body "oauth_params option"
  | StoredPayload
  | MissingState

definition callbackBody :: "browser \<Rightarrow> string \<Rightarrow> params \<Rightarrow> callback_code \<Rightarrow> string option \<Rightarrow> login_body" where
  "callbackBody b responseType innerParams code verifier =
     \<lparr>lb_type = responseType, lb_application = usp_get innerParams ''application'',
      lb_provider = usp_get innerParams ''provider'', lb_code = code,
      lb_samlRequest = usp_get innerParams ''SAMLRequest'',
      lb_state = usp_get innerParams ''application'',
      lb_invitationCode = js_or (usp_get innerParams ''invitationCode'') [],
      lb_redirectUri = br_origin b @ ''/callback'', lb_method = usp_get innerParams ''method'',
      lb_codeVerifier = verifier\<rparr>"

text \<open>
  The static page reads the raw parameters from the unpacked query and always sends the
  parameters; it has no \<open>samlRequest\<close> and no \<open>noRedirect\<close> among them.
\<close>

definition static_getOAuthGetParameters :: "params \<Rightarrow> string \<Rightarrow> oauth_params result" where
  "static_getOAuthGetParameters innerParams queryString =
     (let lowercaseQueries = usp_lower innerParams;
          get = (\<lambda>k. js_or (usp_get innerParams k) []) in
      bind_result (raw_parameter ''redirect_uri'' queryString) (\<lambda>rawRedirect.
      let redirectUri = (if rawRedirect = [] then get ''redirect_uri'' else rawRedirect);
          inFragment = js_includes redirectUri ''#'' in
      bind_result
        (if inFragment \<and> get ''scope'' = [] then raw_parameter ''scope'' queryString
         else Return (get ''scope'')) (\<lambda>scope.
      bind_result
        (if inFragment \<and> get ''state'' = [] then raw_parameter ''state'' queryString
         else Return (get ''state'')) (\<lambda>state.
      Return
        \<lparr>oa_clientId = get ''client_id'', oa_responseType = get ''response_type'',
         oa_redirectUri = redirectUri, oa_scope = scope, oa_state = state, oa_nonce = get ''nonce'',
         oa_challengeMethod = get ''code_challenge_method'',
         oa_codeChallenge = get ''code_challenge'', oa_responseMode = get ''response_mode'',
         oa_samlRequest = [], oa_relayState = js_or (lowercaseQueries ''relaystate'') [],
         oa_noRedirect = [], oa_resource = get ''resource'', oa_type = ''code''\<rparr>))))"

definition static_loginCas_url :: "browser \<Rightarrow> string \<Rightarrow> string" where
  "static_loginCas_url b casService = br_origin b @ ''/api/login?service='' @ encodeURIComponent casService"

definition static_run :: "urls \<Rightarrow> browser \<Rightarrow> (callback_request \<times> browser) result" where
  "static_run u b0 =
     (let b = emit (SetStatus ''Signing in...'' False) b0;
          ps = URLSearchParams (br_search b); st = usp_get ps ''state'' in
      if \<not> js_truthy st then Return (MissingState, emit (SetStatus ''Missing callback state.'' True) b)
      else bind_result (getQueryParamsFromState b (js_null_str st)) (\<lambda>queryString.
      let innerParams = URLSearchParams queryString; code = static_extractCallbackCode b ps in
      bind_result (static_getResponseType u b innerParams) (\<lambda>responseType.
      let codeVerifier = getCodeVerifier b st;
          body = callbackBody b responseType innerParams code codeVerifier;
          b1 = (if js_truthy codeVerifier then clearCodeVerifier st b else b) in
      if responseType = ''cas'' then
        let casService = js_or (usp_get innerParams ''service'') [] in
        Return (CasLogin (static_loginCas_url b casService) body (Some casService), b1)
      else bind_result (static_getOAuthGetParameters innerParams queryString) (\<lambda>oAuthParams.
        Return (OAuthLogin (login_url (br_origin b) (Some oAuthParams)) body (Some oAuthParams), b1)))))"

section \<open>Handling the answer\<close>

text \<open>The properties of a second factor that the code reads, from the JSON of the answer.\<close>

definition mfaPropOf :: "jsval \<Rightarrow> mfa_prop" where
  "mfaPropOf v =
     \<lparr>mp_mfaType = js_text (field v ''mfaType''), mp_enabled = js_bool (field v ''enabled''),
      mp_isPreferred = js_bool (field v ''isPreferred'')\<rparr>"

definition getPreferredMfaProp :: "mfa_prop list \<Rightarrow> mfa_prop option" where
  "getPreferredMfaProp mfaProps =
     (case find mp_isPreferred mfaProps of
        Some m \<Rightarrow> Some m
      | None \<Rightarrow> (case mfaProps of [] \<Rightarrow> None | m # _ \<Rightarrow> Some m))"

text \<open>
  \<open>Setting.checkLoginMfa\<close>. \<open>redirect\<close> is \<open>requireRedirect\<close>, \<^term>\<open>None\<close> for its default \<open>null\<close>. The
  callback body has no \<open>username\<close>. The list of second factors comes as an array.
\<close>

definition checkLoginMfa ::
  "login_response \<Rightarrow> string option \<Rightarrow> (login_response \<Rightarrow> browser \<Rightarrow> browser result)
    \<Rightarrow> string option \<Rightarrow> browser \<Rightarrow> browser result" where
  "checkLoginMfa res username handleLogin redirect b =
     (if lr_data res = ''RequiredMfa'' then
        Return (emit (LoginSuccess (if js_truthy redirect then js_nullish redirect else br_href b)) b)
      else if lr_data res = ''NextMfa'' then
        (case lr_data2 res of
           JArr ms \<Rightarrow> Return (emit (AskMfa (getPreferredMfaProp (map mfaPropOf ms))) b)
         | _ \<Rightarrow> Throw TypeError)
      else if lr_data res = ''SelectPlan'' then
        bind_result (js_get (lr_data2 res) ''owner'') (\<lambda>owner.
        bind_result (js_get (lr_data2 res) ''name'') (\<lambda>name.
          Return (emit (GoToLink (''/select-plan/'' @ js_text owner @ ''/'' @ js_text name
            @ ''?user='' @ js_undef_str username)) b)))
      else if lr_data res = ''BuyPlanResult'' then
        bind_result (js_get (lr_data2 res) ''owner'') (\<lambda>owner.
        bind_result (js_get (lr_data2 res) ''pricing'') (\<lambda>pricing.
        bind_result (js_get (lr_data2 res) ''name'') (\<lambda>name.
          Return (emit (GoToLink (''/buy-plan/'' @ js_text owner @ ''/'' @ js_text pricing
            @ ''/result?subscription='' @ js_text name)) b))))
      else handleLogin res b)"

text \<open>\<open>createFormAndSubmit\<close>: the React version drops every falsy value, the static one only missing ones.\<close>

definition createFormAndSubmit :: "string \<Rightarrow> (string \<times> string option) list \<Rightarrow> effect" where
  "createFormAndSubmit url ps =
     SubmitForm url (List.map_filter (\<lambda>(k, v). if js_truthy v then map_option (Pair k) v else None) ps)"

definition static_createFormAndSubmit :: "string \<Rightarrow> (string \<times> string option) list \<Rightarrow> effect" where
  "static_createFormAndSubmit url ps = SubmitForm url (List.map_filter (\<lambda>(k, v). map_option (Pair k) v) ps)"

definition getFromLink :: "browser \<Rightarrow> string" where
  "getFromLink b = (case br_session b ''from'' of None \<Rightarrow> ''/'' | Some f \<Rightarrow> f)"

definition goToLinkSoftOrJumpSelf :: "string \<Rightarrow> browser \<Rightarrow> browser" where
  "goToLinkSoftOrJumpSelf link b =
     (if js_startsWith link ''http'' then emit (GoToLink link) b else emit (HistoryPush link) b)"

definition concatChar :: "string \<Rightarrow> string" where
  "concatChar redirectUri = (if js_includes redirectUri ''?'' then ''&'' else ''?'')"

text \<open>The page of a user who has to consent or complete a profile first (\<open>res.data3\<close>).\<close>

definition goToAccount :: "browser \<Rightarrow> browser" where
  "goToAccount b =
     emit (GoToLink ''/account'') (set_session ''signinUrl'' (js_null_str (br_local b ''signinUrl'')) b)"

definition codeLink :: "oauth_params \<Rightarrow> string \<Rightarrow> string" where
  "codeLink p code =
     oa_redirectUri p @ concatChar (oa_redirectUri p) @ ''code='' @ encodeURIComponent code
     @ ''&state='' @ encodeURIComponent (oa_state p)"

definition tokenLink :: "oauth_params \<Rightarrow> string \<Rightarrow> string \<Rightarrow> string" where
  "tokenLink p responseType token =
     oa_redirectUri p @ concatChar (oa_redirectUri p) @ responseType @ ''='' @ encodeURIComponent token
     @ ''&state='' @ encodeURIComponent (oa_state p) @ ''&token_type=bearer''"

definition tokenForm :: "oauth_params \<Rightarrow> string list \<Rightarrow> string \<Rightarrow> (string \<times> string option) list" where
  "tokenForm p responseTypes token =
     [(''token'', if ''token'' \<in> set responseTypes then Some token else None),
      (''id_token'', if ''id_token'' \<in> set responseTypes then Some token else None),
      (''token_type'', Some ''bearer''), (''state'', Some (oa_state p))]"

definition samlLink :: "string \<Rightarrow> string \<Rightarrow> string \<Rightarrow> string" where
  "samlLink redirectUri samlResponse relayState =
     redirectUri @ (if js_includes redirectUri ''?'' then ''&'' else ''?'') @ ''SAMLResponse=''
     @ encodeURIComponent samlResponse @ ''&RelayState='' @ relayState"

text \<open>\<open>handleLogin\<close> inside \<open>handleOAuthLoginResult\<close>.\<close>

definition isTokenType :: "string \<Rightarrow> bool" where
  "isTokenType responseType =
     (''token'' \<in> set (js_split responseType '' '') \<or> ''id_token'' \<in> set (js_split responseType '' ''))"

definition handleSaml :: "oauth_params option \<Rightarrow> login_response \<Rightarrow> browser \<Rightarrow> browser result" where
  "handleSaml ps res b =
     bind_result (js_get (lr_data2 res) ''method'') (\<lambda>meth.
     bind_result (if meth \<noteq> JStr ''POST'' \<and> lr_data3 res then Return JUndefined
                  else js_get (lr_data2 res) ''redirectUrl'') (\<lambda>redirectUrl.
       if meth = JStr ''POST'' then
         (case ps of
            None \<Rightarrow> Throw TypeError
          | Some p \<Rightarrow> Return (if lr_data res = [] then b
              else emit (SubmitForm (js_text redirectUrl)
                [(''SAMLResponse'', lr_data res), (''RelayState'', oa_relayState p)]) b))
       else if lr_data3 res then Return (goToAccount b)
       else (case redirectUrl of
          JStr u \<Rightarrow>
            (case ps of None \<Rightarrow> Throw TypeError
             | Some p \<Rightarrow> Return (emit (GoToLink (samlLink u (lr_data res) (oa_relayState p))) b))
        | _ \<Rightarrow> Throw TypeError)))"

definition handleLogin ::
  "params \<Rightarrow> oauth_params option \<Rightarrow> string \<Rightarrow> login_response \<Rightarrow> browser \<Rightarrow> browser result" where
  "handleLogin innerParams ps responseType res b =
     (let responseMode = js_or (map_option oa_responseMode ps) ''query'' in
      if responseType = ''login'' then
        Return (if lr_data3 res then goToAccount b
                else emit (GoToLink (getFromLink b)) (emit (Message ''success'' ''Logged in successfully'') b))
      else if responseType = ''code'' then
        (if lr_data3 res then Return (goToAccount b)
         else case ps of
           None \<Rightarrow> Throw TypeError
         | Some p \<Rightarrow>
             if responseMode = ''form_post''
             then Return (emit (createFormAndSubmit (oa_redirectUri p)
               [(''code'', Some (lr_data res)), (''state'', Some (oa_state p))]) b)
             else Return (emit (GoToLink (codeLink p (lr_data res))) b))
      else if isTokenType responseType then
        (if lr_data3 res then Return (goToAccount b)
         else case ps of
           None \<Rightarrow> Throw TypeError
         | Some p \<Rightarrow>
             if responseMode = ''form_post''
             then Return (emit (createFormAndSubmit (oa_redirectUri p)
               (tokenForm p (js_split responseType '' '') (lr_data res))) b)
             else Return (emit (GoToLink (tokenLink p responseType (lr_data res))) b))
      else if responseType = ''link'' then
        (let from = usp_get innerParams ''from''; oauth = usp_get innerParams ''oauth'' in
         if js_truthy oauth
         then Return (goToLinkSoftOrJumpSelf (js_null_str from @ ''?oauth='' @ js_nullish oauth) b)
         else (case from of
             None \<Rightarrow> Throw TypeError
           | Some f \<Rightarrow> Return (goToLinkSoftOrJumpSelf f b)))
      else if responseType = ''saml'' then handleSaml ps res b
      else Return b)"

definition handleOAuthLoginResult ::
  "login_response \<Rightarrow> params \<Rightarrow> string \<Rightarrow> browser \<Rightarrow> browser result" where
  "handleOAuthLoginResult res innerParams responseType b =
     bind_result (getOAuthGetParameters b (Some innerParams)) (\<lambda>oAuthParams.
       checkLoginMfa res None (handleLogin innerParams oAuthParams responseType) (Some (br_origin b)) b)"

text \<open>The CAS variant: with a service the ticket is appended to its address.\<close>

definition handleCasLoginResult ::
  "urls \<Rightarrow> login_response \<Rightarrow> string option \<Rightarrow> browser \<Rightarrow> browser result" where
  "handleCasLoginResult u res casService b =
     checkLoginMfa res None (\<lambda>res b.
       let msg = ''Logged in successfully.''
             @ (if casService = Some [] then ''Now you can visit apps protected by ArchGuard.'' else []);
           b1 = emit (Message ''success'' msg) b in
       if casService \<noteq> Some [] then
         bind_result (url_append u (js_null_str casService) ''ticket'' (lr_data res))
           (\<lambda>newUrl. Return (emit (GoToLink newUrl) b1))
       else Return b1) None b"

section \<open>The React page\<close>

text \<open>
  The query without the marker of the static page. A query starts with \<open>?\<close> and has no \<open>#\<close>.
\<close>

definition reactFallbackKey :: string where
  "reactFallbackKey = ''__casdoor_callback_react''"

definition getNormalizedSearch :: "string \<Rightarrow> string" where
  "getNormalizedSearch search = url_search (usp_delete (URLSearchParams search) reactFallbackKey)"

definition consumeReactFallbackPayload :: "urls \<Rightarrow> browser \<Rightarrow> react_payload option \<times> browser" where
  "consumeReactFallbackPayload u b =
     (let payload = br_session b reactFallbackPayloadKey in
      if \<not> js_truthy payload then (None, b)
      else case parse_payload u (js_nullish payload) of
        Inl e \<Rightarrow> (None, remove_session reactFallbackPayloadKey b)
      | Inr parsedPayload \<Rightarrow>
          if getNormalizedSearch (rp_search parsedPayload) \<noteq> getNormalizedSearch (br_search b)
          then (None, b)
          else (Some parsedPayload, remove_session reactFallbackPayloadKey b))"

text \<open>The answer that the static page got is handled without a further request.\<close>

definition resumePayload ::
  "urls \<Rightarrow> react_payload \<Rightarrow> string \<Rightarrow> string \<Rightarrow> browser \<Rightarrow> browser result" where
  "resumePayload u p queryString responseType b =
     (if rp_flow p = ''cas'' then
        handleCasLoginResult u (rp_res p)
          (if js_truthy (rp_casService p) then rp_casService p
           else usp_get (URLSearchParams queryString) ''service'') b
      else
        handleOAuthLoginResult (rp_res p) (URLSearchParams (js_or (rp_innerParams p) queryString))
          (js_or (rp_responseType p) responseType) b)"

text \<open>\<open>UNSAFE_componentWillMount\<close> up to the request.\<close>

definition callbackMount :: "urls \<Rightarrow> string \<Rightarrow> browser \<Rightarrow> (callback_request \<times> browser) result" where
  "callbackMount u authServerUrl b =
     (let ps = URLSearchParams (br_search b); st = usp_get ps ''state'' in
      bind_result (getQueryParamsFromState b (js_null_str st)) (\<lambda>queryString.
      let code = callbackCode b ps; innerParams = URLSearchParams queryString;
          codeVerifier = getCodeVerifier b st in
      bind_result (getResponseType u authServerUrl innerParams) (\<lambda>responseType.
      let body = callbackBody b responseType innerParams code codeVerifier;
          b1 = (if js_truthy codeVerifier then clearCodeVerifier st b else b);
          (payload, b2) = consumeReactFallbackPayload u b1 in
      case payload of
        Some p \<Rightarrow>
          bind_result (resumePayload u p queryString responseType b2) (\<lambda>b3. Return (StoredPayload, b3))
      | None \<Rightarrow>
          if responseType = ''cas'' then
            let casService = usp_get innerParams ''service'' in
            Return (CasLogin (loginCas_url authServerUrl casService) body casService, b2)
          else bind_result (getOAuthGetParameters b2 (Some innerParams)) (\<lambda>oAuthParams.
            Return (OAuthLogin (login_url authServerUrl oAuthParams) body oAuthParams, b2)))))"

text \<open>The continuation of the React page after \<open>AuthBackend.login\<close>; an error becomes its message.\<close>

definition callbackResponse ::
  "urls \<Rightarrow> callback_request \<Rightarrow> params \<Rightarrow> login_response \<Rightarrow> browser \<Rightarrow> browser result" where
  "callbackResponse u req innerParams res b =
     (case req of
        CasLogin _ body casService \<Rightarrow>
          if lr_status res = ''ok'' then handleCasLoginResult u res casService b
          else Return (emit (Message ''error'' (''application:Failed to sign in: '' @ lr_msg res)) b)
      | OAuthLogin _ body ps \<Rightarrow>
          if lr_status res = ''ok'' then handleOAuthLoginResult res innerParams (lb_type body) b
          else Return (emit (SetStatus (lr_msg res) True) b)
      | _ \<Rightarrow> Return b)"

section \<open>Handling the answer on the static page\<close>

definition shouldFallbackToReact :: "login_response \<Rightarrow> bool" where
  "shouldFallbackToReact res =
     (lr_data res \<in> {''RequiredMfa'', ''NextMfa'', ''SelectPlan'', ''BuyPlanResult''} \<or> lr_data3 res)"

definition static_getFromLink :: "browser \<Rightarrow> string" where
  "static_getFromLink b = js_or (br_session b ''from'') ''/''"

definition static_saml :: "oauth_params \<Rightarrow> login_response \<Rightarrow> browser \<Rightarrow> browser result" where
  "static_saml p res b =
     (if js_bool (lr_data2 res) then
        bind_result (js_get (lr_data2 res) ''method'') (\<lambda>meth.
        bind_result (js_get (lr_data2 res) ''redirectUrl'') (\<lambda>redirectUrl.
          if meth = JStr ''POST'' then
            Return (emit (static_createFormAndSubmit (js_text redirectUrl)
              [(''SAMLResponse'', Some (lr_data res)), (''RelayState'', Some (oa_relayState p))]) b)
          else (case redirectUrl of
              JStr u \<Rightarrow> Return (emit (ReplaceLocation (samlLink u (lr_data res) (oa_relayState p))) b)
            | _ \<Rightarrow> Throw TypeError)))
      else Return (emit (SetStatus ''Unsupported SAML callback response.'' True) b))"

text \<open>
  The hand-over to the React page: the address with the marker set, at the origin that serves the
  React page.
\<close>

definition reactFallbackSearch :: "browser \<Rightarrow> string" where
  "reactFallbackSearch b = url_search (usp_set (URLSearchParams (br_search b)) reactFallbackKey ''1'')"

definition goToReactFallback :: "browser \<Rightarrow> browser" where
  "goToReactFallback b = emit (ReactFallback (reactFallbackSearch b)) b"

definition static_oauth ::
  "params \<Rightarrow> oauth_params \<Rightarrow> string \<Rightarrow> login_response \<Rightarrow> browser \<Rightarrow> browser result" where
  "static_oauth innerParams p responseType res b =
     (let responseMode = js_or (Some (oa_responseMode p)) ''query'' in
      if responseType = ''login'' then Return (emit (ReplaceLocation (static_getFromLink b)) b)
      else if responseType = ''code'' then
        Return (if responseMode = ''form_post''
          then emit (static_createFormAndSubmit (oa_redirectUri p)
            [(''code'', Some (lr_data res)), (''state'', Some (oa_state p))]) b
          else emit (ReplaceLocation (codeLink p (lr_data res))) b)
      else if isTokenType responseType then
        Return (if responseMode = ''form_post''
          then emit (static_createFormAndSubmit (oa_redirectUri p)
            (tokenForm p (js_split responseType '' '') (lr_data res))) b
          else emit (ReplaceLocation (tokenLink p responseType (lr_data res))) b)
      else if responseType = ''link'' then
        (let from = js_or (usp_get innerParams ''from'') ''/''; oauth = usp_get innerParams ''oauth'' in
         Return (emit (ReplaceLocation (if js_truthy oauth then from @ ''?oauth='' @ js_nullish oauth else from)) b))
      else if responseType = ''saml'' then static_saml p res b
      else Return (goToReactFallback b))"

definition storeReactFallbackPayload :: "urls \<Rightarrow> react_payload \<Rightarrow> browser \<Rightarrow> browser" where
  "storeReactFallbackPayload u payload b = set_session reactFallbackPayloadKey (show_payload u payload) b"

definition casPayload :: "browser \<Rightarrow> login_response \<Rightarrow> string \<Rightarrow> react_payload" where
  "casPayload b res casService =
     \<lparr>rp_search = br_search b, rp_flow = ''cas'', rp_res = res, rp_responseType = None,
      rp_innerParams = None, rp_casService = Some casService\<rparr>"

definition oauthPayload :: "browser \<Rightarrow> login_response \<Rightarrow> string \<Rightarrow> string \<Rightarrow> react_payload" where
  "oauthPayload b res responseType queryString =
     \<lparr>rp_search = br_search b, rp_flow = ''oauth'', rp_res = res, rp_responseType = Some responseType,
      rp_innerParams = Some queryString, rp_casService = None\<rparr>"

text \<open>The continuation of the static page.\<close>

definition static_response ::
  "urls \<Rightarrow> callback_request \<Rightarrow> string \<Rightarrow> login_response \<Rightarrow> browser \<Rightarrow> browser result" where
  "static_response u req queryString res b =
     (case req of
        CasLogin _ body casService \<Rightarrow>
          if lr_status res \<noteq> ''ok'' then
            Return (emit (SetStatus (js_or (Some (lr_msg res)) ''Failed to sign in.'') True) b)
          else if shouldFallbackToReact res then
            Return (goToReactFallback
              (storeReactFallbackPayload u (casPayload b res (js_nullish casService)) b))
          else if js_nullish casService = [] then
            Return (emit (SetStatus ''Logged in successfully. Now you can visit apps protected by Casdoor.'' False) b)
          else bind_result (url_append u (js_nullish casService) ''ticket'' (lr_data res))
            (\<lambda>serviceUrl. Return (emit (ReplaceLocation serviceUrl) b))
      | OAuthLogin _ body (Some p) \<Rightarrow>
          if lr_status res \<noteq> ''ok'' then
            Return (emit (SetStatus (js_or (Some (lr_msg res)) ''Failed to sign in.'') True) b)
          else if shouldFallbackToReact res then
            Return (goToReactFallback
              (storeReactFallbackPayload u (oauthPayload b res (lb_type body) queryString) b))
          else static_oauth (URLSearchParams queryString) p (lb_type body) res b
      | _ \<Rightarrow> Return b)"

section \<open>The two pages agree\<close>

lemma bind_result_Return: "r = Return x \<Longrightarrow> bind_result r f = f x"
  by simp

lemma emit_queries [simp]:
  "getQueryParamsFromState (emit e b) st = getQueryParamsFromState b st"
  "getCodeVerifier (emit e b) st' = getCodeVerifier b st'"
  "static_getResponseType u (emit e b) ps = static_getResponseType u b ps"
  "static_extractCallbackCode (emit e b) ps = static_extractCallbackCode b ps"
  "callbackBody (emit e b) rt ps code v = callbackBody b rt ps code v"
  by (simp_all only: getQueryParamsFromState_def getCodeVerifier_def static_getResponseType_def
      static_extractCallbackCode_def callbackBody_def emit_simps)

lemma consume_none:
  "\<not> js_truthy (br_session b reactFallbackPayloadKey) \<Longrightarrow> consumeReactFallbackPayload u b = (None, b)"
  by (simp add: consumeReactFallbackPayload_def)

lemma js_truthy_iff: "js_truthy v \<longleftrightarrow> v \<noteq> None \<and> v \<noteq> Some []"
  by (cases v) auto

lemma responseType_agree:
  assumes "usp_get ps ''response_type'' \<noteq> Some []"
  shows "getResponseType u (br_origin b) ps = static_getResponseType u b ps"
proof -
  have "(case usp_get ps ''response_type'' of Some responseType \<Rightarrow> Return responseType | None \<Rightarrow> Return ''code'')
      = Return (js_or (usp_get ps ''response_type'') ''code'')"
    using assms by (cases "usp_get ps ''response_type''") auto
  then show ?thesis
    by (simp only: getResponseType_def static_getResponseType_def Let_def js_truthy_iff)
qed

definition code_params_filled :: "params \<Rightarrow> bool" where
  "code_params_filled ps = list_all (\<lambda>k. usp_get ps k \<noteq> Some []) [''code'', ''auth_code'', ''authCode'']"

lemma code_agree:
  assumes "code_params_filled ps" and "br_local b ''null'' = None"
  shows "callbackCode b ps = static_extractCallbackCode b ps"
  using assms unfolding callbackCode_def static_extractCallbackCode_def Let_def code_params_filled_def
  by (cases "usp_get ps ''code''"; cases "usp_get ps ''auth_code''"; cases "usp_get ps ''authCode''";
      cases "usp_get ps ''web3AuthTokenKey''") (simp_all add: js_or_opt_def)

text \<open>
  What the two pages read from different places: the component looks for raw parameters in its own
  address, the script in the unpacked query. They see the same request when the address has no
  \<open>redirect_uri=\<close> of its own and the raw value of the query is the decoded one.
\<close>

definition same_raw_params :: "browser \<Rightarrow> string \<Rightarrow> bool" where
  "same_raw_params b q =
     (raw_parameter ''redirect_uri'' (br_href b) = Return []
      \<and> raw_parameter ''redirect_uri'' q = Return (js_nullish (usp_get (URLSearchParams q) ''redirect_uri''))
      \<and> \<not> js_includes (js_nullish (usp_get (URLSearchParams q) ''redirect_uri'')) ''#'')"

definition without_saml :: "oauth_params \<Rightarrow> oauth_params" where
  "without_saml p = p\<lparr>oa_samlRequest := [], oa_noRedirect := []\<rparr>"

lemma oauth_params_agree:
  assumes "same_raw_params b q" and "js_truthy (usp_get (URLSearchParams q) ''client_id'')"
  shows "\<exists>p. getOAuthGetParameters b (Some (URLSearchParams q)) = Return (Some p)
    \<and> static_getOAuthGetParameters (URLSearchParams q) q = Return (without_saml p)"
  using assms
  by (cases "usp_get (URLSearchParams q) ''client_id''")
    (simp_all add: same_raw_params_def getOAuthGetParameters_def static_getOAuthGetParameters_def
      queries_of_def getRawGetParameter_def getRefinedValue_def Let_def without_saml_def)

lemma getOAuthGetParameters_href:
  "br_href b = br_href b' \<Longrightarrow> getOAuthGetParameters b (Some ps) = getOAuthGetParameters b' (Some ps)"
  by (simp only: getOAuthGetParameters_def queries_of_def getRawGetParameter_def option.case)

lemma login_url_without_saml [simp]: "login_url s (Some (without_saml p)) = login_url s (Some p)"
  by (simp add: login_url_def oAuthParamsToQuery_def without_saml_def)


text \<open>Where a page goes: the addresses it navigates to and the forms it posts, without empty fields.\<close>

datatype destination =
    Address string
  | PostedForm string "(string \<times> string) list"

fun destination_of :: "effect \<Rightarrow> destination option" where
  "destination_of (GoToLink l) = Some (Address l)"
| "destination_of (ReplaceLocation l) = Some (Address l)"
| "destination_of (HistoryPush l) = Some (Address l)"
| "destination_of (SubmitForm u ps) = Some (PostedForm u (filter (\<lambda>(k, v). v \<noteq> []) ps))"
| "destination_of _ = None"

definition destinations :: "browser \<Rightarrow> browser \<Rightarrow> destination list" where
  "destinations b b' = List.map_filter destination_of (drop (length (br_effects b)) (br_effects b'))"

lemma destinations_emit [simp]:
  "destinations b (emit e b) = (case destination_of e of None \<Rightarrow> [] | Some d \<Rightarrow> [d])"
  "destinations b (emit e (emit e' b)) =
     List.map_filter destination_of [e', e]"
  by (simp_all add: destinations_def map_filter_simps split: option.split)

definition filled :: "(string \<times> string option) list \<Rightarrow> params" where
  "filled ps = List.map_filter (\<lambda>(k, v). if js_truthy v then map_option (Pair k) v else None) ps"

lemma filled_filter:
  "filter (\<lambda>(k, v). v \<noteq> []) (List.map_filter (\<lambda>(k, v). map_option (Pair k) v) ps) = filled ps"
  "filter (\<lambda>(k, v). v \<noteq> []) (filled ps) = filled ps"
  unfolding filled_def
  by (induction ps) (auto simp: map_filter_simps js_truthy_def split: option.splits if_splits)

lemma form_destination [simp]:
  "destination_of (createFormAndSubmit u ps) = Some (PostedForm u (filled ps))"
  "destination_of (static_createFormAndSubmit u ps) = Some (PostedForm u (filled ps))"
  by (simp_all add: createFormAndSubmit_def static_createFormAndSubmit_def filled_filter)
    (simp_all flip: filled_def add: filled_filter)

lemma destination_soft: "destinations b (goToLinkSoftOrJumpSelf l b) = [Address l]"
  by (simp add: goToLinkSoftOrJumpSelf_def)

text \<open>The kinds of answer that both pages act on.\<close>

definition known_type :: "string \<Rightarrow> bool" where
  "known_type rt = (rt \<in> {''login'', ''code'', ''link'', ''saml''} \<or> isTokenType rt)"

text \<open>A link request names the page it came from, and a SAML answer names its address.\<close>

definition answer_ok :: "browser \<Rightarrow> params \<Rightarrow> string \<Rightarrow> login_response \<Rightarrow> bool" where
  "answer_ok b ps rt res =
     ((rt = ''login'' \<longrightarrow> br_session b ''from'' \<noteq> Some [])
      \<and> (rt = ''link'' \<longrightarrow> js_truthy (usp_get ps ''from''))
      \<and> (rt = ''saml'' \<longrightarrow> lr_data res \<noteq> [] \<and> (\<exists>ps u. lr_data2 res = JObj ps \<and> prop_of ps ''redirectUrl'' = JStr u)))"

lemma saml_agree:
  assumes "lr_data res \<noteq> []" "lr_data2 res = JObj ps" "prop_of ps ''redirectUrl'' = JStr u" "\<not> lr_data3 res"
  shows "\<exists>b1 b2. handleSaml (Some p) res b = Return b1 \<and> static_saml (without_saml p) res b = Return b2
    \<and> destinations b b1 = destinations b b2 \<and> destinations b b1 \<noteq> []"
  using assms by (simp add: handleSaml_def static_saml_def static_createFormAndSubmit_def
      map_filter_simps without_saml_def)

lemma handleLogin_agree:
  assumes "known_type rt" "answer_ok b I rt res" "\<not> lr_data3 res"
  shows "\<exists>b1 b2. handleLogin I (Some p) rt res b = Return b1 \<and> static_oauth I (without_saml p) rt res b = Return b2
    \<and> destinations b b1 = destinations b b2 \<and> destinations b b1 \<noteq> []"
proof -
  note defs = handleLogin_def static_oauth_def Let_def
  have ws [simp]: "oa_redirectUri (without_saml p) = oa_redirectUri p"
    "oa_responseMode (without_saml p) = oa_responseMode p" "oa_state (without_saml p) = oa_state p"
    "codeLink (without_saml p) = codeLink p" "tokenLink (without_saml p) = tokenLink p"
    "tokenForm (without_saml p) = tokenForm p"
    by (simp_all add: without_saml_def codeLink_def tokenLink_def tokenForm_def fun_eq_iff)
  consider (login) "rt = ''login''" | (code) "rt = ''code''"
    | (token) "rt \<noteq> ''login''" "rt \<noteq> ''code''" "isTokenType rt"
    | (link) "rt = ''link''" "\<not> isTokenType rt" | (saml) "rt = ''saml''" "\<not> isTokenType rt"
    using assms(1) unfolding known_type_def by blast
  then show ?thesis
  proof cases
    case login
    with assms show ?thesis
      by (cases "br_session b ''from''")
        (auto simp: defs getFromLink_def static_getFromLink_def answer_ok_def map_filter_simps)
  next
    case code
    with assms(3) show ?thesis by (simp add: defs)
  next
    case token
    with assms(3) show ?thesis by (simp add: defs)
  next
    case link
    with assms(2) obtain f where f: "usp_get I ''from'' = Some f" "f \<noteq> []"
      by (cases "usp_get I ''from''") (auto simp: answer_ok_def)
    with link show ?thesis by (simp add: defs destination_soft)
  next
    case saml
    with assms(2) obtain ps u where "lr_data res \<noteq> []" "lr_data2 res = JObj ps"
      "prop_of ps ''redirectUrl'' = JStr u" by (auto simp: answer_ok_def)
    from saml_agree [OF this assms(3)] saml show ?thesis by (simp add: defs)
  qed
qed


text \<open>A concrete return: GitHub signs in to an application with a redirect address.\<close>

definition demo_urls :: urls where
  "demo_urls = \<lparr>url_origin = (\<lambda>s. Return (take 18 s)), url_append = (\<lambda>s k v. Return (s @ ''?'' @ k @ ''='' @ v)),
      show_payload = (\<lambda>p. ''{}''), parse_payload = (\<lambda>_. Throw URIError)\<rparr>"

definition demo_query :: string where
  "demo_query = ''?client_id=c&redirect_uri=https://app.example/cb&state=x&application=app&provider=gh&method=signin''"

definition demo_return :: browser where
  "demo_return =
     (fresh_browser ''https://door.example'' ''/callback'' ''?code=k&state=gh'')
       \<lparr>br_session := [''gh'' \<mapsto> demo_query], br_local := [''pkce_verifier_gh'' \<mapsto> ''v'']\<rparr>"

lemma demo_return_params:
  "URLSearchParams (br_search demo_return) = [(''code'', ''k''), (''state'', ''gh'')]"
  "URLSearchParams demo_query =
     [(''client_id'', ''c''), (''redirect_uri'', ''https://app.example/cb''), (''state'', ''x''),
      (''application'', ''app''), (''provider'', ''gh''), (''method'', ''signin'')]"
  by code_simp+

lemma demo_return_raw: "same_raw_params demo_return demo_query"
  unfolding same_raw_params_def demo_return_params by code_simp



section \<open>From the sign-in button to the login request\<close>

fun request_body :: "callback_request \<Rightarrow> login_body option" where
  "request_body (CasLogin _ body _) = Some body"
| "request_body (OAuthLogin _ body _) = Some body"
| "request_body _ = None"

lemma callbackMount_Return:
  assumes "usp_get (URLSearchParams (br_search c)) ''state'' = Some st"
    and "getQueryParamsFromState c st = Return q"
    and "\<not> js_truthy (br_session c reactFallbackPayloadKey)"
    and "getResponseType u s (URLSearchParams q) = Return rt"
    and "getOAuthGetParameters c (Some (URLSearchParams q)) = Return ps"
  shows "\<exists>req c'. callbackMount u s c = Return (req, c')
    \<and> request_body req = Some (callbackBody c rt (URLSearchParams q)
         (callbackCode c (URLSearchParams (br_search c))) (getCodeVerifier c (Some st)))
    \<and> \<not> js_truthy (getCodeVerifier c' (Some st))"
proof -
  let ?c = "if js_truthy (getCodeVerifier c (Some st)) then clearCodeVerifier (Some st) c else c"
  have "br_session ?c = br_session c" "br_href ?c = br_href c"
    by (simp_all add: clearCodeVerifier_def storage_ops)
  moreover have "\<not> js_truthy (getCodeVerifier ?c (Some st))"
    by (simp add: getCodeVerifier_def clearCodeVerifier_def storage_ops)
  ultimately show ?thesis
    using assms getOAuthGetParameters_href [of ?c c "URLSearchParams q"] consume_none [of ?c u]
    unfolding callbackMount_def Let_def assms(1) js_interp_simps
    by (cases "rt = ''cas''") simp_all
qed

text \<open>
  C1. A sign-in survives the trip through the identity provider. After \<open>getAuthUrl\<close> returned, let the
  provider send the browser back to the callback page with the state of the address and the
  storages as \<open>getAuthUrl\<close> left them. Then the login request of the callback page carries the
  application, the provider and the method of the button that was pressed, the code of the return
  address and the code verifier drawn for this sign-in, and the verifier is gone afterwards. The
  page that showed the button must not have carried these parameter names in its own query, and a
  long state must not be the name of a session entry.
\<close>

theorem sign_in_callback:
  assumes url: "getAuthUrl rnd sha b (Some a) (Some p) method code = Return (url, b')"
    and st: "getStateFromQueryParams b (stateApplicationName a) (pr_name p) method
               (isShortState b p) = Return (st, b1)"
    and "method \<in> {''signup'', ''signin'', ''link''}"
    and "\<forall>k \<in> {''application'', ''provider'', ''method''}. usp_get (URLSearchParams (br_search b)) k = None"
    and "\<not> isShortState b p \<Longrightarrow> br_session b st = None"
    and ret: "br_session c = br_session b'" "br_local c = br_local b'"
    and "usp_get (URLSearchParams (br_search c)) ''state'' = Some st"
    and "\<not> js_truthy (br_session c reactFallbackPayloadKey)"
    and "getResponseType u s (URLSearchParams (stateQuery b (stateApplicationName a) (pr_name p) method)) = Return rt"
    and "getOAuthGetParameters c (Some (URLSearchParams (stateQuery b (stateApplicationName a) (pr_name p) method)))
           = Return ps"
  shows "\<exists>req c' body. callbackMount u s c = Return (req, c') \<and> request_body req = Some body
    \<and> lb_application body = Some (stateApplicationName a) \<and> lb_provider body = Some (pr_name p)
    \<and> lb_method body = Some method \<and> lb_type body = rt
    \<and> lb_code body = callbackCode c (URLSearchParams (br_search c))
    \<and> lb_codeVerifier body = Some (generateCodeVerifier rnd)
    \<and> \<not> js_truthy (getCodeVerifier c' (Some st))"
proof -
  let ?q = "stateQuery b (stateApplicationName a) (pr_name p) method"
  note trip = state_roundtrip [OF assms(1-5)]
  have q: "getQueryParamsFromState c st = Return ?q"
    using trip getQueryParamsFromState_session [OF ret(1)] by simp
  have v: "getCodeVerifier c (Some st) = Some (generateCodeVerifier rnd)"
    using trip ret(2) by (simp add: getCodeVerifier_def)
  from callbackMount_Return [OF assms(8) q assms(9-11)] v trip show ?thesis
    by (auto simp: callbackBody_def)
qed

theorem sign_in_callback_witness:
  "\<exists>url b' c req c' body. getAuthUrl (replicate 32 7) (\<lambda>_. replicate 32 1) demo_browser (Some demo_app)
       (Some demo_provider) ''signup'' None = Return (url, b')
     \<and> callbackMount demo_urls ''https://door.example'' c = Return (req, c') \<and> request_body req = Some body
     \<and> lb_codeVerifier body = Some (generateCodeVerifier (replicate 32 7))"
proof -
  obtain url b' where r: "getAuthUrl (replicate 32 7) (\<lambda>_. replicate 32 1) demo_browser
      (Some demo_app) (Some demo_provider) ''signup'' None = Return (url, b')"
    using demo_getAuthUrl by blast
  let ?c = "(fresh_browser ''https://door.example'' ''/callback'' (''?code=k&state='' @ encodeURIComponent demo_state))
    \<lparr>br_session := br_session b', br_local := br_local b', br_href := ''https://door.example/callback''\<rparr>"
  let ?q = "stateQuery demo_browser (stateApplicationName demo_app) (pr_name demo_provider) ''signup''"
  have search: "br_search ?c = ''?code=k'' @ CHR ''&'' # ''state'' @ CHR ''='' # encodeURIComponent demo_state"
    by (simp add: fresh_browser_def)
  have "URLSearchParams (br_search ?c) = URLSearchParams ''?code=k'' @ [(''state'', demo_state)]"
    unfolding search by (subst URLSearchParams_append, subst parse_pairs_encoded) simp_all
  moreover have "URLSearchParams ''?code=k'' = [(''code'', ''k'')]" by code_simp
  ultimately have state: "usp_get (URLSearchParams (br_search ?c)) ''state'' = Some demo_state" by simp
  have sess: "br_session b' = Map.empty"
    using r demo_getState by (elim getAuthUrl_Return) (simp add: demo_defs)
  have inner: "getResponseType demo_urls ''https://door.example'' (URLSearchParams ?q) = Return ''login''"
    by code_simp
  have raw: "getRawGetParameter ?c ''redirect_uri'' = Return []"
    unfolding getRawGetParameter_def by (simp add: fresh_browser_def) code_simp
  have "js_includes (getRefinedValue (usp_get (URLSearchParams ?q) ''redirect_uri'')) ''#'' = False" by code_simp
  then have "\<exists>ps. getOAuthGetParameters ?c (Some (URLSearchParams ?q)) = Return ps"
    using raw by (auto simp: getOAuthGetParameters_def queries_of_def Let_def)
  then obtain ps where ps: "getOAuthGetParameters ?c (Some (URLSearchParams ?q)) = Return ps" by blast
  have "\<exists>req c' body. callbackMount demo_urls ''https://door.example'' ?c = Return (req, c')
      \<and> request_body req = Some body
      \<and> lb_application body = Some (stateApplicationName demo_app) \<and> lb_provider body = Some (pr_name demo_provider)
      \<and> lb_method body = Some ''signup'' \<and> lb_type body = ''login''
      \<and> lb_code body = callbackCode ?c (URLSearchParams (br_search ?c))
      \<and> lb_codeVerifier body = Some (generateCodeVerifier (replicate 32 7))
      \<and> \<not> js_truthy (getCodeVerifier c' (Some demo_state))"
    by (rule sign_in_callback [OF r demo_getState _ demo_own_params _ _ _ state _ inner ps])
      (simp_all add: sess demo_defs)
  with r show ?thesis by blast
qed

end
