(* ===== verification/Callback_Handover.thy ===== *)
theory Callback_Handover
  imports Auth_Callback
begin

text \<open>
  The hand-over between the two callback pages. When the answer of the server needs a user
  interface (a second factor, a plan to choose, a consent), the static page stores the answer and
  sends the browser to the React page, which has to act on the stored answer and must not send the
  login request again, since the code of the identity provider can be used once.
\<close>

section \<open>The query survives the marker\<close>

lemma getNormalizedSearch_marked:
  "getNormalizedSearch (reactFallbackSearch b) = getNormalizedSearch (br_search b)"
  by (simp add: getNormalizedSearch_def reactFallbackSearch_def)

lemma usp_get_marked:
  "k \<noteq> reactFallbackKey \<Longrightarrow>
     usp_get (URLSearchParams (reactFallbackSearch b)) k = usp_get (URLSearchParams (br_search b)) k"
  by (simp add: reactFallbackSearch_def)

lemma state_not_marker: "''state'' \<noteq> reactFallbackKey"
  by (simp add: reactFallbackKey_def)

section \<open>The payload\<close>

fun payload_of :: "browser \<Rightarrow> login_response \<Rightarrow> string \<Rightarrow> callback_request \<Rightarrow> react_payload option" where
  "payload_of b res q (CasLogin _ body casService) = Some (casPayload b res (js_nullish casService))"
| "payload_of b res q (OAuthLogin _ body (Some p)) = Some (oauthPayload b res (lb_type body) q)"
| "payload_of b res q _ = None"

text \<open>The requests of the static page: it packs a query, and a CAS request names a service.\<close>

fun resumable :: "string \<Rightarrow> callback_request \<Rightarrow> bool" where
  "resumable q (CasLogin _ body casService) = js_truthy casService"
| "resumable q (OAuthLogin _ body ps) = (q \<noteq> [] \<and> lb_type body \<noteq> [])"
| "resumable q _ = False"

lemma payload_search: "payload_of b res q req = Some P \<Longrightarrow> rp_search P = br_search b"
  by (cases "(b, res, q, req)" rule: payload_of.cases) (auto simp: casPayload_def oauthPayload_def)

lemma static_hands_over:
  assumes "payload_of b res q req = Some P" "lr_status res = ''ok''" "shouldFallbackToReact res"
  shows "static_response u req q res b = Return (goToReactFallback (storeReactFallbackPayload u P b))"
  using assms
  by (cases "(b, res, q, req)" rule: payload_of.cases) (auto simp: static_response_def)

lemma resumePayload_eq:
  assumes "payload_of b res q req = Some P" "resumable q req" "lr_status res = ''ok''"
  shows "resumePayload u P q rt c = callbackResponse u req (URLSearchParams q) res c"
  using assms
  by (cases "(b, res, q, req)" rule: payload_of.cases)
     (auto simp: resumePayload_def callbackResponse_def casPayload_def oauthPayload_def js_truthy_iff)

lemma consume_stored:
  assumes "br_session c reactFallbackPayloadKey = Some (show_payload u P)" "show_payload u P \<noteq> []"
    and "parse_payload u (show_payload u P) = Return P"
    and "getNormalizedSearch (rp_search P) = getNormalizedSearch (br_search c)"
  shows "consumeReactFallbackPayload u c = (Some P, remove_session reactFallbackPayloadKey c)"
  using assms by (simp add: consumeReactFallbackPayload_def)

lemma getQueryParamsFromState_other:
  "br_session c st = br_session b st \<Longrightarrow> getQueryParamsFromState c st = getQueryParamsFromState b st"
  by (simp add: getQueryParamsFromState_def)

section \<open>The hand-over\<close>

text \<open>
  C2. When the server's answer needs the console, the static page stores it and navigates, and the
  React page at that address does with it exactly what it does with an answer to its own request:
  no second login request is sent, and the payload is gone afterwards. The hypotheses on the
  parameters say that JSON text of the payload reads back as the payload.
\<close>

theorem callback_handover:
  assumes "lr_status res = ''ok''" "shouldFallbackToReact res"
    and P: "payload_of b res q req = Some P" "resumable q req"
    and json: "parse_payload u (show_payload u P) = Return P" "show_payload u P \<noteq> []"
    and st: "usp_get (URLSearchParams (br_search b)) ''state'' = Some st" "st \<noteq> reactFallbackPayloadKey"
    and q: "getQueryParamsFromState b st = Return q"
    and rt: "getResponseType u s (URLSearchParams q) = Return rt"
    and b': "static_response u req q res b = Return b'"
    and c: "br_session c = br_session b'" "br_search c = reactFallbackSearch b"
  shows "br_effects b' = br_effects b @ [ReactFallback (reactFallbackSearch b)]
    \<and> (\<exists>d. callbackMount u s c
              = bind_result (callbackResponse u req (URLSearchParams q) res d) (\<lambda>e. Return (StoredPayload, e))
          \<and> br_session d = (br_session b)(reactFallbackPayloadKey := None))"
proof -
  have b'_eq: "b' = goToReactFallback (storeReactFallbackPayload u P b)"
    using static_hands_over [OF P(1) assms(1,2)] b' by simp
  then have sess: "br_session c = (br_session b)(reactFallbackPayloadKey \<mapsto> show_payload u P)"
    using c(1) by (auto simp: goToReactFallback_def storeReactFallbackPayload_def storage_ops fun_eq_iff)
  have q': "getQueryParamsFromState c st = Return q"
    using q sess st(2) getQueryParamsFromState_other [of c st b] by simp
  have st': "usp_get (URLSearchParams (br_search c)) ''state'' = Some st"
    using st(1) usp_get_marked [OF state_not_marker] c(2) by simp
  let ?c = "if js_truthy (getCodeVerifier c (Some st)) then clearCodeVerifier (Some st) c else c"
  let ?d = "remove_session reactFallbackPayloadKey ?c"
  have "consumeReactFallbackPayload u ?c = (Some P, ?d)"
    using json sess c(2) payload_search [OF P(1)] getNormalizedSearch_marked [of b]
    by (intro consume_stored) (simp_all add: clearCodeVerifier_def storage_ops)
  then have "callbackMount u s c
      = bind_result (resumePayload u P q rt ?d) (\<lambda>e. Return (StoredPayload, e))"
    unfolding callbackMount_def Let_def st' js_interp_simps using q' rt by simp
  moreover have "br_session ?d = (br_session b)(reactFallbackPayloadKey := None)"
    using sess by (auto simp: clearCodeVerifier_def storage_ops removeItem_def)
  ultimately show ?thesis
    using resumePayload_eq [OF P assms(1)] b'_eq
    by (auto simp: goToReactFallback_def storeReactFallbackPayload_def storage_ops reactFallbackSearch_def)
qed

text \<open>A concrete hand-over: the server asks for a second factor.\<close>

definition demo_mfa_answer :: login_response where
  "demo_mfa_answer =
     \<lparr>lr_status = ''ok'', lr_msg = [], lr_data = ''RequiredMfa'', lr_data2 = JUndefined, lr_data3 = False\<rparr>"

definition demo_body :: login_body where
  "demo_body = callbackBody demo_return ''code'' (URLSearchParams demo_query) NoCode None"

definition demo_handover_urls :: urls where
  "demo_handover_urls = demo_urls
     \<lparr>show_payload := (\<lambda>p. rp_flow p), parse_payload := (\<lambda>_. Return
        (oauthPayload demo_return demo_mfa_answer ''code'' demo_query))\<rparr>"

theorem callback_handover_witness:
  "\<exists>p d. callbackMount demo_handover_urls ''https://door.example''
         (demo_return\<lparr>br_search := reactFallbackSearch demo_return,
            br_session := (br_session demo_return)(reactFallbackPayloadKey \<mapsto> ''oauth'')\<rparr>)
       = bind_result (callbackResponse demo_handover_urls (OAuthLogin [] demo_body (Some p))
           (URLSearchParams demo_query) demo_mfa_answer d) (\<lambda>e. Return (StoredPayload, e))"
proof -
  have "js_truthy (usp_get (URLSearchParams demo_query) ''client_id'')" by (simp add: demo_return_params)
  from oauth_params_agree [OF demo_return_raw this] obtain p where
    "getOAuthGetParameters demo_return (Some (URLSearchParams demo_query)) = Return (Some p)" by blast
  let ?P = "oauthPayload demo_return demo_mfa_answer ''code'' demo_query"
  let ?b' = "goToReactFallback (storeReactFallbackPayload demo_handover_urls ?P demo_return)"
  let ?c = "demo_return\<lparr>br_search := reactFallbackSearch demo_return,
            br_session := (br_session demo_return)(reactFallbackPayloadKey \<mapsto> ''oauth'')\<rparr>"
  have type: "lb_type demo_body = ''code''" by (simp add: demo_body_def callbackBody_def)
  have fb: "lr_status demo_mfa_answer = ''ok''" "shouldFallbackToReact demo_mfa_answer"
    by (simp_all add: demo_mfa_answer_def shouldFallbackToReact_def)
  have P: "payload_of demo_return demo_mfa_answer demo_query (OAuthLogin [] demo_body (Some p)) = Some ?P"
    using type by simp
  have "br_effects ?b' = br_effects demo_return @ [ReactFallback (reactFallbackSearch demo_return)]
    \<and> (\<exists>d. callbackMount demo_handover_urls ''https://door.example'' ?c
              = bind_result (callbackResponse demo_handover_urls (OAuthLogin [] demo_body (Some p))
                   (URLSearchParams demo_query) demo_mfa_answer d) (\<lambda>e. Return (StoredPayload, e))
          \<and> br_session d = (br_session demo_return)(reactFallbackPayloadKey := None))"
  proof (rule callback_handover [OF fb P])
    show "resumable demo_query (OAuthLogin [] demo_body (Some p))" using type by (simp add: demo_query_def)
    show "parse_payload demo_handover_urls (show_payload demo_handover_urls ?P) = Return ?P"
      "show_payload demo_handover_urls ?P \<noteq> []"
      by (simp_all add: demo_handover_urls_def oauthPayload_def)
    show "usp_get (URLSearchParams (br_search demo_return)) ''state'' = Some ''gh''"
      by (simp add: demo_return_params)
    show "''gh'' \<noteq> reactFallbackPayloadKey" by (simp add: reactFallbackPayloadKey_def)
    show "getQueryParamsFromState demo_return ''gh'' = Return demo_query" by code_simp
    show "getResponseType demo_handover_urls ''https://door.example'' (URLSearchParams demo_query) = Return ''code''"
      unfolding demo_return_params by code_simp
    show "static_response demo_handover_urls (OAuthLogin [] demo_body (Some p)) demo_query demo_mfa_answer demo_return
        = Return ?b'"
      by (rule static_hands_over [OF P fb])
    show "br_session ?c = br_session ?b'"
      by (auto simp: goToReactFallback_def storeReactFallbackPayload_def storage_ops
          demo_handover_urls_def oauthPayload_def fun_eq_iff)
    show "br_search ?c = reactFallbackSearch demo_return" by simp
  qed
  then show ?thesis by blast
qed

end
