(* ===== verification/Sign_In_Rules.thy ===== *)
theory Sign_In_Rules
  imports Console_Types
begin

text \<open>
  The rules of \<open>web/src/Setting.js\<close> that decide what a user sees while signing in: which providers
  are offered, which prompts follow a sign-up and whether they are answered, which second factors
  have to be set up, which captcha and which sign-in methods are active, and where the links of
  the sign-in pages lead.
\<close>

section \<open>Providers and prompts\<close>

definition isProviderVisible :: "provider_item \<Rightarrow> bool" where
  "isProviderVisible item =
     (case pi_provider item of
        None \<Rightarrow> False
      | Some p \<Rightarrow>
          if pr_category p \<notin> {''OAuth'', ''SAML'', ''Web3''} then False
          else if pr_type p = ''WeChatMiniProgram'' then False
          else True)"

definition isProviderVisibleForSignUp :: "provider_item \<Rightarrow> bool" where
  "isProviderVisibleForSignUp item = (if \<not> pi_canSignUp item then False else isProviderVisible item)"

definition isProviderVisibleForSignIn :: "provider_item \<Rightarrow> bool" where
  "isProviderVisibleForSignIn item = (if \<not> pi_canSignIn item then False else isProviderVisible item)"

definition isProviderPrompted :: "provider_item \<Rightarrow> bool" where
  "isProviderPrompted item = (isProviderVisible item \<and> pi_prompted item)"

definition isSignupItemPrompted :: "signup_item \<Rightarrow> bool" where
  "isSignupItemPrompted item = (si_visible item \<and> si_prompted item)"

text \<open>\<open>application.providers?.filter(..)\<close>: \<^term>\<open>None\<close> for \<open>undefined\<close>.\<close>

definition getAllPromptedProviderItems :: "application \<Rightarrow> provider_item list option" where
  "getAllPromptedProviderItems a = map_option (filter isProviderPrompted) (app_providers a)"

definition getAllPromptedSignupItems :: "application \<Rightarrow> signup_item list option" where
  "getAllPromptedSignupItems a = map_option (filter isSignupItemPrompted) (app_signupItems a)"

definition getSignupItem :: "application \<Rightarrow> string \<Rightarrow> signup_item option" where
  "getSignupItem a itemName =
     (case map_option (filter (\<lambda>i. si_name i = itemName)) (app_signupItems a) of
        Some (i # _) \<Rightarrow> Some i
      | _ \<Rightarrow> None)"

definition isAffiliationPrompted :: "application \<Rightarrow> bool" where
  "isAffiliationPrompted a =
     (case getSignupItem a ''Affiliation'' of None \<Rightarrow> False | Some i \<Rightarrow> si_prompted i)"

text \<open>\<open>undefined > 0\<close> is false.\<close>

definition hasPromptPage :: "application \<Rightarrow> bool" where
  "hasPromptPage a =
     (if (case getAllPromptedProviderItems a of None \<Rightarrow> False | Some is \<Rightarrow> length is > 0) then True
      else if (case getAllPromptedSignupItems a of
                 None \<Rightarrow> False
               | Some is \<Rightarrow> length (filter (\<lambda>i. si_name i = ''Country/Region'') is) > 0) then True
      else isAffiliationPrompted a)"

definition isAffiliationAnswered :: "account option \<Rightarrow> application \<Rightarrow> bool" where
  "isAffiliationAnswered user a =
     (if \<not> isAffiliationPrompted a then True
      else case user of None \<Rightarrow> False | Some u \<Rightarrow> ac_affiliation u \<noteq> [])"

definition isProviderItemAnswered :: "account option \<Rightarrow> provider_item \<Rightarrow> bool result" where
  "isProviderItemAnswered user item =
     (case user of
        None \<Rightarrow> Return False
      | Some u \<Rightarrow>
          (case pi_provider item of
             None \<Rightarrow> Throw TypeError
           | Some p \<Rightarrow>
               let linkedValue = ac_props u (js_lower (pr_type p)) in
               Return (linkedValue \<noteq> None \<and> linkedValue \<noteq> Some [])))"

definition isSignupItemAnswered :: "account option \<Rightarrow> signup_item \<Rightarrow> bool" where
  "isSignupItemAnswered user item =
     (case user of
        None \<Rightarrow> False
      | Some u \<Rightarrow>
          if si_name item \<noteq> ''Country/Region'' then True
          else let region = ac_props u ''region'' in region \<noteq> None \<and> region \<noteq> Some [])"

text \<open>The loop over the provider items, which stops at the first unanswered one.\<close>

fun providersAnswered :: "account option \<Rightarrow> provider_item list \<Rightarrow> bool result" where
  "providersAnswered user [] = Return True"
| "providersAnswered user (item # items) =
     bind_result (isProviderItemAnswered user item) (\<lambda>ok.
       if \<not> ok then Return False else providersAnswered user items)"

fun signupItemsAnswered :: "account option \<Rightarrow> signup_item list \<Rightarrow> bool" where
  "signupItemsAnswered user [] = True"
| "signupItemsAnswered user (item # items) =
     (if \<not> isSignupItemAnswered user item then False else signupItemsAnswered user items)"

text \<open>Reading \<open>length\<close> of an absent list throws.\<close>

definition isPromptAnswered :: "account option \<Rightarrow> application \<Rightarrow> bool result" where
  "isPromptAnswered user a =
     (if \<not> isAffiliationAnswered user a then Return False
      else case getAllPromptedProviderItems a of
        None \<Rightarrow> Throw TypeError
      | Some providerItems \<Rightarrow>
          bind_result (providersAnswered user providerItems) (\<lambda>ok.
            if \<not> ok then Return False
            else case getAllPromptedSignupItems a of
              None \<Rightarrow> Throw TypeError
            | Some signupItems \<Rightarrow> Return (signupItemsAnswered user signupItems)))"

section \<open>Second factors\<close>

definition getMfaItemsByRules ::
  "account option \<Rightarrow> organization option \<Rightarrow> string list \<Rightarrow> mfa_item list" where
  "getMfaItemsByRules user organization mfaRules =
     (case (user, organization) of
        (Some u, Some g) \<Rightarrow>
          if org_mfaItems g = None \<and> ac_mfaItems u = None then []
          else
            let mfaItems = (case ac_mfaItems u of
                  None \<Rightarrow> org_mfaItems g
                | Some is \<Rightarrow> if length is \<noteq> 0 then Some is else org_mfaItems g) in
            (case mfaItems of
               None \<Rightarrow> []
             | Some is \<Rightarrow>
                 filter (\<lambda>i. list_ex (\<lambda>mfa. mp_mfaType mfa = mi_name i \<and> \<not> mp_enabled mfa)
                                (ac_multiFactorAuths u))
                   (filter (\<lambda>i. mi_rule i \<in> set mfaRules) is))
      | _ \<Rightarrow> [])"

definition isRequiredEnableMfa :: "account option \<Rightarrow> organization option \<Rightarrow> bool" where
  "isRequiredEnableMfa user organization =
     (case (user, organization) of
        (Some u, Some g) \<Rightarrow>
          if org_mfaItems g = None \<and> ac_mfaItems u = None then False
          else length (getMfaItemsByRules user organization [''Required'']) > 0
      | _ \<Rightarrow> False)"

section \<open>Administrators\<close>

definition isAdminUser :: "account option \<Rightarrow> bool" where
  "isAdminUser account = (case account of None \<Rightarrow> False | Some u \<Rightarrow> ac_owner u = ''built-in'')"

definition isLocalAdminUser :: "account option \<Rightarrow> bool" where
  "isLocalAdminUser account =
     (case account of None \<Rightarrow> False | Some u \<Rightarrow> ac_isAdmin u \<or> isAdminUser account)"

definition getOrganization :: "browser \<Rightarrow> string" where
  "getOrganization b = (case br_local b ''organization'' of None \<Rightarrow> ''All'' | Some g \<Rightarrow> g)"

definition setOrganization :: "string \<Rightarrow> browser \<Rightarrow> browser" where
  "setOrganization g b = set_local ''organization'' g b"

definition getRequestOrganization :: "browser \<Rightarrow> account option \<Rightarrow> string result" where
  "getRequestOrganization b account =
     (case account of
        None \<Rightarrow> Throw TypeError
      | Some u \<Rightarrow>
          Return (if isAdminUser account
                  then (if getOrganization b = ''All'' then ac_owner u else getOrganization b)
                  else ac_owner u))"

definition isDefaultOrganizationSelected :: "browser \<Rightarrow> account option \<Rightarrow> bool" where
  "isDefaultOrganizationSelected b account =
     (if isAdminUser account then getOrganization b = ''All'' else False)"

section \<open>Captcha and sign-in methods\<close>

definition getCaptchaProviderItems :: "application option \<Rightarrow> provider_item list" where
  "getCaptchaProviderItems application =
     (case Option.bind application app_providers of
        None \<Rightarrow> []
      | Some items \<Rightarrow> filter (\<lambda>i. map_option pr_category (pi_provider i) = Some ''Captcha'') items)"

definition getCaptchaRule :: "application option \<Rightarrow> string" where
  "getCaptchaRule application =
     (let items = getCaptchaProviderItems application in
      if list_ex (\<lambda>i. pi_rule i = ''Always'') items then ''Always''
      else if list_ex (\<lambda>i. pi_rule i = ''Dynamic'') items then ''Dynamic''
      else if list_ex (\<lambda>i. pi_rule i = ''Internet-Only'') items then ''Internet-Only''
      else ''Never'')"

definition isCaptchaEnabled :: "application option \<Rightarrow> bool" where
  "isCaptchaEnabled application = (getCaptchaRule application \<noteq> ''Never'')"

definition isInlineCaptchaEnabled :: "application option \<Rightarrow> bool" where
  "isInlineCaptchaEnabled application =
     (case Option.bind application app_signinItems of
        None \<Rightarrow> False
      | Some items \<Rightarrow> list_ex (\<lambda>i. sn_name i = ''Captcha'' \<and> sn_rule i = ''inline'') items)"

definition isSigninMethodEnabled :: "application option \<Rightarrow> string \<Rightarrow> bool" where
  "isSigninMethodEnabled application signinMethod =
     (case Option.bind application app_signinMethods of
        None \<Rightarrow> False
      | Some items \<Rightarrow>
          length (filter (\<lambda>i. sm_name i = signinMethod \<and> sm_rule i \<noteq> ''Hide password'') items) > 0)"

definition isPasswordEnabled :: "application option \<Rightarrow> bool" where
  "isPasswordEnabled application = isSigninMethodEnabled application ''Password''"

definition isCodeSigninEnabled :: "application option \<Rightarrow> bool" where
  "isCodeSigninEnabled application = isSigninMethodEnabled application ''Verification code''"

definition isWebAuthnEnabled :: "application option \<Rightarrow> bool" where
  "isWebAuthnEnabled application = isSigninMethodEnabled application ''WebAuthn''"

definition isLdapEnabled :: "application option \<Rightarrow> bool" where
  "isLdapEnabled application = isSigninMethodEnabled application ''LDAP''"

definition isFaceIdEnabled :: "application option \<Rightarrow> bool" where
  "isFaceIdEnabled application = isSigninMethodEnabled application ''Face ID''"

section \<open>Links of the sign-in pages\<close>

text \<open>
  \<open>trim(str, ch)\<close>: two loops that move the ends of the string inwards. A character of the string is
  compared with the string \<open>ch\<close>.
\<close>

function trim_start :: "string \<Rightarrow> string \<Rightarrow> nat \<Rightarrow> nat \<Rightarrow> nat" where
  "trim_start str ch i e = (if i < e \<and> [str ! i] = ch then trim_start str ch (Suc i) e else i)"
  by pat_completeness auto
termination
  by (relation "measure (\<lambda>(str, ch, i, e). e - i)") auto

function trim_end :: "string \<Rightarrow> string \<Rightarrow> nat \<Rightarrow> nat \<Rightarrow> nat" where
  "trim_end str ch i e = (if e > i \<and> [str ! (e - 1)] = ch then trim_end str ch i (e - 1) else e)"
  by pat_completeness auto
termination
  by (relation "measure (\<lambda>(str, ch, i, e). e)") auto

declare trim_start.simps [simp del] trim_end.simps [simp del]

definition trim :: "string option \<Rightarrow> string \<Rightarrow> string option" where
  "trim str ch =
     (case str of
        None \<Rightarrow> None
      | Some s \<Rightarrow>
          let i = trim_start s ch 0 (length s); e = trim_end s ch i (length s) in
          Some (if i > 0 \<or> e < length s then take (e - i) (drop i s) else s))"

text \<open>The name of the console's own application, \<open>authConfig.appName\<close>, is a parameter.\<close>

definition getLoginLink :: "string \<Rightarrow> browser \<Rightarrow> application option \<Rightarrow> string" where
  "getLoginLink appName b application =
     (let url = (case application of
          None \<Rightarrow> None
        | Some a \<Rightarrow>
            if js_includes (br_pathname b) ''/signup/oauth/authorize'' then
              Some (js_replace (br_pathname b) ''/signup/oauth/authorize'' ''/login/oauth/authorize'')
            else if appName = app_name a then Some ''/login''
            else if app_signinUrl a = [] then
              map_option (\<lambda>h. h @ ''/login'') (trim (Some (app_homepageUrl a)) ''/'')
            else Some (app_signinUrl a)) in
      js_null_str url @ br_search b)"

definition redirectToLoginPage :: "string \<Rightarrow> application option \<Rightarrow> browser \<Rightarrow> browser" where
  "redirectToLoginPage appName application b =
     (let loginLink = getLoginLink appName b application in
      if js_startsWith loginLink ''http://'' \<or> js_startsWith loginLink ''https://''
      then emit (GoToLink loginLink) b else emit (HistoryPush loginLink) b)"

text \<open>
  \<open>renderLink\<close>: an internal link, an external one, or nothing. Following it runs \<open>storeSigninUrl\<close> first.
\<close>

datatype rendered_link = NoLink | RouterLink string | Anchor string

definition renderLink :: "string option \<Rightarrow> rendered_link" where
  "renderLink url =
     (case url of
        None \<Rightarrow> NoLink
      | Some u \<Rightarrow>
          if js_startsWith u ''/'' then RouterLink u
          else if js_startsWith u ''http'' then Anchor u
          else NoLink)"

definition storeSigninUrl :: "browser \<Rightarrow> browser" where
  "storeSigninUrl b = set_session ''signinUrl'' (br_pathname b @ br_search b) b"

definition renderSignupLink :: "string \<Rightarrow> browser \<Rightarrow> application option \<Rightarrow> rendered_link" where
  "renderSignupLink appName b application =
     (let url = (case application of
          None \<Rightarrow> None
        | Some a \<Rightarrow>
            if js_includes (br_pathname b) ''/login/oauth/authorize'' then
              Some (js_replace (br_pathname b) ''/login/oauth/authorize'' ''/signup/oauth/authorize'')
            else if appName = app_name a then Some ''/signup''
            else if app_signupUrl a = [] then
              (if app_isShared a
               then Some (''/signup/'' @ app_name a @ ''-org-'' @ app_organization a)
               else Some (''/signup/'' @ app_name a))
            else Some (app_signupUrl a)) in
      renderLink (Some (js_null_str url @ br_search b)))"

definition renderForgetLink :: "string \<Rightarrow> application option \<Rightarrow> rendered_link" where
  "renderForgetLink appName application =
     renderLink (case application of
        None \<Rightarrow> None
      | Some a \<Rightarrow>
          if appName = app_name a then Some ''/forget''
          else if app_forgetUrl a = [] then Some (''/forget/'' @ app_name a)
          else Some (app_forgetUrl a))"

definition getApplicationName :: "application option \<Rightarrow> string" where
  "getApplicationName application =
     (let name = js_undef_str (map_option app_owner application) @ ''/''
            @ js_undef_str (map_option app_name application) in
      case application of
        Some a \<Rightarrow> if app_isShared a \<and> app_organization a \<noteq> [] then name @ ''-org-'' @ app_organization a else name
      | None \<Rightarrow> name)"

definition getFriendlyUserName :: "account \<Rightarrow> string" where
  "getFriendlyUserName u =
     (if ac_firstName u \<noteq> [] \<and> ac_lastName u \<noteq> [] then ac_firstName u @ '', '' @ ac_lastName u
      else if ac_displayName u \<noteq> [] then ac_displayName u
      else if ac_name u \<noteq> [] then ac_name u
      else ac_id u)"

section \<open>What the prompts ask\<close>

text \<open>
  The questions of the prompt page: to link a provider, to give the country, to give the
  affiliation.
\<close>

datatype question = LinkProvider provider_item | GiveRegion | GiveAffiliation

definition questions :: "application \<Rightarrow> question list" where
  "questions a =
     map LinkProvider (case getAllPromptedProviderItems a of None \<Rightarrow> [] | Some is \<Rightarrow> is)
     @ map (\<lambda>_. GiveRegion)
         (filter (\<lambda>i. si_name i = ''Country/Region'')
           (case getAllPromptedSignupItems a of None \<Rightarrow> [] | Some is \<Rightarrow> is))
     @ (if isAffiliationPrompted a then [GiveAffiliation] else [])"

definition filled_prop :: "account \<Rightarrow> string \<Rightarrow> bool" where
  "filled_prop u k \<longleftrightarrow> ac_props u k \<noteq> None \<and> ac_props u k \<noteq> Some []"

fun answers :: "account \<Rightarrow> question \<Rightarrow> bool" where
  "answers u (LinkProvider item) =
     (case pi_provider item of None \<Rightarrow> False | Some p \<Rightarrow> filled_prop u (js_lower (pr_type p)))"
| "answers u GiveRegion = filled_prop u ''region''"
| "answers u GiveAffiliation = (ac_affiliation u \<noteq> [])"

lemma hasPromptPage_questions: "hasPromptPage a \<longleftrightarrow> questions a \<noteq> []"
  by (auto simp: hasPromptPage_def questions_def filter_empty_conv split: option.splits)

lemma prompted_provider: "isProviderPrompted item \<Longrightarrow> \<exists>p. pi_provider item = Some p"
  by (auto simp: isProviderPrompted_def isProviderVisible_def split: option.splits)

lemma providersAnswered_all:
  "list_all isProviderPrompted items \<Longrightarrow>
     providersAnswered (Some u) items = Return (list_all (answers u \<circ> LinkProvider) items)"
  by (induction items)
     (auto simp: isProviderItemAnswered_def filled_prop_def Let_def dest!: prompted_provider)

lemma signupItemsAnswered_all:
  "signupItemsAnswered (Some u) items
     \<longleftrightarrow> filter (\<lambda>i. si_name i = ''Country/Region'') items = [] \<or> filled_prop u ''region''"
  by (induction items) (auto simp: isSignupItemAnswered_def filled_prop_def Let_def)

lemma list_all_const: "list_all (\<lambda>_. c) xs \<longleftrightarrow> xs = [] \<or> c"
  by (induction xs) auto

lemma isAffiliationAnswered_iff:
  "isAffiliationAnswered (Some u) a \<longleftrightarrow> (isAffiliationPrompted a \<longrightarrow> answers u GiveAffiliation)"
  by (simp add: isAffiliationAnswered_def)

lemma isPromptAnswered_questions:
  assumes "app_providers a = Some ps" "app_signupItems a = Some ss"
  shows "isPromptAnswered (Some u) a = Return (list_all (answers u) (questions a))"
proof -
  let ?ps = "filter isProviderPrompted ps" and ?ss = "filter isSignupItemPrompted ss"
  have "list_all isProviderPrompted ?ps" by (simp add: list_all_iff)
  from providersAnswered_all [OF this, of u] show ?thesis
    using assms
    by (simp add: isPromptAnswered_def questions_def isAffiliationAnswered_iff list_all_const
        getAllPromptedProviderItems_def getAllPromptedSignupItems_def signupItemsAnswered_all
        list.pred_map comp_def)
qed


text \<open>
  C22. The prompt page of an application exists exactly when it has a question to ask, and a signed-in
  user passes it exactly when every question is answered: each prompted provider is linked, and
  the country and the affiliation are given where they are prompted. So an application without
  prompt page never holds a user back.
\<close>

theorem prompts_answered:
  assumes "app_providers a = Some ps" "app_signupItems a = Some ss"
  shows "(hasPromptPage a \<longleftrightarrow> questions a \<noteq> [])
    \<and> isPromptAnswered (Some u) a = Return (list_all (answers u) (questions a))
    \<and> (hasPromptPage a \<or> isPromptAnswered (Some u) a = Return True)"
  using isPromptAnswered_questions [OF assms, of u] hasPromptPage_questions [of a] by auto

definition demo_prompt_app :: application where
  "demo_prompt_app = empty_application
     \<lparr>app_providers := Some [\<lparr>pi_name = ''gh'',
          pi_provider = Some (empty_provider\<lparr>pr_category := ''OAuth'', pr_type := ''GitHub''\<rparr>),
          pi_canSignUp = True, pi_canSignIn = True, pi_prompted = True, pi_rule = []\<rparr>],
      app_signupItems := Some [\<lparr>si_name = ''Country/Region'', si_visible = True, si_prompted = True\<rparr>]\<rparr>"

definition demo_user :: account where
  "demo_user = empty_account\<lparr>ac_props := [''github'' \<mapsto> ''42'']\<rparr>"

theorem prompts_answered_witness:
  "isPromptAnswered (Some demo_user) demo_prompt_app = Return False \<and> hasPromptPage demo_prompt_app"
proof -
  obtain ps ss where "app_providers demo_prompt_app = Some ps" "app_signupItems demo_prompt_app = Some ss"
    by (simp add: demo_prompt_app_def)
  note ok = prompts_answered [OF this, of demo_user]
  have "\<not> list_all (answers demo_user) (questions demo_prompt_app)" by code_simp
  with ok show ?thesis by (cases "questions demo_prompt_app") auto
qed

text \<open>
  An application whose list of providers or of sign-up items is absent has at most the other
  prompts, but asking whether a user answered them throws as soon as the missing list is reached.
\<close>

lemma prompts_missing_list:
  assumes "isAffiliationAnswered (Some u) a"
  shows "(app_providers a = None \<longrightarrow> isPromptAnswered (Some u) a = Throw TypeError)
    \<and> (app_signupItems a = None \<longrightarrow>
         isPromptAnswered (Some u) a = Throw TypeError \<or> isPromptAnswered (Some u) a = Return False)"
proof -
  have "providersAnswered (Some u) (filter isProviderPrompted ps)
      = Return (list_all (answers u \<circ> LinkProvider) (filter isProviderPrompted ps))" for ps
    by (rule providersAnswered_all) (simp add: list_all_iff)
  then show ?thesis
    using assms
    by (cases "app_providers a"; cases "app_signupItems a")
       (simp_all add: isPromptAnswered_def getAllPromptedProviderItems_def getAllPromptedSignupItems_def)
qed

lemma prompts_missing_list_example:
  "isPromptAnswered (Some demo_user) empty_application = Throw TypeError \<and> \<not> hasPromptPage empty_application"
proof -
  have "isAffiliationAnswered (Some demo_user) empty_application" "app_providers empty_application = None"
    "\<not> hasPromptPage empty_application" by code_simp+
  with prompts_missing_list [of demo_user empty_application] show ?thesis by simp
qed

section \<open>Which second factors are required\<close>

text \<open>The items in force: the user's own, when there are any, instead of the organization's.\<close>

definition mfaItems_in_force :: "account \<Rightarrow> organization \<Rightarrow> mfa_item list" where
  "mfaItems_in_force u g =
     (case ac_mfaItems u of
        Some (i # is) \<Rightarrow> i # is
      | _ \<Rightarrow> (case org_mfaItems g of None \<Rightarrow> [] | Some is \<Rightarrow> is))"

definition open_factor :: "account \<Rightarrow> string \<Rightarrow> bool" where
  "open_factor u t \<longleftrightarrow> (\<exists>m \<in> set (ac_multiFactorAuths u). mp_mfaType m = t \<and> \<not> mp_enabled m)"

lemma getMfaItemsByRules_eq:
  "getMfaItemsByRules (Some u) (Some g) rules
     = filter (\<lambda>i. mi_rule i \<in> set rules \<and> open_factor u (mi_name i)) (mfaItems_in_force u g)"
  by (auto simp: getMfaItemsByRules_def mfaItems_in_force_def open_factor_def list_ex_iff Let_def
      filter_filter split: option.splits list.splits intro!: filter_cong)

text \<open>The user sets up a factor.\<close>

definition enable_factor :: "string \<Rightarrow> account \<Rightarrow> account" where
  "enable_factor t u = u\<lparr>ac_multiFactorAuths :=
     map (\<lambda>m. if mp_mfaType m = t then m\<lparr>mp_enabled := True\<rparr> else m) (ac_multiFactorAuths u)\<rparr>"

lemma open_factor_enable: "open_factor (enable_factor t u) t' \<longleftrightarrow> open_factor u t' \<and> t' \<noteq> t"
  by (auto simp: open_factor_def enable_factor_def)

lemma mfaItems_enable: "mfaItems_in_force (enable_factor t u) g = mfaItems_in_force u g"
  by (simp add: mfaItems_in_force_def enable_factor_def)

text \<open>
  C23. A user has to set up a second factor exactly when an item in force is required and its factor
  is offered to the user but not enabled; the items of the user replace those of the organization
  unless they are empty. Setting up a factor removes exactly its item, so setting up the required
  ones one after the other ends the requirement.
\<close>

theorem mfa_required:
  "(isRequiredEnableMfa (Some u) (Some g)
      \<longleftrightarrow> (\<exists>i \<in> set (mfaItems_in_force u g). mi_rule i = ''Required'' \<and> open_factor u (mi_name i)))
   \<and> getMfaItemsByRules (Some (enable_factor t u)) (Some g) rules
       = filter (\<lambda>i. mi_name i \<noteq> t) (getMfaItemsByRules (Some u) (Some g) rules)
   \<and> \<not> isRequiredEnableMfa
        (Some (fold enable_factor (map mi_name (getMfaItemsByRules (Some u) (Some g) [''Required''])) u)) (Some g)"
proof -
  have req: "isRequiredEnableMfa (Some v) (Some g)
      \<longleftrightarrow> getMfaItemsByRules (Some v) (Some g) [''Required''] \<noteq> []" for v
    by (auto simp: isRequiredEnableMfa_def getMfaItemsByRules_eq mfaItems_in_force_def)
  have fold: "getMfaItemsByRules (Some (fold enable_factor ts v)) (Some g) rules
      = filter (\<lambda>i. mi_name i \<notin> set ts) (getMfaItemsByRules (Some v) (Some g) rules)" for ts v rules
    by (induction ts arbitrary: v)
       (auto simp: getMfaItemsByRules_eq open_factor_enable mfaItems_enable intro!: filter_cong)
  show ?thesis
    using fold [of "[t]"]
    by (simp add: req fold filter_empty_conv) (auto simp: getMfaItemsByRules_eq filter_empty_conv)
qed

section \<open>Trimming\<close>

lemma trim_start_eq:
  "i \<le> length s \<Longrightarrow> trim_start s [c] i (length s) = i + length (takeWhile (\<lambda>x. x = c) (drop i s))"
proof (induction s "[c]" i "length s" rule: trim_start.induct)
  case (1 s i)
  show ?case
  proof (cases "i < length s")
    case True
    then have "drop i s = s ! i # drop (Suc i) s" by (simp add: Cons_nth_drop_Suc)
    with True 1 show ?thesis by (subst trim_start.simps) auto
  next
    case False
    with 1 show ?thesis by (subst trim_start.simps) simp
  qed
qed

lemma trim_end_eq:
  "i \<le> e \<Longrightarrow> e \<le> length s \<Longrightarrow>
     trim_end s [c] i e = i + length (dropWhile (\<lambda>x. x = c) (rev (take (e - i) (drop i s))))"
proof (induction s "[c]" i e rule: trim_end.induct)
  case (1 s i e)
  show ?case
  proof (cases "e > i")
    case True
    then obtain k where k: "e = Suc k" "i \<le> k" by (cases e) auto
    then have "take (e - i) (drop i s) = take (k - i) (drop i s) @ [s ! k]"
      using "1.prems" by (simp add: Suc_diff_le take_Suc_conv_app_nth)
    with k "1.hyps" "1.prems" show ?thesis by (subst trim_end.simps) auto
  next
    case False
    with "1.prems" show ?thesis by (subst trim_end.simps) simp
  qed
qed

text \<open>
  \<open>trim\<close> terminates and removes exactly the run of the given character at both ends: it computes
  what dropping the run at the front and then at the back computes. An empty \<open>ch\<close> removes nothing.
\<close>

lemma trim_both_ends:
  "trim (Some s) [c]
     = Some (rev (dropWhile (\<lambda>x. x = c) (rev (dropWhile (\<lambda>x. x = c) s))))
   \<and> trim (Some s) [] = Some s"
proof
  let ?i = "length (takeWhile (\<lambda>x. x = c) s)" and ?t = "dropWhile (\<lambda>x. x = c) s"
  have i: "trim_start s [c] 0 (length s) = ?i" using trim_start_eq [of 0 s c] by simp
  have drop: "drop ?i s = ?t" by (simp add: dropWhile_eq_drop)
  have len: "?i \<le> length s" by (rule length_takeWhile_le)
  have t: "length ?t = length s - ?i" using drop by (metis length_drop)
  have e: "trim_end s [c] ?i (length s) = ?i + length (dropWhile (\<lambda>x. x = c) (rev ?t))"
    using trim_end_eq [OF len order_refl, of c] by (simp add: drop t)
  have suffix: "rev (dropWhile (\<lambda>x. x = c) (rev ?t)) = take (length (dropWhile (\<lambda>x. x = c) (rev ?t))) ?t"
    by (metis append_eq_conv_conj length_rev rev_append rev_rev_ident takeWhile_dropWhile_id)
  have "rev (dropWhile (\<lambda>x. x = c) (rev ?t)) = s"
    if "?i = 0" "length (dropWhile (\<lambda>x. x = c) (rev ?t)) \<ge> length s"
    using that suffix drop by (metis drop_0 take_all)
  then show "trim (Some s) [c] = Some (rev (dropWhile (\<lambda>x. x = c) (rev ?t)))"
    by (auto simp: trim_def i e drop suffix Let_def)
  show "trim (Some s) [] = Some s"
    by (simp add: trim_def trim_start.simps [of s "[]"] trim_end.simps [of s "[]"])
qed

section \<open>Captcha and administrators\<close>

text \<open>
  The captcha rule of an application is the strongest rule of its captcha providers, in the order
  Always, Dynamic, Internet-Only; there is a captcha exactly when one of its captcha providers has
  one of these rules.
\<close>

lemma captcha_rule:
  "getCaptchaRule a \<in> {''Always'', ''Dynamic'', ''Internet-Only'', ''Never''}
   \<and> (isCaptchaEnabled a \<longleftrightarrow>
        (\<exists>i \<in> set (getCaptchaProviderItems a). pi_rule i \<in> {''Always'', ''Dynamic'', ''Internet-Only''}))
   \<and> (getCaptchaRule a = ''Always'' \<longleftrightarrow> (\<exists>i \<in> set (getCaptchaProviderItems a). pi_rule i = ''Always''))"
  by (auto simp: isCaptchaEnabled_def getCaptchaRule_def Let_def list_ex_iff)

text \<open>
  Requests are made for the account's own organization unless the account is a global
  administrator who selected another one, and the organization stored last is the one selected.
\<close>

lemma request_organization:
  "getRequestOrganization b (Some u) = Return g \<Longrightarrow> g \<noteq> ac_owner u
     \<Longrightarrow> isAdminUser (Some u) \<and> br_local b ''organization'' = Some g \<and> \<not> isDefaultOrganizationSelected b (Some u)"
  by (auto simp: getRequestOrganization_def isDefaultOrganizationSelected_def getOrganization_def
      split: if_splits option.splits)

end
