(* ===== verification/Provider_Hint.thy ===== *)
theory Provider_Hint
  imports OAuth_Provider Sign_In_Rules
begin

text \<open>
  \<open>web/public/ProviderHintRedirect.js\<close>: the script that sends a user with a \<open>provider_hint\<close> straight
  to the identity provider, before the console is loaded. It repeats the table of providers, the
  visibility rule and \<open>getAuthUrl\<close> of the console. The definitions carry the prefix \<open>hint_\<close>; what the
  script shares with the console to the letter (the state, the verifier, the corrections of
  endpoint and scope) is used from there. Whatever fails, the script falls back to the address
  without the hint.
\<close>

section \<open>The table of providers\<close>

definition hint_authInfo1 :: "(string \<times> auth_info) list" where
  "hint_authInfo1 = [
     (''Google'', mk_info (Some ''profile+email'') ''https://accounts.google.com/signin/oauth''),
     (''GitHub'', mk_info (Some ''user:email+read:user'') ''https://github.com/login/oauth/authorize''),
     (''QQ'', mk_info (Some ''get_user_info'') ''https://graph.qq.com/oauth2.0/authorize''),
     (''WeChat'', (mk_info (Some ''snsapi_login'') ''https://open.weixin.qq.com/connect/qrconnect'')\<lparr>ai_mpScope := Some ''snsapi_userinfo'', ai_mpEndpoint := Some ''https://open.weixin.qq.com/connect/oauth2/authorize''\<rparr>),
     (''WeChatMiniProgram'', mk_info None ''https://mp.weixin.qq.com/''),
     (''Facebook'', mk_info (Some ''email,public_profile'') ''https://www.facebook.com/dialog/oauth''),
     (''DingTalk'', mk_info (Some ''openid'') ''https://login.dingtalk.com/oauth2/auth''),
     (''Weibo'', mk_info (Some ''email'') ''https://api.weibo.com/oauth2/authorize''),
     (''Gitee'', mk_info (Some ''user_info%20emails'') ''https://gitee.com/oauth/authorize''),
     (''LinkedIn'', mk_info (Some ''r_liteprofile%20r_emailaddress'') ''https://www.linkedin.com/oauth/v2/authorization''),
     (''WeCom'', (mk_info (Some ''snsapi_userinfo'') ''https://login.work.weixin.qq.com/wwlogin/sso/login'')\<lparr>ai_silentEndpoint := Some ''https://open.weixin.qq.com/connect/oauth2/authorize'', ai_internalEndpoint := Some ''https://login.work.weixin.qq.com/wwlogin/sso/login''\<rparr>),
     (''Lark'', (mk_info None ''https://open.feishu.cn/open-apis/authen/v1/index'')\<lparr>ai_endpoint2 := Some ''https://accounts.larksuite.com/open-apis/authen/v1/authorize''\<rparr>),
     (''GitLab'', mk_info (Some ''read_user+profile'') ''https://gitlab.com/oauth/authorize''),
     (''ADFS'', mk_info (Some ''openid'') ''http://example.com''),
     (''Baidu'', mk_info (Some ''basic'') ''http://openapi.baidu.com/oauth/2.0/authorize''),
     (''Alipay'', mk_info (Some ''basic'') ''https://openauth.alipay.com/oauth2/publicAppAuthorize.htm''),
     (''Casdoor'', mk_info (Some ''openid%20profile%20email'') ''http://example.com''),
     (''Infoflow'', mk_info None ''https://xpc.im.baidu.com/oauth2/authorize''),
     (''Apple'', mk_info (Some ''name%20email'') ''https://appleid.apple.com/auth/authorize''),
     (''AzureAD'', mk_info (Some ''user.read'') ''https://login.microsoftonline.com/common/oauth2/v2.0/authorize''),
     (''AzureADB2C'', mk_info (Some ''openid'') ''https://tenant.b2clogin.com/tenant.onmicrosoft.com/userflow/oauth2/v2.0/authorize''),
     (''Slack'', mk_info (Some ''users:read'') ''https://slack.com/oauth/authorize''),
     (''Steam'', mk_info None ''https://steamcommunity.com/openid/login''),
     (''Okta'', mk_info (Some ''openid%20profile%20email'') ''http://example.com''),
     (''Douyin'', mk_info (Some ''user_info'') ''https://open.douyin.com/platform/oauth/connect''),
     (''Kwai'', mk_info (Some ''user_info'') ''https://open.kuaishou.com/oauth2/connect''),
     (''Custom'', mk_info None ''https://example.com/''),
     (''Bilibili'', mk_info None ''https://passport.bilibili.com/register/pc_oauth2.html''),
     (''Line'', mk_info (Some ''profile%20openid%20email'') ''https://access.line.me/oauth2/v2.1/authorize''),
     (''Amazon'', mk_info (Some ''profile'') ''https://www.amazon.com/ap/oa''),
     (''Auth0'', mk_info (Some ''openid%20profile%20email'') ''http://auth0.com/authorize''),
     (''BattleNet'', mk_info (Some ''openid'') ''https://oauth.battlenet.com.cn/authorize''),
     (''Bitbucket'', mk_info (Some ''account'') ''https://bitbucket.org/site/oauth2/authorize''),
     (''Box'', mk_info (Some ''root_readwrite'') ''https://account.box.com/api/oauth2/authorize''),
     (''CloudFoundry'', mk_info (Some ''cloud_controller.read'') ''https://login.cloudfoundry.org/oauth/authorize''),
     (''Dailymotion'', mk_info (Some ''userinfo'') ''https://api.dailymotion.com/oauth/authorize''),
     (''Deezer'', mk_info (Some ''basic_access'') ''https://connect.deezer.com/oauth/auth.php''),
     (''DigitalOcean'', mk_info (Some ''read'') ''https://cloud.digitalocean.com/v1/oauth/authorize''),
     (''Discord'', mk_info (Some ''identify%20email'') ''https://discord.com/api/oauth2/authorize''),
     (''Dropbox'', mk_info (Some ''account_info.read'') ''https://www.dropbox.com/oauth2/authorize''),
     (''EveOnline'', mk_info (Some ''publicData'') ''https://login.eveonline.com/oauth/authorize'')]"

definition hint_authInfo2 :: "(string \<times> auth_info) list" where
  "hint_authInfo2 = [
     (''Fitbit'', mk_info (Some ''activity%20heartrate%20location%20nutrition%20profile%20settings%20sleep%20social%20weight'') ''https://www.fitbit.com/oauth2/authorize''),
     (''Gitea'', mk_info (Some ''user:email'') ''https://gitea.com/login/oauth/authorize''),
     (''Heroku'', mk_info (Some ''global'') ''https://id.heroku.com/oauth/authorize''),
     (''InfluxCloud'', mk_info (Some ''read:org'') ''https://cloud2.influxdata.com/oauth/authorize''),
     (''Instagram'', mk_info (Some ''user_profile'') ''https://api.instagram.com/oauth/authorize''),
     (''Intercom'', mk_info (Some ''user.read'') ''https://app.intercom.com/oauth''),
     (''Kakao'', mk_info (Some ''account_email'') ''https://kauth.kakao.com/oauth/authorize''),
     (''Lastfm'', mk_info (Some ''user_read'') ''https://www.last.fm/api/auth''),
     (''Mailru'', mk_info (Some ''userinfo'') ''https://oauth.mail.ru/login''),
     (''MailRu'', mk_info (Some ''userinfo'') ''https://oauth.mail.ru/login''),
     (''Meetup'', mk_info (Some ''basic'') ''https://secure.meetup.com/oauth2/authorize''),
     (''MicrosoftOnline'', mk_info (Some ''openid%20profile%20email'') ''https://login.microsoftonline.com/common/oauth2/v2.0/authorize''),
     (''Naver'', mk_info (Some ''profile'') ''https://nid.naver.com/oauth2.0/authorize''),
     (''Nextcloud'', mk_info (Some ''openid%20profile%20email'') ''https://cloud.example.org/apps/oauth2/authorize''),
     (''OneDrive'', mk_info (Some ''offline_access%20onedrive.readonly'') ''https://login.live.com/oauth20_authorize.srf''),
     (''Oura'', mk_info (Some ''personal'') ''https://cloud.ouraring.com/oauth/authorize''),
     (''Patreon'', mk_info (Some ''identity'') ''https://www.patreon.com/oauth2/authorize''),
     (''PayPal'', mk_info (Some ''openid%20profile%20email'') ''https://www.sandbox.paypal.com/connect''),
     (''SalesForce'', mk_info (Some ''openid%20profile%20email'') ''https://login.salesforce.com/services/oauth2/authorize''),
     (''Shopify'', mk_info (Some ''read_products'') ''https://myshopify.com/admin/oauth/authorize''),
     (''Soundcloud'', mk_info (Some ''non-expiring'') ''https://api.soundcloud.com/connect''),
     (''SoundCloud'', mk_info (Some ''non-expiring'') ''https://api.soundcloud.com/connect''),
     (''Spotify'', mk_info (Some ''user-read-email'') ''https://accounts.spotify.com/authorize''),
     (''Strava'', mk_info (Some ''read'') ''https://www.strava.com/oauth/authorize''),
     (''Stripe'', mk_info (Some ''read_only'') ''https://connect.stripe.com/oauth/authorize''),
     (''TikTok'', mk_info (Some ''user.info.basic'') ''https://www.tiktok.com/auth/authorize/''),
     (''Tumblr'', mk_info (Some ''basic'') ''https://www.tumblr.com/oauth2/authorize''),
     (''Twitch'', mk_info (Some ''user_read'') ''https://id.twitch.tv/oauth2/authorize''),
     (''Twitter'', mk_info (Some ''users.read%20tweet.read'') ''https://twitter.com/i/oauth2/authorize''),
     (''Telegram'', mk_info (Some '''') ''https://core.telegram.org/widgets/login''),
     (''Typetalk'', mk_info (Some ''my'') ''https://typetalk.com/oauth2/authorize''),
     (''Uber'', mk_info (Some ''profile'') ''https://login.uber.com/oauth/v2/authorize''),
     (''VK'', mk_info (Some ''email'') ''https://oauth.vk.com/authorize''),
     (''Wepay'', mk_info (Some ''manage_accounts%20view_user'') ''https://www.wepay.com/v2/oauth2/authorize''),
     (''Xero'', mk_info (Some ''openid%20profile%20email'') ''https://login.xero.com/identity/connect/authorize''),
     (''Yahoo'', mk_info (Some ''openid%20profile%20email'') ''https://api.login.yahoo.com/oauth2/request_auth''),
     (''Yammer'', mk_info (Some ''user'') ''https://www.yammer.com/oauth2/authorize''),
     (''Yandex'', mk_info (Some ''login:email'') ''https://oauth.yandex.com/authorize''),
     (''Zoom'', mk_info (Some ''user:read'') ''https://zoom.us/oauth/authorize''),
     (''MetaMask'', mk_info (Some '''') ''''),
     (''Web3Onboard'', mk_info (Some '''') '''')]"

definition hint_authInfo :: "string \<Rightarrow> auth_info option" where
  "hint_authInfo = map_of (hint_authInfo1 @ hint_authInfo2)"

definition hint_plainTypes :: "string list" where
  "hint_plainTypes =
     [''Google'', ''GitHub'', ''Facebook'', ''Weibo'', ''Gitee'', ''LinkedIn'', ''GitLab'',
      ''AzureAD'', ''Slack'', ''Line'', ''Amazon'', ''Auth0'', ''BattleNet'', ''Bitbucket'',
      ''Box'', ''CloudFoundry'', ''Dailymotion'', ''DigitalOcean'', ''Discord'', ''Dropbox'',
      ''EveOnline'', ''Gitea'', ''Heroku'', ''InfluxCloud'', ''Instagram'', ''Intercom'',
      ''Kakao'', ''MailRu'', ''Mailru'', ''Meetup'', ''MicrosoftOnline'', ''Naver'', ''Nextcloud'',
      ''OneDrive'', ''Oura'', ''Patreon'', ''PayPal'', ''SalesForce'', ''SoundCloud'',
      ''Soundcloud'', ''Spotify'', ''Strava'', ''Stripe'', ''Tumblr'', ''Twitch'', ''Typetalk'',
      ''Uber'', ''VK'', ''Wepay'', ''Xero'', ''Yahoo'', ''Yammer'', ''Yandex'', ''Zoom'']"

section \<open>The address\<close>

text \<open>The short state in the WeChat browser does not depend on an official account here.\<close>

definition hint_isShortState :: "browser \<Rightarrow> provider \<Rightarrow> bool" where
  "hint_isShortState b p =
     (let isTelegramOIDC = (pr_type p = ''Telegram''
            \<or> (pr_type p = ''Custom'' \<and> pr_customAuthUrl p \<noteq> []
               \<and> js_includes (pr_customAuthUrl p) ''oauth.telegram.org'')) in
      (pr_type p = ''WeChat'' \<and> js_includes (br_userAgent b) ''MicroMessenger'')
      \<or> pr_type p = ''Twitter'' \<or> isTelegramOIDC)"

definition hint_wechatUrl ::
  "browser \<Rightarrow> provider \<Rightarrow> auth_info \<Rightarrow> url_parts \<Rightarrow> string option \<Rightarrow> string" where
  "hint_wechatUrl b p info u code =
     (if js_includes (br_userAgent b) ''MicroMessenger'' then
        js_undef_str (ai_mpEndpoint info) @ ''?appid='' @ pr_clientId2 p
        @ ''&redirect_uri='' @ up_redirectUri u @ ''&state='' @ up_state u
        @ ''&scope='' @ js_undef_str (ai_mpScope info)
        @ ''&response_type=code#wechat_redirect''
      else if pr_clientId2 p \<noteq> [] \<and> pr_disableSsl p \<and> pr_signName p = ''media'' then
        up_origin u @ ''/callback?state='' @ up_state u @ ''&code=wechat_oa:'' @ js_undef_str code
      else up_endpoint u @ ''?appid='' @ pr_clientId p @ ''&redirect_uri='' @ up_redirectUri u
           @ ''&scope='' @ up_scope u @ ''&response_type=code&state='' @ up_state u
           @ ''#wechat_redirect'')"

text \<open>The custom address is not encoded here.\<close>

definition hint_customUrl :: "provider \<Rightarrow> url_parts \<Rightarrow> string" where
  "hint_customUrl p u =
     pr_customAuthUrl p @ ''?client_id='' @ pr_clientId p @ ''&redirect_uri='' @ up_redirectUri u
     @ ''&scope='' @ pr_scopes p @ ''&response_type=code&state='' @ up_state u
     @ (if pr_enablePkce p
        then ''&code_challenge='' @ up_challenge u @ ''&code_challenge_method=S256'' else [])"

definition hint_authUrlByType ::
  "browser \<Rightarrow> provider \<Rightarrow> auth_info \<Rightarrow> url_parts \<Rightarrow> string option \<Rightarrow> string" where
  "hint_authUrlByType b p info u code =
     (let t = pr_type p; endpoint = up_endpoint u; redirectUri = up_redirectUri u;
          scope = up_scope u; st = up_state u; cid = pr_clientId p;
          std = ''&redirect_uri='' @ redirectUri @ ''&state='' @ st
                @ ''&response_type=code&scope='' @ scope in
      if t \<in> set hint_plainTypes then
        endpoint @ ''?client_id='' @ cid @ ''&redirect_uri='' @ redirectUri
        @ ''&scope='' @ scope @ ''&response_type=code&state='' @ st
      else if t = ''QQ'' then
        endpoint @ ''?response_type=code&client_id='' @ cid
        @ ''&redirect_uri='' @ encodeURIComponent redirectUri
        @ ''&state='' @ encodeURIComponent st @ ''&scope='' @ encodeURIComponent scope
      else if t = ''AzureADB2C'' then
        ''https://'' @ pr_domain p @ ''.b2clogin.com/'' @ pr_domain p
        @ ''.onmicrosoft.com/'' @ pr_appId p @ ''/oauth2/v2.0/authorize?client_id='' @ cid
        @ ''&nonce=defaultNonce&redirect_uri='' @ encodeURIComponent redirectUri
        @ ''&scope='' @ scope @ ''&response_type=code&state='' @ st @ ''&prompt=login''
      else if t = ''DingTalk'' then
        endpoint @ ''?client_id='' @ cid @ ''&redirect_uri='' @ redirectUri
        @ ''&scope='' @ scope @ ''&response_type=code&prompt=login%20consent&state='' @ st
      else if t = ''WeChat'' then hint_wechatUrl b p info u code
      else if t = ''WeCom'' then wecomUrl p info u
      else if t = ''Lark'' then
        endpoint @ ''?app_id='' @ cid @ ''&redirect_uri=''
        @ (if pr_disableSsl p then encodeURIComponent redirectUri else redirectUri)
        @ ''&state='' @ st
      else if t = ''ADFS'' then
        pr_domain p @ ''/adfs/oauth2/authorize?client_id='' @ cid
        @ ''&redirect_uri='' @ redirectUri @ ''&state='' @ st
        @ ''&response_type=code&nonce=casdoor&scope=openid''
      else if t = ''Baidu'' then endpoint @ ''?client_id='' @ cid @ std @ ''&display=popup''
      else if t = ''Alipay'' then
        endpoint @ ''?app_id='' @ cid @ ''&scope=auth_user'' @ std @ ''&display=popup''
      else if t = ''Casdoor'' then pr_domain p @ ''/login/oauth/authorize?client_id='' @ cid @ std
      else if t = ''Infoflow'' then
        endpoint @ ''?appid='' @ cid @ ''&redirect_uri='' @ redirectUri @ ''?state='' @ st
      else if t = ''Apple'' then
        endpoint @ ''?client_id='' @ cid @ ''&redirect_uri='' @ redirectUri
        @ ''&state='' @ st @ ''&response_type=code%20id_token&scope='' @ scope
        @ ''&response_mode=form_post''
      else if t = ''Steam'' then
        endpoint @ ''?openid.claimed_id=http://specs.openid.net/auth/2.0/identifier_select&openid.identity=http://specs.openid.net/auth/2.0/identifier_select&openid.mode=checkid_setup&openid.ns=http://specs.openid.net/auth/2.0&openid.realm=''
        @ up_origin u @ ''&openid.return_to='' @ redirectUri @ ''?state='' @ st
      else if t = ''Okta'' then pr_domain p @ ''/v1/authorize?client_id='' @ cid @ std
      else if t = ''Douyin'' \<or> t = ''TikTok'' then endpoint @ ''?client_key='' @ cid @ std
      else if t = ''Kwai'' then endpoint @ ''?app_id='' @ cid @ std
      else if normalizedType p = ''Custom'' then hint_customUrl p u
      else if t = ''Bilibili'' then
        endpoint @ ''#/?client_id='' @ cid @ ''&return_url='' @ redirectUri
        @ ''&state='' @ st @ ''&response_type=code''
      else if t = ''Deezer'' then
        endpoint @ ''?app_id='' @ cid @ ''&redirect_uri='' @ redirectUri @ ''&perms='' @ scope
      else if t = ''Lastfm'' then endpoint @ ''?api_key='' @ cid @ ''&cb='' @ redirectUri
      else if t = ''Shopify'' then
        endpoint @ ''?client_id='' @ cid @ ''&redirect_uri='' @ redirectUri
        @ ''&scope='' @ scope @ ''&state='' @ st @ ''&grant_options[]=per-user''
      else if t = ''Twitter'' \<or> t = ''Fitbit'' then
        endpoint @ ''?client_id='' @ cid @ std
        @ ''&code_challenge='' @ up_challenge u @ ''&code_challenge_method=S256''
      else if t = ''Telegram'' then up_origin u @ ''/telegram-login?state='' @ st
      else if t = ''MetaMask'' \<or> t = ''Web3Onboard'' then redirectUri @ ''?state='' @ st
      else [])"

definition hint_getAuthUrl ::
  "nat list \<Rightarrow> (string \<Rightarrow> nat list) \<Rightarrow> browser \<Rightarrow> application option \<Rightarrow> provider option
     \<Rightarrow> string \<Rightarrow> string option \<Rightarrow> (string \<times> browser) result" where
  "hint_getAuthUrl rnd sha b application provider method code =
     (case (application, provider) of
        (Some a, Some p) \<Rightarrow>
          (case hint_authInfo (normalizedType p) of
             None \<Rightarrow> Return ([], b)
           | Some info \<Rightarrow>
               bind_result
                 (getStateFromQueryParams b (stateApplicationName a) (pr_name p) method
                    (hint_isShortState b p))
                 (\<lambda>(st, b1).
                    Return (hint_authUrlByType b p info (authParts rnd sha b a p info st) code,
                      storeCodeVerifier st (generateCodeVerifier rnd) b1)))
      | _ \<Rightarrow> Return ([], b))"

section \<open>The redirect\<close>

definition hint_isProviderVisible :: "provider_item option \<Rightarrow> bool" where
  "hint_isProviderVisible providerItem =
     (case providerItem of
        None \<Rightarrow> False
      | Some item \<Rightarrow>
          (case pi_provider item of
             None \<Rightarrow> False
           | Some p \<Rightarrow> pr_category p \<in> {''OAuth'', ''SAML'', ''Web3''} \<and> pr_type p \<noteq> ''WeChatMiniProgram''))"

definition hint_isProviderVisibleForSignIn :: "provider_item \<Rightarrow> bool" where
  "hint_isProviderVisibleForSignIn item = (pi_canSignIn item \<and> hint_isProviderVisible (Some item))"

text \<open>\<open>url.search\<close> after \<open>url.searchParams.delete("provider_hint")\<close>: the query is written anew.\<close>

definition fallbackSearch :: "browser \<Rightarrow> string" where
  "fallbackSearch b = url_search (usp_delete (URLSearchParams (br_search b)) ''provider_hint'')"

definition getFallbackUrl :: "browser \<Rightarrow> string" where
  "getFallbackUrl b = br_pathname b @ fallbackSearch b @ url_hash (br_href b)"

definition redirectToFallback :: "browser \<Rightarrow> browser" where
  "redirectToFallback b = emit (ReplaceLocation (getFallbackUrl b)) b"

text \<open>The query of \<open>/api/get-app-login\<close>.\<close>

definition hint_loginParams :: "params \<Rightarrow> params" where
  "hint_loginParams cur =
     (let get = (\<lambda>k. js_or (usp_get cur k) []) in
      [(''clientId'', get ''client_id''), (''responseType'', get ''response_type''),
       (''redirectUri'', get ''redirect_uri''), (''type'', ''code''), (''scope'', get ''scope''),
       (''state'', get ''state''), (''nonce'', get ''nonce''),
       (''code_challenge_method'', get ''code_challenge_method''),
       (''code_challenge'', get ''code_challenge'')])"

text \<open>The script up to its request: \<^term>\<open>None\<close> when it has already fallen back.\<close>

definition hint_run :: "browser \<Rightarrow> string option \<times> browser" where
  "hint_run b0 =
     (let b = set_local ''signinUrl'' (br_pathname b0 @ br_search b0) b0;
          cur = URLSearchParams (br_search b) in
      if \<not> js_truthy (usp_get cur ''provider_hint'') then (None, redirectToFallback b)
      else (Some (''/api/get-app-login?'' @ usp_toString (hint_loginParams cur)), b))"

text \<open>The script after the answer; every exception ends in the fallback.\<close>

definition hint_response ::
  "nat list \<Rightarrow> (string \<Rightarrow> nat list) \<Rightarrow> string \<Rightarrow> application option \<Rightarrow> browser \<Rightarrow> browser" where
  "hint_response rnd sha status dat b =
     (case (status = ''ok'', dat) of
        (True, Some application) \<Rightarrow>
          let b1 = set_local ''applicationName'' (app_name application) b;
              hint = js_nullish (usp_get (URLSearchParams (br_search b)) ''provider_hint'') in
          (case find (\<lambda>item. (case pi_provider item of None \<Rightarrow> False | Some p \<Rightarrow> pr_name p = hint)
                   \<and> hint_isProviderVisibleForSignIn item)
                 (case app_providers application of None \<Rightarrow> [] | Some items \<Rightarrow> items) of
             None \<Rightarrow> redirectToFallback b1
           | Some item \<Rightarrow>
               (case hint_getAuthUrl rnd sha b1 (Some application) (pi_provider item) ''signup'' None of
                  Inl e \<Rightarrow> redirectToFallback b1
                | Inr (url, b2) \<Rightarrow>
                    if url = [] then redirectToFallback b2
                    else emit (ReplaceLocation url) b2))
      | _ \<Rightarrow> redirectToFallback b)"

section \<open>Agreement with the console\<close>

text \<open>What the console returns, with \<open>undefined\<close> as the empty string.\<close>

definition url_of :: "string option \<times> 'a \<Rightarrow> string" where
  "url_of r = (case fst r of Some url \<Rightarrow> url | None \<Rightarrow> [])"

lemma url_of_simps:
  "url_of (Some x, e) = x"
  "url_of (None, e) = []"
  "url_of (apfst Some q) = fst q"
  "url_of (if c then r else r') = (if c then url_of r else url_of r')"
  by (simp_all add: url_of_def)

lemma if_disj_nested: "(if a \<or> b then x else y) = (if a then x else if b then x else y)"
  by simp

lemma hint_table:
  "filter (\<lambda>e. fst e \<notin> {''MailRu'', ''SoundCloud''}) (hint_authInfo1 @ hint_authInfo2)
     = authInfo1 @ authInfo2 @ authInfo3"
  by code_simp

lemma map_of_filter_fst: "P k \<Longrightarrow> map_of (filter (\<lambda>e. P (fst e)) xs) k = map_of xs k"
  by (induction xs) auto

lemma hint_authInfo_eq: "k \<notin> {''MailRu'', ''SoundCloud''} \<Longrightarrow> hint_authInfo k = authInfo k"
  unfolding hint_authInfo_def authInfo_def hint_table [symmetric]
  by (rule map_of_filter_fst [symmetric])

lemma authInfo_added: "authInfo ''MailRu'' = None" "authInfo ''SoundCloud'' = None"
  by code_simp+

lemma hint_authInfo_known: "authInfo k = Some i \<Longrightarrow> hint_authInfo k = Some i"
  using hint_authInfo_eq [of k] authInfo_added by fastforce

lemma hint_plainTypes_iff:
  "t \<in> set hint_plainTypes \<longleftrightarrow> t \<in> set plainTypes \<or> t = ''Mailru'' \<or> t = ''Soundcloud''"
  by (auto simp: hint_plainTypes_def plainTypes_def)

text \<open>The providers for which the two programs have to agree.\<close>

definition hint_shared :: "browser \<Rightarrow> provider \<Rightarrow> bool" where
  "hint_shared b p \<longleftrightarrow>
     pr_type p \<noteq> ''Mailru'' \<and> pr_type p \<noteq> ''Soundcloud'' \<and> normalizedType p \<noteq> ''Custom''
     \<and> \<not> (pr_type p = ''WeChat'' \<and> js_includes (br_userAgent b) ''MicroMessenger'' \<and> pr_clientId2 p = [])"

lemma hint_wechatUrl_eq:
  "hint_shared b p \<Longrightarrow> pr_type p = ''WeChat'' \<Longrightarrow> fst (wechatUrl b p i u code) = hint_wechatUrl b p i u code"
  by (simp add: hint_shared_def wechatUrl_def hint_wechatUrl_def)

lemma wechatUrl_quiet:
  "hint_shared b p \<Longrightarrow> pr_type p = ''WeChat'' \<Longrightarrow> snd (wechatUrl b p i u code) = []"
  by (simp add: hint_shared_def wechatUrl_def)

lemma hint_isShortState_eq: "hint_shared b p \<Longrightarrow> hint_isShortState b p = isShortState b p"
  by (auto simp: hint_shared_def hint_isShortState_def isShortState_def Let_def)

lemma hint_authUrlByType_eq:
  assumes "hint_shared b p"
  shows "hint_authUrlByType b p i u code = url_of (authUrlByType b p i u code)"
proof -
  have "pr_type p \<in> set hint_plainTypes \<longleftrightarrow> pr_type p \<in> set plainTypes"
    using assms by (simp add: hint_plainTypes_iff hint_shared_def)
  moreover have "normalizedType p \<noteq> ''Custom''"
    using assms by (simp add: hint_shared_def)
  ultimately show ?thesis
    using hint_wechatUrl_eq [OF assms, of i u code]
    unfolding hint_authUrlByType_def authUrlByType_def Let_def url_of_simps
    by (simp only: if_False if_disj_nested split del: if_split cong: if_cong)
qed

lemma snd_simps: "snd (if c then r else r') = (if c then snd r else snd r')" "snd (apfst f q) = snd q"
  by simp_all

lemma authUrlByType_quiet:
  assumes "hint_shared b p"
  shows "snd (authUrlByType b p i u code) = []"
  using wechatUrl_quiet [OF assms, of i u code]
  unfolding authUrlByType_def Let_def snd_simps snd_conv
  by (simp only: if_cancel split del: if_split cong: if_cong)



section \<open>The script always leaves the page\<close>

text \<open>A provider item that the hint names and that the user may choose.\<close>

definition hinted :: "browser \<Rightarrow> application \<Rightarrow> provider_item \<Rightarrow> bool" where
  "hinted b a item \<longleftrightarrow>
     (\<exists>items p. app_providers a = Some items \<and> item \<in> set items \<and> pi_provider item = Some p
        \<and> pr_name p = js_nullish (usp_get (URLSearchParams (br_search b)) ''provider_hint'')
        \<and> isProviderVisibleForSignIn item)"

lemma getFallbackUrl_storage [simp]:
  "getFallbackUrl (set_local k v b) = getFallbackUrl b"
  "getFallbackUrl (set_session k v b) = getFallbackUrl b"
  "br_effects (set_local k v b) = br_effects b"
  "br_effects (set_session k v b) = br_effects b"
  by (simp_all add: getFallbackUrl_def fallbackSearch_def storage_ops)

text \<open>Only the storages change while the address is computed.\<close>

lemma getState_frame:
  "getStateFromQueryParams b a p m short = Return (st, b') \<Longrightarrow>
     br_effects b' = br_effects b \<and> getFallbackUrl b' = getFallbackUrl b"
  by (auto simp: getStateFromQueryParams_def Let_def bind_result_Inr_iff split: if_splits)

lemma hint_getAuthUrl_frame:
  "hint_getAuthUrl rnd sha b a p meth code = Return (url, b') \<Longrightarrow>
     br_effects b' = br_effects b \<and> getFallbackUrl b' = getFallbackUrl b"
  by (auto simp: hint_getAuthUrl_def bind_result_Inr_iff storeCodeVerifier_def
      dest: getState_frame split: option.splits)

text \<open>The script shows the providers that the console shows.\<close>

lemma hint_visible_eq: "hint_isProviderVisibleForSignIn item \<longleftrightarrow> isProviderVisibleForSignIn item"
  by (simp add: hint_isProviderVisibleForSignIn_def hint_isProviderVisible_def
      isProviderVisibleForSignIn_def isProviderVisible_def split: option.split) blast

lemma hinted_find:
  assumes "find (\<lambda>item. (case pi_provider item of None \<Rightarrow> False | Some p \<Rightarrow>
               pr_name p = js_nullish (usp_get (URLSearchParams (br_search b)) ''provider_hint''))
             \<and> hint_isProviderVisibleForSignIn item)
           (case app_providers a of None \<Rightarrow> [] | Some items \<Rightarrow> items) = Some item"
  shows "hinted b a item"
  using assms
  by (auto simp: find_Some_iff hinted_def hint_visible_eq split: option.splits intro: nth_mem)


end
