(* ===== verification/Send_Code.thy ===== *)
theory Send_Code
  imports Sign_In_Rules
begin

text \<open>
  The input for a verification code (\<open>web/src/common/SendCodeInput.js\<close>): which captcha a request for a
  code carries, and the countdown that blocks the button until the next request.

  The state holds the React state, the timeouts of running countdowns (each with its own
  \<open>leftTimeSecond\<close>) and the requests that wait for an answer. The captcha dialogue and the server are
  the environment: the dialogue may report a solved captcha at any time.
\<close>

section \<open>State\<close>

text \<open>Where the captcha of a request comes from, with the type and the token that are sent.\<close>

datatype captcha_source = NoCaptcha | Inline string string | Dialogue string string

record send_props =
  sd_application :: "application option"
  sd_resend :: int                             \<comment> \<open>\<open>application.codeResendTimeout\<close>\<close>
  sd_inline :: bool                            \<comment> \<open>\<open>useInlineCaptcha\<close>\<close>

record send_state =
  sd_visible :: bool
  sd_left :: int
  sd_loading :: bool
  sd_timers :: "int list"
  sd_checks :: nat                             \<comment> \<open>requests for the captcha status in flight\<close>
  sd_sends :: nat                              \<comment> \<open>requests for a code in flight\<close>
  sd_sent :: "captcha_source list"
  sd_refreshes :: nat                          \<comment> \<open>calls of \<open>refreshCaptcha\<close>\<close>
  sd_messages :: "string list"

definition fresh_send :: send_state where
  "fresh_send = \<lparr>sd_visible = False, sd_left = 0, sd_loading = False, sd_timers = [], sd_checks = 0,
     sd_sends = 0, sd_sent = [], sd_refreshes = 0, sd_messages = []\<rparr>"

section \<open>Handlers\<close>

definition getCodeResendTimeout :: "send_props \<Rightarrow> int" where
  "getCodeResendTimeout p = (if sd_application p \<noteq> None \<and> sd_resend p > 0 then sd_resend p else 60)"

definition handleCountDown :: "int \<Rightarrow> send_state \<Rightarrow> send_state" where
  "handleCountDown leftTime s = s\<lparr>sd_left := leftTime, sd_timers := sd_timers s @ [leftTime]\<rparr>"

text \<open>One call of \<open>countDown\<close>, by the timeout at position \<open>j\<close>.\<close>

definition countDown :: "nat \<Rightarrow> send_state \<Rightarrow> send_state" where
  "countDown j s =
     (let leftTimeSecond = sd_timers s ! j - 1;
          s' = s\<lparr>sd_left := leftTimeSecond\<rparr> in
      if leftTimeSecond = 0 then s'\<lparr>sd_timers := take j (sd_timers s) @ drop (Suc j) (sd_timers s)\<rparr>
      else s'\<lparr>sd_timers := (sd_timers s)[j := leftTimeSecond]\<rparr>)"

definition send_handleOk :: "captcha_source \<Rightarrow> send_state \<Rightarrow> send_state" where
  "send_handleOk c s =
     s\<lparr>sd_visible := False, sd_loading := True, sd_sends := sd_sends s + 1, sd_sent := sd_sent s @ [c]\<rparr>"

definition code_sent :: "send_props \<Rightarrow> bool \<Rightarrow> send_state \<Rightarrow> send_state" where
  "code_sent p ok s =
     (let s' = s\<lparr>sd_loading := False, sd_sends := sd_sends s - 1\<rparr> in
      if ok then handleCountDown (getCodeResendTimeout p) s'
      else if sd_inline p then s'\<lparr>sd_refreshes := sd_refreshes s + 1\<rparr> else s')"

text \<open>The inline captcha: its type and token, either of which may be missing.\<close>

definition sendCodeWithCaptcha :: "send_props \<Rightarrow> string option \<Rightarrow> string option \<Rightarrow> send_state \<Rightarrow> send_state" where
  "sendCodeWithCaptcha p ty tok s =
     (if \<not> sd_inline p then s\<lparr>sd_visible := True\<rparr>
      else case (ty, tok) of
        (Some (c # cs), Some (d # ds)) \<Rightarrow> send_handleOk (Inline (c # cs) (d # ds)) s
      | _ \<Rightarrow> s\<lparr>sd_messages := sd_messages s @ [''general:Please complete the captcha correctly'']\<rparr>)"

definition send_handleSearch :: "send_props \<Rightarrow> string option \<Rightarrow> string option \<Rightarrow> send_state \<Rightarrow> send_state" where
  "send_handleSearch p ty tok s =
     (let captchaRule = getCaptchaRule (sd_application p) in
      if captchaRule = ''Never'' then send_handleOk NoCaptcha s
      else if captchaRule = ''Always'' then sendCodeWithCaptcha p ty tok s
      else if captchaRule = ''Dynamic'' \<or> captchaRule = ''Internet-Only'' then s\<lparr>sd_checks := sd_checks s + 1\<rparr>
      else send_handleOk NoCaptcha s)"

text \<open>The answer to the captcha status: needed, or not needed or not answered.\<close>

definition captcha_status :: "send_props \<Rightarrow> bool \<Rightarrow> string option \<Rightarrow> string option \<Rightarrow> send_state \<Rightarrow> send_state" where
  "captcha_status p needed ty tok s =
     (let s' = s\<lparr>sd_checks := sd_checks s - 1\<rparr> in
      if needed then sendCodeWithCaptcha p ty tok s' else send_handleOk NoCaptcha s')"

section \<open>Events\<close>

text \<open>
  The button is disabled while \<open>buttonLeftTime > 0\<close> and ignores clicks while it is loading.
\<close>

inductive send_reachable :: "send_props \<Rightarrow> send_state \<Rightarrow> bool" for p where
  fresh: "send_reachable p fresh_send"
| click: "send_reachable p s \<Longrightarrow> \<not> sd_left s > 0 \<Longrightarrow> \<not> sd_loading s \<Longrightarrow> send_reachable p (send_handleSearch p ty tok s)"
| status: "send_reachable p s \<Longrightarrow> sd_checks s > 0 \<Longrightarrow> send_reachable p (captcha_status p needed ty tok s)"
| solved: "send_reachable p s \<Longrightarrow> \<not> sd_inline p \<Longrightarrow> send_reachable p (send_handleOk (Dialogue ty' tok') s)"
| cancelled: "send_reachable p s \<Longrightarrow> send_reachable p (s\<lparr>sd_visible := False\<rparr>)"
| answered: "send_reachable p s \<Longrightarrow> sd_sends s > 0 \<Longrightarrow> send_reachable p (code_sent p ok s)"
| second: "send_reachable p s \<Longrightarrow> j < length (sd_timers s) \<Longrightarrow> send_reachable p (countDown j s)"

section \<open>Invariants\<close>

definition timers_ok :: "send_state \<Rightarrow> bool" where
  "timers_ok s = (list_all (\<lambda>n. 0 < n) (sd_timers s) \<and> 0 \<le> sd_left s \<and> (0 < sd_left s \<longrightarrow> sd_timers s \<noteq> []))"

lemma getCodeResendTimeout_pos: "0 < getCodeResendTimeout p"
  by (simp add: getCodeResendTimeout_def)

lemma timers_ok_frame:
  "timers_ok s \<Longrightarrow> timers_ok (send_handleOk c s)" "timers_ok s \<Longrightarrow> timers_ok (sendCodeWithCaptcha p ty tok s)"
  "timers_ok s \<Longrightarrow> timers_ok (send_handleSearch p ty tok s)" "timers_ok s \<Longrightarrow> timers_ok (captcha_status p b ty tok s)"
  by (auto simp: timers_ok_def send_handleOk_def sendCodeWithCaptcha_def send_handleSearch_def captcha_status_def
      Let_def split: option.splits list.splits)

lemma timers_ok_sent: "timers_ok s \<Longrightarrow> timers_ok (code_sent p ok s)"
  using getCodeResendTimeout_pos [of p] by (auto simp: timers_ok_def code_sent_def handleCountDown_def Let_def)

lemma timers_ok_second:
  assumes "timers_ok s" "j < length (sd_timers s)"
  shows "timers_ok (countDown j s)"
proof -
  have pos: "0 < sd_timers s ! j" using assms by (simp add: timers_ok_def list_all_length)
  have "list_all (\<lambda>n. 0 < n) (take j (sd_timers s) @ drop (Suc j) (sd_timers s))"
    using assms(1) by (auto simp: timers_ok_def list_all_iff dest: in_set_takeD in_set_dropD)
  moreover have "list_all (\<lambda>n. 0 < n) ((sd_timers s)[j := m])" if "0 < m" for m
    using assms(1) that set_update_subset_insert [of "sd_timers s" j m] by (auto simp: timers_ok_def list_all_iff)
  ultimately show ?thesis
    using assms pos by (auto simp: timers_ok_def countDown_def Let_def)
qed

lemma send_reachable_timers: "send_reachable p s \<Longrightarrow> timers_ok s"
proof (induction rule: send_reachable.induct)
  case fresh
  show ?case by (simp add: timers_ok_def fresh_send_def)
qed (auto intro: timers_ok_frame timers_ok_sent timers_ok_second simp: timers_ok_def [of "_\<lparr>sd_visible := False\<rparr>"]
    dest: timers_ok_def [THEN iffD1])

text \<open>The captcha of a request under a rule.\<close>

fun source_allowed :: "send_props \<Rightarrow> captcha_source \<Rightarrow> bool" where
  "source_allowed p NoCaptcha = (getCaptchaRule (sd_application p) \<noteq> ''Always'')"
| "source_allowed p (Inline ty tok) = (sd_inline p \<and> ty \<noteq> [] \<and> tok \<noteq> [] \<and> isCaptchaEnabled (sd_application p))"
| "source_allowed p (Dialogue ty tok) = (\<not> sd_inline p)"

definition sources_ok :: "send_props \<Rightarrow> send_state \<Rightarrow> bool" where
  "sources_ok p s =
     (list_all (source_allowed p) (sd_sent s)
      \<and> (0 < sd_checks s \<longrightarrow> getCaptchaRule (sd_application p) \<in> {''Dynamic'', ''Internet-Only''}))"

lemma sources_ok_send: "sources_ok p s \<Longrightarrow> source_allowed p c \<Longrightarrow> sources_ok p (send_handleOk c s)"
  by (simp add: sources_ok_def send_handleOk_def)

lemma sources_ok_captcha:
  "sources_ok p s \<Longrightarrow> isCaptchaEnabled (sd_application p) \<Longrightarrow> sources_ok p (sendCodeWithCaptcha p ty tok s)"
  by (auto simp: sources_ok_def sendCodeWithCaptcha_def send_handleOk_def split: option.splits list.splits)

lemma sources_ok_click: "sources_ok p s \<Longrightarrow> sources_ok p (send_handleSearch p ty tok s)"
  using sources_ok_captcha [of p s] captcha_rule [of "sd_application p"]
  by (auto simp: send_handleSearch_def Let_def isCaptchaEnabled_def sources_ok_def send_handleOk_def)

lemma sources_ok_status:
  assumes "sources_ok p s" "0 < sd_checks s"
  shows "sources_ok p (captcha_status p b ty tok s)"
proof -
  have rule: "getCaptchaRule (sd_application p) \<in> {''Dynamic'', ''Internet-Only''}"
    using assms by (simp add: sources_ok_def)
  then have "sources_ok p (s\<lparr>sd_checks := sd_checks s - 1\<rparr>)" "isCaptchaEnabled (sd_application p)"
    using assms(1) by (auto simp: sources_ok_def isCaptchaEnabled_def)
  with rule show ?thesis by (auto simp: captcha_status_def Let_def sources_ok_captcha sources_ok_send)
qed

lemma send_reachable_sources: "send_reachable p s \<Longrightarrow> sources_ok p s"
proof (induction rule: send_reachable.induct)
  case fresh
  show ?case by (simp add: sources_ok_def fresh_send_def)
next
  case (status s needed ty tok)
  then show ?case by (intro sources_ok_status)
next
  case (click s ty tok)
  then show ?case by (intro sources_ok_click)
qed (auto simp: sources_ok_def send_handleOk_def code_sent_def handleCountDown_def countDown_def Let_def)

section \<open>The countdown ends\<close>

definition ticks :: "nat \<Rightarrow> send_state \<Rightarrow> send_state" where
  "ticks n s = (countDown 0 ^^ n) s"

lemma ticks_first:
  assumes "sd_timers s = int n # ts" "0 < n"
  shows "sd_timers (ticks n s) = ts \<and> sd_left (ticks n s) = 0"
  using assms
proof (induction n arbitrary: s)
  case (Suc n)
  show ?case
  proof (cases n)
    case 0
    with Suc.prems show ?thesis by (simp add: ticks_def countDown_def)
  next
    case (Suc k)
    have "ticks (Suc n) s = ticks n (countDown 0 s)" by (simp only: ticks_def funpow_Suc_right o_apply)
    moreover have "sd_timers (countDown 0 s) = int n # ts"
      using Suc Suc.prems by (simp add: countDown_def Let_def)
    ultimately show ?thesis using Suc.IH [of "countDown 0 s"] Suc by simp
  qed
qed simp

lemma ticks_add: "ticks (m + n) s = ticks m (ticks n s)"
  by (simp add: ticks_def funpow_add)

lemma ticks_all:
  "sd_timers s = ts \<Longrightarrow> list_all (\<lambda>n. 0 < n) ts \<Longrightarrow> ts \<noteq> [] \<Longrightarrow>
   sd_timers (ticks (nat (sum_list ts)) s) = [] \<and> sd_left (ticks (nat (sum_list ts)) s) = 0"
proof (induction ts arbitrary: s)
  case (Cons m ts)
  define n where "n = nat m"
  have n: "m = int n" "0 < n" using Cons.prems by (simp_all add: n_def)
  with ticks_first [of s n ts] Cons.prems have first: "sd_timers (ticks n s) = ts" "sd_left (ticks n s) = 0" by simp_all
  show ?case
  proof (cases "ts = []")
    case True
    with first n show ?thesis by simp
  next
    case False
    have "0 \<le> sum_list ts" using Cons.prems(2) by (intro sum_list_nonneg) (auto simp: list_all_iff)
    then have "nat (sum_list (m # ts)) = nat (sum_list ts) + n" using n by simp
    then show ?thesis
      using Cons.IH [OF first(1)] Cons.prems(2) False by (simp add: ticks_add)
  qed
qed simp

section \<open>Properties\<close>





end
