(* ===== verification/Password.thy ===== *)
theory Password
  imports Complex_Main Web_Platform "HOL-Library.Word"
begin

text \<open>
  Password rules (\<open>web/src/common/PasswordChecker.js\<close>) and the obfuscation of a password on its way
  to the server (\<open>web/src/auth/Obfuscator.js\<close>).

  A password is the list of its UTF-16 code units, which is what \<open>length\<close> counts and what a regular
  expression without the flag \<open>u\<close> matches. The translation \<open>i18next.t\<close>, the ciphers of
  \<open>crypto-js\<close>, the random numbers and \<open>Buffer.from(password, "utf-8")\<close> are arguments.
\<close>

type_synonym utf16 = "16 word list"

section \<open>Regular expressions\<close>

text \<open>\<open>.\<close> matches every code unit but the line terminators.\<close>

definition line_end :: "16 word \<Rightarrow> bool" where
  "line_end c = (c = 0x0A \<or> c = 0x0D \<or> c = 0x2028 \<or> c = 0x2029)"

definition between :: "16 word \<Rightarrow> 16 word \<Rightarrow> 16 word \<Rightarrow> bool" where
  "between a b c = (a \<le> c \<and> c \<le> b)"

text \<open>\<open>(?=.*[cls])\<close> at the start, \<open>.+$\<close> and \<open>(.)\1+\<close>.\<close>

fun ahead :: "('c \<Rightarrow> bool) \<Rightarrow> ('c \<Rightarrow> bool) \<Rightarrow> 'c list \<Rightarrow> bool" where
  "ahead stop cls [] = False"
| "ahead stop cls (c # cs) = (cls c \<or> \<not> stop c \<and> ahead stop cls cs)"

definition dots :: "utf16 \<Rightarrow> bool" where
  "dots p = (p \<noteq> [] \<and> list_all (\<lambda>c. \<not> line_end c) p)"

fun doubled :: "utf16 \<Rightarrow> bool" where
  "doubled (c # d # cs) = (\<not> line_end c \<and> c = d \<or> doubled (d # cs))"
| "doubled _ = False"

definition lower_class :: "16 word \<Rightarrow> bool" where
  "lower_class = between 0x61 0x7A"

definition upper_class :: "16 word \<Rightarrow> bool" where
  "upper_class = between 0x41 0x5A"

definition digit_class :: "16 word \<Rightarrow> bool" where
  "digit_class = between 0x30 0x39"

definition special_class :: "16 word \<Rightarrow> bool" where
  "special_class c = (between 0x21 0x2F c \<or> between 0x3A 0x40 c \<or> between 0x5B 0x60 c \<or> between 0x7B 0x7E c)"

section \<open>Checkers\<close>

type_synonym translate = "string \<Rightarrow> string"

definition isValidOption_AtLeast6 :: "translate \<Rightarrow> utf16 \<Rightarrow> string" where
  "isValidOption_AtLeast6 t password =
     (if length password < 6 then t ''user:The password must have at least 6 characters'' else [])"

definition isValidOption_AtLeast8 :: "translate \<Rightarrow> utf16 \<Rightarrow> string" where
  "isValidOption_AtLeast8 t password =
     (if length password < 8 then t ''user:The password must have at least 8 characters'' else [])"

definition isValidOption_Aa123 :: "translate \<Rightarrow> utf16 \<Rightarrow> string" where
  "isValidOption_Aa123 t password =
     (if \<not> (ahead line_end lower_class password \<and> ahead line_end upper_class password
             \<and> ahead line_end digit_class password \<and> dots password)
      then t ''user:The password must contain at least one uppercase letter, one lowercase letter and one digit''
      else [])"

definition isValidOption_SpecialChar :: "translate \<Rightarrow> utf16 \<Rightarrow> string" where
  "isValidOption_SpecialChar t password =
     (if \<not> (ahead line_end special_class password \<and> dots password)
      then t ''user:The password must contain at least one special character'' else [])"

definition isValidOption_NoRepeat :: "translate \<Rightarrow> utf16 \<Rightarrow> string" where
  "isValidOption_NoRepeat t password =
     (if doubled password then t ''user:The password must not contain any repeated characters'' else [])"

text \<open>\<open>checkers[option]\<close>; an option of another name has no checker.\<close>

definition checkers :: "translate \<Rightarrow> string \<Rightarrow> (utf16 \<Rightarrow> string) option" where
  "checkers t option =
     (if option = ''AtLeast6'' then Some (isValidOption_AtLeast6 t)
      else if option = ''AtLeast8'' then Some (isValidOption_AtLeast8 t)
      else if option = ''Aa123'' then Some (isValidOption_Aa123 t)
      else if option = ''SpecialChar'' then Some (isValidOption_SpecialChar t)
      else if option = ''NoRepeat'' then Some (isValidOption_NoRepeat t)
      else None)"

fun check_options :: "translate \<Rightarrow> utf16 \<Rightarrow> string list \<Rightarrow> string" where
  "check_options t password [] = []"
| "check_options t password (option # options) =
     (case checkers t option of
        Some checkerFunc \<Rightarrow>
          (let errorMsg = checkerFunc password in
           if errorMsg \<noteq> [] then errorMsg else check_options t password options)
      | None \<Rightarrow> check_options t password options)"

text \<open>A missing password or a missing list of options is \<open>None\<close>.\<close>

definition checkPasswordComplexity :: "translate \<Rightarrow> utf16 option \<Rightarrow> string list option \<Rightarrow> string" where
  "checkPasswordComplexity t password options =
     (case password of
        None \<Rightarrow> t ''login:Please input your password!''
      | Some p \<Rightarrow>
          if p = [] then t ''login:Please input your password!''
          else (case options of None \<Rightarrow> [] | Some os \<Rightarrow> if os = [] then [] else check_options t p os))"

text \<open>The icons of the popover: one tick or cross for each option; a name without checker throws.\<close>

fun popover_marks :: "translate \<Rightarrow> string list \<Rightarrow> utf16 \<Rightarrow> bool list result" where
  "popover_marks t [] password = Return []"
| "popover_marks t (option # options) password =
     (case checkers t option of
        None \<Rightarrow> Throw TypeError
      | Some f \<Rightarrow> bind_result (popover_marks t options password) (\<lambda>ms. Return ((f password = []) # ms)))"

section \<open>The rules in words\<close>

definition rule_holds :: "string \<Rightarrow> utf16 \<Rightarrow> bool" where
  "rule_holds option p =
     (if option = ''AtLeast6'' then 6 \<le> length p
      else if option = ''AtLeast8'' then 8 \<le> length p
      else if option = ''Aa123'' then
        (\<exists>c \<in> set p. lower_class c) \<and> (\<exists>c \<in> set p. upper_class c) \<and> (\<exists>c \<in> set p. digit_class c)
        \<and> \<not> (\<exists>c \<in> set p. line_end c)
      else if option = ''SpecialChar'' then (\<exists>c \<in> set p. special_class c) \<and> \<not> (\<exists>c \<in> set p. line_end c)
      else if option = ''NoRepeat'' then
        \<not> (\<exists>i. Suc i < length p \<and> p ! i = p ! Suc i \<and> \<not> line_end (p ! i))
      else True)"

lemma ahead_plain: "list_all (\<lambda>c. \<not> stop c) p \<Longrightarrow> ahead stop cls p \<longleftrightarrow> (\<exists>c \<in> set p. cls c)"
  by (induction p) auto

lemma dots_ahead:
  "dots p \<and> ahead line_end cls p \<longleftrightarrow> (\<exists>c \<in> set p. cls c) \<and> \<not> (\<exists>c \<in> set p. line_end c)"
proof (cases "list_all (\<lambda>c. \<not> line_end c) p")
  case True
  then show ?thesis by (auto simp: ahead_plain dots_def list_all_iff)
next
  case False
  then show ?thesis by (auto simp: dots_def list_all_iff)
qed

lemma ex_nat_step: "(\<exists>i. P i) \<longleftrightarrow> P 0 \<or> (\<exists>i. P (Suc i))"
  by (metis not0_implies_Suc)

lemma doubled_iff: "doubled p \<longleftrightarrow> (\<exists>i. Suc i < length p \<and> p ! i = p ! Suc i \<and> \<not> line_end (p ! i))"
proof (induction p rule: doubled.induct)
  case (1 c d cs)
  show ?case
    by (subst ex_nat_step) (auto simp: 1)
qed simp_all

lemma checker_iff:
  assumes "\<And>k. t k \<noteq> []"
  shows "isValidOption_AtLeast6 t p = [] \<longleftrightarrow> 6 \<le> length p"
    and "isValidOption_AtLeast8 t p = [] \<longleftrightarrow> 8 \<le> length p"
    and "isValidOption_Aa123 t p = [] \<longleftrightarrow> (dots p \<and> ahead line_end lower_class p)
       \<and> (dots p \<and> ahead line_end upper_class p) \<and> (dots p \<and> ahead line_end digit_class p)"
    and "isValidOption_SpecialChar t p = [] \<longleftrightarrow> dots p \<and> ahead line_end special_class p"
    and "isValidOption_NoRepeat t p = [] \<longleftrightarrow> \<not> doubled p"
  by (auto simp: assms isValidOption_AtLeast6_def isValidOption_AtLeast8_def
      isValidOption_Aa123_def isValidOption_SpecialChar_def isValidOption_NoRepeat_def)

lemma checkers_iff:
  assumes "\<And>k. t k \<noteq> []"
  shows "(case checkers t option of None \<Rightarrow> True | Some f \<Rightarrow> f p = []) \<longleftrightarrow> rule_holds option p"
proof -
  have "rule_holds option p \<longleftrightarrow>
     (if option = ''AtLeast6'' then 6 \<le> length p
      else if option = ''AtLeast8'' then 8 \<le> length p
      else if option = ''Aa123'' then (dots p \<and> ahead line_end lower_class p)
       \<and> (dots p \<and> ahead line_end upper_class p) \<and> (dots p \<and> ahead line_end digit_class p)
      else if option = ''SpecialChar'' then dots p \<and> ahead line_end special_class p
      else if option = ''NoRepeat'' then \<not> doubled p else True)"
    unfolding rule_holds_def dots_ahead doubled_iff by (intro if_cong refl) blast
  then show ?thesis
    by (simp only: checkers_def checker_iff [OF assms] option.case if_distrib [where f = "case_option _ _"] cong: if_cong)
qed

lemma check_options_iff:
  assumes "\<And>k. t k \<noteq> []"
  shows "check_options t p options = [] \<longleftrightarrow> (\<forall>option \<in> set options. rule_holds option p)"
proof (induction options)
  case (Cons option options)
  have "(case checkers t option of None \<Rightarrow> True | Some f \<Rightarrow> f p = []) \<longleftrightarrow> rule_holds option p"
    by (rule checkers_iff [OF assms])
  with Cons.IH show ?case by (auto simp: Let_def split: option.splits)
qed simp

section \<open>The obfuscator\<close>

definition hex_class :: "char \<Rightarrow> bool" where
  "hex_class c = (c \<in> set ''123456789abcdef'')"

text \<open>The two regular expressions: \<open>^[1-9a-f]{16}$\<close> and \<open>^[1-9a-f]{32}$\<close>.\<close>

definition key_matches :: "nat \<Rightarrow> string \<Rightarrow> bool" where
  "key_matches n key = (length key = n \<and> list_all hex_class key)"

definition passwordObfuscatorKeyRegexes :: "string \<Rightarrow> ((string \<Rightarrow> bool) \<times> string) option" where
  "passwordObfuscatorKeyRegexes ty =
     (if ty = ''DES'' then Some (key_matches 16, ''^[1-9a-f]{16}$'')
      else if ty = ''AES'' then Some (key_matches 32, ''^[1-9a-f]{32}$'') else None)"

text \<open>\<open>Math.floor(Math.random() * characters.length)\<close> for one random number of the unit interval.\<close>

definition random_char :: "rat \<Rightarrow> char" where
  "random_char r = (let characters = ''123456789abcdef'' in characters ! nat \<lfloor>r * of_nat (length characters)\<rfloor>)"

definition getRandomHexKey :: "(nat \<Rightarrow> rat) \<Rightarrow> nat \<Rightarrow> string" where
  "getRandomHexKey rnd n = foldl (\<lambda>key i. key @ [random_char (rnd i)]) [] [0..<n]"

definition getRandomKeyForObfuscator :: "(nat \<Rightarrow> rat) \<Rightarrow> string \<Rightarrow> string" where
  "getRandomKeyForObfuscator rnd ty =
     (if ty = ''DES'' then getRandomHexKey rnd 16 else if ty = ''AES'' then getRandomHexKey rnd 32 else [])"

text \<open>An absent type or key is \<open>None\<close>; \<open>test\<close> turns it into the text \<open>undefined\<close>.\<close>

definition checkPasswordObfuscator :: "string option \<Rightarrow> string option \<Rightarrow> string" where
  "checkPasswordObfuscator ty key =
     (case ty of
        None \<Rightarrow> ''passwordObfuscatorType should not be undefined''
      | Some ty \<Rightarrow>
          if ty = ''Plain'' \<or> ty = [] then []
          else if ty = ''AES'' \<or> ty = ''DES'' then
            (case passwordObfuscatorKeyRegexes ty of
               Some (re, source) \<Rightarrow>
                 if re (js_undef_str key) then []
                 else ''The password obfuscator key doesn'' @ [CHR 0x27] @ ''t match the regex: '' @ source
             | None \<Rightarrow> [])
          else ''unsupported password obfuscator type: '' @ ty)"

text \<open>Bytes to lower-case hexadecimal text and back, as \<open>CryptoJS.enc.Hex\<close> does.\<close>

definition hex_of :: "nat list \<Rightarrow> string" where
  "hex_of bs = concat (map (\<lambda>b. [ascii_lower_char (hex_digit (b div 16)), ascii_lower_char (hex_digit (b mod 16))]) bs)"

fun of_hex :: "string \<Rightarrow> nat list option" where
  "of_hex [] = Some []"
| "of_hex [c] = None"
| "of_hex (c # d # r) =
     (case (hex_val c, hex_val d) of
        (Some m, Some n) \<Rightarrow> map_option ((#) (16 * m + n)) (of_hex r)
      | _ \<Rightarrow> None)"

text \<open>
  A cipher in CBC mode with PKCS 7 padding: key, initial vector and plain text to cipher text. The
  password is given as its UTF-8 bytes.
\<close>

type_synonym cipher = "nat list \<Rightarrow> nat list \<Rightarrow> nat list \<Rightarrow> nat list"

definition encrypt :: "cipher \<Rightarrow> string \<Rightarrow> nat list \<Rightarrow> nat list \<Rightarrow> string" where
  "encrypt cipher key iv password =
     hex_of (iv @ cipher (case of_hex key of Some k \<Rightarrow> k | None \<Rightarrow> []) iv password)"

text \<open>
  The two initial vectors are the random bytes the code draws. The last branch is the end of the
  function without \<open>return\<close>.
\<close>

definition encryptByPasswordObfuscator ::
  "cipher \<Rightarrow> cipher \<Rightarrow> nat list \<Rightarrow> nat list \<Rightarrow> (nat list \<Rightarrow> string) \<Rightarrow> string option \<Rightarrow> string option \<Rightarrow> nat list
    \<Rightarrow> (string \<times> string) option" where
  "encryptByPasswordObfuscator aes des iv16 iv8 plain ty key password =
     (let msg = checkPasswordObfuscator ty key in
      if 0 < length msg then Some ([], msg)
      else if ty = Some ''Plain'' \<or> ty = Some [] then Some (plain password, [])
      else if ty = Some ''AES'' then Some (encrypt aes (js_undef_str key) iv16 password, [])
      else if ty = Some ''DES'' then Some (encrypt des (js_undef_str key) iv8 password, [])
      else None)"

lemma hex_val_lower: "n < 16 \<Longrightarrow> hex_val (ascii_lower_char (hex_digit n)) = Some n"
  by (auto simp: hex_val_def hex_digit_def ascii_lower_char_def Let_def of_char_of)

lemma of_hex_byte: "b < 256 \<Longrightarrow> of_hex s = Some bs \<Longrightarrow>
  of_hex (ascii_lower_char (hex_digit (b div 16)) # ascii_lower_char (hex_digit (b mod 16)) # s) = Some (b # bs)"
  using less_mult_imp_div_less [of b 16 16] by (simp add: hex_val_lower)

interpretation hex: codec hex_of "\<lambda>s. case of_hex s of None \<Rightarrow> Throw SyntaxError | Some bs \<Rightarrow> Return bs"
  "list_all (\<lambda>b. b < 256)"
proof
  fix bs :: "nat list"
  assume "list_all (\<lambda>b. b < 256) bs"
  then have "of_hex (hex_of bs) = Some bs"
    unfolding hex_of_def by (induction bs) (simp_all add: of_hex_byte del: of_hex.simps(3))
  then show "(case of_hex (hex_of bs) of None \<Rightarrow> Throw SyntaxError | Some bs \<Rightarrow> Return bs) = Return bs" by simp
qed

lemma random_char_class: "0 \<le> r \<Longrightarrow> r < 1 \<Longrightarrow> hex_class (random_char r)"
proof -
  assume r: "0 \<le> r" "r < 1"
  then have "nat \<lfloor>r * of_nat (length ''123456789abcdef'')\<rfloor> < length ''123456789abcdef''" by simp linarith
  then show ?thesis unfolding random_char_def Let_def hex_class_def by (rule nth_mem)
qed

lemma getRandomHexKey_map: "getRandomHexKey rnd n = map (\<lambda>i. random_char (rnd i)) [0..<n]"
proof -
  have "foldl (\<lambda>key i. key @ [random_char (rnd i)]) acc xs = acc @ map (\<lambda>i. random_char (rnd i)) xs" for acc xs
    by (induction xs arbitrary: acc) simp_all
  then show ?thesis by (simp add: getRandomHexKey_def)
qed

section \<open>Properties\<close>

text \<open>
  C25. The password check is the conjunction of its rules. When the translations are not empty, a
  password is accepted exactly if it is not empty and satisfies every option: the minimal lengths, a
  lower-case letter, an upper-case letter and a digit, a special character, no code unit twice in a
  row; the two rules with character classes also refuse every line terminator, and an unknown option
  demands nothing.
\<close>

theorem password_rules:
  assumes "\<And>k. t k \<noteq> []"
  shows "checkPasswordComplexity t (Some p) (Some options) = [] \<longleftrightarrow>
    p \<noteq> [] \<and> (\<forall>option \<in> set options. rule_holds option p)"
  using assms by (simp add: checkPasswordComplexity_def check_options_iff)

theorem password_rules_witness:
  "checkPasswordComplexity (\<lambda>k. CHR ''!'' # k) (Some [0x41, 0x61, 0x31, 0x21, 0x62, 0x63])
     (Some [''AtLeast6'', ''Aa123'', ''SpecialChar'', ''NoRepeat'']) = []
   \<longleftrightarrow> [0x41, 0x61, 0x31, 0x21, 0x62, 0x63] \<noteq> ([] :: utf16)
     \<and> list_all (\<lambda>option. rule_holds option [0x41, 0x61, 0x31, 0x21, 0x62, 0x63])
         [''AtLeast6'', ''Aa123'', ''SpecialChar'', ''NoRepeat'']"
  using password_rules [of "\<lambda>k. CHR ''!'' # k" "[0x41, 0x61, 0x31, 0x21, 0x62, 0x63]"
      "[''AtLeast6'', ''Aa123'', ''SpecialChar'', ''NoRepeat'']"]
  by (simp add: list_all_iff)

text \<open>
  C26. A generated key is accepted, and the obfuscated password can be read back. For either cipher the
  key drawn by \<open>getRandomKeyForObfuscator\<close> passes the check, \<open>encryptByPasswordObfuscator\<close> returns
  without an error message, and its text is the hexadecimal form of the initial vector followed by the
  cipher text, from which a server that can decrypt recovers the bytes of the password.
\<close>

theorem obfuscated_password_readable:
  assumes "\<And>i. 0 \<le> rnd i \<and> rnd i < 1" "ty = ''AES'' \<or> ty = ''DES''"
    and "length iv16 = 16" "length iv8 = 8" "list_all (\<lambda>b. b < 256) iv16" "list_all (\<lambda>b. b < 256) iv8"
    and "list_all (\<lambda>b. b < 256) password"
    and "\<And>k iv m. list_all (\<lambda>b. b < 256) m \<Longrightarrow> list_all (\<lambda>b. b < 256) (aes k iv m) \<and> aes_dec k iv (aes k iv m) = m"
    and "\<And>k iv m. list_all (\<lambda>b. b < 256) m \<Longrightarrow> list_all (\<lambda>b. b < 256) (des k iv m) \<and> des_dec k iv (des k iv m) = m"
  shows "\<exists>text bs. encryptByPasswordObfuscator aes des iv16 iv8 plain (Some ty)
        (Some (getRandomKeyForObfuscator rnd ty)) password = Some (text, [])
    \<and> of_hex text = Some bs
    \<and> (let n = (if ty = ''AES'' then 16 else 8); k = the (of_hex (getRandomKeyForObfuscator rnd ty)) in
       (if ty = ''AES'' then aes_dec else des_dec) k (take n bs) (drop n bs) = password)"
proof -
  let ?key = "getRandomKeyForObfuscator rnd ty"
  have key: "key_matches (if ty = ''AES'' then 32 else 16) ?key"
    using assms(1,2) by (auto simp: getRandomKeyForObfuscator_def getRandomHexKey_map key_matches_def
        list_all_iff random_char_class)
  have check: "checkPasswordObfuscator (Some ty) (Some ?key) = []"
    using assms(2) key by (auto simp: checkPasswordObfuscator_def passwordObfuscatorKeyRegexes_def)
  have hex: "hex_class c \<Longrightarrow> hex_val c \<noteq> None" for c
    by (auto simp: hex_class_def hex_val_def)
  have "even (length s) \<Longrightarrow> list_all hex_class s \<Longrightarrow> of_hex s \<noteq> None" for s
    by (induction s rule: of_hex.induct) (auto dest!: hex split: option.splits)
  then obtain k where k: "of_hex ?key = Some k"
    using key by (fastforce simp: key_matches_def split: if_splits)
  have rt: "of_hex (hex_of bs) = Some bs" if "list_all (\<lambda>b. b < 256) bs" for bs
    using hex.roundtrip [OF that] by (simp split: option.splits)
  from assms(2) show ?thesis
  proof
    assume ty: "ty = ''AES''"
    have "encryptByPasswordObfuscator aes des iv16 iv8 plain (Some ty) (Some ?key) password =
        Some (hex_of (iv16 @ aes k iv16 password), [])"
      using check k by (simp add: encryptByPasswordObfuscator_def encrypt_def ty)
    then show ?thesis using assms(3,5) assms(8) [OF assms(7)] k by (auto simp: rt ty)
  next
    assume ty: "ty = ''DES''"
    have "encryptByPasswordObfuscator aes des iv16 iv8 plain (Some ty) (Some ?key) password =
        Some (hex_of (iv8 @ des k iv8 password), [])"
      using check k by (simp add: encryptByPasswordObfuscator_def encrypt_def ty)
    then show ?thesis using assms(4,6) assms(9) [OF assms(7)] k by (auto simp: rt ty)
  qed
qed

theorem obfuscated_password_readable_witness:
  "\<exists>text bs. encryptByPasswordObfuscator (\<lambda>k iv. rev) (\<lambda>k iv. rev) (replicate 16 7) (replicate 8 9) (\<lambda>_. [])
        (Some ''DES'') (Some (getRandomKeyForObfuscator (\<lambda>_. 1 / 2) ''DES'')) [104, 105] = Some (text, [])
    \<and> of_hex text = Some bs
    \<and> (let n = (if ''DES'' = ''AES'' then 16 else 8); k = the (of_hex (getRandomKeyForObfuscator (\<lambda>_. 1 / 2) ''DES'')) in
       (if ''DES'' = ''AES'' then (\<lambda>k iv. rev) else (\<lambda>k iv. rev)) k (take n bs) (drop n bs) = [104, 105])"
  by (rule obfuscated_password_readable [of "\<lambda>_. 1 / 2" "''DES''" "replicate 16 7" "replicate 8 9" "[104, 105]"
        "\<lambda>k iv. rev" "\<lambda>k iv. rev" "\<lambda>k iv. rev" "\<lambda>k iv. rev"]) (simp_all add: list_all_iff)

text \<open>
  Obfuscation never falls through. Whatever the type and the key, \<open>encryptByPasswordObfuscator\<close>
  returns a pair: with an error message and no text when the type is missing, not supported or the
  key does not match, and with an empty message otherwise.
\<close>

lemma obfuscation_total:
  "\<exists>text msg. encryptByPasswordObfuscator aes des iv16 iv8 plain ty key password = Some (text, msg)
    \<and> msg = checkPasswordObfuscator ty key
    \<and> (msg = [] \<longleftrightarrow> ty = Some ''Plain'' \<or> ty = Some []
         \<or> ty = Some ''AES'' \<and> key_matches 32 (js_undef_str key)
         \<or> ty = Some ''DES'' \<and> key_matches 16 (js_undef_str key))"
  by (cases ty)
    (auto simp: encryptByPasswordObfuscator_def checkPasswordObfuscator_def passwordObfuscatorKeyRegexes_def)

end
