(* ===== verification/Control_Plane.thy ===== *)
theory Control_Plane
  imports OAuth_Provider Js_Object
begin

text \<open>
  The client of the control plane (\<open>web/src/backend/ControlPlaneBackend.js\<close>) and the byte coding of
  WebAuthn values (\<open>web/src/backend/UserWebauthnBackend.js\<close>).

  \<open>cpRequest\<close> is asynchronous; it is cut at its \<open>await\<close> points. \<open>cp_send\<close> is what it gives to
  \<open>fetch\<close>, \<open>cp_receive\<close> is what it does with the answer, \<open>cp_resume\<close> what it does once the step-up
  handler has answered. The endpoint functions are the requests they make. The theory
  \<open>Step_Up\<close> puts the pieces together. \<open>JSON.parse\<close> is an argument \<open>parse\<close> (the values of this model
  have no fractions); nothing is assumed of it.
\<close>

section \<open>WebAuthn buffers\<close>

definition webAuthnBufferEncode :: "nat list \<Rightarrow> string" where
  "webAuthnBufferEncode buf =
     filter (\<lambda>c. c \<noteq> CHR ''='')
       (map (\<lambda>c. if c = CHR ''/'' then CHR ''_'' else c)
         (map (\<lambda>c. if c = CHR ''+'' then CHR ''-'' else c) (b64_encode buf)))"

text \<open>The loop that appends \<open>=\<close> until the length is a multiple of four.\<close>

function pad_loop :: "string \<Rightarrow> string" where
  "pad_loop s = (if length s mod 4 = 0 then s else pad_loop (s @ ''=''))"
  by pat_completeness auto
termination
  by (relation "measure (\<lambda>s. if length s mod 4 = 0 then 0 else 4 - length s mod 4)") (auto simp: mod_Suc)

declare pad_loop.simps [simp del]

definition webAuthnBufferDecode :: "string \<Rightarrow> nat list result" where
  "webAuthnBufferDecode s =
     b64_decode (pad_loop
       (map (\<lambda>c. if c = CHR ''_'' then CHR ''/'' else c)
         (map (\<lambda>c. if c = CHR ''-'' then CHR ''+'' else c) s)))"

lemma pad_loop_step: "length t mod 4 \<noteq> 0 \<Longrightarrow> pad_loop t = pad_loop (t @ ''='')"
  and pad_loop_stop: "length t mod 4 = 0 \<Longrightarrow> pad_loop t = t"
  by (simp_all add: pad_loop.simps)

lemma pad_loop_spec:
  assumes "length s mod 4 \<noteq> 1"
  obtains p where "pad_loop s = s @ p" "p = [] \<or> p = ''='' \<or> p = ''==''" "(length s + length p) mod 4 = 0"
proof -
  have "length s mod 4 < 4" by simp
  with assms consider (0) "length s mod 4 = 0" | (2) "length s mod 4 = 2" | (3) "length s mod 4 = 3"
    by linarith
  then show thesis
  proof cases
    case 0
    then show thesis using that [of "[]"] by (simp add: pad_loop_stop)
  next
    case 2
    then have "pad_loop s = s @ ''==''"
      by (subst pad_loop_step, simp, subst pad_loop_step) (simp_all add: mod_Suc pad_loop_stop)
    then show thesis using that [of "''==''"] 2 by (simp add: mod_Suc)
  next
    case 3
    then have "pad_loop s = s @ ''=''"
      by (subst pad_loop_step) (simp_all add: mod_Suc pad_loop_stop)
    then show thesis using that [of "''=''"] 3 by (simp add: mod_Suc)
  qed
qed

lemma webAuthnBufferEncode_url: "webAuthnBufferEncode = base64UrlEncode"
  by (simp add: fun_eq_iff webAuthnBufferEncode_def base64UrlEncode_def url_safe_def)

definition from_url :: "char \<Rightarrow> char" where
  "from_url c =
     (let d = (if c = CHR ''-'' then CHR ''+'' else c) in if d = CHR ''_'' then CHR ''/'' else d)"

lemma from_url_simps:
  "is_alpha c \<or> is_digit c \<Longrightarrow> from_url c = c" "from_url (CHR ''-'') = CHR ''+''" "from_url (CHR ''_'') = CHR ''/''"
proof -
  assume "is_alpha c \<or> is_digit c"
  then have "c \<noteq> CHR ''-''" "c \<noteq> CHR ''_''"
    by (auto simp: is_alpha_def is_digit_def is_lower_def is_upper_def)
  then show "from_url c = c" by (simp add: from_url_def)
qed (simp_all add: from_url_def)

lemma from_url_char: "n < 64 \<Longrightarrow> from_url (b64url_char n) = b64_char n"
  by (drule b64url_char_cases, elim disjE) (auto simp: from_url_simps b64_char_def)

lemma webAuthnBufferDecode_from_url: "webAuthnBufferDecode s = b64_decode (pad_loop (map from_url s))"
  by (simp add: webAuthnBufferDecode_def from_url_def [abs_def] Let_def comp_def)

lemma length_b64_sx_mod: "length (b64_sx bs) mod 4 \<noteq> 1"
  by (induction bs rule: b64_sx.induct) auto

text \<open>The byte coding of WebAuthn values is a code like base64 and the URI coding.\<close>

interpretation webauthn: codec webAuthnBufferEncode webAuthnBufferDecode "list_all (\<lambda>b. b < 256)"
proof
  fix bs :: "nat list"
  assume bs: "list_all (\<lambda>b. b < 256) bs"
  note sx = b64_sx_less [OF bs]
  let ?t = "map b64_char (b64_sx bs)"
  have plain: "map from_url (webAuthnBufferEncode bs) = ?t"
    using sx by (simp add: webAuthnBufferEncode_url base64UrlEncode_sx [OF bs] list_all_iff from_url_char)
  have "length ?t mod 4 \<noteq> 1" using length_b64_sx_mod by simp
  then obtain p where p: "pad_loop ?t = ?t @ p" "p = [] \<or> p = ''='' \<or> p = ''==''" "(length ?t + length p) mod 4 = 0"
    by (rule pad_loop_spec)
  with sx have "b64_strip (pad_loop ?t) = ?t"
    unfolding p(1) by (intro b64_strip_padded) simp_all
  then show "webAuthnBufferDecode (webAuthnBufferEncode bs) = Return bs"
    unfolding webAuthnBufferDecode_from_url plain
    by (simp add: b64_decode_def b64_sextets_chars sx b64_bytes_sx bs)
qed

section \<open>JSON text\<close>

text \<open>\<open>JSON.stringify\<close>: a property whose value is \<open>undefined\<close> is left out, in an array it is \<open>null\<close>.\<close>

definition json_char :: "char \<Rightarrow> string" where
  "json_char c =
     (let n = of_char c in
      if c = CHR 0x22 then [CHR 0x5C, CHR 0x22] else if n = 92 then [CHR 0x5C, CHR 0x5C]
      else if n = 8 then CHR 0x5C # ''b'' else if n = 12 then CHR 0x5C # ''f''
      else if n = 10 then CHR 0x5C # ''n'' else if n = 13 then CHR 0x5C # ''r''
      else if n = 9 then CHR 0x5C # ''t''
      else if n < 32 then CHR 0x5C # ''u00'' @ map ascii_lower_char [hex_digit (n div 16), hex_digit (n mod 16)]
      else [c])"

definition json_string :: "string \<Rightarrow> string" where
  "json_string s = CHR 0x22 # concat (map json_char s) @ [CHR 0x22]"

fun json_text :: "jsval \<Rightarrow> string" where
  "json_text JUndefined = ''null''"
| "json_text JNull = ''null''"
| "json_text (JBool b) = (if b then ''true'' else ''false'')"
| "json_text (JNum n) = show_int n"
| "json_text (JStr s) = json_string s"
| "json_text (JArr xs) = ''['' @ js_join '','' (map json_text xs) @ '']''"
| "json_text (JObj ps) =
     ''{'' @ js_join '',''
       (concat (map (\<lambda>(k, v). if v = JUndefined then [] else [json_string k @ '':'' @ json_text v]) ps)) @ ''}''"

section \<open>Requests\<close>

text \<open>
  The options of a request: the query object, if any, and the body (\<open>undefined\<close> when absent).
\<close>

record cp_opts =
  cp_query :: "(string \<times> jsval) list option"
  cp_body :: jsval

definition no_opts :: cp_opts where
  "no_opts = \<lparr>cp_query = None, cp_body = JUndefined\<rparr>"

record cp_call =
  cp_method :: string
  cp_path :: string
  cp_options :: cp_opts

text \<open>What \<open>fetch\<close> is given.\<close>

record http_request =
  rq_url :: string
  rq_method :: string
  rq_credentials :: string
  rq_headers :: "(string \<times> string) list"
  rq_body :: "string option"

text \<open>What it answers: the status, the header \<open>WWW-Authenticate\<close> and the text of the body.\<close>

record http_response =
  rs_status :: nat
  rs_authenticate :: "string option"
  rs_text :: string

definition BASE :: string where
  "BASE = ''/api/v1''"

definition cp_present :: "string \<times> jsval \<Rightarrow> bool" where
  "cp_present p = (snd p \<noteq> JUndefined \<and> snd p \<noteq> JNull \<and> snd p \<noteq> JStr [])"

definition cp_query_text :: "(string \<times> jsval) list \<Rightarrow> string" where
  "cp_query_text q =
     js_join ''&''
       (map (\<lambda>(k, v). encodeURIComponent k @ ''='' @ encodeURIComponent (js_text v)) (filter cp_present q))"

text \<open>\<open>Setting.ServerUrl\<close> is the empty string.\<close>

definition cp_url :: "cp_call \<Rightarrow> string" where
  "cp_url c =
     (let url = [] @ BASE @ cp_path c in
      case cp_query (cp_options c) of
        None \<Rightarrow> url
      | Some q \<Rightarrow> (let qs = cp_query_text q in if qs \<noteq> [] then url @ ''?'' @ qs else url))"

definition cp_send :: "string \<Rightarrow> cp_call \<Rightarrow> http_request" where
  "cp_send lang c =
     (let headers = [(''Accept'', ''application/json''), (''Accept-Language'', lang)];
          body = cp_body (cp_options c) in
      \<lparr>rq_url = cp_url c, rq_method = cp_method c, rq_credentials = ''include'',
       rq_headers = (if body \<noteq> JUndefined then headers @ [(''Content-Type'', ''application/json'')] else headers),
       rq_body = (if body \<noteq> JUndefined then Some (json_text body) else None)\<rparr>)"

section \<open>Answers\<close>

definition http_ok :: "http_response \<Rightarrow> bool" where
  "http_ok res = (200 \<le> rs_status res \<and> rs_status res \<le> 299)"

definition parsed_body :: "(string \<Rightarrow> jsval option) \<Rightarrow> http_response \<Rightarrow> jsval" where
  "parsed_body parse res =
     (if rs_text res = [] then JNull
      else case parse (rs_text res) of
             Some v \<Rightarrow> v
           | None \<Rightarrow> JObj [(''raw'', JStr (rs_text res))])"

text \<open>\<open>v.includes(s)\<close>: strings and arrays have the method, for other values the call throws.\<close>

fun val_includes :: "jsval \<Rightarrow> string \<Rightarrow> bool result" where
  "val_includes (JStr t) s = Return (js_includes t s)"
| "val_includes (JArr xs) s = Return (JStr s \<in> set xs)"
| "val_includes _ s = Throw TypeError"

definition insufficient :: string where
  "insufficient = ''insufficient_user_authentication''"

definition isStepUpChallenge :: "http_response \<Rightarrow> jsval \<Rightarrow> bool result" where
  "isStepUpChallenge res parsed =
     (let wa = js_or (rs_authenticate res) [];
          err = (let e = (if js_bool parsed then (let x = field parsed ''error'' in if js_bool x then x else JStr [])
                          else parsed)
                 in if js_bool e then e else JStr []) in
      if js_includes wa insufficient then Return True else val_includes err insufficient)"

definition stepUpNeedsPhishingResistant :: "http_response \<Rightarrow> jsval \<Rightarrow> bool" where
  "stepUpNeedsPhishingResistant res parsed =
     (if js_bool parsed \<and> field parsed ''needs_phishing_resistant'' = JBool True then True
      else if js_bool parsed \<and> field parsed ''acr_values'' = JStr ''aal3'' then True
      else let wa = js_lower (js_or (rs_authenticate res) []) in
        js_includes wa (''acr_values='' @ [CHR 0x22] @ ''aal3'') \<or> js_includes wa ''acr_values=aal3'')"

record cp_error =
  err_message :: string
  err_status :: nat
  err_body :: jsval
  err_denied :: bool

definition ControlPlaneError :: "jsval \<Rightarrow> nat \<Rightarrow> jsval \<Rightarrow> cp_error" where
  "ControlPlaneError msg st body =
     \<lparr>err_message = js_text msg, err_status = st, err_body = body, err_denied = (st = 401 \<or> st = 403)\<rparr>"

definition cp_failure :: "http_response \<Rightarrow> jsval \<Rightarrow> cp_error" where
  "cp_failure res parsed =
     (let m = (if js_bool parsed then
                 (let e = field parsed ''error'' in if js_bool e then e else field parsed ''msg'')
               else parsed);
          msg = (if js_bool m then m else JStr (''HTTP '' @ show_nat (rs_status res))) in
      ControlPlaneError msg (rs_status res) parsed)"

definition isStepUpPath :: "string \<Rightarrow> bool" where
  "isStepUpPath p =
     (p = ''/stepup/totp'' \<or> p = ''/stepup/webauthn/begin'' \<or> p = ''/stepup/webauthn/finish'')"

text \<open>
  What \<open>cpRequest\<close> does with an answer: return the parsed body, ask the step-up handler (with the
  flag it passes), throw the error, or break off with an exception of the language.
\<close>

datatype cp_outcome =
    CpReturn jsval
  | CpStepUp bool
  | CpThrow cp_error
  | CpCrash js_error

definition cp_receive ::
  "(string \<Rightarrow> jsval option) \<Rightarrow> bool \<Rightarrow> cp_call \<Rightarrow> bool \<Rightarrow> http_response \<Rightarrow> cp_outcome" where
  "cp_receive parse handler c retried res =
     (let parsed = parsed_body parse res in
      if \<not> http_ok res then
        (if rs_status res = 401 \<and> \<not> retried \<and> \<not> isStepUpPath (cp_path c) \<and> handler then
           (case isStepUpChallenge res parsed of
              Throw e \<Rightarrow> CpCrash e
            | Return True \<Rightarrow> CpStepUp (stepUpNeedsPhishingResistant res parsed)
            | Return False \<Rightarrow> CpThrow (cp_failure res parsed))
         else CpThrow (cp_failure res parsed))
      else CpReturn parsed)"

section \<open>Endpoints\<close>

definition cp_get :: "string \<Rightarrow> cp_call" where
  "cp_get p = \<lparr>cp_method = ''GET'', cp_path = p, cp_options = no_opts\<rparr>"

definition cp_get_query :: "string \<Rightarrow> (string \<times> jsval) list option \<Rightarrow> cp_call" where
  "cp_get_query p q = \<lparr>cp_method = ''GET'', cp_path = p, cp_options = no_opts\<lparr>cp_query := q\<rparr>\<rparr>"

definition cp_post :: "string \<Rightarrow> jsval \<Rightarrow> cp_call" where
  "cp_post p body = \<lparr>cp_method = ''POST'', cp_path = p, cp_options = no_opts\<lparr>cp_body := body\<rparr>\<rparr>"

lemmas cp_call_defs = cp_get_def cp_get_query_def cp_post_def no_opts_def

definition getSessionContext :: "cp_call" where
  "getSessionContext = cp_get ''/session''"

definition getTenants :: "cp_call" where
  "getTenants = cp_get ''/tenants''"

definition switchTenant :: "jsval \<Rightarrow> cp_call" where
  "switchTenant organizationId = cp_post ''/session/tenant'' (JObj [(''organization_id'', organizationId)])"

definition getMemberships :: "jsval \<Rightarrow> cp_call" where
  "getMemberships organizationId = cp_get_query ''/memberships'' (Some [(''organization_id'', organizationId)])"

definition revokeMembership :: "jsval \<Rightarrow> cp_call" where
  "revokeMembership payload = cp_post ''/memberships/revoke'' payload"

definition getGrants :: "cp_call" where
  "getGrants = cp_get ''/grants''"

definition revokeGrant :: "jsval \<Rightarrow> cp_call" where
  "revokeGrant grantId = cp_post ''/grants/revoke'' (JObj [(''grant_id'', grantId)])"

definition requestBreakglass :: "jsval \<Rightarrow> cp_call" where
  "requestBreakglass payload = cp_post ''/breakglass/request'' payload"

definition getBreakglassPending :: "cp_call" where
  "getBreakglassPending = cp_get ''/breakglass/pending''"

definition approveBreakglass :: "jsval \<Rightarrow> cp_call" where
  "approveBreakglass grantId = cp_post ''/breakglass/approve'' (JObj [(''grant_id'', grantId)])"

definition getAuditTimeline :: "jsval \<Rightarrow> cp_call" where
  "getAuditTimeline limit = cp_get_query ''/audit/timeline'' (Some [(''limit'', limit)])"

definition verifyAuditChain :: "cp_call" where
  "verifyAuditChain = cp_get ''/audit/verify''"

definition getEffectiveAccess :: "(string \<times> jsval) list option \<Rightarrow> cp_call" where
  "getEffectiveAccess q = cp_get_query ''/access/effective'' q"

definition getAccessReview :: "jsval \<Rightarrow> cp_call" where
  "getAccessReview assetId = cp_get_query ''/access/review'' (Some [(''asset'', assetId)])"

definition getAssets :: "cp_call" where
  "getAssets = cp_get ''/assets''"

definition createAsset :: "jsval \<Rightarrow> cp_call" where
  "createAsset payload = cp_post ''/assets'' payload"

definition getAccessAssignments :: "cp_call" where
  "getAccessAssignments = cp_get ''/access-assignments''"

definition createAccessAssignment :: "jsval \<Rightarrow> cp_call" where
  "createAccessAssignment payload = cp_post ''/access-assignments'' payload"

definition getGroupMemberships :: "cp_call" where
  "getGroupMemberships = cp_get ''/group-memberships''"

definition createGroupMembership :: "jsval \<Rightarrow> cp_call" where
  "createGroupMembership payload = cp_post ''/group-memberships'' payload"

definition getAccessGroups :: "cp_call" where
  "getAccessGroups = cp_get ''/access-groups''"

definition createAccessGroup :: "jsval \<Rightarrow> cp_call" where
  "createAccessGroup payload = cp_post ''/access-groups'' payload"

definition getHealth :: "cp_call" where
  "getHealth = cp_get ''/health''"

definition stepupTotp :: "jsval \<Rightarrow> cp_call" where
  "stepupTotp payload = cp_post ''/stepup/totp'' payload"

definition stepupWebauthnBegin :: "cp_call" where
  "stepupWebauthnBegin = cp_post ''/stepup/webauthn/begin'' JUndefined"

definition stepupWebauthnFinish :: "jsval \<Rightarrow> cp_call" where
  "stepupWebauthnFinish assertion = cp_post ''/stepup/webauthn/finish'' assertion"

definition factorsTotpBegin :: "jsval \<Rightarrow> cp_call" where
  "factorsTotpBegin payload = cp_post ''/factors/totp/begin'' payload"

definition factorsTotpVerify :: "jsval \<Rightarrow> cp_call" where
  "factorsTotpVerify payload = cp_post ''/factors/totp/verify'' payload"

text \<open>Every call an endpoint function can make, and those that run the step-up itself.\<close>

definition endpoint_calls :: "jsval \<Rightarrow> (string \<times> jsval) list option \<Rightarrow> cp_call list" where
  "endpoint_calls v q =
     [getSessionContext, getTenants, switchTenant v, getMemberships v, revokeMembership v,
      getGrants, revokeGrant v, requestBreakglass v, getBreakglassPending, approveBreakglass v,
      getAuditTimeline v, verifyAuditChain, getEffectiveAccess q, getAccessReview v, getAssets,
      createAsset v, getAccessAssignments, createAccessAssignment v, getGroupMemberships,
      createGroupMembership v, getAccessGroups, createAccessGroup v, getHealth, factorsTotpBegin v,
      factorsTotpVerify v]"

definition stepup_calls :: "jsval \<Rightarrow> cp_call list" where
  "stepup_calls v = [stepupTotp v, stepupWebauthnBegin, stepupWebauthnFinish v]"

lemmas endpoint_defs =
  getSessionContext_def getTenants_def switchTenant_def getMemberships_def revokeMembership_def
  getGrants_def revokeGrant_def requestBreakglass_def getBreakglassPending_def approveBreakglass_def
  getAuditTimeline_def verifyAuditChain_def getEffectiveAccess_def getAccessReview_def getAssets_def
  createAsset_def getAccessAssignments_def createAccessAssignment_def getGroupMemberships_def
  createGroupMembership_def getAccessGroups_def createAccessGroup_def getHealth_def stepupTotp_def
  stepupWebauthnBegin_def stepupWebauthnFinish_def factorsTotpBegin_def factorsTotpVerify_def

section \<open>Properties of requests and answers\<close>

lemma cp_query_pair:
  "parse_pairs (encodeURIComponent k @ CHR ''='' # encodeURIComponent v) = [(k, v)]"
  using encodeURIComponent_no_sep [of "CHR ''&''" k] encodeURIComponent_no_sep [of "CHR ''=''" k]
    encodeURIComponent_no_sep [of "CHR ''&''" v]
  by (simp add: parse_pairs_single form_decode_encode)

lemma parse_pairs_cp_query_text:
  "parse_pairs (cp_query_text q) = map (\<lambda>(k, v). (k, js_text v)) (filter cp_present q)"
proof (induction q)
  case Nil
  then show ?case by (simp add: cp_query_text_def parse_pairs_def)
next
  case (Cons p q)
  obtain k v where p: "p = (k, v)" by fastforce
  show ?case
  proof (cases "cp_present p \<and> filter cp_present q \<noteq> []")
    case True
    then have "cp_query_text (p # q) =
        (encodeURIComponent k @ CHR ''='' # encodeURIComponent (js_text v)) @ CHR ''&'' # cp_query_text q"
      by (simp add: cp_query_text_def js_join_Cons p)
    with True show ?thesis
      by (simp only: parse_pairs_append cp_query_pair Cons.IH) (simp add: p)
  next
    case False
    then show ?thesis
      using Cons.IH cp_query_pair [of k "js_text v"]
      by (auto simp: cp_query_text_def p)
  qed
qed

lemma cp_query_text_Nil: "cp_query_text q = [] \<longleftrightarrow> filter cp_present q = []"
proof
  assume "cp_query_text q = []"
  then have "map (\<lambda>(k, v). (k, js_text v)) (filter cp_present q) = []"
    using parse_pairs_cp_query_text [of q] by (simp add: parse_pairs_def)
  then show "filter cp_present q = []" by simp
qed (simp add: cp_query_text_def)

lemma cp_receive_simps:
  "http_ok res \<Longrightarrow> cp_receive parse h c retried res = CpReturn (parsed_body parse res)"
  "cp_receive parse h c retried res = CpReturn v \<longleftrightarrow> http_ok res \<and> v = parsed_body parse res"
  "cp_receive parse h c True res \<noteq> CpStepUp n"
  "cp_receive parse False c retried res \<noteq> CpStepUp n"
  "cp_receive parse False c retried res \<noteq> CpCrash e"
  "cp_receive parse h c retried res = CpThrow x \<Longrightarrow> \<not> http_ok res \<and> x = cp_failure res (parsed_body parse res)"
  "isStepUpPath (cp_path c) \<Longrightarrow> cp_receive parse h c retried res \<noteq> CpStepUp n"
  by (auto simp: cp_receive_def Let_def split: sum.splits bool.splits if_splits)

lemma cp_receive_StepUp:
  "cp_receive parse h c retried res = CpStepUp n \<longleftrightarrow>
     rs_status res = 401 \<and> \<not> retried \<and> \<not> isStepUpPath (cp_path c) \<and> h
     \<and> isStepUpChallenge res (parsed_body parse res) = Return True
     \<and> n = stepUpNeedsPhishingResistant res (parsed_body parse res)"
  by (auto simp: cp_receive_def Let_def http_ok_def split: sum.splits bool.splits if_splits)

text \<open>The interceptor leaves out the calls of the step-up and no other.\<close>

lemma endpoints_intercepted:
  "list_all (\<lambda>c. \<not> isStepUpPath (cp_path c)) (endpoint_calls v q)
   \<and> list_all (\<lambda>c. isStepUpPath (cp_path c)) (stepup_calls v)"
  by (simp add: endpoint_calls_def stepup_calls_def endpoint_defs cp_call_defs isStepUpPath_def)

text \<open>
  The query of a control-plane request arrives as it was meant: the server reads from the address
  exactly the parameters that are neither \<open>undefined\<close>, \<open>null\<close> nor empty, in their order, with the
  keys and values unchanged whatever characters they hold.
\<close>

lemma cp_query_roundtrip:
  assumes "CHR ''?'' \<notin> set (cp_path c)" "cp_query (cp_options c) = Some q"
  shows "URLSearchParams (dropWhile (\<lambda>x. x \<noteq> CHR ''?'') (cp_url c)) =
    map (\<lambda>(k, v). (k, js_text v)) (filter cp_present q)"
proof -
  have base: "\<forall>x \<in> set (BASE @ cp_path c). x \<noteq> CHR ''?''"
    using assms(1) by (auto simp: BASE_def)
  then have drop: "dropWhile (\<lambda>x. x \<noteq> CHR ''?'') ((BASE @ cp_path c) @ r) = dropWhile (\<lambda>x. x \<noteq> CHR ''?'') r" for r
    by (rule dropWhile_append2 [OF bspec])
  show ?thesis
  proof (cases "cp_query_text q = []")
    case True
    then have "cp_url c = (BASE @ cp_path c) @ []" by (simp add: cp_url_def assms(2) Let_def)
    then have "dropWhile (\<lambda>x. x \<noteq> CHR ''?'') (cp_url c) = []" by (simp only: drop) simp
    moreover have "filter cp_present q = []" using True by (simp only: cp_query_text_Nil)
    ultimately show ?thesis by (simp only:) (simp add: URLSearchParams_def parse_pairs_def)
  next
    case False
    then have "cp_url c = (BASE @ cp_path c) @ CHR ''?'' # cp_query_text q"
      by (simp add: cp_url_def assms(2) Let_def)
    then have "dropWhile (\<lambda>x. x \<noteq> CHR ''?'') (cp_url c) = CHR ''?'' # cp_query_text q"
      by (simp only: drop) simp
    then show ?thesis by (simp add: URLSearchParams_def parse_pairs_cp_query_text)
  qed
qed

lemma cp_query_roundtrip_example:
  "URLSearchParams (dropWhile (\<lambda>x. x \<noteq> CHR ''?'') (cp_url (getAccessReview (JStr ''a&b=c?'')))) =
    [(''asset'', ''a&b=c?'')]"
  using cp_query_roundtrip [of "getAccessReview (JStr ''a&b=c?'')" "[(''asset'', JStr ''a&b=c?'')]"]
  by (simp add: endpoint_defs cp_call_defs cp_present_def)

text \<open>
  WebAuthn buffers survive their coding: what \<open>webAuthnBufferEncode\<close> writes is text that needs no
  escaping in an address or a JSON string, and \<open>webAuthnBufferDecode\<close> reads the same bytes from it,
  for every buffer, the empty one and all three residues of the length included.
\<close>

lemma webauthn_buffer_roundtrip:
  assumes "list_all (\<lambda>b. b < 256) bs"
  shows "webAuthnBufferDecode (webAuthnBufferEncode bs) = Return bs
    \<and> (\<forall>c \<in> set (webAuthnBufferEncode bs). is_alpha c \<or> is_digit c \<or> c = CHR ''-'' \<or> c = CHR ''_'')"
proof -
  have "is_alpha c \<or> is_digit c \<or> c = CHR ''-'' \<or> c = CHR ''_''" if c: "c \<in> set (webAuthnBufferEncode bs)" for c
  proof -
    obtain n where "n < 64" "c = b64url_char n"
      using c b64_sx_less [OF assms]
      by (auto simp: webAuthnBufferEncode_url base64UrlEncode_sx [OF assms] list_all_iff)
    then show ?thesis using b64url_char_cases [of n] by auto
  qed
  with webauthn.roundtrip [OF assms] show ?thesis by blast
qed

lemma webauthn_buffer_roundtrip_example:
  "webAuthnBufferDecode (webAuthnBufferEncode [251, 255, 0, 7]) = Return [251, 255, 0, 7]"
  using webauthn_buffer_roundtrip [of "[251, 255, 0, 7]"] by simp

end
