(* ===== verification/Step_Up.thy ===== *)
theory Step_Up
  imports Control_Plane
begin

text \<open>
  The step-up dialogue: \<open>cpRequest\<close> of \<open>web/src/backend/ControlPlaneBackend.js\<close> running against
  \<open>web/src/common/StepUpModal.js\<close>, and the part of \<open>web/src/App.js\<close> that mounts the dialogue.

  A running call of \<open>cpRequest\<close> is a task; its phase is the \<open>await\<close> it stands at or the way it has
  ended. The dialogue starts tasks of its own (\<open>stepupTotp\<close> and the two halves of the WebAuthn
  ceremony), and what it does when they end is the continuation of their owner. An event is whatever
  the event loop can deliver next: a call by a page, an answer of the network, an action of the user
  on the visible dialogue, an answer of the authenticator, the mounting and unmounting of the dialogue.
  \<open>react\<close> runs the code that the event starts up to its next \<open>await\<close>; it is \<open>None\<close> where the event
  cannot occur. Events come in any order, which is every interleaving of the asynchronous code.
\<close>

section \<open>Tasks\<close>

datatype cp_phase =
    Fetching bool                  \<comment> \<open>at \<open>await fetch\<close>, with the flag \<open>_retried\<close>\<close>
  | Challenged http_response       \<comment> \<open>at \<open>await stepUpHandler\<close>\<close>
  | Resolved jsval
  | Rejected cp_error
  | Failed js_error

text \<open>Who waits for the task; the number is the instance of the dialogue.\<close>

datatype owner = Page | TotpFlow nat | BeginFlow nat | FinishFlow nat

record cp_task =
  tk_owner :: owner
  tk_call :: cp_call
  tk_phase :: cp_phase
  tk_replies :: "http_response list"   \<comment> \<open>the answers received so far\<close>

definition cpRequest :: "owner \<Rightarrow> cp_call \<Rightarrow> cp_task" where
  "cpRequest ow c = \<lparr>tk_owner = ow, tk_call = c, tk_phase = Fetching False, tk_replies = []\<rparr>"

definition outcome_phase :: "http_response \<Rightarrow> cp_outcome \<Rightarrow> cp_phase" where
  "outcome_phase res out =
     (case out of CpReturn v \<Rightarrow> Resolved v | CpStepUp n \<Rightarrow> Challenged res
      | CpThrow e \<Rightarrow> Rejected e | CpCrash e \<Rightarrow> Failed e)"

text \<open>The part after \<open>await stepUpHandler(...)\<close>.\<close>

definition task_resume :: "(string \<Rightarrow> jsval option) \<Rightarrow> bool \<Rightarrow> cp_task \<Rightarrow> cp_task" where
  "task_resume parse ok t =
     (case tk_phase t of
        Challenged res \<Rightarrow>
          (if ok then t\<lparr>tk_phase := Fetching True\<rparr>
           else t\<lparr>tk_phase := Rejected (cp_failure res (parsed_body parse res))\<rparr>)
      | _ \<Rightarrow> t)"

section \<open>The dialogue\<close>

datatype su_mode = Totp | Webauthn

record modal =
  md_open :: bool
  md_mode :: su_mode
  md_code :: string
  md_loading :: bool
  md_resolver :: "nat option"   \<comment> \<open>\<open>resolverRef.current\<close>: the task whose promise it resolves\<close>

definition initial_modal :: modal where
  "initial_modal = \<lparr>md_open = False, md_mode = Totp, md_code = [], md_loading = False, md_resolver = None\<rparr>"

text \<open>
  The options of the WebAuthn ceremony once their buffers are decoded. Everything but the challenge
  and the identifiers of the allowed credentials is passed on as it is.
\<close>

record assertion_options =
  ao_challenge :: "nat list"
  ao_allowed :: "nat list list option"

record credential =
  cr_id :: string
  cr_rawId :: "nat list"
  cr_type :: string
  cr_authenticatorData :: "nat list"
  cr_clientDataJSON :: "nat list"
  cr_signature :: "nat list"
  cr_userHandle :: "nat list option"

text \<open>
  The state of the console: the tasks started so far, the instances of the dialogue mounted so far
  with the one whose handler is registered, and the open prompts of the authenticator.
\<close>

record console =
  cs_tasks :: "cp_task list"
  cs_modals :: "modal list"
  cs_handler :: "nat option"
  cs_prompts :: "(nat \<times> assertion_options) list"

definition initial_console :: console where
  "initial_console = \<lparr>cs_tasks = [], cs_modals = [], cs_handler = None, cs_prompts = []\<rparr>"

definition upd_modal :: "nat \<Rightarrow> (modal \<Rightarrow> modal) \<Rightarrow> console \<Rightarrow> console" where
  "upd_modal k f s = s\<lparr>cs_modals := (cs_modals s)[k := f (cs_modals s ! k)]\<rparr>"

definition upd_task :: "nat \<Rightarrow> (cp_task \<Rightarrow> cp_task) \<Rightarrow> console \<Rightarrow> console" where
  "upd_task i f s = s\<lparr>cs_tasks := (cs_tasks s)[i := f (cs_tasks s ! i)]\<rparr>"

definition start_task :: "owner \<Rightarrow> cp_call \<Rightarrow> console \<Rightarrow> console" where
  "start_task ow c s = s\<lparr>cs_tasks := cs_tasks s @ [cpRequest ow c]\<rparr>"

text \<open>The registered handler: it stores \<open>resolve\<close> and opens the dialogue.\<close>

definition stepUpHandler :: "nat \<Rightarrow> nat \<Rightarrow> bool \<Rightarrow> console \<Rightarrow> console" where
  "stepUpHandler k i needsPhishingResistant =
     upd_modal k (\<lambda>m. m\<lparr>md_resolver := Some i, md_mode := (if needsPhishingResistant then Webauthn else Totp),
                         md_code := [], md_loading := False, md_open := True\<rparr>)"

definition settle :: "(string \<Rightarrow> jsval option) \<Rightarrow> nat \<Rightarrow> bool \<Rightarrow> console \<Rightarrow> console" where
  "settle parse k ok s =
     (let s' = upd_modal k (\<lambda>m. m\<lparr>md_open := False, md_loading := False, md_resolver := None\<rparr>) s in
      case md_resolver (cs_modals s ! k) of
        None \<Rightarrow> s'
      | Some i \<Rightarrow> upd_task i (task_resume parse ok) s')"

definition set_loading :: "nat \<Rightarrow> bool \<Rightarrow> console \<Rightarrow> console" where
  "set_loading k b = upd_modal k (\<lambda>m. m\<lparr>md_loading := b\<rparr>)"

text \<open>\<open>submitTotp\<close> up to its promise.\<close>

definition submitTotp :: "nat \<Rightarrow> console \<Rightarrow> console" where
  "submitTotp k s =
     (let code = md_code (cs_modals s ! k) in
      if code = [] then s
      else start_task (TotpFlow k) (stepupTotp (JObj [(''code'', JStr code)])) (set_loading k True s))"

text \<open>\<open>submitWebauthn\<close> up to its first \<open>await\<close>; the flag says whether the browser has WebAuthn.\<close>

definition submitWebauthn :: "nat \<Rightarrow> bool \<Rightarrow> console \<Rightarrow> console" where
  "submitWebauthn k available s =
     (if \<not> available then s else start_task (BeginFlow k) stepupWebauthnBegin (set_loading k True s))"

definition decode_buffer :: "jsval \<Rightarrow> nat list result" where
  "decode_buffer v = (case v of JStr t \<Rightarrow> webAuthnBufferDecode t | _ \<Rightarrow> Throw TypeError)"

fun decode_ids :: "jsval list \<Rightarrow> nat list list result" where
  "decode_ids [] = Return []"
| "decode_ids (c # cs) =
     bind_result (js_get c ''id'') (\<lambda>v.
     bind_result (decode_buffer v) (\<lambda>b.
     bind_result (decode_ids cs) (\<lambda>bs. Return (b # bs))))"

definition decode_options :: "jsval \<Rightarrow> assertion_options result" where
  "decode_options options =
     bind_result (js_get options ''publicKey'') (\<lambda>pk.
     bind_result (js_get pk ''challenge'') (\<lambda>c.
     bind_result (decode_buffer c) (\<lambda>ch.
     bind_result (js_get pk ''allowCredentials'') (\<lambda>a.
     if js_bool a then
       (case a of
          JArr cs \<Rightarrow> bind_result (decode_ids cs) (\<lambda>ids. Return \<lparr>ao_challenge = ch, ao_allowed = Some ids\<rparr>)
        | _ \<Rightarrow> Throw TypeError)
     else Return \<lparr>ao_challenge = ch, ao_allowed = None\<rparr>))))"

definition assertion_of :: "credential \<Rightarrow> jsval" where
  "assertion_of cred =
     JObj [(''id'', JStr (cr_id cred)), (''rawId'', JStr (webAuthnBufferEncode (cr_rawId cred))),
       (''type'', JStr (cr_type cred)),
       (''response'', JObj
          [(''authenticatorData'', JStr (webAuthnBufferEncode (cr_authenticatorData cred))),
           (''clientDataJSON'', JStr (webAuthnBufferEncode (cr_clientDataJSON cred))),
           (''signature'', JStr (webAuthnBufferEncode (cr_signature cred))),
           (''userHandle'', JStr (case cr_userHandle cred of None \<Rightarrow> [] | Some u \<Rightarrow> webAuthnBufferEncode u))])]"

text \<open>What the dialogue does when a task of its own ends.\<close>

definition continue :: "(string \<Rightarrow> jsval option) \<Rightarrow> nat \<Rightarrow> console \<Rightarrow> console" where
  "continue parse i s =
     (let t = cs_tasks s ! i in
      case tk_phase t of
        Resolved v \<Rightarrow>
          (case tk_owner t of
             Page \<Rightarrow> s
           | TotpFlow k \<Rightarrow> settle parse k True s
           | BeginFlow k \<Rightarrow>
               (case decode_options v of
                  Throw e \<Rightarrow> set_loading k False s
                | Return opts \<Rightarrow> s\<lparr>cs_prompts := cs_prompts s @ [(k, opts)]\<rparr>)
           | FinishFlow k \<Rightarrow> settle parse k True s)
      | Fetching r \<Rightarrow> s
      | Challenged res \<Rightarrow> s
      | _ \<Rightarrow> (case tk_owner t of
               Page \<Rightarrow> s
             | TotpFlow k \<Rightarrow> set_loading k False s
             | BeginFlow k \<Rightarrow> set_loading k False s
             | FinishFlow k \<Rightarrow> set_loading k False s))"

text \<open>An answer of the network to task \<open>i\<close>.\<close>

definition answered :: "nat \<Rightarrow> http_response \<Rightarrow> cp_outcome \<Rightarrow> console \<Rightarrow> console" where
  "answered i res out =
     upd_task i (\<lambda>t. t\<lparr>tk_phase := outcome_phase res out, tk_replies := tk_replies t @ [res]\<rparr>)"

definition deliver :: "(string \<Rightarrow> jsval option) \<Rightarrow> nat \<Rightarrow> bool \<Rightarrow> http_response \<Rightarrow> console \<Rightarrow> console" where
  "deliver parse i retried res s =
     (let t = cs_tasks s ! i;
          out = cp_receive parse (cs_handler s \<noteq> None) (tk_call t) retried res;
          s' = answered i res out s in
      case out of
        CpStepUp n \<Rightarrow> (case cs_handler s of None \<Rightarrow> s' | Some k \<Rightarrow> stepUpHandler k i n s')
      | _ \<Rightarrow> continue parse i s')"

section \<open>Events\<close>

datatype event =
    Mount
  | Unmount
  | Call cp_call
  | Reply nat http_response
  | NetworkError nat
  | Typing string
  | ConfirmTotp
  | ConfirmWebauthn bool
  | Authenticated nat credential
  | NotAuthenticated nat
  | Cancel

definition remove_nth :: "nat \<Rightarrow> 'a list \<Rightarrow> 'a list" where
  "remove_nth j xs = take j xs @ drop (Suc j) xs"

text \<open>The mounted instance, if its dialogue is open in the given mode.\<close>

definition shown :: "console \<Rightarrow> nat option" where
  "shown s = (case cs_handler s of None \<Rightarrow> None | Some k \<Rightarrow> if md_open (cs_modals s ! k) then Some k else None)"

definition shown_in :: "su_mode \<Rightarrow> console \<Rightarrow> nat option" where
  "shown_in md s = (case shown s of None \<Rightarrow> None | Some k \<Rightarrow> if md_mode (cs_modals s ! k) = md then Some k else None)"

text \<open>The input field holds at most eight characters; the handler trims them.\<close>

definition react :: "(string \<Rightarrow> jsval option) \<Rightarrow> console \<Rightarrow> event \<Rightarrow> console option" where
  "react parse s e =
     (case e of
        Mount \<Rightarrow>
          (if cs_handler s = None
           then Some (s\<lparr>cs_modals := cs_modals s @ [initial_modal], cs_handler := Some (length (cs_modals s))\<rparr>)
           else None)
      | Unmount \<Rightarrow> (if cs_handler s = None then None else Some (s\<lparr>cs_handler := None\<rparr>))
      | Call c \<Rightarrow> Some (start_task Page c s)
      | Reply i res \<Rightarrow>
          (if i < length (cs_tasks s)
           then (case tk_phase (cs_tasks s ! i) of Fetching r \<Rightarrow> Some (deliver parse i r res s) | _ \<Rightarrow> None)
           else None)
      | NetworkError i \<Rightarrow>
          (if i < length (cs_tasks s)
           then (case tk_phase (cs_tasks s ! i) of
                   Fetching r \<Rightarrow> Some (continue parse i (upd_task i (\<lambda>t. t\<lparr>tk_phase := Failed TypeError\<rparr>) s))
                 | _ \<Rightarrow> None)
           else None)
      | Typing text \<Rightarrow>
          (case shown_in Totp s of
             Some k \<Rightarrow> if length (filter (\<lambda>c. \<not> utf8_cont c) text) \<le> 8 then Some (upd_modal k (\<lambda>m. m\<lparr>md_code := js_trim text\<rparr>) s) else None
           | None \<Rightarrow> None)
      | ConfirmTotp \<Rightarrow> map_option (\<lambda>k. submitTotp k s) (shown_in Totp s)
      | ConfirmWebauthn available \<Rightarrow> map_option (\<lambda>k. submitWebauthn k available s) (shown_in Webauthn s)
      | Authenticated j cred \<Rightarrow>
          (if j < length (cs_prompts s)
           then Some (start_task (FinishFlow (fst (cs_prompts s ! j))) (stepupWebauthnFinish (assertion_of cred))
                       (s\<lparr>cs_prompts := remove_nth j (cs_prompts s)\<rparr>))
           else None)
      | NotAuthenticated j \<Rightarrow>
          (if j < length (cs_prompts s)
           then Some (set_loading (fst (cs_prompts s ! j)) False (s\<lparr>cs_prompts := remove_nth j (cs_prompts s)\<rparr>))
           else None)
      | Cancel \<Rightarrow> map_option (\<lambda>k. settle parse k False s) (shown s))"

text \<open>The states the console can get into.\<close>

inductive reachable :: "(string \<Rightarrow> jsval option) \<Rightarrow> console \<Rightarrow> bool" for parse where
  start: "reachable parse initial_console"
| turn: "reachable parse s \<Longrightarrow> react parse s e = Some t \<Longrightarrow> reachable parse t"

text \<open>The states that can follow a given one.\<close>

inductive later :: "(string \<Rightarrow> jsval option) \<Rightarrow> console \<Rightarrow> console \<Rightarrow> bool" for parse s where
  now: "later parse s s"
| next_turn: "later parse s t \<Longrightarrow> react parse t e = Some u \<Longrightarrow> later parse s u"

fun run :: "(string \<Rightarrow> jsval option) \<Rightarrow> console \<Rightarrow> event list \<Rightarrow> console option" where
  "run parse s [] = Some s"
| "run parse s (e # es) = (case react parse s e of None \<Rightarrow> None | Some t \<Rightarrow> run parse t es)"

lemma run_reachable: "reachable parse s \<Longrightarrow> run parse s es = Some t \<Longrightarrow> reachable parse t"
  by (induction es arbitrary: s) (auto split: option.splits intro: reachable.turn)

lemma later_reachable: "later parse s t \<Longrightarrow> reachable parse s \<Longrightarrow> reachable parse t"
  by (induction rule: later.induct) (auto intro: reachable.turn)

section \<open>What the operations change\<close>

lemma console_simps [simp]:
  "cs_tasks (upd_modal k f s) = cs_tasks s" "cs_handler (upd_modal k f s) = cs_handler s"
  "cs_prompts (upd_modal k f s) = cs_prompts s" "cs_modals (upd_task i g s) = cs_modals s"
  "cs_handler (upd_task i g s) = cs_handler s" "cs_prompts (upd_task i g s) = cs_prompts s"
  "cs_modals (upd_modal k f s) = (cs_modals s)[k := f (cs_modals s ! k)]"
  "cs_tasks (upd_task i g s) = (cs_tasks s)[i := g (cs_tasks s ! i)]"
  "cs_tasks (start_task ow c s) = cs_tasks s @ [cpRequest ow c]" "cs_modals (start_task ow c s) = cs_modals s"
  "cs_handler (start_task ow c s) = cs_handler s" "cs_prompts (start_task ow c s) = cs_prompts s"
  by (simp_all add: upd_modal_def upd_task_def start_task_def)

lemma settle_simps [simp]:
  "cs_handler (settle parse k ok s) = cs_handler s" "cs_prompts (settle parse k ok s) = cs_prompts s"
  "cs_modals (settle parse k ok s) =
     (cs_modals s)[k := (cs_modals s ! k)\<lparr>md_open := False, md_loading := False, md_resolver := None\<rparr>]"
  "cs_tasks (settle parse k ok s) =
     (case md_resolver (cs_modals s ! k) of None \<Rightarrow> cs_tasks s
      | Some i \<Rightarrow> (cs_tasks s)[i := task_resume parse ok (cs_tasks s ! i)])"
  by (simp_all add: settle_def Let_def split: option.splits)

lemma set_loading_simps [simp]:
  "cs_tasks (set_loading k b s) = cs_tasks s" "cs_handler (set_loading k b s) = cs_handler s"
  "cs_prompts (set_loading k b s) = cs_prompts s"
  "cs_modals (set_loading k b s) = (cs_modals s)[k := (cs_modals s ! k)\<lparr>md_loading := b\<rparr>]"
  by (simp_all add: set_loading_def)

lemma cpRequest_simps [simp]:
  "tk_owner (cpRequest ow c) = ow" "tk_call (cpRequest ow c) = c" "tk_replies (cpRequest ow c) = []"
  "tk_phase (cpRequest ow c) = Fetching False"
  by (simp_all add: cpRequest_def)

lemma task_resume_simps [simp]:
  "tk_owner (task_resume parse ok t) = tk_owner t" "tk_call (task_resume parse ok t) = tk_call t"
  "tk_replies (task_resume parse ok t) = tk_replies t"
  by (simp_all add: task_resume_def split: cp_phase.splits)

lemma shown_Some: "shown s = Some k \<longleftrightarrow> cs_handler s = Some k \<and> md_open (cs_modals s ! k)"
  by (auto simp: shown_def split: option.splits if_splits)

lemma shown_in_Some: "shown_in md s = Some k \<longleftrightarrow> shown s = Some k \<and> md_mode (cs_modals s ! k) = md"
  by (auto simp: shown_in_def split: option.splits if_splits)

lemma deliver_cases:
  obtains (going_on) "deliver parse i r res s =
      continue parse i (answered i res (cp_receive parse (cs_handler s \<noteq> None) (tk_call (cs_tasks s ! i)) r res) s)"
      "\<And>n. cp_receive parse (cs_handler s \<noteq> None) (tk_call (cs_tasks s ! i)) r res \<noteq> CpStepUp n"
  | (dialogue) k n where "cs_handler s = Some k"
      "cp_receive parse (cs_handler s \<noteq> None) (tk_call (cs_tasks s ! i)) r res = CpStepUp n"
      "deliver parse i r res s = stepUpHandler k i n
         (answered i res (cp_receive parse (cs_handler s \<noteq> None) (tk_call (cs_tasks s ! i)) r res) s)"
proof (cases "cp_receive parse (cs_handler s \<noteq> None) (tk_call (cs_tasks s ! i)) r res")
  case (CpStepUp n)
  then have "cs_handler s \<noteq> None" by (metis cp_receive_simps(4))
  then obtain k where "cs_handler s = Some k" by blast
  with CpStepUp show thesis by (intro dialogue [of k n]) (simp_all add: deliver_def Let_def)
qed (use going_on in \<open>simp_all add: deliver_def Let_def\<close>)

section \<open>Invariants of a run\<close>

text \<open>
  A predicate that every event keeps, and one that also holds at the start: what a proof about all
  interleavings needs.
\<close>

locale console_stable =
  fixes parse :: "string \<Rightarrow> jsval option" and inv :: "console \<Rightarrow> bool"
  assumes kept: "inv s \<Longrightarrow> react parse s e = Some t \<Longrightarrow> inv t"
begin

lemma later_inv: "later parse s t \<Longrightarrow> inv s \<Longrightarrow> inv t"
  by (induction rule: later.induct) (auto intro: kept)

lemma run_inv: "run parse s es = Some t \<Longrightarrow> inv s \<Longrightarrow> inv t"
  by (induction es arbitrary: s) (auto intro: kept split: option.splits)

end

locale console_invariant = console_stable +
  assumes initial: "inv initial_console"
begin

lemma reachable_inv: "reachable parse s \<Longrightarrow> inv s"
  by (induction rule: reachable.induct) (auto intro: initial kept)

end

section \<open>Every task is answered at most twice\<close>

text \<open>
  An answer that opens the dialogue, and the history a task may have: one answer, or a challenge
  followed by the answer to the only repetition. A task that ended carries its last answer.
\<close>

definition challenge :: "(string \<Rightarrow> jsval option) \<Rightarrow> cp_call \<Rightarrow> http_response \<Rightarrow> bool" where
  "challenge parse c res =
     (rs_status res = 401 \<and> \<not> isStepUpPath (cp_path c)
      \<and> isStepUpChallenge res (parsed_body parse res) = Return True)"

definition history_ok :: "(string \<Rightarrow> jsval option) \<Rightarrow> cp_call \<Rightarrow> http_response list \<Rightarrow> bool" where
  "history_ok parse c rs =
     (case rs of [] \<Rightarrow> True | [x] \<Rightarrow> True | [x, y] \<Rightarrow> challenge parse c x | _ \<Rightarrow> False)"

definition task_ok :: "(string \<Rightarrow> jsval option) \<Rightarrow> cp_task \<Rightarrow> bool" where
  "task_ok parse t =
     ((tk_owner t \<noteq> Page \<longrightarrow> isStepUpPath (cp_path (tk_call t)))
      \<and> history_ok parse (tk_call t) (tk_replies t)
      \<and> (case tk_phase t of
           Fetching r \<Rightarrow> (if r then \<exists>x. tk_replies t = [x] \<and> challenge parse (tk_call t) x else tk_replies t = [])
         | Challenged x \<Rightarrow> tk_replies t = [x] \<and> challenge parse (tk_call t) x
         | Resolved v \<Rightarrow> tk_replies t \<noteq> [] \<and> http_ok (last (tk_replies t)) \<and> v = parsed_body parse (last (tk_replies t))
         | Rejected e \<Rightarrow> tk_replies t \<noteq> [] \<and> \<not> http_ok (last (tk_replies t))
             \<and> e = cp_failure (last (tk_replies t)) (parsed_body parse (last (tk_replies t)))
         | Failed e \<Rightarrow> True))"

lemma challenge_not_ok: "challenge parse c x \<Longrightarrow> \<not> http_ok x"
  by (simp add: challenge_def http_ok_def)

lemma cp_receive_challenge: "cp_receive parse h c r res = CpStepUp n \<Longrightarrow> challenge parse c res \<and> \<not> r"
  by (simp add: cp_receive_StepUp challenge_def)

lemma task_ok_start: "(ow \<noteq> Page \<Longrightarrow> isStepUpPath (cp_path c)) \<Longrightarrow> task_ok parse (cpRequest ow c)"
  by (auto simp: task_ok_def history_ok_def)

lemma task_ok_resume: "task_ok parse t \<Longrightarrow> task_ok parse (task_resume parse ok t)"
  by (auto simp: task_ok_def task_resume_def history_ok_def challenge_not_ok split: cp_phase.splits)

lemma task_ok_failed: "task_ok parse t \<Longrightarrow> task_ok parse (t\<lparr>tk_phase := Failed e\<rparr>)"
  by (auto simp: task_ok_def split: cp_phase.splits)

lemma task_ok_answer:
  assumes "task_ok parse t" "tk_phase t = Fetching r"
  shows "task_ok parse (t\<lparr>tk_phase := outcome_phase res (cp_receive parse h (tk_call t) r res),
                         tk_replies := tk_replies t @ [res]\<rparr>)"
proof (cases "cp_receive parse h (tk_call t) r res")
  case (CpStepUp n)
  with assms cp_receive_challenge [OF CpStepUp] show ?thesis
    by (auto simp: task_ok_def outcome_phase_def history_ok_def)
next
  case (CpReturn v)
  with assms cp_receive_simps(2) [THEN iffD1, OF CpReturn] show ?thesis
    by (auto simp: task_ok_def outcome_phase_def history_ok_def split: if_splits)
next
  case (CpThrow e)
  with assms cp_receive_simps(6) [OF CpThrow] show ?thesis
    by (auto simp: task_ok_def outcome_phase_def history_ok_def split: if_splits)
next
  case (CpCrash e)
  with assms show ?thesis
    by (auto simp: task_ok_def outcome_phase_def history_ok_def split: if_splits)
qed

definition tasks_ok :: "(string \<Rightarrow> jsval option) \<Rightarrow> console \<Rightarrow> bool" where
  "tasks_ok parse s = list_all (task_ok parse) (cs_tasks s)"

lemma tasks_ok_upd: "tasks_ok parse s \<Longrightarrow> (task_ok parse (cs_tasks s ! i) \<Longrightarrow> task_ok parse (g (cs_tasks s ! i))) \<Longrightarrow>
  tasks_ok parse (upd_task i g s)"
  by (cases "i < length (cs_tasks s)") (auto simp: tasks_ok_def list_all_length nth_list_update)

lemma tasks_ok_settle: "tasks_ok parse s \<Longrightarrow> tasks_ok parse (settle parse k ok s)"
  using tasks_ok_upd [of parse s _ "task_resume parse ok"] task_ok_resume
  by (auto simp: tasks_ok_def split: option.splits)

lemma tasks_ok_continue: "tasks_ok parse s \<Longrightarrow> tasks_ok parse (continue parse i s)"
  using tasks_ok_settle [of parse s]
  by (auto simp: continue_def Let_def tasks_ok_def split: cp_phase.splits owner.splits sum.splits)

lemma tasks_ok_start:
  "tasks_ok parse s \<Longrightarrow> (ow \<noteq> Page \<Longrightarrow> isStepUpPath (cp_path c)) \<Longrightarrow> tasks_ok parse (start_task ow c s)"
  by (simp add: tasks_ok_def task_ok_start)

lemma tasks_ok_deliver:
  assumes "tasks_ok parse s" "tk_phase (cs_tasks s ! i) = Fetching r"
  shows "tasks_ok parse (deliver parse i r res s)"
proof -
  let ?out = "cp_receive parse (cs_handler s \<noteq> None) (tk_call (cs_tasks s ! i)) r res"
  have s: "tasks_ok parse (answered i res ?out s)"
    unfolding answered_def using assms by (intro tasks_ok_upd task_ok_answer)
  show ?thesis
  proof (cases rule: deliver_cases [of parse i r res s])
    case going_on
    with tasks_ok_continue [OF s] show ?thesis by simp
  next
    case (dialogue k n)
    with s show ?thesis by (simp add: tasks_ok_def stepUpHandler_def)
  qed
qed

lemma stepup_paths:
  "isStepUpPath (cp_path (stepupTotp v))" "isStepUpPath (cp_path stepupWebauthnBegin)"
  "isStepUpPath (cp_path (stepupWebauthnFinish v))"
  by (simp_all add: isStepUpPath_def endpoint_defs cp_call_defs)

lemma tasks_ok_congs:
  "tasks_ok parse (s\<lparr>cs_modals := ms\<rparr>) = tasks_ok parse s"
  "tasks_ok parse (s\<lparr>cs_handler := h\<rparr>) = tasks_ok parse s"
  "tasks_ok parse (s\<lparr>cs_prompts := ps\<rparr>) = tasks_ok parse s"
  "tasks_ok parse (upd_modal k f s) = tasks_ok parse s"
  "tasks_ok parse (set_loading k b s) = tasks_ok parse s"
  by (simp_all add: tasks_ok_def)

lemma tasks_ok_submit:
  "tasks_ok parse s \<Longrightarrow> tasks_ok parse (submitTotp k s)"
  "tasks_ok parse s \<Longrightarrow> tasks_ok parse (submitWebauthn k a s)"
  by (simp_all add: submitTotp_def submitWebauthn_def Let_def tasks_ok_start tasks_ok_congs stepup_paths)

interpretation tasks: console_invariant parse "tasks_ok parse" for parse
proof
  show "tasks_ok parse initial_console" by (simp add: tasks_ok_def initial_console_def)
next
  fix s e t
  assume inv: "tasks_ok parse s" and step: "react parse s e = Some t"
  show "tasks_ok parse t"
  proof (cases e)
    case (Reply i res)
    with inv step show ?thesis
      by (auto simp: react_def split: if_splits cp_phase.splits intro: tasks_ok_deliver)
  next
    case (NetworkError i)
    with inv step show ?thesis
      by (auto simp: react_def split: if_splits cp_phase.splits
          intro!: tasks_ok_continue tasks_ok_upd task_ok_failed)
  qed (use inv step in \<open>auto simp: react_def tasks_ok_congs tasks_ok_submit stepup_paths
      split: if_splits option.splits intro!: tasks_ok_settle tasks_ok_start\<close>)
qed

section \<open>The dialogue is open exactly while a task waits for it\<close>

definition challenged :: "cp_task \<Rightarrow> bool" where
  "challenged t = (case tk_phase t of Challenged res \<Rightarrow> True | _ \<Rightarrow> False)"

text \<open>
  An instance is open exactly when it holds a \<open>resolve\<close>; that \<open>resolve\<close> belongs to a task that waits
  for it, and to no other instance.
\<close>

definition modal_ok :: "cp_task list \<Rightarrow> modal \<Rightarrow> bool" where
  "modal_ok ts m =
     (case md_resolver m of
        None \<Rightarrow> \<not> md_open m
      | Some i \<Rightarrow> md_open m \<and> i < length ts \<and> challenged (ts ! i))"

definition apart :: "nat option list \<Rightarrow> bool" where
  "apart rs = (\<forall>k l i. k < length rs \<longrightarrow> l < length rs \<longrightarrow> rs ! k = Some i \<longrightarrow> rs ! l = Some i \<longrightarrow> k = l)"

definition dialogs_ok :: "cp_task list \<Rightarrow> modal list \<Rightarrow> bool" where
  "dialogs_ok ts ms = ((\<forall>m \<in> set ms. modal_ok ts m) \<and> apart (map md_resolver ms))"

lemma nth_upd: "l < length xs \<Longrightarrow> xs[k := x] ! l = (if l = k then x else xs ! l)"
  by (simp add: nth_list_update)

lemma modal_ok_start: "modal_ok ts m \<Longrightarrow> modal_ok (ts @ [t]) m"
  by (auto simp: modal_ok_def nth_append split: option.splits)

lemma modal_ok_other: "modal_ok ts m \<Longrightarrow> md_resolver m \<noteq> Some i \<Longrightarrow> modal_ok (ts[i := t]) m"
  by (auto simp: modal_ok_def split: option.splits)

lemma modal_ok_task: "modal_ok ts m \<Longrightarrow> \<not> challenged (ts ! i) \<Longrightarrow> md_resolver m \<noteq> Some i"
  by (auto simp: modal_ok_def)

lemma apart_append: "apart rs \<Longrightarrow> apart (rs @ [None])"
  by (auto simp: apart_def nth_append)

lemma apart_None: "apart rs \<Longrightarrow> apart (rs[k := None])"
  by (auto simp: apart_def nth_upd)

lemma apart_Some:
  assumes "apart rs" "Some i \<notin> set rs"
  shows "apart (rs[k := Some i])"
proof -
  have "rs ! l \<noteq> Some i" if "l < length rs" for l
    using assms(2) that by (metis nth_mem)
  with assms(1) show ?thesis by (auto simp: apart_def nth_upd)
qed

lemma dialogs_ok_start: "dialogs_ok ts ms \<Longrightarrow> dialogs_ok (ts @ [t]) ms"
  by (simp add: dialogs_ok_def modal_ok_start)

lemma dialogs_ok_mount: "dialogs_ok ts ms \<Longrightarrow> dialogs_ok ts (ms @ [initial_modal])"
  by (simp add: dialogs_ok_def apart_append modal_ok_def initial_modal_def)

lemma dialogs_ok_other:
  "dialogs_ok ts ms \<Longrightarrow> (\<And>m. m \<in> set ms \<Longrightarrow> md_resolver m \<noteq> Some i) \<Longrightarrow> dialogs_ok (ts[i := t]) ms"
  by (simp add: dialogs_ok_def modal_ok_other)

lemma dialogs_ok_fresh:
  "dialogs_ok ts ms \<Longrightarrow> \<not> challenged (ts ! i) \<Longrightarrow> m \<in> set ms \<Longrightarrow> md_resolver m \<noteq> Some i"
  using modal_ok_task by (auto simp: dialogs_ok_def)

lemma dialogs_ok_task: "dialogs_ok ts ms \<Longrightarrow> \<not> challenged (ts ! i) \<Longrightarrow> dialogs_ok (ts[i := t]) ms"
  by (intro dialogs_ok_other dialogs_ok_fresh)

lemma dialogs_ok_modal:
  assumes "dialogs_ok ts ms" "modal_ok ts m" "apart ((map md_resolver ms)[k := md_resolver m])"
  shows "dialogs_ok ts (ms[k := m])"
  using assms set_update_subset_insert [of ms k m] by (auto simp: dialogs_ok_def map_update)

lemma dialogs_ok_same:
  assumes "dialogs_ok ts ms" "md_open m = md_open (ms ! k)" "md_resolver m = md_resolver (ms ! k)" "k < length ms"
  shows "dialogs_ok ts (ms[k := m])"
proof (rule dialogs_ok_modal [OF assms(1)])
  have "modal_ok ts (ms ! k)" using assms(1,4) by (simp add: dialogs_ok_def)
  then show "modal_ok ts m" using assms(2,3) by (simp add: modal_ok_def split: option.splits)
  have "(map md_resolver ms)[k := md_resolver m] = map md_resolver ms"
    using assms(3,4) by (simp add: list_update_same_conv)
  then show "apart ((map md_resolver ms)[k := md_resolver m])" using assms(1) by (simp add: dialogs_ok_def)
qed

lemma dialogs_ok_open:
  assumes "dialogs_ok ts ms" "i < length ts" "\<not> challenged (ts ! i)" "challenged t"
    and "md_open m" "md_resolver m = Some i"
  shows "dialogs_ok (ts[i := t]) (ms[k := m])"
proof (rule dialogs_ok_modal [OF dialogs_ok_task [OF assms(1,3)]])
  show "modal_ok (ts[i := t]) m" using assms by (simp add: modal_ok_def)
  show "apart ((map md_resolver ms)[k := md_resolver m])"
    unfolding assms(6)
  proof (rule apart_Some)
    show "apart (map md_resolver ms)" using assms(1) by (simp add: dialogs_ok_def)
    show "Some i \<notin> set (map md_resolver ms)"
      using dialogs_ok_fresh [OF assms(1,3)] by (metis (no_types, lifting) imageE set_map)
  qed
qed

lemma dialogs_ok_close:
  assumes "dialogs_ok ts ms" "\<not> md_open m" "md_resolver m = None" "k < length ms"
  shows "dialogs_ok (case md_resolver (ms ! k) of None \<Rightarrow> ts | Some i \<Rightarrow> ts[i := f (ts ! i)]) (ms[k := m])"
proof -
  have drop: "dialogs_ok ts (ms[k := m])"
    using assms by (intro dialogs_ok_modal) (auto simp: dialogs_ok_def modal_ok_def apart_None)
  show ?thesis
  proof (cases "md_resolver (ms ! k)")
    case None
    with drop show ?thesis by simp
  next
    case (Some i)
    have "md_resolver (ms[k := m] ! l) \<noteq> Some i" if "l < length ms" for l
      using that assms Some by (auto simp: dialogs_ok_def apart_def nth_upd)
    then have "md_resolver m' \<noteq> Some i" if "m' \<in> set (ms[k := m])" for m'
      using that by (auto simp: in_set_conv_nth)
    with drop Some show ?thesis by (simp add: dialogs_ok_other)
  qed
qed

text \<open>The registered instance, the owners of flows and the prompts refer to instances that exist.\<close>

definition flow_of :: "owner \<Rightarrow> nat option" where
  "flow_of ow = (case ow of Page \<Rightarrow> None | TotpFlow k \<Rightarrow> Some k | BeginFlow k \<Rightarrow> Some k | FinishFlow k \<Rightarrow> Some k)"

lemma flow_of_simps [simp]:
  "flow_of Page = None" "flow_of (TotpFlow k) = Some k" "flow_of (BeginFlow k) = Some k"
  "flow_of (FinishFlow k) = Some k"
  by (simp_all add: flow_of_def)

definition owners :: "console \<Rightarrow> owner list" where
  "owners s = map tk_owner (cs_tasks s)"

definition bounds_ok :: "console \<Rightarrow> bool" where
  "bounds_ok s =
     ((\<forall>k. cs_handler s = Some k \<longrightarrow> k < length (cs_modals s))
      \<and> (\<forall>ow \<in> set (owners s). \<forall>k. flow_of ow = Some k \<longrightarrow> k < length (cs_modals s))
      \<and> (\<forall>p \<in> set (cs_prompts s). fst p < length (cs_modals s)))"

lemma owners_upd [simp]:
  "(\<And>t. tk_owner (g t) = tk_owner t) \<Longrightarrow> owners (upd_task i g s) = owners s"
  by (rule nth_equalityI) (auto simp: owners_def nth_upd)

lemma owners_simps [simp]:
  "owners (upd_modal k f s) = owners s" "owners (set_loading k b s) = owners s"
  "owners (answered i res out s) = owners s" "owners (stepUpHandler k i n s) = owners s"
  "owners (s\<lparr>cs_handler := h\<rparr>) = owners s" "owners (s\<lparr>cs_modals := ms\<rparr>) = owners s"
  "owners (s\<lparr>cs_prompts := ps\<rparr>) = owners s" "owners (start_task ow c s) = owners s @ [ow]"
  by (simp_all add: answered_def stepUpHandler_def owners_def [of "upd_modal k f s"]
      owners_def [of "set_loading k b s"] owners_def [of "s\<lparr>cs_handler := h\<rparr>"]
      owners_def [of "s\<lparr>cs_modals := ms\<rparr>"] owners_def [of "s\<lparr>cs_prompts := ps\<rparr>"]
      owners_def [of "start_task ow c s"]) (simp_all add: owners_def)

lemma owners_settle [simp]: "owners (settle parse k ok s) = owners s"
  by (simp add: settle_def Let_def split: option.splits)

lemma frame_simps [simp]:
  "cs_handler (answered i res out s) = cs_handler s" "cs_modals (answered i res out s) = cs_modals s"
  "cs_prompts (answered i res out s) = cs_prompts s" "cs_handler (stepUpHandler k i n s) = cs_handler s"
  "cs_prompts (stepUpHandler k i n s) = cs_prompts s" "length (cs_modals (stepUpHandler k i n s)) = length (cs_modals s)"
  by (simp_all add: answered_def stepUpHandler_def)

lemma continue_frame:
  "cs_handler (continue parse i s) = cs_handler s" "owners (continue parse i s) = owners s"
  "length (cs_modals (continue parse i s)) = length (cs_modals s)"
  by (simp_all add: continue_def Let_def split: cp_phase.splits owner.splits sum.splits)

lemma owner_in: "i < length (cs_tasks s) \<Longrightarrow> tk_owner (cs_tasks s ! i) \<in> set (owners s)"
  by (simp add: owners_def)

lemma bounds_ok_continue:
  assumes "bounds_ok s" "i < length (cs_tasks s)"
  shows "bounds_ok (continue parse i s)"
proof -
  have "fst p < length (cs_modals s)" if "p \<in> set (cs_prompts (continue parse i s))" for p
    using that assms owner_in [OF assms(2)]
    by (auto simp: continue_def Let_def bounds_ok_def split: cp_phase.splits owner.splits sum.splits)
  with assms(1) show ?thesis by (simp add: bounds_ok_def continue_frame)
qed

lemma bounds_ok_congs [simp]:
  "bounds_ok (answered i res out s) = bounds_ok s" "bounds_ok (stepUpHandler k i n s) = bounds_ok s"
  "bounds_ok (set_loading k b s) = bounds_ok s" "bounds_ok (settle parse k ok s) = bounds_ok s"
  "bounds_ok (upd_modal k f s) = bounds_ok s"
  by (simp_all add: bounds_ok_def)

lemma bounds_ok_start:
  "bounds_ok s \<Longrightarrow> (\<And>k. flow_of ow = Some k \<Longrightarrow> k < length (cs_modals s)) \<Longrightarrow> bounds_ok (start_task ow c s)"
  by (auto simp: bounds_ok_def)

lemma set_remove_nth: "set (remove_nth j xs) \<subseteq> set xs"
  using set_take_subset [of j xs] set_drop_subset [of "Suc j" xs] by (auto simp: remove_nth_def)

lemma bounds_ok_remove:
  assumes "bounds_ok s"
  shows "bounds_ok (s\<lparr>cs_prompts := remove_nth j (cs_prompts s)\<rparr>)"
  using assms set_remove_nth [of j "cs_prompts s"] by (simp add: bounds_ok_def) blast

lemma bounds_ok_prompt: "bounds_ok s \<Longrightarrow> j < length (cs_prompts s) \<Longrightarrow> fst (cs_prompts s ! j) < length (cs_modals s)"
  by (simp add: bounds_ok_def)

lemma bounds_ok_shown: "bounds_ok s \<Longrightarrow> shown s = Some k \<Longrightarrow> k < length (cs_modals s)"
  by (simp add: bounds_ok_def shown_Some)

lemma bounds_ok_deliver:
  assumes "bounds_ok s" "i < length (cs_tasks s)"
  shows "bounds_ok (deliver parse i r res s)"
proof (cases rule: deliver_cases [of parse i r res s])
  case going_on
  have "bounds_ok (continue parse i (answered i res out s))" for out
    using assms by (intro bounds_ok_continue) (simp, simp add: answered_def)
  with going_on show ?thesis by simp
next
  case (dialogue k n)
  with assms show ?thesis by simp
qed

lemma bounds_ok_submit:
  "bounds_ok s \<Longrightarrow> k < length (cs_modals s) \<Longrightarrow> bounds_ok (submitTotp k s)"
  "bounds_ok s \<Longrightarrow> k < length (cs_modals s) \<Longrightarrow> bounds_ok (submitWebauthn k a s)"
  by (auto simp: submitTotp_def submitWebauthn_def Let_def intro!: bounds_ok_start)

interpretation bounds: console_invariant parse bounds_ok for parse
proof
  show "bounds_ok initial_console" by (simp add: bounds_ok_def owners_def initial_console_def)
next
  fix s e t
  assume inv: "bounds_ok s" and step: "react parse s e = Some t"
  show "bounds_ok t"
  proof (cases e)
    case Mount
    with inv step show ?thesis by (fastforce simp: react_def bounds_ok_def less_Suc_eq split: if_splits)
  next
    case Unmount
    with inv step show ?thesis by (fastforce simp: react_def bounds_ok_def split: if_splits)
  next
    case (Reply i res)
    with inv step show ?thesis
      by (auto simp: react_def split: if_splits cp_phase.splits intro: bounds_ok_deliver)
  next
    case (NetworkError i)
    have "bounds_ok (upd_task i (\<lambda>t. t\<lparr>tk_phase := Failed TypeError\<rparr>) s)"
      using inv by (simp add: bounds_ok_def)
    with NetworkError step show ?thesis
      by (auto simp: react_def split: if_splits cp_phase.splits intro: bounds_ok_continue)
  next
    case (Authenticated j cred)
    with inv step show ?thesis
      by (auto simp: react_def bounds_ok_remove bounds_ok_prompt split: if_splits intro!: bounds_ok_start)
  next
    case (Call c)
    with inv step show ?thesis by (auto simp: react_def intro!: bounds_ok_start)
  qed (use inv step in \<open>auto simp: react_def bounds_ok_remove shown_in_Some split: if_splits option.splits
      intro!: bounds_ok_submit dest: bounds_ok_shown\<close>)
qed

definition dialogue_ok :: "console \<Rightarrow> bool" where
  "dialogue_ok s = (bounds_ok s \<and> dialogs_ok (cs_tasks s) (cs_modals s))"

lemma challenged_simps [simp]:
  "\<not> challenged (cpRequest ow c)" "\<not> challenged (t\<lparr>tk_phase := Failed e\<rparr>)"
  "challenged (t\<lparr>tk_phase := Challenged res, tk_replies := rs\<rparr>)"
  "tk_phase t = Fetching r \<Longrightarrow> \<not> challenged t"
  by (simp_all add: challenged_def)

lemma dialogue_ok_settle: "dialogue_ok s \<Longrightarrow> k < length (cs_modals s) \<Longrightarrow> dialogue_ok (settle parse k ok s)"
  by (simp add: dialogue_ok_def dialogs_ok_close)

lemma dialogue_ok_loading: "dialogue_ok s \<Longrightarrow> k < length (cs_modals s) \<Longrightarrow> dialogue_ok (set_loading k b s)"
  by (simp add: dialogue_ok_def dialogs_ok_same)

lemma dialogue_ok_start:
  "dialogue_ok s \<Longrightarrow> (\<And>k. flow_of ow = Some k \<Longrightarrow> k < length (cs_modals s)) \<Longrightarrow> dialogue_ok (start_task ow c s)"
  by (simp add: dialogue_ok_def dialogs_ok_start bounds_ok_start)

lemma dialogue_ok_continue:
  assumes "dialogue_ok s" "i < length (cs_tasks s)"
  shows "dialogue_ok (continue parse i s)"
proof -
  have k: "k < length (cs_modals s)" if "flow_of (tk_owner (cs_tasks s ! i)) = Some k" for k
    using assms owner_in [OF assms(2)] that by (auto simp: dialogue_ok_def bounds_ok_def)
  have "dialogs_ok (cs_tasks (continue parse i s)) (cs_modals (continue parse i s))"
    using assms(1) k dialogue_ok_settle [OF assms(1)] dialogue_ok_loading [OF assms(1)]
    by (auto simp: continue_def Let_def dialogue_ok_def simp del: settle_simps(3,4) set_loading_simps
        split: cp_phase.splits owner.splits sum.splits)
  with assms show ?thesis by (simp add: dialogue_ok_def bounds_ok_continue)
qed

lemma dialogue_ok_upd:
  "dialogue_ok s \<Longrightarrow> \<not> challenged (cs_tasks s ! i) \<Longrightarrow> (\<And>t. tk_owner (g t) = tk_owner t) \<Longrightarrow> dialogue_ok (upd_task i g s)"
  by (simp add: dialogue_ok_def dialogs_ok_task bounds_ok_def)

lemma dialogue_ok_deliver:
  assumes "dialogue_ok s" "i < length (cs_tasks s)" "tk_phase (cs_tasks s ! i) = Fetching r"
  shows "dialogue_ok (deliver parse i r res s)"
proof (cases rule: deliver_cases [of parse i r res s])
  case going_on
  have "dialogue_ok (continue parse i (answered i res out s))" for out
    unfolding answered_def using assms by (intro dialogue_ok_continue dialogue_ok_upd) simp_all
  with going_on show ?thesis by simp
next
  case (dialogue k n)
  have "bounds_ok (deliver parse i r res s)" using assms by (simp add: dialogue_ok_def bounds_ok_deliver)
  moreover have "dialogs_ok (cs_tasks (deliver parse i r res s)) (cs_modals (deliver parse i r res s))"
    using dialogue assms
    by (simp add: dialogue_ok_def stepUpHandler_def answered_def outcome_phase_def dialogs_ok_open)
  ultimately show ?thesis by (simp add: dialogue_ok_def)
qed

lemma dialogue_ok_submit:
  assumes "dialogue_ok s" "k < length (cs_modals s)"
  shows "dialogue_ok (submitTotp k s)" "dialogue_ok (submitWebauthn k a s)"
  using assms by (auto simp: submitTotp_def submitWebauthn_def Let_def intro!: dialogue_ok_start dialogue_ok_loading)

lemma dialogue_ok_remove: "dialogue_ok s \<Longrightarrow> dialogue_ok (s\<lparr>cs_prompts := remove_nth j (cs_prompts s)\<rparr>)"
  by (simp add: dialogue_ok_def bounds_ok_remove)

lemma dialogue_ok_shown: "dialogue_ok s \<Longrightarrow> shown s = Some k \<Longrightarrow> k < length (cs_modals s)"
  by (simp add: dialogue_ok_def bounds_ok_shown)

interpretation dialogue: console_invariant parse dialogue_ok for parse
proof
  show "dialogue_ok initial_console"
    using bounds.initial by (simp add: dialogue_ok_def dialogs_ok_def initial_console_def apart_def)
next
  fix s e t
  assume inv: "dialogue_ok s" and step: "react parse s e = Some t"
  then have bounds: "bounds_ok t" using bounds.kept by (auto simp: dialogue_ok_def)
  show "dialogue_ok t"
  proof (cases e)
    case (Reply i res)
    with inv step show ?thesis
      by (auto simp: react_def split: if_splits cp_phase.splits intro: dialogue_ok_deliver)
  next
    case (NetworkError i)
    with inv step show ?thesis
      by (auto simp: react_def split: if_splits cp_phase.splits intro!: dialogue_ok_continue dialogue_ok_upd)
  next
    case (Typing input)
    with inv step bounds show ?thesis
      by (auto simp: react_def shown_in_Some dialogue_ok_def dialogs_ok_same bounds_ok_shown split: if_splits option.splits)
  next
    case (NotAuthenticated j)
    with inv step bounds_ok_prompt [of s j] show ?thesis
      by (auto simp: react_def dialogue_ok_def [of s] split: if_splits intro!: dialogue_ok_loading dialogue_ok_remove)
  next
    case (Authenticated j cred)
    with inv step bounds show ?thesis
      by (auto simp: react_def dialogue_ok_def dialogs_ok_start split: if_splits)
  next
    case Cancel
    with inv step show ?thesis by (auto simp: react_def intro!: dialogue_ok_settle dest: dialogue_ok_shown)
  qed (use inv step bounds in \<open>auto simp: react_def dialogue_ok_def dialogs_ok_start dialogs_ok_mount shown_in_Some
      split: if_splits option.splits intro!: dialogue_ok_submit [unfolded dialogue_ok_def, THEN conjunct2]
      dest: bounds_ok_shown\<close>)
qed

section \<open>A task whose challenge was replaced\<close>

text \<open>Task \<open>i\<close> waits at the challenge \<open>res\<close> and no instance holds its \<open>resolve\<close>.\<close>

definition orphaned :: "nat \<Rightarrow> http_response \<Rightarrow> console \<Rightarrow> bool" where
  "orphaned i res s =
     (i < length (cs_tasks s) \<and> tk_phase (cs_tasks s ! i) = Challenged res
      \<and> (\<forall>m \<in> set (cs_modals s). md_resolver m \<noteq> Some i))"

lemma orphaned_modal:
  "orphaned i res s \<Longrightarrow> md_resolver (f (cs_modals s ! k)) \<noteq> Some i \<Longrightarrow> orphaned i res (upd_modal k f s)"
  using set_update_subset_insert [of "cs_modals s" k "f (cs_modals s ! k)"] by (auto simp: orphaned_def)

lemma orphaned_upd: "orphaned i res s \<Longrightarrow> j \<noteq> i \<Longrightarrow> orphaned i res (upd_task j g s)"
  by (simp add: orphaned_def)

lemma orphaned_start: "orphaned i res s \<Longrightarrow> orphaned i res (start_task ow c s)"
  by (simp add: orphaned_def nth_append)

lemma orphaned_other:
  "orphaned i res s \<Longrightarrow> k < length (cs_modals s) \<Longrightarrow> md_resolver (cs_modals s ! k) \<noteq> Some i"
  by (simp add: orphaned_def)

lemma orphaned_loading: "orphaned i res s \<Longrightarrow> k < length (cs_modals s) \<Longrightarrow> orphaned i res (set_loading k b s)"
  unfolding set_loading_def by (intro orphaned_modal) (simp_all add: orphaned_other)

lemma orphaned_settle:
  assumes "orphaned i res s" "k < length (cs_modals s)"
  shows "orphaned i res (settle parse k ok s)"
proof -
  have "orphaned i res (upd_modal k (\<lambda>m. m\<lparr>md_open := False, md_loading := False, md_resolver := None\<rparr>) s)"
    by (rule orphaned_modal [OF assms(1)]) simp
  with orphaned_other [OF assms] show ?thesis
    by (auto simp: settle_def Let_def intro: orphaned_upd split: option.splits)
qed

lemma orphaned_congs:
  "orphaned i res (s\<lparr>cs_handler := h\<rparr>) = orphaned i res s" "orphaned i res (s\<lparr>cs_prompts := ps\<rparr>) = orphaned i res s"
  "orphaned i res (s\<lparr>cs_modals := cs_modals s @ [initial_modal]\<rparr>) = orphaned i res s"
  by (simp_all add: orphaned_def initial_modal_def)

lemma orphaned_continue:
  assumes "orphaned i res s" "bounds_ok s" "j < length (cs_tasks s)"
  shows "orphaned i res (continue parse j s)"
proof -
  have "k < length (cs_modals s)" if "flow_of (tk_owner (cs_tasks s ! j)) = Some k" for k
    using assms(2) owner_in [OF assms(3)] that by (auto simp: bounds_ok_def)
  with assms(1) show ?thesis
    by (auto simp: continue_def Let_def orphaned_congs
        intro: orphaned_settle orphaned_loading split: cp_phase.splits owner.splits sum.splits)
qed

lemma orphaned_deliver:
  assumes "orphaned i res s" "bounds_ok s" "j < length (cs_tasks s)" "tk_phase (cs_tasks s ! j) = Fetching r"
  shows "orphaned i res (deliver parse j r res' s)"
proof -
  have ji: "j \<noteq> i" using assms(1,4) by (auto simp: orphaned_def)
  then have a: "orphaned i res (answered j res' out s)" for out
    unfolding answered_def by (rule orphaned_upd [OF assms(1)])
  have len: "j < length (cs_tasks (answered j res' out s))" for out
    using assms(3) by (simp add: answered_def)
  show ?thesis
  proof (cases rule: deliver_cases [of parse j r res' s])
    case going_on
    then show ?thesis using orphaned_continue [OF a _ len] assms(2) by simp
  next
    case (dialogue k n)
    then show ?thesis using ji by (simp add: stepUpHandler_def orphaned_modal [OF a])
  qed
qed

lemma orphaned_submit:
  assumes "orphaned i res s" "k < length (cs_modals s)"
  shows "orphaned i res (submitTotp k s)" "orphaned i res (submitWebauthn k a s)"
  using assms by (auto simp: submitTotp_def submitWebauthn_def Let_def intro!: orphaned_start orphaned_loading)

interpretation orphan: console_stable parse "\<lambda>s. bounds_ok s \<and> orphaned i res s" for parse i res
proof
  fix s e t
  assume inv: "bounds_ok s \<and> orphaned i res s" and step: "react parse s e = Some t"
  then have "bounds_ok t" using bounds.kept by blast
  moreover have "orphaned i res t"
  proof (cases e)
    case (Reply j x)
    with inv step show ?thesis
      by (auto simp: react_def split: if_splits cp_phase.splits intro: orphaned_deliver)
  next
    case (NetworkError j)
    have "bounds_ok (upd_task j (\<lambda>t. t\<lparr>tk_phase := Failed TypeError\<rparr>) s)"
      using inv by (simp add: bounds_ok_def)
    moreover have "orphaned i res (upd_task j (\<lambda>t. t\<lparr>tk_phase := Failed TypeError\<rparr>) s)"
      using inv step NetworkError
      by (intro orphaned_upd) (auto simp: react_def orphaned_def split: if_splits)
    ultimately show ?thesis
      using step NetworkError
      by (auto simp: react_def split: if_splits cp_phase.splits intro: orphaned_continue)
  next
    case (NotAuthenticated j)
    with inv step bounds_ok_prompt [of s j] show ?thesis
      by (auto simp: react_def orphaned_congs split: if_splits intro!: orphaned_loading)
  next
    case (Typing input)
    with inv step show ?thesis
      by (auto simp: react_def shown_in_Some orphaned_other bounds_ok_shown split: if_splits option.splits intro!: orphaned_modal)
  qed (use inv step in \<open>auto simp: react_def orphaned_congs shown_in_Some bounds_ok_shown
      split: if_splits option.splits intro!: orphaned_settle orphaned_start orphaned_submit\<close>)
  ultimately show "bounds_ok t \<and> orphaned i res t" ..
qed

text \<open>A challenge that arrives while the dialogue is open takes the place of the one before.\<close>

lemma deliver_orphans:
  assumes inv: "dialogue_ok s" and shown: "shown s = Some k" and i: "md_resolver (cs_modals s ! k) = Some i"
    and res: "tk_phase (cs_tasks s ! i) = Challenged res"
    and j: "j < length (cs_tasks s)" "tk_phase (cs_tasks s ! j) = Fetching r"
    and out: "cp_receive parse True (tk_call (cs_tasks s ! j)) r res' = CpStepUp n"
  shows "orphaned i res (deliver parse j r res' s)"
proof -
  have k: "cs_handler s = Some k" "k < length (cs_modals s)"
    using inv shown by (auto simp: shown_Some dialogue_ok_def bounds_ok_def)
  have ij: "i \<noteq> j" using res j(2) by auto
  have il: "i < length (cs_tasks s)"
    using inv k(2) i nth_mem [OF k(2)] by (auto simp: dialogue_ok_def dialogs_ok_def modal_ok_def split: option.splits)
  have "md_resolver (cs_modals s ! l) \<noteq> Some i" if "l < length (cs_modals s)" "l \<noteq> k" for l
    using inv that k(2) i by (auto simp: dialogue_ok_def dialogs_ok_def apart_def)
  then have "\<forall>m \<in> set (cs_modals (deliver parse j r res' s)). md_resolver m \<noteq> Some i"
    using k out ij by (auto simp: deliver_def stepUpHandler_def in_set_conv_nth nth_upd split: if_splits)
  moreover have "cs_tasks (deliver parse j r res' s) ! i = cs_tasks s ! i"
    using k out ij by (simp add: deliver_def stepUpHandler_def answered_def)
  moreover have "length (cs_tasks (deliver parse j r res' s)) = length (cs_tasks s)"
    using k out by (simp add: deliver_def stepUpHandler_def answered_def)
  ultimately show ?thesis using il res by (simp add: orphaned_def)
qed

end
