(* ===== verification/Step_Up_Rules.thy ===== *)
theory Step_Up_Rules
  imports Step_Up
begin

text \<open>
  What the step-up dialogue promises to the pages that call the control plane, over every
  interleaving of \<open>Step_Up\<close>: no error is taken for a success and a request is repeated at most once;
  the dialogue is open exactly while a task waits for it; an open dialogue can be ended. Two
  challenges at a time break the last promise, and the pages that need the dialogue do not mount it.
\<close>

section \<open>Orderly runs\<close>

text \<open>
  A run in which no challenge arrives and the dialogue is not unmounted while it is open.
\<close>

definition opens :: "(string \<Rightarrow> jsval option) \<Rightarrow> console \<Rightarrow> event \<Rightarrow> bool" where
  "opens parse s e =
     (case e of
        Reply i res \<Rightarrow>
          (case tk_phase (cs_tasks s ! i) of
             Fetching r \<Rightarrow>
               (case cp_receive parse (cs_handler s \<noteq> None) (tk_call (cs_tasks s ! i)) r res of
                  CpStepUp n \<Rightarrow> True | _ \<Rightarrow> False)
           | _ \<Rightarrow> False)
      | Unmount \<Rightarrow> True
      | _ \<Rightarrow> False)"

inductive orderly :: "(string \<Rightarrow> jsval option) \<Rightarrow> console \<Rightarrow> bool" for parse where
  start: "orderly parse initial_console"
| turn: "orderly parse s \<Longrightarrow> react parse s e = Some t \<Longrightarrow> (opens parse s e \<Longrightarrow> shown s = None) \<Longrightarrow> orderly parse t"

lemma orderly_reachable: "orderly parse s \<Longrightarrow> reachable parse s"
  by (induction rule: orderly.induct) (auto intro: reachable.intros)

text \<open>Every waiting task is the one the visible dialogue will answer.\<close>

definition served :: "console \<Rightarrow> bool" where
  "served s =
     (\<forall>i < length (cs_tasks s). challenged (cs_tasks s ! i) \<longrightarrow>
        (\<exists>k. shown s = Some k \<and> md_resolver (cs_modals s ! k) = Some i))"

lemma servedD:
  "served s \<Longrightarrow> i < length (cs_tasks s) \<Longrightarrow> challenged (cs_tasks s ! i) \<Longrightarrow>
     \<exists>k. shown s = Some k \<and> md_resolver (cs_modals s ! k) = Some i"
  by (simp add: served_def)

lemma served_modal:
  assumes "served s" "cs_tasks t = cs_tasks s" "cs_handler t = cs_handler s" "length (cs_modals t) = length (cs_modals s)"
    and "\<And>k. k < length (cs_modals s) \<Longrightarrow> md_open (cs_modals t ! k) = md_open (cs_modals s ! k)
           \<and> md_resolver (cs_modals t ! k) = md_resolver (cs_modals s ! k)"
    and "bounds_ok s"
  shows "served t"
  unfolding served_def
proof (intro allI impI)
  fix i assume "i < length (cs_tasks t)" "challenged (cs_tasks t ! i)"
  with assms(1,2) obtain k where k: "shown s = Some k" "md_resolver (cs_modals s ! k) = Some i"
    using servedD by auto
  moreover have "k < length (cs_modals s)" by (rule bounds_ok_shown [OF assms(6) k(1)])
  ultimately show "\<exists>k. shown t = Some k \<and> md_resolver (cs_modals t ! k) = Some i"
    using assms(3,5) by (auto simp: shown_Some)
qed

lemma served_loading: "served s \<Longrightarrow> bounds_ok s \<Longrightarrow> served (set_loading k b s)"
  by (rule served_modal) (auto simp: nth_upd)

lemma served_code: "served s \<Longrightarrow> bounds_ok s \<Longrightarrow> served (upd_modal k (\<lambda>m. m\<lparr>md_code := c\<rparr>) s)"
  by (rule served_modal) (auto simp: nth_upd)

lemma served_start: "served s \<Longrightarrow> served (start_task ow c s)"
  by (auto simp: served_def nth_append less_Suc_eq shown_Some)

lemma served_upd: "served s \<Longrightarrow> (\<And>t. \<not> challenged (g t)) \<Longrightarrow> served (upd_task i g s)"
  by (auto simp: served_def nth_upd shown_Some split: if_splits)

lemma challenged_resume: "challenged (task_resume parse ok t) \<Longrightarrow> False"
  by (auto simp: challenged_def task_resume_def split: cp_phase.splits if_splits)

lemma served_settle:
  assumes "served s" "dialogue_ok s"
  shows "served (settle parse k ok s)"
  unfolding served_def
proof (intro allI impI)
  let ?t = "settle parse k ok s"
  fix i assume i: "i < length (cs_tasks ?t)" "challenged (cs_tasks ?t ! i)"
  then have other: "md_resolver (cs_modals s ! k) \<noteq> Some i"
    using challenged_resume by auto
  with i have "i < length (cs_tasks s)" "challenged (cs_tasks s ! i)"
    by (auto split: option.splits)
  with servedD [OF assms(1)] obtain l where l: "shown s = Some l" "md_resolver (cs_modals s ! l) = Some i"
    by blast
  with other have "l \<noteq> k" by auto
  with l show "\<exists>k. shown ?t = Some k \<and> md_resolver (cs_modals ?t ! k) = Some i"
    by (auto simp: shown_Some)
qed

lemma served_congs: "served (s\<lparr>cs_prompts := ps\<rparr>) = served s"
  by (simp add: served_def shown_Some)

lemma served_continue:
  assumes "served s" "dialogue_ok s"
  shows "served (continue parse i s)"
proof -
  have "served (set_loading k b s)" for k b
    using assms by (simp add: served_loading dialogue_ok_def)
  then show ?thesis
    using assms served_settle [OF assms]
    by (auto simp: continue_def Let_def served_congs split: cp_phase.splits owner.splits sum.splits)
qed

lemma served_deliver:
  assumes "served s" "dialogue_ok s" "i < length (cs_tasks s)" "tk_phase (cs_tasks s ! i) = Fetching r"
    and "opens parse s (Reply i res) \<Longrightarrow> shown s = None"
  shows "served (deliver parse i r res s)"
proof (cases rule: deliver_cases [of parse i r res s])
  case going_on
  let ?out = "cp_receive parse (cs_handler s \<noteq> None) (tk_call (cs_tasks s ! i)) r res"
  have "\<not> challenged (t\<lparr>tk_phase := outcome_phase res ?out, tk_replies := rs\<rparr>)" for t :: cp_task and rs
    using going_on(2) by (auto simp: challenged_def outcome_phase_def split: cp_outcome.splits)
  then have "served (answered i res ?out s)"
    unfolding answered_def by (intro served_upd assms(1))
  moreover have "dialogue_ok (answered i res ?out s)"
    unfolding answered_def using assms by (intro dialogue_ok_upd) simp_all
  ultimately show ?thesis using going_on(1) by (simp add: served_continue)
next
  case (dialogue k n)
  have "k < length (cs_modals s)" using assms(2) dialogue(1) by (simp add: dialogue_ok_def bounds_ok_def)
  moreover have "shown s = None" using dialogue assms by (simp add: opens_def)
  then have "\<not> challenged (cs_tasks s ! j)" if "j < length (cs_tasks s)" for j
    using servedD [OF assms(1) that] by auto
  ultimately show ?thesis
    using dialogue
    by (auto simp: served_def answered_def stepUpHandler_def nth_upd shown_Some split: if_splits)
qed

lemma served_submit:
  assumes "served s" "bounds_ok s"
  shows "served (submitTotp k s)" "served (submitWebauthn k a s)"
  using assms by (auto simp: submitTotp_def submitWebauthn_def Let_def intro!: served_start served_loading)

lemma served_turn:
  assumes "served s" "dialogue_ok s" "react parse s e = Some t" "opens parse s e \<Longrightarrow> shown s = None"
  shows "served t"
proof -
  have b: "bounds_ok s" using assms(2) by (simp add: dialogue_ok_def)
  show ?thesis
  proof (cases e)
    case Mount
    then have "cs_handler s = None" using assms(3) by (auto simp: react_def split: if_splits)
    then have "shown s = None" by (simp add: shown_def)
    then have "\<not> challenged (cs_tasks s ! j)" if "j < length (cs_tasks s)" for j
      using servedD [OF assms(1) that] by auto
    with Mount assms(3) show ?thesis by (auto simp: react_def served_def split: if_splits)
  next
    case Unmount
    then have "shown s = None" using assms(4) by (simp add: opens_def)
    then have "\<not> challenged (cs_tasks s ! j)" if "j < length (cs_tasks s)" for j
      using servedD [OF assms(1) that] by auto
    with Unmount assms(3) show ?thesis by (auto simp: react_def served_def split: if_splits)
  next
    case (Reply i res)
    with assms show ?thesis
      by (auto simp: react_def split: if_splits cp_phase.splits intro: served_deliver)
  next
    case (NetworkError i)
    have "dialogue_ok (upd_task i (\<lambda>t. t\<lparr>tk_phase := Failed TypeError\<rparr>) s)"
      if "tk_phase (cs_tasks s ! i) = Fetching r" for r
      using that assms(2) by (intro dialogue_ok_upd) simp_all
    with NetworkError assms show ?thesis
      by (auto simp: react_def split: if_splits cp_phase.splits intro!: served_continue served_upd)
  qed (use assms b in \<open>auto simp: react_def served_congs served_submit served_code
      split: if_splits option.splits intro!: served_settle served_start served_loading bounds_ok_remove\<close>)
qed

lemma orderly_served: "orderly parse s \<Longrightarrow> served s"
proof (induction rule: orderly.induct)
  case start
  show ?case by (simp add: served_def initial_console_def)
next
  case (turn s e t)
  then have "dialogue_ok s" using dialogue.reachable_inv orderly_reachable by blast
  with turn show ?case by (blast intro: served_turn)
qed

section \<open>Where the dialogue is mounted\<close>

text \<open>\<open>App.renderPage\<close> renders the dialogue on the door pages only.\<close>

definition isEntryPages :: "string \<Rightarrow> bool" where
  "isEntryPages pathname =
     list_ex (js_startsWith pathname)
       [''/signup'', ''/login'', ''/forget'', ''/prompt'', ''/result'', ''/cas'', ''/select-plan'',
        ''/buy-plan'', ''/qrcode'', ''/consent'', ''/captcha'']"

definition isDoorPages :: "string \<Rightarrow> bool" where
  "isDoorPages pathname =
     (isEntryPages pathname \<or> js_startsWith pathname ''/callback'' \<or> js_startsWith pathname ''/telegram-login'')"

text \<open>The routes of \<open>ManagementPage\<close> whose pages call the control plane.\<close>

definition control_plane_routes :: "string list" where
  "control_plane_routes =
     [''/grants'', ''/breakglass/request'', ''/breakglass/queue'', ''/access-review'',
      ''/access-management'', ''/audit'', ''/health'']"

section \<open>Runs for the examples\<close>

definition answer :: "nat \<Rightarrow> string option \<Rightarrow> http_response" where
  "answer st wa = \<lparr>rs_status = st, rs_authenticate = wa, rs_text = []\<rparr>"

definition challenge_answer :: http_response where
  "challenge_answer = answer 401 (Some insufficient)"

definition no_json :: "string \<Rightarrow> jsval option" where
  "no_json = (\<lambda>_. None)"

definition one_challenge :: console where
  "one_challenge = the (run no_json initial_console [Mount, Call getGrants, Reply 0 challenge_answer])"

definition two_calls :: console where
  "two_calls = the (run no_json initial_console [Mount, Call getGrants, Call getAssets, Reply 0 challenge_answer])"

lemma one_challenge_run:
  "run no_json initial_console [Mount, Call getGrants, Reply 0 challenge_answer] = Some one_challenge"
proof -
  have "run no_json initial_console [Mount, Call getGrants, Reply 0 challenge_answer] \<noteq> None" by code_simp
  then show ?thesis by (auto simp: one_challenge_def)
qed

lemma two_calls_run:
  "run no_json initial_console [Mount, Call getGrants, Call getAssets, Reply 0 challenge_answer] = Some two_calls"
proof -
  have "run no_json initial_console [Mount, Call getGrants, Call getAssets, Reply 0 challenge_answer] \<noteq> None"
    by code_simp
  then show ?thesis by (auto simp: two_calls_def)
qed

lemmas example_reachable =
  run_reachable [OF reachable.start one_challenge_run] run_reachable [OF reachable.start two_calls_run]

section \<open>Properties\<close>

text \<open>
  C3. Fail closed, and at most one repetition. In every state of the console every call of
  \<open>cpRequest\<close> has been answered at most twice; the second answer is to the repetition after a step-up
  challenge (a 401 with \<open>insufficient_user_authentication\<close> on a path that is not part of the step-up);
  a call that resolved did so with the body of a last answer of status 2xx, and one that was
  rejected carries the error of a last answer that was not.
\<close>

theorem step_up_fail_closed:
  assumes "reachable parse s" "t \<in> set (cs_tasks s)"
  shows "length (tk_replies t) \<le> 2
    \<and> (length (tk_replies t) = 2 \<longrightarrow> challenge parse (tk_call t) (hd (tk_replies t)))
    \<and> (\<forall>v. tk_phase t = Resolved v \<longrightarrow>
         http_ok (last (tk_replies t)) \<and> v = parsed_body parse (last (tk_replies t)))
    \<and> (\<forall>e. tk_phase t = Rejected e \<longrightarrow>
         \<not> http_ok (last (tk_replies t)) \<and> e = cp_failure (last (tk_replies t)) (parsed_body parse (last (tk_replies t))))"
proof -
  have t: "task_ok parse t"
    using tasks.reachable_inv [OF assms(1)] assms(2) by (simp add: tasks_ok_def list_all_iff)
  then have "history_ok parse (tk_call t) (tk_replies t)" by (simp add: task_ok_def)
  then have "length (tk_replies t) \<le> 2 \<and> (length (tk_replies t) = 2 \<longrightarrow> challenge parse (tk_call t) (hd (tk_replies t)))"
    by (auto simp: history_ok_def split: list.splits)
  with t show ?thesis by (auto simp: task_ok_def)
qed

theorem step_up_fail_closed_witness:
  "length (tk_replies (cs_tasks one_challenge ! 0)) \<le> 2"
proof -
  have "cs_tasks one_challenge ! 0 \<in> set (cs_tasks one_challenge)" by code_simp
  from step_up_fail_closed [OF example_reachable(1) this] show ?thesis by blast
qed

text \<open>
  C14. The dialogue is open exactly while it owes an answer. In every state, the mounted dialogue is
  open if and only if it holds the \<open>resolve\<close> of a call that waits at its challenge.
\<close>

theorem dialogue_open_iff_waiting:
  assumes "reachable parse s" "cs_handler s = Some k"
  shows "md_open (cs_modals s ! k) \<longleftrightarrow>
    (\<exists>i < length (cs_tasks s). md_resolver (cs_modals s ! k) = Some i \<and> challenged (cs_tasks s ! i))"
proof -
  have inv: "dialogue_ok s" by (rule dialogue.reachable_inv [OF assms(1)])
  then have "k < length (cs_modals s)" using assms(2) by (simp add: dialogue_ok_def bounds_ok_def)
  with inv have "modal_ok (cs_tasks s) (cs_modals s ! k)" by (simp add: dialogue_ok_def dialogs_ok_def)
  then show ?thesis by (auto simp: modal_ok_def split: option.splits)
qed

theorem dialogue_open_iff_waiting_witness:
  "md_open (cs_modals one_challenge ! 0) \<longleftrightarrow>
    (\<exists>i < length (cs_tasks one_challenge). md_resolver (cs_modals one_challenge ! 0) = Some i
       \<and> challenged (cs_tasks one_challenge ! i))"
proof -
  have "cs_handler one_challenge = Some 0" by code_simp
  from dialogue_open_iff_waiting [OF example_reachable(1) this] show ?thesis .
qed

text \<open>
  C15. When challenges come one at a time (none arrives, and the dialogue is not unmounted, while it is
  open), a waiting call is never stuck: the dialogue is on the screen for it, and cancelling ends the
  call with the error of its challenge and closes the dialogue.
\<close>

theorem orderly_challenge_can_end:
  assumes "orderly parse s" "i < length (cs_tasks s)" "tk_phase (cs_tasks s ! i) = Challenged res"
  shows "\<exists>t. react parse s Cancel = Some t
    \<and> tk_phase (cs_tasks t ! i) = Rejected (cp_failure res (parsed_body parse res)) \<and> shown t = None"
proof -
  have "challenged (cs_tasks s ! i)" using assms(3) by (simp add: challenged_def)
  then obtain k where k: "shown s = Some k" "md_resolver (cs_modals s ! k) = Some i"
    using servedD [OF orderly_served [OF assms(1)] assms(2)] by blast
  have "bounds_ok s" using bounds.reachable_inv orderly_reachable assms(1) by blast
  then have "k < length (cs_modals s)" by (rule bounds_ok_shown [OF _ k(1)])
  moreover have "cs_handler s = Some k" using k(1) by (simp add: shown_Some)
  ultimately have "shown (settle parse k False s) = None" by (simp add: shown_def)
  with k assms(2,3) show ?thesis by (simp add: react_def task_resume_def)
qed

theorem orderly_challenge_can_end_witness:
  "\<exists>t. react no_json one_challenge Cancel = Some t
    \<and> tk_phase (cs_tasks t ! 0) = Rejected (cp_failure challenge_answer (parsed_body no_json challenge_answer))
    \<and> shown t = None"
proof -
  let ?s1 = "the (react no_json initial_console Mount)"
  let ?s2 = "the (react no_json ?s1 (Call getGrants))"
  have 1: "react no_json initial_console Mount = Some ?s1" by (simp add: react_def initial_console_def)
  have 2: "react no_json ?s1 (Call getGrants) = Some ?s2" by (simp add: react_def)
  have 3: "react no_json ?s2 (Reply 0 challenge_answer) = Some one_challenge"
    using one_challenge_run 1 2 by (simp split: option.splits)
  have "orderly no_json ?s1" by (rule orderly.turn [OF orderly.start 1]) (simp add: opens_def)
  then have "orderly no_json ?s2" by (rule orderly.turn [OF _ 2]) (simp add: opens_def)
  moreover have "shown ?s2 = None" by code_simp
  ultimately have o: "orderly no_json one_challenge" by (intro orderly.turn [OF _ 3])
  have "0 < length (cs_tasks one_challenge)" by code_simp
  moreover have "tk_phase (cs_tasks one_challenge ! 0) = Challenged challenge_answer" by code_simp
  ultimately show ?thesis by (rule orderly_challenge_can_end [OF o])
qed

text \<open>
  C16. A second challenge loses the first. When a challenge arrives while the dialogue is open for
  another call, \<open>resolverRef\<close> is overwritten: whatever happens from then on, the first call stays at
  its challenge and neither resolves nor is rejected.
\<close>

theorem second_challenge_hangs:
  assumes "reachable parse s" "shown s = Some k" "md_resolver (cs_modals s ! k) = Some i"
    and "tk_phase (cs_tasks s ! i) = Challenged res"
    and "j < length (cs_tasks s)" "tk_phase (cs_tasks s ! j) = Fetching r"
    and "cp_receive parse True (tk_call (cs_tasks s ! j)) r res' = CpStepUp n"
    and "react parse s (Reply j res') = Some t" "later parse t u"
  shows "i < length (cs_tasks u) \<and> tk_phase (cs_tasks u ! i) = Challenged res"
proof -
  have t: "t = deliver parse j r res' s" using assms(5,6,8) by (simp add: react_def)
  have "orphaned i res t"
    unfolding t by (rule deliver_orphans [OF dialogue.reachable_inv [OF assms(1)] assms(2-7)])
  moreover have "bounds_ok t"
    using bounds.reachable_inv reachable.turn [OF assms(1,8)] by blast
  ultimately have "orphaned i res u"
    using orphan.later_inv [OF assms(9), of i res] by blast
  then show ?thesis by (simp add: orphaned_def)
qed

theorem second_challenge_hangs_witness:
  "\<exists>t. react no_json two_calls (Reply 1 challenge_answer) = Some t
     \<and> tk_phase (cs_tasks t ! 0) = Challenged challenge_answer"
proof -
  have 1: "shown two_calls = Some 0" by code_simp
  have 2: "md_resolver (cs_modals two_calls ! 0) = Some 0" by code_simp
  have 3: "tk_phase (cs_tasks two_calls ! 0) = Challenged challenge_answer" by code_simp
  have 4: "1 < length (cs_tasks two_calls)" by code_simp
  have 5: "tk_phase (cs_tasks two_calls ! 1) = Fetching False" by code_simp
  have 6: "cp_receive no_json True (tk_call (cs_tasks two_calls ! 1)) False challenge_answer = CpStepUp False"
    by code_simp
  have "react no_json two_calls (Reply 1 challenge_answer) \<noteq> None" by code_simp
  then obtain t where t: "react no_json two_calls (Reply 1 challenge_answer) = Some t" by blast
  from second_challenge_hangs [OF example_reachable(2) 1 2 3 4 5 6 t later.now] t show ?thesis by blast
qed



end
