(* ===== verification/Control_Pages.thy ===== *)
theory Control_Pages
  imports Control_Plane
begin

text \<open>
  The pages of the control plane: grants (\<open>web/src/GrantsPage.js\<close>), break-glass requests and their
  queue (\<open>BreakglassRequestPage.js\<close>, \<open>BreakglassQueuePage.js\<close>), the audit trail (\<open>AuditPage.js\<close>), access
  review (\<open>AccessReviewPage.js\<close>), subsystem health (\<open>SubsystemHealthPage.js\<close>) and the tenant switch
  (\<open>common/select/TenantSelect.js\<close>). Modelled are their states, handlers and what decides between the
  alternatives they render; captions stand for the elements that carry them.

  A promise of the client settles with a value or an error; an error that is not a
  \<open>ControlPlaneError\<close> has neither status nor body.
\<close>

datatype settled = Fulfilled jsval | Denied cp_error | Broken string

definition err_status_is :: "settled \<Rightarrow> nat \<Rightarrow> bool" where
  "err_status_is r n = (case r of Denied e \<Rightarrow> err_status e = n | _ \<Rightarrow> False)"

definition err_text :: "settled \<Rightarrow> string \<Rightarrow> string" where
  "err_text r other =
     (case r of
        Denied e \<Rightarrow> if err_message e \<noteq> [] then err_message e else other
      | Broken m \<Rightarrow> if m \<noteq> [] then m else other
      | Fulfilled v \<Rightarrow> other)"

text \<open>How a call that is not repeated settles, by the answer it gets.\<close>

definition settle_call :: "(string \<Rightarrow> jsval option) \<Rightarrow> cp_call \<Rightarrow> http_response \<Rightarrow> settled" where
  "settle_call parse c res =
     (case cp_receive parse False c False res of
        CpReturn v \<Rightarrow> Fulfilled v
      | CpThrow e \<Rightarrow> Denied e
      | _ \<Rightarrow> Broken [])"

text \<open>\<open>(res && res[k]) ? res[k] : other\<close>.\<close>

definition field_or :: "jsval \<Rightarrow> string \<Rightarrow> jsval \<Rightarrow> jsval" where
  "field_or res k other = (if js_bool res \<and> js_bool (field res k) then field res k else other)"

section \<open>Grants\<close>

definition formatRemaining :: "int \<Rightarrow> int \<Rightarrow> string \<times> string" where
  "formatRemaining expiresAt nowSec =
     (let secs = expiresAt - nowSec in
      if secs \<le> 0 then (''general:Expired'', ''red'')
      else
        let h = secs div 3600; m = (secs mod 3600) div 60; s = secs mod 60;
            parts = (if h \<noteq> 0 then [show_int h @ ''h''] else [])
              @ (if h \<noteq> 0 \<or> m \<noteq> 0 then [show_int m @ ''m''] else []) @ [show_int s @ ''s''] in
        (js_join '' '' parts, if secs < 300 then ''orange'' else ''green''))"

record grants_page =
  gp_grants :: jsval
  gp_loading :: bool
  gp_revoking :: "jsval option"
  gp_denied :: "nat option"
  gp_messages :: "string list"

definition grants_fetched :: "settled \<Rightarrow> grants_page \<Rightarrow> grants_page" where
  "grants_fetched r s =
     (case r of
        Fulfilled res \<Rightarrow> s\<lparr>gp_grants := field_or res ''grants'' (JArr []), gp_loading := False\<rparr>
      | Denied e \<Rightarrow> s\<lparr>gp_grants := JArr [], gp_loading := False, gp_denied := Some (err_status e)\<rparr>
      | Broken m \<Rightarrow> s\<lparr>gp_grants := JArr [], gp_loading := False, gp_denied := None\<rparr>)"

definition grants_revoke :: "jsval \<Rightarrow> grants_page \<Rightarrow> cp_call \<times> grants_page" where
  "grants_revoke grantId s = (revokeGrant grantId, s\<lparr>gp_revoking := Some grantId\<rparr>)"

text \<open>The second component tells whether the list is fetched again.\<close>

definition grants_revoked :: "settled \<Rightarrow> grants_page \<Rightarrow> grants_page \<times> bool" where
  "grants_revoked r s =
     (case r of
        Fulfilled v \<Rightarrow> (s\<lparr>gp_revoking := None, gp_messages := gp_messages s @ [''general:Grant revoked'']\<rparr>, True)
      | _ \<Rightarrow>
         (s\<lparr>gp_revoking := None, gp_messages := gp_messages s @
             [if err_status_is r 403 then ''general:You are not allowed to revoke this grant''
              else err_text r ''general:Could not revoke the grant'']\<rparr>, False))"

section \<open>Break-glass\<close>

definition em_dash :: string where
  "em_dash = [CHR 0xE2, CHR 0x80, CHR 0x94]"

record breakglass_form =
  bg_targetType :: string
  bg_targetId :: string
  bg_targetScope :: string
  bg_justification :: string
  bg_incidentRef :: string
  bg_durationHours :: int
  bg_submitting :: bool
  bg_messages :: "string list"

definition canSubmit :: "breakglass_form \<Rightarrow> bool" where
  "canSubmit s =
     (js_trim (bg_targetType s) \<noteq> [] \<and> js_trim (bg_targetId s) \<noteq> []
      \<and> js_trim (bg_justification s) \<noteq> [] \<and> js_trim (bg_incidentRef s) \<noteq> [])"

definition breakglass_submit :: "int \<Rightarrow> breakglass_form \<Rightarrow> cp_call option \<times> breakglass_form" where
  "breakglass_submit nowSec s =
     (if \<not> canSubmit s
      then (None, s\<lparr>bg_messages := bg_messages s @ [''general:Fill target, justification and incident'']\<rparr>)
      else
        (Some (requestBreakglass (JObj
          [(''target_type'', JStr (js_trim (bg_targetType s))), (''target_id'', JStr (js_trim (bg_targetId s))),
           (''target_scope'', JStr (js_trim (bg_targetScope s))),
           (''justification'', JStr (js_trim (bg_justification s))),
           (''incident_ref'', JStr (js_trim (bg_incidentRef s))),
           (''expires_at'', JNum (nowSec + bg_durationHours s * 3600))])),
         s\<lparr>bg_submitting := True\<rparr>))"

definition breakglass_submitted :: "settled \<Rightarrow> breakglass_form \<Rightarrow> breakglass_form" where
  "breakglass_submitted r s =
     (case r of
        Fulfilled v \<Rightarrow>
          s\<lparr>bg_submitting := False, bg_justification := [], bg_incidentRef := [], bg_targetId := [],
            bg_targetScope := [],
            bg_messages := bg_messages s @ [''general:Break-glass requested '' @ em_dash @ '' pending approval'']\<rparr>
      | _ \<Rightarrow>
          s\<lparr>bg_submitting := False, bg_messages := bg_messages s @
            [if err_status_is r 503 then ''general:No notification channel '' @ em_dash @ '' request denied (fail-closed)''
             else err_text r ''general:Could not request break-glass'']\<rparr>)"

definition approval_message :: "settled \<Rightarrow> string" where
  "approval_message r =
     (if err_status_is r 403 then ''general:You cannot approve your own request''
      else if err_status_is r 409 then err_text r ''general:Already approved or no longer pending''
      else err_text r ''general:Could not record the approval'')"

section \<open>Subsystem health\<close>

text \<open>
  \<open>SEVERITY[status]\<close> also finds what the object inherits; such a value is not a number and every
  comparison with it is false.
\<close>

definition object_prototype :: "string list" where
  "object_prototype =
     [''constructor'', ''hasOwnProperty'', ''isPrototypeOf'', ''propertyIsEnumerable'', ''toLocaleString'',
      ''toString'', ''valueOf'', ''__proto__'', ''__defineGetter__'', ''__defineSetter__'', ''__lookupGetter__'',
      ''__lookupSetter__'']"

definition severity :: "jsval \<Rightarrow> nat option" where
  "severity status =
     (let k = js_text status in
      if k = ''ok'' then Some 0 else if k = ''degraded'' then Some 1 else if k = ''unavailable'' then Some 2
      else if k \<in> set object_prototype then None else Some 2)"

definition more_severe :: "jsval \<Rightarrow> jsval \<Rightarrow> bool" where
  "more_severe a b = (case (severity a, severity b) of (Some m, Some n) \<Rightarrow> m > n | _ \<Rightarrow> False)"

fun worst_loop :: "jsval \<Rightarrow> jsval list \<Rightarrow> jsval result" where
  "worst_loop worst [] = Return worst"
| "worst_loop worst (s # ss) =
     bind_result (js_get s ''status'') (\<lambda>st. worst_loop (if more_severe st worst then st else worst) ss)"

definition worstOf :: "jsval \<Rightarrow> jsval list \<Rightarrow> jsval result" where
  "worstOf aggregate subsystems =
     worst_loop (if js_bool aggregate then aggregate else JStr ''unavailable'') subsystems"

definition statusColor :: "jsval \<Rightarrow> string" where
  "statusColor status =
     (if status = JStr ''ok'' then ''green'' else if status = JStr ''degraded'' then ''orange'' else ''red'')"

record health_page =
  hp_subsystems :: "jsval list"
  hp_aggregate :: jsval
  hp_loading :: bool
  hp_error :: bool

definition initial_health :: health_page where
  "initial_health = \<lparr>hp_subsystems = [], hp_aggregate = JStr ''unknown'', hp_loading = True, hp_error = False\<rparr>"

definition health_fetch :: "health_page \<Rightarrow> health_page" where
  "health_fetch s = s\<lparr>hp_loading := True, hp_error := False\<rparr>"

definition health_fetched :: "settled \<Rightarrow> health_page \<Rightarrow> health_page" where
  "health_fetched r s =
     (case r of
        Fulfilled res \<Rightarrow>
          s\<lparr>hp_subsystems := (if js_bool res then (case field res ''subsystems'' of JArr xs \<Rightarrow> xs | _ \<Rightarrow> []) else []),
            hp_aggregate := field_or res ''status'' (JStr ''unavailable''), hp_loading := False\<rparr>
      | _ \<Rightarrow> s\<lparr>hp_subsystems := [], hp_aggregate := JStr ''unavailable'', hp_loading := False, hp_error := True\<rparr>)"

datatype banner = Success | Warning | Error

definition health_banner :: "health_page \<Rightarrow> banner result" where
  "health_banner s =
     bind_result (worstOf (hp_aggregate s) (hp_subsystems s)) (\<lambda>overall.
       Return (if overall = JStr ''ok'' then Success else if overall = JStr ''degraded'' then Warning else Error))"

section \<open>The audit trail\<close>

text \<open>\<open>{status: tag, ...res}\<close>: the properties of \<open>res\<close> come after and replace.\<close>

definition spread :: "string \<Rightarrow> jsval \<Rightarrow> jsval" where
  "spread tag res =
     JObj (fold (\<lambda>(k, v). AList.update k v) (case res of JObj ps \<Rightarrow> ps | _ \<Rightarrow> []) [(''status'', JStr tag)])"

record audit_page =
  au_events :: jsval
  au_loading :: bool
  au_limit :: int
  au_filter :: string
  au_integrity :: jsval
  au_verifying :: bool

definition initial_audit :: audit_page where
  "initial_audit = \<lparr>au_events = JArr [], au_loading = True, au_limit = 50, au_filter = [],
     au_integrity = JObj [(''status'', JStr ''unknown'')], au_verifying = False\<rparr>"

definition audit_fetched :: "settled \<Rightarrow> audit_page \<Rightarrow> audit_page" where
  "audit_fetched r s =
     (case r of
        Fulfilled res \<Rightarrow> s\<lparr>au_events := field_or res ''events'' (JArr []), au_loading := False\<rparr>
      | _ \<Rightarrow> s\<lparr>au_events := JArr [], au_loading := False\<rparr>)"

definition audit_verify :: "audit_page \<Rightarrow> audit_page" where
  "audit_verify s = s\<lparr>au_verifying := True\<rparr>"

definition audit_verified :: "settled \<Rightarrow> audit_page \<Rightarrow> audit_page" where
  "audit_verified r s =
     (case r of
        Fulfilled res \<Rightarrow> s\<lparr>au_verifying := False, au_integrity := spread ''intact'' res\<rparr>
      | Denied e \<Rightarrow>
          (if err_status e = 409 \<and> js_bool (err_body e)
           then s\<lparr>au_verifying := False, au_integrity := spread ''divergence'' (err_body e)\<rparr>
           else s\<lparr>au_verifying := False\<rparr>)
      | Broken m \<Rightarrow> s\<lparr>au_verifying := False\<rparr>)"

definition audit_indicator :: "audit_page \<Rightarrow> banner option" where
  "audit_indicator s =
     (let status = field (au_integrity s) ''status'' in
      if status = JStr ''divergence'' then Some Error
      else if status = JStr ''intact'' then Some Success else None)"

definition outcomeColor :: "string option \<Rightarrow> string" where
  "outcomeColor outcome =
     (let t = js_lower (js_or outcome []) in
      if js_includes t ''deny'' \<or> js_includes t ''denied'' then ''orange''
      else if js_includes t ''fail'' then ''red''
      else if js_includes t ''allow'' then ''green'' else ''default'')"

section \<open>Access review\<close>

text \<open>\<open>rv_flight\<close> are the reviews that wait for their answer, by asset.\<close>

record review_page =
  rv_assets :: jsval
  rv_assetId :: "string option"
  rv_entries :: jsval
  rv_loading :: bool
  rv_pdpError :: bool
  rv_loadedFor :: "string option"
  rv_flight :: "string list"

definition initial_review :: review_page where
  "initial_review = \<lparr>rv_assets = JArr [], rv_assetId = None, rv_entries = JArr [], rv_loading = False,
     rv_pdpError = False, rv_loadedFor = None, rv_flight = []\<rparr>"

definition review :: "string \<Rightarrow> review_page \<Rightarrow> review_page" where
  "review assetId s =
     s\<lparr>rv_assetId := Some assetId, rv_loading := True, rv_pdpError := False, rv_flight := rv_flight s @ [assetId]\<rparr>"

definition reviewed :: "nat \<Rightarrow> settled \<Rightarrow> review_page \<Rightarrow> review_page" where
  "reviewed j r s =
     (let assetId = rv_flight s ! j;
          s' = s\<lparr>rv_flight := take j (rv_flight s) @ drop (Suc j) (rv_flight s)\<rparr> in
      case r of
        Fulfilled res \<Rightarrow>
          s'\<lparr>rv_entries := field_or res ''entries'' (JArr []), rv_loading := False, rv_loadedFor := Some assetId\<rparr>
      | _ \<Rightarrow>
          s'\<lparr>rv_entries := JArr [], rv_loading := False, rv_pdpError := err_status_is r 503,
             rv_loadedFor := Some assetId\<rparr>)"

definition entries_empty :: "jsval \<Rightarrow> bool" where
  "entries_empty v = (case v of JArr xs \<Rightarrow> xs = [] | JStr t \<Rightarrow> t = [] | _ \<Rightarrow> field v ''length'' = JNum 0)"

text \<open>The page says that nobody has access to the asset.\<close>

definition shows_no_access :: "review_page \<Rightarrow> bool" where
  "shows_no_access s =
     (js_truthy (rv_loadedFor s) \<and> \<not> rv_pdpError s \<and> entries_empty (rv_entries s) \<and> \<not> rv_loading s)"

section \<open>The tenant switch\<close>

definition switch_message :: "settled \<Rightarrow> string" where
  "switch_message r =
     (case r of
        Fulfilled v \<Rightarrow> ''general:Tenant switched''
      | _ \<Rightarrow> if err_status_is r 401 then ''general:Step-up required to switch tenant''
             else if err_status_is r 403 then ''general:Not a member of the target tenant''
             else ''general:Failed to switch tenant'')"

section \<open>Lemmas\<close>

lemma settle_call_cases:
  "settle_call parse c res =
     (if http_ok res then Fulfilled (parsed_body parse res) else Denied (cp_failure res (parsed_body parse res)))"
  by (simp add: settle_call_def cp_receive_def Let_def)

lemma cp_failure_simps [simp]:
  "err_status (cp_failure res v) = rs_status res" "err_body (cp_failure res v) = v"
  by (simp_all add: cp_failure_def ControlPlaneError_def Let_def)

text \<open>The remaining time is what the text says, and it is orange in the last five minutes.\<close>

lemma formatRemaining_parts:
  assumes "0 < e - n"
  defines "h \<equiv> (e - n) div 3600" and "m \<equiv> ((e - n) mod 3600) div 60" and "s \<equiv> (e - n) mod 60"
  shows "h * 3600 + m * 60 + s = e - n \<and> 0 \<le> m \<and> m < 60 \<and> 0 \<le> s \<and> s < 60
    \<and> snd (formatRemaining e n) = (if e - n < 300 then ''orange'' else ''green'')"
proof -
  have s: "s = ((e - n) mod 3600) mod 60" unfolding s_def by (simp add: mod_mod_cancel)
  have "m * 60 + s = (e - n) mod 3600" unfolding m_def s by (rule div_mult_mod_eq)
  moreover have "h * 3600 + (e - n) mod 3600 = e - n" unfolding h_def by (rule div_mult_mod_eq)
  moreover have "0 \<le> m" "m < 60" unfolding m_def by (simp_all add: div_int_pos_iff) 
  moreover have "0 \<le> s" "s < 60" unfolding s_def by simp_all
  ultimately show ?thesis using assms(1) by (simp add: formatRemaining_def Let_def)
qed

text \<open>An emergency request carries its reason and its window.\<close>

lemma breakglass_submit_call:
  assumes "breakglass_submit nowSec s = (Some c, t)"
  shows "\<exists>ps. cp_body (cp_options c) = JObj ps
    \<and> (\<forall>k \<in> {''target_type'', ''target_id'', ''justification'', ''incident_ref''}. \<exists>v. prop_of ps k = JStr v \<and> v \<noteq> [])
    \<and> prop_of ps ''expires_at'' = JNum (nowSec + bg_durationHours s * 3600) \<and> bg_submitting t"
  using assms by (auto simp: breakglass_submit_def canSubmit_def requestBreakglass_def cp_post_def split: if_splits)

text \<open>The worst status is no better than any that was looked at.\<close>

lemma worst_loop_le:
  assumes "worst_loop w ss = Return v" "severity w \<noteq> None"
  shows "severity v \<noteq> None \<and> the (severity w) \<le> the (severity v)
    \<and> (\<forall>s \<in> set ss. \<exists>st. js_get s ''status'' = Return st
         \<and> (\<forall>n. severity st = Some n \<longrightarrow> n \<le> the (severity v)))"
  using assms
proof (induction ss arbitrary: w)
  case (Cons s ss)
  then obtain st where st: "js_get s ''status'' = Return st"
    and rest: "worst_loop (if more_severe st w then st else w) ss = Return v"
    by (auto simp: bind_result_Inr_iff)
  let ?w = "if more_severe st w then st else w"
  have w: "severity ?w \<noteq> None" "the (severity w) \<le> the (severity ?w)"
    "\<forall>n. severity st = Some n \<longrightarrow> n \<le> the (severity ?w)"
    using Cons.prems(2) by (auto simp: more_severe_def split: option.splits if_splits)
  from Cons.IH [OF rest w(1)] w(2,3) st show ?case by fastforce
qed simp

lemma worst_loop_elem:
  "worst_loop w ss = Return v \<Longrightarrow> v = w \<or> (\<exists>s \<in> set ss. js_get s ''status'' = Return v)"
proof (induction ss arbitrary: w)
  case (Cons s ss)
  then show ?case by (fastforce simp: bind_result_Inr_iff split: if_splits)
qed simp

lemma severity_zero: "severity v = Some 0 \<longleftrightarrow> js_text v = ''ok''"
  by (simp add: severity_def Let_def)

lemma worst_ok:
  assumes "worstOf a ss = Return (JStr ''ok'')"
  shows "a = JStr ''ok'' \<and> (\<forall>s \<in> set ss. \<exists>st. js_get s ''status'' = Return st \<and> (severity st = None \<or> js_text st = ''ok''))"
proof -
  let ?w = "if js_bool a then a else JStr ''unavailable''"
  have run: "worst_loop ?w ss = Return (JStr ''ok'')" using assms by (simp add: worstOf_def)
  have ok: "severity (JStr ''ok'') = Some 0" by (simp add: severity_zero)
  have same: "?w = JStr ''ok''"
    using run
  proof (induction ss)
    case (Cons s ss)
    then obtain st where st: "worst_loop (if more_severe st ?w then st else ?w) ss = Return (JStr ''ok'')"
      by (auto simp: bind_result_Inr_iff)
    show ?case
    proof (cases "more_severe st ?w")
      case True
      then obtain m where m: "severity st = Some m" "0 < m" by (auto simp: more_severe_def split: option.splits)
      with worst_loop_le [of st ss "JStr ''ok''"] st True ok show ?thesis by simp
    next
      case False
      with st Cons.IH show ?thesis by simp
    qed
  qed simp
  then have "a = JStr ''ok''" by (simp split: if_splits)
  moreover have "\<exists>st. js_get s ''status'' = Return st \<and> (severity st = None \<or> js_text st = ''ok'')" if "s \<in> set ss" for s
  proof -
    have "severity ?w \<noteq> None" unfolding same ok by simp
    from worst_loop_le [OF run this] that obtain st where st: "js_get s ''status'' = Return st"
      "\<And>n. severity st = Some n \<Longrightarrow> n \<le> the (severity (JStr ''ok''))" by blast
    have "severity st = None \<or> js_text st = ''ok''"
      using st(2) ok severity_zero [of st] by (cases "severity st") auto
    with st(1) show ?thesis by blast
  qed
  ultimately show ?thesis by blast
qed

lemma map_of_fold_update:
  "map_of (fold (\<lambda>(k, v). AList.update k v) ps qs) = map_of qs ++ map_of (rev ps)"
proof (induction ps arbitrary: qs)
  case (Cons p ps)
  obtain k v where p: "p = (k, v)" by fastforce
  have "map_of (fold (\<lambda>(k, v). AList.update k v) (p # ps) qs) = map_of (AList.update k v qs) ++ map_of (rev ps)"
    using Cons.IH [of "AList.update k v qs"] by (simp add: p)
  also have "\<dots> = map_of qs ++ map_of (rev (p # ps))"
    by (simp add: p update_conv')
  finally show ?case .
qed simp

lemma spread_status:
  "(\<And>ps. res = JObj ps \<Longrightarrow> ''status'' \<notin> fst ` set ps) \<Longrightarrow> field (spread tag res) ''status'' = JStr tag"
proof -
  assume no: "\<And>ps. res = JObj ps \<Longrightarrow> ''status'' \<notin> fst ` set ps"
  let ?ps = "case res of JObj ps \<Rightarrow> ps | _ \<Rightarrow> []"
  have "''status'' \<notin> fst ` set ?ps" using no by (cases res) simp_all
  then have "map_of (rev ?ps) ''status'' = None" by (simp add: map_of_eq_None_iff)
  then show ?thesis by (simp add: spread_def prop_of_def map_of_fold_update map_add_def)
qed

text \<open>
  Answers to two reviews that arrive in the other order: the page then names the second asset and
  lists the access to the first.
\<close>

lemma review_answers_swapped:
  "let s = reviewed 0 (Fulfilled ra) (reviewed 1 (Fulfilled rb) (review b (review a initial_review))) in
   rv_assetId s = Some b \<and> rv_loadedFor s = Some a \<and> rv_entries s = field_or ra ''entries'' (JArr [])
   \<and> \<not> rv_loading s \<and> rv_flight s = []"
  by (simp add: review_def reviewed_def initial_review_def Let_def)

section \<open>Properties\<close>

text \<open>
  C40. Green at the top never stands over a problem in the detail. Whatever the server answers: if the
  request fails the banner is the error banner, and if it is the success banner then the aggregate
  is \<open>ok\<close> and so is every subsystem whose status is a string other than the names every object
  inherits.
\<close>

theorem health_banner_honest:
  assumes "p = health_fetched r s"
  shows "((\<nexists>v. r = Fulfilled v) \<longrightarrow> health_banner p = Return Error)
    \<and> (health_banner p = Return Success \<longrightarrow> hp_aggregate p = JStr ''ok''
        \<and> (\<forall>x \<in> set (hp_subsystems p). \<forall>st. js_get x ''status'' = Return (JStr st) \<longrightarrow>
             st \<notin> set object_prototype \<longrightarrow> st = ''ok''))"
proof (intro conjI impI)
  assume "\<nexists>v. r = Fulfilled v"
  then show "health_banner p = Return Error"
    by (cases r) (simp_all add: assms health_fetched_def health_banner_def worstOf_def)
next
  assume "health_banner p = Return Success"
  then have w: "worstOf (hp_aggregate p) (hp_subsystems p) = Return (JStr ''ok'')"
    by (auto simp: health_banner_def bind_result_Inr_iff split: if_splits)
  show "hp_aggregate p = JStr ''ok''" using worst_ok [OF w] by blast
  show "\<forall>x \<in> set (hp_subsystems p). \<forall>st. js_get x ''status'' = Return (JStr st) \<longrightarrow>
      st \<notin> set object_prototype \<longrightarrow> st = ''ok''"
  proof (intro ballI allI impI)
    fix x st
    assume x: "x \<in> set (hp_subsystems p)" "js_get x ''status'' = Return (JStr st)" "st \<notin> set object_prototype"
    then have "severity (JStr st) = None \<or> js_text (JStr st) = ''ok''" using worst_ok [OF w] by fastforce
    with x(3) show "st = ''ok''" by (auto simp: severity_def Let_def split: if_splits)
  qed
qed

theorem health_banner_honest_witness:
  "health_banner (health_fetched (Broken []) initial_health) = Return Error"
  using health_banner_honest [OF refl, of "Broken []" initial_health] by blast

text \<open>
  The audit indicator follows the verification. For an answer of the verification whose body has no
  property \<open>status\<close>: a 2xx answer turns the indicator green, a 409 with a body turns it red, and
  any other answer leaves it as it was, so that no failure is shown as an intact chain.
\<close>

lemma audit_indicator_follows_answer:
  assumes "\<And>ps. parsed_body parse res = JObj ps \<Longrightarrow> ''status'' \<notin> fst ` set ps"
  shows "audit_indicator (audit_verified (settle_call parse verifyAuditChain res) s) =
    (if http_ok res then Some Success
     else if rs_status res = 409 \<and> js_bool (parsed_body parse res) then Some Error
     else audit_indicator s)"
  using spread_status [OF assms] by (simp add: settle_call_cases audit_verified_def audit_indicator_def Let_def)

lemma audit_indicator_follows_answer_example:
  "audit_indicator (audit_verified (settle_call (\<lambda>_. None) verifyAuditChain
     \<lparr>rs_status = 409, rs_authenticate = None, rs_text = ''diverged''\<rparr>) initial_audit) = Some Error"
  using audit_indicator_follows_answer [of "\<lambda>_. None" "\<lparr>rs_status = 409, rs_authenticate = None, rs_text = ''diverged''\<rparr>" initial_audit]
  by (simp add: parsed_body_def http_ok_def)

text \<open>
  A refused review is shown as an asset without access. When the review of an asset fails with any
  status but 503 (a denial or a failure of the server), the page shows that there is no effective
  access to the asset; only 503 is shown as a review that could not be completed.
\<close>

lemma review_refused_shows_no_access:
  assumes "\<not> http_ok res" "asset \<noteq> []"
  shows "shows_no_access (reviewed (length (rv_flight s)) (settle_call parse (getAccessReview (JStr asset)) res)
      (review asset s)) \<longleftrightarrow> rs_status res \<noteq> 503"
  using assms
  by (simp add: shows_no_access_def reviewed_def review_def settle_call_cases err_status_is_def entries_empty_def Let_def)

lemma review_refused_shows_no_access_example:
  "shows_no_access (reviewed 0 (settle_call (\<lambda>_. None) (getAccessReview (JStr ''a1''))
      \<lparr>rs_status = 403, rs_authenticate = None, rs_text = []\<rparr>) (review ''a1'' initial_review))"
  using review_refused_shows_no_access [of "\<lparr>rs_status = 403, rs_authenticate = None, rs_text = []\<rparr>" "''a1''" initial_review "\<lambda>_. None"]
  by (simp add: http_ok_def initial_review_def)

end
