(* ===== verification/Row_Operations.thy ===== *)
theory Row_Operations
  imports Js_Object
begin

text \<open>
  The array helpers of \<open>Setting.js\<close> that every editable table of the console is built on:
  adding, deleting and swapping rows, looking rows up by a key, leaving out the options that are
  already in use and inventing the name of a new row. The table components follow in
  \<open>Table_Editors\<close>.
\<close>

section \<open>Operations\<close>

definition addRow :: "'a list \<Rightarrow> 'a \<Rightarrow> string \<Rightarrow> 'a list" where
  "addRow array row position = (if position = ''end'' then array @ [row] else row # array)"

definition prependRow :: "'a list \<Rightarrow> 'a \<Rightarrow> 'a list" where
  "prependRow array row = row # array"

definition deleteRow :: "'a list \<Rightarrow> int \<Rightarrow> 'a list" where
  "deleteRow array i = js_slice2 array 0 i @ js_slice1 array (i + 1)"

definition swapRow :: "jsval list \<Rightarrow> int \<Rightarrow> int \<Rightarrow> jsval list" where
  "swapRow array i j =
     js_slice2 array 0 i @ [js_at array j] @ js_slice2 array (i + 1) j @ [js_at array i]
     @ js_slice1 array (j + 1)"

text \<open>\<open>item[key]\<close> of every element, left to right; the first \<open>undefined\<close> or \<open>null\<close> row throws.\<close>

fun js_filter :: "('a \<Rightarrow> bool result) \<Rightarrow> 'a list \<Rightarrow> 'a list result" where
  "js_filter p [] = Return []"
| "js_filter p (x # xs) =
     bind_result (p x) (\<lambda>keep. bind_result (js_filter p xs)
       (\<lambda>ys. Return (if keep then x # ys else ys)))"

fun js_some :: "('a \<Rightarrow> bool result) \<Rightarrow> 'a list \<Rightarrow> bool result" where
  "js_some p [] = Return False"
| "js_some p (x # xs) = bind_result (p x) (\<lambda>hit. if hit then Return True else js_some p xs)"

definition getArrayItem :: "jsval list \<Rightarrow> string \<Rightarrow> jsval \<Rightarrow> jsval result" where
  "getArrayItem array key val =
     bind_result (js_filter (\<lambda>item. bind_result (js_get item key) (\<lambda>v. Return (v = val))) array)
       (\<lambda>res. Return (js_at res 0))"

definition getDeduplicatedArray :: "jsval list \<Rightarrow> jsval list \<Rightarrow> string \<Rightarrow> jsval list result" where
  "getDeduplicatedArray array filterArray key =
     js_filter (\<lambda>item. bind_result
         (js_some (\<lambda>tableItem. bind_result (js_get tableItem key)
             (\<lambda>a. bind_result (js_get item key) (\<lambda>b. Return (a = b)))) filterArray)
         (\<lambda>used. Return (\<not> used))) array"

text \<open>\<open>row.name.includes(rowName)\<close>; the name of a row is a string, anything else has no \<open>includes\<close>.\<close>

definition nameIncludes :: "string \<Rightarrow> jsval \<Rightarrow> bool result" where
  "nameIncludes rowName row =
     bind_result (js_get row ''name'')
       (\<lambda>v. case v of JStr s \<Rightarrow> Return (js_includes s rowName) | _ \<Rightarrow> Throw TypeError)"

definition getNewRowNameForTable :: "jsval list arg \<Rightarrow> string \<Rightarrow> string result" where
  "getNewRowNameForTable table rowName =
     (case table of
        Val rows \<Rightarrow> bind_result (js_filter (nameIncludes rowName) rows)
          (\<lambda>hits. Return (rowName @ replicate (length hits) CHR '' ''))
      | _ \<Rightarrow> Throw TypeError)"

section \<open>Rows by position\<close>

lemma addRow_end [simp]: "addRow xs x ''end'' = xs @ [x]"
  by (simp add: addRow_def)

lemma addRow_top [simp]: "addRow xs x ''top'' = prependRow xs x"
  by (simp add: addRow_def prependRow_def)

lemma deleteRow_nat: "deleteRow xs (int i) = take i xs @ drop (Suc i) xs"
proof -
  have "int i + 1 = int (Suc i)" by simp
  then show ?thesis
    by (simp only: deleteRow_def js_slice1_def js_slice2_def slice_bound_nat)
      (simp add: slice_bound_def js_slice_def)
qed

lemma swapRow_nat:
  assumes "i < j" "j < length xs"
  shows "swapRow xs (int i) (int j) = xs[i := xs ! j, j := xs ! i]"
proof -
  have ij: "int i + 1 = int (Suc i)" "int j + 1 = int (Suc j)" "(0::int) = int 0" by simp_all
  have "swapRow xs (int i) (int j)
      = take i xs @ [xs ! j] @ drop (Suc i) (take j xs) @ [xs ! i] @ drop (Suc j) xs"
    using assms unfolding swapRow_def ij js_slice1_def js_slice2_def slice_bound_nat js_slice_def
    by (simp only: js_at_nth drop_0 order_less_trans)
  also have "\<dots> = (take i xs @ [xs ! j] @ drop (Suc i) xs)[j := xs ! i]"
    using assms by (simp add: list_update_append upd_conv_take_nth_drop take_drop not_less
        flip: Suc_diff_Suc)
  also have "\<dots> = xs[i := xs ! j, j := xs ! i]"
    using assms by (simp add: upd_conv_take_nth_drop [of i xs])
  finally show ?thesis .
qed

lemma length_swapRow: "i < j \<Longrightarrow> j < length xs \<Longrightarrow> length (swapRow xs (int i) (int j)) = length xs"
  by (simp add: swapRow_nat)

lemma mset_swapRow: "i < j \<Longrightarrow> j < length xs \<Longrightarrow> mset (swapRow xs (int i) (int j)) = mset xs"
  by (simp add: swapRow_nat mset_swap)

lemma swapRow_involution:
  assumes "i < j" "j < length xs"
  shows "swapRow (swapRow xs (int i) (int j)) (int i) (int j) = xs"
  using assms by (simp add: swapRow_nat list_update_swap nth_list_update)

lemma mset_deleteRow: "i < length xs \<Longrightarrow> mset (deleteRow xs (int i)) = mset xs - {#xs ! i#}"
proof -
  assume "i < length xs"
  then have "mset xs = mset (take i xs) + mset (drop (Suc i) xs) + {#xs ! i#}"
    by (metis id_take_nth_drop mset.simps(2) mset_append union_mset_add_mset_right add_mset_add_single
        union_mset_add_mset_left)
  then show ?thesis by (simp add: deleteRow_nat)
qed

lemma deleteRow_addRow: "deleteRow (xs @ [x]) (int (length xs)) = xs"
  by (simp add: deleteRow_nat)

section \<open>Rows by key\<close>

lemma js_filter_Return:
  "(\<And>x. x \<in> set xs \<Longrightarrow> p x = Return (q x)) \<Longrightarrow> js_filter p xs = Return (filter q xs)"
  by (induction xs) simp_all

lemma js_some_Return:
  "(\<And>x. x \<in> set xs \<Longrightarrow> p x = Return (q x)) \<Longrightarrow> js_some p xs = Return (list_ex q xs)"
  by (induction xs) simp_all

lemma getArrayItem_found:
  assumes "list_all is_obj xs"
  shows "getArrayItem xs k v =
    Return (case find (\<lambda>r. field r k = v) xs of None \<Rightarrow> JUndefined | Some r \<Rightarrow> r)"
proof -
  have "js_filter (\<lambda>item. bind_result (js_get item k) (\<lambda>w. Return (w = v))) xs
      = Return (filter (\<lambda>r. field r k = v) xs)"
    using assms by (intro js_filter_Return) (simp add: list_all_iff js_get_field)
  moreover have "js_at (filter (\<lambda>r. field r k = v) xs) 0
      = (case find (\<lambda>r. field r k = v) xs of None \<Rightarrow> JUndefined | Some r \<Rightarrow> r)"
    by (induction xs) (auto simp: js_at_def split: if_splits)
  ultimately show ?thesis by (simp add: getArrayItem_def)
qed

lemma getDeduplicatedArray_objs:
  assumes "list_all is_obj xs" "list_all is_obj used"
  shows "getDeduplicatedArray xs used k =
    Return (filter (\<lambda>x. field x k \<notin> (\<lambda>r. field r k) ` set used) xs)"
  unfolding getDeduplicatedArray_def
proof (rule js_filter_Return)
  fix x
  assume "x \<in> set xs"
  with assms have "js_some (\<lambda>tableItem. bind_result (js_get tableItem k)
      (\<lambda>a. bind_result (js_get x k) (\<lambda>b. Return (a = b)))) used
    = Return (list_ex (\<lambda>r. field r k = field x k) used)"
    by (intro js_some_Return) (simp add: list_all_iff js_get_field)
  then show "bind_result (js_some (\<lambda>tableItem. bind_result (js_get tableItem k)
      (\<lambda>a. bind_result (js_get x k) (\<lambda>b. Return (a = b)))) used) (\<lambda>u. Return (\<not> u))
    = Return (field x k \<notin> (\<lambda>r. field r k) ` set used)"
    by (auto simp: list_ex_iff image_iff)
qed

section \<open>Names of new rows\<close>

text \<open>A row with a string as its name.\<close>

definition has_name :: "jsval \<Rightarrow> bool" where
  "has_name r = (case r of JObj ps \<Rightarrow> (case prop_of ps ''name'' of JStr s \<Rightarrow> True | _ \<Rightarrow> False) | _ \<Rightarrow> False)"

definition row_name :: "jsval \<Rightarrow> string" where
  "row_name r = (case field r ''name'' of JStr s \<Rightarrow> s | _ \<Rightarrow> [])"

lemma has_name_obj: "has_name r \<Longrightarrow> is_obj r"
  by (cases r) (simp_all add: has_name_def)

lemma has_nameE: "has_name r \<Longrightarrow> (\<And>ps s. r = JObj ps \<Longrightarrow> prop_of ps ''name'' = JStr s \<Longrightarrow> P) \<Longrightarrow> P"
  by (cases r) (auto simp: has_name_def split: jsval.splits)

lemma nameIncludes_named: "has_name r \<Longrightarrow> nameIncludes n r = Return (js_includes (row_name r) n)"
  by (erule has_nameE) (simp add: nameIncludes_def row_name_def)

definition padded :: "string \<Rightarrow> nat \<Rightarrow> string" where
  "padded n k = n @ replicate k CHR '' ''"

definition placeholders :: "string \<Rightarrow> jsval list \<Rightarrow> string list" where
  "placeholders n t = filter (\<lambda>s. js_includes s n) (map row_name t)"

lemma getNewRowName_named:
  "list_all has_name t \<Longrightarrow>
     getNewRowNameForTable (Val t) n = Return (padded n (length (placeholders n t)))"
  by (subst getNewRowNameForTable_def)
    (simp add: js_filter_Return [where q = "\<lambda>r. js_includes (row_name r) n"] nameIncludes_named
      list_all_iff placeholders_def padded_def filter_map comp_def)

text \<open>
  A table is numbered when its placeholder rows carry the padded names in some order, as they do
  when all of them were added by the console and none was deleted.
\<close>

definition numbered :: "string \<Rightarrow> jsval list \<Rightarrow> bool" where
  "numbered n t =
     (mset (placeholders n t) = mset (map (padded n) [0..<length (placeholders n t)]))"

lemma padded_includes: "js_includes (padded n k) n"
  by (simp add: padded_def js_includes_sublist sublist_appendI)

lemma padded_inj [simp]: "padded n i = padded n j \<longleftrightarrow> i = j"
  by (auto simp: padded_def dest: arg_cong [of _ _ length])

lemma numbered_fresh:
  assumes "numbered n t"
  shows "padded n (length (placeholders n t)) \<notin> row_name ` set t"
proof
  let ?k = "length (placeholders n t)"
  assume "padded n ?k \<in> row_name ` set t"
  then have "padded n ?k \<in> set (placeholders n t)"
    using padded_includes by (auto simp: placeholders_def)
  also have "\<dots> = padded n ` {0..<?k}"
    using assms unfolding numbered_def by (metis mset_eq_setD set_map set_upt)
  finally show False by auto
qed

lemma placeholders_append: "placeholders n (t @ u) = placeholders n t @ placeholders n u"
  by (simp add: placeholders_def)

lemma numbered_add:
  assumes "numbered n t" and r: "row_name r = padded n (length (placeholders n t))"
  shows "numbered n (t @ [r])"
proof -
  have "placeholders n (t @ [r]) = placeholders n t @ [padded n (length (placeholders n t))]"
    using r padded_includes by (simp add: placeholders_append) (simp add: placeholders_def)
  with assms(1) show ?thesis by (simp add: numbered_def del: mset_upt)
qed

lemma numbered_perm: "mset t = mset u \<Longrightarrow> numbered n t = numbered n u"
proof -
  assume "mset t = mset u"
  then have "mset (placeholders n t) = mset (placeholders n u)"
    by (simp add: placeholders_def mset_filter)
  then show ?thesis by (metis numbered_def size_mset)
qed

lemma numbered_none: "placeholders n t = [] \<Longrightarrow> numbered n t"
  by (simp add: numbered_def)

end
