(* ===== verification/Table_Editors.thy ===== *)
theory Table_Editors
  imports Row_Operations
begin

text \<open>
  The editable tables of \<open>web/src/table\<close>. Every table component gets its rows as a property,
  computes new rows and hands them to its parent (\<open>onUpdateTable\<close>); a method is modelled by the
  rows it hands over. \<open>row_editor\<close> is the contract the pages rely on, with the consequences for
  whole editing sessions proved once; every table is an interpretation of it.
\<close>

section \<open>Components\<close>

record table_component =
  tc_addRow :: "jsval list arg \<Rightarrow> jsval list result"
  tc_updateField :: "jsval list \<Rightarrow> nat \<Rightarrow> string \<Rightarrow> jsval \<Rightarrow> jsval list result"
  tc_deleteRow :: "jsval list \<Rightarrow> nat \<Rightarrow> jsval list"
  tc_upRow :: "jsval list \<Rightarrow> nat \<Rightarrow> jsval list"
  tc_downRow :: "jsval list \<Rightarrow> nat \<Rightarrow> jsval list"

text \<open>\<open>table[index][key] = value\<close>.\<close>

definition setField :: "jsval list \<Rightarrow> nat \<Rightarrow> string \<Rightarrow> jsval \<Rightarrow> jsval list result" where
  "setField table index key val =
     bind_result (js_set (js_at table (int index)) key val) (\<lambda>row. Return (js_put table index row))"

definition upRow :: "jsval list \<Rightarrow> nat \<Rightarrow> jsval list" where
  "upRow table i = swapRow table (int i - 1) (int i)"

definition downRow :: "jsval list \<Rightarrow> nat \<Rightarrow> jsval list" where
  "downRow table i = swapRow table (int i) (int i + 1)"

definition removeRow :: "jsval list \<Rightarrow> nat \<Rightarrow> jsval list" where
  "removeRow table i = deleteRow table (int i)"

text \<open>The component of a table class whose other methods are the usual ones.\<close>

definition rowTable :: "(jsval list arg \<Rightarrow> jsval list result) \<Rightarrow> table_component" where
  "rowTable add =
     \<lparr>tc_addRow = add, tc_updateField = setField, tc_deleteRow = removeRow, tc_upRow = upRow,
      tc_downRow = downRow\<rparr>"

text \<open>
  The two guards in front of \<open>Setting.addRow\<close>: \<open>if (table === undefined) table = []\<close>, after which
  \<open>null\<close> still cannot be spread, and the one that also tests for \<open>null\<close>.
\<close>

definition undefinedToEmpty :: "jsval list arg \<Rightarrow> jsval list result" where
  "undefinedToEmpty table =
     (case table of Undefined \<Rightarrow> Return [] | Null \<Rightarrow> Throw TypeError | Val t \<Rightarrow> Return t)"

definition missingToEmpty :: "jsval list arg \<Rightarrow> jsval list" where
  "missingToEmpty table = (case table of Undefined \<Rightarrow> [] | Null \<Rightarrow> [] | Val t \<Rightarrow> t)"

definition tableLength :: "jsval list arg \<Rightarrow> nat result" where
  "tableLength table = (case table of Val t \<Rightarrow> Return (length t) | _ \<Rightarrow> Throw TypeError)"

definition appendRow :: "jsval list arg \<Rightarrow> jsval \<Rightarrow> jsval list result" where
  "appendRow table row = bind_result (undefinedToEmpty table) (\<lambda>t. Return (addRow t row ''end''))"

lemma appendRow_simps [simp]:
  "appendRow (Val t) r = Return (t @ [r])"
  "appendRow Undefined r = Return [r]"
  "appendRow Null r = Throw TypeError"
  by (simp_all add: appendRow_def undefinedToEmpty_def)

section \<open>Tables whose rows have a name\<close>

definition ProviderTable_addRow :: "jsval list arg \<Rightarrow> jsval list result" where
  "ProviderTable_addRow table =
     bind_result (getNewRowNameForTable table ''Please select a provider'') (\<lambda>name.
       appendRow table (JObj
         [(''name'', JStr name), (''canSignUp'', JBool True), (''canSignIn'', JBool True),
          (''canUnlink'', JBool True), (''prompted'', JBool False), (''signupGroup'', JStr []),
          (''rule'', JStr ''None'')]))"

definition SignupTable_addRow :: "jsval list arg \<Rightarrow> jsval list result" where
  "SignupTable_addRow table =
     bind_result (getNewRowNameForTable table ''Please select a signup item'') (\<lambda>name.
       appendRow table (JObj
         [(''name'', JStr name), (''visible'', JBool True), (''required'', JBool True),
          (''options'', JArr []), (''rule'', JStr ''None''), (''customCss'', JStr [])]))"

definition SigninTable_addRow :: "jsval list arg \<Rightarrow> jsval list result" where
  "SigninTable_addRow table =
     bind_result (getNewRowNameForTable table ''Please select a signin item'') (\<lambda>name.
       appendRow table (JObj
         [(''name'', JStr name), (''visible'', JBool True), (''required'', JBool True),
          (''rule'', JStr ''None'')]))"

text \<open>\<open>addCustomRow\<close>, at the given \<open>Date.now()\<close>.\<close>

definition SigninTable_addCustomRow :: "nat \<Rightarrow> jsval list arg \<Rightarrow> jsval list result" where
  "SigninTable_addCustomRow now table =
     bind_result (getNewRowNameForTable table (''Text '' @ show_nat now)) (\<lambda>name.
       appendRow table (JObj
         [(''name'', JStr name), (''visible'', JBool True), (''isCustom'', JBool True)]))"

text \<open>A sign-in item that becomes a captcha gets the rule \<open>pop up\<close>.\<close>

definition SigninTable_updateField :: "jsval list \<Rightarrow> nat \<Rightarrow> string \<Rightarrow> jsval \<Rightarrow> jsval list result" where
  "SigninTable_updateField table index key val =
     bind_result (setField table index key val) (\<lambda>t.
       if key = ''name'' \<and> val = JStr ''Captcha'' then setField t index ''rule'' (JStr ''pop up'')
       else Return t)"

definition SigninMethodTable_addRow :: "jsval list arg \<Rightarrow> jsval list result" where
  "SigninMethodTable_addRow table =
     bind_result (getNewRowNameForTable table ''Please select a signin method'') (\<lambda>name.
       appendRow table (JObj
         [(''name'', JStr name), (''displayName'', JStr []), (''rule'', JStr ''None'')]))"

definition MfaTable_addRow :: "jsval list arg \<Rightarrow> jsval list result" where
  "MfaTable_addRow table =
     bind_result (getNewRowNameForTable table ''Please select a MFA method'') (\<lambda>name.
       appendRow table (JObj [(''name'', JStr name), (''rule'', JStr ''Optional'')]))"

definition AccountTable_addRow :: "jsval list arg \<Rightarrow> jsval list result" where
  "AccountTable_addRow table =
     bind_result (getNewRowNameForTable table ''Please select an account item'') (\<lambda>name.
       appendRow table (JObj
         [(''name'', JStr name), (''visible'', JBool True), (''viewRule'', JStr ''Public''),
          (''modifyRule'', JStr ''Self''), (''tab'', JStr [])]))"

definition WebhookHeaderTable_addRow :: "jsval list arg \<Rightarrow> jsval list result" where
  "WebhookHeaderTable_addRow table =
     bind_result (tableLength table) (\<lambda>n.
       appendRow table (JObj
         [(''name'', JStr (''header-'' @ show_nat n)), (''value'', JStr (''value-'' @ show_nat n))]))"

definition WafRuleTable_addRow :: "jsval list arg \<Rightarrow> jsval list result" where
  "WafRuleTable_addRow table =
     bind_result (tableLength table) (\<lambda>n.
       appendRow table (JObj
         [(''name'', JStr (''New WAF Rule - '' @ show_nat n)), (''operator'', JStr ''match''),
          (''value'', JStr [])]))"

definition UaRuleTable_addRow :: "jsval list arg \<Rightarrow> jsval list result" where
  "UaRuleTable_addRow table =
     bind_result (tableLength table) (\<lambda>n.
       appendRow table (JObj
         [(''name'', JStr (''New UA Rule - '' @ show_nat n)), (''operator'', JStr ''equals''),
          (''value'', JStr [])]))"

definition CompoundRule_addRow :: "jsval list arg \<Rightarrow> jsval list result" where
  "CompoundRule_addRow table =
     bind_result (tableLength table) (\<lambda>n.
       appendRow table (JObj
         [(''name'', JStr (''New Item - '' @ show_nat n)), (''operator'', JStr ''and''),
          (''value'', JStr [])]))"

text \<open>The first column of a syncer table becomes its key.\<close>

definition SyncerTableColumnTable_addRow :: "jsval list arg \<Rightarrow> jsval list result" where
  "SyncerTableColumnTable_addRow table =
     bind_result (tableLength table) (\<lambda>n.
       bind_result (js_filter (\<lambda>row. bind_result (js_get row ''isKey'') (\<lambda>v. Return (js_bool v)))
         (missingToEmpty table)) (\<lambda>keys.
       appendRow table (JObj
         [(''name'', JStr (''column'' @ show_nat n)), (''type'', JStr ''string''), (''values'', JArr []),
          (''isKey'', JBool (keys = []))])))"

definition ScopeTable_addRow :: "jsval list arg \<Rightarrow> jsval list result" where
  "ScopeTable_addRow table =
     appendRow table (JObj
       [(''name'', JStr []), (''displayName'', JStr []), (''description'', JStr [])])"

text \<open>\<open>FormItemTable.addRow\<close> has no guard: \<open>undefined\<close> and \<open>null\<close> cannot be spread.\<close>

definition FormItemTable_addRow :: "jsval list arg \<Rightarrow> jsval list result" where
  "FormItemTable_addRow table =
     (case table of
        Val t \<Rightarrow> Return (addRow t (JObj
          [(''name'', JStr []), (''label'', JStr []), (''visible'', JBool False)]) ''end'')
      | _ \<Rightarrow> Throw TypeError)"

definition TokenAttributeTable_addRow :: "jsval list arg \<Rightarrow> jsval list result" where
  "TokenAttributeTable_addRow table =
     Return (addRow (missingToEmpty table) (JObj
       [(''name'', JStr []), (''value'', JStr []), (''type'', JStr ''Array''),
        (''category'', JStr ''Static Value'')]) ''end'')"

section \<open>Tables whose rows have no name\<close>

definition SamlAttributeTable_addRow :: "jsval list arg \<Rightarrow> jsval list result" where
  "SamlAttributeTable_addRow table =
     Return (addRow (missingToEmpty table) (JObj
       [(''Name'', JStr []), (''nameFormat'', JStr []), (''value'', JStr [])]) ''end'')"

definition CustomScopeTable_addRow :: "jsval list arg \<Rightarrow> jsval list result" where
  "CustomScopeTable_addRow table =
     Return (addRow (missingToEmpty table) (JObj
       [(''scope'', JStr []), (''displayName'', JStr []), (''description'', JStr [])]) ''end'')"

text \<open>The rows of \<open>UrlTable\<close> are the URLs themselves; its fields have no key.\<close>

definition UrlTable_addRow :: "jsval list arg \<Rightarrow> jsval list result" where
  "UrlTable_addRow table = appendRow table (JStr [])"

definition UrlTable_updateField :: "jsval list \<Rightarrow> nat \<Rightarrow> jsval \<Rightarrow> jsval list" where
  "UrlTable_updateField table index val = js_put table index val"

section \<open>The component of each table\<close>

definition ProviderTable :: table_component where
  "ProviderTable = rowTable ProviderTable_addRow"

definition SignupTable :: table_component where
  "SignupTable = rowTable SignupTable_addRow"

definition SigninTable :: table_component where
  "SigninTable = (rowTable SigninTable_addRow)\<lparr>tc_updateField := SigninTable_updateField\<rparr>"

definition SigninMethodTable :: table_component where
  "SigninMethodTable = rowTable SigninMethodTable_addRow"

definition MfaTable :: table_component where
  "MfaTable = rowTable MfaTable_addRow"

definition AccountTable :: table_component where
  "AccountTable = rowTable AccountTable_addRow"

definition WebhookHeaderTable :: table_component where
  "WebhookHeaderTable = rowTable WebhookHeaderTable_addRow"

definition WafRuleTable :: table_component where
  "WafRuleTable = rowTable WafRuleTable_addRow"

definition UaRuleTable :: table_component where
  "UaRuleTable = rowTable UaRuleTable_addRow"

definition CompoundRule :: table_component where
  "CompoundRule = rowTable CompoundRule_addRow"

definition SyncerTableColumnTable :: table_component where
  "SyncerTableColumnTable = rowTable SyncerTableColumnTable_addRow"

definition ScopeTable :: table_component where
  "ScopeTable = rowTable ScopeTable_addRow"

definition FormItemTable :: table_component where
  "FormItemTable = rowTable FormItemTable_addRow"

definition TokenAttributeTable :: table_component where
  "TokenAttributeTable = rowTable TokenAttributeTable_addRow"

definition SamlAttributeTable :: table_component where
  "SamlAttributeTable = rowTable SamlAttributeTable_addRow"

definition CustomScopeTable :: table_component where
  "CustomScopeTable = rowTable CustomScopeTable_addRow"

definition UrlTable :: table_component where
  "UrlTable = (rowTable UrlTable_addRow)
     \<lparr>tc_updateField := (\<lambda>table index key val. Return (UrlTable_updateField table index val))\<rparr>"

lemmas component_defs = rowTable_def ProviderTable_def SignupTable_def SigninTable_def
  SigninMethodTable_def MfaTable_def AccountTable_def WebhookHeaderTable_def WafRuleTable_def
  UaRuleTable_def CompoundRule_def SyncerTableColumnTable_def ScopeTable_def FormItemTable_def
  TokenAttributeTable_def SamlAttributeTable_def CustomScopeTable_def UrlTable_def

section \<open>Editing sessions\<close>

text \<open>
  What a user does to a table. The buttons and inputs exist once per row, \<open>Up\<close> is disabled on the
  first row and \<open>Down\<close> on the last one.
\<close>

datatype table_op =
    Add
  | Update nat string jsval
  | Delete nat
  | Up nat
  | Down nat

fun enabled_op :: "table_op \<Rightarrow> jsval list \<Rightarrow> bool" where
  "enabled_op Add t = True"
| "enabled_op (Update i k v) t = (i < length t)"
| "enabled_op (Delete i) t = (i < length t)"
| "enabled_op (Up i) t = (i \<noteq> 0 \<and> i < length t)"
| "enabled_op (Down i) t = (i < length t \<and> i \<noteq> length t - 1)"

fun apply_op :: "table_component \<Rightarrow> table_op \<Rightarrow> jsval list \<Rightarrow> jsval list result" where
  "apply_op e Add t = tc_addRow e (Val t)"
| "apply_op e (Update i k v) t = tc_updateField e t i k v"
| "apply_op e (Delete i) t = Return (tc_deleteRow e t i)"
| "apply_op e (Up i) t = Return (tc_upRow e t i)"
| "apply_op e (Down i) t = Return (tc_downRow e t i)"

fun run_ops :: "table_component \<Rightarrow> table_op list \<Rightarrow> jsval list \<Rightarrow> jsval list result" where
  "run_ops e [] t = Return t"
| "run_ops e (p # ps) t = bind_result (apply_op e p t) (run_ops e ps)"

fun enabled_ops :: "table_component \<Rightarrow> table_op list \<Rightarrow> jsval list \<Rightarrow> bool" where
  "enabled_ops e [] t = True"
| "enabled_ops e (p # ps) t =
     (enabled_op p t \<and> (case apply_op e p t of Inl x \<Rightarrow> True | Inr u \<Rightarrow> enabled_ops e ps u))"

fun is_move :: "table_op \<Rightarrow> bool" where
  "is_move (Up i) = True"
| "is_move (Down i) = True"
| "is_move _ = False"

fun edit_ok :: "(string \<Rightarrow> jsval \<Rightarrow> bool) \<Rightarrow> table_op \<Rightarrow> bool" where
  "edit_ok okv (Update i k v) = okv k v"
| "edit_ok okv _ = True"

fun growth :: "table_op \<Rightarrow> int" where
  "growth Add = 1"
| "growth (Delete i) = - 1"
| "growth _ = 0"

section \<open>The contract of a table\<close>

text \<open>
  \<open>ok\<close> is what the table expects of each of its rows and \<open>okv\<close> of the values its inputs write.
\<close>

locale row_editor =
  fixes e :: table_component
    and ok :: "jsval \<Rightarrow> bool"
    and okv :: "string \<Rightarrow> jsval \<Rightarrow> bool"
  assumes add_law: "list_all ok t \<Longrightarrow> \<exists>row. ok row \<and> tc_addRow e (Val t) = Return (t @ [row])"
    and update_law: "list_all ok t \<Longrightarrow> i < length t \<Longrightarrow> okv k v \<Longrightarrow>
      \<exists>row. ok row \<and> tc_updateField e t i k v = Return (t[i := row])"
    and delete_law: "i < length t \<Longrightarrow> tc_deleteRow e t i = take i t @ drop (Suc i) t"
    and up_law: "0 < i \<Longrightarrow> i < length t \<Longrightarrow> tc_upRow e t i = t[i - 1 := t ! i, i := t ! (i - 1)]"
    and down_law: "Suc i < length t \<Longrightarrow> tc_downRow e t i = t[i := t ! Suc i, Suc i := t ! i]"
begin

lemma apply_op_ok:
  assumes "list_all ok t" "enabled_op p t" "edit_ok okv p"
  shows "\<exists>u. apply_op e p t = Return u \<and> list_all ok u \<and> int (length u) = int (length t) + growth p"
proof (cases p)
  case Add
  with add_law [OF assms(1)] assms(1) show ?thesis by auto
next
  case (Update i k v)
  with assms update_law [of t i k v] obtain row where "ok row"
    and "tc_updateField e t i k v = Return (t[i := row])" by auto
  with Update assms(1) show ?thesis
    using set_update_subset_insert [of t i row] by (auto simp: list_all_iff)
next
  case (Delete i)
  with assms have "list_all ok (take i t @ drop (Suc i) t)"
    by (auto simp: list_all_iff dest: in_set_takeD in_set_dropD)
  with Delete assms(2) show ?thesis by (simp add: delete_law of_nat_diff min_def)
next
  case (Up i)
  with assms show ?thesis by (auto simp: up_law list_all_length nth_list_update)
next
  case (Down i)
  with assms show ?thesis by (auto simp: down_law list_all_length nth_list_update)
qed

lemma session_ok:
  "list_all ok t \<Longrightarrow> enabled_ops e ps t \<Longrightarrow> list_all (edit_ok okv) ps \<Longrightarrow>
     \<exists>u. run_ops e ps t = Return u \<and> list_all ok u
       \<and> int (length u) = int (length t) + sum_list (map growth ps)"
proof (induction ps arbitrary: t)
  case Nil
  then show ?case by simp
next
  case (Cons p ps)
  with apply_op_ok [of t p] obtain u where u: "apply_op e p t = Return u" "list_all ok u"
    "int (length u) = int (length t) + growth p" by auto
  with Cons.prems have "enabled_ops e ps u" by simp
  with u Cons.prems Cons.IH [OF u(2)] show ?case by auto
qed

lemma move_mset:
  assumes "is_move p" "enabled_op p t"
  shows "\<exists>u. apply_op e p t = Return u \<and> mset u = mset t"
proof (cases p)
  case (Up i)
  with assms have "apply_op e p t = Return (t[i - 1 := t ! i, i := t ! (i - 1)])"
    by (simp add: up_law)
  moreover have "mset (t[i - 1 := t ! i, i := t ! (i - 1)]) = mset t"
    using Up assms mset_swap [of i t "i - 1"] by auto
  ultimately show ?thesis by blast
next
  case (Down i)
  with assms have i: "Suc i < length t" by auto
  with Down have "apply_op e p t = Return (t[i := t ! Suc i, Suc i := t ! i])"
    by (simp add: down_law)
  moreover have "mset (t[i := t ! Suc i, Suc i := t ! i]) = mset t"
    using i mset_swap [of "Suc i" t i] by simp
  ultimately show ?thesis by blast
qed (use assms in simp_all)

lemma moves_permute:
  "list_all is_move ps \<Longrightarrow> enabled_ops e ps t \<Longrightarrow> \<exists>u. run_ops e ps t = Return u \<and> mset u = mset t"
proof (induction ps arbitrary: t)
  case Nil
  then show ?case by simp
next
  case (Cons p ps)
  then obtain u where u: "apply_op e p t = Return u" "mset u = mset t"
    using move_mset [of p t] by auto
  with Cons.prems Cons.IH [of u] show ?case by simp
qed

lemma up_down:
  assumes "0 < i" "i < length t"
  shows "run_ops e [Up i, Down (i - 1)] t = Return t"
    and "run_ops e [Down (i - 1), Up i] t = Return t"
  using assms by (simp_all add: up_law down_law list_update_swap nth_list_update)

lemma add_delete:
  assumes "list_all ok t"
  shows "run_ops e [Add, Delete (length t)] t = Return t"
proof -
  from add_law [OF assms] obtain row where "tc_addRow e (Val t) = Return (t @ [row])" by blast
  then show ?thesis by (simp add: delete_law)
qed

end

section \<open>Every table keeps the contract\<close>

lemma js_put_update [simp]: "i < length t \<Longrightarrow> js_put t i r = t[i := r]"
  by (simp add: js_put_def)

lemma upRow_law: "0 < i \<Longrightarrow> i < length t \<Longrightarrow> upRow t i = t[i - 1 := t ! i, i := t ! (i - 1)]"
  using swapRow_nat [of "i - 1" i t] by (simp add: upRow_def of_nat_diff)

lemma downRow_law: "Suc i < length t \<Longrightarrow> downRow t i = t[i := t ! Suc i, Suc i := t ! i]"
  using swapRow_nat [of i "Suc i" t] by (simp add: downRow_def add.commute)

lemma removeRow_law: "i < length t \<Longrightarrow> removeRow t i = take i t @ drop (Suc i) t"
  by (simp add: removeRow_def deleteRow_nat)

lemmas row_laws = upRow_law downRow_law removeRow_law

text \<open>The inputs of a \<open>name\<close> write strings.\<close>

definition name_edit :: "string \<Rightarrow> jsval \<Rightarrow> bool" where
  "name_edit k v = (k = ''name'' \<longrightarrow> (case v of JStr s \<Rightarrow> True | _ \<Rightarrow> False))"

lemma setField_obj:
  assumes "list_all is_obj t" "i < length t"
  obtains row where "setField t i k v = Return (t[i := row])" "is_obj row"
    "\<And>k'. field row k' = (if k' = k then v else field (t ! i) k')"
proof -
  from assms have "is_obj (t ! i)" by (simp add: list_all_length)
  then obtain row where "js_set (t ! i) k v = Return row" "is_obj row"
    "\<And>k'. field row k' = (if k' = k then v else field (t ! i) k')"
    using js_set_obj [of "t ! i" k v] by blast
  with that show thesis using assms by (simp add: setField_def)
qed

lemma has_name_field: "has_name r \<longleftrightarrow> is_obj r \<and> (\<exists>s. field r ''name'' = JStr s)"
  by (cases r) (auto simp: has_name_def split: jsval.splits)

lemma setField_named:
  assumes "list_all has_name t" "i < length t" "name_edit k v"
  shows "\<exists>row. has_name row \<and> setField t i k v = Return (t[i := row])"
proof -
  have "list_all is_obj t" using assms(1) by (auto simp: list_all_iff has_name_obj)
  then obtain row where "setField t i k v = Return (t[i := row])" "is_obj row"
    "\<And>k'. field row k' = (if k' = k then v else field (t ! i) k')"
    using assms(2) by (rule setField_obj) blast
  moreover from assms have "has_name (t ! i)" by (simp add: list_all_length)
  ultimately show ?thesis using assms(3)
    by (auto simp: has_name_field name_edit_def split: jsval.splits)
qed

lemma SigninTable_updateField_named:
  assumes "list_all has_name t" "i < length t" "name_edit k v"
  shows "\<exists>row. has_name row \<and> SigninTable_updateField t i k v = Return (t[i := row])"
proof -
  from setField_named [OF assms] obtain row
    where row: "has_name row" "setField t i k v = Return (t[i := row])" by blast
  then have "list_all has_name (t[i := row])"
    using assms(1) by (intro list_all_update)
  then have "\<exists>row'. has_name row' \<and> setField (t[i := row]) i ''rule'' (JStr ''pop up'') = Return (t[i := row'])"
    using setField_named [of "t[i := row]" i "''rule''" "JStr ''pop up''"] assms(2)
    by (auto simp: name_edit_def)
  with row show ?thesis by (auto simp: SigninTable_updateField_def)
qed

lemma is_key_filter:
  "list_all is_obj t \<Longrightarrow>
     js_filter (\<lambda>row. bind_result (js_get row ''isKey'') (\<lambda>v. Return (js_bool v))) t
     = Return (filter (\<lambda>row. js_bool (field row ''isKey'')) t)"
  by (rule js_filter_Return) (simp add: list_all_iff js_get_field)

lemma named_objs: "list_all has_name t \<Longrightarrow> list_all is_obj t"
  by (auto simp: list_all_iff has_name_obj)

lemma has_name_JObj [simp]: "has_name (JObj ps) \<longleftrightarrow> (\<exists>s. prop_of ps ''name'' = JStr s)"
  by (simp add: has_name_field)

lemmas add_simps = getNewRowName_named tableLength_def missingToEmpty_def is_key_filter named_objs

lemma rowTable_editor:
  assumes "\<And>t. list_all has_name t \<Longrightarrow> \<exists>row. has_name row \<and> add (Val t) = Return (t @ [row])"
  shows "row_editor (rowTable add) has_name name_edit"
  by unfold_locales (simp_all add: rowTable_def row_laws setField_named assms)

interpretation provider_table: row_editor ProviderTable has_name name_edit
  unfolding ProviderTable_def by (rule rowTable_editor) (simp add: ProviderTable_addRow_def add_simps)

interpretation signup_table: row_editor SignupTable has_name name_edit
  unfolding SignupTable_def by (rule rowTable_editor) (simp add: SignupTable_addRow_def add_simps)

interpretation signin_table: row_editor SigninTable has_name name_edit
  by unfold_locales (simp_all add: component_defs row_laws SigninTable_updateField_named
      SigninTable_addRow_def add_simps)

interpretation signin_method_table: row_editor SigninMethodTable has_name name_edit
  unfolding SigninMethodTable_def by (rule rowTable_editor) (simp add: SigninMethodTable_addRow_def add_simps)

interpretation mfa_table: row_editor MfaTable has_name name_edit
  unfolding MfaTable_def by (rule rowTable_editor) (simp add: MfaTable_addRow_def add_simps)

interpretation account_table: row_editor AccountTable has_name name_edit
  unfolding AccountTable_def by (rule rowTable_editor) (simp add: AccountTable_addRow_def add_simps)

interpretation webhook_table: row_editor WebhookHeaderTable has_name name_edit
  unfolding WebhookHeaderTable_def by (rule rowTable_editor) (simp add: WebhookHeaderTable_addRow_def add_simps)

interpretation waf_table: row_editor WafRuleTable has_name name_edit
  unfolding WafRuleTable_def by (rule rowTable_editor) (simp add: WafRuleTable_addRow_def add_simps)

interpretation ua_table: row_editor UaRuleTable has_name name_edit
  unfolding UaRuleTable_def by (rule rowTable_editor) (simp add: UaRuleTable_addRow_def add_simps)

interpretation compound_table: row_editor CompoundRule has_name name_edit
  unfolding CompoundRule_def by (rule rowTable_editor) (simp add: CompoundRule_addRow_def add_simps)

interpretation syncer_table: row_editor SyncerTableColumnTable has_name name_edit
  unfolding SyncerTableColumnTable_def by (rule rowTable_editor) (simp add: SyncerTableColumnTable_addRow_def add_simps)

interpretation scope_table: row_editor ScopeTable has_name name_edit
  unfolding ScopeTable_def by (rule rowTable_editor) (simp add: ScopeTable_addRow_def add_simps)

interpretation form_item_table: row_editor FormItemTable has_name name_edit
  unfolding FormItemTable_def by (rule rowTable_editor) (simp add: FormItemTable_addRow_def add_simps)

interpretation token_table: row_editor TokenAttributeTable has_name name_edit
  unfolding TokenAttributeTable_def by (rule rowTable_editor) (simp add: TokenAttributeTable_addRow_def add_simps)

text \<open>The tables without a \<open>name\<close>, whose rows are plain objects, and the table of URLs.\<close>

lemma rowTable_obj_editor:
  assumes "\<And>t. list_all is_obj t \<Longrightarrow> \<exists>row. is_obj row \<and> add (Val t) = Return (t @ [row])"
  shows "row_editor (rowTable add) is_obj (\<lambda>k v. True)"
proof unfold_locales
  fix t i k v
  assume "list_all is_obj t" "i < length t"
  then show "\<exists>row. is_obj row \<and> tc_updateField (rowTable add) t i k v = Return (t[i := row])"
    by (rule setField_obj) (auto simp: rowTable_def)
qed (simp_all add: rowTable_def row_laws assms)

interpretation saml_table: row_editor SamlAttributeTable is_obj "\<lambda>k v. True"
  unfolding SamlAttributeTable_def
  by (rule rowTable_obj_editor) (simp add: SamlAttributeTable_addRow_def missingToEmpty_def)

interpretation custom_scope_table: row_editor CustomScopeTable is_obj "\<lambda>k v. True"
  unfolding CustomScopeTable_def
  by (rule rowTable_obj_editor) (simp add: CustomScopeTable_addRow_def missingToEmpty_def)

definition is_url_row :: "jsval \<Rightarrow> bool" where
  "is_url_row v = (case v of JStr s \<Rightarrow> True | _ \<Rightarrow> False)"

interpretation url_table: row_editor UrlTable is_url_row "\<lambda>k v. is_url_row v"
  by unfold_locales
    (auto simp: UrlTable_def rowTable_def row_laws UrlTable_addRow_def UrlTable_updateField_def is_url_row_def)

section \<open>Counting rows\<close>

text \<open>The rows whose property \<open>key\<close> satisfies \<open>Q\<close>; edits of other properties do not add any.\<close>

definition countRows :: "string \<Rightarrow> (jsval \<Rightarrow> bool) \<Rightarrow> jsval list \<Rightarrow> nat" where
  "countRows key Q t = length (filter (\<lambda>r. Q (field r key)) t)"

lemma countRows_append [simp]: "countRows key Q (t @ u) = countRows key Q t + countRows key Q u"
  by (simp add: countRows_def)

lemma countRows_split:
  assumes "i < length t"
  shows "countRows key Q t = countRows key Q (take i t @ drop (Suc i) t) + of_bool (Q (field (t ! i) key))"
proof -
  have "countRows key Q t = countRows key Q (take i t @ t ! i # drop (Suc i) t)"
    using assms by (simp flip: id_take_nth_drop)
  then show ?thesis by (simp add: countRows_def)
qed

lemma countRows_update:
  assumes "i < length t"
  shows "countRows key Q (t[i := r]) + of_bool (Q (field (t ! i) key))
    = countRows key Q t + of_bool (Q (field r key))"
  using assms countRows_split [of i "t[i := r]"] countRows_split [OF assms] by simp

lemma countRows_mset: "mset t = mset u \<Longrightarrow> countRows key Q t = countRows key Q u"
  unfolding countRows_def by (metis mset_filter size_mset)

lemma countRows_op:
  assumes "list_all is_obj t" "enabled_op p t" "apply_op (rowTable add) p t = Return u" "p \<noteq> Add"
    and "\<And>i k v. p = Update i k v \<Longrightarrow> k \<noteq> key"
  shows "countRows key Q u \<le> countRows key Q t"
proof (cases p)
  case Add
  with assms(4) show ?thesis by simp
next
  case (Update i k v)
  with assms have i: "i < length t" and k: "key \<noteq> k" by auto
  from assms(1) i obtain row where row: "setField t i k v = Return (t[i := row])"
    "\<And>k'. field row k' = (if k' = k then v else field (t ! i) k')"
    by (rule setField_obj) blast
  have "u = t[i := row]" using assms(3) row(1) by (simp add: Update rowTable_def)
  moreover have "field row key = field (t ! i) key" using row(2) [of key] k by simp
  ultimately show ?thesis using countRows_update [OF i, of key Q row] by simp
next
  case (Delete i)
  with assms show ?thesis
    using countRows_split [of i t key Q] by (auto simp: rowTable_def removeRow_law)
next
  case (Up i)
  with assms have "mset u = mset t"
    using mset_swap [of i t "i - 1"] by (auto simp: rowTable_def upRow_law)
  then show ?thesis using countRows_mset [of u t] by simp
next
  case (Down i)
  with assms have "Suc i < length t" by auto
  with Down assms have "mset u = mset t"
    using mset_swap [of "Suc i" t i] by (auto simp: rowTable_def downRow_law)
  then show ?thesis using countRows_mset [of u t] by simp
qed

section \<open>Properties of the tables\<close>

definition namedTables :: "table_component list" where
  "namedTables =
     [ProviderTable, SignupTable, SigninTable, SigninMethodTable, MfaTable, AccountTable,
      WebhookHeaderTable, WafRuleTable, UaRuleTable, CompoundRule, SyncerTableColumnTable,
      ScopeTable, FormItemTable, TokenAttributeTable]"

lemma namedTables_editor: "e \<in> set namedTables \<Longrightarrow> row_editor e has_name name_edit"
  unfolding namedTables_def
  using provider_table.row_editor_axioms signup_table.row_editor_axioms
    signin_table.row_editor_axioms signin_method_table.row_editor_axioms
    mfa_table.row_editor_axioms account_table.row_editor_axioms webhook_table.row_editor_axioms
    waf_table.row_editor_axioms ua_table.row_editor_axioms compound_table.row_editor_axioms
    syncer_table.row_editor_axioms scope_table.row_editor_axioms
    form_item_table.row_editor_axioms token_table.row_editor_axioms
  by (elim set_ConsD [elim_format] disjE) auto

text \<open>
  C12. In each of the fourteen tables with named rows, whatever the user clicks and types (buttons
  that are enabled, names that are strings), no handler throws, every row keeps a string name, the
  number of rows is the initial one plus the additions minus the deletions, and a session of moves
  only leaves the same rows in another order.
\<close>

theorem table_sessions:
  assumes "e \<in> set namedTables" and "list_all has_name t"
    and "enabled_ops e ps t" and "list_all (edit_ok name_edit) ps"
  shows "\<exists>u. run_ops e ps t = Return u \<and> list_all has_name u
    \<and> int (length u) = int (length t) + sum_list (map growth ps)
    \<and> (list_all is_move ps \<longrightarrow> mset u = mset t)"
proof -
  from namedTables_editor [OF assms(1)] have ed: "row_editor e has_name name_edit" .
  from row_editor.session_ok [OF ed assms(2-4)] obtain u
    where "run_ops e ps t = Return u" "list_all has_name u"
      "int (length u) = int (length t) + sum_list (map growth ps)" by blast
  with row_editor.moves_permute [OF ed _ assms(3)] show ?thesis by auto
qed

definition demo_row :: "string \<Rightarrow> jsval" where
  "demo_row s = JObj [(''name'', JStr s)]"

theorem table_sessions_witness:
  "\<exists>u. run_ops SigninTable [Up 1, Update 0 ''name'' (JStr ''Captcha''), Down 0] [demo_row ''a'', demo_row ''b''] = Return u
     \<and> list_all has_name u \<and> length u = 2"
proof -
  let ?ps = "[Up 1, Update 0 ''name'' (JStr ''Captcha''), Down 0]"
  let ?t = "[demo_row ''a'', demo_row ''b'']"
  have "enabled_ops SigninTable ?ps ?t"
    by (simp add: component_defs upRow_law downRow_law SigninTable_updateField_def setField_def
        demo_row_def js_at_def)
  then have "\<exists>u. run_ops SigninTable ?ps ?t = Return u \<and> list_all has_name u
      \<and> int (length u) = int (length ?t) + sum_list (map growth ?ps)
      \<and> (list_all is_move ?ps \<longrightarrow> mset u = mset ?t)"
    by (intro table_sessions) (simp_all add: namedTables_def demo_row_def name_edit_def)
  then show ?thesis by auto
qed

end
