(* ===== verification/Table_Rules.thy ===== *)
theory Table_Rules
  imports Table_Editors "HOL-Library.Transitive_Closure_Table"
begin

text \<open>
  The input handlers of single tables that do more than write a field: the one required MFA
  method, the one key column of a syncer, the dependent fields of a provider and of a sign-in
  method, the default scopes that are still free, and the names and options of new rows. The
  tables with a rule of their own are step relations with their invariants.
\<close>

section \<open>Handlers\<close>

text \<open>\<open>MfaTable\<close>: the selectable methods and the handler of the rule.\<close>

definition MfaItems :: "jsval list" where
  "MfaItems =
     [JObj [(''name'', JStr ''Phone''), (''value'', JStr ''sms'')],
      JObj [(''name'', JStr ''Email''), (''value'', JStr ''email'')],
      JObj [(''name'', JStr ''App''), (''value'', JStr ''app'')],
      JObj [(''name'', JStr ''Push''), (''value'', JStr ''push'')]]"

definition MfaTable_options :: "jsval list \<Rightarrow> jsval list result" where
  "MfaTable_options table =
     bind_result (getDeduplicatedArray MfaItems table ''name'')
       (\<lambda>items. Return (map (\<lambda>item. field item ''value'') items))"

text \<open>The rows after the change and, when the change is refused, the message that is shown.\<close>

definition MfaTable_changeRule ::
  "jsval list \<Rightarrow> nat \<Rightarrow> string \<Rightarrow> (jsval list \<times> string option) result" where
  "MfaTable_changeRule table index val =
     bind_result (js_filter (\<lambda>item. bind_result (js_get item ''rule'') (\<lambda>r. Return (r = JStr ''Required''))) table)
       (\<lambda>required.
          if val = ''Required'' \<and> 1 \<le> length required
          then Return (table, Some ''general:Only 1 MFA method can be required'')
          else bind_result (setField table index ''rule'' (JStr val)) (\<lambda>t. Return (t, None)))"

text \<open>\<open>table.forEach((row, i) => this.updateField(table, i, "isKey", false))\<close>.\<close>

fun clearKeys :: "jsval list \<Rightarrow> nat \<Rightarrow> nat \<Rightarrow> jsval list result" where
  "clearKeys table i 0 = Return table"
| "clearKeys table i (Suc n) =
     bind_result (setField table i ''isKey'' (JBool False)) (\<lambda>t. clearKeys t (Suc i) n)"

definition SyncerTableColumnTable_changeIsKey :: "jsval list \<Rightarrow> nat \<Rightarrow> bool \<Rightarrow> jsval list result" where
  "SyncerTableColumnTable_changeIsKey table index checked =
     bind_result (js_get (js_at table (int index)) ''isKey'') (\<lambda>isKey.
       if \<not> js_bool isKey \<and> checked then
         bind_result (clearKeys table 0 (length table))
           (\<lambda>t. setField t index ''isKey'' (JBool checked))
       else if js_bool isKey \<and> \<not> checked then Return table
       else setField table index ''isKey'' (JBool checked))"

text \<open>
  Selecting a provider writes the name and the provider; an Email or SMS provider gets the rule
  \<open>All\<close>. The options come from the same list, so the item is found.
\<close>

definition ProviderTable_selectProvider :: "jsval list \<Rightarrow> jsval list \<Rightarrow> nat \<Rightarrow> string \<Rightarrow> jsval list result" where
  "ProviderTable_selectProvider providers table index val =
     bind_result (setField table index ''name'' (JStr val)) (\<lambda>t1.
     bind_result (getArrayItem providers ''name'' (JStr val)) (\<lambda>provider.
     bind_result (setField t1 index ''provider'' provider) (\<lambda>t2.
     bind_result (js_get provider ''category'') (\<lambda>category.
       if category = JStr ''Email'' \<or> category = JStr ''SMS''
       then setField t2 index ''rule'' (JStr ''All'') else Return t2))))"

definition SigninMethodTable_selectName :: "jsval list \<Rightarrow> nat \<Rightarrow> string \<Rightarrow> jsval list result" where
  "SigninMethodTable_selectName table index val =
     bind_result (setField table index ''name'' (JStr val)) (\<lambda>t1.
     bind_result (setField t1 index ''displayName'' (JStr val)) (\<lambda>t2.
       if val = ''Verification code'' \<or> val = ''Password'' then setField t2 index ''rule'' (JStr ''All'')
       else if val = ''WeChat'' \<or> val = ''Device login'' then setField t2 index ''rule'' (JStr ''Tab'')
       else setField t2 index ''rule'' (JStr ''None'')))"

text \<open>The rules that are offered for a sign-in method.\<close>

definition SigninMethodTable_ruleOptions :: "string \<Rightarrow> string list" where
  "SigninMethodTable_ruleOptions name =
     (if name = ''Verification code'' then [''All'', ''Email only'', ''Phone only'']
      else if name = ''Password'' then [''All'', ''Non-LDAP'', ''Hide password'']
      else if name = ''WeChat'' \<or> name = ''Device login'' then [''Tab'', ''Login page'']
      else [])"

text \<open>\<open>CustomScopeTable\<close>: scopes are compared without case and surrounding blanks.\<close>

definition DefaultScopes :: "jsval list" where
  "DefaultScopes =
     [JObj [(''scope'', JStr ''openid''), (''displayName'', JStr ''OpenID''),
            (''description'', JStr ''Authenticate the user and obtain an ID token'')],
      JObj [(''scope'', JStr ''profile''), (''displayName'', JStr ''Profile''),
            (''description'', JStr ''Read all user profile data'')],
      JObj [(''scope'', JStr ''email''), (''displayName'', JStr ''Email''),
            (''description'', JStr ''Access user email addresses (read-only)'')],
      JObj [(''scope'', JStr ''address''), (''displayName'', JStr ''Address''),
            (''description'', JStr (''Access the user'' @ [CHR 0x27] @ ''s address information''))],
      JObj [(''scope'', JStr ''phone''), (''displayName'', JStr ''Phone''),
            (''description'', JStr (''Access the user'' @ [CHR 0x27] @ ''s phone number information''))],
      JObj [(''scope'', JStr ''offline_access''), (''displayName'', JStr ''Offline Access''),
            (''description'', JStr ''Obtain refresh tokens for offline access'')]]"

definition scopeText :: "jsval \<Rightarrow> string" where
  "scopeText row = (case field row ''scope'' of JStr s \<Rightarrow> s | _ \<Rightarrow> [])"

definition normalizeScope :: "string \<Rightarrow> string" where
  "normalizeScope scope = js_lower (js_trim scope)"

definition isScopeMissing :: "jsval \<Rightarrow> bool" where
  "isScopeMissing row = (\<not> js_bool row \<or> js_trim (scopeText row) = [])"

definition getAvailableDefaultScopes :: "jsval list arg \<Rightarrow> jsval list" where
  "getAvailableDefaultScopes table =
     (let existingScopes = filter (\<lambda>s. s \<noteq> [])
            (map (\<lambda>item. normalizeScope (scopeText item)) (missingToEmpty table)) in
      filter (\<lambda>item. normalizeScope (scopeText item) \<notin> set existingScopes) DefaultScopes)"

text \<open>Selecting a default scope fills in its description too.\<close>

definition CustomScopeTable_onSelect :: "jsval list \<Rightarrow> nat \<Rightarrow> string \<Rightarrow> jsval list result" where
  "CustomScopeTable_onSelect table index val =
     (let available = getAvailableDefaultScopes (Val table) in
      bind_result (setField table index ''scope'' (JStr val)) (\<lambda>t1.
        case find (\<lambda>item. field item ''scope'' = JStr val) available of
          None \<Rightarrow> Return t1
        | Some selectedScope \<Rightarrow>
            bind_result (setField t1 index ''displayName'' (field selectedScope ''displayName''))
              (\<lambda>t2. setField t2 index ''description'' (field selectedScope ''description''))))"

section \<open>At most one required MFA method\<close>

definition requiredRows :: "jsval list \<Rightarrow> nat" where
  "requiredRows t = countRows ''rule'' (\<lambda>v. v = JStr ''Required'') t"

text \<open>The inputs of \<open>MfaTable\<close> besides the rule: the selection of the method's name.\<close>

definition mfa_edit :: "string \<Rightarrow> jsval \<Rightarrow> bool" where
  "mfa_edit k v = (k = ''name'' \<and> name_edit k v)"

inductive mfa_step :: "jsval list \<Rightarrow> jsval list \<Rightarrow> bool" where
  mfa_op: "enabled_op p t \<Longrightarrow> edit_ok mfa_edit p \<Longrightarrow> apply_op MfaTable p t = Return u \<Longrightarrow> mfa_step t u"
| mfa_rule: "i < length t \<Longrightarrow> MfaTable_changeRule t i v = Return (u, msg) \<Longrightarrow> mfa_step t u"

inductive_cases mfa_stepE: "mfa_step t u"

definition mfa_inv :: "jsval list \<Rightarrow> bool" where
  "mfa_inv t = (list_all has_name t \<and> requiredRows t \<le> 1)"

lemma mfa_op_required:
  assumes "list_all has_name t" "enabled_op p t" "edit_ok mfa_edit p" "apply_op MfaTable p t = Return u"
  shows "requiredRows u \<le> requiredRows t"
proof (cases "p = Add")
  case True
  with assms show ?thesis
    by (auto simp: component_defs MfaTable_addRow_def add_simps requiredRows_def countRows_def)
next
  case False
  moreover have "k \<noteq> ''rule''" if "p = Update i k v" for i k v
    using that assms(3) by (simp add: mfa_edit_def)
  ultimately show ?thesis
    using countRows_op [OF named_objs [OF assms(1)] assms(2), of MfaTable_addRow u "''rule''"] assms(4)
    by (simp add: requiredRows_def MfaTable_def)
qed

lemma changeRule_cases:
  assumes "list_all has_name t" "i < length t"
  obtains (refused) "v = ''Required''" "1 \<le> requiredRows t"
      "MfaTable_changeRule t i v = Return (t, Some ''general:Only 1 MFA method can be required'')"
    | (written) row where "MfaTable_changeRule t i v = Return (t[i := row], None)"
      "has_name row" "field row ''rule'' = JStr v" "v = ''Required'' \<Longrightarrow> requiredRows t = 0"
proof -
  let ?P = "\<lambda>r. field r ''rule'' = JStr ''Required''"
  have objs: "list_all is_obj t" by (rule named_objs [OF assms(1)])
  then have *: "js_filter (\<lambda>item. bind_result (js_get item ''rule'') (\<lambda>r. Return (r = JStr ''Required''))) t
      = Return (filter ?P t)"
    by (intro js_filter_Return) (simp add: list_all_iff js_get_field)
  from objs assms(2) obtain row where row: "setField t i ''rule'' (JStr v) = Return (t[i := row])"
    "is_obj row" "\<And>k'. field row k' = (if k' = ''rule'' then JStr v else field (t ! i) k')"
    by (rule setField_obj) blast
  from assms have "has_name (t ! i)" by (simp add: list_all_length)
  with row have "has_name row" "field row ''rule'' = JStr v" by (simp_all add: has_name_field)
  with row(1) show thesis
  proof (cases "v = ''Required'' \<and> 1 \<le> requiredRows t")
    case True
    then show thesis by (intro refused) (simp_all add: MfaTable_changeRule_def * requiredRows_def countRows_def)
  next
    case False
    with row(1) \<open>has_name row\<close> \<open>field row ''rule'' = JStr v\<close> show thesis
      by (intro written [of row]) (auto simp: MfaTable_changeRule_def * requiredRows_def countRows_def Suc_le_eq)
  qed
qed

lemma mfa_step_inv:
  assumes "mfa_step t u" "mfa_inv t"
  shows "mfa_inv u"
  using assms(1)
proof (cases rule: mfa_step.cases)
  case (mfa_op p)
  have "edit_ok name_edit p" using mfa_op(2) by (cases p) (simp_all add: mfa_edit_def)
  with mfa_op assms(2) mfa_table.apply_op_ok [of t p] have "list_all has_name u"
    by (auto simp: mfa_inv_def)
  moreover have "requiredRows u \<le> requiredRows t"
    using mfa_op_required [of t p u] mfa_op assms(2) by (simp add: mfa_inv_def)
  ultimately show ?thesis using assms(2) by (simp add: mfa_inv_def)
next
  case (mfa_rule i v msg)
  from assms(2) have named: "list_all has_name t" by (simp add: mfa_inv_def)
  from named mfa_rule(1) show ?thesis
  proof (cases rule: changeRule_cases [where v = v])
    case refused
    with mfa_rule assms(2) show ?thesis by simp
  next
    case (written row)
    with mfa_rule have "u = t[i := row]" by simp
    with written named assms(2) countRows_update [OF mfa_rule(1), of "''rule''" "\<lambda>v. v = JStr ''Required''" row]
    show ?thesis
      by (cases "v = ''Required''") (simp_all add: mfa_inv_def list_all_update requiredRows_def)
  qed
qed

text \<open>
  However the organization's MFA table is edited, starting with at most one required method
  it never has two, and every row keeps a name; the handler of the rule shows a message and
  changes nothing exactly when a second required method is asked for.
\<close>

lemma mfa_one_required:
  assumes "mfa_step\<^sup>*\<^sup>* t u" and "list_all has_name t" and "requiredRows t \<le> 1"
  shows "list_all has_name u \<and> requiredRows u \<le> 1
    \<and> (\<forall>i < length u. \<forall>v. \<exists>w msg. MfaTable_changeRule u i v = Return (w, msg)
         \<and> (msg \<noteq> None \<longleftrightarrow> v = ''Required'' \<and> requiredRows u = 1) \<and> (msg \<noteq> None \<longrightarrow> w = u))"
proof -
  from assms(1) have "mfa_inv u"
  proof induction
    case base
    from assms(2,3) show ?case by (simp add: mfa_inv_def)
  qed (rule mfa_step_inv)
  then have inv: "list_all has_name u" "requiredRows u \<le> 1" by (simp_all add: mfa_inv_def)
  have "\<exists>w msg. MfaTable_changeRule u i v = Return (w, msg)
      \<and> (msg \<noteq> None \<longleftrightarrow> v = ''Required'' \<and> requiredRows u = 1) \<and> (msg \<noteq> None \<longrightarrow> w = u)"
    if "i < length u" for i v
    using inv(1) that
  proof (cases rule: changeRule_cases [where v = v])
    case refused
    with inv(2) show ?thesis by auto
  next
    case (written row)
    then show ?thesis by auto
  qed
  with inv show ?thesis by blast
qed

definition demo_mfa_row :: "string \<Rightarrow> string \<Rightarrow> jsval" where
  "demo_mfa_row n r = JObj [(''name'', JStr n), (''rule'', JStr r)]"

lemma mfa_one_required_example:
  "\<exists>w msg. MfaTable_changeRule [demo_mfa_row ''sms'' ''Required'', demo_mfa_row ''app'' ''Optional''] 1 ''Required''
       = Return (w, msg) \<and> msg \<noteq> None"
proof -
  let ?t = "[demo_mfa_row ''sms'' ''Optional'', demo_mfa_row ''app'' ''Optional'']"
  let ?u = "[demo_mfa_row ''sms'' ''Required'', demo_mfa_row ''app'' ''Optional'']"
  have "MfaTable_changeRule ?t 0 ''Required'' = Return (?u, None)"
    by (simp add: MfaTable_changeRule_def setField_def demo_mfa_row_def js_at_def)
  then have "mfa_step ?t ?u" by (rule mfa_rule [rotated]) simp
  then have "mfa_step\<^sup>*\<^sup>* ?t ?u" by simp
  moreover have "list_all has_name ?t" "requiredRows ?t \<le> 1" and u: "requiredRows ?u = 1"
    by (simp_all add: demo_mfa_row_def requiredRows_def countRows_def)
  ultimately have all: "\<forall>i < length ?u. \<forall>v. \<exists>w msg. MfaTable_changeRule ?u i v = Return (w, msg)
      \<and> (msg \<noteq> None \<longleftrightarrow> v = ''Required'' \<and> requiredRows ?u = 1) \<and> (msg \<noteq> None \<longrightarrow> w = ?u)"
    using mfa_one_required by blast
  have "1 < length ?u" by simp
  from all [rule_format, OF this, of "''Required''"] u show ?thesis by auto
qed

section \<open>One key column\<close>

definition keyRows :: "jsval list \<Rightarrow> nat" where
  "keyRows t = countRows ''isKey'' js_bool t"

text \<open>The inputs of a syncer column besides the key switch.\<close>

definition syncer_edit :: "string \<Rightarrow> jsval \<Rightarrow> bool" where
  "syncer_edit k v = (k \<noteq> ''isKey'' \<and> name_edit k v)"

inductive syncer_step :: "jsval list \<Rightarrow> jsval list \<Rightarrow> bool" where
  syncer_op: "enabled_op p t \<Longrightarrow> edit_ok syncer_edit p \<Longrightarrow>
    apply_op SyncerTableColumnTable p t = Return u \<Longrightarrow> syncer_step t u"
| syncer_key: "i < length t \<Longrightarrow> SyncerTableColumnTable_changeIsKey t i checked = Return u \<Longrightarrow> syncer_step t u"

definition syncer_inv :: "jsval list \<Rightarrow> bool" where
  "syncer_inv t = (list_all has_name t \<and> keyRows t \<le> 1)"

lemma clearKeys_ok:
  assumes "list_all is_obj t" "i + n \<le> length t"
  shows "\<exists>u. clearKeys t i n = Return u \<and> list_all is_obj u \<and> length u = length t
    \<and> (\<forall>j < length t. field (u ! j) ''isKey'' = (if i \<le> j \<and> j < i + n then JBool False else field (t ! j) ''isKey''))
    \<and> (\<forall>j < length t. \<forall>k. k \<noteq> ''isKey'' \<longrightarrow> field (u ! j) k = field (t ! j) k)"
  using assms
proof (induction n arbitrary: t i)
  case 0
  then show ?case by auto
next
  case (Suc n)
  then have i: "i < length t" by simp
  from Suc.prems(1) i obtain row where row: "setField t i ''isKey'' (JBool False) = Return (t[i := row])"
    "is_obj row" "\<And>k'. field row k' = (if k' = ''isKey'' then JBool False else field (t ! i) k')"
    by (rule setField_obj) blast
  let ?t = "t[i := row]"
  have "list_all is_obj ?t"
    by (rule list_all_update [OF Suc.prems(1) row(2)])
  with Suc.IH [of ?t "Suc i"] Suc.prems(2) obtain u where u: "clearKeys ?t (Suc i) n = Return u"
    "list_all is_obj u" "length u = length t"
    "\<And>j. j < length t \<Longrightarrow> field (u ! j) ''isKey'' =
       (if Suc i \<le> j \<and> j < Suc i + n then JBool False else field (?t ! j) ''isKey'')"
    "\<And>j k. j < length t \<Longrightarrow> k \<noteq> ''isKey'' \<Longrightarrow> field (u ! j) k = field (?t ! j) k"
    by auto
  then show ?case
    using row i by (intro exI [of _ u]) (auto simp: nth_list_update)
qed

lemma changeIsKey_ok:
  assumes "list_all is_obj t" "i < length t"
  shows "\<exists>u. SyncerTableColumnTable_changeIsKey t i checked = Return u \<and> list_all is_obj u
    \<and> length u = length t
    \<and> (\<forall>j < length t. \<forall>k. k \<noteq> ''isKey'' \<longrightarrow> field (u ! j) k = field (t ! j) k)
    \<and> (\<forall>j < length t. js_bool (field (u ! j) ''isKey'') =
         (if checked \<and> \<not> js_bool (field (t ! i) ''isKey'') then j = i
          else js_bool (field (t ! j) ''isKey'')))"
proof -
  have oi: "is_obj (t ! i)" using assms by (simp add: list_all_length)
  let ?K = "js_bool (field (t ! i) ''isKey'')"
  have get: "js_get (js_at t (int i)) ''isKey'' = Return (field (t ! i) ''isKey'')"
    using oi assms(2) by (simp add: js_get_field)
  consider (pick) "checked" "\<not> ?K" | (keep) "\<not> checked" "?K" | (same) "checked = ?K" by blast
  then show ?thesis
  proof cases
    case pick
    from clearKeys_ok [OF assms(1), of 0 "length t"] obtain v where v:
      "clearKeys t 0 (length t) = Return v" "list_all is_obj v" "length v = length t"
      "\<And>j. j < length t \<Longrightarrow> field (v ! j) ''isKey'' = JBool False"
      "\<And>j k. j < length t \<Longrightarrow> k \<noteq> ''isKey'' \<Longrightarrow> field (v ! j) k = field (t ! j) k" by auto
    from v(2) have "i < length v \<Longrightarrow> \<exists>row. setField v i ''isKey'' (JBool True) = Return (v[i := row])
      \<and> is_obj row \<and> (\<forall>k'. field row k' = (if k' = ''isKey'' then JBool True else field (v ! i) k'))"
      using setField_obj [of v i] by metis
    then obtain row where row: "setField v i ''isKey'' (JBool True) = Return (v[i := row])" "is_obj row"
      "\<And>k'. field row k' = (if k' = ''isKey'' then JBool True else field (v ! i) k')"
      using v(3) assms(2) by auto
    have "SyncerTableColumnTable_changeIsKey t i checked = Return (v[i := row])"
      using pick get v(1) row(1) by (simp add: SyncerTableColumnTable_changeIsKey_def)
    moreover have "list_all is_obj (v[i := row])"
      by (rule list_all_update [OF v(2) row(2)])
    ultimately show ?thesis
      using v(3-5) row(3) pick assms(2) by (intro exI [of _ "v[i := row]"]) (auto simp: nth_list_update)
  next
    case keep
    then have "SyncerTableColumnTable_changeIsKey t i checked = Return t"
      using get by (simp add: SyncerTableColumnTable_changeIsKey_def)
    with keep assms(1) show ?thesis by auto
  next
    case same
    from assms obtain row where row: "setField t i ''isKey'' (JBool checked) = Return (t[i := row])"
      "is_obj row" "\<And>k'. field row k' = (if k' = ''isKey'' then JBool checked else field (t ! i) k')"
      by (rule setField_obj) blast
    have "SyncerTableColumnTable_changeIsKey t i checked = Return (t[i := row])"
      using same get row(1) by (simp add: SyncerTableColumnTable_changeIsKey_def)
    moreover have "list_all is_obj (t[i := row])"
      by (rule list_all_update [OF assms(1) row(2)])
    ultimately show ?thesis
      using row(3) same assms(2) by (intro exI [of _ "t[i := row]"]) (auto simp: nth_list_update)
  qed
qed

lemma keyRows_nth: "keyRows t = card {j. j < length t \<and> js_bool (field (t ! j) ''isKey'')}"
  by (simp add: keyRows_def countRows_def length_filter_conv_card)

lemma keyRows_single:
  assumes "i < length u" "\<And>j. j < length u \<Longrightarrow> js_bool (field (u ! j) ''isKey'') \<longleftrightarrow> j = i"
  shows "keyRows u = 1"
proof -
  have "{j. j < length u \<and> js_bool (field (u ! j) ''isKey'')} = {i}" using assms by auto
  then show ?thesis by (simp add: keyRows_nth)
qed

lemma keyRows_cong:
  assumes "length u = length t"
    "\<And>j. j < length t \<Longrightarrow> js_bool (field (u ! j) ''isKey'') = js_bool (field (t ! j) ''isKey'')"
  shows "keyRows u = keyRows t"
  using assms by (simp add: keyRows_nth cong: conj_cong)

lemma syncer_op_inv:
  assumes "syncer_inv t" "enabled_op p t" "edit_ok syncer_edit p"
    and u: "apply_op SyncerTableColumnTable p t = Return u"
  shows "syncer_inv u"
proof -
  have named: "list_all has_name t" and "keyRows t \<le> 1" using assms(1) by (simp_all add: syncer_inv_def)
  have "edit_ok name_edit p" using assms(3) by (cases p) (simp_all add: syncer_edit_def)
  with named assms(2) u syncer_table.apply_op_ok [of t p] have "list_all has_name u" by auto
  moreover have "keyRows u \<le> 1"
  proof (cases "p = Add")
    case True
    with u named \<open>keyRows t \<le> 1\<close> show ?thesis
      by (auto simp: component_defs SyncerTableColumnTable_addRow_def add_simps keyRows_def
          countRows_def)
  next
    case False
    moreover have "k \<noteq> ''isKey''" if "p = Update i k v" for i k v
      using that assms(3) by (simp add: syncer_edit_def)
    ultimately have "keyRows u \<le> keyRows t"
      using countRows_op [OF named_objs [OF named] assms(2), of SyncerTableColumnTable_addRow u "''isKey''"] u
      by (simp add: keyRows_def SyncerTableColumnTable_def)
    with \<open>keyRows t \<le> 1\<close> show ?thesis by simp
  qed
  ultimately show ?thesis by (simp add: syncer_inv_def)
qed

lemma syncer_key_inv:
  assumes "syncer_inv t" "i < length t" and u: "SyncerTableColumnTable_changeIsKey t i checked = Return u"
  shows "syncer_inv u"
proof -
  have named: "list_all has_name t" using assms(1) by (simp add: syncer_inv_def)
  from changeIsKey_ok [OF named_objs [OF named] assms(2), of checked] u
  have ok: "list_all is_obj u" and len: "length u = length t"
    and other: "\<And>j k. j < length t \<Longrightarrow> k \<noteq> ''isKey'' \<Longrightarrow> field (u ! j) k = field (t ! j) k"
    and key: "\<And>j. j < length t \<Longrightarrow> js_bool (field (u ! j) ''isKey'') =
       (if checked \<and> \<not> js_bool (field (t ! i) ''isKey'') then j = i else js_bool (field (t ! j) ''isKey''))"
    by auto
  have "has_name (u ! j)" if "j < length u" for j
    using that ok len named other [of j "''name''"] by (simp add: list_all_length has_name_field)
  moreover have "keyRows u \<le> 1"
  proof (cases "checked \<and> \<not> js_bool (field (t ! i) ''isKey'')")
    case True
    with keyRows_single [of i u] key len assms(2) show ?thesis by simp
  next
    case False
    then have "keyRows u = keyRows t" by (intro keyRows_cong [OF len]) (auto simp: key)
    with assms(1) show ?thesis by (simp add: syncer_inv_def)
  qed
  ultimately show ?thesis by (simp add: syncer_inv_def list_all_length)
qed

text \<open>
  A syncer's columns never have two keys, however they are edited; switching a column to key
  makes it the only key, and the key column cannot be switched off.
\<close>

lemma syncer_one_key:
  assumes "syncer_step\<^sup>*\<^sup>* t u" and "list_all has_name t" and "keyRows t \<le> 1"
  shows "keyRows u \<le> 1
    \<and> (\<forall>i < length u. \<exists>w. SyncerTableColumnTable_changeIsKey u i True = Return w
         \<and> keyRows w = 1 \<and> js_bool (field (w ! i) ''isKey''))
    \<and> (\<forall>i < length u. js_bool (field (u ! i) ''isKey'')
         \<longrightarrow> SyncerTableColumnTable_changeIsKey u i False = Return u)"
proof -
  from assms(1) have inv: "syncer_inv u"
  proof induction
    case base
    from assms(2,3) show ?case by (simp add: syncer_inv_def)
  next
    case (step y z)
    from step.hyps(2) step.IH show ?case
      by (cases rule: syncer_step.cases) (blast intro: syncer_op_inv syncer_key_inv)+
  qed
  then have named: "list_all has_name u" and one: "keyRows u \<le> 1" by (simp_all add: syncer_inv_def)
  note objs = named_objs [OF named]
  have "\<exists>w. SyncerTableColumnTable_changeIsKey u i True = Return w
      \<and> keyRows w = 1 \<and> js_bool (field (w ! i) ''isKey'')" if i: "i < length u" for i
  proof -
    from changeIsKey_ok [OF objs i, of True] obtain w where
      w: "SyncerTableColumnTable_changeIsKey u i True = Return w" "length w = length u"
      "\<And>j. j < length u \<Longrightarrow> js_bool (field (w ! j) ''isKey'') =
         (if \<not> js_bool (field (u ! i) ''isKey'') then j = i else js_bool (field (u ! j) ''isKey''))"
      by auto
    have hit: "js_bool (field (w ! i) ''isKey'')" using w(3) [OF i] by (simp split: if_splits)
    have "keyRows w \<le> 1" using syncer_key_inv [OF inv i w(1)] by (simp add: syncer_inv_def)
    moreover have "keyRows w \<noteq> 0" using hit i w(2) by (auto simp: keyRows_nth)
    ultimately show ?thesis using w(1) hit by auto
  qed
  moreover have "SyncerTableColumnTable_changeIsKey u i False = Return u"
    if "i < length u" "js_bool (field (u ! i) ''isKey'')" for i
    using that objs by (simp add: SyncerTableColumnTable_changeIsKey_def js_get_field list_all_length)
  ultimately show ?thesis using one by blast
qed

lemma syncer_one_key_example:
  "\<exists>u w. syncer_step\<^sup>*\<^sup>* [] u \<and> length u = 2 \<and> SyncerTableColumnTable_changeIsKey u 1 True = Return w
     \<and> keyRows w = 1"
proof -
  let ?c = "\<lambda>n k. JObj [(''name'', JStr n), (''type'', JStr ''string''), (''values'', JArr []), (''isKey'', JBool k)]"
  let ?u = "[?c ''column0'' True, ?c ''column1'' False]"
  have "syncer_step [] [?c ''column0'' True]"
    by (rule syncer_op [of Add]) (simp_all add: component_defs SyncerTableColumnTable_addRow_def add_simps
        show_nat_digits del: show_nat_small)
  moreover have "syncer_step [?c ''column0'' True] ?u"
    by (rule syncer_op [of Add]) (simp_all add: component_defs SyncerTableColumnTable_addRow_def add_simps
        show_nat_digits del: show_nat_small)
  ultimately have run: "syncer_step\<^sup>*\<^sup>* [] ?u" by (rule converse_rtranclp_into_rtranclp [OF _ r_into_rtranclp])
  have "list_all has_name []" "keyRows [] \<le> 1" by (simp_all add: keyRows_def countRows_def)
  then have all: "\<forall>i < length ?u. \<exists>w. SyncerTableColumnTable_changeIsKey ?u i True = Return w
      \<and> keyRows w = 1 \<and> js_bool (field (w ! i) ''isKey'')"
    by (rule syncer_one_key [OF run, THEN conjunct2, THEN conjunct1])
  have "1 < length ?u" by simp
  from all [rule_format, OF this] obtain w
    where w: "SyncerTableColumnTable_changeIsKey ?u 1 True = Return w" "keyRows w = 1" by blast
  have "length ?u = 2" by simp
  with run w show ?thesis by blast
qed

section \<open>Names of new rows\<close>

text \<open>The tables whose new rows are called \<open>Please select ...\<close>.\<close>

definition placeholderTables :: "(table_component \<times> string) list" where
  "placeholderTables =
     [(ProviderTable, ''Please select a provider''), (SignupTable, ''Please select a signup item''),
      (SigninTable, ''Please select a signin item''),
      (SigninMethodTable, ''Please select a signin method''),
      (MfaTable, ''Please select a MFA method''), (AccountTable, ''Please select an account item'')]"

lemma placeholder_add:
  assumes "(e, n) \<in> set placeholderTables" "list_all has_name t"
  shows "\<exists>row. has_name row \<and> row_name row = padded n (length (placeholders n t))
    \<and> tc_addRow e (Val t) = Return (t @ [row])"
  using assms unfolding placeholderTables_def
  by (auto simp: component_defs getNewRowName_named row_name_def ProviderTable_addRow_def
      SignupTable_addRow_def SigninTable_addRow_def SigninMethodTable_addRow_def MfaTable_addRow_def
      AccountTable_addRow_def)

lemma placeholder_delete:
  "(e, n) \<in> set placeholderTables \<Longrightarrow> tc_deleteRow e t i = removeRow t i"
  unfolding placeholderTables_def by (auto simp: component_defs)

text \<open>
  While no placeholder row is deleted or renamed, every new row of these six tables gets a name
  of its own; after the first of two placeholder rows was deleted the next new row repeats the name
  of the one that is left.
\<close>

lemma new_row_names:
  assumes "(e, n) \<in> set placeholderTables" and "list_all has_name t" and "numbered n t"
    and "distinct (map row_name t)"
  shows "(\<exists>u. apply_op e Add t = Return u \<and> numbered n u \<and> distinct (map row_name u))
    \<and> (\<exists>u. run_ops e [Add, Add, Delete 0, Add] [] = Return u \<and> \<not> distinct (map row_name u))"
proof (rule conjI)
  from placeholder_add [OF assms(1,2)] obtain row where
    row: "row_name row = padded n (length (placeholders n t))" "tc_addRow e (Val t) = Return (t @ [row])"
    by blast
  with numbered_add [OF assms(3) row(1)] numbered_fresh [OF assms(3)] assms(4)
  show "\<exists>u. apply_op e Add t = Return u \<and> numbered n u \<and> distinct (map row_name u)"
    by (auto simp: image_iff)
next
  from placeholder_add [OF assms(1), of "[]"] obtain r0 where
    r0: "has_name r0" "row_name r0 = padded n 0" "tc_addRow e (Val []) = Return [r0]"
    by (auto simp: placeholders_def)
  then have p0: "placeholders n [r0] = [padded n 0]" by (simp add: placeholders_def padded_includes)
  with r0 placeholder_add [OF assms(1), of "[r0]"] obtain r1 where
    r1: "has_name r1" "row_name r1 = padded n 1" "tc_addRow e (Val [r0]) = Return [r0, r1]" by auto
  then have p1: "placeholders n [r1] = [padded n 1]" by (simp add: placeholders_def padded_includes)
  with r1 placeholder_add [OF assms(1), of "[r1]"] obtain r2 where
    r2: "row_name r2 = padded n 1" "tc_addRow e (Val [r1]) = Return [r1, r2]" by auto
  have "run_ops e [Add, Add, Delete 0, Add] [] = Return [r1, r2]"
    using r0(3) r1(3) r2(2) placeholder_delete [OF assms(1)] by (simp add: removeRow_law)
  moreover have "\<not> distinct (map row_name [r1, r2])" using r1(2) r2(1) by simp
  ultimately show "\<exists>u. run_ops e [Add, Add, Delete 0, Add] [] = Return u \<and> \<not> distinct (map row_name u)"
    by blast
qed

lemma new_row_names_example:
  "(\<exists>u. apply_op ProviderTable Add [demo_row ''google''] = Return u
      \<and> numbered ''Please select a provider'' u \<and> distinct (map row_name u))
   \<and> (\<exists>u. run_ops ProviderTable [Add, Add, Delete 0, Add] [] = Return u \<and> \<not> distinct (map row_name u))"
proof -
  have p: "(ProviderTable, ''Please select a provider'') \<in> set placeholderTables"
    by (simp add: placeholderTables_def)
  have n: "list_all has_name [demo_row ''google'']" by (simp add: demo_row_def)
  have "numbered ''Please select a provider'' [demo_row ''google'']"
    by (rule numbered_none) (simp add: placeholders_def demo_row_def row_name_def js_includes_def)
  then show ?thesis
    by (intro new_row_names [OF p n]) simp_all
qed

section \<open>Options\<close>

text \<open>A second write to the same row.\<close>

lemma setField_again:
  assumes "i < length t" "is_obj r"
  obtains r' where "setField (t[i := r]) i k v = Return (t[i := r'])" "is_obj r'"
    "\<And>k'. field r' k' = (if k' = k then v else field r k')"
proof -
  from assms(2) obtain r' where "js_set r k v = Return r'" "is_obj r'"
    "\<And>k'. field r' k' = (if k' = k then v else field r k')"
    using js_set_obj [of r k v] by blast
  with that show thesis using assms(1) js_at_nth [of i "t[i := r]"] by (simp add: setField_def)
qed

text \<open>
  The options of the MFA table are compared by their caption while the rows hold the method's
  identifier, so the methods in use stay on offer: with rows named by any of the identifiers all
  four methods can be selected again.
\<close>

lemma mfa_options_not_filtered:
  assumes "list_all has_name t" and "\<forall>r \<in> set t. row_name r \<notin> {''Phone'', ''Email'', ''App'', ''Push''}"
  shows "MfaTable_options t = Return [JStr ''sms'', JStr ''email'', JStr ''app'', JStr ''push'']"
proof -
  have "list_all is_obj MfaItems" by (simp add: MfaItems_def)
  moreover have "filter (\<lambda>x. field x ''name'' \<notin> (\<lambda>r. field r ''name'') ` set t) MfaItems = MfaItems"
  proof (rule filter_True)
    show "\<forall>x \<in> set MfaItems. field x ''name'' \<notin> (\<lambda>r. field r ''name'') ` set t"
    proof (intro ballI notI)
      fix x
      assume x: "x \<in> set MfaItems" and "field x ''name'' \<in> (\<lambda>r. field r ''name'') ` set t"
      then obtain r where r: "r \<in> set t" "field r ''name'' = field x ''name''" by auto
      with x have "row_name r \<in> {''Phone'', ''Email'', ''App'', ''Push''}"
        by (auto simp: MfaItems_def row_name_def)
      with r assms(2) show False by blast
    qed
  qed
  ultimately show ?thesis
    using named_objs [OF assms(1)]
    by (simp add: MfaTable_options_def getDeduplicatedArray_objs) (simp add: MfaItems_def)
qed

lemma mfa_options_not_filtered_example:
  "MfaTable_options [demo_mfa_row ''sms'' ''Optional'']
     = Return [JStr ''sms'', JStr ''email'', JStr ''app'', JStr ''push'']"
  by (rule mfa_options_not_filtered) (simp_all add: demo_mfa_row_def row_name_def)

lemma selectProvider_ok:
  assumes "list_all is_obj t" "i < length t" "is_obj p"
    and get: "getArrayItem providers ''name'' (JStr s) = Return p"
  shows "\<exists>row. ProviderTable_selectProvider providers t i s = Return (t[i := row])
    \<and> field row ''name'' = JStr s \<and> field row ''provider'' = p
    \<and> field row ''rule'' = (if field p ''category'' \<in> {JStr ''Email'', JStr ''SMS''} then JStr ''All''
         else field (t ! i) ''rule'')"
proof -
  obtain r1 where r1: "setField t i ''name'' (JStr s) = Return (t[i := r1])" "is_obj r1"
    "\<And>k'. field r1 k' = (if k' = ''name'' then JStr s else field (t ! i) k')"
    using setField_obj [OF assms(1,2)] by blast
  obtain r2 where r2: "setField (t[i := r1]) i ''provider'' p = Return (t[i := r2])" "is_obj r2"
    "\<And>k'. field r2 k' = (if k' = ''provider'' then p else field r1 k')"
    using setField_again [OF assms(2) r1(2)] by blast
  obtain r3 where r3: "setField (t[i := r2]) i ''rule'' (JStr ''All'') = Return (t[i := r3])"
    "\<And>k'. field r3 k' = (if k' = ''rule'' then JStr ''All'' else field r2 k')"
    using setField_again [OF assms(2) r2(2)] by blast
  let ?cat = "field p ''category'' = JStr ''Email'' \<or> field p ''category'' = JStr ''SMS''"
  have "ProviderTable_selectProvider providers t i s = Return (t[i := if ?cat then r3 else r2])"
    using r1(1) r2(1) r3(1) get assms(3) by (simp add: ProviderTable_selectProvider_def js_get_field)
  moreover have "field (if ?cat then r3 else r2) ''name'' = JStr s"
    "field (if ?cat then r3 else r2) ''provider'' = p"
    "field (if ?cat then r3 else r2) ''rule'' = (if ?cat then JStr ''All'' else field (t ! i) ''rule'')"
    using r1(3) r2(3) r3(2) by simp_all
  ultimately show ?thesis by auto
qed

text \<open>
  Selecting one of the offered providers for a row: the offered ones are those whose name no row
  has yet, the handler succeeds, and afterwards the row carries the name and the provider object,
  with the rule \<open>All\<close> for an Email or SMS provider and its old rule otherwise.
\<close>

lemma provider_selection:
  assumes "list_all has_name providers" and "list_all has_name t" and "i < length t"
    and "getDeduplicatedArray providers t ''name'' = Return options" and "x \<in> set options"
  shows "row_name x \<notin> row_name ` set t
    \<and> (\<exists>row. ProviderTable_selectProvider providers t i (row_name x) = Return (t[i := row])
         \<and> field row ''name'' = field x ''name''
         \<and> (\<exists>p \<in> set providers. row_name p = row_name x \<and> field row ''provider'' = p
              \<and> field row ''rule'' = (if field p ''category'' \<in> {JStr ''Email'', JStr ''SMS''} then JStr ''All''
                   else field (t ! i) ''rule'')))"
proof -
  note objs = named_objs [OF assms(1)] named_objs [OF assms(2)]
  have options: "options = filter (\<lambda>x. field x ''name'' \<notin> (\<lambda>r. field r ''name'') ` set t) providers"
    using getDeduplicatedArray_objs [OF objs] assms(4) by simp
  with assms(5) have x: "x \<in> set providers" "field x ''name'' \<notin> (\<lambda>r. field r ''name'') ` set t" by auto
  have named: "field r ''name'' = JStr (row_name r)" if "has_name r" for r
    using that by (auto simp: has_name_field row_name_def)
  have nx: "field x ''name'' = JStr (row_name x)" using x(1) assms(1) by (simp add: named list_all_iff)
  have fresh: "row_name x \<notin> row_name ` set t"
  proof
    assume "row_name x \<in> row_name ` set t"
    then obtain r where "r \<in> set t" "row_name x = row_name r" by blast
    with named [of r] assms(2) nx have "field x ''name'' = field r ''name''" by (simp add: list_all_iff)
    with \<open>r \<in> set t\<close> x(2) show False by blast
  qed
  obtain p where p: "find (\<lambda>r. field r ''name'' = JStr (row_name x)) providers = Some p"
    and pp: "p \<in> set providers" "field p ''name'' = JStr (row_name x)"
    using find_hit [OF x(1), of "\<lambda>r. field r ''name'' = JStr (row_name x)"] nx by blast
  have get: "getArrayItem providers ''name'' (JStr (row_name x)) = Return p"
    using getArrayItem_found [OF objs(1)] p by simp
  have "is_obj p" using objs(1) pp(1) by (simp add: list_all_iff)
  note sel = selectProvider_ok [OF objs(2) assms(3) this get]
  have "row_name p = row_name x" using pp(2) by (simp add: row_name_def [of p])
  with fresh pp(1) sel show ?thesis unfolding nx by blast
qed

lemma provider_selection_example:
  "\<exists>row. ProviderTable_selectProvider [JObj [(''name'', JStr ''mail''), (''category'', JStr ''Email'')]] [demo_row ''x''] 0 ''mail''
     = Return [row] \<and> field row ''rule'' = JStr ''All''"
proof -
  let ?p = "JObj [(''name'', JStr ''mail''), (''category'', JStr ''Email'')]"
  have "getDeduplicatedArray [?p] [demo_row ''x''] ''name'' = Return [?p]"
    by (simp add: getDeduplicatedArray_def demo_row_def)
  from provider_selection [OF _ _ _ this, of 0 ?p] have "row_name ?p \<notin> row_name ` set [demo_row ''x'']
    \<and> (\<exists>row. ProviderTable_selectProvider [?p] [demo_row ''x''] 0 (row_name ?p) = Return ([demo_row ''x''][0 := row])
         \<and> field row ''name'' = field ?p ''name''
         \<and> (\<exists>p \<in> set [?p]. row_name p = row_name ?p \<and> field row ''provider'' = p
              \<and> field row ''rule'' = (if field p ''category'' \<in> {JStr ''Email'', JStr ''SMS''} then JStr ''All''
                   else field ([demo_row ''x''] ! 0) ''rule'')))"
    by (simp add: demo_row_def)
  then show ?thesis by (auto simp: row_name_def)
qed

text \<open>
  Choosing a sign-in method resets its display name and its rule: the rule is the first of the
  rules that the table offers for the method, and \<open>None\<close> for a method without rules.
\<close>

lemma signin_method_rule:
  assumes "list_all has_name t" and "i < length t"
  shows "\<exists>row. SigninMethodTable_selectName t i val = Return (t[i := row])
    \<and> field row ''name'' = JStr val \<and> field row ''displayName'' = JStr val
    \<and> field row ''rule'' = JStr (case SigninMethodTable_ruleOptions val of [] \<Rightarrow> ''None'' | r # _ \<Rightarrow> r)"
proof -
  note objs = named_objs [OF assms(1)]
  obtain r1 where r1: "setField t i ''name'' (JStr val) = Return (t[i := r1])" "is_obj r1"
    "\<And>k'. field r1 k' = (if k' = ''name'' then JStr val else field (t ! i) k')"
    using setField_obj [OF objs assms(2)] by blast
  obtain r2 where r2: "setField (t[i := r1]) i ''displayName'' (JStr val) = Return (t[i := r2])" "is_obj r2"
    "\<And>k'. field r2 k' = (if k' = ''displayName'' then JStr val else field r1 k')"
    using setField_again [OF assms(2) r1(2)] by blast
  let ?r = "case SigninMethodTable_ruleOptions val of [] \<Rightarrow> ''None'' | r # _ \<Rightarrow> r"
  obtain r3 where r3: "setField (t[i := r2]) i ''rule'' (JStr ?r) = Return (t[i := r3])"
    "\<And>k'. field r3 k' = (if k' = ''rule'' then JStr ?r else field r2 k')"
    using setField_again [OF assms(2) r2(2)] by blast
  have "SigninMethodTable_selectName t i val = setField (t[i := r2]) i ''rule'' (JStr ?r)"
    using r1(1) r2(1) by (simp add: SigninMethodTable_selectName_def SigninMethodTable_ruleOptions_def)
  with r3(1) have "SigninMethodTable_selectName t i val = Return (t[i := r3])" by simp
  moreover have "field r3 ''name'' = JStr val" "field r3 ''displayName'' = JStr val"
    "field r3 ''rule'' = JStr ?r"
    using r1(3) r2(3) r3(2) assms(2) by simp_all
  ultimately show ?thesis by blast
qed

lemma signin_method_rule_example:
  "\<exists>row. SigninMethodTable_selectName [demo_row ''x''] 0 ''WeChat'' = Return [row]
     \<and> field row ''rule'' = JStr ''Tab''"
proof -
  have "\<exists>row. SigninMethodTable_selectName [demo_row ''x''] 0 ''WeChat'' = Return ([demo_row ''x''][0 := row])
    \<and> field row ''name'' = JStr ''WeChat'' \<and> field row ''displayName'' = JStr ''WeChat''
    \<and> field row ''rule'' = JStr (case SigninMethodTable_ruleOptions ''WeChat'' of [] \<Rightarrow> ''None'' | r # _ \<Rightarrow> r)"
    by (rule signin_method_rule) (simp_all add: demo_row_def)
  then show ?thesis by (auto simp: SigninMethodTable_ruleOptions_def)
qed

section \<open>Default scopes\<close>

lemma DefaultScopes_scope:
  "d \<in> set DefaultScopes \<Longrightarrow> field d ''scope'' = JStr (scopeText d) \<and> normalizeScope (scopeText d) \<noteq> []"
proof -
  have "list_all (\<lambda>d. field d ''scope'' = JStr (scopeText d) \<and> normalizeScope (scopeText d) \<noteq> []) DefaultScopes"
    by code_simp
  then show "d \<in> set DefaultScopes \<Longrightarrow> ?thesis" by (simp add: list_all_iff)
qed

lemma DefaultScopes_inj:
  "d \<in> set DefaultScopes \<Longrightarrow> d' \<in> set DefaultScopes \<Longrightarrow> scopeText d = scopeText d' \<Longrightarrow> d = d'"
proof -
  have "distinct (map scopeText DefaultScopes)" by code_simp
  then show "d \<in> set DefaultScopes \<Longrightarrow> d' \<in> set DefaultScopes \<Longrightarrow> scopeText d = scopeText d' \<Longrightarrow> d = d'"
    by (simp add: distinct_map inj_on_def)
qed

lemma available_iff:
  "d \<in> set (getAvailableDefaultScopes (Val t)) \<longleftrightarrow> d \<in> set DefaultScopes
     \<and> (\<forall>r \<in> set t. normalizeScope (scopeText r) \<noteq> normalizeScope (scopeText d))"
  using DefaultScopes_scope [of d]
  by (auto simp: getAvailableDefaultScopes_def missingToEmpty_def image_iff)

text \<open>
  Selecting a default scope that is on offer writes its name, display name and description into
  the row, and it is no longer on offer afterwards; what is on offer are the default scopes that no
  row names, up to case and surrounding blanks.
\<close>

lemma default_scope_once:
  assumes "list_all is_obj t" and "i < length t" and "d \<in> set (getAvailableDefaultScopes (Val t))"
  shows "\<exists>row. CustomScopeTable_onSelect t i (scopeText d) = Return (t[i := row])
    \<and> list_all (\<lambda>k. field row k = field d k) [''scope'', ''displayName'', ''description'']
    \<and> d \<notin> set (getAvailableDefaultScopes (Val (t[i := row])))"
proof -
  let ?A = "getAvailableDefaultScopes (Val t)"
  have d: "d \<in> set DefaultScopes" using assms(3) by (simp add: available_iff)
  note sd = DefaultScopes_scope [OF d]
  obtain y where y: "y \<in> set ?A" "field y ''scope'' = JStr (scopeText d)"
    "find (\<lambda>item. field item ''scope'' = JStr (scopeText d)) ?A = Some y"
    using find_hit [OF assms(3), of "\<lambda>item. field item ''scope'' = JStr (scopeText d)"] sd by blast
  have "scopeText y = scopeText d" using y(2) by (simp add: scopeText_def [of y])
  moreover have "y \<in> set DefaultScopes" using y(1) by (simp add: available_iff)
  ultimately have "y = d" using DefaultScopes_inj d by blast
  obtain r1 where r1: "setField t i ''scope'' (JStr (scopeText d)) = Return (t[i := r1])" "is_obj r1"
    "\<And>k'. field r1 k' = (if k' = ''scope'' then JStr (scopeText d) else field (t ! i) k')"
    using setField_obj [OF assms(1,2)] by blast
  obtain r2 where r2: "setField (t[i := r1]) i ''displayName'' (field d ''displayName'') = Return (t[i := r2])" "is_obj r2"
    "\<And>k'. field r2 k' = (if k' = ''displayName'' then field d ''displayName'' else field r1 k')"
    using setField_again [OF assms(2) r1(2)] by blast
  obtain r3 where r3: "setField (t[i := r2]) i ''description'' (field d ''description'') = Return (t[i := r3])"
    "\<And>k'. field r3 k' = (if k' = ''description'' then field d ''description'' else field r2 k')"
    using setField_again [OF assms(2) r2(2)] by blast
  have "CustomScopeTable_onSelect t i (scopeText d) = Return (t[i := r3])"
    using y(3) \<open>y = d\<close> r1(1) r2(1) r3(1) by (simp add: CustomScopeTable_onSelect_def Let_def)
  moreover have scope: "field r3 ''scope'' = field d ''scope''" using r1(3) r2(3) r3(2) sd by simp
  moreover have "field r3 ''displayName'' = field d ''displayName''"
    "field r3 ''description'' = field d ''description''"
    using r2(3) r3(2) by simp_all
  moreover have "d \<notin> set (getAvailableDefaultScopes (Val (t[i := r3])))"
  proof -
    have "r3 \<in> set (t[i := r3])" using assms(2) by (simp add: set_update_memI)
    moreover have "scopeText r3 = scopeText d" using scope by (simp add: scopeText_def)
    ultimately show ?thesis unfolding available_iff by metis
  qed
  ultimately show ?thesis by auto
qed

lemma default_scope_once_example:
  "\<exists>row. CustomScopeTable_onSelect [JObj [(''scope'', JStr [])]] 0 (scopeText (DefaultScopes ! 2)) = Return [row]
     \<and> DefaultScopes ! 2 \<notin> set (getAvailableDefaultScopes (Val [row]))"
proof -
  let ?t = "[JObj [(''scope'', JStr [])]]"
  have "DefaultScopes ! 2 \<in> set DefaultScopes" by (simp add: DefaultScopes_def)
  then have "DefaultScopes ! 2 \<in> set (getAvailableDefaultScopes (Val ?t))"
    using DefaultScopes_scope [of "DefaultScopes ! 2"]
    by (auto simp: available_iff scopeText_def normalizeScope_def js_trim_def js_lower_def)
  from default_scope_once [OF _ _ this, of 0] show ?thesis by auto
qed

end
