(* ===== verification/Keyed_Tables.thy ===== *)
theory Keyed_Tables
  imports Table_Editors
begin

text \<open>
  Tables that keep their rows in their own state. The property tables turn an object into rows with
  a key and a page of ten, and every change back into an object; the account tables number the rows
  of an array and strip the numbers again; \<open>PolicyTable\<close> edits the policies of an enforcer one at a
  time on pages of a hundred and sends them to the server.
\<close>

section \<open>Property tables\<close>

text \<open>A row of \<open>PropertyTable\<close> and \<open>HttpHeaderTable\<close>: \<open>{key, name, value}\<close>.\<close>

record property_row =
  row_key :: nat
  row_label :: string
  row_val :: string

record property_table =
  pt_rows :: "property_row list"
  pt_page :: nat
  pt_count :: nat

text \<open>\<open>Object.entries(properties).map((item, index) => ({key: index, name, value}))\<close>.\<close>

definition entriesToRows :: "(string \<times> string) list \<Rightarrow> property_row list" where
  "entriesToRows es =
     map (\<lambda>(i, n, v). \<lparr>row_key = i, row_label = n, row_val = v\<rparr>) (enumerate 0 es)"

text \<open>The constructors. \<open>null\<close> gives no rows; only \<open>HttpHeaderTable\<close> also expects \<open>undefined\<close>.\<close>

definition PropertyTable :: "(string \<times> string) list arg \<Rightarrow> property_table result" where
  "PropertyTable properties =
     (case properties of
        Null \<Rightarrow> Return \<lparr>pt_rows = [], pt_page = 1, pt_count = 0\<rparr>
      | Undefined \<Rightarrow> Throw TypeError
      | Val es \<Rightarrow> Return \<lparr>pt_rows = entriesToRows es, pt_page = 1, pt_count = length es\<rparr>)"

definition HttpHeaderTable :: "(string \<times> string) list arg \<Rightarrow> property_table" where
  "HttpHeaderTable httpHeaders =
     (case httpHeaders of
        Val es \<Rightarrow> \<lparr>pt_rows = entriesToRows es, pt_page = 1, pt_count = length es\<rparr>
      | _ \<Rightarrow> \<lparr>pt_rows = [], pt_page = 1, pt_count = 0\<rparr>)"

definition AttributesMapperTable :: "(string \<times> string) list arg \<Rightarrow> property_table result" where
  "AttributesMapperTable customAttributes =
     (case customAttributes of
        Null \<Rightarrow> Return \<lparr>pt_rows = [], pt_page = 1, pt_count = 0\<rparr>
      | Undefined \<Rightarrow> Throw TypeError
      | Val es \<Rightarrow> Return \<lparr>pt_rows = entriesToRows es, pt_page = 1, pt_count = length es\<rparr>)"

text \<open>
  \<open>updateTable\<close>: the rows become the state and the parent gets the object that maps every name to
  the value of the last row with that name.
\<close>

definition rowsToObject :: "property_row list \<Rightarrow> (string \<rightharpoonup> string)" where
  "rowsToObject rows = fold (\<lambda>item m. m(row_label item \<mapsto> row_val item)) rows Map.empty"

definition pt_updateTable :: "property_table \<Rightarrow> property_row list \<Rightarrow> property_table \<times> (string \<rightharpoonup> string)" where
  "pt_updateTable st rows = (st\<lparr>pt_rows := rows\<rparr>, rowsToObject rows)"

definition pt_pageSize :: nat where "pt_pageSize = 10"

definition pt_getIndex :: "property_table \<Rightarrow> nat \<Rightarrow> nat" where
  "pt_getIndex st index = index + (pt_page st - 1) * pt_pageSize"

definition pt_addRow :: "property_table \<Rightarrow> property_table \<times> (string \<rightharpoonup> string)" where
  "pt_addRow st =
     (let rows = addRow (pt_rows st) \<lparr>row_key = pt_count st, row_label = [], row_val = []\<rparr> ''end'' in
      pt_updateTable (st\<lparr>pt_count := pt_count st + 1\<rparr>) rows)"

definition pt_deleteRow :: "property_table \<Rightarrow> nat \<Rightarrow> property_table \<times> (string \<rightharpoonup> string)" where
  "pt_deleteRow st index = pt_updateTable st (deleteRow (pt_rows st) (int (pt_getIndex st index)))"

text \<open>The inputs write \<open>name\<close> or \<open>value\<close>; a row that is not there throws.\<close>

definition pt_updateField ::
  "property_table \<Rightarrow> nat \<Rightarrow> string \<Rightarrow> string \<Rightarrow> (property_table \<times> (string \<rightharpoonup> string)) result" where
  "pt_updateField st index key val =
     (let i = pt_getIndex st index; rows = pt_rows st in
      if i < length rows then
        Return (pt_updateTable st (rows[i :=
          (if key = ''name'' then (rows ! i)\<lparr>row_label := val\<rparr>
           else if key = ''value'' then (rows ! i)\<lparr>row_val := val\<rparr> else rows ! i)]))
      else Throw TypeError)"

definition pt_onPageChange :: "property_table \<Rightarrow> nat \<Rightarrow> property_table" where
  "pt_onPageChange st page = st\<lparr>pt_page := page\<rparr>"

text \<open>The rows that the current page shows.\<close>

definition pt_shown :: "property_table \<Rightarrow> property_row list" where
  "pt_shown st = take pt_pageSize (drop ((pt_page st - 1) * pt_pageSize) (pt_rows st))"

text \<open>The keys by which React identifies the rows are different and below the counter.\<close>

definition pt_wf :: "property_table \<Rightarrow> bool" where
  "pt_wf st = (distinct (map row_key (pt_rows st)) \<and> list_all (\<lambda>r. row_key r < pt_count st) (pt_rows st))"

lemma rowsToObject_append: "rowsToObject (xs @ [r]) = (rowsToObject xs)(row_label r \<mapsto> row_val r)"
  by (simp add: rowsToObject_def)

lemma rowsToObject_map_of:
  "rowsToObject rows = map_of (rev (map (\<lambda>r. (row_label r, row_val r)) rows))"
  by (induction rows rule: rev_induct) (simp_all add: rowsToObject_append, simp add: rowsToObject_def)

lemma entriesToRows_pairs: "map (\<lambda>r. (row_label r, row_val r)) (entriesToRows es) = es"
proof -
  have "map (\<lambda>(i, n, v). (n, v)) (enumerate k es) = es" for k
    by (induction es arbitrary: k) auto
  then show ?thesis by (simp add: entriesToRows_def comp_def case_prod_unfold)
qed

lemma entriesToRows_keys: "map row_key (entriesToRows es) = [0..<length es]"
  by (simp add: entriesToRows_def comp_def case_prod_unfold)

lemma map_of_rev: "distinct (map fst xs) \<Longrightarrow> map_of (rev xs) = map_of xs"
  by (subst map_of_inject_set) (simp_all add: rev_map [symmetric])

lemma entriesToRows_roundtrip: "distinct (map fst es) \<Longrightarrow> rowsToObject (entriesToRows es) = map_of es"
  by (simp add: rowsToObject_map_of entriesToRows_pairs map_of_rev)

lemma pt_shown_nth:
  "index < length (pt_shown st) \<Longrightarrow> pt_shown st ! index = pt_rows st ! pt_getIndex st index
     \<and> pt_getIndex st index < length (pt_rows st)"
  by (auto simp: pt_shown_def pt_getIndex_def add.commute)

lemma pt_wf_rows: "pt_wf st \<Longrightarrow> set (map row_key rows) \<subseteq> set (map row_key (pt_rows st)) \<Longrightarrow>
    distinct (map row_key rows) \<Longrightarrow> pt_wf (st\<lparr>pt_rows := rows\<rparr>)"
  by (auto simp: pt_wf_def list_all_iff)

text \<open>What can happen to a property table: its buttons, its inputs and its pager.\<close>

inductive pt_step :: "property_table \<Rightarrow> property_table \<Rightarrow> bool" where
  pt_add: "pt_step st (fst (pt_addRow st))"
| pt_delete: "index < length (pt_shown st) \<Longrightarrow> pt_step st (fst (pt_deleteRow st index))"
| pt_field: "index < length (pt_shown st) \<Longrightarrow> pt_updateField st index key val = Return (u, obj) \<Longrightarrow> pt_step st u"
| pt_turn: "1 \<le> page \<Longrightarrow> pt_step st (pt_onPageChange st page)"

lemma pt_step_wf:
  assumes "pt_step st u" "pt_wf st"
  shows "pt_wf u"
  using assms
proof cases
  case pt_add
  with assms(2) show ?thesis
    by (auto simp: pt_addRow_def pt_updateTable_def pt_wf_def list_all_iff Let_def less_Suc_eq)
next
  case (pt_delete index)
  let ?i = "pt_getIndex st index"
  let ?rows = "take ?i (pt_rows st) @ drop (Suc ?i) (pt_rows st)"
  have "u = st\<lparr>pt_rows := ?rows\<rparr>"
    using pt_delete by (simp add: pt_deleteRow_def pt_updateTable_def deleteRow_nat)
  moreover have "set (map row_key ?rows) \<subseteq> set (map row_key (pt_rows st))"
    by (auto dest: in_set_takeD in_set_dropD)
  moreover have "distinct (map row_key ?rows)"
    using assms(2) unfolding pt_wf_def map_append take_map drop_map
    by (simp add: set_take_disj_set_drop_if_distinct flip: take_map drop_map)
  ultimately show ?thesis by (simp only: pt_wf_rows [OF assms(2)])
next
  case (pt_field index key val obj)
  let ?i = "pt_getIndex st index"
  define r where "r = (if key = ''name'' then (pt_rows st ! ?i)\<lparr>row_label := val\<rparr>
    else if key = ''value'' then (pt_rows st ! ?i)\<lparr>row_val := val\<rparr> else pt_rows st ! ?i)"
  have u: "u = st\<lparr>pt_rows := (pt_rows st)[?i := r]\<rparr>"
    using pt_field(2) pt_shown_nth [OF pt_field(1)]
    by (simp add: pt_updateField_def pt_updateTable_def Let_def r_def)
  have r: "row_key r = row_key (pt_rows st ! ?i)" by (simp add: r_def)
  have "map row_key ((pt_rows st)[?i := r]) = map row_key (pt_rows st)"
    using r by (simp add: map_update) (metis list_update_id map_update)
  moreover have "distinct (map row_key (pt_rows st))" using assms(2) by (simp add: pt_wf_def)
  ultimately show ?thesis unfolding u by (intro pt_wf_rows [OF assms(2)]) (simp_all only: order_refl)
next
  case (pt_turn page)
  with assms(2) show ?thesis by (simp add: pt_onPageChange_def pt_wf_def)
qed

lemma pt_init_wf: "PropertyTable (Val es) = Return st \<Longrightarrow> pt_wf st"
proof -
  assume "PropertyTable (Val es) = Return st"
  then have st: "st = \<lparr>pt_rows = entriesToRows es, pt_page = 1, pt_count = length es\<rparr>"
    by (simp add: PropertyTable_def)
  have "row_key r < length es" if "r \<in> set (entriesToRows es)" for r
  proof -
    from that have "row_key r \<in> set (map row_key (entriesToRows es))" by simp
    then show ?thesis by (simp add: entriesToRows_keys)
  qed
  then show ?thesis by (simp add: st pt_wf_def entriesToRows_keys list_all_iff)
qed

text \<open>
  A property table shows the entries of its object and, when nothing is edited, hands the same
  object back; in every state it can reach the keys of its rows are distinct, the button of a row
  on any page deletes that row and no other, and an input changes only the row it is shown in.
\<close>

lemma property_table_ok:
  assumes "PropertyTable (Val es) = Return st0" and "distinct (map fst es)" and "pt_step\<^sup>*\<^sup>* st0 st"
  shows "rowsToObject (pt_rows st0) = map_of es \<and> distinct (map row_key (pt_rows st))
    \<and> (\<forall>index < length (pt_shown st).
         mset (pt_rows (fst (pt_deleteRow st index))) = mset (pt_rows st) - {#pt_shown st ! index#}
         \<and> (\<forall>key val. \<exists>u obj. pt_updateField st index key val = Return (u, obj)
              \<and> (\<forall>j < length (pt_rows st). pt_rows u ! j \<noteq> pt_rows st ! j
                   \<longrightarrow> row_key (pt_rows st ! j) = row_key (pt_shown st ! index))))"
proof -
  from assms(3) have wf: "pt_wf st"
    by induction (use pt_init_wf [OF assms(1)] in \<open>auto intro: pt_step_wf\<close>)
  have "rowsToObject (pt_rows st0) = map_of es"
    using assms(1,2) by (auto simp: PropertyTable_def entriesToRows_roundtrip)
  moreover have "mset (pt_rows (fst (pt_deleteRow st index))) = mset (pt_rows st) - {#pt_shown st ! index#}"
    if "index < length (pt_shown st)" for index
    using pt_shown_nth [OF that]
    by (simp add: pt_deleteRow_def pt_updateTable_def mset_deleteRow)
  moreover have "\<exists>u obj. pt_updateField st index key val = Return (u, obj)
      \<and> (\<forall>j < length (pt_rows st). pt_rows u ! j \<noteq> pt_rows st ! j
           \<longrightarrow> row_key (pt_rows st ! j) = row_key (pt_shown st ! index))"
    if "index < length (pt_shown st)" for index key val
    using pt_shown_nth [OF that]
    by (auto simp: pt_updateField_def pt_updateTable_def Let_def nth_list_update)
  ultimately show ?thesis using wf by (simp add: pt_wf_def)
qed

lemma property_table_ok_example:
  "\<exists>st0. PropertyTable (Val [(''a'', ''1''), (''b'', ''2'')]) = Return st0
     \<and> rowsToObject (pt_rows st0) = map_of [(''a'', ''1''), (''b'', ''2'')]"
proof -
  obtain st0 where st0: "PropertyTable (Val [(''a'', ''1''), (''b'', ''2'')]) = Return st0"
    by (simp add: PropertyTable_def)
  from property_table_ok [OF st0 _ rtranclp.rtrancl_refl] st0 show ?thesis by simp
qed

section \<open>Account tables\<close>

text \<open>
  \<open>ManagedAccountTable\<close>, \<open>MfaAccountTable\<close> and \<open>AddressTable\<close> number the rows of an array in a
  property \<open>key\<close> and hand copies without it to their parent.
\<close>

record account_table =
  at_rows :: "jsval list"
  at_count :: nat

fun numberRows :: "nat \<Rightarrow> jsval list \<Rightarrow> jsval list result" where
  "numberRows i [] = Return []"
| "numberRows i (item # rest) =
     bind_result (js_set item ''key'' (JNum (int i))) (\<lambda>row.
       bind_result (numberRows (Suc i) rest) (\<lambda>rows. Return (row # rows)))"

definition accountTable_init :: "jsval list arg \<Rightarrow> account_table result" where
  "accountTable_init table =
     (case table of
        Null \<Rightarrow> Return \<lparr>at_rows = [], at_count = 0\<rparr>
      | Undefined \<Rightarrow> Throw TypeError
      | Val t \<Rightarrow> bind_result (numberRows 0 t) (\<lambda>rows. Return \<lparr>at_rows = rows, at_count = length t\<rparr>))"

definition ManagedAccountTable :: "jsval list arg \<Rightarrow> account_table result" where
  "ManagedAccountTable table = accountTable_init table"

definition MfaAccountTable :: "jsval list arg \<Rightarrow> account_table result" where
  "MfaAccountTable table = accountTable_init table"

definition AddressTable :: "jsval list arg \<Rightarrow> account_table result" where
  "AddressTable table = accountTable_init table"

text \<open>\<open>updateTable\<close>: the new state and what the parent gets.\<close>

definition at_updateTable :: "account_table \<Rightarrow> jsval list \<Rightarrow> account_table \<times> jsval list" where
  "at_updateTable st table = (st\<lparr>at_rows := table\<rparr>, map (\<lambda>item. js_delete item ''key'') table)"

definition at_addRow :: "(string \<times> jsval) list \<Rightarrow> account_table \<Rightarrow> account_table \<times> jsval list" where
  "at_addRow own st =
     at_updateTable (st\<lparr>at_count := at_count st + 1\<rparr>)
       (addRow (at_rows st) (JObj ((''key'', JNum (int (at_count st))) # own)) ''end'')"

definition ManagedAccountTable_addRow :: "account_table \<Rightarrow> account_table \<times> jsval list" where
  "ManagedAccountTable_addRow st =
     at_addRow [(''application'', JStr []), (''username'', JStr []), (''password'', JStr [])] st"

definition MfaAccountTable_addRow :: "account_table \<Rightarrow> account_table \<times> jsval list" where
  "MfaAccountTable_addRow st =
     at_addRow [(''accountName'', JStr []), (''issuer'', JStr []), (''secretKey'', JStr [])] st"

definition AddressTable_addRow :: "account_table \<Rightarrow> account_table \<times> jsval list" where
  "AddressTable_addRow st =
     at_addRow [(''tag'', JStr []), (''line1'', JStr []), (''line2'', JStr []), (''city'', JStr []),
       (''state'', JStr []), (''zipCode'', JStr []), (''region'', JStr [])] st"

definition at_updateField ::
  "account_table \<Rightarrow> nat \<Rightarrow> string \<Rightarrow> jsval \<Rightarrow> (account_table \<times> jsval list) result" where
  "at_updateField st index key val =
     bind_result (setField (at_rows st) index key val) (\<lambda>t. Return (at_updateTable st t))"

definition at_deleteRow :: "account_table \<Rightarrow> nat \<Rightarrow> account_table \<times> jsval list" where
  "at_deleteRow st i = at_updateTable st (deleteRow (at_rows st) (int i))"

definition at_upRow :: "account_table \<Rightarrow> nat \<Rightarrow> account_table \<times> jsval list" where
  "at_upRow st i = at_updateTable st (swapRow (at_rows st) (int i - 1) (int i))"

definition at_downRow :: "account_table \<Rightarrow> nat \<Rightarrow> account_table \<times> jsval list" where
  "at_downRow st i = at_updateTable st (swapRow (at_rows st) (int i) (int i + 1))"

text \<open>Rows as the server sends them: objects without the property \<open>key\<close>.\<close>

definition unnumbered :: "jsval \<Rightarrow> bool" where
  "unnumbered v = (case v of JObj ps \<Rightarrow> ''key'' \<notin> fst ` set ps | _ \<Rightarrow> False)"

definition at_keys :: "account_table \<Rightarrow> jsval list" where
  "at_keys st = map (\<lambda>r. field r ''key'') (at_rows st)"

definition at_wf :: "account_table \<Rightarrow> bool" where
  "at_wf st = (list_all is_obj (at_rows st) \<and> distinct (at_keys st)
     \<and> set (at_keys st) \<subseteq> (\<lambda>n. JNum (int n)) ` {..<at_count st})"

lemma unnumberedE: "unnumbered v \<Longrightarrow> (\<And>ps. v = JObj ps \<Longrightarrow> ''key'' \<notin> fst ` set ps \<Longrightarrow> P) \<Longrightarrow> P"
  by (cases v) (auto simp: unnumbered_def)

lemma update_delete_fresh: "k \<notin> fst ` set ps \<Longrightarrow> AList.delete k (AList.update k v ps) = ps"
  by (induction ps) (auto simp: AList.delete_eq)

lemma numberRows_ok:
  "list_all unnumbered t \<Longrightarrow> \<exists>rows. numberRows i t = Return rows
     \<and> map (\<lambda>item. js_delete item ''key'') rows = t \<and> list_all is_obj rows
     \<and> map (\<lambda>r. field r ''key'') rows = map (\<lambda>n. JNum (int n)) [i..<i + length t]"
proof (induction t arbitrary: i)
  case Nil
  then show ?case by simp
next
  case (Cons v t)
  then obtain ps where v: "v = JObj ps" "''key'' \<notin> fst ` set ps" by (auto elim: unnumberedE)
  from Cons.IH [of "Suc i"] Cons.prems obtain rows where rows: "numberRows (Suc i) t = Return rows"
    "map (\<lambda>item. js_delete item ''key'') rows = t" "list_all is_obj rows"
    "map (\<lambda>r. field r ''key'') rows = map (\<lambda>n. JNum (int n)) [Suc i..<Suc i + length t]" by auto
  moreover have "[i..<i + length (v # t)] = i # [Suc i..<Suc i + length t]"
    using upt_conv_Cons [of i "i + length (v # t)"] by (simp del: upt_Suc)
  ultimately show ?case using v by (simp add: update_delete_fresh del: upt_Suc)
qed

lemma at_wf_add: "at_wf st \<Longrightarrow> at_wf (fst (at_addRow own st))"
  by (auto simp: at_wf_def at_addRow_def at_updateTable_def at_keys_def less_Suc_eq lessThan_Suc)

lemma at_wf_rows:
  assumes "at_wf st" "set_mset (mset rows) \<subseteq> set (at_rows st)"
    and "distinct (map (\<lambda>r. field r ''key'') rows)"
  shows "at_wf (st\<lparr>at_rows := rows\<rparr>)"
  using assms by (auto simp: at_wf_def at_keys_def list_all_iff image_subset_iff)

lemma at_wf_mset: "at_wf st \<Longrightarrow> mset rows = mset (at_rows st) \<Longrightarrow> at_wf (st\<lparr>at_rows := rows\<rparr>)"
proof -
  assume wf: "at_wf st" and eq: "mset rows = mset (at_rows st)"
  then have "mset (map (\<lambda>r. field r ''key'') rows) = mset (at_keys st)" by (simp add: at_keys_def)
  then have "distinct (map (\<lambda>r. field r ''key'') rows)"
    using wf unfolding at_wf_def by (metis mset_eq_imp_distinct_iff)
  moreover have "set rows \<subseteq> set (at_rows st)" using eq mset_eq_setD by blast
  ultimately show ?thesis by (intro at_wf_rows [OF wf]) simp_all
qed

lemma at_wf_delete:
  assumes "at_wf st" "i < length (at_rows st)"
  shows "at_wf (fst (at_deleteRow st i))"
proof -
  let ?rows = "take i (at_rows st) @ drop (Suc i) (at_rows st)"
  have "distinct (map (\<lambda>r. field r ''key'') ?rows)"
    using assms(1) unfolding at_wf_def at_keys_def
    by (simp add: take_map [symmetric] drop_map [symmetric] set_take_disj_set_drop_if_distinct)
  then have "at_wf (st\<lparr>at_rows := ?rows\<rparr>)"
    by (intro at_wf_rows [OF assms(1)]) (auto dest: in_set_takeD in_set_dropD)
  then show ?thesis by (simp add: at_deleteRow_def at_updateTable_def deleteRow_nat)
qed

lemma at_wf_field:
  assumes "at_wf st" "i < length (at_rows st)" "key \<noteq> ''key''"
  shows "\<exists>u out. at_updateField st i key val = Return (u, out) \<and> at_wf u"
proof -
  from assms(1) have "list_all is_obj (at_rows st)" by (simp add: at_wf_def)
  then obtain row where row: "setField (at_rows st) i key val = Return ((at_rows st)[i := row])"
    "is_obj row" "\<And>k'. field row k' = (if k' = key then val else field (at_rows st ! i) k')"
    using setField_obj [OF _ assms(2)] by blast
  have "map (\<lambda>r. field r ''key'') ((at_rows st)[i := row]) = at_keys st"
    using row(3) assms(2,3) by (simp add: at_keys_def map_update list_update_same_conv)
  moreover have "list_all is_obj ((at_rows st)[i := row])"
    using assms(1) row(2) by (simp add: at_wf_def list_all_update)
  ultimately have "at_wf (st\<lparr>at_rows := (at_rows st)[i := row]\<rparr>)"
    using assms(1) by (simp add: at_wf_def at_keys_def)
  with row(1) show ?thesis by (simp add: at_updateField_def at_updateTable_def)
qed

text \<open>What can happen to an account table; its inputs do not write the property \<open>key\<close>.\<close>

inductive at_step :: "account_table \<Rightarrow> account_table \<Rightarrow> bool" where
  at_add: "at_step st (fst (at_addRow own st))"
| at_delete: "i < length (at_rows st) \<Longrightarrow> at_step st (fst (at_deleteRow st i))"
| at_up: "0 < i \<Longrightarrow> i < length (at_rows st) \<Longrightarrow> at_step st (fst (at_upRow st i))"
| at_down: "Suc i < length (at_rows st) \<Longrightarrow> at_step st (fst (at_downRow st i))"
| at_field: "i < length (at_rows st) \<Longrightarrow> key \<noteq> ''key'' \<Longrightarrow>
    at_updateField st i key val = Return (u, out) \<Longrightarrow> at_step st u"

lemma at_step_wf:
  assumes "at_step st u" "at_wf st"
  shows "at_wf u"
  using assms
proof cases
  case (at_up i)
  then have "mset (swapRow (at_rows st) (int i - 1) (int i)) = mset (at_rows st)"
    using mset_swapRow [of "i - 1" i "at_rows st"] by (simp add: of_nat_diff)
  with at_up at_wf_mset [OF assms(2)] show ?thesis by (simp add: at_upRow_def at_updateTable_def)
next
  case (at_down i)
  then have "mset (swapRow (at_rows st) (int i) (int i + 1)) = mset (at_rows st)"
    using mset_swapRow [of i "Suc i" "at_rows st"] by (simp add: add.commute)
  with at_down at_wf_mset [OF assms(2)] show ?thesis by (simp add: at_downRow_def at_updateTable_def)
next
  case (at_field i key val out)
  with at_wf_field [OF assms(2), of i key val] show ?thesis by auto
qed (use assms(2) in \<open>auto intro: at_wf_add at_wf_delete\<close>)

text \<open>
  An account table numbers the rows it is given and hands exactly the given rows back when
  nothing is edited; in every state it can reach its rows are objects with distinct numbers, all
  below the counter, so the next row gets a new one.
\<close>

lemma account_table_ok:
  assumes "list_all unnumbered t"
  shows "\<exists>st0. ManagedAccountTable (Val t) = Return st0 \<and> snd (at_updateTable st0 (at_rows st0)) = t
    \<and> (\<forall>st. at_step\<^sup>*\<^sup>* st0 st \<longrightarrow> list_all is_obj (at_rows st) \<and> distinct (at_keys st)
         \<and> JNum (int (at_count st)) \<notin> set (at_keys st))"
proof -
  from numberRows_ok [OF assms, of 0] obtain rows where rows: "numberRows 0 t = Return rows"
    "map (\<lambda>item. js_delete item ''key'') rows = t" "list_all is_obj rows"
    "map (\<lambda>r. field r ''key'') rows = map (\<lambda>n. JNum (int n)) [0..<length t]" by auto
  let ?st0 = "\<lparr>at_rows = rows, at_count = length t\<rparr>"
  have wf0: "at_wf ?st0"
    using rows(3,4) by (auto simp: at_wf_def at_keys_def distinct_map inj_on_def)
  have "list_all is_obj (at_rows st) \<and> distinct (at_keys st) \<and> JNum (int (at_count st)) \<notin> set (at_keys st)"
    if "at_step\<^sup>*\<^sup>* ?st0 st" for st
  proof -
    from that have "at_wf st" by induction (auto intro: at_step_wf wf0)
    then show ?thesis by (auto simp: at_wf_def)
  qed
  moreover have "ManagedAccountTable (Val t) = Return ?st0"
    using rows(1) by (simp add: ManagedAccountTable_def accountTable_init_def)
  moreover have "snd (at_updateTable ?st0 (at_rows ?st0)) = t"
    using rows(2) by (simp add: at_updateTable_def)
  ultimately show ?thesis by blast
qed

lemma account_table_ok_example:
  "\<exists>st0. ManagedAccountTable (Val [JObj [(''username'', JStr ''u'')]]) = Return st0
     \<and> snd (at_updateTable st0 (at_rows st0)) = [JObj [(''username'', JStr ''u'')]]"
proof -
  have "list_all unnumbered [JObj [(''username'', JStr ''u'')]]" by (simp add: unnumbered_def)
  from account_table_ok [OF this] show ?thesis by blast
qed

end
