(* ===== verification/Policy_Table.thy ===== *)
theory Policy_Table
  imports Table_Editors
begin

text \<open>
  \<open>table/PolicyTable.js\<close>: the policies of an enforcer, shown on pages of a hundred. One row at a
  time is edited; a new row is put on top and is edited at once; cancelling restores the row or
  removes the new one; saving sends the row to the server. The component keeps \<open>editingIndex\<close> as
  \<open>""\<close> while nothing is edited, here \<^term>\<open>None\<close>.
\<close>

section \<open>State and handlers\<close>

record policy_table =
  po_lists :: "jsval list"
  po_loading :: bool
  po_editing :: "nat option"
  po_old :: jsval
  po_add :: bool
  po_page :: nat
  po_count :: nat

definition po_pageSize :: nat where "po_pageSize = 100"

definition PolicyTable :: policy_table where
  "PolicyTable =
     \<lparr>po_lists = [], po_loading = False, po_editing = None, po_old = JStr [], po_add = False,
      po_page = 1, po_count = 0\<rparr>"

definition po_getIndex :: "policy_table \<Rightarrow> nat \<Rightarrow> nat" where
  "po_getIndex st index = index + (po_page st - 1) * po_pageSize"

definition po_isEditing :: "policy_table \<Rightarrow> nat \<Rightarrow> bool" where
  "po_isEditing st index = (po_editing st = Some index)"

text \<open>\<open>Setting.deepCopy\<close> copies the own properties of the record.\<close>

definition po_edit :: "policy_table \<Rightarrow> jsval \<Rightarrow> nat \<Rightarrow> policy_table" where
  "po_edit st row index = st\<lparr>po_editing := Some index, po_old := row\<rparr>"

definition po_updateTable :: "policy_table \<Rightarrow> jsval list \<Rightarrow> policy_table" where
  "po_updateTable st table = st\<lparr>po_lists := table\<rparr>"

definition po_updateField :: "policy_table \<Rightarrow> nat \<Rightarrow> string \<Rightarrow> jsval \<Rightarrow> policy_table result" where
  "po_updateField st index key val =
     bind_result (setField (po_lists st) (po_getIndex st index) key val)
       (\<lambda>t. Return (po_updateTable st t))"

definition po_deleteRow :: "policy_table \<Rightarrow> nat \<Rightarrow> policy_table" where
  "po_deleteRow st index = po_updateTable st (deleteRow (po_lists st) (int (po_getIndex st index)))"

text \<open>A new row comes first, whatever page is shown, and is edited on page one.\<close>

definition po_addRow :: "policy_table \<Rightarrow> policy_table" where
  "po_addRow st =
     (let row = JObj [(''key'', JNum (int (po_count st))), (''Ptype'', JStr ''p'')];
          st1 = po_updateTable (st\<lparr>po_count := po_count st + 1\<rparr>) (addRow (po_lists st) row ''top'') in
      (po_edit st1 row 0)\<lparr>po_page := 1, po_add := True\<rparr>)"

text \<open>\<open>Object.keys(row).forEach(key => row[key] = old[key])\<close>.\<close>

fun restoreKeys :: "string list \<Rightarrow> jsval \<Rightarrow> jsval \<Rightarrow> jsval result" where
  "restoreKeys [] old row = Return row"
| "restoreKeys (k # ks) old row =
     bind_result (js_get old k) (\<lambda>v. bind_result (js_set row k v) (restoreKeys ks old))"

definition objectKeys :: "jsval \<Rightarrow> string list result" where
  "objectKeys v = (case v of
     JObj ps \<Rightarrow> Return (map fst ps) | JUndefined \<Rightarrow> Throw TypeError | JNull \<Rightarrow> Throw TypeError | _ \<Rightarrow> Return [])"

definition po_cancel :: "policy_table \<Rightarrow> nat \<Rightarrow> policy_table result" where
  "po_cancel st index =
     (let i = po_getIndex st index; row = js_at (po_lists st) (int i) in
      bind_result (objectKeys row) (\<lambda>ks.
      bind_result (restoreKeys ks (po_old st) row) (\<lambda>row'.
        let st1 = (po_updateTable st (js_put (po_lists st) i row'))\<lparr>po_editing := None, po_old := JStr []\<rparr> in
        Return (if po_add st then (po_deleteRow st1 index)\<lparr>po_add := False\<rparr> else st1))))"

text \<open>What is sent to the server, and what its answer does.\<close>

datatype policy_request =
    UpdatePolicy jsval jsval
  | AddPolicy jsval
  | RemovePolicy jsval

definition po_updatePolicy :: "policy_table \<Rightarrow> nat \<Rightarrow> policy_request" where
  "po_updatePolicy st i = UpdatePolicy (po_old st) (js_at (po_lists st) (int i))"

definition po_addPolicy :: "policy_table \<Rightarrow> nat \<Rightarrow> policy_request" where
  "po_addPolicy st i = AddPolicy (js_at (po_lists st) (int i))"

definition po_save :: "policy_table \<Rightarrow> nat \<Rightarrow> policy_request" where
  "po_save st i = (if po_add st then po_addPolicy st i else po_updatePolicy st i)"

definition po_deletePolicy :: "policy_table \<Rightarrow> nat \<Rightarrow> policy_request" where
  "po_deletePolicy st index = RemovePolicy (js_at (po_lists st) (int (po_getIndex st index)))"

text \<open>The answers: \<open>ok\<close> is the status, \<open>dat\<close> the \<open>data\<close> of the response.\<close>

definition po_updatePolicy_response :: "policy_table \<Rightarrow> bool \<Rightarrow> policy_table \<times> string" where
  "po_updatePolicy_response st ok =
     (if ok then (st\<lparr>po_editing := None, po_old := JStr []\<rparr>, ''success'') else (st, ''error''))"

definition po_addPolicy_response :: "policy_table \<Rightarrow> bool \<Rightarrow> string \<Rightarrow> policy_table \<times> string" where
  "po_addPolicy_response st ok dat =
     (if ok then (st\<lparr>po_editing := None, po_old := JStr [], po_add := False\<rparr>,
                  if dat \<noteq> ''Affected'' then ''error'' else ''success'')
      else (st, ''error''))"

definition po_deletePolicy_response :: "policy_table \<Rightarrow> nat \<Rightarrow> bool \<Rightarrow> policy_table \<times> string" where
  "po_deletePolicy_response st index ok =
     (if ok then (po_deleteRow st index, ''success'') else (st, ''error''))"

text \<open>\<open>getPolicies\<close>: the answer's rows are numbered and replace the table.\<close>

fun numberPolicies :: "nat \<Rightarrow> jsval list \<Rightarrow> jsval list result" where
  "numberPolicies i [] = Return []"
| "numberPolicies i (p # ps) =
     bind_result (js_set p ''key'' (JNum (int i))) (\<lambda>row.
       bind_result (numberPolicies (Suc i) ps) (\<lambda>rows. Return (row # rows)))"

definition po_getPolicies :: "policy_table \<Rightarrow> policy_table" where
  "po_getPolicies st = st\<lparr>po_loading := True\<rparr>"

definition po_getPolicies_response :: "policy_table \<Rightarrow> bool \<Rightarrow> jsval list \<Rightarrow> policy_table result" where
  "po_getPolicies_response st ok rows =
     (if ok then bind_result (numberPolicies 0 rows)
        (\<lambda>t. Return (st\<lparr>po_count := length rows, po_lists := t, po_loading := False\<rparr>))
      else Return (st\<lparr>po_loading := False\<rparr>))"

definition po_onPageChange :: "policy_table \<Rightarrow> nat \<Rightarrow> policy_table" where
  "po_onPageChange st page = st\<lparr>po_page := page\<rparr>"

text \<open>A sequence of inputs into the fields of the row shown at an index.\<close>

fun po_inputs :: "policy_table \<Rightarrow> nat \<Rightarrow> (string \<times> jsval) list \<Rightarrow> policy_table result" where
  "po_inputs st index [] = Return st"
| "po_inputs st index ((k, v) # kvs) =
     bind_result (po_updateField st index k v) (\<lambda>st'. po_inputs st' index kvs)"

section \<open>Restoring a row\<close>

lemma restoreKeys_ok:
  assumes "is_obj old" "is_obj row"
  shows "\<exists>row'. restoreKeys ks old row = Return row' \<and> is_obj row'
    \<and> (\<forall>k. field row' k = (if k \<in> set ks then field old k else field row k))"
  using assms(2)
proof (induction ks arbitrary: row)
  case Nil
  then show ?case by simp
next
  case (Cons k ks)
  from js_set_obj [OF Cons.prems, of k "field old k"] obtain r where
    r: "js_set row k (field old k) = Return r" "is_obj r"
      "\<And>k'. field r k' = (if k' = k then field old k else field row k')" by blast
  from Cons.IH [OF r(2)] obtain row' where "restoreKeys ks old r = Return row'" "is_obj row'"
    "\<forall>k'. field row' k' = (if k' \<in> set ks then field old k' else field r k')" by blast
  with r show ?case using js_get_field [OF assms(1), of k] by auto
qed

lemma field_absent: "k \<notin> set (map fst ps) \<Longrightarrow> field (JObj ps) k = JUndefined"
  by (simp add: prop_of_def map_of_eq_None_iff [THEN iffD2])

text \<open>The keys of a row only grow while it is edited.\<close>

definition obj_keys :: "jsval \<Rightarrow> string set" where
  "obj_keys v = (case v of JObj ps \<Rightarrow> fst ` set ps | _ \<Rightarrow> {})"

lemma obj_keys_set: "js_set v k x = Return w \<Longrightarrow> obj_keys v \<subseteq> obj_keys w"
  by (cases v) (force simp: obj_keys_def dom_update)+

lemma field_no_key: "k \<notin> obj_keys v \<Longrightarrow> field v k = JUndefined"
  by (cases v) (auto simp: obj_keys_def field_def prop_of_def map_of_eq_None_iff [THEN iffD2])

lemma cancel_row:
  assumes "is_obj old" "is_obj row" "obj_keys old \<subseteq> obj_keys row"
  shows "\<exists>ks row'. objectKeys row = Return ks \<and> restoreKeys ks old row = Return row' \<and> is_obj row'
    \<and> (\<forall>k. field row' k = field old k)"
proof -
  from assms(2) obtain ps where row: "row = JObj ps" by (rule is_objE)
  from restoreKeys_ok [OF assms(1,2), of "map fst ps"] obtain row' where
    row': "restoreKeys (map fst ps) old row = Return row'" "is_obj row'"
    "\<And>k. field row' k = (if k \<in> set (map fst ps) then field old k else field row k)" by blast
  have "field row' k = field old k" for k
  proof (cases "k \<in> obj_keys row")
    case True
    then show ?thesis using row'(3) [of k] by (simp add: row obj_keys_def)
  next
    case False
    with assms(3) have "field old k = JUndefined" "field row k = JUndefined"
      by (auto intro: field_no_key)
    then show ?thesis using row'(3) [of k] by simp
  qed
  with row'(1,2) show ?thesis by (auto simp: row objectKeys_def)
qed

lemma po_inputs_ok:
  assumes "list_all is_obj (po_lists st)" "po_getIndex st index < length (po_lists st)"
  shows "\<exists>row. po_inputs st index kvs = Return (st\<lparr>po_lists := (po_lists st)[po_getIndex st index := row]\<rparr>)
    \<and> is_obj row \<and> obj_keys (po_lists st ! po_getIndex st index) \<subseteq> obj_keys row"
  using assms
proof (induction kvs arbitrary: st)
  case Nil
  then show ?case
    by (intro exI [of _ "po_lists st ! po_getIndex st index"]) (simp add: list_all_length)
next
  case (Cons kv kvs)
  obtain k v where kv: "kv = (k, v)" by (cases kv)
  let ?i = "po_getIndex st index"
  have "is_obj (po_lists st ! ?i)" using Cons.prems by (simp add: list_all_length)
  from js_set_obj [OF this, of k v] obtain r where
    r: "js_set (po_lists st ! ?i) k v = Return r" "is_obj r" by blast
  let ?st = "st\<lparr>po_lists := (po_lists st)[?i := r]\<rparr>"
  have "po_updateField st index k v = Return ?st"
    using r(1) Cons.prems(2) by (simp add: po_updateField_def setField_def po_updateTable_def)
  moreover have "po_getIndex ?st index = ?i" by (simp add: po_getIndex_def)
  moreover have "list_all is_obj (po_lists ?st)" using list_all_update [OF Cons.prems(1) r(2)] by simp
  moreover have "obj_keys (po_lists st ! ?i) \<subseteq> obj_keys r" using obj_keys_set [OF r(1)] .
  ultimately show ?case using Cons.IH [of ?st] Cons.prems(2) kv by auto
qed

lemma po_cancel_row:
  assumes "po_getIndex st index < length (po_lists st)" "is_obj (po_old st)"
    "is_obj (po_lists st ! po_getIndex st index)"
    "obj_keys (po_old st) \<subseteq> obj_keys (po_lists st ! po_getIndex st index)"
  shows "\<exists>row. (\<forall>k. field row k = field (po_old st) k)
    \<and> po_cancel st index = Return (let st1 = st\<lparr>po_lists := (po_lists st)[po_getIndex st index := row],
         po_editing := None, po_old := JStr []\<rparr> in
         if po_add st then (po_deleteRow st1 index)\<lparr>po_add := False\<rparr> else st1)"
proof -
  from cancel_row [OF assms(2-4)] obtain ks row where
    "objectKeys (po_lists st ! po_getIndex st index) = Return ks"
    "restoreKeys ks (po_old st) (po_lists st ! po_getIndex st index) = Return row"
    "\<forall>k. field row k = field (po_old st) k" by blast
  with assms(1) show ?thesis
    by (intro exI [of _ row]) (simp add: po_cancel_def Let_def po_updateTable_def)
qed

lemma policy_edit_cancel:
  fixes st :: policy_table and index :: nat
  defines "i \<equiv> po_getIndex st index"
  assumes "list_all is_obj (po_lists st)" "i < length (po_lists st)" "\<not> po_add st"
  obtains st1 st2 row where
    "po_inputs (po_edit st (po_lists st ! i) index) index kvs = Return st1"
    "po_cancel st1 index = Return st2" "po_editing st2 = None"
    "po_lists st2 = (po_lists st)[i := row]" "\<And>k. field row k = field (po_lists st ! i) k"
proof -
  let ?r = "po_lists st ! i"
  let ?e = "po_edit st ?r index"
  have e: "po_lists ?e = po_lists st" "po_getIndex ?e index = i" "po_old ?e = ?r"
    by (simp_all add: po_edit_def po_getIndex_def i_def)
  have obj: "is_obj ?r" using assms(2,3) by (simp add: list_all_length)
  from po_inputs_ok [of ?e index kvs] assms(2,3) obtain row where
    row: "po_inputs ?e index kvs = Return (?e\<lparr>po_lists := (po_lists st)[i := row]\<rparr>)"
      "is_obj row" "obj_keys ?r \<subseteq> obj_keys row" unfolding e by auto
  let ?s = "?e\<lparr>po_lists := (po_lists st)[i := row]\<rparr>"
  have s: "po_getIndex ?s index = i" "po_old ?s = ?r" "po_lists ?s = (po_lists st)[i := row]" "\<not> po_add ?s"
    using assms(4) by (simp_all add: po_edit_def po_getIndex_def i_def)
  have "i < length (po_lists ?s)" "is_obj (po_old ?s)" "is_obj (po_lists ?s ! i)"
    "obj_keys (po_old ?s) \<subseteq> obj_keys (po_lists ?s ! i)"
    using obj row(2,3) assms(3) by (simp_all only: s nth_list_update_eq length_list_update)
  from po_cancel_row [of ?s index, unfolded s(1), OF this] obtain row' where
    c: "\<And>k. field row' k = field ?r k"
    "po_cancel ?s index = Return (?s\<lparr>po_lists := (po_lists ?s)[i := row'], po_editing := None, po_old := JStr []\<rparr>)"
    using s(2,4) by (auto simp: Let_def)
  show thesis by (rule that [OF row(1) c(2) _ _ c(1)]) simp_all
qed

lemma policy_add_cancel:
  assumes "list_all is_obj (po_lists st)"
  obtains st1 st2 where "po_inputs (po_addRow st) 0 kvs = Return st1" "po_cancel st1 0 = Return st2"
    "po_editing st2 = None" "\<not> po_add st2" "po_lists st2 = po_lists st"
proof -
  let ?n = "JObj [(''key'', JNum (int (po_count st))), (''Ptype'', JStr ''p'')]"
  let ?a = "po_addRow st"
  have a: "po_lists ?a = ?n # po_lists st" "po_getIndex ?a 0 = 0" "po_old ?a = ?n" "po_add ?a" "po_page ?a = 1"
    by (simp_all add: po_addRow_def po_edit_def po_updateTable_def po_getIndex_def prependRow_def Let_def)
  from po_inputs_ok [of ?a 0 kvs] assms obtain row where
    row: "po_inputs ?a 0 kvs = Return (?a\<lparr>po_lists := row # po_lists st\<rparr>)"
      "is_obj row" "obj_keys ?n \<subseteq> obj_keys row" unfolding a by auto
  let ?s = "?a\<lparr>po_lists := row # po_lists st\<rparr>"
  have s: "po_getIndex ?s 0 = 0" "po_old ?s = ?n" "po_add ?s" "po_lists ?s = row # po_lists st"
    using a by (simp_all add: po_getIndex_def)
  from po_cancel_row [of ?s 0] row(2,3) obtain row' where
    c: "po_cancel ?s 0 = Return ((po_deleteRow (?s\<lparr>po_lists := row' # po_lists st, po_editing := None, po_old := JStr []\<rparr>) 0)\<lparr>po_add := False\<rparr>)"
    unfolding s by (auto simp: Let_def s(3))
  have "po_lists (po_deleteRow (?s\<lparr>po_lists := row' # po_lists st, po_editing := None, po_old := JStr []\<rparr>) 0) = po_lists st"
    using deleteRow_nat [of "row' # po_lists st" 0] a(5)
    by (simp add: po_deleteRow_def po_updateTable_def po_getIndex_def)
  then show thesis by (intro that [OF row(1) c]) (simp_all add: po_deleteRow_def po_updateTable_def)
qed

section \<open>Properties\<close>

text \<open>
  Cancelling the edit of a row, on any page and after any inputs, leaves every row as it was
  (each property of the edited row reads as before) and ends the edit; cancelling a new row removes
  it and leaves the table exactly as it was.
\<close>

lemma policy_cancel:
  assumes "list_all is_obj (po_lists st)" and "po_getIndex st index < length (po_lists st)"
    and "\<not> po_add st"
  shows "(\<exists>st1 st2. po_inputs (po_edit st (po_lists st ! po_getIndex st index) index) index kvs = Return st1
      \<and> po_cancel st1 index = Return st2 \<and> po_editing st2 = None
      \<and> (\<exists>row. po_lists st2 = (po_lists st)[po_getIndex st index := row]
           \<and> (\<forall>k. field row k = field (po_lists st ! po_getIndex st index) k)))
    \<and> (\<exists>st1 st2. po_inputs (po_addRow st) 0 kvs = Return st1 \<and> po_cancel st1 0 = Return st2
      \<and> po_editing st2 = None \<and> \<not> po_add st2 \<and> po_lists st2 = po_lists st)"
proof (rule conjI)
  show "\<exists>st1 st2. po_inputs (po_edit st (po_lists st ! po_getIndex st index) index) index kvs = Return st1
      \<and> po_cancel st1 index = Return st2 \<and> po_editing st2 = None
      \<and> (\<exists>row. po_lists st2 = (po_lists st)[po_getIndex st index := row]
           \<and> (\<forall>k. field row k = field (po_lists st ! po_getIndex st index) k))"
    by (rule policy_edit_cancel [OF assms, of kvs], intro exI conjI allI)
  show "\<exists>st1 st2. po_inputs (po_addRow st) 0 kvs = Return st1 \<and> po_cancel st1 0 = Return st2
      \<and> po_editing st2 = None \<and> \<not> po_add st2 \<and> po_lists st2 = po_lists st"
    by (rule policy_add_cancel [OF assms(1), of kvs], intro exI conjI)
qed

definition demo_policies :: policy_table where
  "demo_policies =
     PolicyTable\<lparr>po_lists := map (\<lambda>i. JObj [(''key'', JNum (int i)), (''V0'', JStr ''alice'')]) [0..<150],
       po_count := 150, po_page := 2\<rparr>"

lemma demo_policies_simps:
  "length (po_lists demo_policies) = 150" "po_getIndex demo_policies 3 = 103" "\<not> po_add demo_policies"
  "list_all is_obj (po_lists demo_policies)" "po_page demo_policies = 2"
  by (simp_all add: demo_policies_def PolicyTable_def po_getIndex_def po_pageSize_def list_all_iff)

lemma policy_cancel_example:
  "\<exists>st1 st2. po_inputs (po_addRow demo_policies) 0 [(''V0'', JStr ''bob'')] = Return st1
     \<and> po_cancel st1 0 = Return st2 \<and> po_editing st2 = None \<and> \<not> po_add st2
     \<and> po_lists st2 = po_lists demo_policies"
  using policy_cancel [of demo_policies 3 "[(''V0'', JStr ''bob'')]"]
  by (simp add: demo_policies_simps)

text \<open>
  Saving after an edit sends the row that was edited when the first page is shown. On a later
  page the index is not converted to a position of the whole table: the request pairs the old row
  with the row at that index of the first page, which was not edited.
\<close>

lemma policy_save_row:
  assumes "list_all is_obj (po_lists st)" and "po_getIndex st index < length (po_lists st)"
    and "\<not> po_add st" and "index < po_pageSize" and "1 \<le> po_page st"
    and "po_inputs (po_edit st (po_lists st ! po_getIndex st index) index) index kvs = Return st1"
  shows "po_save st1 index = UpdatePolicy (po_lists st ! po_getIndex st index)
      (if po_page st = 1 then po_lists st1 ! po_getIndex st index else po_lists st ! index)"
proof -
  let ?i = "po_getIndex st index"
  let ?e = "po_edit st (po_lists st ! ?i) index"
  have e: "po_lists ?e = po_lists st" "po_getIndex ?e index = ?i" by (simp_all add: po_edit_def po_getIndex_def)
  from po_inputs_ok [of ?e index kvs] assms(1,2,6) obtain row where
    st1: "st1 = ?e\<lparr>po_lists := (po_lists st)[?i := row]\<rparr>" unfolding e by auto
  have le: "index \<le> ?i" "index < length (po_lists st)" using assms(2) by (simp_all add: po_getIndex_def)
  have "po_save st1 index = UpdatePolicy (po_lists st ! ?i) ((po_lists st)[?i := row] ! index)"
    using assms(3) le by (simp add: st1 po_save_def po_updatePolicy_def po_edit_def)
  moreover have "?i = index \<longleftrightarrow> po_page st = 1"
    using assms(5) by (auto simp: po_getIndex_def po_pageSize_def)
  ultimately show ?thesis using le by (auto simp: st1 nth_list_update)
qed

lemma policy_save_row_example:
  "\<exists>st1. po_inputs (po_edit demo_policies (po_lists demo_policies ! 103) 3) 3 [(''V0'', JStr ''bob'')] = Return st1
     \<and> po_save st1 3 = UpdatePolicy (po_lists demo_policies ! 103) (po_lists demo_policies ! 3)"
proof -
  obtain st1 where st1: "po_inputs (po_edit demo_policies (po_lists demo_policies ! 103) 3) 3
      [(''V0'', JStr ''bob'')] = Return st1"
    using policy_edit_cancel [of demo_policies 3 "[(''V0'', JStr ''bob'')]"] by (auto simp: demo_policies_simps)
  with policy_save_row [of demo_policies 3 "[(''V0'', JStr ''bob'')]" st1] show ?thesis
    by (auto simp: demo_policies_simps po_pageSize_def)
qed

end
