(* ===== verification/Paginate_Select.thy ===== *)
theory Paginate_Select
  imports Js_Object
begin

text \<open>
  The paginated selection box (\<open>web/src/common/PaginateSelect.js\<close>): options are loaded page by page
  while the user scrolls, a search starts over, and an answer that comes late must not mix with the
  options of a newer search.

  The state holds the React state and the refs of the component, and the calls of \<open>loadPage\<close> that wait
  for their answer. The page size, the debounce time and the mapper are parameters; the answers are
  arbitrary. Values of options are primitive, so that \<open>Map\<close> compares them by value.
\<close>

section \<open>Options\<close>

record opt =
  op_label :: jsval
  op_value :: jsval

definition getOption :: "jsval \<Rightarrow> jsval \<Rightarrow> opt" where
  "getOption label v = \<lparr>op_label = label, op_value = v\<rparr>"

text \<open>\<open>a ?? b\<close>.\<close>

definition js_coalesce :: "jsval \<Rightarrow> jsval \<Rightarrow> jsval" where
  "js_coalesce a b = (if a = JUndefined \<or> a = JNull then b else a)"

definition defaultOptionMapper :: "jsval \<Rightarrow> opt option result" where
  "defaultOptionMapper item =
     (case item of
        JNull \<Rightarrow> Return None
      | JStr s \<Rightarrow> Return (Some (getOption item item))
      | JUndefined \<Rightarrow> Throw TypeError
      | _ \<Rightarrow>
         (let v = js_coalesce (field item ''value'') (js_coalesce (field item ''name'')
                    (js_coalesce (field item ''id'') (field item ''key'')));
              label = js_coalesce (field item ''label'') (js_coalesce (field item ''displayName'') v) in
          if v = JUndefined then Return None else Return (Some (getOption label v))))"

text \<open>\<open>items.map(mapper).filter(Boolean)\<close>.\<close>

fun map_items :: "(jsval \<Rightarrow> opt option result) \<Rightarrow> jsval list \<Rightarrow> opt list result" where
  "map_items mapper [] = Return []"
| "map_items mapper (x # xs) =
     bind_result (mapper x) (\<lambda>m.
     bind_result (map_items mapper xs) (\<lambda>os. Return (case m of None \<Rightarrow> os | Some p \<Rightarrow> p # os)))"

definition extractItems :: "jsval \<Rightarrow> jsval list" where
  "extractItems response =
     (case response of JArr xs \<Rightarrow> xs
      | _ \<Rightarrow> (case field response ''items'' of JArr xs \<Rightarrow> xs
         | _ \<Rightarrow> (case field response ''data'' of JArr xs \<Rightarrow> xs
            | _ \<Rightarrow> (case field response ''list'' of JArr xs \<Rightarrow> xs | _ \<Rightarrow> []))))"

text \<open>
  \<open>mergeOptions\<close>: the index of a value is its last position; a known value is replaced in its place,
  a new one is appended.
\<close>

fun index_values :: "opt list \<Rightarrow> nat \<Rightarrow> (jsval \<rightharpoonup> nat) \<Rightarrow> (jsval \<rightharpoonup> nat)" where
  "index_values [] idx ix = ix"
| "index_values (p # ps) idx ix =
     index_values ps (Suc idx) (if op_value p \<noteq> JUndefined then ix(op_value p \<mapsto> idx) else ix)"

fun merge_next :: "opt list \<Rightarrow> opt list \<Rightarrow> (jsval \<rightharpoonup> nat) \<Rightarrow> opt list" where
  "merge_next [] merged ix = merged"
| "merge_next (p # ps) merged ix =
     (let v = op_value p in
      if v = JUndefined then merge_next ps (merged @ [p]) ix
      else case ix v of
             Some i \<Rightarrow> merge_next ps (merged[i := p]) ix
           | None \<Rightarrow> merge_next ps (merged @ [p]) (ix(v \<mapsto> length merged)))"

definition mergeOptions :: "opt list \<Rightarrow> opt list \<Rightarrow> bool \<Rightarrow> opt list" where
  "mergeOptions prev next reset =
     (if reset then next else merge_next next prev (index_values prev 0 Map.empty))"

section \<open>Loading\<close>

record request =
  rq_id :: nat
  rq_page :: nat
  rq_reset :: bool
  rq_search :: string

text \<open>
  \<open>sl_accepted\<close> records the answers that reached the list, with the search and the page they were
  asked for; the code does not read it.
\<close>

record select =
  sl_options :: "opt list"
  sl_hasMore :: bool
  sl_loading :: bool
  sl_debounce :: "string option"     \<comment> \<open>the search the running timer will start\<close>
  sl_search :: string                \<comment> \<open>\<open>latestSearchRef\<close>\<close>
  sl_loadingRef :: bool
  sl_requestId :: nat
  sl_page :: nat
  sl_flight :: "request list"
  sl_accepted :: "(request \<times> opt list) list"

definition blank_select :: select where
  "blank_select = \<lparr>sl_options = [], sl_hasMore = True, sl_loading = False, sl_debounce = None, sl_search = [],
     sl_loadingRef = False, sl_requestId = 0, sl_page = 0, sl_flight = [], sl_accepted = []\<rparr>"

definition loadPage :: "nat \<Rightarrow> bool \<Rightarrow> string \<Rightarrow> select \<Rightarrow> select" where
  "loadPage pageToLoad reset search s =
     (if sl_loadingRef s \<and> \<not> reset then s
      else let current = sl_requestId s + 1 in
        s\<lparr>sl_requestId := current, sl_loadingRef := True, sl_loading := True,
          sl_flight := sl_flight s @ [\<lparr>rq_id = current, rq_page = pageToLoad, rq_reset = reset, rq_search = search\<rparr>]\<rparr>)"

definition resetAndLoad :: "string \<Rightarrow> select \<Rightarrow> select" where
  "resetAndLoad search s =
     loadPage 1 True search
       (s\<lparr>sl_search := search, sl_options := [], sl_hasMore := True, sl_page := 0, sl_accepted := []\<rparr>)"

definition stop_loading :: "select \<Rightarrow> select" where
  "stop_loading s = s\<lparr>sl_loadingRef := False, sl_loading := False\<rparr>"

definition more_pages :: "nat \<Rightarrow> nat \<Rightarrow> jsval \<Rightarrow> nat \<Rightarrow> bool" where
  "more_pages pageSize pageToLoad payload n_mapped =
     (case field payload ''hasMore'' of
        JBool b \<Rightarrow> b
      | _ \<Rightarrow> (case field payload ''total'' of
               JNum n \<Rightarrow> int (pageToLoad * pageSize) < n
             | _ \<Rightarrow> n_mapped = pageSize))"

text \<open>The rest of \<open>loadPage\<close> once \<open>await fetcher(...)\<close> has returned.\<close>

definition page_loaded ::
  "nat \<Rightarrow> (jsval \<Rightarrow> opt option result) \<Rightarrow> request \<Rightarrow> jsval \<Rightarrow> select \<Rightarrow> select" where
  "page_loaded pageSize mapper r payload s =
     (if rq_id r \<noteq> sl_requestId s then s
      else if js_bool (field payload ''status'') \<and> field payload ''status'' \<noteq> JStr ''ok''
      then stop_loading (s\<lparr>sl_hasMore := False\<rparr>)
      else case map_items mapper (extractItems payload) of
        Throw e \<Rightarrow> stop_loading s
      | Return mapped \<Rightarrow>
          stop_loading (s\<lparr>sl_options := mergeOptions (sl_options s) mapped (rq_reset r), sl_page := rq_page r,
            sl_hasMore := more_pages pageSize (rq_page r) payload (length mapped),
            sl_accepted := sl_accepted s @ [(r, mapped)]\<rparr>))"

definition page_failed :: "request \<Rightarrow> select \<Rightarrow> select" where
  "page_failed r s = (if rq_id r = sl_requestId s then stop_loading s else s)"

section \<open>Events\<close>

datatype select_event =
    SearchTyped string
  | TimerElapsed
  | Reloaded
  | ScrolledToBottom
  | PageAnswered nat jsval
  | PageFailed nat

definition drop_request :: "nat \<Rightarrow> select \<Rightarrow> select" where
  "drop_request j s = s\<lparr>sl_flight := take j (sl_flight s) @ drop (Suc j) (sl_flight s)\<rparr>"

definition handleSearch :: "nat \<Rightarrow> string \<Rightarrow> select \<Rightarrow> select" where
  "handleSearch debounceMs v s =
     (if debounceMs = 0 then resetAndLoad v (s\<lparr>sl_debounce := None\<rparr>) else s\<lparr>sl_debounce := Some v\<rparr>)"

definition handlePopupScroll :: "select \<Rightarrow> select" where
  "handlePopupScroll s =
     (if sl_loadingRef s \<or> \<not> sl_hasMore s then s else loadPage (sl_page s + 1) False (sl_search s) s)"

definition select_step ::
  "nat \<Rightarrow> nat \<Rightarrow> (jsval \<Rightarrow> opt option result) \<Rightarrow> select \<Rightarrow> select_event \<Rightarrow> select option" where
  "select_step pageSize debounceMs mapper s e =
     (case e of
        SearchTyped v \<Rightarrow> Some (handleSearch debounceMs v s)
      | TimerElapsed \<Rightarrow> map_option (\<lambda>v. resetAndLoad v (s\<lparr>sl_debounce := None\<rparr>)) (sl_debounce s)
      | Reloaded \<Rightarrow> Some (resetAndLoad [] (s\<lparr>sl_debounce := None\<rparr>))
      | ScrolledToBottom \<Rightarrow> Some (handlePopupScroll s)
      | PageAnswered j payload \<Rightarrow>
          (if j < length (sl_flight s)
           then Some (page_loaded pageSize mapper (sl_flight s ! j) payload (drop_request j s)) else None)
      | PageFailed j \<Rightarrow>
          (if j < length (sl_flight s) then Some (page_failed (sl_flight s ! j) (drop_request j s)) else None))"

definition mounted_select :: select where
  "mounted_select = resetAndLoad [] blank_select"

inductive select_reachable ::
  "nat \<Rightarrow> nat \<Rightarrow> (jsval \<Rightarrow> opt option result) \<Rightarrow> select \<Rightarrow> bool" for pageSize debounceMs mapper where
  mounted: "select_reachable pageSize debounceMs mapper mounted_select"
| stepped: "select_reachable pageSize debounceMs mapper s \<Longrightarrow> select_step pageSize debounceMs mapper s e = Some t \<Longrightarrow>
    select_reachable pageSize debounceMs mapper t"

fun select_run ::
  "nat \<Rightarrow> nat \<Rightarrow> (jsval \<Rightarrow> opt option result) \<Rightarrow> select \<Rightarrow> select_event list \<Rightarrow> select option" where
  "select_run pageSize debounceMs mapper s [] = Some s"
| "select_run pageSize debounceMs mapper s (e # es) =
     (case select_step pageSize debounceMs mapper s e of
        None \<Rightarrow> None
      | Some t \<Rightarrow> select_run pageSize debounceMs mapper t es)"

lemma select_run_reachable:
  "select_reachable pageSize debounceMs mapper s \<Longrightarrow> select_run pageSize debounceMs mapper s es = Some t \<Longrightarrow>
   select_reachable pageSize debounceMs mapper t"
  by (induction es arbitrary: s) (auto split: option.splits intro: select_reachable.stepped)

section \<open>The list is the merge of the pages of the latest search\<close>

definition shown_pages :: "(request \<times> opt list) list \<Rightarrow> opt list" where
  "shown_pages acc = foldl (\<lambda>os (r, page). mergeOptions os page (rq_reset r)) [] acc"

definition select_ok :: "select \<Rightarrow> bool" where
  "select_ok s =
     (sl_options s = shown_pages (sl_accepted s)
      \<and> map (rq_page \<circ> fst) (sl_accepted s) = [1..<Suc (sl_page s)]
      \<and> (\<forall>a \<in> set (sl_accepted s). rq_search (fst a) = sl_search s)
      \<and> sl_loading s = sl_loadingRef s
      \<and> sl_loadingRef s = (\<exists>r \<in> set (sl_flight s). rq_id r = sl_requestId s)
      \<and> distinct (map rq_id (sl_flight s)) \<and> (\<forall>r \<in> set (sl_flight s). rq_id r \<le> sl_requestId s)
      \<and> (\<forall>r \<in> set (sl_flight s). rq_id r = sl_requestId s \<longrightarrow>
           rq_search r = sl_search s \<and> rq_page r = Suc (sl_page s)))"

lemma select_ok_reset:
  "distinct (map rq_id (sl_flight s)) \<Longrightarrow> \<forall>r \<in> set (sl_flight s). rq_id r \<le> sl_requestId s \<Longrightarrow>
   select_ok (resetAndLoad v s)"
  by (fastforce simp: select_ok_def resetAndLoad_def loadPage_def Let_def shown_pages_def)

lemma select_ok_scroll:
  assumes "select_ok s"
  shows "select_ok (handlePopupScroll s)"
proof (cases "sl_loadingRef s \<or> \<not> sl_hasMore s")
  case False
  with assms show ?thesis
    by (fastforce simp: select_ok_def handlePopupScroll_def loadPage_def Let_def)
qed (use assms in \<open>simp add: handlePopupScroll_def\<close>)

text \<open>An answered request leaves the ones in flight; if it was the current one, nothing is loading.\<close>

lemma select_ok_drop:
  assumes "select_ok s" "j < length (sl_flight s)" "r = sl_flight s ! j"
  shows "if rq_id r = sl_requestId s
    then (\<forall>q \<in> set (sl_flight (drop_request j s)). rq_id q \<noteq> sl_requestId s)
      \<and> rq_search r = sl_search s \<and> rq_page r = Suc (sl_page s)
    else select_ok (drop_request j s)"
    and "distinct (map rq_id (sl_flight (drop_request j s)))"
    and "\<forall>q \<in> set (sl_flight (drop_request j s)). rq_id q \<le> sl_requestId s"
proof -
  obtain xs ys where f: "sl_flight s = xs @ r # ys" "sl_flight (drop_request j s) = xs @ ys"
    using id_take_nth_drop [OF assms(2)] assms(3) by (auto simp: drop_request_def)
  show "distinct (map rq_id (sl_flight (drop_request j s)))"
    and "\<forall>q \<in> set (sl_flight (drop_request j s)). rq_id q \<le> sl_requestId s"
    using assms(1) by (auto simp: select_ok_def f)
  show "if rq_id r = sl_requestId s
    then (\<forall>q \<in> set (sl_flight (drop_request j s)). rq_id q \<noteq> sl_requestId s)
      \<and> rq_search r = sl_search s \<and> rq_page r = Suc (sl_page s)
    else select_ok (drop_request j s)"
  proof (cases "rq_id r = sl_requestId s")
    case True
    have "distinct (map rq_id (xs @ r # ys))" using assms(1) by (simp add: select_ok_def f)
    with True have "\<forall>q \<in> set (xs @ ys). rq_id q \<noteq> sl_requestId s"
      by (metis (no_types, lifting) distinct.simps(2) distinct_append image_eqI list.simps(9) map_append
          not_distinct_conv_prefix set_append set_map Un_iff list.set_intros(1) disjoint_iff)
    with True assms(1) show ?thesis by (simp add: select_ok_def f)
  next
    case False
    have "sl_flight (s\<lparr>sl_flight := xs @ ys\<rparr>) = xs @ ys" by simp
    moreover have "drop_request j s = s\<lparr>sl_flight := xs @ ys\<rparr>" using f(2) by (simp add: drop_request_def)
    ultimately show ?thesis using False assms(1) by (auto simp: select_ok_def f)
  qed
qed

lemma select_ok_stop:
  assumes "select_ok s" "j < length (sl_flight s)" "r = sl_flight s ! j" "rq_id r = sl_requestId s"
  shows "select_ok (stop_loading (drop_request j s))"
    and "select_ok (stop_loading ((drop_request j s)\<lparr>sl_hasMore := b\<rparr>))"
  using select_ok_drop [OF assms(1-3)] assms(1,4)
  by (auto simp: select_ok_def stop_loading_def drop_request_def)

lemma select_ok_accept:
  assumes "select_ok s" "j < length (sl_flight s)" "r = sl_flight s ! j" "rq_id r = sl_requestId s"
  shows "select_ok (stop_loading ((drop_request j s)\<lparr>
      sl_options := mergeOptions (sl_options s) mapped (rq_reset r), sl_page := rq_page r,
      sl_hasMore := b, sl_accepted := sl_accepted s @ [(r, mapped)]\<rparr>))"
proof -
  have r: "rq_search r = sl_search s" "rq_page r = Suc (sl_page s)"
    using select_ok_drop(1) [OF assms(1-3)] assms(4) by simp_all
  have "\<forall>q \<in> set (sl_flight (drop_request j s)). rq_id q \<noteq> sl_requestId s"
    using select_ok_drop(1) [OF assms(1-3)] assms(4) by simp
  then show ?thesis
    using select_ok_drop(2,3) [OF assms(1-3)] assms(1) r
    by (simp add: select_ok_def stop_loading_def drop_request_def shown_pages_def)
qed

lemma select_ok_answer:
  assumes "select_ok s" "j < length (sl_flight s)"
  shows "select_ok (page_loaded pageSize mapper (sl_flight s ! j) payload (drop_request j s))"
proof (cases "rq_id (sl_flight s ! j) = sl_requestId s")
  case True
  have "sl_requestId (drop_request j s) = sl_requestId s" "sl_options (drop_request j s) = sl_options s"
    "sl_accepted (drop_request j s) = sl_accepted s" by (simp_all add: drop_request_def)
  then show ?thesis
    using select_ok_stop [OF assms refl True] select_ok_accept [OF assms refl True] True
    by (auto simp: page_loaded_def split: sum.splits)
next
  case False
  then show ?thesis
    using select_ok_drop(1) [OF assms refl] by (simp add: page_loaded_def drop_request_def)
qed

lemma select_ok_failed:
  assumes "select_ok s" "j < length (sl_flight s)"
  shows "select_ok (page_failed (sl_flight s ! j) (drop_request j s))"
  using select_ok_stop(1) [OF assms refl] select_ok_drop(1) [OF assms refl]
  by (simp add: page_failed_def drop_request_def split: if_splits)

lemma select_ok_debounce: "select_ok (s\<lparr>sl_debounce := d\<rparr>) = select_ok s"
  by (simp add: select_ok_def)

lemma select_ok_again: "select_ok s \<Longrightarrow> select_ok (resetAndLoad v (s\<lparr>sl_debounce := d\<rparr>))"
  by (intro select_ok_reset) (simp_all add: select_ok_def)

lemma select_ok_step: "select_ok s \<Longrightarrow> select_step pageSize debounceMs mapper s e = Some t \<Longrightarrow> select_ok t"
  by (cases e)
    (auto simp: select_step_def handleSearch_def select_ok_again select_ok_scroll select_ok_debounce select_ok_answer
      select_ok_failed split: if_splits)

lemma select_reachable_ok: "select_reachable pageSize debounceMs mapper s \<Longrightarrow> select_ok s"
proof (induction rule: select_reachable.induct)
  case mounted
  show ?case unfolding mounted_select_def by (rule select_ok_reset) (simp_all add: blank_select_def)
next
  case (stepped s e t)
  then show ?case by (blast intro: select_ok_step)
qed

section \<open>Merging is updating by value\<close>

definition keyed :: "opt list \<Rightarrow> (jsval \<times> opt) list" where
  "keyed os = map (\<lambda>p. (op_value p, p)) os"

definition indexes :: "(jsval \<rightharpoonup> nat) \<Rightarrow> opt list \<Rightarrow> bool" where
  "indexes ix os = (\<forall>v i. ix v = Some i \<longleftrightarrow> i < length os \<and> op_value (os ! i) = v)"

lemma update_keyed_old:
  "distinct (map op_value os) \<Longrightarrow> i < length os \<Longrightarrow> op_value (os ! i) = op_value p \<Longrightarrow>
   AList.update (op_value p) p (keyed os) = keyed (os[i := p])"
proof (induction os arbitrary: i)
  case (Cons q os)
  show ?case
  proof (cases i)
    case (Suc k)
    with Cons.prems have "op_value q \<noteq> op_value p" by (metis distinct.simps(2) list.simps(9) nth_Cons_Suc length_Cons Suc_less_eq nth_map nth_mem length_map)
    with Cons Suc show ?thesis by (simp add: keyed_def)
  qed (use Cons.prems in \<open>simp add: keyed_def\<close>)
qed simp

lemma update_keyed_new:
  "op_value p \<notin> op_value ` set os \<Longrightarrow> AList.update (op_value p) p (keyed os) = keyed (os @ [p])"
  by (induction os) (auto simp: keyed_def)

lemma indexes_old: "indexes ix os \<Longrightarrow> op_value (os ! i) = op_value p \<Longrightarrow> i < length os \<Longrightarrow> indexes ix (os[i := p])"
  by (auto simp: indexes_def nth_list_update)

lemma indexes_new:
  assumes "indexes ix os" "ix (op_value p) = None"
  shows "indexes (ix(op_value p \<mapsto> length os)) (os @ [p])"
proof -
  have "op_value (os ! i) \<noteq> op_value p" if "i < length os" for i
    using assms that by (metis indexes_def option.distinct(1))
  with assms(1) show ?thesis by (auto simp: indexes_def nth_append less_Suc_eq)
qed

lemma indexes_None: "indexes ix os \<Longrightarrow> ix v = None \<longleftrightarrow> v \<notin> op_value ` set os"
  unfolding indexes_def by (metis (no_types, lifting) imageE image_eqI in_set_conv_nth not_None_eq option.distinct(1))

lemma merge_next_update:
  assumes "indexes ix merged" "distinct (map op_value merged)" "\<forall>p \<in> set ps. op_value p \<noteq> JUndefined"
  shows "keyed (merge_next ps merged ix) = fold (\<lambda>p. AList.update (op_value p) p) ps (keyed merged)
    \<and> distinct (map op_value (merge_next ps merged ix))"
  using assms
proof (induction ps arbitrary: merged ix)
  case (Cons p ps)
  show ?case
  proof (cases "ix (op_value p)")
    case None
    then have new: "op_value p \<notin> op_value ` set merged" using indexes_None Cons.prems(1) by blast
    with Cons.IH [OF indexes_new [OF Cons.prems(1) None]] Cons.prems None show ?thesis
      by (simp add: update_keyed_new del: fun_upd_apply)
  next
    case (Some i)
    then have i: "i < length merged" "op_value (merged ! i) = op_value p"
      using Cons.prems(1) by (auto simp: indexes_def)
    then have "map op_value (merged[i := p]) = map op_value merged"
      by (simp add: map_update list_update_same_conv)
    with Cons.IH [OF indexes_old [OF Cons.prems(1) i(2,1)]] Cons.prems Some i show ?thesis
      by (simp add: update_keyed_old)
  qed
qed simp

lemma index_values_indexes:
  assumes "indexes ix done" "distinct (map op_value (done @ os))" "\<forall>p \<in> set os. op_value p \<noteq> JUndefined"
  shows "indexes (index_values os (length done) ix) (done @ os)"
  using assms
proof (induction os arbitrary: "done" ix)
  case (Cons p os)
  then have "ix (op_value p) = None" using indexes_None by fastforce
  from Cons.IH [OF indexes_new [OF Cons.prems(1) this]] Cons.prems show ?case
    by (simp add: fun_upd_def)
qed simp

section \<open>Properties\<close>

text \<open>
  C17. A late answer never reaches the list. Whatever the user types and scrolls and in whatever order
  the server answers, fails or is overtaken, the options on the screen are the merge of the pages
  one to \<open>pageRef\<close>, in this order and each once, of the latest search, and the box shows that it is
  loading exactly while the current request has not been answered.
\<close>

theorem select_shows_latest_search:
  assumes "select_reachable pageSize debounceMs mapper s"
  shows "sl_options s = shown_pages (sl_accepted s)
    \<and> map (rq_page \<circ> fst) (sl_accepted s) = [1..<Suc (sl_page s)]
    \<and> list_all (\<lambda>a. rq_search (fst a) = sl_search s) (sl_accepted s)
    \<and> sl_loading s = list_ex (\<lambda>r. rq_id r = sl_requestId s) (sl_flight s)"
  using select_reachable_ok [OF assms] by (simp add: select_ok_def list_all_iff list_ex_iff)

theorem select_shows_latest_search_witness:
  "\<exists>s. select_run 25 0 defaultOptionMapper mounted_select
       [SearchTyped ''b'', PageAnswered 1 (JArr [JStr ''b1'']), PageAnswered 0 (JArr [JStr ''a1''])] = Some s
     \<and> sl_options s = shown_pages (sl_accepted s) \<and> sl_options s = [getOption (JStr ''b1'') (JStr ''b1'')]"
proof -
  let ?es = "[SearchTyped ''b'', PageAnswered 1 (JArr [JStr ''b1'']), PageAnswered 0 (JArr [JStr ''a1''])]"
  have "select_run 25 0 defaultOptionMapper mounted_select ?es \<noteq> None" by code_simp
  then obtain s where s: "select_run 25 0 defaultOptionMapper mounted_select ?es = Some s" by blast
  have "select_reachable 25 0 defaultOptionMapper s"
    by (rule select_run_reachable [OF select_reachable.mounted s])
  from select_shows_latest_search [OF this] have "sl_options s = shown_pages (sl_accepted s)" by blast
  moreover have "map_option sl_options (select_run 25 0 defaultOptionMapper mounted_select ?es) =
      Some [getOption (JStr ''b1'') (JStr ''b1'')]" by code_simp
  ultimately show ?thesis using s by simp
qed

text \<open>
  Merging a page is an update by value. For options with distinct values, \<open>mergeOptions\<close> with its
  index of positions computes what updating an association list by value computes: a known value is
  replaced where it stands, a new one comes last, and the values stay distinct.
\<close>

lemma merge_options_by_value:
  assumes "distinct (map op_value prev)" "list_all (\<lambda>p. op_value p \<noteq> JUndefined) (prev @ new)"
  shows "mergeOptions prev new False =
      map snd (fold (\<lambda>p. AList.update (op_value p) p) new (map (\<lambda>p. (op_value p, p)) prev))
    \<and> distinct (map op_value (mergeOptions prev new False))"
proof -
  have "indexes (index_values prev 0 Map.empty) prev"
    using index_values_indexes [of Map.empty "[]" prev] assms by (simp add: indexes_def list_all_iff)
  from merge_next_update [OF this assms(1), of new]
  have "keyed (mergeOptions prev new False) = fold (\<lambda>p. AList.update (op_value p) p) new (keyed prev)
    \<and> distinct (map op_value (mergeOptions prev new False))"
    using assms(2) by (simp add: mergeOptions_def list_all_iff)
  moreover have "map snd (keyed os) = os" for os by (induction os) (simp_all add: keyed_def)
  ultimately show ?thesis by (metis keyed_def)
qed

lemma merge_options_by_value_example:
  "distinct (map op_value (mergeOptions [getOption (JStr ''x'') (JStr ''1''), getOption (JStr ''y'') (JStr ''2'')]
     [getOption (JStr ''z'') (JStr ''1''), getOption (JStr ''w'') (JStr ''3'')] False))"
  using merge_options_by_value [of "[getOption (JStr ''x'') (JStr ''1''), getOption (JStr ''y'') (JStr ''2'')]"
      "[getOption (JStr ''z'') (JStr ''1''), getOption (JStr ''w'') (JStr ''3'')]"]
  by (simp add: getOption_def)

end
