(* ===== verification/Session_Graph.thy ===== *)
theory Session_Graph
  imports Web_Platform "HOL-Library.Multiset"
begin

text \<open>
  \<open>web/src/OpenClawSessionGraphUtils.js\<close>, first half: the nodes of a session graph, the texts, colours
  and widths with which they are shown, and their order. The layout is in the theory
  \<open>Session_Layout\<close>.

  \<open>Date.parse\<close> and \<open>localeCompare\<close> depend on the browser and its locale; they are the record
  \<open>clock\<close>. A property that the server leaves out is \<^term>\<open>None\<close>.
\<close>

section \<open>Data\<close>

record graph_node =
  gn_id :: string
  gn_kind :: "string option"
  gn_timestamp :: "string option"
  gn_summary :: "string option"
  gn_tool :: "string option"
  gn_query :: "string option"
  gn_url :: "string option"
  gn_path :: "string option"
  gn_error :: "string option"
  gn_ok :: "bool option"
  gn_isAnchor :: bool
  gn_originalParentId :: "string option"

record graph_edge =
  ge_source :: string
  ge_target :: string

record session_graph =
  sg_nodes :: "graph_node list option"
  sg_edges :: "graph_edge list option"

definition empty_node :: graph_node where
  "empty_node = \<lparr>gn_id = [], gn_kind = None, gn_timestamp = None, gn_summary = None, gn_tool = None,
     gn_query = None, gn_url = None, gn_path = None, gn_error = None, gn_ok = None,
     gn_isAnchor = False, gn_originalParentId = None\<rparr>"

section \<open>Texts\<close>

lemma length_dropWhile_Suc [termination_simp]: "length (dropWhile P xs) < Suc (length xs)"
  by (simp add: less_Suc_eq_le length_dropWhile_le)

text \<open>The characters of a string, \<open>Array.from(s)\<close>: a first byte with the continuation bytes after it.\<close>

fun js_chars :: "string \<Rightarrow> string list" where
  "js_chars [] = []"
| "js_chars (c # s) = (c # takeWhile utf8_cont s) # js_chars (dropWhile utf8_cont s)"

lemma concat_js_chars: "concat (js_chars s) = s"
  by (induction s rule: js_chars.induct) simp_all

text \<open>\<open>replace(/\s+/g, " ")\<close>: every run of white space becomes one space.\<close>

fun squeeze :: "string \<Rightarrow> string" where
  "squeeze [] = []"
| "squeeze (c # s) =
     (if is_space c then CHR '' '' # squeeze (dropWhile is_space s) else c # squeeze s)"

definition normalizeText :: "string option \<Rightarrow> string" where
  "normalizeText value = js_trim (squeeze (js_nullish value))"

definition clampNumber :: "int \<Rightarrow> int \<Rightarrow> int \<Rightarrow> int" where
  "clampNumber value lo hi = min (max value lo) hi"

text \<open>The first code unit of a character is above 255 exactly when its first byte is above 195.\<close>

definition getVisualTextLength :: "string \<Rightarrow> int" where
  "getVisualTextLength text =
     foldl (\<lambda>len ch. len + (case ch of c # _ \<Rightarrow> if of_char c > (195::nat) then 2 else 1 | [] \<Rightarrow> 0)) 0
       (js_chars text)"

definition truncateNodeLabelText :: "string option \<Rightarrow> nat \<Rightarrow> string" where
  "truncateNodeLabelText value maxLength =
     (let normalized = normalizeText value in
      if normalized = [] then ''-''
      else let characters = js_chars normalized in
        if length characters \<le> maxLength then normalized
        else concat (take (max 1 (maxLength - 3)) characters) @ ''...'')"

definition isJoin :: "graph_node \<Rightarrow> bool" where
  "isJoin node = (gn_kind node = Some ''join'')"

definition getAdaptiveNodeWidth :: "graph_node \<Rightarrow> string \<Rightarrow> string \<Rightarrow> int" where
  "getAdaptiveNodeWidth node title subtitle =
     (let minWidth = (if isJoin node then 120 else 230);
          maxWidth = (if isJoin node then 180 else 420);
          targetLength = max (getVisualTextLength title) (getVisualTextLength subtitle);
          estimatedWidth = (if isJoin node then 80 + targetLength * 3
                            else 160 + max 0 (targetLength - 10) * 4) in
      clampNumber estimatedWidth minWidth maxWidth)"

definition stripLeadingPrefix :: "string option \<Rightarrow> string \<Rightarrow> string" where
  "stripLeadingPrefix text pfx =
     (let normalizedText = normalizeText text; normalizedPrefix = normalizeText (Some pfx) in
      if normalizedText = [] \<or> normalizedPrefix = [] then normalizedText
      else if js_startsWith (js_lower normalizedText) (js_lower normalizedPrefix)
      then js_trim (drop (length normalizedPrefix) normalizedText)
      else normalizedText)"

text \<open>\<open>a || b || ..\<close> over optional strings.\<close>

fun first_truthy :: "string option list \<Rightarrow> string \<Rightarrow> string" where
  "first_truthy [] d = d"
| "first_truthy (v # vs) d = (if js_truthy v then js_nullish v else first_truthy vs d)"

definition getOpenClawNodeTarget :: "graph_node \<Rightarrow> string" where
  "getOpenClawNodeTarget node =
     first_truthy [gn_query node, gn_url node, gn_path node, gn_tool node] []"

text \<open>
  The match of \<open>/^(\d+\s+tool calls?)(?:\s*:\s*.+)?$/i\<close>, with its first group. The text is normalised,
  so no line break stops the dot.
\<close>

definition toolCallsGroup :: "string \<Rightarrow> string option" where
  "toolCallsGroup s =
     (let ds = takeWhile is_digit s; r1 = dropWhile is_digit s;
          ws = takeWhile is_space r1; r2 = dropWhile is_space r1 in
      if ds = [] \<or> ws = [] \<or> \<not> js_startsWith (js_lower r2) ''tool call'' then None
      else
        let n = (if js_startsWith (js_lower r2) ''tool calls'' then 10 else 9);
            r3 = drop n r2; r4 = dropWhile is_space r3 in
        if r3 = [] \<or> (case r4 of c # r5 \<Rightarrow> c = CHR '':'' \<and> r5 \<noteq> [] | [] \<Rightarrow> False)
        then Some (ds @ ws @ take n r2) else None)"

definition getAssistantStepTitle :: "graph_node \<Rightarrow> string" where
  "getAssistantStepTitle node =
     (let summary = normalizeText (gn_summary node) in
      case toolCallsGroup summary of
        Some g \<Rightarrow> g
      | None \<Rightarrow> first_truthy [Some summary, Some (gn_id node)] ''-'')"

definition getToolCallTitle :: "graph_node \<Rightarrow> string" where
  "getToolCallTitle node =
     (let target = normalizeText (Some (getOpenClawNodeTarget node)) in
      if target \<noteq> [] then target
      else
        let pfx = (if js_truthy (gn_tool node) then js_nullish (gn_tool node) @ '':'' else []) in
        first_truthy [Some (stripLeadingPrefix (gn_summary node) pfx),
          Some (normalizeText (gn_summary node)), Some (gn_id node)] ''-'')"

definition getToolResultTitle :: "graph_node \<Rightarrow> string" where
  "getToolResultTitle node =
     (let target = normalizeText (Some (getOpenClawNodeTarget node)) in
      if target \<noteq> [] then target
      else if gn_ok node = Some False \<and> js_truthy (gn_error node) then normalizeText (gn_error node)
      else
        let pfx = (if js_truthy (gn_tool node)
              then js_nullish (gn_tool node) @ '' '' @ (if gn_ok node = Some False then ''failed'' else ''ok'') @ '':''
              else []) in
        first_truthy [Some (stripLeadingPrefix (gn_summary node) pfx),
          Some (normalizeText (gn_summary node)), Some (gn_id node)] ''-'')"

definition getNodeTitle :: "graph_node \<Rightarrow> string" where
  "getNodeTitle node =
     (if gn_kind node = Some ''assistant_step'' then getAssistantStepTitle node
      else if gn_kind node = Some ''tool_call'' then getToolCallTitle node
      else if gn_kind node = Some ''tool_result'' then getToolResultTitle node
      else if gn_kind node = Some ''join'' then ''join''
      else first_truthy [Some (normalizeText (gn_summary node)), Some (gn_id node)] ''-'')"

definition getNodeSubtitle :: "graph_node \<Rightarrow> string" where
  "getNodeSubtitle node =
     (if gn_kind node = Some ''assistant_step'' then
        let parts = js_split (normalizeText (gn_summary node)) '':'';
            detail = (if length parts > 1 then js_trim (js_join '':'' (js_slice_from parts 1)) else []) in
        first_truthy [Some detail, gn_timestamp node] ''-''
      else if gn_kind node = Some ''tool_call'' then
        first_truthy [Some (normalizeText (gn_tool node)), gn_timestamp node] ''-''
      else if gn_kind node = Some ''tool_result'' then
        (let tool = first_truthy [Some (normalizeText (gn_tool node))] ''tool'' in
         if gn_ok node = Some False
         then first_truthy [Some (normalizeText (gn_error node))] (tool @ '' failed'')
         else tool @ '' ok'')
      else if gn_kind node = Some ''join'' then first_truthy [gn_timestamp node] ''-''
      else first_truthy [Some (getOpenClawNodeTarget node), gn_timestamp node] ''-'')"

record node_display =
  nd_title :: string
  nd_subtitle :: string
  nd_width :: int

definition buildNodeDisplayTexts :: "graph_node \<Rightarrow> node_display" where
  "buildNodeDisplayTexts node =
     (let rawTitle = getNodeTitle node; rawSubtitle = getNodeSubtitle node in
      \<lparr>nd_title = truncateNodeLabelText (Some rawTitle) (if isJoin node then 24 else 84),
       nd_subtitle = truncateNodeLabelText (Some rawSubtitle) (if isJoin node then 24 else 108),
       nd_width = getAdaptiveNodeWidth node rawTitle rawSubtitle\<rparr>)"

section \<open>Colours and styles\<close>

definition getOpenClawNodeColor :: "graph_node \<Rightarrow> string" where
  "getOpenClawNodeColor node =
     (case gn_kind node of
        None \<Rightarrow> ''#868e96''
      | Some k \<Rightarrow>
          if k = ''task'' then ''#4c6ef5''
          else if k = ''assistant_step'' then ''#0f766e''
          else if k = ''tool_call'' then ''#f08c00''
          else if k = ''tool_result'' then (if gn_ok node = Some False then ''#e03131'' else ''#2f9e44'')
          else if k = ''join'' then ''#64748b''
          else if k = ''final'' then ''#6c5ce7''
          else ''#868e96'')"

definition getNodeBackground :: "graph_node \<Rightarrow> string" where
  "getNodeBackground node =
     (case gn_kind node of
        None \<Rightarrow> ''#ffffff''
      | Some k \<Rightarrow>
          if k = ''assistant_step'' then ''#f0fdfa''
          else if k = ''tool_call'' then ''#fff7ed''
          else if k = ''tool_result'' then (if gn_ok node = Some False then ''#fff5f5'' else ''#f3faf4'')
          else if k = ''join'' then ''#f8fafc''
          else if k = ''final'' then ''#f5f3ff''
          else ''#ffffff'')"

record node_style =
  ns_width :: int
  ns_minHeight :: int
  ns_padding :: string
  ns_borderRadius :: int
  ns_border :: string
  ns_boxShadow :: string
  ns_background :: string

definition getNodeStyle :: "graph_node \<Rightarrow> string \<Rightarrow> int option \<Rightarrow> node_style" where
  "getNodeStyle node color width =
     \<lparr>ns_width = (case width of Some w \<Rightarrow> w | None \<Rightarrow> if isJoin node then 120 else 250),
      ns_minHeight = (if isJoin node then 56 else 76),
      ns_padding = (if isJoin node then ''8px 12px'' else ''12px 14px''),
      ns_borderRadius = (if isJoin node then 12 else 14),
      ns_border = (if gn_isAnchor node then ''3px solid '' @ color else ''1px solid '' @ color),
      ns_boxShadow = (if gn_isAnchor node then ''0 8px 24px rgba(0, 0, 0, 0.12)''
                      else ''0 4px 14px rgba(0, 0, 0, 0.08)''),
      ns_background = getNodeBackground node\<rparr>"

record edge_style =
  es_stroke :: string
  es_dashed :: bool
  es_widthTenths :: int

definition getEdgeStyle :: "graph_edge \<Rightarrow> (string \<rightharpoonup> graph_node) \<Rightarrow> edge_style" where
  "getEdgeStyle edge nodeMap =
     (let t = nodeMap (ge_target edge) in
      if (case t of None \<Rightarrow> False | Some n \<Rightarrow> gn_kind n = Some ''tool_result'' \<and> gn_ok n = Some False)
      then \<lparr>es_stroke = ''#e03131'', es_dashed = False, es_widthTenths = 25\<rparr>
      else if (case t of None \<Rightarrow> False | Some n \<Rightarrow> js_truthy (gn_originalParentId n))
      then \<lparr>es_stroke = ''#0891b2'', es_dashed = True, es_widthTenths = 20\<rparr>
      else \<lparr>es_stroke = ''#94a3b8'', es_dashed = False, es_widthTenths = 20\<rparr>)"

section \<open>Order\<close>

record clock =
  parse_date :: "string \<Rightarrow> int option"               \<comment> \<open>\<open>Date.parse\<close>, \<^term>\<open>None\<close> for \<open>NaN\<close>\<close>
  locale_compare :: "string \<Rightarrow> string \<Rightarrow> int"        \<comment> \<open>\<open>localeCompare\<close>\<close>

definition parseTimestampMillis :: "clock \<Rightarrow> string \<Rightarrow> int option" where
  "parseTimestampMillis k timestamp = (if timestamp = [] then None else parse_date k timestamp)"

definition compareNodes :: "clock \<Rightarrow> graph_node \<Rightarrow> graph_node \<Rightarrow> int" where
  "compareNodes k left right =
     (let leftTimestamp = js_trim (js_nullish (gn_timestamp left));
          rightTimestamp = js_trim (js_nullish (gn_timestamp right));
          byId = locale_compare k (gn_id left) (gn_id right) in
      case (parseTimestampMillis k leftTimestamp, parseTimestampMillis k rightTimestamp) of
        (Some l, Some r) \<Rightarrow> if l \<noteq> r then l - r else byId
      | _ \<Rightarrow> if leftTimestamp \<noteq> rightTimestamp then locale_compare k leftTimestamp rightTimestamp
             else byId)"

section \<open>Indexes\<close>

text \<open>
  \<open>Object.fromEntries\<close>: a later node replaces an earlier one with its id, which keeps its place among
  \<open>Object.values\<close>. (Ids that look like array indexes come first there; the values are sorted
  before they are used.)
\<close>

definition graphNodes :: "session_graph \<Rightarrow> graph_node list" where
  "graphNodes g = (case sg_nodes g of None \<Rightarrow> [] | Some ns \<Rightarrow> ns)"

definition graphEdges :: "session_graph \<Rightarrow> graph_edge list" where
  "graphEdges g = (case sg_edges g of None \<Rightarrow> [] | Some es \<Rightarrow> es)"

definition nodeMapOf :: "graph_node list \<Rightarrow> string \<rightharpoonup> graph_node" where
  "nodeMapOf ns = map_of (rev (map (\<lambda>n. (gn_id n, n)) ns))"

definition nodeMapValues :: "graph_node list \<Rightarrow> graph_node list" where
  "nodeMapValues ns = map (\<lambda>i. the (nodeMapOf ns i)) (rev (remdups (rev (map gn_id ns))))"

record tree_indexes =
  ti_nodeMap :: "string \<rightharpoonup> graph_node"
  ti_childrenMap :: "string \<rightharpoonup> string list"
  ti_roots :: "string list"
  ti_incomingCount :: "string \<rightharpoonup> nat"

text \<open>\<open>map.get(i) || []\<close> and \<open>map.get(i) || 0\<close>.\<close>

definition listAt :: "(string \<rightharpoonup> string list) \<Rightarrow> string \<Rightarrow> string list" where
  "listAt m i = (case m i of None \<Rightarrow> [] | Some cs \<Rightarrow> cs)"

definition countAt :: "(string \<rightharpoonup> nat) \<Rightarrow> string \<Rightarrow> nat" where
  "countAt m i = (case m i of None \<Rightarrow> 0 | Some n \<Rightarrow> n)"

lemma at_update [simp]:
  "listAt (m(i \<mapsto> cs)) j = (if j = i then cs else listAt m j)"
  "countAt (c(i \<mapsto> n)) j = (if j = i then n else countAt c j)"
  by (simp_all add: listAt_def countAt_def)

definition addEdge ::
  "(string \<rightharpoonup> graph_node) \<Rightarrow> graph_edge
     \<Rightarrow> (string \<rightharpoonup> string list) \<times> (string \<rightharpoonup> nat) \<Rightarrow> (string \<rightharpoonup> string list) \<times> (string \<rightharpoonup> nat)" where
  "addEdge nodeMap edge = (\<lambda>(children, incoming).
     if nodeMap (ge_source edge) = None \<or> nodeMap (ge_target edge) = None then (children, incoming)
     else
       (children(ge_source edge \<mapsto> listAt children (ge_source edge) @ [ge_target edge]),
        incoming(ge_target edge \<mapsto> countAt incoming (ge_target edge) + 1)))"

definition compareIds :: "clock \<Rightarrow> (string \<rightharpoonup> graph_node) \<Rightarrow> string \<Rightarrow> string \<Rightarrow> int" where
  "compareIds k nodeMap left right =
     (case (nodeMap left, nodeMap right) of
        (Some l, Some r) \<Rightarrow> compareNodes k l r
      | _ \<Rightarrow> 0)"

definition indexEdges :: "session_graph \<Rightarrow> (string \<rightharpoonup> string list) \<times> (string \<rightharpoonup> nat)" where
  "indexEdges g =
     (let ids = gn_id ` set (graphNodes g) in
      fold (addEdge (nodeMapOf (graphNodes g))) (graphEdges g)
        (\<lambda>i. if i \<in> ids then Some [] else None, \<lambda>i. if i \<in> ids then Some 0 else None))"

definition buildTreeIndexes :: "clock \<Rightarrow> session_graph \<Rightarrow> tree_indexes" where
  "buildTreeIndexes k g =
     (let sourceNodes = graphNodes g; nodeMap = nodeMapOf sourceNodes;
          (children, incoming) = indexEdges g;
          childrenMap = (\<lambda>i. map_option (js_sort (compareIds k nodeMap)) (children i));
          roots = map gn_id (js_sort (compareNodes k)
            (filter (\<lambda>n. incoming (gn_id n) = None \<or> incoming (gn_id n) = Some 0) sourceNodes)) in
      \<lparr>ti_nodeMap = nodeMap, ti_childrenMap = childrenMap, ti_roots = roots,
       ti_incomingCount = incoming\<rparr>)"

section \<open>Properties of texts and order\<close>

text \<open>A width and a label are bounded whatever the node says.\<close>

lemma node_width_bounds:
  "(if isJoin n then 120 else 230) \<le> nd_width (buildNodeDisplayTexts n)"
  "nd_width (buildNodeDisplayTexts n) \<le> (if isJoin n then 180 else 420)"
  by (simp_all add: buildNodeDisplayTexts_def getAdaptiveNodeWidth_def clampNumber_def Let_def)

text \<open>A list of characters: every element is a first byte with its continuation bytes.\<close>

definition char_list :: "string list \<Rightarrow> bool" where
  "char_list cs \<longleftrightarrow> list_all (\<lambda>x. x \<noteq> [] \<and> list_all utf8_cont (tl x)) cs
     \<and> list_all (\<lambda>x. \<not> utf8_cont (hd x)) (tl cs)"

lemma while_append:
  assumes "list_all P r" "u = [] \<or> \<not> P (hd u)"
  shows "takeWhile P (r @ u) = r" "dropWhile P (r @ u) = u"
  using assms by (induction r) (cases u; auto)+

lemma js_chars_concat: "char_list cs \<Longrightarrow> js_chars (concat cs) = cs"
proof (induction cs)
  case (Cons x xs)
  then obtain c r where x: "x = c # r" "list_all utf8_cont r" by (cases x) (auto simp: char_list_def)
  have "concat xs = [] \<or> \<not> utf8_cont (hd (concat xs))"
    using Cons.prems by (cases xs) (auto simp: char_list_def neq_Nil_conv)
  moreover have "char_list xs" using Cons.prems by (cases xs) (auto simp: char_list_def)
  ultimately show ?case using Cons.IH x by (simp add: while_append)
qed simp

lemma char_list_js_chars: "char_list (js_chars s)"
proof (induction s rule: js_chars.induct)
  case (2 c s)
  have "list_all (\<lambda>x. \<not> utf8_cont (hd x)) (js_chars (dropWhile utf8_cont s))"
  proof (cases "dropWhile utf8_cont s")
    case (Cons d t)
    with 2 hd_dropWhile [of utf8_cont s] show ?thesis by (auto simp: char_list_def)
  qed (simp only: js_chars.simps list.pred_inject)
  with 2 show ?case by (auto simp: char_list_def list_all_iff dest: set_takeWhileD)
qed (simp add: char_list_def)

lemma char_list_take: "char_list cs \<Longrightarrow> char_list (take n cs)"
  by (cases cs; cases n) (auto simp: char_list_def list_all_iff dest: in_set_takeD)

lemma truncate_chars:
  assumes "4 \<le> m"
  shows "length (js_chars (truncateNodeLabelText v m)) \<le> m"
proof (cases "length (js_chars (normalizeText v)) \<le> m")
  case True
  then show ?thesis using assms by (simp add: truncateNodeLabelText_def Let_def)
next
  case False
  let ?t = "take (m - 3) (js_chars (normalizeText v))"
  have t: "take (max 1 (m - 3)) (js_chars (normalizeText v)) = ?t" "?t \<noteq> []"
    using assms False by (auto simp: max_def)
  have "char_list (?t @ [''.'', ''.'', ''.''])"
  proof -
    obtain x xs where x: "?t = x # xs" using t(2) by (cases ?t) auto
    have "char_list (x # xs)"
      using char_list_take [OF char_list_js_chars, of "m - 3" "normalizeText v"] x by simp
    then show ?thesis unfolding x by (simp add: char_list_def) (simp add: utf8_cont_def)
  qed
  from js_chars_concat [OF this] show ?thesis
    using assms False t by (auto simp: truncateNodeLabelText_def Let_def)
qed

end
