(* ===== verification/Session_Layout.thy ===== *)
theory Session_Layout
  imports Session_Graph Complex_Main
begin

text \<open>
  \<open>web/src/OpenClawSessionGraphUtils.js\<close>, second half: the layout of a session graph. \<open>placeNode\<close> is a
  depth-first search over mutable state: the next free column, the positions given so far, the
  visited nodes and the nodes on the current path. The recursion is bounded by fuel; one unit more
  than the number of nodes is always enough, also for cyclic graphs.

  Coordinates are exact: halves of sums of integers, which a double holds exactly.
\<close>

section \<open>The layout\<close>

record point =
  pt_x :: rat
  pt_y :: int

record box =
  bx_left :: rat
  bx_right :: rat
  bx_center :: rat

record layout_state =
  ls_cursor :: nat
  ls_positions :: "string \<rightharpoonup> point"
  ls_visited :: "string set"
  ls_stack :: "string set"

definition layerGap :: int where
  "layerGap = max 132 96"

definition widestNode :: "node_display list \<Rightarrow> int" where
  "widestNode displays =
     foldl (\<lambda>widest display. if nd_width display = 0 then widest else max widest (nd_width display))
       250 displays"

definition siblingGap :: "node_display list \<Rightarrow> rat" where
  "siblingGap displays = of_int (max 200 (widestNode displays + 80))"

definition at_column :: "rat \<Rightarrow> layout_state \<Rightarrow> rat" where
  "at_column gap st = of_nat (ls_cursor st) * gap"

definition track :: "rat \<Rightarrow> box" where
  "track x = \<lparr>bx_left = x, bx_right = x, bx_center = x\<rparr>"

definition next_column :: "layout_state \<Rightarrow> layout_state" where
  "next_column st = st\<lparr>ls_cursor := ls_cursor st + 1\<rparr>"

definition set_position :: "string \<Rightarrow> rat \<Rightarrow> nat \<Rightarrow> layout_state \<Rightarrow> layout_state" where
  "set_position i x depth st =
     st\<lparr>ls_positions := (ls_positions st)(i \<mapsto> \<lparr>pt_x = x, pt_y = int depth * layerGap\<rparr>),
        ls_visited := insert i (ls_visited st)\<rparr>"

definition push :: "string \<Rightarrow> layout_state \<Rightarrow> layout_state" where
  "push i st = st\<lparr>ls_stack := insert i (ls_stack st)\<rparr>"

definition pop :: "string \<Rightarrow> layout_state \<Rightarrow> layout_state" where
  "pop i st = st\<lparr>ls_stack := ls_stack st - {i}\<rparr>"

definition childIds :: "tree_indexes \<Rightarrow> string \<Rightarrow> string list" where
  "childIds ti i =
     filter (\<lambda>c. ti_nodeMap ti c \<noteq> None) (listAt (ti_childrenMap ti) i)"

definition incoming :: "tree_indexes \<Rightarrow> string \<Rightarrow> nat" where
  "incoming ti i = countAt (ti_incomingCount ti) i"

definition parentBox :: "box list \<Rightarrow> box" where
  "parentBox childBoxes =
     (let left = bx_left (hd childBoxes); right = bx_right (last childBoxes) in
      \<lparr>bx_left = left, bx_right = right,
       bx_center = (if length childBoxes = 1 then bx_center (hd childBoxes) else (left + right) / 2)\<rparr>)"

fun placeNode ::
    "nat \<Rightarrow> tree_indexes \<Rightarrow> rat \<Rightarrow> string \<Rightarrow> nat \<Rightarrow> layout_state \<Rightarrow> (box \<times> layout_state) option"
and placeChildren ::
    "nat \<Rightarrow> tree_indexes \<Rightarrow> rat \<Rightarrow> string list \<Rightarrow> nat \<Rightarrow> layout_state \<Rightarrow> (box list \<times> layout_state) option"
where
  "placeNode 0 ti gap i depth st = None"
| "placeNode (Suc n) ti gap i depth st =
     (if ti_nodeMap ti i = None then Some (track (at_column gap st), st)
      else case ls_positions st i of
        Some p \<Rightarrow> Some (track (pt_x p), st)
      | None \<Rightarrow>
          if i \<in> ls_stack st then
            Some (track (at_column gap st), set_position i (at_column gap st) depth (next_column st))
          else
            let st1 = push i st in
            if childIds ti i = [] then
              Some (track (at_column gap st1),
                pop i (set_position i (at_column gap st1) depth (next_column st1)))
            else
              (case placeChildren n ti gap (childIds ti i) (depth + 1) st1 of
                 None \<Rightarrow> None
               | Some (childBoxes, st2) \<Rightarrow>
                   let b = parentBox childBoxes in
                   Some (b, pop i (set_position i (bx_center b) depth st2))))"
| "placeChildren n ti gap [] depth st = Some ([], st)"
| "placeChildren n ti gap (c # cs) depth st =
     (case (if incoming ti c > 1 \<and> ls_positions st c \<noteq> None
            then Some (track (at_column gap st), next_column st)
            else placeNode n ti gap c depth st) of
        None \<Rightarrow> None
      | Some (b, st1) \<Rightarrow>
          (case placeChildren n ti gap cs depth st1 of
             None \<Rightarrow> None
           | Some (bs, st2) \<Rightarrow> Some (b # bs, st2)))"

text \<open>One call per root, each with an empty path.\<close>

fun placeAll :: "nat \<Rightarrow> tree_indexes \<Rightarrow> rat \<Rightarrow> string list \<Rightarrow> layout_state \<Rightarrow> layout_state option" where
  "placeAll n ti gap [] st = Some st"
| "placeAll n ti gap (i # is) st =
     (case placeNode n ti gap i 0 (st\<lparr>ls_stack := {}\<rparr>) of
        None \<Rightarrow> None
      | Some (b, st') \<Rightarrow> placeAll n ti gap is st')"

definition initial_layout :: layout_state where
  "initial_layout = \<lparr>ls_cursor = 0, ls_positions = Map.empty, ls_visited = {}, ls_stack = {}\<rparr>"

definition computeTreeLayout :: "clock \<Rightarrow> session_graph \<Rightarrow> node_display list \<Rightarrow> (string \<rightharpoonup> point) option" where
  "computeTreeLayout k g displays =
     (let ti = buildTreeIndexes k g; gap = siblingGap displays; n = Suc (length (graphNodes g)) in
      case placeAll n ti gap (ti_roots ti) initial_layout of
        None \<Rightarrow> None
      | Some st \<Rightarrow>
          let rest = map gn_id (js_sort (compareNodes k)
                (filter (\<lambda>v. gn_id v \<notin> ls_visited st) (nodeMapValues (graphNodes g)))) in
          map_option ls_positions (placeAll n ti gap rest st))"

section \<open>Elements of the picture\<close>

record flow_node =
  fn_id :: string
  fn_position :: point
  fn_title :: string
  fn_subtitle :: string
  fn_node :: graph_node
  fn_style :: node_style

record flow_edge =
  fe_id :: string
  fe_source :: string
  fe_target :: string
  fe_style :: edge_style

definition nodeDisplayOf :: "graph_node list \<Rightarrow> string \<rightharpoonup> node_display" where
  "nodeDisplayOf ns i = map_option buildNodeDisplayTexts (nodeMapOf ns i)"

definition flowNode :: "graph_node list \<Rightarrow> (string \<rightharpoonup> point) \<Rightarrow> graph_node \<Rightarrow> flow_node" where
  "flowNode ns positions node =
     (let color = getOpenClawNodeColor node;
          position = (case positions (gn_id node) of Some p \<Rightarrow> p | None \<Rightarrow> \<lparr>pt_x = 0, pt_y = 0\<rparr>);
          display = (case nodeDisplayOf ns (gn_id node) of Some d \<Rightarrow> d
            | None \<Rightarrow> \<lparr>nd_title = ''-'', nd_subtitle = ''-'', nd_width = (if isJoin node then 120 else 250)\<rparr>) in
      \<lparr>fn_id = gn_id node, fn_position = position, fn_title = nd_title display,
       fn_subtitle = nd_subtitle display, fn_node = node,
       fn_style = getNodeStyle node color (Some (nd_width display))\<rparr>)"

definition flowEdge :: "graph_node list \<Rightarrow> graph_edge \<Rightarrow> flow_edge" where
  "flowEdge ns e =
     \<lparr>fe_id = ge_source e @ ''-'' @ ge_target e, fe_source = ge_source e, fe_target = ge_target e,
      fe_style = getEdgeStyle e (nodeMapOf ns)\<rparr>"

definition buildOpenClawFlowElements ::
  "clock \<Rightarrow> session_graph \<Rightarrow> (flow_node list \<times> flow_edge list) option" where
  "buildOpenClawFlowElements k g =
     (let ns = graphNodes g; displays = map buildNodeDisplayTexts (nodeMapValues ns) in
      case computeTreeLayout k g displays of
        None \<Rightarrow> None
      | Some positions \<Rightarrow>
          Some (map (flowNode ns positions) (js_sort (compareNodes k) ns), map (flowEdge ns) (graphEdges g)))"

lemmas layout_ops = set_position_def push_def pop_def next_column_def track_def at_column_def

section \<open>The interface to the indexes\<close>

text \<open>What the search relies on: a finite node map and counts that see every incoming edge.\<close>

locale layout_index =
  fixes ti :: tree_indexes
    and gap :: rat
  assumes finite_nodes: "finite (dom (ti_nodeMap ti))"
    and gap_pos: "0 < gap"
    and two_parents: "c \<in> set (childIds ti p) \<Longrightarrow> c \<in> set (childIds ti q) \<Longrightarrow> p \<noteq> q \<Longrightarrow> incoming ti c > 1"
    and two_edges: "count_list (childIds ti p) c > 1 \<Longrightarrow> incoming ti c > 1"
    and has_parent: "incoming ti c > 0 \<Longrightarrow> \<exists>p \<in> dom (ti_nodeMap ti). c \<in> set (childIds ti p)"
    and no_parent: "c \<in> set (childIds ti p) \<Longrightarrow> incoming ti c > 0"
begin

abbreviation V where "V \<equiv> dom (ti_nodeMap ti)"

lemma childIds_nodes: "set (childIds ti i) \<subseteq> V"
  by (auto simp: childIds_def)

text \<open>Visited are the nodes with a position.\<close>

definition wf_layout :: "layout_state \<Rightarrow> bool" where
  "wf_layout st \<longleftrightarrow> ls_visited st = dom (ls_positions st) \<and> dom (ls_positions st) \<subseteq> V \<and> ls_stack st \<subseteq> V"

lemma fuel_push:
  assumes "i \<in> V" "i \<notin> S" "S \<subseteq> V" "card (V - S) < Suc n"
  shows "card (V - insert i S) < n"
proof -
  have "V - insert i S \<subset> V - S" using assms by auto
  then have "card (V - insert i S) < card (V - S)" using finite_nodes by (simp add: psubset_card_mono)
  with assms(4) show ?thesis by simp
qed

text \<open>With more fuel than nodes off the path, the search returns and gives its node a position.\<close>

definition grown :: "layout_state \<Rightarrow> layout_state \<Rightarrow> bool" where
  "grown st st' \<longleftrightarrow> wf_layout st' \<and> ls_stack st' = ls_stack st
     \<and> dom (ls_positions st) \<subseteq> dom (ls_positions st')"

lemma grown_refl: "wf_layout st \<Longrightarrow> grown st st"
  by (simp add: grown_def)

lemma grown_trans: "grown a b \<Longrightarrow> grown b c \<Longrightarrow> grown a c"
  unfolding grown_def by (metis subset_trans)

lemma wf_push: "wf_layout st \<Longrightarrow> i \<in> V \<Longrightarrow> wf_layout (push i st)"
  by (auto simp: wf_layout_def layout_ops)

lemma grown_column: "wf_layout st \<Longrightarrow> grown st (next_column st)"
  by (auto simp: grown_def wf_layout_def layout_ops)

lemma grown_position: "wf_layout st \<Longrightarrow> i \<in> V \<Longrightarrow> grown st (set_position i x d st)"
  by (auto simp: grown_def wf_layout_def layout_ops)

lemma grown_pop: "grown (push i st) st' \<Longrightarrow> i \<notin> ls_stack st \<Longrightarrow> grown st (pop i st')"
  by (auto simp: grown_def wf_layout_def layout_ops)

lemma position_set: "i \<in> dom (ls_positions (set_position i x d st))" "ls_positions (pop i st) = ls_positions st"
  by (simp_all add: layout_ops)

lemma children_total:
  assumes node: "\<And>c st. wf_layout st \<Longrightarrow> card (V - ls_stack st) < n \<Longrightarrow>
     \<exists>b st'. placeNode n ti gap c d st = Some (b, st') \<and> grown st st' \<and> (c \<in> V \<longrightarrow> c \<in> dom (ls_positions st'))"
    and "wf_layout st" "card (V - ls_stack st) < n"
  shows "\<exists>bs st'. placeChildren n ti gap cs d st = Some (bs, st') \<and> grown st st'
    \<and> set cs \<inter> V \<subseteq> dom (ls_positions st')"
  using assms(2,3)
proof (induction cs arbitrary: st)
  case Nil
  then show ?case by (simp add: grown_refl)
next
  case (Cons c cs)
  obtain b st1 where st1: "(if incoming ti c > 1 \<and> ls_positions st c \<noteq> None
        then Some (track (at_column gap st), next_column st) else placeNode n ti gap c d st) = Some (b, st1)"
      "grown st st1" "c \<in> V \<longrightarrow> c \<in> dom (ls_positions st1)"
  proof (cases "incoming ti c > 1 \<and> ls_positions st c \<noteq> None")
    case True
    then have "c \<in> dom (ls_positions (next_column st))" by (auto simp: layout_ops)
    with True Cons.prems grown_column [of st] show ?thesis by (intro that) auto
  next
    case False
    from node [OF Cons.prems, of c] obtain b st1 where "placeNode n ti gap c d st = Some (b, st1)"
      "grown st st1" "c \<in> V \<longrightarrow> c \<in> dom (ls_positions st1)" by blast
    with False show ?thesis by (intro that [of b st1]) auto
  qed
  then have "wf_layout st1" "card (V - ls_stack st1) < n"
    using Cons.prems by (simp_all add: grown_def)
  from Cons.IH [OF this] obtain bs st2 where ch: "placeChildren n ti gap cs d st1 = Some (bs, st2)"
    and st2: "grown st1 st2" "set cs \<inter> V \<subseteq> dom (ls_positions st2)" by blast
  have "grown st st2" by (rule grown_trans [OF st1(2) st2(1)])
  moreover have "dom (ls_positions st1) \<subseteq> dom (ls_positions st2)" using st2(1) by (simp add: grown_def)
  ultimately show ?case using st1(1,3) st2(2) ch by auto
qed

lemma place_total:
  "wf_layout st \<Longrightarrow> card (V - ls_stack st) < n \<Longrightarrow>
     \<exists>b st'. placeNode n ti gap i d st = Some (b, st') \<and> grown st st' \<and> (i \<in> V \<longrightarrow> i \<in> dom (ls_positions st'))"
proof (induction n arbitrary: i d st)
  case (Suc n)
  show ?case
  proof (cases "ti_nodeMap ti i = None \<or> ls_positions st i \<noteq> None")
    case True
    with Suc.prems show ?thesis by (auto simp: grown_refl split: option.split)
  next
    case False
    then obtain v where i: "i \<in> V" "ls_positions st i = None" "ti_nodeMap ti i = Some v" by auto
    show ?thesis
    proof (cases "i \<in> ls_stack st")
      case True
      with i Suc.prems(1) show ?thesis
        by (auto simp: layout_ops grown_def wf_layout_def)
    next
      case False
      let ?st1 = "push i st"
      have wf1: "wf_layout ?st1" using wf_push [OF Suc.prems(1) i(1)] .
      show ?thesis
      proof (cases "childIds ti i = []")
        case True
        have "grown ?st1 (set_position i (at_column gap ?st1) d (next_column ?st1))"
          using grown_trans [OF grown_column [OF wf1] grown_position] wf1 i(1)
          by (auto simp: grown_def wf_layout_def layout_ops)
        from grown_pop [OF this False] show ?thesis
          using i False True by (simp add: Let_def position_set)
      next
        case no: False
        have "card (V - ls_stack ?st1) < n"
          using fuel_push [OF i(1) False] Suc.prems by (simp add: wf_layout_def layout_ops)
        from children_total [OF Suc.IH wf1 this] obtain bs st2 where
          st2: "placeChildren n ti gap (childIds ti i) (d + 1) ?st1 = Some (bs, st2)" "grown ?st1 st2"
          by blast
        then have "grown ?st1 (set_position i (bx_center (parentBox bs)) d st2)"
          using grown_trans [OF st2(2) grown_position] i(1) by (simp add: grown_def)
        from grown_pop [OF this False] show ?thesis
          using i False no st2 by (simp add: Let_def position_set)
      qed
    qed
  qed
qed simp

section \<open>No two nodes overlap\<close>

text \<open>
  For an acyclic graph: the nodes placed by one call lie in a band of columns of their own, between
  the cursor before and after the call, and below the node of the call.
\<close>

abbreviation edge_rel where "edge_rel \<equiv> {(p, c). c \<in> set (childIds ti p)}"

abbreviation placed where "placed st \<equiv> dom (ls_positions st)"

abbreviation X where "X st i \<equiv> pt_x (the (ls_positions st i))"

abbreviation Y where "Y st i \<equiv> pt_y (the (ls_positions st i))"

definition fresh :: "layout_state \<Rightarrow> layout_state \<Rightarrow> string set" where
  "fresh st st' = placed st' - placed st"

definition keeps :: "layout_state \<Rightarrow> layout_state \<Rightarrow> bool" where
  "keeps st st' \<longleftrightarrow> (\<forall>i \<in> placed st. ls_positions st' i = ls_positions st i)
     \<and> ls_stack st' = ls_stack st \<and> ls_cursor st \<le> ls_cursor st' \<and> fresh st st' \<inter> ls_stack st = {}
     \<and> (\<forall>i \<in> fresh st st'. set (childIds ti i) \<subseteq> placed st')"

definition band :: "layout_state \<Rightarrow> layout_state \<Rightarrow> nat \<Rightarrow> bool" where
  "band st st' d \<longleftrightarrow>
     (\<forall>i \<in> fresh st st'. at_column gap st \<le> X st' i \<and> X st' i \<le> at_column gap st' - gap
        \<and> int d * layerGap \<le> Y st' i)
     \<and> inj_on (\<lambda>i. (X st' i, Y st' i)) (fresh st st')"

lemma keeps_placed: "keeps st st' \<Longrightarrow> placed st \<subseteq> placed st'"
  by (auto simp: keeps_def dom_def)

lemma keeps_refl: "keeps st st" and band_refl: "band st st d"
  by (simp_all add: keeps_def band_def fresh_def)

lemma fresh_trans:
  assumes "keeps a b" "keeps b c"
  shows "fresh a c = fresh a b \<union> fresh b c"
  using keeps_placed [OF assms(1)] keeps_placed [OF assms(2)] unfolding fresh_def by blast

lemma keeps_trans:
  assumes "keeps a b" "keeps b c"
  shows "keeps a c"
proof -
  have "ls_positions c i = ls_positions a i" if "i \<in> placed a" for i
    using that assms keeps_placed [OF assms(1)] by (metis keeps_def subsetD)
  moreover have "set (childIds ti i) \<subseteq> placed c" if "i \<in> fresh a c" for i
    using that fresh_trans [OF assms] assms keeps_placed [OF assms(2)]
    by (metis UnE keeps_def subset_trans)
  ultimately show ?thesis
    using assms fresh_trans [OF assms] by (auto simp: keeps_def)
qed

lemma at_column_mono: "ls_cursor st \<le> ls_cursor st' \<Longrightarrow> at_column gap st \<le> at_column gap st'"
  using gap_pos by (simp add: at_column_def mult_right_mono)

lemma band_trans:
  assumes ab: "keeps a b" "band a b d" and bc: "keeps b c" "band b c d"
  shows "band a c d"
proof -
  note f = fresh_trans [OF ab(1) bc(1)]
  have col: "at_column gap a \<le> at_column gap b" "at_column gap b \<le> at_column gap c"
    using ab(1) bc(1) by (simp_all add: keeps_def at_column_mono)
  have old: "ls_positions c i = ls_positions b i" if "i \<in> fresh a b" for i
    using that bc(1) by (auto simp: keeps_def fresh_def)
  have inj: "inj_on (\<lambda>i. (X c i, Y c i)) (fresh a c)"
  proof (rule inj_onI)
    fix i j assume ij: "i \<in> fresh a c" "j \<in> fresh a c" "(X c i, Y c i) = (X c j, Y c j)"
    have ne: "X c i' < X c j'" if "i' \<in> fresh a b" "j' \<in> fresh b c" for i' j'
      using that ab(2) bc(2) old [OF that(1)] gap_pos by (force simp: band_def)
    show "i = j"
    proof (cases "i \<in> fresh a b")
      case True
      then have "j \<in> fresh a b" using ij ne [of i j] f by auto
      with True ij(3) ab(2) old show ?thesis by (auto simp: band_def dest: inj_onD)
    next
      case False
      then have i: "i \<in> fresh b c" using ij(1) f by simp
      then have "j \<in> fresh b c" using ij ne [of j i] f by auto
      with i ij(3) bc(2) show ?thesis by (auto simp: band_def dest: inj_onD)
    qed
  qed
  have "at_column gap a \<le> X c i \<and> X c i \<le> at_column gap c - gap \<and> int d * layerGap \<le> Y c i"
    if "i \<in> fresh a c" for i
  proof (cases "i \<in> fresh a b")
    case True
    with ab(2) old [OF True] col show ?thesis by (force simp: band_def)
  next
    case False
    with that f have "i \<in> fresh b c" by simp
    with bc(2) col show ?thesis by (force simp: band_def)
  qed
  with inj show ?thesis by (simp add: band_def)
qed

text \<open>Every position given so far belongs to a root or to a child of a node that was started.\<close>

definition explained :: "layout_state \<Rightarrow> bool" where
  "explained st \<longleftrightarrow> (\<forall>c \<in> placed st. incoming ti c = 0
     \<or> (\<exists>p \<in> placed st \<union> ls_stack st. c \<in> set (childIds ti p)))"

text \<open>What one call adds is explained by the call itself.\<close>

definition adds :: "layout_state \<Rightarrow> layout_state \<Rightarrow> string set \<Rightarrow> bool" where
  "adds st st' cs \<longleftrightarrow> (\<forall>c \<in> fresh st st'. c \<in> cs \<or> (\<exists>p \<in> fresh st st'. c \<in> set (childIds ti p)))"

lemma adds_trans:
  assumes "keeps a b" "keeps b c" "adds a b A" "adds b c B"
  shows "adds a c (A \<union> B)"
  using assms(3,4) unfolding adds_def fresh_trans [OF assms(1,2)] by blast

lemma empty_fresh:
  assumes "placed st' = placed st" "ls_positions st' = ls_positions st" "ls_stack st' = ls_stack st"
    "ls_cursor st \<le> ls_cursor st'"
  shows "keeps st st'" "band st st' d" "adds st st' A"
  using assms by (simp_all add: keeps_def band_def adds_def fresh_def)

text \<open>What a call on a new node and a loop over children achieve.\<close>

definition box_post :: "layout_state \<Rightarrow> box \<Rightarrow> layout_state \<Rightarrow> bool" where
  "box_post st b st' \<longleftrightarrow> ls_cursor st < ls_cursor st' \<and> bx_left b = at_column gap st
     \<and> bx_right b = at_column gap st' - gap \<and> bx_left b \<le> bx_center b \<and> bx_center b \<le> bx_right b"

definition node_post :: "string \<Rightarrow> nat \<Rightarrow> layout_state \<Rightarrow> box \<Rightarrow> layout_state \<Rightarrow> bool" where
  "node_post i d st b st' \<longleftrightarrow> keeps st st' \<and> band st st' d \<and> adds st st' {i} \<and> i \<in> placed st'
     \<and> box_post st b st'"

definition children_post :: "string list \<Rightarrow> nat \<Rightarrow> layout_state \<Rightarrow> box list \<Rightarrow> layout_state \<Rightarrow> bool" where
  "children_post cs d st bs st' \<longleftrightarrow> keeps st st' \<and> band st st' d \<and> adds st st' (set cs)
     \<and> set cs \<subseteq> placed st' \<and> length bs = length cs \<and> (cs \<noteq> [] \<longrightarrow> box_post st (parentBox bs) st')"

lemma columns_le:
  assumes "ls_cursor st < ls_cursor st'"
  shows "at_column gap st \<le> at_column gap st' - gap"
proof -
  have "of_nat (ls_cursor st) + 1 \<le> (of_nat (ls_cursor st') :: rat)"
    using assms by (metis Suc_leI of_nat_Suc of_nat_le_iff add.commute)
  then have "(of_nat (ls_cursor st) + 1) * gap \<le> of_nat (ls_cursor st') * gap"
    using gap_pos by (simp add: mult_right_mono)
  then show ?thesis by (simp add: at_column_def algebra_simps)
qed

lemma track_post: "box_post st (track (at_column gap st)) (next_column st)"
  by (simp add: box_post_def layout_ops algebra_simps)

lemma parentBox_post:
  assumes "box_post a b c" "bs \<noteq> [] \<longrightarrow> box_post c (parentBox bs) e" "bs = [] \<longrightarrow> e = c"
  shows "box_post a (parentBox (b # bs)) e"
proof (cases bs)
  case Nil
  with assms show ?thesis by (simp add: box_post_def parentBox_def Let_def)
next
  case (Cons b' bs')
  with assms have "ls_cursor a < ls_cursor e" "bx_right (last bs) = at_column gap e - gap"
    by (auto simp: box_post_def parentBox_def Let_def)
  with assms(1) Cons columns_le [of a e] show ?thesis
    by (simp add: box_post_def parentBox_def Let_def)
qed

text \<open>The loop of a node \<open>p\<close> over its children, of which \<open>pre\<close> are done.\<close>

definition loop_inv :: "string \<Rightarrow> string list \<Rightarrow> layout_state \<Rightarrow> bool" where
  "loop_inv p pre st \<longleftrightarrow> p \<in> ls_stack st \<and> (\<forall>a \<in> ls_stack st. a = p \<or> (a, p) \<in> edge_rel\<^sup>+)
     \<and> (\<forall>c \<in> placed st. incoming ti c = 0 \<or> c \<in> set pre
          \<or> (\<exists>q \<in> (placed st \<union> ls_stack st) - {p}. c \<in> set (childIds ti q)))"

lemma loop_inv_step:
  assumes inv: "loop_inv p pre st" and k: "keeps st st'" "adds st st' {c}"
  shows "loop_inv p (pre @ [c]) st'"
proof -
  have stack: "ls_stack st' = ls_stack st" and disj: "fresh st st' \<inter> ls_stack st = {}"
    using k(1) by (simp_all add: keeps_def)
  have p: "p \<in> ls_stack st" using inv by (simp add: loop_inv_def)
  have "incoming ti e = 0 \<or> e \<in> set (pre @ [c])
      \<or> (\<exists>q \<in> (placed st' \<union> ls_stack st') - {p}. e \<in> set (childIds ti q))" if e: "e \<in> placed st'" for e
  proof (cases "e \<in> placed st")
    case True
    with inv have "incoming ti e = 0 \<or> e \<in> set pre
      \<or> (\<exists>q \<in> (placed st \<union> ls_stack st) - {p}. e \<in> set (childIds ti q))" by (simp add: loop_inv_def)
    with keeps_placed [OF k(1)] stack show ?thesis by auto
  next
    case False
    with e have "e \<in> fresh st st'" by (simp add: fresh_def)
    with k(2) have "e = c \<or> (\<exists>q \<in> fresh st st'. e \<in> set (childIds ti q))" by (auto simp: adds_def)
    moreover have "q \<in> placed st' - {p}" if "q \<in> fresh st st'" for q
      using that disj p by (auto simp: fresh_def)
    ultimately show ?thesis by auto
  qed
  then show ?thesis using inv stack by (auto simp: loop_inv_def)
qed

lemma loop_invD:
  assumes "loop_inv p pre st" "c \<in> placed st" "incoming ti c > 0"
  shows "c \<in> set pre \<or> (\<exists>q \<in> (placed st \<union> ls_stack st) - {p}. c \<in> set (childIds ti q))"
proof -
  have "\<forall>c \<in> placed st. incoming ti c = 0 \<or> c \<in> set pre
      \<or> (\<exists>q \<in> (placed st \<union> ls_stack st) - {p}. c \<in> set (childIds ti q))"
    using assms(1) unfolding loop_inv_def by (elim conjE)
  from bspec [OF this assms(2)] show ?thesis
    by (rule disjE) (use assms(3) in simp, assumption)
qed

lemma loop_explained:
  assumes inv: "loop_inv p pre st" and pre: "set pre \<subseteq> set (childIds ti p)"
  shows "explained st"
  unfolding explained_def
proof
  fix c assume c: "c \<in> placed st"
  show "incoming ti c = 0 \<or> (\<exists>p \<in> placed st \<union> ls_stack st. c \<in> set (childIds ti p))"
  proof (cases "incoming ti c = 0")
    case False
    then have "incoming ti c > 0" by simp
    from loop_invD [OF inv c this] show ?thesis
    proof
      assume "c \<in> set pre"
      moreover have "p \<in> ls_stack st" using inv by (simp add: loop_inv_def)
      ultimately show ?thesis using pre by blast
    qed blast
  qed simp
qed

lemma loop_start:
  assumes "explained st" "i \<notin> placed st" "i \<notin> ls_stack st" "\<forall>a \<in> ls_stack st. (a, i) \<in> edge_rel\<^sup>+"
  shows "loop_inv i [] (push i st)"
proof -
  have "incoming ti c = 0 \<or> (\<exists>q \<in> (placed st \<union> insert i (ls_stack st)) - {i}. c \<in> set (childIds ti q))"
    if c: "c \<in> placed st" for c
  proof -
    from assms(1) c have "incoming ti c = 0 \<or> (\<exists>q \<in> placed st \<union> ls_stack st. c \<in> set (childIds ti q))"
      unfolding explained_def by (rule bspec)
    moreover have "placed st \<union> ls_stack st \<subseteq> (placed st \<union> insert i (ls_stack st)) - {i}"
      using assms(2,3) by blast
    ultimately show ?thesis by blast
  qed
  with assms(4) show ?thesis by (simp add: loop_inv_def push_def)
qed

lemma children_band:
  assumes node: "\<And>c st b st'. placeNode n ti gap c d st = Some (b, st') \<Longrightarrow> c \<in> V \<Longrightarrow> c \<notin> placed st
        \<Longrightarrow> c \<notin> ls_stack st \<Longrightarrow> \<forall>a \<in> ls_stack st. (a, c) \<in> edge_rel\<^sup>+ \<Longrightarrow> explained st
        \<Longrightarrow> node_post c d st b st'"
    and ac: "acyclic edge_rel"
    and "placeChildren n ti gap cs d st = Some (bs, st')"
    and "childIds ti p = pre @ cs" and "loop_inv p pre st"
  shows "children_post cs d st bs st'"
  using assms(3-5)
proof (induction cs arbitrary: pre st bs)
  case Nil
  then show ?case by (simp add: children_post_def keeps_refl band_refl adds_def fresh_def)
next
  case (Cons c cs)
  let ?r = "if incoming ti c > 1 \<and> ls_positions st c \<noteq> None
        then Some (track (at_column gap st), next_column st) else placeNode n ti gap c d st"
  from Cons.prems(1) obtain b st1 bs1 where r: "?r = Some (b, st1)"
    and rest: "placeChildren n ti gap cs d st1 = Some (bs1, st')" and bs: "bs = b # bs1"
    by (auto split: option.splits prod.splits simp del: placeNode.simps)
  have c: "c \<in> set (childIds ti p)" using Cons.prems(2) by simp
  have stack: "\<forall>a \<in> ls_stack st. (a, c) \<in> edge_rel\<^sup>+"
    using Cons.prems(3) c by (auto simp: loop_inv_def intro: trancl_into_trancl)
  then have off: "c \<notin> ls_stack st" using ac by (auto simp: acyclic_def)
  have "node_post c d st b st1"
  proof (cases "c \<in> placed st")
    case True
    have "c \<in> set pre \<or> (\<exists>q \<in> (placed st \<union> ls_stack st) - {p}. c \<in> set (childIds ti q))"
      by (rule loop_invD [OF Cons.prems(3) True no_parent [OF c]])
    then have many: "incoming ti c > 1"
    proof
      assume "c \<in> set pre"
      then have "count_list pre c > 0" by (simp add: count_list_0_iff zero_less_iff_neq_zero)
      then have "count_list (childIds ti p) c > 1" using Cons.prems(2) by (simp add: count_list_append)
      then show ?thesis by (rule two_edges)
    next
      assume "\<exists>q \<in> (placed st \<union> ls_stack st) - {p}. c \<in> set (childIds ti q)"
      then show ?thesis using two_parents [OF c] by blast
    qed
    have "ls_positions st c \<noteq> None" using True by auto
    with many r have "b = track (at_column gap st)" "st1 = next_column st" by auto
    then show ?thesis
      using True track_post [of st] empty_fresh [of "next_column st" st]
      by (simp add: node_post_def) (simp add: layout_ops)
  next
    case False
    then have "placeNode n ti gap c d st = Some (b, st1)" using r by (auto simp: dom_def)
    moreover have "explained st"
      by (rule loop_explained [OF Cons.prems(3)]) (use Cons.prems(2) in auto)
    ultimately show ?thesis using node False off stack c childIds_nodes by blast
  qed
  then have k: "keeps st st1" "band st st1 d" "adds st st1 {c}" "c \<in> placed st1" "box_post st b st1"
    by (simp_all add: node_post_def)
  from Cons.IH [OF rest _ loop_inv_step [OF Cons.prems(3) k(1,3)]] Cons.prems(2)
  have post: "children_post cs d st1 bs1 st'" by simp
  then have k': "keeps st1 st'" "band st1 st' d" "adds st1 st' (set cs)" "set cs \<subseteq> placed st'"
    "length bs1 = length cs" "cs \<noteq> [] \<longrightarrow> box_post st1 (parentBox bs1) st'"
    by (simp_all add: children_post_def)
  have "box_post st (parentBox bs) st'"
    unfolding bs using k(5) k' rest by (intro parentBox_post) auto
  then show ?case
    using keeps_trans [OF k(1) k'(1)] band_trans [OF k(1,2) k'(1,2)] adds_trans [OF k(1) k'(1) k(3) k'(3)]
      k' k(4) keeps_placed [OF k'(1)] bs
    by (auto simp: children_post_def)
qed

lemma inj_on_pair_insert:
  "inj_on (\<lambda>j. (f j, g j)) A \<Longrightarrow> (\<And>j. j \<in> A \<Longrightarrow> g j \<noteq> g i) \<Longrightarrow> inj_on (\<lambda>j. (f j, g j)) (insert i A)"
  unfolding inj_on_def by (metis insert_iff prod.inject)

lemma leaf_post:
  assumes "i \<notin> placed st" "i \<notin> ls_stack st" "childIds ti i = []"
  shows "node_post i d st (track (at_column gap st))
    (pop i (set_position i (at_column gap st) d (next_column (push i st))))"
  using assms gap_pos
  by (auto simp: node_post_def keeps_def band_def adds_def fresh_def box_post_def layout_ops
      algebra_simps inj_on_def)

lemma inner_post:
  assumes i: "i \<notin> placed st" "i \<notin> ls_stack st" and ne: "childIds ti i \<noteq> []"
    and post: "children_post (childIds ti i) (d + 1) (push i st) bs st2"
  shows "node_post i d st (parentBox bs) (pop i (set_position i (bx_center (parentBox bs)) d st2))"
proof -
  let ?b = "parentBox bs" and ?st1 = "push i st"
  let ?st' = "pop i (set_position i (bx_center ?b) d st2)"
  from post have k: "keeps ?st1 st2" "band ?st1 st2 (d + 1)" "adds ?st1 st2 (set (childIds ti i))"
    "set (childIds ti i) \<subseteq> placed st2" "box_post ?st1 ?b st2"
    using ne by (simp_all add: children_post_def)
  have pl: "placed ?st1 = placed st" "ls_positions ?st1 = ls_positions st" by (simp_all add: layout_ops)
  have stack: "ls_stack st2 = insert i (ls_stack st)" "fresh ?st1 st2 \<inter> insert i (ls_stack st) = {}"
    using k(1) by (simp_all add: keeps_def push_def)
  have i2: "i \<notin> placed st2" using stack(2) i(1) pl by (auto simp: fresh_def)
  have fr: "fresh st ?st' = insert i (fresh ?st1 st2)"
    using i2 i(1) pl by (auto simp: fresh_def layout_ops)
  have pos: "ls_positions ?st' j = (if j = i then Some \<lparr>pt_x = bx_center ?b, pt_y = int d * layerGap\<rparr> else ls_positions st2 j)" for j
    by (simp add: layout_ops)
  have pl': "placed ?st' = insert i (placed st2)" by (auto simp: layout_ops)
  have col: "at_column gap ?st1 = at_column gap st" "at_column gap ?st' = at_column gap st2"
    "ls_cursor ?st1 = ls_cursor st" "ls_cursor ?st' = ls_cursor st2" by (simp_all add: layout_ops)
  have gap: "layerGap > 0" by (simp add: layerGap_def)
  have below: "at_column gap st \<le> X st2 j \<and> X st2 j \<le> at_column gap st2 - gap \<and> int d * layerGap < Y st2 j"
    if "j \<in> fresh ?st1 st2" for j
  proof -
    from that k(2) have "at_column gap st \<le> X st2 j \<and> X st2 j \<le> at_column gap st2 - gap
        \<and> int (d + 1) * layerGap \<le> Y st2 j" by (simp add: band_def col)
    moreover have "int d * layerGap < int (d + 1) * layerGap" using gap by (simp add: algebra_simps)
    ultimately show ?thesis by linarith
  qed
  have box: "box_post st ?b ?st'" using k(5) by (simp add: box_post_def col)
  have "keeps st ?st'"
    using k(1,4) stack i i2 pl unfolding keeps_def fr pl'
    by (auto simp: col pos fresh_def pop_def set_position_def)
  moreover have "band st ?st' d"
    unfolding band_def fr
  proof
    show "\<forall>j \<in> insert i (fresh ?st1 st2). at_column gap st \<le> X ?st' j \<and> X ?st' j \<le> at_column gap ?st' - gap
        \<and> int d * layerGap \<le> Y ?st' j"
      using below box by (auto simp: pos col box_post_def intro: less_imp_le)
    have "inj_on (\<lambda>j. (X ?st' j, Y ?st' j)) (fresh ?st1 st2)"
      using k(2) i2 by (auto simp: band_def pos inj_on_def fresh_def)
    moreover have "Y ?st' j \<noteq> Y ?st' i" if "j \<in> fresh ?st1 st2" for j
      using below [OF that] i2 that by (auto simp: pos fresh_def)
    ultimately show "inj_on (\<lambda>j. (X ?st' j, Y ?st' j)) (insert i (fresh ?st1 st2))"
      by (rule inj_on_pair_insert)
  qed
  moreover have "adds st ?st' {i}"
    using k(3) unfolding adds_def fr by blast
  ultimately show ?thesis using box pl' by (simp add: node_post_def)
qed

lemma place_band:
  assumes ac: "acyclic edge_rel"
  shows "placeNode n ti gap i d st = Some (b, st') \<Longrightarrow> i \<in> V \<Longrightarrow> i \<notin> placed st \<Longrightarrow> i \<notin> ls_stack st
    \<Longrightarrow> \<forall>a \<in> ls_stack st. (a, i) \<in> edge_rel\<^sup>+ \<Longrightarrow> explained st \<Longrightarrow> node_post i d st b st'"
proof (induction n arbitrary: i d st b st')
  case (Suc n)
  have col: "at_column gap (push i st) = at_column gap st" by (simp add: layout_ops)
  obtain v where v: "ti_nodeMap ti i = Some v" "ls_positions st i = None" using Suc.prems(2,3) by auto
  show ?case
  proof (cases "childIds ti i = []")
    case True
    with Suc.prems v leaf_post [OF Suc.prems(3,4) True, of d] show ?thesis by (auto simp: Let_def col)
  next
    case False
    with Suc.prems(1,4) v obtain bs st2 where
      ch: "placeChildren n ti gap (childIds ti i) (d + 1) (push i st) = Some (bs, st2)"
      and res: "b = parentBox bs" "st' = pop i (set_position i (bx_center (parentBox bs)) d st2)"
      by (auto simp: Let_def split: option.splits prod.splits)
    have "children_post (childIds ti i) (d + 1) (push i st) bs st2"
      by (rule children_band [OF Suc.IH ac ch, of i "[]"])
         (simp_all add: loop_start [OF Suc.prems(6,3,4,5)])
    from inner_post [OF Suc.prems(3,4) False this] res show ?thesis by simp
  qed
qed simp

section \<open>The calls from the roots\<close>

lemma placeAll_total:
  "wf_layout st \<Longrightarrow> card V < n \<Longrightarrow>
     \<exists>st'. placeAll n ti gap xs st = Some st' \<and> wf_layout st' \<and> placed st \<subseteq> placed st' \<and> set xs \<inter> V \<subseteq> placed st'"
proof (induction xs arbitrary: st)
  case (Cons i xs)
  let ?st = "st\<lparr>ls_stack := {}\<rparr>"
  have "wf_layout ?st" "card (V - ls_stack ?st) < n" using Cons.prems by (simp_all add: wf_layout_def)
  from place_total [OF this, of i 0] obtain b st1 where
    st1: "placeNode n ti gap i 0 ?st = Some (b, st1)" "grown ?st st1" "i \<in> V \<longrightarrow> i \<in> placed st1" by blast
  then have "wf_layout st1" "placed st \<subseteq> placed st1" by (simp_all add: grown_def)
  moreover from Cons.IH [OF this(1) Cons.prems(2)] obtain st2 where
    "placeAll n ti gap xs st1 = Some st2" "wf_layout st2" "placed st1 \<subseteq> placed st2" "set xs \<inter> V \<subseteq> placed st2"
    by blast
  ultimately show ?case using st1 by (auto simp: subset_iff)
qed simp

lemma placeAll_band:
  assumes ac: "acyclic edge_rel"
  shows "placeAll n ti gap xs st = Some st' \<Longrightarrow> explained st \<Longrightarrow> ls_stack st = {}
    \<Longrightarrow> \<forall>i \<in> set xs. i \<in> V \<and> incoming ti i = 0
    \<Longrightarrow> keeps st st' \<and> band st st' 0"
proof (induction xs arbitrary: st)
  case Nil
  then show ?case by (simp add: keeps_refl band_refl)
next
  case (Cons i xs)
  have "st\<lparr>ls_stack := {}\<rparr> = st" using Cons.prems(3) by simp
  with Cons.prems(1) obtain b st1 where st1: "placeNode n ti gap i 0 st = Some (b, st1)"
    and rest: "placeAll n ti gap xs st1 = Some st'" by (auto split: option.splits prod.splits)
  have step: "keeps st st1 \<and> band st st1 0 \<and> adds st st1 {i}"
  proof (cases "i \<in> placed st")
    case True
    moreover obtain v where "ti_nodeMap ti i = Some v" using Cons.prems(4) by auto
    ultimately have "st1 = st" using st1 by (cases n) (auto split: option.splits)
    then show ?thesis by (simp add: keeps_refl band_refl adds_def fresh_def)
  next
    case False
    with place_band [OF ac st1 _ False] Cons.prems(2-4) show ?thesis by (simp add: node_post_def)
  qed
  have "explained st1"
    unfolding explained_def
  proof
    fix c assume c: "c \<in> placed st1"
    show "incoming ti c = 0 \<or> (\<exists>p \<in> placed st1 \<union> ls_stack st1. c \<in> set (childIds ti p))"
    proof (cases "c \<in> placed st")
      case True
      with Cons.prems(2) have "incoming ti c = 0 \<or> (\<exists>p \<in> placed st \<union> ls_stack st. c \<in> set (childIds ti p))"
        unfolding explained_def by (rule bspec)
      with keeps_placed [of st st1] step Cons.prems(3) show ?thesis by auto
    next
      case False
      with c step have "c = i \<or> (\<exists>p \<in> fresh st st1. c \<in> set (childIds ti p))"
        by (auto simp: adds_def fresh_def)
      with Cons.prems(4) show ?thesis by (auto simp: fresh_def)
    qed
  qed
  moreover have "ls_stack st1 = {}" using step Cons.prems(3) by (simp add: keeps_def)
  ultimately have "keeps st1 st' \<and> band st1 st' 0" using Cons.IH [OF rest] Cons.prems(4) by simp
  with step show ?case using keeps_trans band_trans by blast
qed

lemma explained_initial: "explained initial_layout" "placed initial_layout = {}" "wf_layout initial_layout"
  by (simp_all add: explained_def initial_layout_def wf_layout_def)

text \<open>In an acyclic graph the roots reach every node.\<close>

lemma roots_place_all:
  assumes ac: "acyclic edge_rel" and k: "keeps initial_layout st"
    and roots: "\<forall>i \<in> V. incoming ti i = 0 \<longrightarrow> i \<in> placed st"
  shows "V \<subseteq> placed st"
proof
  let ?r = "edge_rel \<inter> V \<times> V"
  have "finite ?r" using finite_nodes by simp
  moreover have "acyclic ?r" by (rule acyclic_subset [OF ac]) simp
  ultimately have wf: "wf ?r" by (rule finite_acyclic_wf)
  have closed: "set (childIds ti p) \<subseteq> placed st" if "p \<in> placed st" for p
    using that k by (simp add: keeps_def fresh_def explained_initial)
  fix i
  have "i \<in> V \<longrightarrow> i \<in> placed st"
  proof (rule wf_induct [OF wf])
    fix i assume IH: "\<forall>p. (p, i) \<in> ?r \<longrightarrow> p \<in> V \<longrightarrow> p \<in> placed st"
    show "i \<in> V \<longrightarrow> i \<in> placed st"
    proof
      assume i: "i \<in> V"
      show "i \<in> placed st"
      proof (cases "incoming ti i = 0")
        case False
        then obtain p where "p \<in> V" "i \<in> set (childIds ti p)" using has_parent [of i] by auto
        with i IH closed show ?thesis by blast
      qed (use roots i in blast)
    qed
  qed
  then show "i \<in> V \<Longrightarrow> i \<in> placed st" by blast
qed

end

section \<open>The indexes of a graph\<close>

definition valid_edge :: "(string \<rightharpoonup> graph_node) \<Rightarrow> graph_edge \<Rightarrow> bool" where
  "valid_edge nm e \<longleftrightarrow> nm (ge_source e) \<noteq> None \<and> nm (ge_target e) \<noteq> None"

lemma fold_addEdge:
  assumes "fold (addEdge nm) es (ch, inc) = (ch', inc')"
  shows "listAt ch' i = listAt ch i @ map ge_target (filter (\<lambda>e. valid_edge nm e \<and> ge_source e = i) es)
    \<and> countAt inc' i = countAt inc i + length (filter (\<lambda>e. valid_edge nm e \<and> ge_target e = i) es)"
  using assms
proof (induction es arbitrary: ch inc)
  case (Cons e es)
  obtain ch1 inc1 where step: "addEdge nm e (ch, inc) = (ch1, inc1)" by (cases "addEdge nm e (ch, inc)")
  with Cons.prems have rest: "fold (addEdge nm) es (ch1, inc1) = (ch', inc')" by simp
  show ?case
  proof (cases "valid_edge nm e")
    case True
    then have "ch1 = ch(ge_source e \<mapsto> listAt ch (ge_source e) @ [ge_target e])"
      "inc1 = inc(ge_target e \<mapsto> countAt inc (ge_target e) + 1)"
      using step by (auto simp: addEdge_def valid_edge_def)
    then have "listAt ch1 i = listAt ch i @ (if ge_source e = i then [ge_target e] else [])"
      "countAt inc1 i = countAt inc i + (if ge_target e = i then 1 else 0)" by simp_all
    with Cons.IH [OF rest] True show ?thesis by simp
  next
    case False
    then have "ch1 = ch" "inc1 = inc" using step by (auto simp: addEdge_def valid_edge_def)
    with Cons.IH [OF rest] False show ?thesis by simp
  qed
qed simp

lemma dom_nodeMapOf: "dom (nodeMapOf ns) = gn_id ` set ns"
  by (simp add: nodeMapOf_def dom_map_of_conv_image_fst image_image)

lemma mset_insert_by: "mset (insert_by cmp x xs) = add_mset x (mset xs)"
  by (induction xs) auto

lemma mset_js_sort: "mset (js_sort cmp xs) = mset xs"
  by (induction xs) (simp_all add: js_sort_def mset_insert_by)

lemma count_list_js_sort: "count_list (js_sort cmp xs) x = count_list xs x"
  using arg_cong [OF mset_js_sort [of cmp xs], of "\<lambda>m. count m x"]
  by (simp add: count_mset count_list_eq_length_filter)

text \<open>The edges between nodes of the graph.\<close>

definition linked :: "session_graph \<Rightarrow> graph_edge list" where
  "linked g = filter (valid_edge (nodeMapOf (graphNodes g))) (graphEdges g)"

definition graph_rel :: "session_graph \<Rightarrow> (string \<times> string) set" where
  "graph_rel g = (\<lambda>e. (ge_source e, ge_target e)) ` set (linked g)"

lemma buildTreeIndexes_nodeMap: "ti_nodeMap (buildTreeIndexes k g) = nodeMapOf (graphNodes g)"
  by (simp add: buildTreeIndexes_def Let_def split: prod.split)

lemma filter_linked: "filter (\<lambda>e. valid_edge (nodeMapOf (graphNodes g)) e \<and> P e) (graphEdges g) = filter P (linked g)"
  by (simp add: linked_def conj_commute)

lemma indexEdges_eq:
  assumes "indexEdges g = (ch, inc)"
  shows "listAt ch i = map ge_target (filter (\<lambda>e. ge_source e = i) (linked g))"
    "countAt inc i = length (filter (\<lambda>e. ge_target e = i) (linked g))"
proof -
  have "listAt (\<lambda>i. if i \<in> A then Some [] else None) i = []" "countAt (\<lambda>i. if i \<in> A then Some 0 else None) i = 0" for A
    by (simp_all add: listAt_def countAt_def)
  with fold_addEdge [OF assms [unfolded indexEdges_def Let_def], of i]
  show "listAt ch i = map ge_target (filter (\<lambda>e. ge_source e = i) (linked g))"
    "countAt inc i = length (filter (\<lambda>e. ge_target e = i) (linked g))"
    by (simp_all add: filter_linked)
qed

lemma build_children:
  "listAt (ti_childrenMap (buildTreeIndexes k g)) i
     = js_sort (compareIds k (nodeMapOf (graphNodes g)))
         (map ge_target (filter (\<lambda>e. ge_source e = i) (linked g)))"
proof (cases "indexEdges g")
  case (Pair ch inc)
  have "listAt (\<lambda>i. map_option (js_sort cmp) (ch i)) i = js_sort cmp (listAt ch i)" for cmp
    by (simp add: listAt_def js_sort_def split: option.split)
  with Pair indexEdges_eq(1) [OF Pair, of i] show ?thesis
    by (simp add: buildTreeIndexes_def Let_def)
qed

lemma set_childIds: "set (childIds (buildTreeIndexes k g) i) = {c. (i, c) \<in> graph_rel g}"
proof -
  show ?thesis
    by (auto simp: childIds_def build_children buildTreeIndexes_nodeMap graph_rel_def linked_def valid_edge_def)
qed

lemma count_childIds:
  "count_list (childIds (buildTreeIndexes k g) i) c
     \<le> length (filter (\<lambda>e. ge_source e = i \<and> ge_target e = c) (linked g))"
proof -
  have le: "count_list (filter P xs) c \<le> count_list xs c" for P and xs :: "string list"
    by (induction xs) auto
  have "count_list (map ge_target es) c = length (filter (\<lambda>e. ge_target e = c) es)" for es
    by (induction es) auto
  from this [of "filter (\<lambda>e. ge_source e = i) (linked g)"] show ?thesis
    unfolding childIds_def build_children
    by (intro order_trans [OF le]) (simp add: count_list_js_sort)
qed

lemma build_incoming:
  "incoming (buildTreeIndexes k g) i = length (filter (\<lambda>e. ge_target e = i) (linked g))"
proof (cases "indexEdges g")
  case (Pair ch inc)
  with indexEdges_eq(2) [OF Pair, of i] show ?thesis
    by (simp add: incoming_def buildTreeIndexes_def Let_def)
qed

lemma build_roots:
  "set (ti_roots (buildTreeIndexes k g))
     = {i \<in> gn_id ` set (graphNodes g). incoming (buildTreeIndexes k g) i = 0}"
proof (cases "indexEdges g")
  case (Pair ch inc)
  have inc: "incoming (buildTreeIndexes k g) i = countAt inc i" for i
    by (simp add: incoming_def buildTreeIndexes_def Let_def Pair)
  have "inc i = None \<or> inc i = Some 0 \<longleftrightarrow> countAt inc i = 0" for i
    by (simp add: countAt_def split: option.split)
  then have "set (ti_roots (buildTreeIndexes k g)) = gn_id ` {n \<in> set (graphNodes g). countAt inc (gn_id n) = 0}"
    by (simp add: buildTreeIndexes_def Let_def Pair)
  then show ?thesis using inc by auto
qed

interpretation graph_layout: layout_index "buildTreeIndexes k g" "siblingGap displays" for k g displays
proof
  let ?ti = "buildTreeIndexes k g"
  show "finite (dom (ti_nodeMap ?ti))" by (simp add: buildTreeIndexes_nodeMap dom_nodeMapOf)
  show "0 < siblingGap displays" by (simp add: siblingGap_def)
  show "incoming ?ti c > 1" if "c \<in> set (childIds ?ti p)" "c \<in> set (childIds ?ti q)" "p \<noteq> q" for c p q
  proof -
    from that(1,2) obtain e e' where "e \<in> set (linked g)" "ge_source e = p" "ge_target e = c"
      "e' \<in> set (linked g)" "ge_source e' = q" "ge_target e' = c"
      by (auto simp: set_childIds graph_rel_def)
    then have "{e, e'} \<subseteq> set (filter (\<lambda>e. ge_target e = c) (linked g))" "e \<noteq> e'" using that(3) by auto
    then have "2 \<le> card (set (filter (\<lambda>e. ge_target e = c) (linked g)))"
      using card_mono [of "set (filter (\<lambda>e. ge_target e = c) (linked g))" "{e, e'}"] by simp
    then show ?thesis
      unfolding build_incoming using card_length [of "filter (\<lambda>e. ge_target e = c) (linked g)"] by linarith
  qed
  show "incoming ?ti c > 1" if "count_list (childIds ?ti p) c > 1" for p c
  proof -
    have "length (filter (\<lambda>e. ge_source e = p \<and> ge_target e = c) es) \<le> length (filter (\<lambda>e. ge_target e = c) es)" for es
      by (induction es) auto
    from this [of "linked g"] that count_childIds [of k g p c] show ?thesis
      unfolding build_incoming by linarith
  qed
  show "\<exists>p \<in> dom (ti_nodeMap ?ti). c \<in> set (childIds ?ti p)" if "incoming ?ti c > 0" for c
  proof -
    from that obtain e where "e \<in> set (linked g)" "ge_target e = c"
      unfolding build_incoming by (auto simp: filter_empty_conv)
    then show ?thesis
      by (force simp: set_childIds graph_rel_def buildTreeIndexes_nodeMap linked_def valid_edge_def)
  qed
  show "incoming ?ti c > 0" if "c \<in> set (childIds ?ti p)" for c p
    using that unfolding build_incoming by (auto simp: set_childIds graph_rel_def filter_empty_conv)
qed

section \<open>The layout of a graph\<close>

abbreviation node_ids :: "session_graph \<Rightarrow> string set" where
  "node_ids g \<equiv> gn_id ` set (graphNodes g)"

lemma fuel_enough: "card (dom (ti_nodeMap (buildTreeIndexes k g))) < Suc (length (graphNodes g))"
proof -
  have "card (node_ids g) \<le> card (set (graphNodes g))" by (simp add: card_image_le)
  also have "\<dots> \<le> length (graphNodes g)" by (rule card_length)
  finally show ?thesis by (simp add: buildTreeIndexes_nodeMap dom_nodeMapOf)
qed

lemma nodeMapOf_id: "nodeMapOf ns i = Some n \<Longrightarrow> gn_id n = i"
  unfolding nodeMapOf_def by (auto dest: map_of_SomeD)

lemma nodeMapValues_ids: "gn_id ` set (nodeMapValues ns) = gn_id ` set ns"
proof -
  let ?A = "gn_id ` set ns"
  have "gn_id (the (nodeMapOf ns i)) = i" if "i \<in> ?A" for i
  proof -
    have "i \<in> dom (nodeMapOf ns)" using that by (simp add: dom_nodeMapOf)
    then obtain n where "nodeMapOf ns i = Some n" by blast
    then show ?thesis using nodeMapOf_id by simp
  qed
  then have "(\<lambda>i. gn_id (the (nodeMapOf ns i))) ` ?A = ?A" by simp
  moreover have "set (nodeMapValues ns) = (\<lambda>i. the (nodeMapOf ns i)) ` ?A" by (simp add: nodeMapValues_def)
  ultimately show ?thesis by (simp only: image_image)
qed

lemma layout_runs:
  "\<exists>st st'. placeAll (Suc (length (graphNodes g))) (buildTreeIndexes k g) (siblingGap ds)
       (ti_roots (buildTreeIndexes k g)) initial_layout = Some st
    \<and> ls_visited st = dom (ls_positions st) \<and> set (ti_roots (buildTreeIndexes k g)) \<subseteq> dom (ls_positions st)
    \<and> computeTreeLayout k g ds = Some (ls_positions st') \<and> dom (ls_positions st') = node_ids g
    \<and> dom (ls_positions st) \<subseteq> node_ids g \<and> (ls_visited st = node_ids g \<longrightarrow> st' = st)"
proof -
  let ?ti = "buildTreeIndexes k g" and ?gap = "siblingGap ds" and ?n = "Suc (length (graphNodes g))"
  have V: "dom (ti_nodeMap ?ti) = node_ids g" by (simp add: buildTreeIndexes_nodeMap dom_nodeMapOf)
  note total = graph_layout.placeAll_total [OF _ fuel_enough, where displays = ds and k = k and g = g, unfolded V]
  from total [OF graph_layout.explained_initial(3), where xs = "ti_roots ?ti"] obtain st where
    st: "placeAll ?n ?ti ?gap (ti_roots ?ti) initial_layout = Some st"
    "graph_layout.wf_layout k g st" "set (ti_roots ?ti) \<inter> node_ids g \<subseteq> dom (ls_positions st)" by blast
  let ?rest = "map gn_id (js_sort (compareNodes k)
     (filter (\<lambda>v. gn_id v \<notin> ls_visited st) (nodeMapValues (graphNodes g))))"
  from total [OF st(2), where xs = ?rest] obtain st' where
    st': "placeAll ?n ?ti ?gap ?rest st = Some st'" "graph_layout.wf_layout k g st'"
    "dom (ls_positions st) \<subseteq> dom (ls_positions st')" "set ?rest \<inter> node_ids g \<subseteq> dom (ls_positions st')"
    by blast
  have vis: "ls_visited st = dom (ls_positions st)" "dom (ls_positions st') \<subseteq> node_ids g"
    "dom (ls_positions st) \<subseteq> node_ids g"
    using st(2) st'(2) V by (simp_all add: graph_layout.wf_layout_def)
  have "set ?rest = gn_id ` set (nodeMapValues (graphNodes g)) - ls_visited st" by auto
  then have rest: "set ?rest = node_ids g - ls_visited st" by (simp only: nodeMapValues_ids)
  then have "node_ids g \<subseteq> dom (ls_positions st')" using st'(3,4) vis(1) by blast
  then have dom: "dom (ls_positions st') = node_ids g" using vis(2) by (rule subset_antisym [rotated])
  have "set (ti_roots ?ti) \<subseteq> node_ids g" by (auto simp: build_roots)
  then have roots: "set (ti_roots ?ti) \<subseteq> dom (ls_positions st)" using st(3) by blast
  have run: "computeTreeLayout k g ds = Some (ls_positions st')"
    using st(1) st'(1) by (simp add: computeTreeLayout_def Let_def)
  have same: "st' = st" if "ls_visited st = node_ids g"
  proof -
    have "set ?rest = {}" by (rule trans [OF rest]) (simp only: that Diff_cancel)
    then have "?rest = []" by (simp only: set_empty)
    with st'(1) show ?thesis by simp
  qed
  show ?thesis
    by (intro exI [of _ st] exI [of _ st'] conjI impI st(1) vis(1,3) roots run dom same)
qed

lemma layout_inj:
  assumes "acyclic (graph_rel g)" "computeTreeLayout k g ds = Some pos"
  shows "inj_on (\<lambda>i. (pt_x (the (pos i)), pt_y (the (pos i)))) (node_ids g)"
proof -
  let ?ti = "buildTreeIndexes k g"
  have rel: "{(p, c). c \<in> set (childIds ?ti p)} = graph_rel g" by (auto simp: set_childIds)
  have V: "dom (ti_nodeMap ?ti) = node_ids g" by (simp add: buildTreeIndexes_nodeMap dom_nodeMapOf)
  have ac: "acyclic {(p, c). c \<in> set (childIds ?ti p)}" using assms(1) rel by simp
  from layout_runs [of g k ds] obtain st st' where st:
    "placeAll (Suc (length (graphNodes g))) ?ti (siblingGap ds) (ti_roots ?ti) initial_layout = Some st"
    "ls_visited st = dom (ls_positions st)" "set (ti_roots ?ti) \<subseteq> dom (ls_positions st)"
    "computeTreeLayout k g ds = Some (ls_positions st')" "dom (ls_positions st) \<subseteq> node_ids g"
    "ls_visited st = node_ids g \<longrightarrow> st' = st" by blast
  have "\<forall>i \<in> set (ti_roots ?ti). i \<in> dom (ti_nodeMap ?ti) \<and> incoming ?ti i = 0"
    by (simp add: build_roots V)
  then have k: "graph_layout.keeps k g initial_layout st" "graph_layout.band ds initial_layout st 0"
    using graph_layout.placeAll_band [OF ac st(1) graph_layout.explained_initial(1)]
    by (simp_all add: initial_layout_def)
  have "dom (ti_nodeMap ?ti) \<subseteq> dom (ls_positions st)"
    by (rule graph_layout.roots_place_all [OF ac k(1)]) (use st(3) in \<open>auto simp: build_roots V\<close>)
  then have dom: "dom (ls_positions st) = node_ids g" using st(5) V by blast
  then have "pos = ls_positions st" using st(2,4,6) assms(2) by simp
  then show ?thesis
    using k(2) dom
    by (simp add: graph_layout.band_def graph_layout.fresh_def graph_layout.explained_initial)
qed

text \<open>
  C21. The picture of a session graph is always computed, also for a cyclic graph: the search returns
  within a fuel of one more than the number of nodes, every node of the graph gets a position, and
  the picture shows each source node once, at the position the layout gave it.
\<close>

theorem flow_elements_total:
  "\<exists>pos ns es. computeTreeLayout k g (map buildNodeDisplayTexts (nodeMapValues (graphNodes g))) = Some pos
     \<and> dom pos = gn_id ` set (graphNodes g)
     \<and> buildOpenClawFlowElements k g = Some (ns, es)
     \<and> mset (map fn_node ns) = mset (graphNodes g)
     \<and> list_all (\<lambda>v. pos (fn_id v) = Some (fn_position v)) ns
     \<and> map fe_id es = map (\<lambda>e. ge_source e @ ''-'' @ ge_target e) (graphEdges g)"
proof -
  let ?ds = "map buildNodeDisplayTexts (nodeMapValues (graphNodes g))"
  obtain pos where pos: "computeTreeLayout k g ?ds = Some pos" "dom pos = node_ids g"
    using layout_runs [of g k ?ds] by blast
  let ?ns = "map (flowNode (graphNodes g) pos) (js_sort (compareNodes k) (graphNodes g))"
  have "map fn_node ?ns = js_sort (compareNodes k) (graphNodes g)"
    by (simp add: flowNode_def Let_def comp_def)
  moreover have "pos (fn_id v) = Some (fn_position v)" if "v \<in> set ?ns" for v
  proof -
    from that obtain n where n: "n \<in> set (graphNodes g)" "v = flowNode (graphNodes g) pos n" by auto
    then have "gn_id n \<in> dom pos" using pos(2) by simp
    with n(2) show ?thesis by (auto simp: flowNode_def Let_def)
  qed
  moreover have "buildOpenClawFlowElements k g = Some (?ns, map (flowEdge (graphNodes g)) (graphEdges g))"
    using pos(1) by (simp add: buildOpenClawFlowElements_def Let_def)
  moreover have "map fe_id (map (flowEdge (graphNodes g)) (graphEdges g))
      = map (\<lambda>e. ge_source e @ ''-'' @ ge_target e) (graphEdges g)"
    by (simp add: flowEdge_def)
  ultimately show ?thesis
    using pos mset_js_sort [of "compareNodes k" "graphNodes g"]
    by (intro exI [of _ pos] exI [of _ ?ns] exI [of _ "map (flowEdge (graphNodes g)) (graphEdges g)"] conjI)
       (simp_all only: list_all_iff Ball_def, auto)
qed

text \<open>
  C11. In an acyclic session graph whose nodes have distinct ids no two nodes of the picture are drawn
  on the same spot, however the branches join.
\<close>

theorem flow_nodes_apart:
  assumes "acyclic (graph_rel g)" and "distinct (map gn_id (graphNodes g))"
    and "buildOpenClawFlowElements k g = Some (ns, es)"
  shows "distinct (map (\<lambda>v. (pt_x (fn_position v), pt_y (fn_position v))) ns)"
proof -
  let ?ds = "map buildNodeDisplayTexts (nodeMapValues (graphNodes g))"
  let ?p = "\<lambda>pos i. (pt_x (the (pos i)), pt_y (the (pos i)))"
  obtain pos where pos: "computeTreeLayout k g ?ds = Some pos" "dom pos = node_ids g"
    using layout_runs [of g k ?ds] by blast
  with assms(3) have ns: "ns = map (flowNode (graphNodes g) pos) (js_sort (compareNodes k) (graphNodes g))"
    by (simp add: buildOpenClawFlowElements_def Let_def)
  have "(pt_x (fn_position v), pt_y (fn_position v)) = ?p pos (gn_id n)"
    if "n \<in> set (graphNodes g)" "v = flowNode (graphNodes g) pos n" for n v
  proof -
    have "gn_id n \<in> dom pos" using that(1) pos(2) by simp
    with that(2) show ?thesis by (auto simp: flowNode_def Let_def)
  qed
  then have eq: "map (\<lambda>v. (pt_x (fn_position v), pt_y (fn_position v))) ns
      = map (?p pos) (map gn_id (js_sort (compareNodes k) (graphNodes g)))"
    by (simp add: ns)
  have "mset (map gn_id (js_sort (compareNodes k) (graphNodes g))) = mset (map gn_id (graphNodes g))"
    by (simp add: mset_js_sort)
  then have "distinct (map gn_id (js_sort (compareNodes k) (graphNodes g)))"
    using assms(2) by (metis mset_eq_imp_distinct_iff)
  moreover have "inj_on (?p pos) (set (map gn_id (js_sort (compareNodes k) (graphNodes g))))"
    using layout_inj [OF assms(1) pos(1)] by simp
  ultimately show ?thesis unfolding eq by (simp only: distinct_map)
qed

text \<open>A session with two branches that join.\<close>

definition demo_clock :: clock where
  "demo_clock = \<lparr>parse_date = (\<lambda>_. None), locale_compare = (\<lambda>a b. int (length a) - int (length b))\<rparr>"

definition demo_graph :: session_graph where
  "demo_graph =
     \<lparr>sg_nodes = Some (map (\<lambda>i. empty_node\<lparr>gn_id := i\<rparr>) [''a'', ''bb'', ''ccc'', ''dddd'']),
      sg_edges = Some (map (\<lambda>(s, t). \<lparr>ge_source = s, ge_target = t\<rparr>)
        [(''a'', ''bb''), (''a'', ''ccc''), (''bb'', ''dddd''), (''ccc'', ''dddd'')])\<rparr>"

theorem flow_nodes_apart_witness:
  "\<exists>ns es. buildOpenClawFlowElements demo_clock demo_graph = Some (ns, es) \<and> length ns = 4
     \<and> distinct (map (\<lambda>v. (pt_x (fn_position v), pt_y (fn_position v))) ns)"
proof -
  have len: "length s < length t" if "(s, t) \<in> graph_rel demo_graph" for s t
  proof -
    have "(s, t) \<in> (\<lambda>e. (ge_source e, ge_target e)) ` set (graphEdges demo_graph)"
      using that by (auto simp: graph_rel_def linked_def)
    then show ?thesis by (auto simp: demo_graph_def graphEdges_def)
  qed
  have "acyclic ((graph_rel demo_graph)\<inverse>)"
    by (rule acyclicI_order [where f = length]) (simp add: len)
  then have ac: "acyclic (graph_rel demo_graph)" by simp
  have ids: "distinct (map gn_id (graphNodes demo_graph))" by (simp add: demo_graph_def graphNodes_def)
  let ?ds = "map buildNodeDisplayTexts (nodeMapValues (graphNodes demo_graph))"
  obtain pos where "computeTreeLayout demo_clock demo_graph ?ds = Some pos"
    using layout_runs [of demo_graph demo_clock ?ds] by blast
  then obtain ns es where r: "buildOpenClawFlowElements demo_clock demo_graph = Some (ns, es)" "length ns = 4"
    by (auto simp: buildOpenClawFlowElements_def Let_def demo_graph_def graphNodes_def)
  with flow_nodes_apart [OF ac ids r(1)] show ?thesis by blast
qed

end
