(* ===== verification/Edit_Page.thy ===== *)
theory Edit_Page
  imports Sign_In_Rules Row_Operations
begin

text \<open>
  The edit pages of the console (\<open>web/src/*EditPage.js\<close>): what they share. A page holds the owner and
  the name under which its record was last known to the server, the record as it is edited, and a
  few fields of its own; it talks to the server through the functions of \<open>web/src/backend\<close>. A handler
  is an action on the state that may end with an exception; what it does outside the state is
  appended to the list of effects in the order of the code.

  The console runs on React 18, where \<open>setState\<close> in the continuation of a promise takes effect after
  the continuation has ended: an expression \<open>this.state.x\<close> evaluated later in the same continuation
  still reads the old value. The record itself is changed in place and its new fields are seen at
  once. A push to the path of the same route leaves the page mounted with its state, a push to
  another route unmounts it. Calls of \<open>i18next.t\<close> stand for the key they translate.
\<close>

section \<open>State, effects and actions\<close>

datatype api_call =
    GetRecord string jsval jsval
  | UpdateRecord string jsval jsval jsval
  | AddRecord string jsval
  | DeleteRecord string jsval
  | Request string "jsval list"

datatype edit_effect =
    Push string
  | Href string
  | Show string string
  | Send api_call
  | Fire string

record edit =
  ed_owner :: jsval
  ed_name :: jsval
  ed_object :: jsval
  ed_mode :: string
  ed_open :: bool
  ed_more :: "string \<Rightarrow> jsval"
  ed_account :: "account option"
  ed_session :: "string \<Rightarrow> string option"
  ed_effects :: "edit_effect list"

type_synonym act = "edit \<Rightarrow> edit \<times> js_error option"

named_theorems act_defs \<open>the actions the handlers are made of\<close>
named_theorems page_defs \<open>the handlers of the edit pages\<close>

definition no_act :: act where [act_defs]:
  "no_act s = (s, None)"

definition raise :: "js_error \<Rightarrow> act" where [act_defs]:
  "raise e s = (s, Some e)"

definition change :: "(edit \<Rightarrow> edit) \<Rightarrow> act" where [act_defs]:
  "change f s = (f s, None)"

definition effect_act :: "edit_effect \<Rightarrow> act" where [act_defs]:
  "effect_act e = change (\<lambda>s. s\<lparr>ed_effects := ed_effects s @ [e]\<rparr>)"

text \<open>Statements one after the other, up to the first exception.\<close>

fun steps :: "act list \<Rightarrow> act" where
  "steps [] s = (s, None)"
| "steps (a # acts) s = (case a s of (s', None) \<Rightarrow> steps acts s' | (s', Some e) \<Rightarrow> (s', Some e))"

text \<open>\<open>p.catch(handler)\<close> and \<open>try ... catch\<close>.\<close>

definition catch :: "act \<Rightarrow> (js_error \<Rightarrow> act) \<Rightarrow> act" where [act_defs]:
  "catch a handler s = (case a s of (s', None) \<Rightarrow> (s', None) | (s', Some e) \<Rightarrow> handler e s')"

text \<open>An action that looks at the state first, and one that evaluates \<open>this.state.<record>[k]\<close>.\<close>

definition with_state :: "(edit \<Rightarrow> act) \<Rightarrow> act" where [act_defs]:
  "with_state f s = f s s"

definition with_field :: "string \<Rightarrow> (jsval \<Rightarrow> act) \<Rightarrow> act" where [act_defs]:
  "with_field k f s = (case js_get (ed_object s) k of Return v \<Rightarrow> f v s | Throw e \<Rightarrow> (s, Some e))"

definition showMessage :: "string \<Rightarrow> string \<Rightarrow> act" where [act_defs]:
  "showMessage kind content = effect_act (Show kind content)"

definition leave_to :: "string \<Rightarrow> act" where [act_defs]:
  "leave_to path = steps [effect_act (Push path), change (\<lambda>s. s\<lparr>ed_open := False\<rparr>)]"

definition stay_at :: "string \<Rightarrow> act" where [act_defs]:
  "stay_at path = effect_act (Push path)"

definition send :: "api_call \<Rightarrow> act" where [act_defs]:
  "send c = effect_act (Send c)"

text \<open>\<open>Object.assign({}, obj)\<close>: the copy of \<open>null\<close> is an empty object.\<close>

definition deepCopy :: "jsval \<Rightarrow> jsval" where
  "deepCopy v = (case v of JObj ps \<Rightarrow> JObj ps | _ \<Rightarrow> JObj [])"

lemma deepCopy_obj [simp]: "is_obj v \<Longrightarrow> deepCopy v = v"
  by (erule is_objE) (simp add: deepCopy_def)

lemma is_obj_deepCopy [simp]: "is_obj (deepCopy v)"
  by (cases v) (simp_all add: deepCopy_def)

text \<open>\<open>xs.find(p)\<close>.\<close>

fun js_find :: "('a \<Rightarrow> bool result) \<Rightarrow> 'a list \<Rightarrow> 'a option result" where
  "js_find p [] = Return None"
| "js_find p (x # xs) = bind_result (p x) (\<lambda>hit. if hit then Return (Some x) else js_find p xs)"

text \<open>A condition that may throw, \<open>v.length === 0\<close>, and a field of the page's own state.\<close>

definition branch :: "(edit \<Rightarrow> bool result) \<Rightarrow> act \<Rightarrow> act \<Rightarrow> act" where [act_defs]:
  "branch c a b s = (case c s of Throw e \<Rightarrow> (s, Some e) | Return holds \<Rightarrow> if holds then a s else b s)"

definition no_elements :: "jsval \<Rightarrow> bool result" where
  "no_elements v =
     (case v of
        JArr xs \<Rightarrow> Return (xs = [])
      | JStr t \<Rightarrow> Return (t = [])
      | JObj ps \<Rightarrow> Return (prop_of ps ''length'' = JNum 0)
      | JUndefined \<Rightarrow> Throw TypeError
      | JNull \<Rightarrow> Throw TypeError
      | _ \<Rightarrow> Return False)"

definition set_more :: "string \<Rightarrow> jsval \<Rightarrow> act" where [act_defs]:
  "set_more k v = change (\<lambda>s. s\<lparr>ed_more := (ed_more s)(k := v)\<rparr>)"

definition or_empty :: "jsval \<Rightarrow> jsval" where
  "or_empty v = (if js_bool v then v else JArr [])"

section \<open>Parsing of form fields\<close>

text \<open>\<open>parseInt\<close> reads an optional sign and the longest run of digits, hexadecimal after \<open>0x\<close>.\<close>

definition digits_value :: "nat \<Rightarrow> string \<Rightarrow> nat" where
  "digits_value base ds = foldl (\<lambda>n c. n * base + (case hex_val c of Some d \<Rightarrow> d | None \<Rightarrow> 0)) 0 ds"

definition parse_digits :: "string \<Rightarrow> int option" where
  "parse_digits t =
     (if take 2 t = ''0x'' \<or> take 2 t = ''0X''
      then (let ds = takeWhile (\<lambda>c. hex_val c \<noteq> None) (drop 2 t) in
            if ds = [] then None else Some (int (digits_value 16 ds)))
      else (let ds = takeWhile is_digit t in
            if ds = [] then None else Some (int (digits_value 10 ds))))"

definition parseInt :: "string \<Rightarrow> int option" where
  "parseInt t =
     (case dropWhile is_space t of
        [] \<Rightarrow> None
      | c # r \<Rightarrow>
          if c = CHR ''-'' then map_option uminus (parse_digits r)
          else if c = CHR ''+'' then parse_digits r
          else parse_digits (c # r))"

definition myParseInt :: "jsval \<Rightarrow> jsval" where
  "myParseInt v = JNum (case parseInt (js_text v) of Some n \<Rightarrow> n | None \<Rightarrow> 0)"

text \<open>The guard \<open>[...].includes(key)\<close> of the parse functions; most lists hold no field name.\<close>

definition parse_ints :: "string list \<Rightarrow> string \<Rightarrow> jsval \<Rightarrow> jsval" where
  "parse_ints keys k v = (if k \<in> set keys then myParseInt v else v)"

section \<open>Reading and writing the record\<close>

text \<open>\<open>record[key] = value; this.setState({record: record})\<close>.\<close>

definition put_field :: "string \<Rightarrow> jsval \<Rightarrow> act" where [act_defs]:
  "put_field k v s =
     (case js_set (ed_object s) k v of
        Return w \<Rightarrow> (s\<lparr>ed_object := w\<rparr>, None)
      | Throw e \<Rightarrow> (s, Some e))"

text \<open>\<open>this.setState({<x>Name: this.state.<x>.name})\<close>, and the same for the owner.\<close>

definition hold_name :: act where [act_defs]:
  "hold_name = with_field ''name'' (\<lambda>n. change (\<lambda>s. s\<lparr>ed_name := n\<rparr>))"

definition hold_owner :: act where [act_defs]:
  "hold_owner = with_field ''owner'' (\<lambda>w. change (\<lambda>s. s\<lparr>ed_owner := w\<rparr>))"

definition hold_object :: "jsval \<Rightarrow> act" where [act_defs]:
  "hold_object v = change (\<lambda>s. s\<lparr>ed_object := v\<rparr>)"

text \<open>The paths \<open>`<base>/${record.owner}/${record.name}`\<close> and \<open>`<base>/${record.name}`\<close>.\<close>

definition stay_at_record :: "string \<Rightarrow> act" where [act_defs]:
  "stay_at_record base =
     with_field ''owner'' (\<lambda>w. with_field ''name'' (\<lambda>n.
       stay_at (base @ ''/'' @ js_text w @ ''/'' @ js_text n)))"

definition stay_at_encoded :: "string \<Rightarrow> act" where [act_defs]:
  "stay_at_encoded base =
     with_field ''owner'' (\<lambda>w. with_field ''name'' (\<lambda>n.
       stay_at (base @ ''/'' @ js_text w @ ''/'' @ encodeURIComponent (js_text n))))"

definition stay_at_name :: "string \<Rightarrow> act" where [act_defs]:
  "stay_at_name base = with_field ''name'' (\<lambda>n. stay_at (base @ ''/'' @ js_text n))"

section \<open>Answers of the server\<close>

record answer =
  an_status :: string
  an_msg :: string
  an_data :: jsval

datatype reply = Reply answer | Lost string

definition error_text :: "js_error \<Rightarrow> string" where
  "error_text e = (case e of TypeError \<Rightarrow> ''TypeError'' | URIError \<Rightarrow> ''URIError''
     | InvalidCharacter \<Rightarrow> ''InvalidCharacterError'' | InvalidURL \<Rightarrow> ''TypeError'' | SyntaxError \<Rightarrow> ''SyntaxError'')"

definition failed_to_connect :: "string \<Rightarrow> act" where [act_defs]:
  "failed_to_connect err = showMessage ''error'' (''general:Failed to connect to server: '' @ err)"

text \<open>
  \<open>call.then(handler).catch(error => showMessage(...))\<close>: an exception of the handler is reported like a
  lost connection. Calls without \<open>catch\<close> do nothing more when the connection is lost.
\<close>

definition then_catch :: "(answer \<Rightarrow> act) \<Rightarrow> (string \<Rightarrow> act) \<Rightarrow> reply \<Rightarrow> act" where [act_defs]:
  "then_catch handler report r =
     (case r of
        Lost err \<Rightarrow> report err
      | Reply res \<Rightarrow> catch (handler res) (\<lambda>e. report (error_text e)))"

definition then_only :: "(answer \<Rightarrow> act) \<Rightarrow> reply \<Rightarrow> act" where [act_defs]:
  "then_only handler r = (case r of Lost err \<Rightarrow> no_act | Reply res \<Rightarrow> handler res)"

definition when_ok :: "answer \<Rightarrow> act \<Rightarrow> act \<Rightarrow> act" where [act_defs]:
  "when_ok res a b = (if an_status res = ''ok'' then a else b)"

definition saved_message :: act where [act_defs]:
  "saved_message = showMessage ''success'' ''general:Successfully saved''"

definition save_failed :: "answer \<Rightarrow> act" where [act_defs]:
  "save_failed res = showMessage ''error'' (''general:Failed to save: '' @ an_msg res)"

text \<open>\<open>this.update<X>Field("name", this.state.<x>Name)\<close>.\<close>

definition revert_name :: "(string \<Rightarrow> jsval \<Rightarrow> act) \<Rightarrow> act" where [act_defs]:
  "revert_name update = with_state (\<lambda>s. update ''name'' (ed_name s))"

definition revert_owner :: "(string \<Rightarrow> jsval \<Rightarrow> act) \<Rightarrow> act" where [act_defs]:
  "revert_owner update = with_state (\<lambda>s. update ''owner'' (ed_owner s))"

text \<open>The continuation of a deletion that goes back to the list.\<close>

definition after_delete :: "act \<Rightarrow> reply \<Rightarrow> act" where [act_defs]:
  "after_delete go =
     then_catch (\<lambda>res. when_ok res go
       (showMessage ''error'' (''general:Failed to delete: '' @ an_msg res))) failed_to_connect"

text \<open>
  The three continuations with which most pages receive their record. A missing record (\<open>null\<close>) is
  looked at before the status.
\<close>

definition receive_checked :: "(answer \<Rightarrow> act) \<Rightarrow> answer \<Rightarrow> act" where [act_defs]:
  "receive_checked keep res =
     (if an_data res = JNull then leave_to ''/404''
      else if an_status res = ''error'' then showMessage ''error'' (an_msg res)
      else keep res)"

definition receive_found :: "(answer \<Rightarrow> act) \<Rightarrow> answer \<Rightarrow> act" where [act_defs]:
  "receive_found keep res = (if an_data res = JNull then leave_to ''/404'' else keep res)"

definition keep_data :: "answer \<Rightarrow> act" where [act_defs]:
  "keep_data res = hold_object (an_data res)"

definition with_data_field :: "answer \<Rightarrow> string \<Rightarrow> (jsval \<Rightarrow> act) \<Rightarrow> act" where [act_defs]:
  "with_data_field res k f s =
     (case js_get (an_data res) k of Return v \<Rightarrow> f v s | Throw e \<Rightarrow> (s, Some e))"

end
