(* ===== verification/Identity_Pages.thy ===== *)
theory Identity_Pages
  imports Edit_Page Password
begin

text \<open>
  The edit pages of roles, models, enforcers, adapters, groups, invitations, permissions, users and
  organizations. Each has the request for the record and its continuation, the update of a field, the
  save with its continuation, and the deletion with its continuation, in the order of the code.
\<close>

section \<open>Roles: \<open>RoleEditPage.js\<close>\<close>

definition getRole :: act where [page_defs]:
  "getRole = with_state (\<lambda>s. send (GetRecord ''get-role'' (ed_owner s) (ed_name s)))"

definition roleReceived :: "reply \<Rightarrow> act" where [page_defs]:
  "roleReceived = then_only (receive_checked keep_data)"

definition parseRoleField :: "string \<Rightarrow> jsval \<Rightarrow> jsval" where
  "parseRoleField = parse_ints ['''']"

definition updateRoleField :: "string \<Rightarrow> jsval \<Rightarrow> act" where [page_defs]:
  "updateRoleField k v = put_field k (parseRoleField k v)"

definition submitRoleEdit :: "bool \<Rightarrow> act" where [page_defs]:
  "submitRoleEdit exitAfterSave =
     with_state (\<lambda>s. send (UpdateRecord ''update-role'' (ed_owner s) (ed_name s) (deepCopy (ed_object s))))"

definition roleSaved :: "bool \<Rightarrow> reply \<Rightarrow> act" where [page_defs]:
  "roleSaved exitAfterSave =
     then_catch (\<lambda>res. when_ok res
       (steps [saved_message, hold_name,
               if exitAfterSave then leave_to ''/roles'' else stay_at_encoded ''/roles''])
       (steps [save_failed res, revert_name updateRoleField]))
     failed_to_connect"

definition deleteRole :: act where [page_defs]:
  "deleteRole = with_state (\<lambda>s. send (DeleteRecord ''delete-role'' (ed_object s)))"

definition roleDeleted :: "reply \<Rightarrow> act" where [page_defs]:
  "roleDeleted = after_delete (leave_to ''/roles'')"

section \<open>Models: \<open>ModelEditPage.js\<close>\<close>

definition getModel :: act where [page_defs]:
  "getModel = with_state (\<lambda>s. send (GetRecord ''get-model'' (ed_owner s) (ed_name s)))"

definition modelReceived :: "reply \<Rightarrow> act" where [page_defs]:
  "modelReceived = then_only (receive_checked keep_data)"

definition parseModelField :: "string \<Rightarrow> jsval \<Rightarrow> jsval" where
  "parseModelField = parse_ints ['''']"

definition updateModelField :: "string \<Rightarrow> jsval \<Rightarrow> act" where [page_defs]:
  "updateModelField k v = put_field k (parseModelField k v)"

definition submitModelEdit :: "bool \<Rightarrow> act" where [page_defs]:
  "submitModelEdit exitAfterSave =
     with_state (\<lambda>s. send (UpdateRecord ''update-model'' (ed_owner s) (ed_name s) (deepCopy (ed_object s))))"

definition modelSaved :: "bool \<Rightarrow> reply \<Rightarrow> act" where [page_defs]:
  "modelSaved exitAfterSave =
     then_catch (\<lambda>res. when_ok res
       (steps [saved_message, hold_name,
               if exitAfterSave then leave_to ''/models'' else stay_at_record ''/models''])
       (steps [save_failed res, revert_name updateModelField]))
     failed_to_connect"

definition deleteModel :: act where [page_defs]:
  "deleteModel = with_state (\<lambda>s. send (DeleteRecord ''delete-model'' (ed_object s)))"

definition modelDeleted :: "reply \<Rightarrow> act" where [page_defs]:
  "modelDeleted = after_delete (leave_to ''/models'')"

section \<open>Enforcers: \<open>EnforcerEditPage.js\<close>\<close>

definition getEnforcer :: act where [page_defs]:
  "getEnforcer = with_state (\<lambda>s. send (GetRecord ''get-enforcer'' (ed_owner s) (ed_name s)))"

definition enforcerReceived :: "reply \<Rightarrow> act" where [page_defs]:
  "enforcerReceived = then_only (receive_checked (\<lambda>res. steps [keep_data res,
     with_state (\<lambda>s. send (Request ''get-models'' [ed_owner s])),
     with_state (\<lambda>s. send (Request ''get-adapters'' [ed_owner s]))]))"

definition parseEnforcerField :: "string \<Rightarrow> jsval \<Rightarrow> jsval" where
  "parseEnforcerField = parse_ints ['''']"

definition updateEnforcerField :: "string \<Rightarrow> jsval \<Rightarrow> act" where [page_defs]:
  "updateEnforcerField k v = put_field k (parseEnforcerField k v)"

definition submitEnforcerEdit :: "bool \<Rightarrow> act" where [page_defs]:
  "submitEnforcerEdit exitAfterSave =
     with_state (\<lambda>s. send (UpdateRecord ''update-enforcer'' (ed_owner s) (ed_name s) (deepCopy (ed_object s))))"

definition enforcerSaved :: "bool \<Rightarrow> reply \<Rightarrow> act" where [page_defs]:
  "enforcerSaved exitAfterSave =
     then_catch (\<lambda>res. when_ok res
       (steps [saved_message, hold_name,
               if exitAfterSave then leave_to ''/enforcers'' else stay_at_record ''/enforcers''])
       (steps [save_failed res, revert_name updateEnforcerField]))
     failed_to_connect"

definition deleteEnforcer :: act where [page_defs]:
  "deleteEnforcer = with_state (\<lambda>s. send (DeleteRecord ''delete-enforcer'' (ed_object s)))"

definition enforcerDeleted :: "reply \<Rightarrow> act" where [page_defs]:
  "enforcerDeleted = after_delete (leave_to ''/enforcers'')"

section \<open>Adapters: \<open>AdapterEditPage.js\<close>\<close>

definition getAdapter :: act where [page_defs]:
  "getAdapter = with_state (\<lambda>s. send (GetRecord ''get-adapter'' (ed_owner s) (ed_name s)))"

definition adapterReceived :: "reply \<Rightarrow> act" where [page_defs]:
  "adapterReceived = then_only (\<lambda>res. when_ok res (receive_found keep_data res) no_act)"

definition parseAdapterField :: "string \<Rightarrow> jsval \<Rightarrow> jsval" where
  "parseAdapterField k v = v"

definition updateAdapterField :: "string \<Rightarrow> jsval \<Rightarrow> act" where [page_defs]:
  "updateAdapterField k v = put_field k (parseAdapterField k v)"

definition submitAdapterEdit :: "bool \<Rightarrow> act" where [page_defs]:
  "submitAdapterEdit exitAfterSave =
     with_state (\<lambda>s. send (UpdateRecord ''update-adapter'' (ed_owner s) (ed_name s) (deepCopy (ed_object s))))"

definition adapterSaved :: "bool \<Rightarrow> reply \<Rightarrow> act" where [page_defs]:
  "adapterSaved exitAfterSave =
     then_catch (\<lambda>res. when_ok res
       (steps [saved_message, hold_owner, hold_name,
               if exitAfterSave then leave_to ''/adapters'' else stay_at_record ''/adapters''])
       (steps [save_failed res, revert_name updateAdapterField]))
     failed_to_connect"

definition deleteAdapter :: act where [page_defs]:
  "deleteAdapter = with_state (\<lambda>s. send (DeleteRecord ''delete-adapter'' (ed_object s)))"

definition adapterDeleted :: "reply \<Rightarrow> act" where [page_defs]:
  "adapterDeleted = after_delete (leave_to ''/adapters'')"

section \<open>Groups: \<open>GroupEditPage.js\<close>\<close>

definition getGroup :: act where [page_defs]:
  "getGroup = with_state (\<lambda>s. send (GetRecord ''get-group'' (ed_owner s) (ed_name s)))"

definition groupReceived :: "reply \<Rightarrow> act" where [page_defs]:
  "groupReceived = then_only (\<lambda>res. when_ok res (keep_data res) no_act)"

definition groupOrganizationsReceived :: "reply \<Rightarrow> act" where [page_defs]:
  "groupOrganizationsReceived =
     then_only (\<lambda>res. when_ok res (set_more ''organizations'' (or_empty (an_data res))) no_act)"

definition parseGroupField :: "string \<Rightarrow> jsval \<Rightarrow> jsval" where
  "parseGroupField = parse_ints ['''']"

definition updateGroupField :: "string \<Rightarrow> jsval \<Rightarrow> act" where [page_defs]:
  "updateGroupField k v = put_field k (parseGroupField k v)"

text \<open>
  The parents that a group may have: the other groups, and its organization when it is known. The
  arguments are the lists \<open>groups\<close> and \<open>organizations\<close> of the page and the group.
\<close>

definition getParentIdOptions :: "jsval list \<Rightarrow> jsval list \<Rightarrow> jsval \<Rightarrow> jsval list result" where
  "getParentIdOptions all_groups organizations grp =
     bind_result (js_filter (\<lambda>g. bind_result (js_get g ''name'') (\<lambda>n.
         bind_result (js_get grp ''name'') (\<lambda>m. Return (n \<noteq> m)))) all_groups) (\<lambda>groups.
     bind_result (js_find (\<lambda>g. bind_result (js_get g ''name'') (\<lambda>n.
         bind_result (js_get grp ''owner'') (\<lambda>m. Return (n = m)))) organizations) (\<lambda>found.
       Return (map (\<lambda>g. JObj [(''label'', field g ''displayName''), (''value'', field g ''name'')])
         (groups @ (case found of None \<Rightarrow> []
            | Some g \<Rightarrow> [JObj [(''name'', field g ''name''), (''displayName'', field g ''displayName'')]])))))"

definition isTopGroup :: "jsval \<Rightarrow> jsval \<Rightarrow> bool result" where
  "isTopGroup organizations grp =
     (case organizations of
        JArr gs \<Rightarrow> js_some (\<lambda>g. bind_result (js_get g ''name'') (\<lambda>n. Return (n = field grp ''parentId''))) gs
      | _ \<Rightarrow> Throw TypeError)"

definition submitGroupEdit :: "bool \<Rightarrow> act" where [page_defs]:
  "submitGroupEdit exitAfterSave = with_state (\<lambda>s.
     let grp = deepCopy (ed_object s) in
     case bind_result (isTopGroup (ed_more s ''organizations'') grp) (\<lambda>isTop. js_set grp ''isTopGroup'' (JBool isTop)) of
       Throw e \<Rightarrow> raise e
     | Return body \<Rightarrow> send (UpdateRecord ''update-group'' (ed_owner s) (ed_name s) body))"

definition leave_to_groups :: act where [page_defs]:
  "leave_to_groups = with_state (\<lambda>s. steps
     [change (\<lambda>s. s\<lparr>ed_session := (ed_session s)(''groupTreeUrl'' := None)\<rparr>),
      leave_to (case ed_session s ''groupTreeUrl'' of Some url \<Rightarrow> url | None \<Rightarrow> ''/groups'')])"

definition groupSaved :: "bool \<Rightarrow> reply \<Rightarrow> act" where [page_defs]:
  "groupSaved exitAfterSave =
     then_catch (\<lambda>res. when_ok res
       (steps [saved_message, hold_name,
               if exitAfterSave then leave_to_groups else stay_at_record ''/groups''])
       (steps [save_failed res, revert_name updateGroupField]))
     failed_to_connect"

definition deleteGroup :: act where [page_defs]:
  "deleteGroup = with_state (\<lambda>s. send (DeleteRecord ''delete-group'' (ed_object s)))"

definition groupDeleted :: "reply \<Rightarrow> act" where [page_defs]:
  "groupDeleted = after_delete leave_to_groups"

section \<open>Invitations: \<open>InvitationEditPage.js\<close>\<close>

definition getInvitation :: act where [page_defs]:
  "getInvitation = with_state (\<lambda>s. send (GetRecord ''get-invitation'' (ed_owner s) (ed_name s)))"

definition invitationReceived :: "reply \<Rightarrow> act" where [page_defs]:
  "invitationReceived = then_only (receive_found keep_data)"

definition parseInvitationField :: "string \<Rightarrow> jsval \<Rightarrow> jsval" where
  "parseInvitationField = parse_ints ['''']"

definition updateInvitationField :: "string \<Rightarrow> jsval \<Rightarrow> act" where [page_defs]:
  "updateInvitationField k v = put_field k (parseInvitationField k v)"

text \<open>
  The link that is copied to the clipboard, or the message that the organization has no default
  application; an organization that is not in the list throws. The first argument is
  \<open>Conf.DefaultApplication\<close>.
\<close>

definition copySignupLink :: "string \<Rightarrow> string \<Rightarrow> jsval list \<Rightarrow> jsval \<Rightarrow> (string + string) result" where
  "copySignupLink default_app origin organizations invitation =
     bind_result (js_get invitation ''owner'') (\<lambda>w.
     bind_result
       (if w = JStr ''built-in'' then Return (Inr (JStr default_app))
        else bind_result (getArrayItem organizations ''name'' w) (\<lambda>g.
          bind_result (js_get g ''defaultApplication'') (\<lambda>d.
            if js_bool d then Return (Inr d)
            else Return (Inl (''invitation:You need to first specify a default application for organization: ''
              @ js_text (field g ''name''))))))
       (\<lambda>r. Return (case r of
          Inl msg \<Rightarrow> Inl msg
        | Inr app \<Rightarrow> Inr (origin @ ''/signup/'' @ js_text app @ ''?invitationCode=''
            @ js_text (field invitation ''defaultCode'')))))"

definition submitInvitationEdit :: "bool \<Rightarrow> act" where [page_defs]:
  "submitInvitationEdit exitAfterSave =
     with_state (\<lambda>s. send (UpdateRecord ''update-invitation'' (ed_owner s) (ed_name s) (deepCopy (ed_object s))))"

definition invitationSaved :: "bool \<Rightarrow> reply \<Rightarrow> act" where [page_defs]:
  "invitationSaved exitAfterSave =
     then_catch (\<lambda>res. when_ok res
       (steps [saved_message, hold_name,
               if exitAfterSave then leave_to ''/invitations'' else stay_at_record ''/invitations''])
       (steps [save_failed res, revert_name updateInvitationField]))
     failed_to_connect"

definition deleteInvitation :: act where [page_defs]:
  "deleteInvitation = with_state (\<lambda>s. send (DeleteRecord ''delete-invitation'' (ed_object s)))"

definition invitationDeleted :: "reply \<Rightarrow> act" where [page_defs]:
  "invitationDeleted = after_delete (leave_to ''/invitations'')"

section \<open>Permissions: \<open>PermissionEditPage.js\<close>\<close>

definition getPermission :: act where [page_defs]:
  "getPermission = with_state (\<lambda>s. send (GetRecord ''get-permission'' (ed_owner s) (ed_name s)))"

text \<open>\<open>getModel(modelId)\<close> of this page: the parts of the identifier before and after the slash.\<close>

definition getPermissionModel :: "jsval \<Rightarrow> act" where [page_defs]:
  "getPermissionModel v =
     (case v of
        JStr t \<Rightarrow>
          if t = [] then no_act
          else (let parts = map JStr (js_split t ''/'') in
                send (GetRecord ''get-model'' (js_at parts 0) (js_at parts 1)))
      | _ \<Rightarrow> (raise TypeError))"

definition permissionReceived :: "reply \<Rightarrow> act" where [page_defs]:
  "permissionReceived = then_only (receive_checked (\<lambda>res. steps [keep_data res,
     with_data_field res ''owner'' (\<lambda>w. send (Request ''get-models'' [w])),
     with_data_field res ''owner'' (\<lambda>w. send (Request ''get-organization-applications'' [JStr ''admin'', w])),
     with_data_field res ''model'' getPermissionModel]))"

definition parsePermissionField :: "string \<Rightarrow> jsval \<Rightarrow> jsval" where
  "parsePermissionField = parse_ints ['''']"

definition updatePermissionField :: "string \<Rightarrow> jsval \<Rightarrow> act" where [page_defs]:
  "updatePermissionField k v =
     steps [if k = ''model'' then getPermissionModel v else no_act,
            put_field k (parsePermissionField k v)]"

definition hasRoleDefinition :: "string option \<Rightarrow> bool" where
  "hasRoleDefinition modelText = (case modelText of None \<Rightarrow> False | Some t \<Rightarrow> js_includes t ''role_definition'')"

definition record_list_empty :: "string \<Rightarrow> edit \<Rightarrow> bool result" where
  "record_list_empty k s = bind_result (js_get (ed_object s) k) no_elements"

definition submitPermissionEdit :: "bool \<Rightarrow> act" where [page_defs]:
  "submitPermissionEdit exitAfterSave =
     branch (\<lambda>s. bind_result (record_list_empty ''users'' s)
                   (\<lambda>none. if none then record_list_empty ''roles'' s else Return False))
       (showMessage ''error'' ''general:The users and roles cannot be empty at the same time'')
     (branch (record_list_empty ''resources'')
       (showMessage ''error'' ''general:The resources cannot be empty'')
     (branch (record_list_empty ''actions'')
       (showMessage ''error'' ''general:The actions cannot be empty'')
     (branch (\<lambda>s. if isLocalAdminUser (ed_account s) then Return False
                  else bind_result (js_get (ed_object s) ''submitter'') (\<lambda>v.
                    case ed_account s of None \<Rightarrow> Throw TypeError | Some u \<Rightarrow> Return (v \<noteq> JStr (ac_name u))))
       (showMessage ''error'' ''general:A normal user can only modify the permission submitted by itself'')
     (with_state (\<lambda>s. send (UpdateRecord ''update-permission'' (ed_owner s) (ed_name s) (deepCopy (ed_object s))))))))"

definition permissionSaved :: "bool \<Rightarrow> reply \<Rightarrow> act" where [page_defs]:
  "permissionSaved exitAfterSave =
     then_catch (\<lambda>res. when_ok res
       (steps [saved_message, hold_owner, hold_name,
               if exitAfterSave then leave_to ''/permissions'' else stay_at_encoded ''/permissions''])
       (steps [save_failed res, revert_name updatePermissionField]))
     failed_to_connect"

definition deletePermission :: act where [page_defs]:
  "deletePermission = with_state (\<lambda>s. send (DeleteRecord ''delete-permission'' (ed_object s)))"

definition permissionDeleted :: "reply \<Rightarrow> act" where [page_defs]:
  "permissionDeleted = after_delete (leave_to ''/permissions'')"

section \<open>Users: \<open>UserEditPage.js\<close>\<close>

definition getUser :: act where [page_defs]:
  "getUser = with_state (\<lambda>s. send (GetRecord ''get-user'' (ed_owner s) (ed_name s)))"

text \<open>\<open>res.data?.key ?? []\<close>.\<close>

definition nullish_list :: "jsval \<Rightarrow> string \<Rightarrow> jsval" where
  "nullish_list v k = (let w = field v k in if w = JUndefined \<or> w = JNull then JArr [] else w)"

definition userReceived :: "reply \<Rightarrow> act" where [page_defs]:
  "userReceived = then_only (receive_checked (\<lambda>res. steps [keep_data res,
     set_more ''multiFactorAuths'' (nullish_list (an_data res) ''multiFactorAuths''),
     set_more ''consents'' (nullish_list (an_data res) ''applicationScopes''),
     set_more ''loading'' (JBool False),
     with_state (\<lambda>s. send (Request ''get-transactions'' [ed_owner s, JStr [], JStr [], JStr ''user'', ed_name s])),
     with_state (\<lambda>s. send (Request ''get-organization-applications'' [JStr ''admin'', ed_owner s]))]))"

definition parseUserField :: "string \<Rightarrow> jsval \<Rightarrow> jsval" where
  "parseUserField = parse_ints [''score'', ''karma'', ''ranking'']"

text \<open>\<open>user.address[idx] = value\<close>, the address made first when it is missing.\<close>

definition put_address :: "nat \<Rightarrow> jsval \<Rightarrow> act" where [page_defs]:
  "put_address idx v =
     with_field ''address'' (\<lambda>a.
       case (if js_bool a then a else JArr [JStr [], JStr []]) of
         JArr xs \<Rightarrow> put_field ''address'' (JArr (js_put xs idx v))
       | JObj ps \<Rightarrow> put_field ''address'' (JObj (AList.update (show_nat idx) v ps))
       | _ \<Rightarrow> (raise TypeError))"

definition updateUserField :: "nat \<Rightarrow> string \<Rightarrow> jsval \<Rightarrow> act" where [page_defs]:
  "updateUserField idx k v = with_state (\<lambda>s.
     if ed_account s = None then no_act
     else if k = ''address'' then put_address idx (parseUserField k v)
     else put_field k (parseUserField k v))"

text \<open>
  The applications of the user's organization arrive: a sign-up application that is not among them is
  replaced by the first of them.
\<close>

definition userApplicationsReceived :: "reply \<Rightarrow> act" where [page_defs]:
  "userApplicationsReceived = then_only (\<lambda>res. steps [
     set_more ''applications'' (or_empty (an_data res)),
     with_state (\<lambda>s.
       if \<not> js_bool (ed_object s) then no_act
       else with_field ''signupApplication'' (\<lambda>app.
         case an_data res of
           JArr apps \<Rightarrow>
             if app = JStr [] \<or> filter (\<lambda>x. field x ''name'' = app) apps = []
             then updateUserField 0 ''signupApplication'' (if apps \<noteq> [] then field (hd apps) ''name'' else JStr [])
             else no_act
         | _ \<Rightarrow> (raise TypeError)))])"

definition isSelf :: "jsval \<Rightarrow> account option \<Rightarrow> bool" where
  "isSelf user account =
     (case account of
        None \<Rightarrow> False
      | Some u \<Rightarrow>
          if \<not> js_bool user then False
          else if js_bool (field user ''id'') \<and> ac_id u \<noteq> [] then field user ''id'' = JStr (ac_id u)
          else field user ''owner'' = JStr (ac_owner u) \<and> field user ''name'' = JStr (ac_name u))"

definition isSelfOrAdmin :: "jsval \<Rightarrow> account option \<Rightarrow> bool" where
  "isSelfOrAdmin user account = (isSelf user account \<or> isLocalAdminUser account)"

definition isAccountItemVisible :: "jsval \<Rightarrow> account option \<Rightarrow> jsval \<Rightarrow> bool" where
  "isAccountItemVisible user account item =
     (if \<not> js_bool (field item ''visible'') then False
      else if field item ''viewRule'' = JStr ''Self'' then isSelfOrAdmin user account
      else if field item ''viewRule'' = JStr ''Admin'' then isLocalAdminUser account
      else True)"

definition item_tab :: "jsval \<Rightarrow> jsval" where
  "item_tab item = (if js_bool (field item ''tab'') then field item ''tab'' else JStr [])"

definition getAccountItemsByTab :: "jsval \<Rightarrow> account option \<Rightarrow> jsval list \<Rightarrow> string \<Rightarrow> jsval list" where
  "getAccountItemsByTab user account accountItems tab =
     filter (\<lambda>item. isAccountItemVisible user account item \<and> item_tab item = JStr tab) accountItems"

text \<open>
  The tabs in the order in which they are shown, the default tab first. The argument \<open>compare\<close> is
  \<open>localeCompare\<close> on the texts; \<open>Array.from(new Set(...))\<close> keeps the first of equal tabs.
\<close>

definition getUniqueTabs :: "(string \<Rightarrow> string \<Rightarrow> int) \<Rightarrow> jsval \<Rightarrow> account option \<Rightarrow> jsval list \<Rightarrow> jsval list" where
  "getUniqueTabs compare user account accountItems =
     js_sort (\<lambda>a b. if a = JStr [] then -1 else if b = JStr [] then 1 else compare (js_text a) (js_text b))
       (rev (remdups (rev (map item_tab (filter (isAccountItemVisible user account) accountItems)))))"

definition submitUserEdit :: "bool \<Rightarrow> act" where [page_defs]:
  "submitUserEdit exitAfterSave =
     with_state (\<lambda>s. send (UpdateRecord ''update-user'' (ed_owner s) (ed_name s) (deepCopy (ed_object s))))"

text \<open>The path of the browser is the field \<open>pathname\<close>.\<close>

definition userSaved :: "bool \<Rightarrow> reply \<Rightarrow> act" where [page_defs]:
  "userSaved exitAfterSave =
     then_catch (\<lambda>res. when_ok res
       (steps [saved_message, hold_owner, hold_name,
          if exitAfterSave then with_state (\<lambda>s.
            if js_bool (ed_more s ''returnUrl'')
            then steps [effect_act (Href (js_text (ed_more s ''returnUrl''))), change (\<lambda>s. s\<lparr>ed_open := False\<rparr>)]
            else leave_to (case ed_session s ''userListUrl'' of
                Some url \<Rightarrow> url
              | None \<Rightarrow> if isLocalAdminUser (ed_account s) then ''/users'' else ''/''))
          else with_state (\<lambda>s.
            if ed_more s ''pathname'' \<noteq> JStr ''/account'' then stay_at_record ''/users'' else no_act)])
       (steps [save_failed res, revert_owner (updateUserField 0), revert_name (updateUserField 0)]))
     failed_to_connect"

definition deleteUser :: act where [page_defs]:
  "deleteUser = with_state (\<lambda>s. send (DeleteRecord ''delete-user'' (ed_object s)))"

definition userDeleted :: "reply \<Rightarrow> act" where [page_defs]:
  "userDeleted = after_delete (with_state (\<lambda>s.
     leave_to (case ed_session s ''userListUrl'' of Some url \<Rightarrow> url | None \<Rightarrow> ''/users'')))"

section \<open>Organizations: \<open>OrganizationEditPage.js\<close>\<close>

definition getOrganizationRecord :: act where [page_defs]:
  "getOrganizationRecord = with_state (\<lambda>s. send (GetRecord ''get-organization'' (JStr ''admin'') (ed_name s)))"

definition organizationReceived :: "reply \<Rightarrow> act" where [page_defs]:
  "organizationReceived = then_only (\<lambda>res. when_ok res
     (receive_found (\<lambda>res s.
        case bind_result (js_get (an_data res) ''logoDark'')
               (\<lambda>v. js_set (an_data res) ''enableDarkLogo'' (JBool (js_bool v))) of
          Throw e \<Rightarrow> (s, Some e)
        | Return g \<Rightarrow> hold_object g s) res)
     (showMessage ''error'' (an_msg res)))"

definition parseOrganizationField :: "string \<Rightarrow> jsval \<Rightarrow> jsval" where
  "parseOrganizationField k v = v"

definition updateOrganizationField :: "string \<Rightarrow> jsval \<Rightarrow> act" where [page_defs]:
  "updateOrganizationField k v = put_field k (parseOrganizationField k v)"

text \<open>The random numbers of the new key are an argument.\<close>

definition updatePasswordObfuscator :: "(nat \<Rightarrow> rat) \<Rightarrow> string \<Rightarrow> string \<Rightarrow> act" where [page_defs]:
  "updatePasswordObfuscator rnd k v =
     steps [with_field ''passwordObfuscatorType'' (\<lambda>ty.
              if ty = JStr [] then put_field ''passwordObfuscatorType'' (JStr ''Plain'') else no_act),
            if k = ''type'' then
              steps [put_field ''passwordObfuscatorType'' (JStr v),
                     put_field ''passwordObfuscatorKey'' (JStr (getRandomKeyForObfuscator rnd v))]
            else if k = ''key'' then put_field ''passwordObfuscatorKey'' (JStr v)
            else no_act]"

text \<open>A type or a key that is not there is \<open>undefined\<close>; anything else is compared as its text.\<close>

definition opt_text :: "jsval \<Rightarrow> string option" where
  "opt_text v = (if v = JUndefined then None else Some (js_text v))"

definition drop_unselected :: "jsval \<Rightarrow> jsval result" where
  "drop_unselected items =
     (case items of
        JArr xs \<Rightarrow> bind_result (js_filter (\<lambda>item. bind_result (js_get item ''name'')
            (\<lambda>n. Return (n \<noteq> JStr ''Please select an account item''))) xs) (\<lambda>ys. Return (JArr ys))
      | JUndefined \<Rightarrow> Return JUndefined
      | JNull \<Rightarrow> Return JUndefined
      | _ \<Rightarrow> Throw TypeError)"

definition submitOrganizationEdit :: "bool \<Rightarrow> act" where [page_defs]:
  "submitOrganizationEdit exitAfterSave = with_state (\<lambda>s.
     let organization = deepCopy (ed_object s) in
     case bind_result (drop_unselected (field organization ''accountItems'')) (js_set organization ''accountItems'') of
       Throw e \<Rightarrow> raise e
     | Return body \<Rightarrow>
         let msg = checkPasswordObfuscator (opt_text (field body ''passwordObfuscatorType''))
                     (opt_text (field body ''passwordObfuscatorKey'')) in
         if msg \<noteq> [] then showMessage ''error'' msg
         else with_field ''owner'' (\<lambda>w. send (UpdateRecord ''update-organization'' w (ed_name s) body)))"

text \<open>The field \<open>account.organization.name\<close> is the name of the organization of the signed-in account.\<close>

definition organizationSaved :: "bool \<Rightarrow> reply \<Rightarrow> act" where [page_defs]:
  "organizationSaved exitAfterSave =
     then_catch (\<lambda>res. when_ok res
       (steps [saved_message,
               with_state (\<lambda>s. if ed_more s ''account.organization.name'' = ed_name s
                               then effect_act (Fire ''onChangeTheme'') else no_act),
               hold_name, effect_act (Fire ''storageOrganizationsChanged''),
               if exitAfterSave then leave_to ''/organizations'' else stay_at_name ''/organizations''])
       (steps [save_failed res, revert_name updateOrganizationField]))
     failed_to_connect"

definition deleteOrganization :: act where [page_defs]:
  "deleteOrganization = with_state (\<lambda>s. send (DeleteRecord ''delete-organization'' (ed_object s)))"

definition organizationDeleted :: "reply \<Rightarrow> act" where [page_defs]:
  "organizationDeleted =
     after_delete (steps [leave_to ''/organizations'', effect_act (Fire ''storageOrganizationsChanged'')])"

end
