(* ===== verification/Shop_Pages.thy ===== *)
theory Shop_Pages
  imports Edit_Page
begin

text \<open>
  The edit pages of products, plans, pricings, coupons, orders, payments, subscriptions, transactions
  and tickets. \<open>parseFloat\<close>, whose values are floating-point numbers, is an argument that gives the
  number as a value, or nothing for \<open>NaN\<close>.
\<close>

section \<open>Field checks of \<open>Setting.js\<close>\<close>

definition isValidPersonName :: "jsval \<Rightarrow> bool" where
  "isValidPersonName personName = (personName \<noteq> JStr [])"

definition isValidIdCard :: "jsval \<Rightarrow> bool" where
  "isValidIdCard idCard = (idCard \<noteq> JStr [])"

definition isValidInvoiceTitle :: "jsval \<Rightarrow> bool" where
  "isValidInvoiceTitle invoiceTitle = (invoiceTitle \<noteq> JStr [])"

definition isValidTaxId :: "jsval \<Rightarrow> bool" where
  "isValidTaxId taxId = (taxId \<noteq> JStr [])"

text \<open>
  The regular expression of an e-mail address: a part before the last \<open>@\<close> that is a sequence of
  non-empty words separated by dots, or any text of one line in double quotes, and a host that is an
  address in brackets or a sequence of labels that ends with at least two letters.
\<close>

definition email_word_char :: "char \<Rightarrow> bool" where
  "email_word_char c =
     (c \<notin> set [CHR ''<'', CHR ''>'', CHR ''('', CHR '')'', CHR ''['', CHR '']'', CHR 0x5C, CHR ''.'', CHR '','',
        CHR '';'', CHR '':'', CHR ''@'', CHR 0x22] \<and> \<not> is_space c)"

definition email_local :: "string \<Rightarrow> bool" where
  "email_local t =
     (list_all (\<lambda>w. w \<noteq> [] \<and> list_all email_word_char w) (split_char CHR ''.'' t)
      \<or> (length t > 2 \<and> hd t = CHR 0x22 \<and> last t = CHR 0x22
         \<and> list_all (\<lambda>c. c \<noteq> CHR 0x0A \<and> c \<noteq> CHR 0x0D) (butlast (tl t))))"

definition short_number :: "string \<Rightarrow> bool" where
  "short_number t = (1 \<le> length t \<and> length t \<le> 3 \<and> list_all is_digit t)"

definition host_label :: "string \<Rightarrow> bool" where
  "host_label t = (t \<noteq> [] \<and> list_all (\<lambda>c. is_alpha c \<or> is_digit c \<or> c = CHR ''-'') t)"

definition email_host :: "string \<Rightarrow> bool" where
  "email_host t =
     ((length t \<ge> 2 \<and> hd t = CHR ''['' \<and> last t = CHR '']''
       \<and> (let parts = split_char CHR ''.'' (butlast (tl t)) in length parts = 4 \<and> list_all short_number parts))
      \<or> (let parts = split_char CHR ''.'' t in
         length parts \<ge> 2 \<and> list_all host_label (butlast parts)
         \<and> length (last parts) \<ge> 2 \<and> list_all is_alpha (last parts)))"

definition isValidEmail :: "jsval \<Rightarrow> bool" where
  "isValidEmail email =
     (let parts = split_char CHR ''@'' (js_text email) in
      length parts \<ge> 2 \<and> email_local (js_join ''@'' (butlast parts)) \<and> email_host (last parts))"

text \<open>
  A Chinese mobile number, and for a call without a country any text that ends with four digits (the
  expression \<open>/[0-9]{4,15}$/\<close> is not anchored at the start). Other countries are checked by a library.
\<close>

definition phoneCnRegex :: "string \<Rightarrow> bool" where
  "phoneCnRegex t =
     (length t = 11 \<and> list_all is_digit t \<and> t ! 0 = CHR ''1''
      \<and> t ! 2 \<in> set (if t ! 1 = CHR ''3'' then ''0123456789''
                 else if t ! 1 = CHR ''4'' then ''56789''
                 else if t ! 1 = CHR ''5'' then ''012356789''
                 else if t ! 1 = CHR ''6'' then ''2567''
                 else if t ! 1 = CHR ''7'' then ''012345678''
                 else if t ! 1 = CHR ''8'' then ''0123456789''
                 else if t ! 1 = CHR ''9'' then ''012356789''
                 else []))"

definition phoneRegex :: "string \<Rightarrow> bool" where
  "phoneRegex t = (length t \<ge> 4 \<and> list_all is_digit (drop (length t - 4) t))"

definition isValidPhone :: "(string \<Rightarrow> string \<Rightarrow> bool) \<Rightarrow> jsval \<Rightarrow> string \<Rightarrow> bool" where
  "isValidPhone isValidPhoneNumber phone countryCode =
     (if countryCode \<noteq> [] \<and> countryCode \<noteq> ''CN'' then isValidPhoneNumber (js_text phone) countryCode
      else if countryCode = ''CN'' then phoneCnRegex (js_text phone) else phoneRegex (js_text phone))"

section \<open>Products: \<open>ProductEditPage.js\<close>\<close>

definition getProduct :: act where [page_defs]:
  "getProduct =
     with_state (\<lambda>s. send (GetRecord ''get-product'' (ed_owner s) (ed_name s)))"

definition productReceived :: "reply \<Rightarrow> act" where [page_defs]:
  "productReceived = then_only (receive_found keep_data)"

definition parseProductField :: "string \<Rightarrow> jsval \<Rightarrow> jsval" where
  "parseProductField = parse_ints ['''']"

definition updateProductField :: "string \<Rightarrow> jsval \<Rightarrow> act" where [page_defs]:
  "updateProductField k v = put_field k (parseProductField k v)"

text \<open>\<open>!v || v.length === 0\<close>.\<close>

definition missing_list :: "jsval \<Rightarrow> bool" where
  "missing_list v = (\<not> js_bool v \<or> no_elements v = Return True)"

definition submitProductEdit :: "bool \<Rightarrow> act" where [page_defs]:
  "submitProductEdit exitAfterSave = with_state (\<lambda>s.
     let product = deepCopy (ed_object s) in
     if \<not> js_bool (field product ''currency'')
     then showMessage ''error'' ''product:Please select a currency''
     else if \<not> js_bool (field product ''isCreatedByPlan'') \<and> missing_list (field product ''providers'')
     then showMessage ''error'' ''product:Please select at least one payment provider''
     else if js_bool (field product ''isRecharge'') \<and> js_bool (field product ''disableCustomRecharge'')
       \<and> missing_list (field product ''rechargeOptions'')
     then showMessage ''error'' ''product:Please add at least one recharge option when custom amount is disabled''
     else send (UpdateRecord ''update-product'' (ed_owner s) (ed_name s) product))"

definition productSaved :: "bool \<Rightarrow> reply \<Rightarrow> act" where [page_defs]:
  "productSaved exitAfterSave =
     then_catch (\<lambda>res. when_ok res
       (steps [saved_message, hold_name,
               if exitAfterSave then leave_to ''/products'' else stay_at_record ''/products''])
       (steps [save_failed res, revert_name updateProductField]))
     failed_to_connect"

definition deleteProduct :: act where [page_defs]:
  "deleteProduct = with_state (\<lambda>s. send (DeleteRecord ''delete-product'' (ed_object s)))"

definition productDeleted :: "reply \<Rightarrow> act" where [page_defs]:
  "productDeleted = after_delete (leave_to ''/products'')"

section \<open>Plans: \<open>PlanEditPage.js\<close>\<close>

definition getPlan :: act where [page_defs]:
  "getPlan = with_state (\<lambda>s. send (GetRecord ''get-plan'' (ed_owner s) (ed_name s)))"

definition planReceived :: "reply \<Rightarrow> act" where [page_defs]:
  "planReceived =
     then_only (receive_found (\<lambda>res. steps [keep_data res,
       with_state (\<lambda>s. send (Request ''get-providers'' [ed_owner s]))]))"

definition parsePlanField :: "string \<Rightarrow> jsval \<Rightarrow> jsval" where
  "parsePlanField = parse_ints ['''']"

definition updatePlanField :: "string \<Rightarrow> jsval \<Rightarrow> act" where [page_defs]:
  "updatePlanField k v = put_field k (parsePlanField k v)"

definition submitPlanEdit :: "bool \<Rightarrow> act" where [page_defs]:
  "submitPlanEdit exitAfterSave =
     with_state (\<lambda>s. send (UpdateRecord ''update-plan'' (ed_owner s) (ed_name s) (deepCopy (ed_object s))))"

definition planSaved :: "bool \<Rightarrow> reply \<Rightarrow> act" where [page_defs]:
  "planSaved exitAfterSave =
     then_catch (\<lambda>res. when_ok res
       (steps [saved_message, hold_name,
               if exitAfterSave then leave_to ''/plans'' else stay_at_record ''/plans''])
       (steps [save_failed res, revert_name updatePlanField]))
     failed_to_connect"

definition deletePlan :: act where [page_defs]:
  "deletePlan = with_state (\<lambda>s. send (DeleteRecord ''delete-plan'' (ed_object s)))"

definition planDeleted :: "reply \<Rightarrow> act" where [page_defs]:
  "planDeleted = after_delete (leave_to ''/plans'')"

section \<open>Pricings: \<open>PricingEditPage.js\<close>\<close>

definition getPricing :: act where [page_defs]:
  "getPricing =
     with_state (\<lambda>s. send (GetRecord ''get-pricing'' (ed_owner s) (ed_name s)))"

definition pricingReceived :: "reply \<Rightarrow> act" where [page_defs]:
  "pricingReceived =
     then_only (receive_checked (\<lambda>res. steps [keep_data res,
       with_state (\<lambda>s. send (Request ''get-plans'' [ed_owner s]))]))"

definition parsePricingField :: "string \<Rightarrow> jsval \<Rightarrow> jsval" where
  "parsePricingField = parse_ints ['''']"

definition updatePricingField :: "string \<Rightarrow> jsval \<Rightarrow> act" where [page_defs]:
  "updatePricingField k v = put_field k (parsePricingField k v)"

definition submitPricingEdit :: "bool \<Rightarrow> act" where [page_defs]:
  "submitPricingEdit exitAfterSave =
     with_state (\<lambda>s. send (UpdateRecord ''update-pricing'' (ed_owner s) (ed_name s) (deepCopy (ed_object s))))"

definition pricingSaved :: "bool \<Rightarrow> reply \<Rightarrow> act" where [page_defs]:
  "pricingSaved exitAfterSave =
     then_catch (\<lambda>res. when_ok res
       (steps [saved_message, hold_name,
               if exitAfterSave then leave_to ''/pricings'' else stay_at_record ''/pricings''])
       (steps [save_failed res, revert_name updatePricingField]))
     failed_to_connect"

definition deletePricing :: act where [page_defs]:
  "deletePricing = with_state (\<lambda>s. send (DeleteRecord ''delete-pricing'' (ed_object s)))"

definition pricingDeleted :: "reply \<Rightarrow> act" where [page_defs]:
  "pricingDeleted = after_delete (leave_to ''/pricings'')"

section \<open>Coupons: \<open>CouponEditPage.js\<close>\<close>

definition getCoupon :: act where [page_defs]:
  "getCoupon =
     with_state (\<lambda>s. send (GetRecord ''get-coupon'' (ed_owner s) (ed_name s)))"

definition couponReceived :: "reply \<Rightarrow> act" where [page_defs]:
  "couponReceived =
     then_only (receive_found (\<lambda>res. steps [keep_data res,
       with_state (\<lambda>s. send (Request ''get-products'' [ed_owner s]))]))"

definition parseCouponField :: "(jsval \<Rightarrow> jsval option) \<Rightarrow> string \<Rightarrow> jsval \<Rightarrow> jsval" where
  "parseCouponField parseFloat k v =
     (if k \<in> set [''discount'', ''maxDiscount'', ''minOrderAmount'']
      then (case parseFloat v of Some n \<Rightarrow> if js_bool n then n else JNum 0 | None \<Rightarrow> JNum 0) else v)"

definition updateCouponField :: "(jsval \<Rightarrow> jsval option) \<Rightarrow> string \<Rightarrow> jsval \<Rightarrow> act" where [page_defs]:
  "updateCouponField parseFloat k v = put_field k (parseCouponField parseFloat k v)"

definition submitCouponEdit :: "bool \<Rightarrow> act" where [page_defs]:
  "submitCouponEdit exitAfterSave =
     with_field ''owner'' (\<lambda>w. with_state (\<lambda>s.
       send (UpdateRecord ''update-coupon'' w (ed_name s) (deepCopy (ed_object s)))))"

definition couponSaved :: "bool \<Rightarrow> reply \<Rightarrow> act" where [page_defs]:
  "couponSaved exitAfterSave =
     then_catch (\<lambda>res. when_ok res
       (steps [saved_message, hold_name,
               if exitAfterSave then leave_to ''/coupons'' else stay_at_record ''/coupons''])
       (save_failed res))
     failed_to_connect"

definition deleteCoupon :: act where [page_defs]:
  "deleteCoupon = with_state (\<lambda>s. send (DeleteRecord ''delete-coupon'' (ed_object s)))"

definition couponDeleted :: "reply \<Rightarrow> act" where [page_defs]:
  "couponDeleted = after_delete (leave_to ''/coupons'')"

section \<open>Orders: \<open>OrderEditPage.js\<close>\<close>

definition getOrder :: act where [page_defs]:
  "getOrder = with_state (\<lambda>s. send (GetRecord ''get-order'' (ed_owner s) (ed_name s)))"

definition orderReceived :: "reply \<Rightarrow> act" where [page_defs]:
  "orderReceived = then_only (receive_found keep_data)"

definition parseOrderField :: "string \<Rightarrow> jsval \<Rightarrow> jsval" where
  "parseOrderField = parse_ints ['''']"

definition updateOrderField :: "string \<Rightarrow> jsval \<Rightarrow> act" where [page_defs]:
  "updateOrderField k v = put_field k (parseOrderField k v)"

definition submitOrderEdit :: "bool \<Rightarrow> act" where [page_defs]:
  "submitOrderEdit exitAfterSave =
     with_state (\<lambda>s. send (UpdateRecord ''update-order'' (ed_owner s) (ed_name s) (deepCopy (ed_object s))))"

definition orderSaved :: "bool \<Rightarrow> reply \<Rightarrow> act" where [page_defs]:
  "orderSaved exitAfterSave =
     then_catch (\<lambda>res. when_ok res
       (steps [saved_message, hold_name,
               if exitAfterSave then leave_to ''/orders'' else stay_at_record ''/orders''])
       (save_failed res))
     failed_to_connect"

definition deleteOrder :: act where [page_defs]:
  "deleteOrder = with_state (\<lambda>s. send (DeleteRecord ''delete-order'' (ed_object s)))"

definition orderDeleted :: "reply \<Rightarrow> act" where [page_defs]:
  "orderDeleted = after_delete (leave_to ''/orders'')"

section \<open>Payments: \<open>PaymentEditPage.js\<close>\<close>

definition getPayment :: act where [page_defs]:
  "getPayment =
     with_state (\<lambda>s. send (GetRecord ''get-payment'' (ed_owner s) (ed_name s)))"

definition paymentReceived :: "reply \<Rightarrow> act" where [page_defs]:
  "paymentReceived = then_only (receive_found keep_data)"

definition parsePaymentField :: "string \<Rightarrow> jsval \<Rightarrow> jsval" where
  "parsePaymentField = parse_ints ['''']"

definition updatePaymentField :: "string \<Rightarrow> jsval \<Rightarrow> act" where [page_defs]:
  "updatePaymentField k v = put_field k (parsePaymentField k v)"

text \<open>
  The first reason why a payment cannot be saved. \<open>isValidPhone\<close> is called without a country; the
  check of the phone is written twice in the code. A payment that is \<open>null\<close> throws.
\<close>

definition checkError :: "jsval \<Rightarrow> string result" where
  "checkError payment =
     bind_result (js_get payment ''state'') (\<lambda>state. Return (
       if state \<noteq> JStr ''Paid'' then ''payment:Please pay the order first!''
       else if \<not> isValidPersonName (field payment ''personName'') then ''signup:Please input your real name!''
       else if \<not> isValidIdCard (field payment ''personIdCard'') then ''signup:Please input the correct ID card number!''
       else if \<not> isValidEmail (field payment ''personEmail'') then ''login:The input is not valid Email!''
       else if \<not> phoneRegex (js_text (field payment ''personPhone'')) then ''signup:The input is not valid Phone!''
       else if field payment ''invoiceType'' = JStr ''Individual'' then
         (if field payment ''invoiceTitle'' \<noteq> field payment ''personName'' then ''signup:The input is not invoice title!''
          else if field payment ''invoiceTaxId'' \<noteq> JStr [] then ''signup:The input is not invoice Tax ID!''
          else [])
       else if \<not> isValidInvoiceTitle (field payment ''invoiceTitle'') then ''signup:The input is not invoice title!''
       else if \<not> isValidTaxId (field payment ''invoiceTaxId'') then ''signup:The input is not invoice Tax ID!''
       else []))"

definition submitPaymentEdit :: "bool \<Rightarrow> act" where [page_defs]:
  "submitPaymentEdit exitAfterSave = with_state (\<lambda>s.
     case checkError (ed_object s) of
       Throw e \<Rightarrow> (raise e)
     | Return errorText \<Rightarrow>
         if errorText \<noteq> [] then showMessage ''error'' errorText
         else with_field ''owner'' (\<lambda>w. send (UpdateRecord ''update-payment'' w (ed_name s) (deepCopy (ed_object s)))))"

definition paymentSaved :: "bool \<Rightarrow> reply \<Rightarrow> act" where [page_defs]:
  "paymentSaved exitAfterSave =
     then_catch (\<lambda>res. when_ok res
       (steps [saved_message, hold_name,
               if exitAfterSave then leave_to ''/payments'' else stay_at_name ''/payments''])
       (steps [save_failed res, revert_name updatePaymentField]))
     failed_to_connect"

definition deletePayment :: act where [page_defs]:
  "deletePayment = with_state (\<lambda>s. send (DeleteRecord ''delete-payment'' (ed_object s)))"

definition paymentDeleted :: "reply \<Rightarrow> act" where [page_defs]:
  "paymentDeleted = after_delete (leave_to ''/payments'')"

text \<open>The invoice: \<open>goToViewOrder\<close>, \<open>issueInvoice\<close> and its continuation.\<close>

definition goToViewOrder :: act where [page_defs]:
  "goToViewOrder = with_state (\<lambda>s.
     let payment = ed_object s in
     if js_bool payment \<and> js_bool (field payment ''order'')
     then leave_to (''/orders/'' @ js_text (field payment ''owner'') @ ''/'' @ js_text (field payment ''order'') @ ''/pay'')
     else showMessage ''error'' ''order:Order not found'')"

definition issueInvoice :: act where [page_defs]:
  "issueInvoice = steps [set_more ''isModalVisible'' (JBool False), set_more ''isInvoiceLoading'' (JBool True),
     with_field ''owner'' (\<lambda>w. with_state (\<lambda>s. send (Request ''invoice-payment'' [w, ed_name s])))]"

definition invoiceIssued :: "reply \<Rightarrow> act" where [page_defs]:
  "invoiceIssued =
     then_catch (\<lambda>res. steps [set_more ''isInvoiceLoading'' (JBool False),
       when_ok res
         (steps [showMessage ''success'' ''Successfully invoiced'', effect_act (Href (js_text (an_data res))), getPayment])
         (showMessage (if js_includes (an_msg res) [CHR 0xE6, CHR 0x88, CHR 0x90, CHR 0xE5, CHR 0x8A, CHR 0x9F]
                       then ''info'' else ''error'') (an_msg res))])
     (\<lambda>err. steps [set_more ''isInvoiceLoading'' (JBool False), failed_to_connect err])"

section \<open>Subscriptions: \<open>SubscriptionEditPage.js\<close>\<close>

definition getSubscription :: act where [page_defs]:
  "getSubscription =
     with_state (\<lambda>s. send (GetRecord ''get-subscription'' (ed_owner s) (ed_name s)))"

definition subscriptionReceived :: "reply \<Rightarrow> act" where [page_defs]:
  "subscriptionReceived =
     then_only (receive_checked (\<lambda>res. steps [keep_data res,
       with_state (\<lambda>s. send (Request ''get-pricings'' [ed_owner s])),
       with_state (\<lambda>s. send (Request ''get-plans'' [ed_owner s]))]))"

definition parseSubscriptionField :: "string \<Rightarrow> jsval \<Rightarrow> jsval" where
  "parseSubscriptionField = parse_ints ['''']"

definition updateSubscriptionField :: "string \<Rightarrow> jsval \<Rightarrow> act" where [page_defs]:
  "updateSubscriptionField k v = put_field k (parseSubscriptionField k v)"

definition submitSubscriptionEdit :: "bool \<Rightarrow> act" where [page_defs]:
  "submitSubscriptionEdit exitAfterSave =
     with_state (\<lambda>s. send (UpdateRecord ''update-subscription'' (ed_owner s) (ed_name s) (deepCopy (ed_object s))))"

definition subscriptionSaved :: "bool \<Rightarrow> reply \<Rightarrow> act" where [page_defs]:
  "subscriptionSaved exitAfterSave =
     then_catch (\<lambda>res. when_ok res
       (steps [saved_message, hold_name,
               if exitAfterSave then leave_to ''/subscriptions'' else stay_at_record ''/subscriptions''])
       (steps [save_failed res, revert_name updateSubscriptionField]))
     failed_to_connect"

definition deleteSubscription :: act where [page_defs]:
  "deleteSubscription =
     with_state (\<lambda>s. send (DeleteRecord ''delete-subscription'' (ed_object s)))"

definition subscriptionDeleted :: "reply \<Rightarrow> act" where [page_defs]:
  "subscriptionDeleted = after_delete (leave_to ''/subscriptions'')"

section \<open>Transactions: \<open>TransactionEditPage.js\<close>\<close>

definition getTransaction :: act where [page_defs]:
  "getTransaction =
     with_state (\<lambda>s. send (GetRecord ''get-transaction'' (ed_owner s) (ed_name s)))"

definition transactionReceived :: "reply \<Rightarrow> act" where [page_defs]:
  "transactionReceived = then_catch (receive_checked keep_data) failed_to_connect"

definition parseTransactionField :: "(jsval \<Rightarrow> jsval option) \<Rightarrow> string \<Rightarrow> jsval \<Rightarrow> jsval" where
  "parseTransactionField parseFloat k v =
     (if k \<in> set [''amount''] then (case parseFloat v of Some n \<Rightarrow> n | None \<Rightarrow> JNum 0) else v)"

definition updateTransactionField :: "(jsval \<Rightarrow> jsval option) \<Rightarrow> string \<Rightarrow> jsval \<Rightarrow> act" where [page_defs]:
  "updateTransactionField parseFloat k v = put_field k (parseTransactionField parseFloat k v)"

definition submitTransactionEdit :: "bool \<Rightarrow> act" where [page_defs]:
  "submitTransactionEdit exitAfterSave = with_state (\<lambda>s.
     if ed_object s = JNull then no_act
     else with_field ''owner'' (\<lambda>w. send (UpdateRecord ''update-transaction'' w (ed_name s) (deepCopy (ed_object s)))))"

definition transactionSaved :: "(jsval \<Rightarrow> jsval option) \<Rightarrow> bool \<Rightarrow> reply \<Rightarrow> act" where [page_defs]:
  "transactionSaved parseFloat exitAfterSave =
     then_catch (\<lambda>res. when_ok res
       (steps [saved_message, hold_name,
               if exitAfterSave then leave_to ''/transactions''
               else with_field ''name'' (\<lambda>n. with_state (\<lambda>s.
                 stay_at (''/transactions/'' @ js_text (ed_owner s) @ ''/'' @ js_text n)))])
       (steps [save_failed res, revert_name (updateTransactionField parseFloat)]))
     failed_to_connect"

definition deleteTransaction :: act where [page_defs]:
  "deleteTransaction = with_state (\<lambda>s.
     if ed_object s = JNull then no_act else send (DeleteRecord ''delete-transaction'' (ed_object s)))"

definition transactionDeleted :: "reply \<Rightarrow> act" where [page_defs]:
  "transactionDeleted = after_delete (leave_to ''/transactions'')"

section \<open>Tickets: \<open>TicketEditPage.js\<close>\<close>

definition getTicket :: act where [page_defs]:
  "getTicket =
     with_state (\<lambda>s. send (GetRecord ''get-ticket'' (ed_owner s) (ed_name s)))"

definition ticketReceived :: "reply \<Rightarrow> act" where [page_defs]:
  "ticketReceived = then_only (receive_found (\<lambda>res s.
     case bind_result (js_get (an_data res) ''messages'')
            (\<lambda>ms. if ms = JNull then js_set (an_data res) ''messages'' (JArr []) else Return (an_data res)) of
       Throw e \<Rightarrow> (s, Some e)
     | Return ticket \<Rightarrow> hold_object ticket s))"

definition parseTicketField :: "string \<Rightarrow> jsval \<Rightarrow> jsval" where
  "parseTicketField = parse_ints ['''']"

definition updateTicketField :: "string \<Rightarrow> jsval \<Rightarrow> act" where [page_defs]:
  "updateTicketField k v = put_field k (parseTicketField k v)"

definition submitTicketEdit :: "bool \<Rightarrow> act" where [page_defs]:
  "submitTicketEdit exitAfterSave =
     with_state (\<lambda>s. send (UpdateRecord ''update-ticket'' (ed_owner s) (ed_name s) (deepCopy (ed_object s))))"

definition ticketSaved :: "bool \<Rightarrow> reply \<Rightarrow> act" where [page_defs]:
  "ticketSaved exitAfterSave =
     then_catch (\<lambda>res. when_ok res
       (steps [saved_message, hold_name,
               if exitAfterSave then leave_to ''/tickets'' else stay_at_record ''/tickets''])
       (steps [save_failed res, revert_name updateTicketField]))
     failed_to_connect"

text \<open>
  \<open>sendMessage\<close> and its continuation. The text of the input is the field \<open>messageText\<close>, the time is an
  argument.
\<close>

definition sendMessage :: "string \<Rightarrow> act" where [page_defs]:
  "sendMessage now = with_state (\<lambda>s.
     if js_trim (js_text (ed_more s ''messageText'')) = []
     then showMessage ''error'' ''ticket:Please enter a message''
     else steps [set_more ''sending'' (JBool True),
       (case ed_account s of
          None \<Rightarrow> (raise TypeError)
        | Some u \<Rightarrow> send (Request ''add-ticket-message'' [ed_owner s, ed_name s,
            JObj [(''author'', JStr (ac_name u)), (''text'', ed_more s ''messageText''), (''timestamp'', JStr now),
                  (''isAdmin'', JBool (isAdminUser (ed_account s)))]]))])"

definition messageSent :: "reply \<Rightarrow> act" where [page_defs]:
  "messageSent =
     then_catch (\<lambda>res. when_ok res
       (steps [showMessage ''success'' ''general:Successfully sent'', set_more ''messageText'' (JStr []),
               set_more ''sending'' (JBool False), getTicket])
       (steps [showMessage ''error'' (''general:Failed to send: '' @ an_msg res), set_more ''sending'' (JBool False)]))
     (\<lambda>err. steps [failed_to_connect err, set_more ''sending'' (JBool False)])"

end
