(* ===== verification/Resource_Pages.thy ===== *)
theory Resource_Pages
  imports Edit_Page
begin

text \<open>
  The edit pages of certificates, keys, tokens, webhooks, forms, LDAP servers, syncers, applications
  and providers.
\<close>

section \<open>Certificates: \<open>CertEditPage.js\<close>\<close>

definition getCert :: act where [page_defs]:
  "getCert = with_state (\<lambda>s. send (GetRecord ''get-cert'' (ed_owner s) (ed_name s)))"

definition certReceived :: "reply \<Rightarrow> act" where [page_defs]:
  "certReceived = then_only (receive_checked keep_data)"

definition parseCertField :: "string \<Rightarrow> jsval \<Rightarrow> jsval" where
  "parseCertField = parse_ints [''port'']"

text \<open>Entering and leaving the type SSL clears the fields that depend on it.\<close>

definition updateCertField :: "string \<Rightarrow> jsval \<Rightarrow> act" where [page_defs]:
  "updateCertField k v0 =
     (let v = parseCertField k v0 in
      with_field ''type'' (\<lambda>previousType. steps [
        if k = ''type'' then
          (if v = JStr ''SSL'' then
             steps [put_field ''cryptoAlgorithm'' (JStr ''RSA''), put_field ''certificate'' (JStr []),
                    put_field ''privateKey'' (JStr [])]
           else if previousType = JStr ''SSL'' \<and> v \<noteq> JStr ''SSL'' then
             steps [put_field ''provider'' (JStr []), put_field ''account'' (JStr []),
                    put_field ''accessKey'' (JStr []), put_field ''accessSecret'' (JStr []),
                    put_field ''certificate'' (JStr []), put_field ''privateKey'' (JStr []),
                    put_field ''expireTime'' (JStr []), put_field ''domainExpireTime'' (JStr [])]
           else no_act)
        else no_act,
        put_field k v]))"

definition submitCertEdit :: "bool \<Rightarrow> act" where [page_defs]:
  "submitCertEdit exitAfterSave =
     with_state (\<lambda>s. send (UpdateRecord ''update-cert'' (ed_owner s) (ed_name s) (deepCopy (ed_object s))))"

text \<open>The navigation and the new request are the callback of \<open>setState\<close> and see the new state.\<close>

definition certSaved :: "bool \<Rightarrow> reply \<Rightarrow> act" where [page_defs]:
  "certSaved exitAfterSave =
     then_catch (\<lambda>res. when_ok res
       (steps [saved_message, hold_name,
               if exitAfterSave then leave_to ''/certs''
               else steps [stay_at_record ''/certs'', getCert]])
       (steps [save_failed res, revert_name updateCertField]))
     failed_to_connect"

definition deleteCert :: act where [page_defs]:
  "deleteCert = with_state (\<lambda>s. send (DeleteRecord ''delete-cert'' (ed_object s)))"

definition certDeleted :: "reply \<Rightarrow> act" where [page_defs]:
  "certDeleted = after_delete (leave_to ''/certs'')"

section \<open>Keys: \<open>KeyEditPage.js\<close>\<close>

definition getKey :: act where [page_defs]:
  "getKey = with_state (\<lambda>s. send (GetRecord ''get-key'' (ed_owner s) (ed_name s)))"

definition keyReceived :: "reply \<Rightarrow> act" where [page_defs]:
  "keyReceived =
     then_only (receive_checked (\<lambda>res. steps [keep_data res,
       with_data_field res ''organization'' (\<lambda>g. with_state (\<lambda>s.
         send (Request ''get-organization-applications'' [JStr ''admin'', if js_bool g then g else ed_owner s]))),
       with_data_field res ''organization'' (\<lambda>g. with_state (\<lambda>s.
         send (Request ''get-users'' [if js_bool g then g else ed_owner s])))]))"

definition parseKeyField :: "string \<Rightarrow> jsval \<Rightarrow> jsval" where
  "parseKeyField k v = v"

definition updateKeyField :: "string \<Rightarrow> jsval \<Rightarrow> act" where [page_defs]:
  "updateKeyField k v = put_field k (parseKeyField k v)"

definition submitKeyEdit :: "bool \<Rightarrow> act" where [page_defs]:
  "submitKeyEdit exitAfterSave =
     with_state (\<lambda>s. send (UpdateRecord ''update-key'' (ed_owner s) (ed_name s) (deepCopy (ed_object s))))"

definition keySaved :: "bool \<Rightarrow> reply \<Rightarrow> act" where [page_defs]:
  "keySaved exitAfterSave =
     then_catch (\<lambda>res. when_ok res
       (steps [saved_message, hold_owner, hold_name,
               if exitAfterSave then leave_to ''/keys'' else stay_at_record ''/keys''])
       (steps [save_failed res, revert_owner updateKeyField, revert_name updateKeyField]))
     failed_to_connect"

definition deleteKey :: act where [page_defs]:
  "deleteKey = with_state (\<lambda>s. send (DeleteRecord ''delete-key'' (ed_object s)))"

definition keyDeleted :: "reply \<Rightarrow> act" where [page_defs]:
  "keyDeleted = after_delete (leave_to ''/keys'')"

section \<open>Tokens: \<open>TokenEditPage.js\<close>\<close>

definition getToken :: act where [page_defs]:
  "getToken = with_state (\<lambda>s. send (GetRecord ''get-token'' (JStr ''admin'') (ed_name s)))"

definition tokenReceived :: "reply \<Rightarrow> act" where [page_defs]:
  "tokenReceived = then_only (receive_checked keep_data)"

definition parseTokenField :: "string \<Rightarrow> jsval \<Rightarrow> jsval" where
  "parseTokenField k v = v"

definition updateTokenField :: "string \<Rightarrow> jsval \<Rightarrow> act" where [page_defs]:
  "updateTokenField k v = put_field k (parseTokenField k v)"

definition submitTokenEdit :: "bool \<Rightarrow> act" where [page_defs]:
  "submitTokenEdit exitAfterSave =
     with_field ''owner'' (\<lambda>w. with_state (\<lambda>s.
       send (UpdateRecord ''update-token'' w (ed_name s) (deepCopy (ed_object s)))))"

definition tokenSaved :: "bool \<Rightarrow> reply \<Rightarrow> act" where [page_defs]:
  "tokenSaved exitAfterSave =
     then_catch (\<lambda>res. when_ok res
       (steps [saved_message, hold_name,
               if exitAfterSave then leave_to ''/tokens'' else stay_at_name ''/tokens''])
       (steps [save_failed res, revert_name updateTokenField]))
     failed_to_connect"

definition deleteToken :: act where [page_defs]:
  "deleteToken = with_state (\<lambda>s. send (DeleteRecord ''delete-token'' (ed_object s)))"

definition tokenDeleted :: "reply \<Rightarrow> act" where [page_defs]:
  "tokenDeleted = after_delete (leave_to ''/tokens'')"

definition getParsedTokenEditorHeight :: "string \<Rightarrow> string" where
  "getParsedTokenEditorHeight parsedResult =
     (let lines = length (js_split parsedResult [CHR 0x0A]); visibleRows = min 30 (max 10 lines) in
      show_nat (visibleRows * 22) @ ''px'')"

section \<open>Webhooks: \<open>WebhookEditPage.js\<close>\<close>

definition getWebhook :: act where [page_defs]:
  "getWebhook = with_state (\<lambda>s. send (GetRecord ''get-webhook'' (JStr ''admin'') (ed_name s)))"

definition webhookReceived :: "reply \<Rightarrow> act" where [page_defs]:
  "webhookReceived = then_only (receive_found keep_data)"

text \<open>\<open>value.includes("All")\<close> of an array looks for the element, of a string for the part.\<close>

definition includes_all :: "jsval \<Rightarrow> bool" where
  "includes_all v = (case v of JArr xs \<Rightarrow> JStr ''All'' \<in> set xs | JStr t \<Rightarrow> js_includes t ''All'' | _ \<Rightarrow> False)"

definition parseWebhookField :: "string \<Rightarrow> jsval \<Rightarrow> jsval" where
  "parseWebhookField k v0 =
     (let v = parse_ints [''port''] k v0 in
      if k = ''objectFields'' then (if includes_all v then JArr [JStr ''All''] else v) else v)"

definition updateWebhookField :: "string \<Rightarrow> jsval \<Rightarrow> act" where [page_defs]:
  "updateWebhookField k v = put_field k (parseWebhookField k v)"

definition submitWebhookEdit :: "bool \<Rightarrow> act" where [page_defs]:
  "submitWebhookEdit exitAfterSave =
     with_field ''owner'' (\<lambda>w. with_state (\<lambda>s.
       send (UpdateRecord ''update-webhook'' w (ed_name s) (deepCopy (ed_object s)))))"

definition webhookSaved :: "bool \<Rightarrow> reply \<Rightarrow> act" where [page_defs]:
  "webhookSaved exitAfterSave =
     then_catch (\<lambda>res. when_ok res
       (steps [saved_message, hold_name,
               if exitAfterSave then leave_to ''/webhooks'' else stay_at_name ''/webhooks''])
       (steps [save_failed res, revert_name updateWebhookField]))
     failed_to_connect"

definition deleteWebhook :: act where [page_defs]:
  "deleteWebhook = with_state (\<lambda>s. send (DeleteRecord ''delete-webhook'' (ed_object s)))"

definition webhookDeleted :: "reply \<Rightarrow> act" where [page_defs]:
  "webhookDeleted = after_delete (leave_to ''/webhooks'')"

section \<open>Forms: \<open>FormEditPage.js\<close>\<close>

definition getForm :: act where [page_defs]:
  "getForm = with_state (\<lambda>s. case ed_account s of
     None \<Rightarrow> (raise TypeError)
   | Some u \<Rightarrow> send (GetRecord ''get-form'' (JStr (ac_owner u)) (ed_name s)))"

definition formReceived :: "reply \<Rightarrow> act" where [page_defs]:
  "formReceived = then_only (\<lambda>res. when_ok res (keep_data res) no_act)"

definition updateFormField :: "string \<Rightarrow> jsval \<Rightarrow> act" where [page_defs]:
  "updateFormField k v = put_field k v"

definition submitFormEdit :: "bool \<Rightarrow> act" where [page_defs]:
  "submitFormEdit exitAfterSave =
     with_field ''owner'' (\<lambda>w. with_state (\<lambda>s.
       send (UpdateRecord ''update-form'' w (ed_name s) (deepCopy (ed_object s)))))"

definition formSaved :: "bool \<Rightarrow> reply \<Rightarrow> act" where [page_defs]:
  "formSaved exitAfterSave =
     then_catch (\<lambda>res. when_ok res
       (if js_bool (an_data res)
        then steps [saved_message, hold_name,
                    if exitAfterSave then leave_to ''/forms'' else stay_at_name ''/forms'']
        else steps [showMessage ''error'' ''general:Failed to save'', revert_name updateFormField])
       (save_failed res))
     (\<lambda>err. showMessage ''error'' (''general:Failed to save: '' @ err))"

section \<open>LDAP servers: \<open>LdapEditPage.js\<close>\<close>

text \<open>
  An LDAP server is found by its identifier; the update sends the record alone. The path of the
  organization is read after \<open>setState\<close> and is the one held before.
\<close>

definition getLdap :: act where [page_defs]:
  "getLdap = with_state (\<lambda>s. send (GetRecord ''get-ldap'' (ed_owner s) (ed_name s)))"

definition ldapReceived :: "reply \<Rightarrow> act" where [page_defs]:
  "ldapReceived = then_only (\<lambda>res. when_ok res (keep_data res) (showMessage ''error'' (an_msg res)))"

definition updateLdapField :: "string \<Rightarrow> jsval \<Rightarrow> act" where [page_defs]:
  "updateLdapField k v = put_field k v"

definition submitLdapEdit :: "bool \<Rightarrow> act" where [page_defs]:
  "submitLdapEdit exitAfterSave = with_state (\<lambda>s. send (Request ''update-ldap'' [ed_object s]))"

definition ldapSaved :: "bool \<Rightarrow> reply \<Rightarrow> act" where [page_defs]:
  "ldapSaved exitAfterSave =
     then_catch (\<lambda>res. with_state (\<lambda>before. when_ok res
       (steps [showMessage ''success'' ''Update LDAP server success'', hold_owner,
               if exitAfterSave then leave_to (''/organizations/'' @ js_text (ed_owner before)) else no_act])
       (showMessage ''error'' (an_msg res))))
     (\<lambda>err. showMessage ''error'' (''general:Failed to update: '' @ err))"

section \<open>Syncers: \<open>SyncerEditPage.js\<close>\<close>

definition getSyncer :: act where [page_defs]:
  "getSyncer = with_state (\<lambda>s. send (GetRecord ''get-syncer'' (JStr ''admin'') (ed_name s)))"

definition syncerReceived :: "reply \<Rightarrow> act" where [page_defs]:
  "syncerReceived =
     then_only (receive_checked (\<lambda>res. steps [keep_data res,
       if js_bool (an_data res) \<and> js_bool (field (an_data res) ''organization'')
       then send (Request ''get-certs'' [field (an_data res) ''organization'']) else no_act]))"

definition parseSyncerField :: "string \<Rightarrow> jsval \<Rightarrow> jsval" where
  "parseSyncerField = parse_ints [''port'']"

text \<open>A new organization resets the certificate.\<close>

definition updateSyncerField :: "string \<Rightarrow> jsval \<Rightarrow> act" where [page_defs]:
  "updateSyncerField k v0 =
     (let v = parseSyncerField k v0 in steps [
        if k = ''organization'' then with_field ''organization'' (\<lambda>g.
          if g \<noteq> v then steps [put_field ''cert'' (JStr []), send (Request ''get-certs'' [v])] else no_act)
        else no_act,
        put_field k v])"

definition submitSyncerEdit :: "bool \<Rightarrow> act" where [page_defs]:
  "submitSyncerEdit exitAfterSave =
     with_field ''owner'' (\<lambda>w. with_state (\<lambda>s.
       send (UpdateRecord ''update-syncer'' w (ed_name s) (deepCopy (ed_object s)))))"

definition syncerSaved :: "bool \<Rightarrow> reply \<Rightarrow> act" where [page_defs]:
  "syncerSaved exitAfterSave =
     then_catch (\<lambda>res. when_ok res
       (steps [saved_message, hold_name,
               if exitAfterSave then leave_to ''/syncers''
               else with_field ''organization'' (\<lambda>g. with_field ''name'' (\<lambda>n.
                 stay_at (''/syncers/'' @ js_text g @ ''/'' @ js_text n)))])
       (steps [save_failed res, revert_name updateSyncerField]))
     failed_to_connect"

definition deleteSyncer :: act where [page_defs]:
  "deleteSyncer = with_state (\<lambda>s. send (DeleteRecord ''delete-syncer'' (ed_object s)))"

definition syncerDeleted :: "reply \<Rightarrow> act" where [page_defs]:
  "syncerDeleted = after_delete (leave_to ''/syncers'')"

definition needSshfields :: "jsval \<Rightarrow> bool" where
  "needSshfields syncer =
     (field syncer ''type'' = JStr ''Database''
      \<and> field syncer ''databaseType'' \<in> set [JStr ''mysql'', JStr ''mssql'', JStr ''postgres''])"

text \<open>
  The columns that a syncer of a known type starts with: the name in the other system, the type and
  the field of the user. Every column is hashed and has no list of values.
\<close>

record syncer_column =
  sc_name :: string
  sc_type :: string
  sc_casdoorName :: string
  sc_isHashed :: bool
  sc_values :: "string list"

definition column :: "string \<Rightarrow> string \<Rightarrow> string \<Rightarrow> syncer_column" where
  "column n t c = \<lparr>sc_name = n, sc_type = t, sc_casdoorName = c, sc_isHashed = True, sc_values = []\<rparr>"

definition keycloak_columns :: "syncer_column list" where
  "keycloak_columns =
     [column ''ID'' ''string'' ''Id'',
      column ''USERNAME'' ''string'' ''Name'',
      column ''LAST_NAME+FIRST_NAME'' ''string'' ''DisplayName'',
      column ''EMAIL'' ''string'' ''Email'',
      column ''EMAIL_VERIFIED'' ''boolean'' ''EmailVerified'',
      column ''FIRST_NAME'' ''string'' ''FirstName'',
      column ''LAST_NAME'' ''string'' ''LastName'',
      column ''CREATED_TIMESTAMP'' ''string'' ''CreatedTime'',
      column ''ENABLED'' ''boolean'' ''IsForbidden'']"

definition weCom_columns :: "syncer_column list" where
  "weCom_columns =
     [column ''userid'' ''string'' ''Id'',
      column ''name'' ''string'' ''DisplayName'',
      column ''email'' ''string'' ''Email'',
      column ''mobile'' ''string'' ''Phone'',
      column ''avatar'' ''string'' ''Avatar'',
      column ''position'' ''string'' ''Title'',
      column ''gender'' ''string'' ''Gender'']"

definition azureAD_columns :: "syncer_column list" where
  "azureAD_columns =
     [column ''id'' ''string'' ''Id'',
      column ''userPrincipalName'' ''string'' ''Name'',
      column ''displayName'' ''string'' ''DisplayName'',
      column ''givenName'' ''string'' ''FirstName'',
      column ''surname'' ''string'' ''LastName'',
      column ''mail'' ''string'' ''Email'',
      column ''mobilePhone'' ''string'' ''Phone'',
      column ''jobTitle'' ''string'' ''Title'',
      column ''officeLocation'' ''string'' ''Location'',
      column ''preferredLanguage'' ''string'' ''Language'',
      column ''accountEnabled'' ''boolean'' ''IsForbidden'']"

definition googleWorkspace_columns :: "syncer_column list" where
  "googleWorkspace_columns =
     [column ''id'' ''string'' ''Id'',
      column ''primaryEmail'' ''string'' ''Name'',
      column ''name.fullName'' ''string'' ''DisplayName'',
      column ''name.givenName'' ''string'' ''FirstName'',
      column ''name.familyName'' ''string'' ''LastName'',
      column ''suspended'' ''boolean'' ''IsForbidden'',
      column ''isAdmin'' ''boolean'' ''IsAdmin'']"

definition dingTalk_columns :: "syncer_column list" where
  "dingTalk_columns =
     [column ''userid'' ''string'' ''Id'',
      column ''unionid'' ''string'' ''Name'',
      column ''name'' ''string'' ''DisplayName'',
      column ''email'' ''string'' ''Email'',
      column ''mobile'' ''string'' ''Phone'',
      column ''avatar'' ''string'' ''Avatar'',
      column ''title'' ''string'' ''Title'',
      column ''active'' ''boolean'' ''IsForbidden'']"

definition activeDirectory_columns :: "syncer_column list" where
  "activeDirectory_columns =
     [column ''objectGUID'' ''string'' ''Id'',
      column ''sAMAccountName'' ''string'' ''Name'',
      column ''displayName'' ''string'' ''DisplayName'',
      column ''givenName'' ''string'' ''FirstName'',
      column ''sn'' ''string'' ''LastName'',
      column ''mail'' ''string'' ''Email'',
      column ''mobile'' ''string'' ''Phone'',
      column ''title'' ''string'' ''Title'',
      column ''department'' ''string'' ''Affiliation'',
      column ''userAccountControl'' ''string'' ''IsForbidden'']"

definition lark_columns :: "syncer_column list" where
  "lark_columns =
     [column ''user_id'' ''string'' ''Id'',
      column ''name'' ''string'' ''DisplayName'',
      column ''email'' ''string'' ''Email'',
      column ''mobile'' ''string'' ''Phone'',
      column ''avatar'' ''string'' ''Avatar'',
      column ''job_title'' ''string'' ''Title'',
      column ''gender'' ''number'' ''Gender'']"

definition okta_columns :: "syncer_column list" where
  "okta_columns =
     [column ''id'' ''string'' ''Id'',
      column ''profile.login'' ''string'' ''Name'',
      column ''profile.displayName'' ''string'' ''DisplayName'',
      column ''profile.firstName'' ''string'' ''FirstName'',
      column ''profile.lastName'' ''string'' ''LastName'',
      column ''profile.email'' ''string'' ''Email'',
      column ''profile.mobilePhone'' ''string'' ''Phone'',
      column ''profile.title'' ''string'' ''Title'',
      column ''profile.preferredLanguage'' ''string'' ''Language'',
      column ''status'' ''string'' ''IsForbidden'']"

definition scim_columns :: "syncer_column list" where
  "scim_columns =
     [column ''id'' ''string'' ''Id'',
      column ''userName'' ''string'' ''Name'',
      column ''displayName'' ''string'' ''DisplayName'',
      column ''name.givenName'' ''string'' ''FirstName'',
      column ''name.familyName'' ''string'' ''LastName'',
      column ''emails'' ''string'' ''Email'',
      column ''phoneNumbers'' ''string'' ''Phone'',
      column ''title'' ''string'' ''Title'',
      column ''preferredLanguage'' ''string'' ''Language'',
      column ''active'' ''boolean'' ''IsForbidden'']"

definition awsIam_columns :: "syncer_column list" where
  "awsIam_columns =
     [column ''UserId'' ''string'' ''Id'',
      column ''UserName'' ''string'' ''Name'',
      column ''UserName'' ''string'' ''DisplayName'',
      column ''Tags.Email'' ''string'' ''Email'',
      column ''Tags.Phone'' ''string'' ''Phone'',
      column ''Tags.FirstName'' ''string'' ''FirstName'',
      column ''Tags.LastName'' ''string'' ''LastName'',
      column ''Tags.Title'' ''string'' ''Title'',
      column ''Tags.Department'' ''string'' ''Affiliation'',
      column ''CreateDate'' ''string'' ''CreatedTime'']"

definition getSyncerTableColumns :: "jsval \<Rightarrow> syncer_column list" where
  "getSyncerTableColumns syncer =
     (let type = field syncer ''type'' in
      if type = JStr ''Keycloak'' then keycloak_columns
      else if type = JStr ''WeCom'' then weCom_columns
      else if type = JStr ''Azure AD'' then azureAD_columns
      else if type = JStr ''Google Workspace'' then googleWorkspace_columns
      else if type = JStr ''DingTalk'' then dingTalk_columns
      else if type = JStr ''Active Directory'' then activeDirectory_columns
      else if type = JStr ''Lark'' then lark_columns
      else if type = JStr ''Okta'' then okta_columns
      else if type = JStr ''SCIM'' then scim_columns
      else if type = JStr ''AWS IAM'' then awsIam_columns
      else [])"

definition column_value :: "syncer_column \<Rightarrow> jsval" where
  "column_value c = JObj [(''name'', JStr (sc_name c)), (''type'', JStr (sc_type c)),
     (''casdoorName'', JStr (sc_casdoorName c)), (''isHashed'', JBool (sc_isHashed c)),
     (''values'', JArr (map JStr (sc_values c)))]"

text \<open>The handler of the type of a syncer.\<close>

definition changeSyncerType :: "string \<Rightarrow> act" where [page_defs]:
  "changeSyncerType v = steps [updateSyncerField ''type'' (JStr v),
     with_state (\<lambda>s. put_field ''tableColumns'' (JArr (map column_value (getSyncerTableColumns (ed_object s))))),
     with_field ''table'' (\<lambda>t. put_field ''table'' (if v = ''Keycloak'' then JStr ''user_entity'' else t)),
     if v \<in> set [''WeCom'', ''DingTalk'', ''Lark'', ''Azure AD'', ''Google Workspace'', ''Okta'', ''SCIM'', ''AWS IAM'']
     then put_field ''host'' (JStr []) else no_act]"

section \<open>Applications: \<open>ApplicationEditPage.js\<close>\<close>

text \<open>Applications are kept under the owner \<open>admin\<close>.\<close>

definition getApplication :: act where [page_defs]:
  "getApplication = with_state (\<lambda>s. send (GetRecord ''get-application'' (JStr ''admin'') (ed_name s)))"

text \<open>A missing or empty list of grant types and missing tags are filled in.\<close>

definition default_field :: "(jsval \<Rightarrow> bool) \<Rightarrow> string \<Rightarrow> jsval \<Rightarrow> jsval \<Rightarrow> jsval" where
  "default_field missing k d v =
     (case v of JObj ps \<Rightarrow> if missing (prop_of ps k) then JObj (AList.update k d ps) else JObj ps | _ \<Rightarrow> v)"

definition applicationReceived :: "reply \<Rightarrow> act" where [page_defs]:
  "applicationReceived = then_only (receive_checked (\<lambda>res.
     let application = default_field (\<lambda>v. v = JNull \<or> v = JUndefined) ''tags'' (JArr [])
           (default_field (\<lambda>v. v = JNull \<or> v = JUndefined \<or> no_elements v = Return True)
             ''grantTypes'' (JArr [JStr ''authorization_code'']) (an_data res)) in
     steps [hold_object application,
       with_state (\<lambda>s. case ed_account s of
           None \<Rightarrow> if js_bool (field application ''isShared'') then (raise TypeError)
                   else send (Request ''get-providers'' [field application ''organization''])
         | Some u \<Rightarrow> send (Request ''get-providers''
             [if js_bool (field application ''isShared'') then JStr (ac_owner u) else field application ''organization''])),
       send (Request ''get-certs''
         [if js_bool (field application ''isShared'') then JUndefined else field application ''organization'']),
       with_state (\<lambda>s. send (Request ''saml-metadata'' [JStr ''admin'', ed_name s, field application ''enableSamlPostBinding'']))]))"

definition applicationProvidersReceived :: "reply \<Rightarrow> act" where [page_defs]:
  "applicationProvidersReceived = then_only (\<lambda>res. when_ok res
     (set_more ''providers'' (an_data res)) (showMessage ''error'' (an_msg res)))"

definition parseApplicationField :: "string \<Rightarrow> jsval \<Rightarrow> jsval" where
  "parseApplicationField = parse_ints [''offset'']"

definition updateApplicationField :: "string \<Rightarrow> jsval \<Rightarrow> act" where [page_defs]:
  "updateApplicationField k v = put_field k (parseApplicationField k v)"

text \<open>\<open>(item?.key || "").trim()\<close>; the fields of a custom scope are texts.\<close>

definition trimmed_text :: "jsval \<Rightarrow> string \<Rightarrow> string" where
  "trimmed_text item k = (if js_bool (field item k) then js_trim (js_text (field item k)) else [])"

definition trim_scope :: "jsval \<Rightarrow> jsval" where
  "trim_scope item =
     JObj (AList.update ''description'' (JStr (trimmed_text item ''description''))
       (AList.update ''displayName'' (JStr (trimmed_text item ''displayName''))
         (AList.update ''scope'' (JStr (trimmed_text item ''scope''))
           (case item of JObj ps \<Rightarrow> ps | _ \<Rightarrow> []))))"

definition trimCustomScopes :: "jsval \<Rightarrow> jsval list" where
  "trimCustomScopes customScopes = (case customScopes of JArr xs \<Rightarrow> map trim_scope xs | _ \<Rightarrow> [])"

definition validateCustomScopes :: "jsval \<Rightarrow> bool \<times> jsval list" where
  "validateCustomScopes customScopes =
     (let trimmed = trimCustomScopes customScopes in
      (\<not> list_ex (\<lambda>item. \<not> js_bool (field item ''scope'')) trimmed, trimmed))"

text \<open>
  \<open>list?.filter(item => names.includes(item.name))\<close>: a missing list stays undefined, an element that is
  \<open>undefined\<close> or \<open>null\<close> throws.
\<close>

definition keep_named :: "jsval list result \<Rightarrow> jsval \<Rightarrow> jsval result" where
  "keep_named names items =
     (case items of
        JArr xs \<Rightarrow> bind_result (js_filter (\<lambda>item. bind_result names (\<lambda>ns.
            bind_result (js_get item ''name'') (\<lambda>n. Return (n \<in> set ns)))) xs) (\<lambda>ys. Return (JArr ys))
      | JUndefined \<Rightarrow> Return JUndefined
      | JNull \<Rightarrow> Return JUndefined
      | _ \<Rightarrow> Throw TypeError)"

fun js_names :: "jsval list \<Rightarrow> jsval list result" where
  "js_names [] = Return []"
| "js_names (x # xs) = bind_result (js_get x ''name'') (\<lambda>n. bind_result (js_names xs) (\<lambda>ns. Return (n # ns)))"

definition provider_names :: "jsval \<Rightarrow> jsval list result" where
  "provider_names providers = (case providers of JArr xs \<Rightarrow> js_names xs | _ \<Rightarrow> Throw TypeError)"

definition signin_methods :: "jsval list" where
  "signin_methods = map JStr [''Password'', ''Verification code'', ''WebAuthn'', ''LDAP'', ''Face ID'',
     ''Device login'', ''WeChat'']"

definition application_body :: "jsval \<Rightarrow> jsval \<Rightarrow> (bool \<times> jsval) result" where
  "application_body providers application =
     bind_result (keep_named (provider_names providers) (field application ''providers'')) (\<lambda>ps.
     bind_result (js_set application ''providers'' ps) (\<lambda>a1.
     bind_result (keep_named (Return signin_methods) (field a1 ''signinMethods'')) (\<lambda>ms.
     bind_result (js_set a1 ''signinMethods'' ms) (\<lambda>a2.
     let (ok, scopes) = validateCustomScopes (field a2 ''customScopes'') in
     bind_result (js_set a2 ''customScopes'' (JArr scopes)) (\<lambda>body. Return (ok, body))))))"

definition submitApplicationEdit :: "bool \<Rightarrow> act" where [page_defs]:
  "submitApplicationEdit exitAfterSave = with_state (\<lambda>s.
     case application_body (ed_more s ''providers'') (deepCopy (ed_object s)) of
       Throw e \<Rightarrow> raise e
     | Return (ok, body) \<Rightarrow>
         if \<not> ok then showMessage ''error'' ''general:Name: provider:This field is required''
         else send (UpdateRecord ''update-application'' (JStr ''admin'') (ed_name s) body))"

definition applicationSaved :: "bool \<Rightarrow> reply \<Rightarrow> act" where [page_defs]:
  "applicationSaved exitAfterSave =
     then_catch (\<lambda>res. when_ok res
       (steps [saved_message, hold_name,
               if exitAfterSave then leave_to ''/applications''
               else with_field ''organization'' (\<lambda>g. with_field ''name'' (\<lambda>n.
                 stay_at (''/applications/'' @ js_text g @ ''/'' @ js_text n)))])
       (steps [save_failed res, revert_name updateApplicationField]))
     failed_to_connect"

definition deleteApplication :: act where [page_defs]:
  "deleteApplication =
     with_state (\<lambda>s. send (DeleteRecord ''delete-application'' (ed_object s)))"

definition applicationDeleted :: "reply \<Rightarrow> act" where [page_defs]:
  "applicationDeleted = after_delete (leave_to ''/applications'')"

section \<open>Providers: \<open>ProviderEditPage.js\<close>\<close>

definition lower_or_digit :: "char \<Rightarrow> bool" where
  "lower_or_digit c = (is_lower c \<or> is_digit c)"

definition default_text :: "string \<Rightarrow> string \<Rightarrow> bool" where
  "default_text start t =
     (take (length start) t = start \<and> drop (length start) t \<noteq> [] \<and> list_all lower_or_digit (drop (length start) t))"

definition isDefaultProviderName :: "string \<Rightarrow> bool" where
  "isDefaultProviderName name = default_text ''provider_'' name"

definition isDefaultProviderDisplayName :: "string \<Rightarrow> bool" where
  "isDefaultProviderDisplayName displayName = default_text ''New Provider - '' displayName"

text \<open>\<open>t.toLowerCase().replace(/[\\s-]+/g, "_").replace(/[^a-z0-9_]/g, "")\<close>.\<close>

fun underscored :: "string \<Rightarrow> string" where
  "underscored [] = []"
| "underscored [c] = (if is_space c \<or> c = CHR ''-'' then ''_'' else [c])"
| "underscored (c # d # r) =
     (if is_space c \<or> c = CHR ''-''
      then (if is_space d \<or> d = CHR ''-'' then underscored (d # r) else CHR ''_'' # underscored (d # r))
      else c # underscored (d # r))"

definition slug :: "string \<Rightarrow> string" where
  "slug t = filter (\<lambda>c. lower_or_digit c \<or> c = CHR ''_'') (underscored (js_lower t))"

definition getAutoProviderName :: "string \<Rightarrow> string \<Rightarrow> string \<Rightarrow> string" where
  "getAutoProviderName category type subType =
     (if subType \<noteq> [] then ''provider_'' @ slug category @ ''_'' @ slug type @ ''_'' @ slug subType
      else ''provider_'' @ slug category @ ''_'' @ slug type)"

definition getAutoProviderDisplayName :: "string \<Rightarrow> string \<Rightarrow> string \<Rightarrow> string" where
  "getAutoProviderDisplayName category type subType =
     (if subType \<noteq> [] then category @ '' '' @ type @ '' '' @ subType else category @ '' '' @ type)"

text \<open>
  The three default mappings are objects of the module. A provider without a mapping gets the object
  itself, so the field \<open>mappingRef\<close> of the page remembers which module object its mapping is, and the
  fields named after the constants are the module's objects. They outlive the page: a page opened later
  finds them as they are.
\<close>

definition defaultUserMapping :: jsval where
  "defaultUserMapping = JObj
     [(''id'', JStr ''id''), (''username'', JStr ''username''), (''displayName'', JStr ''displayName''),
      (''email'', JStr ''email''), (''avatarUrl'', JStr ''avatarUrl''), (''phone'', JStr ''phone''),
      (''countryCode'', JStr ''country_code''), (''firstName'', JStr ''given_name''),
      (''lastName'', JStr ''family_name''), (''region'', JStr ''region''), (''location'', JStr ''location''),
      (''affiliation'', JStr ''affiliation''), (''title'', JStr ''title'')]"

definition defaultEmailMapping :: jsval where
  "defaultEmailMapping = JObj
     [(''fromName'', JStr ''fromName''), (''fromAddress'', JStr ''fromAddress''),
      (''toAddress'', JStr ''toAddress''), (''subject'', JStr ''subject''), (''content'', JStr ''content'')]"

definition defaultSmsMapping :: jsval where
  "defaultSmsMapping = JObj [(''phoneNumber'', JStr ''phoneNumber''), (''content'', JStr ''content'')]"

definition mapping_source :: "jsval \<Rightarrow> string option" where
  "mapping_source provider =
     (let m = field provider ''userMapping'' in
      if field provider ''type'' = JStr ''Custom HTTP Email''
      then (if \<not> js_bool m \<or> \<not> js_bool (field m ''fromName'') then Some ''defaultEmailMapping'' else None)
      else if field provider ''type'' = JStr ''Custom HTTP SMS''
      then (if \<not> js_bool m \<or> \<not> js_bool (field m ''phoneNumber'') then Some ''defaultSmsMapping'' else None)
      else if \<not> js_bool m then Some ''defaultUserMapping'' else None)"

definition show_provider :: "string option \<Rightarrow> jsval \<Rightarrow> act" where [page_defs]:
  "show_provider source provider = steps [hold_object provider,
     (case source of
        None \<Rightarrow> set_more ''mappingRef'' JNull
      | Some c \<Rightarrow> steps [set_more ''mappingRef'' (JStr c), with_state (\<lambda>s. put_field ''userMapping'' (ed_more s c))]),
     set_more ''nameNotUserEdited'' (JBool (isDefaultProviderName (js_text (field provider ''name'')))),
     set_more ''displayNameNotUserEdited'' (JBool (isDefaultProviderDisplayName (js_text (field provider ''displayName''))))]"

text \<open>In mode \<open>add\<close> the new provider comes with the location and the server is not asked.\<close>

definition getProvider :: "jsval \<Rightarrow> act" where [page_defs]:
  "getProvider location_provider = with_state (\<lambda>s.
     if ed_mode s = ''add'' \<and> js_bool location_provider
     then show_provider (if js_bool (field location_provider ''userMapping'') then None else Some ''defaultUserMapping'')
            location_provider
     else send (GetRecord ''get-provider'' (ed_owner s) (ed_name s)))"

definition providerReceived :: "reply \<Rightarrow> act" where [page_defs]:
  "providerReceived = then_only (receive_found (\<lambda>res. when_ok res
     (show_provider (mapping_source (an_data res)) (an_data res)) (showMessage ''error'' (an_msg res))))"

definition parseProviderField :: "string \<Rightarrow> jsval \<Rightarrow> jsval" where
  "parseProviderField = parse_ints [''port'']"

definition wechat_rules :: act where [page_defs]:
  "wechat_rules =
     steps [with_field ''clientId'' (\<lambda>c. if js_bool c then no_act
              else steps [put_field ''signName'' (JStr ''media''), put_field ''disableSsl'' (JBool True)]),
            with_field ''clientId2'' (\<lambda>c. if js_bool c then no_act
              else steps [put_field ''signName'' (JStr ''open''), put_field ''disableSsl'' (JBool False)]),
            with_field ''disableSsl'' (\<lambda>d. if js_bool d then no_act else put_field ''signName'' (JStr ''open''))]"

definition updateProviderField :: "string \<Rightarrow> jsval \<Rightarrow> act" where [page_defs]:
  "updateProviderField k v0 =
     (let v = parseProviderField k v0 in steps [
        if k = ''owner'' then with_field ''owner'' (\<lambda>w.
          if w \<noteq> v then steps [put_field ''cert'' (JStr []),
            with_state (\<lambda>s. if field (ed_object s) ''category'' = JStr ''Log'' \<and> field (ed_object s) ''type'' = JStr ''Agent''
                \<and> field (ed_object s) ''subType'' = JStr ''OpenClaw''
              then put_field ''providerUrl'' (JStr []) else no_act),
            send (Request ''get-providers'' [v]), send (Request ''get-certs'' [v])] else no_act)
        else no_act,
        put_field k v,
        with_field ''type'' (\<lambda>t. if t = JStr ''WeChat'' then wechat_rules else no_act)])"

text \<open>
  \<open>provider.userMapping[key] = value\<close> and \<open>delete provider.userMapping[key]\<close> change the object that the
  mapping is, the module's one when it is shared.
\<close>

definition write_mapping :: "jsval \<Rightarrow> act" where [page_defs]:
  "write_mapping m = steps [put_field ''userMapping'' m,
     with_state (\<lambda>s. case ed_more s ''mappingRef'' of JStr c \<Rightarrow> set_more c m | _ \<Rightarrow> no_act)]"

definition updateUserMappingField :: "string \<Rightarrow> jsval \<Rightarrow> act" where [page_defs]:
  "updateUserMappingField k v =
     with_field ''type'' (\<lambda>t. with_field ''userMapping'' (\<lambda>m.
       if v = JStr [] \<and> (t = JStr ''Custom HTTP Email'' \<or> k \<in> set [''id'', ''username'', ''displayName''])
       then showMessage ''error'' ''provider:This field is required''
       else if v = JStr [] then write_mapping (js_delete m k)
       else (case js_set m k v of
               Return m' \<Rightarrow> write_mapping m'
             | Throw e \<Rightarrow> (raise e))))"

definition submitProviderEdit :: "bool \<Rightarrow> act" where [page_defs]:
  "submitProviderEdit exitAfterSave = with_state (\<lambda>s.
     let provider = deepCopy (ed_object s) in
     if ed_mode s = ''add'' then send (AddRecord ''add-provider'' provider)
     else send (UpdateRecord ''update-provider'' (ed_owner s) (ed_name s) provider))"

text \<open>The flag tells whether the page was in mode \<open>add\<close> when the save was sent.\<close>

definition providerSaved :: "bool \<Rightarrow> bool \<Rightarrow> reply \<Rightarrow> act" where [page_defs]:
  "providerSaved isAdd exitAfterSave =
     then_catch (\<lambda>res. when_ok res
       (steps [saved_message, hold_owner, hold_name, change (\<lambda>s. s\<lparr>ed_mode := ''edit''\<rparr>),
               if exitAfterSave then leave_to ''/providers'' else stay_at_record ''/providers''])
       (steps [save_failed res, if isAdd then no_act else revert_name updateProviderField]))
     failed_to_connect"

definition deleteProvider :: act where [page_defs]:
  "deleteProvider = leave_to ''/providers''"

definition getProviderSubTypeOptions :: "string \<Rightarrow> string list" where
  "getProviderSubTypeOptions type =
     (if type = ''Agent'' then [''OpenClaw'']
      else if type = ''Security Scan'' then [''Site'', ''Url'']
      else if type = ''MCP Scan'' then [''Intranet Scan'']
      else if type = ''WeCom'' \<or> type = ''Infoflow'' then [''Internal'', ''Third-party'']
      else if type = ''WeChat'' then [''Web'', ''Mobile'']
      else [])"

end
