(* ===== verification/Gateway_Pages.thy ===== *)
theory Gateway_Pages
  imports Edit_Page
begin

text \<open>
  The edit pages of agents, entries, MCP servers, sites and rules. They read their record again after
  a save.
\<close>

definition known_owner :: "edit \<Rightarrow> jsval" where [page_defs]:
  "known_owner s = (let w = field (ed_object s) ''owner'' in if js_bool w then w else ed_owner s)"

section \<open>Agent: \<open>AgentEditPage.js\<close>\<close>

text \<open>\<open>this.state.agent?.owner || this.state.owner\<close>.\<close>

definition getAgent :: act where [page_defs]:
  "getAgent = with_state (\<lambda>s.
     send (GetRecord ''get-agent'' (known_owner s) (ed_name s)))"

definition agentReceived :: "reply \<Rightarrow> act" where [page_defs]:
  "agentReceived = then_only (receive_found (\<lambda>res. when_ok res (keep_data res)
     (showMessage ''error'' (''general:Failed to get: '' @ an_msg res))))"

definition updateAgentField :: "string \<Rightarrow> jsval \<Rightarrow> act" where [page_defs]:
  "updateAgentField k v = steps [
     if k = ''owner'' then with_field ''owner'' (\<lambda>w.
       if w \<noteq> v then steps [put_field ''application'' (JStr []),
         send (Request ''get-organization-applications'' [JStr ''admin'', v])] else no_act)
     else no_act,
     put_field k v]"

definition submitAgentEdit :: "bool \<Rightarrow> act" where [page_defs]:
  "submitAgentEdit willExit =
     with_state (\<lambda>s. send (UpdateRecord ''update-agent'' (ed_owner s) (ed_name s) (deepCopy (ed_object s))))"

text \<open>The copy that was sent is at hand; the request is the callback of \<open>setState\<close>.\<close>

definition agentSaved :: "jsval \<Rightarrow> bool \<Rightarrow> reply \<Rightarrow> act" where [page_defs]:
  "agentSaved agent willExit =
     then_catch (\<lambda>res. when_ok res
       (steps [showMessage ''success'' ''general:Successfully modified'',
               if willExit then leave_to ''/agents''
               else steps [
                 stay_at (''/agents/'' @ js_text (field agent ''owner'') @ ''/'' @ js_text (field agent ''name'')),
                 change (\<lambda>s. s\<lparr>ed_mode := ''edit'', ed_owner := field agent ''owner'', ed_name := field agent ''name''\<rparr>),
                 getAgent]])
       (showMessage ''error'' (''general:Failed to update: '' @ an_msg res)))
     failed_to_connect"

definition deleteAgent :: act where [page_defs]:
  "deleteAgent = with_state (\<lambda>s. send (DeleteRecord ''delete-agent'' (ed_object s)))"

definition agentDeleted :: "reply \<Rightarrow> act" where [page_defs]:
  "agentDeleted =
     after_delete (steps [showMessage ''success'' ''general:Successfully deleted'', leave_to ''/agents''])"

section \<open>Entry: \<open>EntryEditPage.js\<close>\<close>

text \<open>\<open>this.state.entry?.owner || this.state.owner\<close>.\<close>

definition getEntry :: act where [page_defs]:
  "getEntry = with_state (\<lambda>s.
     send (GetRecord ''get-entry'' (known_owner s) (ed_name s)))"

definition entryReceived :: "reply \<Rightarrow> act" where [page_defs]:
  "entryReceived = then_only (receive_found (\<lambda>res. when_ok res (keep_data res)
     (showMessage ''error'' (''general:Failed to get: '' @ an_msg res))))"

definition updateEntryField :: "string \<Rightarrow> jsval \<Rightarrow> act" where [page_defs]:
  "updateEntryField k v = put_field k v"

definition isNonEmptyEntryField :: "jsval \<Rightarrow> bool" where
  "isNonEmptyEntryField v = (if v = JUndefined \<or> v = JNull then False else js_trim (js_text v) \<noteq> [])"

definition submitEntryEdit :: "bool \<Rightarrow> act" where [page_defs]:
  "submitEntryEdit willExit =
     with_state (\<lambda>s. send (UpdateRecord ''update-entry'' (ed_owner s) (ed_name s) (deepCopy (ed_object s))))"

text \<open>The copy that was sent is at hand; the request is the callback of \<open>setState\<close>.\<close>

definition entrySaved :: "jsval \<Rightarrow> bool \<Rightarrow> reply \<Rightarrow> act" where [page_defs]:
  "entrySaved entry willExit =
     then_catch (\<lambda>res. when_ok res
       (steps [showMessage ''success'' ''general:Successfully modified'',
               if willExit then leave_to ''/entries''
               else steps [
                 stay_at (''/entries/'' @ js_text (field entry ''owner'') @ ''/'' @ js_text (field entry ''name'')),
                 change (\<lambda>s. s\<lparr>ed_mode := ''edit'', ed_owner := field entry ''owner'', ed_name := field entry ''name''\<rparr>),
                 getEntry]])
       (showMessage ''error'' (''general:Failed to update: '' @ an_msg res)))
     failed_to_connect"

definition deleteEntry :: act where [page_defs]:
  "deleteEntry = with_state (\<lambda>s. send (DeleteRecord ''delete-entry'' (ed_object s)))"

definition entryDeleted :: "reply \<Rightarrow> act" where [page_defs]:
  "entryDeleted =
     after_delete (steps [showMessage ''success'' ''general:Successfully deleted'', leave_to ''/entries''])"

section \<open>Server: \<open>ServerEditPage.js\<close>\<close>

text \<open>\<open>this.state.server?.owner || this.state.owner\<close>.\<close>

definition getServer :: act where [page_defs]:
  "getServer = with_state (\<lambda>s.
     send (GetRecord ''get-server'' (known_owner s) (ed_name s)))"

definition serverReceived :: "reply \<Rightarrow> act" where [page_defs]:
  "serverReceived = then_only (receive_found (\<lambda>res. when_ok res (keep_data res)
     (showMessage ''error'' (''general:Failed to get: '' @ an_msg res))))"

definition updateServerField :: "string \<Rightarrow> jsval \<Rightarrow> act" where [page_defs]:
  "updateServerField k v = steps [
     if k = ''owner'' then with_field ''owner'' (\<lambda>w.
       if w \<noteq> v then steps [put_field ''application'' (JStr []),
         send (Request ''get-organization-applications'' [JStr ''admin'', v])] else no_act)
     else no_act,
     put_field k v]"

definition submitServerEdit :: "bool \<Rightarrow> act" where [page_defs]:
  "submitServerEdit willExit =
     with_state (\<lambda>s. send (UpdateRecord ''update-server'' (ed_owner s) (ed_name s) (deepCopy (ed_object s))))"

text \<open>The copy that was sent is at hand; the request is the callback of \<open>setState\<close>.\<close>

definition serverSaved :: "jsval \<Rightarrow> bool \<Rightarrow> reply \<Rightarrow> act" where [page_defs]:
  "serverSaved server willExit =
     then_catch (\<lambda>res. when_ok res
       (steps [showMessage ''success'' ''general:Successfully modified'',
               if willExit then leave_to ''/servers''
               else steps [
                 stay_at (''/servers/'' @ js_text (field server ''owner'') @ ''/'' @ js_text (field server ''name'')),
                 change (\<lambda>s. s\<lparr>ed_mode := ''edit'', ed_owner := field server ''owner'', ed_name := field server ''name''\<rparr>),
                 getServer]])
       (showMessage ''error'' (''general:Failed to update: '' @ an_msg res)))
     failed_to_connect"

text \<open>The tools of an MCP server are read or cleared, and the record is read again.\<close>

definition syncMcpTool :: act where [page_defs]:
  "syncMcpTool = with_state (\<lambda>s.
     send (Request ''sync-mcp-tool'' [ed_owner s, ed_name s, deepCopy (ed_object s), JBool False]))"

definition clearMcpTool :: act where [page_defs]:
  "clearMcpTool = with_state (\<lambda>s.
     send (Request ''sync-mcp-tool'' [ed_owner s, ed_name s, deepCopy (ed_object s), JBool True]))"

definition mcpToolSynced :: "reply \<Rightarrow> act" where [page_defs]:
  "mcpToolSynced =
     then_catch (\<lambda>res. when_ok res
       (steps [showMessage ''success'' ''general:Successfully modified'', getServer])
       (showMessage ''error'' (''general:Failed to update: '' @ an_msg res)))
     failed_to_connect"

definition deleteServer :: act where [page_defs]:
  "deleteServer = with_state (\<lambda>s. send (DeleteRecord ''delete-server'' (ed_object s)))"

definition serverDeleted :: "reply \<Rightarrow> act" where [page_defs]:
  "serverDeleted =
     after_delete (steps [showMessage ''success'' ''general:Successfully deleted'', leave_to ''/servers''])"

section \<open>Sites: \<open>SiteEditPage.js\<close>\<close>

definition getSite :: act where [page_defs]:
  "getSite = with_state (\<lambda>s.
     send (GetRecord ''get-site'' (known_owner s) (ed_name s)))"

definition siteReceived :: "reply \<Rightarrow> act" where [page_defs]:
  "siteReceived = then_only (\<lambda>res. when_ok res (keep_data res)
     (showMessage ''error'' (''Failed to get site: '' @ an_msg res)))"

definition parseSiteField :: "string \<Rightarrow> jsval \<Rightarrow> jsval" where
  "parseSiteField = parse_ints [''score'']"

definition updateSiteField :: "string \<Rightarrow> jsval \<Rightarrow> act" where [page_defs]:
  "updateSiteField k v = put_field k (parseSiteField k v)"

definition submitSiteEdit :: act where [page_defs]:
  "submitSiteEdit =
     with_state (\<lambda>s. send (UpdateRecord ''update-site'' (ed_owner s) (ed_name s) (deepCopy (ed_object s))))"

text \<open>\<open>getSite()\<close> runs before \<open>setState\<close> takes effect: it asks for the name that was held before.\<close>

definition siteSaved :: "reply \<Rightarrow> act" where [page_defs]:
  "siteSaved =
     then_catch (\<lambda>res. if an_status res = ''error''
       then steps [showMessage ''error'' (''Failed to save: '' @ an_msg res), revert_name updateSiteField]
       else steps [
         showMessage ''success'' ''Successfully saved'',
         stay_at_record ''/sites'',
         getSite, hold_owner, hold_name])
     (\<lambda>err. showMessage ''error'' (''failed to save: '' @ err))"

section \<open>Rules: \<open>RuleEditPage.js\<close>\<close>

definition getRule :: act where [page_defs]:
  "getRule = with_state (\<lambda>s. send (GetRecord ''get-rule'' (ed_owner s) (ed_name s)))"

definition ruleReceived :: "reply \<Rightarrow> act" where [page_defs]:
  "ruleReceived = then_only keep_data"

definition rule_with :: "string \<Rightarrow> jsval \<Rightarrow> jsval \<Rightarrow> jsval result" where
  "rule_with k v rule =
     bind_result (js_set (deepCopy rule) k v)
       (\<lambda>r. if k = ''type'' then js_set r ''expressions'' (JArr []) else Return r)"

definition updateRuleField :: "string \<Rightarrow> jsval \<Rightarrow> act" where [page_defs]:
  "updateRuleField k v s =
     (case rule_with k v (ed_object s) of Return r \<Rightarrow> hold_object r s | Throw e \<Rightarrow> (s, Some e))"

text \<open>
  \<open>rule.expressions[index][key] = value\<close>; an index outside the list reads \<open>undefined\<close> and throws. The
  second \<open>setState\<close> wins.
\<close>

definition updateRuleFieldInExpressions :: "nat \<Rightarrow> string \<Rightarrow> jsval \<Rightarrow> act" where [page_defs]:
  "updateRuleFieldInExpressions index k v s =
     (case field (deepCopy (ed_object s)) ''expressions'' of
        JArr xs \<Rightarrow>
          (case bind_result (js_set (js_at xs (int index)) k v)
                  (\<lambda>e. js_set (deepCopy (ed_object s)) ''expressions'' (JArr (js_put xs index e))) of
             Return r \<Rightarrow> hold_object r s
           | Throw e \<Rightarrow> (s, Some e))
      | _ \<Rightarrow> (s, Some TypeError))"

definition submitRuleEdit :: act where [page_defs]:
  "submitRuleEdit =
     with_state (\<lambda>s. send (UpdateRecord ''update-rule'' (ed_owner s) (ed_name s) (deepCopy (ed_object s))))"

text \<open>There is no \<open>catch\<close>; \<open>getRule()\<close> asks for the name held before.\<close>

definition ruleSaved :: "jsval \<Rightarrow> reply \<Rightarrow> act" where [page_defs]:
  "ruleSaved rule =
     then_only (\<lambda>res. if an_status res \<noteq> ''error''
       then steps [showMessage ''success'' ''Rule updated successfully'', hold_object rule]
       else steps [
         showMessage ''error'' (''Rule failed to update: '' @ an_msg res),
         stay_at_record ''/rules'',
         getRule, hold_name])"

end
