(* ===== verification/Edit_Runs.thy ===== *)
theory Edit_Runs
  imports Identity_Pages Shop_Pages Resource_Pages Gateway_Pages
begin

text \<open>
  An edit page and the server take turns: fields are edited, a save is sent and answered, and the
  record is read again where the page does so. The server keeps one record; an update reaches it when
  its address is the owner and the name of the record, and an update of any other address is answered
  with \<open>ok\<close> and changes nothing (\<open>wrapActionResponse\<close> in \<open>controllers/base.go\<close> answers \<open>Unaffected\<close> with
  that status). The server may refuse a save, or the request may get lost before it reaches the
  server.
\<close>

section \<open>The interface of a page\<close>

text \<open>
  The state in which the save was sent and the copy that was sent are at hand in the continuation of
  a save.
\<close>

record page_ops =
  op_update :: "nat \<Rightarrow> string \<Rightarrow> jsval \<Rightarrow> act"
  op_submit :: "bool \<Rightarrow> act"
  op_saved :: "edit \<Rightarrow> jsval \<Rightarrow> bool \<Rightarrow> reply \<Rightarrow> act"
  op_received :: "reply \<Rightarrow> act"

definition after :: "act \<Rightarrow> edit \<Rightarrow> edit" where
  "after a s = fst (a s)"

abbreviation submitted :: "page_ops \<Rightarrow> bool \<Rightarrow> edit \<Rightarrow> edit" where
  "submitted ops exit s \<equiv> after (op_submit ops exit) s"

fun sent_of :: "edit_effect \<Rightarrow> api_call list" where
  "sent_of (Send c) = [c]"
| "sent_of _ = []"

definition calls :: "edit \<Rightarrow> edit \<Rightarrow> api_call list" where
  "calls s t = concat (map sent_of (drop (length (ed_effects s)) (ed_effects t)))"

fun is_save :: "api_call \<Rightarrow> bool" where
  "is_save (UpdateRecord api w n body) = True"
| "is_save (AddRecord api body) = True"
| "is_save _ = False"

fun is_get :: "api_call \<Rightarrow> bool" where
  "is_get (GetRecord api w n) = True"
| "is_get _ = False"

fun body_of :: "api_call \<Rightarrow> jsval" where
  "body_of (UpdateRecord api w n body) = body"
| "body_of (AddRecord api body) = body"
| "body_of _ = JUndefined"

section \<open>The server\<close>

datatype verdict = Accept | Refuse string | Drop string

definition key_of :: "jsval \<Rightarrow> jsval \<times> jsval" where
  "key_of rec = (field rec ''owner'', field rec ''name'')"

text \<open>Whether an accepted save changes the record.\<close>

fun reaches :: "api_call \<Rightarrow> jsval \<Rightarrow> bool" where
  "reaches (UpdateRecord api w n body) rec = ((w, n) = key_of rec)"
| "reaches (AddRecord api body) rec = True"
| "reaches _ rec = False"

definition server_reply :: "verdict \<Rightarrow> api_call \<Rightarrow> jsval \<Rightarrow> reply" where
  "server_reply verdict c rec =
     (case verdict of
        Accept \<Rightarrow> Reply \<lparr>an_status = ''ok'', an_msg = [],
          an_data = JStr (if reaches c rec then ''Affected'' else ''Unaffected'')\<rparr>
      | Refuse msg \<Rightarrow> Reply \<lparr>an_status = ''error'', an_msg = msg, an_data = JNull\<rparr>
      | Drop err \<Rightarrow> Lost err)"

definition server_stores :: "verdict \<Rightarrow> api_call \<Rightarrow> jsval \<Rightarrow> jsval" where
  "server_stores verdict c rec = (if verdict = Accept \<and> reaches c rec then body_of c else rec)"

definition server_finds :: "api_call \<Rightarrow> jsval \<Rightarrow> reply" where
  "server_finds c rec =
     Reply \<lparr>an_status = ''ok'', an_msg = [],
       an_data = (case c of GetRecord api w n \<Rightarrow> if (w, n) = key_of rec then rec else JNull | _ \<Rightarrow> JNull)\<rparr>"

section \<open>Rounds\<close>

record edit_run =
  run_page :: edit
  run_stored :: jsval
  run_acked :: "jsval list"

datatype round = EditField nat string jsval | Save bool verdict

text \<open>The answer to a save, and the answer to the request for the record that it may lead to.\<close>

definition settle_save :: "page_ops \<Rightarrow> edit \<Rightarrow> api_call \<Rightarrow> bool \<Rightarrow> verdict \<Rightarrow> jsval \<Rightarrow> edit \<Rightarrow> edit" where
  "settle_save ops before c exit verdict rec s =
     (let s' = after (op_saved ops before (body_of c) exit (server_reply verdict c rec)) s in
      case filter is_get (calls s s') of
        [] \<Rightarrow> s'
      | g # _ \<Rightarrow> after (op_received ops (server_finds g (server_stores verdict c rec))) s')"

definition run_round :: "page_ops \<Rightarrow> edit_run \<Rightarrow> round \<Rightarrow> edit_run" where
  "run_round ops r ev =
     (let s = run_page r in
      if \<not> ed_open s then r
      else case ev of
        EditField i k v \<Rightarrow> r\<lparr>run_page := after (op_update ops i k v) s\<rparr>
      | Save exit verdict \<Rightarrow>
          (let s1 = submitted ops exit s in
           case filter is_save (calls s s1) of
             [] \<Rightarrow> r\<lparr>run_page := s1\<rparr>
           | c # _ \<Rightarrow>
               r\<lparr>run_page := settle_save ops s c exit verdict (run_stored r) s1,
                 run_stored := server_stores verdict c (run_stored r),
                 run_acked := run_acked r @ (if verdict = Accept then [body_of c] else [])\<rparr>))"

definition run_rounds :: "page_ops \<Rightarrow> round list \<Rightarrow> edit_run \<Rightarrow> edit_run" where
  "run_rounds ops evs r = foldl (run_round ops) r evs"

definition start_run :: "edit \<Rightarrow> jsval \<Rightarrow> edit_run" where
  "start_run s rec = \<lparr>run_page = s, run_stored = rec, run_acked = []\<rparr>"

text \<open>No round of the list edits one of the given fields.\<close>

definition leaves_alone :: "string list \<Rightarrow> round list \<Rightarrow> bool" where
  "leaves_alone keys evs = list_all (\<lambda>ev. case ev of EditField i k v \<Rightarrow> k \<notin> set keys | Save exit verdict \<Rightarrow> True) evs"

lemma run_rounds_simps [simp]:
  "run_rounds ops [] r = r"
  "run_rounds ops (ev # evs) r = run_rounds ops evs (run_round ops r ev)"
  by (simp_all add: run_rounds_def)

lemma leaves_alone_simps [simp]:
  "leaves_alone keys []"
  "leaves_alone keys (EditField i k v # evs) \<longleftrightarrow> k \<notin> set keys \<and> leaves_alone keys evs"
  "leaves_alone keys (Save exit verdict # evs) \<longleftrightarrow> leaves_alone keys evs"
  by (simp_all add: leaves_alone_def)

lemma run_round_closed: "\<not> ed_open (run_page r) \<Longrightarrow> run_round ops r ev = r"
  by (simp add: run_round_def Let_def)

lemma run_round_sent:
  assumes "ed_open (run_page r)" "filter is_save (calls (run_page r) (submitted ops exit (run_page r))) = c # rest"
  shows "run_page (run_round ops r (Save exit verdict))
      = settle_save ops (run_page r) c exit verdict (run_stored r) (submitted ops exit (run_page r))"
    and "run_stored (run_round ops r (Save exit verdict)) = server_stores verdict c (run_stored r)"
    and "run_acked (run_round ops r (Save exit verdict)) = run_acked r @ (if verdict = Accept then [body_of c] else [])"
  using assms by (simp_all add: run_round_def Let_def)

lemma filter_save_mem: "filter is_save cs = c # rest \<Longrightarrow> c \<in> set cs \<and> is_save c"
  by (auto simp: filter_eq_Cons_iff)

section \<open>The contract of a page\<close>

text \<open>
  A page keeps an invariant \<open>inv\<close> between its state and the record of the server: editing a field other
  than the frozen ones keeps it, a save that it sends reaches the record, and after the answer the
  invariant holds with the record the server then has, unless the page is left.
\<close>

locale saving_page =
  fixes ops :: page_ops
    and frozen :: "string list"
    and inv :: "edit \<Rightarrow> jsval \<Rightarrow> bool"
  assumes update_inv: "inv s rec \<Longrightarrow> k \<notin> set frozen \<Longrightarrow> inv (after (op_update ops i k v) s) rec"
    and submit_inv: "inv s rec \<Longrightarrow> inv (submitted ops exit s) rec"
    and submit_reaches: "inv s rec \<Longrightarrow> c \<in> set (calls s (submitted ops exit s)) \<Longrightarrow> is_save c
      \<Longrightarrow> reaches c rec"
    and settle_inv: "inv s rec \<Longrightarrow> c \<in> set (calls s (submitted ops exit s)) \<Longrightarrow> is_save c
      \<Longrightarrow> ed_open (settle_save ops s c exit verdict rec (submitted ops exit s))
      \<Longrightarrow> inv (settle_save ops s c exit verdict rec (submitted ops exit s)) (server_stores verdict c rec)"
begin

definition in_step :: "jsval \<Rightarrow> edit_run \<Rightarrow> bool" where
  "in_step rec r \<longleftrightarrow> (ed_open (run_page r) \<longrightarrow> inv (run_page r) (run_stored r))
     \<and> run_stored r = last (rec # run_acked r)"

lemma save_in_step:
  assumes "in_step rec r"
  shows "in_step rec (run_round ops r (Save exit verdict))"
proof (cases "ed_open (run_page r)")
  case True
  let ?s = "run_page r" and ?s1 = "submitted ops exit (run_page r)"
  have inv: "inv ?s (run_stored r)" using assms True unfolding in_step_def by blast
  show ?thesis
  proof (cases "filter is_save (calls ?s ?s1)")
    case Nil
    then show ?thesis using assms inv True
      by (simp add: in_step_def run_round_def Let_def submit_inv)
  next
    case (Cons c rest)
    have c: "c \<in> set (calls ?s ?s1)" "is_save c" using filter_save_mem [OF Cons] by simp_all
    have hit: "reaches c (run_stored r)" by (rule submit_reaches [OF inv c])
    have "server_stores verdict c (run_stored r)
        = last (rec # run_acked r @ (if verdict = Accept then [body_of c] else []))"
      using hit assms unfolding in_step_def server_stores_def by (cases verdict) simp_all
    then show ?thesis
      unfolding in_step_def run_round_sent [OF True Cons]
      using settle_inv [OF inv c, of verdict] by blast
  qed
next
  case False
  then show ?thesis using assms by (simp add: run_round_closed)
qed

lemma edit_in_step:
  assumes "in_step rec r" "k \<notin> set frozen"
  shows "in_step rec (run_round ops r (EditField i k v))"
  using assms update_inv by (auto simp: in_step_def run_round_def Let_def)

lemma run_in_step:
  "in_step rec r \<Longrightarrow> leaves_alone frozen evs \<Longrightarrow> in_step rec (run_rounds ops evs r)"
proof (induction evs arbitrary: r)
  case (Cons ev evs)
  then show ?case by (cases ev) (auto intro: edit_in_step save_in_step)
qed simp

text \<open>
  As long as the frozen fields are left alone, the record of the server is the one of the last save
  that was reported as successful.
\<close>

lemma stored_is_last_acknowledged:
  assumes "inv s rec" "leaves_alone frozen evs"
  shows "run_stored (run_rounds ops evs (start_run s rec))
    = last (rec # run_acked (run_rounds ops evs (start_run s rec)))"
proof -
  have "in_step rec (start_run s rec)" using assms(1) by (simp add: in_step_def start_run_def)
  then show ?thesis using run_in_step assms(2) by (auto simp: in_step_def)
qed

lemma open_page_in_step:
  assumes "inv s rec" "leaves_alone frozen evs"
    and "ed_open (run_page (run_rounds ops evs (start_run s rec)))"
  shows "inv (run_page (run_rounds ops evs (start_run s rec))) (run_stored (run_rounds ops evs (start_run s rec)))"
proof -
  have "in_step rec (start_run s rec)" using assms(1) by (simp add: in_step_def start_run_def)
  then have "in_step rec (run_rounds ops evs (start_run s rec))" using run_in_step assms(2) by auto
  then show ?thesis using assms(3) unfolding in_step_def by blast
qed

end

end
