(* ===== verification/Edit_Rules.thy ===== *)
theory Edit_Rules
  imports Edit_Runs
begin

text \<open>
  Every edit page keeps the contract of \<open>saving_page\<close>, with the fields that must not be edited for it:
  none on the pages that follow a new owner and a new name, the owner on the pages that follow a new
  name only, both on the pages of sites and rules.
\<close>

section \<open>What a page knows of the record\<close>

definition obj_put :: "jsval \<Rightarrow> string \<Rightarrow> jsval \<Rightarrow> jsval" where
  "obj_put v k x = (case v of JObj ps \<Rightarrow> JObj (AList.update k x ps) | _ \<Rightarrow> v)"

lemma js_set_put: "is_obj v \<Longrightarrow> js_set v k x = Return (obj_put v k x)"
  by (erule is_objE) (simp add: obj_put_def)

lemma obj_put_simps [simp]:
  "is_obj (obj_put v k x) = is_obj v"
  "is_obj v \<Longrightarrow> field (obj_put v k x) k' = (if k' = k then x else field v k')"
  by (cases v; simp add: obj_put_def)+

lemma is_obj_not_null: "is_obj v \<Longrightarrow> v \<noteq> JNull"
  by auto

text \<open>The held address is that of the record, and what the edited record adds to it.\<close>

definition held :: "edit \<Rightarrow> jsval \<Rightarrow> bool" where
  "held s rec = (is_obj (ed_object s) \<and> ed_owner s = field rec ''owner'' \<and> ed_name s = field rec ''name'')"

definition held_owner :: "edit \<Rightarrow> jsval \<Rightarrow> bool" where
  "held_owner s rec = (held s rec \<and> field (ed_object s) ''owner'' = field rec ''owner'')"

definition held_key :: "edit \<Rightarrow> jsval \<Rightarrow> bool" where
  "held_key s rec = (held_owner s rec \<and> is_obj rec \<and> field (ed_object s) ''name'' = field rec ''name'')"

definition held_in_record :: "edit \<Rightarrow> jsval \<Rightarrow> bool" where
  "held_in_record s rec =
     (is_obj (ed_object s) \<and> field (ed_object s) ''owner'' = field rec ''owner'' \<and> ed_name s = field rec ''name'')"

definition held_admin :: "edit \<Rightarrow> jsval \<Rightarrow> bool" where
  "held_admin s rec = (held_in_record s rec \<and> field rec ''owner'' = JStr ''admin'')"

lemmas held_defs = held_admin_def held_in_record_def held_key_def held_owner_def held_def

text \<open>A save that a page sends: it reaches the record, and carries the owner and the name as edited.\<close>

definition saves :: "edit \<Rightarrow> jsval \<Rightarrow> api_call \<Rightarrow> bool" where
  "saves s rec c \<longleftrightarrow> is_save c \<and> reaches c rec \<and> is_obj (body_of c) \<and> key_of (body_of c) = key_of (ed_object s)"

section \<open>Actions that keep a property of the state\<close>

definition keeps :: "(edit \<Rightarrow> bool) \<Rightarrow> act \<Rightarrow> bool" where
  "keeps I a \<longleftrightarrow> (\<forall>s. I s \<longrightarrow> I (fst (a s)))"

named_theorems keeps_rules \<open>composition of actions that keep a property\<close>

lemma keeps_steps [keeps_rules]: "list_all (keeps I) acts \<Longrightarrow> keeps I (steps acts)"
proof (induction acts)
  case (Cons a acts)
  show ?case unfolding keeps_def
  proof (intro allI impI)
    fix s assume "I s"
    with Cons.prems have "I (fst (a s))" by (simp add: keeps_def)
    moreover obtain t e where "a s = (t, e)" by fastforce
    ultimately show "I (fst (steps (a # acts) s))"
      using Cons by (cases e) (simp_all add: keeps_def)
  qed
qed (simp add: keeps_def)

lemma keeps_no_act [keeps_rules]: "keeps I no_act"
  by (simp add: keeps_def no_act_def)

lemma keeps_raise [keeps_rules]: "keeps I (raise e)"
  by (simp add: keeps_def raise_def)

lemma keeps_with_state [keeps_rules]: "(\<And>t. keeps I (f t)) \<Longrightarrow> keeps I (with_state f)"
  by (simp add: keeps_def with_state_def)

lemma keeps_with_field [keeps_rules]: "(\<And>v. keeps I (f v)) \<Longrightarrow> keeps I (with_field k f)"
  by (simp add: keeps_def with_field_def split: sum.split)

lemma keeps_if [keeps_rules]: "(b \<Longrightarrow> keeps I a) \<Longrightarrow> (\<not> b \<Longrightarrow> keeps I a') \<Longrightarrow> keeps I (if b then a else a')"
  by simp

lemma keeps_catch [keeps_rules]: "keeps I a \<Longrightarrow> (\<And>e. keeps I (h e)) \<Longrightarrow> keeps I (catch a h)"
  by (auto simp: keeps_def catch_def dest: spec split: prod.split option.split)

lemma keeps_then_catch [keeps_rules]:
  "(\<And>res. r = Reply res \<Longrightarrow> keeps I (h res)) \<Longrightarrow> (\<And>err. keeps I (report err)) \<Longrightarrow> keeps I (then_catch h report r)"
  unfolding then_catch_def by (cases r) (auto intro: keeps_catch)

lemma keeps_then_only [keeps_rules]: "(\<And>res. r = Reply res \<Longrightarrow> keeps I (h res)) \<Longrightarrow> keeps I (then_only h r)"
  unfolding then_only_def by (cases r) (auto intro: keeps_no_act)

lemma keeps_when_ok [keeps_rules]:
  "(an_status res = ''ok'' \<Longrightarrow> keeps I a) \<Longrightarrow> (an_status res \<noteq> ''ok'' \<Longrightarrow> keeps I b) \<Longrightarrow> keeps I (when_ok res a b)"
  by (simp add: when_ok_def)

lemma keeps_change: "(\<And>s. I s \<Longrightarrow> I (f s)) \<Longrightarrow> keeps I (change f)"
  by (simp add: keeps_def change_def)

lemma keeps_put:
  "(\<And>s w. I s \<Longrightarrow> js_set (ed_object s) k v = Return w \<Longrightarrow> I (s\<lparr>ed_object := w\<rparr>)) \<Longrightarrow> keeps I (put_field k v)"
  by (auto simp: keeps_def put_field_def split: sum.split)

lemma keeps_and: "keeps I a \<Longrightarrow> keeps J a \<Longrightarrow> keeps (\<lambda>s. I s \<and> J s) a"
  by (simp add: keeps_def)

text \<open>No request for a record is sent since the effects were \<open>pre\<close>.\<close>

definition quiet :: "edit_effect list \<Rightarrow> edit \<Rightarrow> bool" where
  "quiet pre s \<longleftrightarrow> (\<exists>es. ed_effects s = pre @ es \<and> list_all (\<lambda>e. \<not> list_ex is_get (sent_of e)) es)"

lemma quiet_simps [simp]:
  "quiet pre (s\<lparr>ed_object := w\<rparr>) = quiet pre s" "quiet pre (s\<lparr>ed_name := n\<rparr>) = quiet pre s"
  "quiet pre (s\<lparr>ed_owner := n\<rparr>) = quiet pre s" "quiet pre (s\<lparr>ed_mode := m\<rparr>) = quiet pre s"
  "quiet pre (s\<lparr>ed_open := b\<rparr>) = quiet pre s" "quiet pre (s\<lparr>ed_more := f\<rparr>) = quiet pre s"
  "quiet pre (s\<lparr>ed_session := g\<rparr>) = quiet pre s"
  by (simp_all add: quiet_def)

lemma quiet_snoc [simp]:
  "quiet pre s \<Longrightarrow> \<not> list_ex is_get (sent_of e) \<Longrightarrow> quiet pre (s\<lparr>ed_effects := ed_effects s @ [e]\<rparr>)"
  unfolding quiet_def by auto

lemma quiet_start: "quiet (ed_effects s) s"
  by (simp add: quiet_def)

lemma quiet_no_gets: "quiet (ed_effects s) t \<Longrightarrow> filter is_get (calls s t) = []"
  unfolding quiet_def calls_def by (auto simp: filter_empty_conv list_all_iff list_ex_iff)

text \<open>A save that is refused or lost.\<close>

lemma settle_failed:
  fixes inv :: "edit \<Rightarrow> jsval \<Rightarrow> bool"
  assumes inv: "inv s rec" and "verdict \<noteq> Accept"
    and refused: "\<And>I msg. I = (\<lambda>s. inv s rec) \<or> I = quiet (ed_effects s) \<Longrightarrow>
      keeps I (op_saved ops before (body_of c) exit (Reply \<lparr>an_status = ''error'', an_msg = msg, an_data = JNull\<rparr>))"
    and lost: "\<And>I err. I = (\<lambda>s. inv s rec) \<or> I = quiet (ed_effects s) \<Longrightarrow>
      keeps I (op_saved ops before (body_of c) exit (Lost err))"
  shows "inv (settle_save ops before c exit verdict rec s) rec"
proof -
  let ?t = "after (op_saved ops before (body_of c) exit (server_reply verdict c rec)) s"
  have kept: "I ?t" if "I s" "I = (\<lambda>s. inv s rec) \<or> I = quiet (ed_effects s)" for I
    using that assms(2) refused [OF that(2)] lost [OF that(2)]
    by (cases verdict) (auto simp: server_reply_def after_def keeps_def)
  from kept [of "\<lambda>s. inv s rec"] kept [of "quiet (ed_effects s)"]
  have "inv ?t rec" "quiet (ed_effects s) ?t" using inv quiet_start by auto
  then show ?thesis by (simp add: settle_save_def quiet_no_gets Let_def)
qed

text \<open>The fields that the invariants depend on.\<close>

lemma held_put [keeps_rules]:
  "keeps (\<lambda>s. held s rec) (put_field k v)"
  "k \<noteq> ''owner'' \<Longrightarrow> keeps (\<lambda>s. held_owner s rec) (put_field k v)"
  "k \<noteq> ''owner'' \<Longrightarrow> keeps (\<lambda>s. held_in_record s rec) (put_field k v)"
  "k \<noteq> ''owner'' \<Longrightarrow> keeps (\<lambda>s. held_admin s rec) (put_field k v)"
  "k \<noteq> ''owner'' \<Longrightarrow> k \<noteq> ''name'' \<Longrightarrow> keeps (\<lambda>s. held_key s rec) (put_field k v)"
  "keeps (quiet pre) (put_field k v)"
  by (auto simp: held_defs js_set_put intro!: keeps_put)

lemma held_effect [keeps_rules]:
  "keeps (\<lambda>s. held s rec) (effect_act e)" "keeps (\<lambda>s. held_owner s rec) (effect_act e)"
  "keeps (\<lambda>s. held_in_record s rec) (effect_act e)" "keeps (\<lambda>s. held_admin s rec) (effect_act e)"
  "keeps (\<lambda>s. held_key s rec) (effect_act e)"
  "\<not> list_ex is_get (sent_of e) \<Longrightarrow> keeps (quiet pre) (effect_act e)"
  by (auto simp: held_defs effect_act_def intro!: keeps_change)

lemma held_more [keeps_rules]:
  "keeps (\<lambda>s. held s rec) (set_more k v)" "keeps (\<lambda>s. held_owner s rec) (set_more k v)"
  "keeps (\<lambda>s. held_in_record s rec) (set_more k v)" "keeps (\<lambda>s. held_admin s rec) (set_more k v)"
  "keeps (\<lambda>s. held_key s rec) (set_more k v)" "keeps (quiet pre) (set_more k v)"
  by (auto simp: held_defs set_more_def intro!: keeps_change)

lemma keeps_jsval_case [keeps_rules]:
  "(\<And>xs. keeps I (f xs)) \<Longrightarrow> (\<And>ps. keeps I (g ps)) \<Longrightarrow> keeps I h
    \<Longrightarrow> keeps I (case v of JArr xs \<Rightarrow> f xs | JObj ps \<Rightarrow> g ps | _ \<Rightarrow> h)"
  by (cases v) simp_all

text \<open>Putting back the name that is held.\<close>

lemma held_key_revert: "keeps (\<lambda>s. held_key s rec) (with_state (\<lambda>s. put_field ''name'' (ed_name s)))"
  by (auto simp: keeps_def with_state_def put_field_def held_defs js_set_put)

section \<open>Actions that only send\<close>

definition sends :: "(api_call \<Rightarrow> bool) \<Rightarrow> act \<Rightarrow> edit \<Rightarrow> bool" where
  "sends P a s \<longleftrightarrow> (\<exists>es. fst (a s) = s\<lparr>ed_effects := ed_effects s @ es\<rparr>
     \<and> list_all (\<lambda>e. list_all (\<lambda>c. is_save c \<longrightarrow> P c) (sent_of e)) es)"

lemma sends_effect: "list_all (\<lambda>c. is_save c \<longrightarrow> P c) (sent_of e) \<Longrightarrow> sends P (effect_act e) s"
  unfolding sends_def effect_act_def change_def by (rule exI [of _ "[e]"]) simp

lemma sends_nothing: "fst (a s) = s \<Longrightarrow> sends P a s"
  unfolding sends_def by (rule exI [of _ "[]"]) simp

lemma sends_send: "(is_save c \<Longrightarrow> P c) \<Longrightarrow> sends P (send c) s"
  by (simp add: send_def sends_effect)

lemma sends_showMessage: "sends P (showMessage kind content) s"
  by (simp add: showMessage_def sends_effect)

lemma sends_no_act: "sends P no_act s" "sends P (raise e) s"
  by (simp_all add: no_act_def raise_def sends_nothing)

lemma sends_with_state: "sends P (with_state f) s = sends P (f s) s"
  by (simp add: sends_def with_state_def)

lemma sends_with_field: "is_obj (ed_object s) \<Longrightarrow> sends P (with_field k f) s = sends P (f (field (ed_object s) k)) s"
  by (simp add: sends_def with_field_def js_get_field)

lemma sends_branch: "sends P a s \<Longrightarrow> sends P a' s \<Longrightarrow> sends P (branch b a a') s"
  by (cases "b s") (simp_all add: sends_def branch_def exI [of _ "[]"])

lemma sends_if: "(b \<Longrightarrow> sends P a s) \<Longrightarrow> (\<not> b \<Longrightarrow> sends P a' s) \<Longrightarrow> sends P (if b then a else a') s"
  by simp

lemmas sends_rules = sends_send sends_showMessage sends_no_act sends_branch sends_if

section \<open>The contract from its parts\<close>

lemma saving_page_settle:
  fixes ops :: page_ops and inv :: "edit \<Rightarrow> jsval \<Rightarrow> bool"
  assumes update: "\<And>rec k i v. k \<notin> set frozen \<Longrightarrow> keeps (\<lambda>s. inv s rec) (op_update ops i k v)"
    and submit: "\<And>s rec exit. inv s rec \<Longrightarrow> sends (saves s rec) (op_submit ops exit) s"
    and accepted: "\<And>before s rec c exit. inv s rec \<Longrightarrow> saves s rec c
      \<Longrightarrow> ed_open (settle_save ops before c exit Accept rec s) \<Longrightarrow> inv (settle_save ops before c exit Accept rec s) (body_of c)"
    and failed: "\<And>before s rec c exit verdict. inv s rec \<Longrightarrow> verdict \<noteq> Accept
      \<Longrightarrow> inv (settle_save ops before c exit verdict rec s) rec"
    and effects: "\<And>s rec es. inv (s\<lparr>ed_effects := es\<rparr>) rec = inv s rec"
  shows "saving_page ops frozen inv"
proof
  show "inv (after (op_update ops i k v) s) rec" if "inv s rec" "k \<notin> set frozen" for s rec k i v
    using update [OF that(2)] that(1) by (simp add: keeps_def after_def)
next
  fix s rec exit assume inv: "inv s rec"
  obtain es where es: "submitted ops exit s = s\<lparr>ed_effects := ed_effects s @ es\<rparr>"
    and ok: "list_all (\<lambda>e. list_all (\<lambda>c. is_save c \<longrightarrow> saves s rec c) (sent_of e)) es"
    using submit [OF inv, of exit] by (auto simp: sends_def after_def)
  show inv': "inv (submitted ops exit s) rec" using inv effects by (simp add: es)
  fix c assume c: "c \<in> set (calls s (submitted ops exit s))" "is_save c"
  then have saves: "saves s rec c" using ok by (auto simp: calls_def es list_all_iff)
  then show hit: "reaches c rec" by (simp add: saves_def)
  have "saves (submitted ops exit s) rec c" using saves by (simp add: saves_def es)
  then show "inv (settle_save ops s c exit verdict rec (submitted ops exit s)) (server_stores verdict c rec)"
    if "ed_open (settle_save ops s c exit verdict rec (submitted ops exit s))" for verdict
    using accepted [OF inv'] failed [OF inv'] that hit
    by (cases "verdict = Accept") (auto simp: server_stores_def)
qed

text \<open>The pages that do not read their record again after a failed save.\<close>

lemma saving_pageI:
  fixes ops :: page_ops and inv :: "edit \<Rightarrow> jsval \<Rightarrow> bool"
  assumes "\<And>rec k i v. k \<notin> set frozen \<Longrightarrow> keeps (\<lambda>s. inv s rec) (op_update ops i k v)"
    and refused: "\<And>I rec pre before body exit msg. I = (\<lambda>s. inv s rec) \<or> I = quiet pre \<Longrightarrow>
      keeps I (op_saved ops before body exit (Reply \<lparr>an_status = ''error'', an_msg = msg, an_data = JNull\<rparr>))"
    and lost: "\<And>I rec pre before body exit err. I = (\<lambda>s. inv s rec) \<or> I = quiet pre \<Longrightarrow>
      keeps I (op_saved ops before body exit (Lost err))"
    and "\<And>s rec exit. inv s rec \<Longrightarrow> sends (saves s rec) (op_submit ops exit) s"
    and left: "\<And>before s rec c. inv s rec \<Longrightarrow> saves s rec c
      \<Longrightarrow> ed_open (settle_save ops before c True Accept rec s) \<Longrightarrow> inv (settle_save ops before c True Accept rec s) (body_of c)"
    and stayed: "\<And>before s rec c. inv s rec \<Longrightarrow> saves s rec c
      \<Longrightarrow> inv (settle_save ops before c False Accept rec s) (body_of c)"
    and "\<And>s rec es. inv (s\<lparr>ed_effects := es\<rparr>) rec = inv s rec"
  shows "saving_page ops frozen inv"
proof (rule saving_page_settle [OF assms(1,4)])
  show "inv (settle_save ops before c exit Accept rec s) (body_of c)"
    if "inv s rec" "saves s rec c" "ed_open (settle_save ops before c exit Accept rec s)" for before s rec c exit
    using left [OF that(1,2)] stayed [OF that(1,2)] that(3) by (cases exit) simp_all
  show "inv (settle_save ops before c exit verdict rec s) rec"
    if "inv s rec" "verdict \<noteq> Accept" for before s rec c exit verdict
    by (rule settle_failed [where inv = inv, OF that]) (erule refused, erule lost)
qed (simp_all add: assms(7))

lemmas page_eval =
  page_defs act_defs js_set_put js_get_field after_def calls_def settle_save_def server_reply_def
  server_stores_def server_finds_def key_of_def is_obj_not_null Let_def

lemmas keeps_eval =
  showMessage_def send_def stay_at_def failed_to_connect_def save_failed_def revert_name_def revert_owner_def Let_def

lemmas sends_eval = sends_with_state sends_with_field saves_def held_defs key_of_def Let_def

lemma application_body_key:
  assumes "application_body providers v = Return (ok, body)" "is_obj v"
  shows "is_obj body \<and> field body ''owner'' = field v ''owner'' \<and> field body ''name'' = field v ''name''"
  using assms by (cases "validateCustomScopes (field v ''customScopes'')")
    (auto simp: application_body_def bind_result_Inr_iff js_set_put)

lemma rule_with_key:
  assumes "rule_with k v r = Return r'" "is_obj r" "k \<noteq> ''owner''" "k \<noteq> ''name''"
  shows "is_obj r' \<and> field r' ''owner'' = field r ''owner'' \<and> field r' ''name'' = field r ''name''"
  using assms by (auto simp: rule_with_def js_set_put split: if_splits)

lemma set_result_key:
  assumes "bind_result r (js_set v k) = Return w" "is_obj v"
  shows "is_obj w \<and> (k \<noteq> ''owner'' \<longrightarrow> field w ''owner'' = field v ''owner'')
    \<and> (k \<noteq> ''name'' \<longrightarrow> field w ''name'' = field v ''name'')"
  using assms by (auto simp: bind_result_Inr_iff js_set_put)

definition role_ops :: page_ops where
  "role_ops = \<lparr>op_update = (\<lambda>i. updateRoleField), op_submit = submitRoleEdit,
     op_saved = (\<lambda>before body. roleSaved), op_received = roleReceived\<rparr>"

interpretation role: saving_page role_ops "[''owner'']" held_owner
  by (rule saving_pageI,
      (auto simp: role_ops_def page_defs keeps_eval intro!: keeps_rules)[3],
      (auto simp: role_ops_def page_defs sends_eval intro!: sends_rules)[1],
      simp_all add: role_ops_def held_defs saves_def page_eval)

definition model_ops :: page_ops where
  "model_ops = \<lparr>op_update = (\<lambda>i. updateModelField), op_submit = submitModelEdit,
     op_saved = (\<lambda>before body. modelSaved), op_received = modelReceived\<rparr>"

interpretation model: saving_page model_ops "[''owner'']" held_owner
  by (rule saving_pageI,
      (auto simp: model_ops_def page_defs keeps_eval intro!: keeps_rules)[3],
      (auto simp: model_ops_def page_defs sends_eval intro!: sends_rules)[1],
      simp_all add: model_ops_def held_defs saves_def page_eval)

definition enforcer_ops :: page_ops where
  "enforcer_ops = \<lparr>op_update = (\<lambda>i. updateEnforcerField), op_submit = submitEnforcerEdit,
     op_saved = (\<lambda>before body. enforcerSaved), op_received = enforcerReceived\<rparr>"

interpretation enforcer: saving_page enforcer_ops "[''owner'']" held_owner
  by (rule saving_pageI,
      (auto simp: enforcer_ops_def page_defs keeps_eval intro!: keeps_rules)[3],
      (auto simp: enforcer_ops_def page_defs sends_eval intro!: sends_rules)[1],
      simp_all add: enforcer_ops_def held_defs saves_def page_eval)

definition adapter_ops :: page_ops where
  "adapter_ops = \<lparr>op_update = (\<lambda>i. updateAdapterField), op_submit = submitAdapterEdit,
     op_saved = (\<lambda>before body. adapterSaved), op_received = adapterReceived\<rparr>"

interpretation adapter: saving_page adapter_ops "[]" held
  by (rule saving_pageI,
      (auto simp: adapter_ops_def page_defs keeps_eval intro!: keeps_rules)[3],
      (auto simp: adapter_ops_def page_defs sends_eval intro!: sends_rules)[1],
      simp_all add: adapter_ops_def held_defs saves_def page_eval)

definition group_ops :: page_ops where
  "group_ops = \<lparr>op_update = (\<lambda>i. updateGroupField), op_submit = submitGroupEdit,
     op_saved = (\<lambda>before body. groupSaved), op_received = groupReceived\<rparr>"

interpretation group: saving_page group_ops "[''owner'']" held_owner
  by (rule saving_pageI,
      (auto simp: group_ops_def page_defs keeps_eval intro!: keeps_rules)[3],
      (auto simp: group_ops_def page_defs sends_eval js_set_put bind_result_Inr_iff split: sum.split intro!: sends_rules)[1],
      simp_all add: group_ops_def held_defs saves_def page_eval)

definition invitation_ops :: page_ops where
  "invitation_ops = \<lparr>op_update = (\<lambda>i. updateInvitationField), op_submit = submitInvitationEdit,
     op_saved = (\<lambda>before body. invitationSaved), op_received = invitationReceived\<rparr>"

interpretation invitation: saving_page invitation_ops "[''owner'']" held_owner
  by (rule saving_pageI,
      (auto simp: invitation_ops_def page_defs keeps_eval intro!: keeps_rules)[3],
      (auto simp: invitation_ops_def page_defs sends_eval intro!: sends_rules)[1],
      simp_all add: invitation_ops_def held_defs saves_def page_eval)

definition permission_ops :: page_ops where
  "permission_ops = \<lparr>op_update = (\<lambda>i. updatePermissionField), op_submit = submitPermissionEdit,
     op_saved = (\<lambda>before body. permissionSaved), op_received = permissionReceived\<rparr>"

interpretation permission: saving_page permission_ops "[]" held
  by (rule saving_pageI,
      (auto simp: permission_ops_def page_defs keeps_eval split: jsval.split intro!: keeps_rules)[3],
      (auto simp: permission_ops_def page_defs sends_eval intro!: sends_rules)[1],
      simp_all add: permission_ops_def held_defs saves_def page_eval)

definition user_ops :: page_ops where
  "user_ops = \<lparr>op_update = updateUserField, op_submit = submitUserEdit,
     op_saved = (\<lambda>before body. userSaved), op_received = userReceived\<rparr>"

interpretation user: saving_page user_ops "[]" held
  by (rule saving_pageI,
      (auto simp: user_ops_def page_defs keeps_eval intro!: keeps_rules)[3],
      (auto simp: user_ops_def page_defs sends_eval intro!: sends_rules)[1],
      simp_all add: user_ops_def held_defs saves_def page_eval)

definition organization_ops :: page_ops where
  "organization_ops = \<lparr>op_update = (\<lambda>i. updateOrganizationField), op_submit = submitOrganizationEdit,
     op_saved = (\<lambda>before body. organizationSaved), op_received = organizationReceived\<rparr>"

interpretation organization: saving_page organization_ops "[''owner'']" held_in_record
  by (rule saving_pageI,
      (auto simp: organization_ops_def page_defs keeps_eval intro!: keeps_rules)[3],
      (auto simp: organization_ops_def page_defs sends_eval dest!: set_result_key split: sum.split intro!: sends_rules)[1],
      simp_all add: organization_ops_def held_defs saves_def page_eval)

definition product_ops :: page_ops where
  "product_ops = \<lparr>op_update = (\<lambda>i. updateProductField), op_submit = submitProductEdit,
     op_saved = (\<lambda>before body. productSaved), op_received = productReceived\<rparr>"

interpretation product: saving_page product_ops "[''owner'']" held_owner
  by (rule saving_pageI,
      (auto simp: product_ops_def page_defs keeps_eval intro!: keeps_rules)[3],
      (auto simp: product_ops_def page_defs sends_eval intro!: sends_rules)[1],
      simp_all add: product_ops_def held_defs saves_def page_eval)

definition plan_ops :: page_ops where
  "plan_ops = \<lparr>op_update = (\<lambda>i. updatePlanField), op_submit = submitPlanEdit,
     op_saved = (\<lambda>before body. planSaved), op_received = planReceived\<rparr>"

interpretation plan: saving_page plan_ops "[''owner'']" held_owner
  by (rule saving_pageI,
      (auto simp: plan_ops_def page_defs keeps_eval intro!: keeps_rules)[3],
      (auto simp: plan_ops_def page_defs sends_eval intro!: sends_rules)[1],
      simp_all add: plan_ops_def held_defs saves_def page_eval)

definition pricing_ops :: page_ops where
  "pricing_ops = \<lparr>op_update = (\<lambda>i. updatePricingField), op_submit = submitPricingEdit,
     op_saved = (\<lambda>before body. pricingSaved), op_received = pricingReceived\<rparr>"

interpretation pricing: saving_page pricing_ops "[''owner'']" held_owner
  by (rule saving_pageI,
      (auto simp: pricing_ops_def page_defs keeps_eval intro!: keeps_rules)[3],
      (auto simp: pricing_ops_def page_defs sends_eval intro!: sends_rules)[1],
      simp_all add: pricing_ops_def held_defs saves_def page_eval)

definition coupon_ops :: "(jsval \<Rightarrow> jsval option) \<Rightarrow> page_ops" where
  "coupon_ops parseFloat = \<lparr>op_update = (\<lambda>i. updateCouponField parseFloat), op_submit = submitCouponEdit,
     op_saved = (\<lambda>before body. couponSaved), op_received = couponReceived\<rparr>"

interpretation coupon: saving_page "coupon_ops parseFloat" "[''owner'']" held_in_record for parseFloat
  by (rule saving_pageI,
      (auto simp: coupon_ops_def page_defs keeps_eval intro!: keeps_rules)[3],
      (auto simp: coupon_ops_def page_defs sends_eval intro!: sends_rules)[1],
      simp_all add: coupon_ops_def held_defs saves_def page_eval)

definition order_ops :: page_ops where
  "order_ops = \<lparr>op_update = (\<lambda>i. updateOrderField), op_submit = submitOrderEdit,
     op_saved = (\<lambda>before body. orderSaved), op_received = orderReceived\<rparr>"

interpretation order: saving_page order_ops "[''owner'']" held_owner
  by (rule saving_pageI,
      (auto simp: order_ops_def page_defs keeps_eval intro!: keeps_rules)[3],
      (auto simp: order_ops_def page_defs sends_eval intro!: sends_rules)[1],
      simp_all add: order_ops_def held_defs saves_def page_eval)

definition payment_ops :: page_ops where
  "payment_ops = \<lparr>op_update = (\<lambda>i. updatePaymentField), op_submit = submitPaymentEdit,
     op_saved = (\<lambda>before body. paymentSaved), op_received = paymentReceived\<rparr>"

interpretation payment: saving_page payment_ops "[''owner'']" held_in_record
  by (rule saving_pageI,
      (auto simp: payment_ops_def page_defs keeps_eval intro!: keeps_rules)[3],
      (auto simp: payment_ops_def page_defs sends_eval split: sum.split intro!: sends_rules)[1],
      simp_all add: payment_ops_def held_defs saves_def page_eval)

definition subscription_ops :: page_ops where
  "subscription_ops = \<lparr>op_update = (\<lambda>i. updateSubscriptionField), op_submit = submitSubscriptionEdit,
     op_saved = (\<lambda>before body. subscriptionSaved), op_received = subscriptionReceived\<rparr>"

interpretation subscription: saving_page subscription_ops "[''owner'']" held_owner
  by (rule saving_pageI,
      (auto simp: subscription_ops_def page_defs keeps_eval intro!: keeps_rules)[3],
      (auto simp: subscription_ops_def page_defs sends_eval intro!: sends_rules)[1],
      simp_all add: subscription_ops_def held_defs saves_def page_eval)

definition transaction_ops :: "(jsval \<Rightarrow> jsval option) \<Rightarrow> page_ops" where
  "transaction_ops parseFloat = \<lparr>op_update = (\<lambda>i. updateTransactionField parseFloat), op_submit = submitTransactionEdit,
     op_saved = (\<lambda>before body. transactionSaved parseFloat), op_received = transactionReceived\<rparr>"

interpretation transaction: saving_page "transaction_ops parseFloat" "[''owner'']" held_in_record for parseFloat
  by (rule saving_pageI,
      (auto simp: transaction_ops_def page_defs keeps_eval intro!: keeps_rules)[3],
      (auto simp: transaction_ops_def page_defs sends_eval intro!: sends_rules)[1],
      simp_all add: transaction_ops_def held_defs saves_def page_eval)

definition ticket_ops :: page_ops where
  "ticket_ops = \<lparr>op_update = (\<lambda>i. updateTicketField), op_submit = submitTicketEdit,
     op_saved = (\<lambda>before body. ticketSaved), op_received = ticketReceived\<rparr>"

interpretation ticket: saving_page ticket_ops "[''owner'']" held_owner
  by (rule saving_pageI,
      (auto simp: ticket_ops_def page_defs keeps_eval intro!: keeps_rules)[3],
      (auto simp: ticket_ops_def page_defs sends_eval intro!: sends_rules)[1],
      simp_all add: ticket_ops_def held_defs saves_def page_eval)

definition cert_ops :: page_ops where
  "cert_ops = \<lparr>op_update = (\<lambda>i. updateCertField), op_submit = submitCertEdit,
     op_saved = (\<lambda>before body. certSaved), op_received = certReceived\<rparr>"

interpretation cert: saving_page cert_ops "[''owner'']" held_owner
  by (rule saving_pageI,
      (auto simp: cert_ops_def page_defs keeps_eval intro!: keeps_rules)[3],
      (auto simp: cert_ops_def page_defs sends_eval intro!: sends_rules)[1],
      simp_all add: cert_ops_def held_defs saves_def page_eval)

definition key_ops :: page_ops where
  "key_ops = \<lparr>op_update = (\<lambda>i. updateKeyField), op_submit = submitKeyEdit,
     op_saved = (\<lambda>before body. keySaved), op_received = keyReceived\<rparr>"

interpretation key: saving_page key_ops "[]" held
  by (rule saving_pageI,
      (auto simp: key_ops_def page_defs keeps_eval intro!: keeps_rules)[3],
      (auto simp: key_ops_def page_defs sends_eval intro!: sends_rules)[1],
      simp_all add: key_ops_def held_defs saves_def page_eval)

definition token_ops :: page_ops where
  "token_ops = \<lparr>op_update = (\<lambda>i. updateTokenField), op_submit = submitTokenEdit,
     op_saved = (\<lambda>before body. tokenSaved), op_received = tokenReceived\<rparr>"

interpretation token: saving_page token_ops "[''owner'']" held_in_record
  by (rule saving_pageI,
      (auto simp: token_ops_def page_defs keeps_eval intro!: keeps_rules)[3],
      (auto simp: token_ops_def page_defs sends_eval intro!: sends_rules)[1],
      simp_all add: token_ops_def held_defs saves_def page_eval)

definition webhook_ops :: page_ops where
  "webhook_ops = \<lparr>op_update = (\<lambda>i. updateWebhookField), op_submit = submitWebhookEdit,
     op_saved = (\<lambda>before body. webhookSaved), op_received = webhookReceived\<rparr>"

interpretation webhook: saving_page webhook_ops "[''owner'']" held_in_record
  by (rule saving_pageI,
      (auto simp: webhook_ops_def page_defs keeps_eval intro!: keeps_rules)[3],
      (auto simp: webhook_ops_def page_defs sends_eval intro!: sends_rules)[1],
      simp_all add: webhook_ops_def held_defs saves_def page_eval)

definition form_ops :: page_ops where
  "form_ops = \<lparr>op_update = (\<lambda>i. updateFormField), op_submit = submitFormEdit,
     op_saved = (\<lambda>before body. formSaved), op_received = formReceived\<rparr>"

interpretation form: saving_page form_ops "[''owner'']" held_in_record
  by (rule saving_pageI,
      (auto simp: form_ops_def page_defs keeps_eval intro!: keeps_rules)[3],
      (auto simp: form_ops_def page_defs sends_eval intro!: sends_rules)[1],
      simp_all add: form_ops_def held_defs saves_def page_eval)

definition syncer_ops :: page_ops where
  "syncer_ops = \<lparr>op_update = (\<lambda>i. updateSyncerField), op_submit = submitSyncerEdit,
     op_saved = (\<lambda>before body. syncerSaved), op_received = syncerReceived\<rparr>"

interpretation syncer: saving_page syncer_ops "[''owner'']" held_in_record
  by (rule saving_pageI,
      (auto simp: syncer_ops_def page_defs keeps_eval intro!: keeps_rules)[3],
      (auto simp: syncer_ops_def page_defs sends_eval intro!: sends_rules)[1],
      simp_all add: syncer_ops_def held_defs saves_def page_eval)

definition application_ops :: page_ops where
  "application_ops = \<lparr>op_update = (\<lambda>i. updateApplicationField), op_submit = submitApplicationEdit,
     op_saved = (\<lambda>before body. applicationSaved), op_received = applicationReceived\<rparr>"

interpretation application: saving_page application_ops "[''owner'']" held_admin
  by (rule saving_pageI,
      (auto simp: application_ops_def page_defs keeps_eval intro!: keeps_rules)[3],
      (auto simp: application_ops_def page_defs sends_eval dest!: application_body_key split: sum.split prod.split intro!: sends_rules)[1],
      simp_all add: application_ops_def held_defs saves_def page_eval)

definition provider_ops :: page_ops where
  "provider_ops = \<lparr>op_update = (\<lambda>i. updateProviderField), op_submit = submitProviderEdit,
     op_saved = (\<lambda>before body. providerSaved (ed_mode before = ''add'')), op_received = providerReceived\<rparr>"

interpretation provider: saving_page provider_ops "[]" held
  by (rule saving_pageI,
      (auto simp: provider_ops_def page_defs keeps_eval intro!: keeps_rules)[3],
      (auto simp: provider_ops_def page_defs sends_eval intro!: sends_rules)[1],
      simp_all add: provider_ops_def held_defs saves_def page_eval)

definition agent_ops :: page_ops where
  "agent_ops = \<lparr>op_update = (\<lambda>i. updateAgentField), op_submit = submitAgentEdit,
     op_saved = (\<lambda>before. agentSaved), op_received = agentReceived\<rparr>"

interpretation agent: saving_page agent_ops "[]" held
  by (rule saving_pageI,
      (auto simp: agent_ops_def page_defs keeps_eval intro!: keeps_rules)[3],
      (auto simp: agent_ops_def page_defs sends_eval intro!: sends_rules)[1],
      simp_all add: agent_ops_def held_defs saves_def page_eval)

definition entry_ops :: page_ops where
  "entry_ops = \<lparr>op_update = (\<lambda>i. updateEntryField), op_submit = submitEntryEdit,
     op_saved = (\<lambda>before. entrySaved), op_received = entryReceived\<rparr>"

interpretation entry: saving_page entry_ops "[]" held
  by (rule saving_pageI,
      (auto simp: entry_ops_def page_defs keeps_eval intro!: keeps_rules)[3],
      (auto simp: entry_ops_def page_defs sends_eval intro!: sends_rules)[1],
      simp_all add: entry_ops_def held_defs saves_def page_eval)

definition server_ops :: page_ops where
  "server_ops = \<lparr>op_update = (\<lambda>i. updateServerField), op_submit = submitServerEdit,
     op_saved = (\<lambda>before. serverSaved), op_received = serverReceived\<rparr>"

interpretation server: saving_page server_ops "[]" held
  by (rule saving_pageI,
      (auto simp: server_ops_def page_defs keeps_eval intro!: keeps_rules)[3],
      (auto simp: server_ops_def page_defs sends_eval intro!: sends_rules)[1],
      simp_all add: server_ops_def held_defs saves_def page_eval)

definition site_ops :: page_ops where
  "site_ops = \<lparr>op_update = (\<lambda>i. updateSiteField), op_submit = (\<lambda>exit. submitSiteEdit),
     op_saved = (\<lambda>before body exit. siteSaved), op_received = siteReceived\<rparr>"

interpretation site: saving_page site_ops "[''owner'', ''name'']" held_key
  by (rule saving_pageI,
      (auto simp: site_ops_def page_defs keeps_eval parseSiteField_def parse_ints_def intro!: keeps_rules held_key_revert)[3],
      (auto simp: site_ops_def page_defs sends_eval intro!: sends_rules)[1],
      simp_all add: site_ops_def held_defs saves_def page_eval)

definition rule_ops :: page_ops where
  "rule_ops = \<lparr>op_update = (\<lambda>i. updateRuleField), op_submit = (\<lambda>exit. submitRuleEdit),
     op_saved = (\<lambda>before body exit. ruleSaved body), op_received = ruleReceived\<rparr>"

interpretation rule: saving_page rule_ops "[''owner'', ''name'']" held_key
proof (rule saving_page_settle)
  show "keeps (\<lambda>s. held_key s rec) (op_update rule_ops i k v)" if "k \<notin> set [''owner'', ''name'']" for rec i k v
    using that rule_with_key by (fastforce simp: keeps_def rule_ops_def updateRuleField_def hold_object_def change_def
      held_defs split: sum.split)
  show "sends (saves s rec) (op_submit rule_ops exit) s" if "held_key s rec" for s rec exit
    using that by (auto simp: rule_ops_def page_defs sends_eval intro!: sends_rules)
  show "held_key (settle_save rule_ops before c exit Accept rec s) (body_of c)"
    if "held_key s rec" "saves s rec c" for before s rec c exit
    using that by (simp add: rule_ops_def held_defs saves_def page_eval)
  show "held_key (settle_save rule_ops before c exit verdict rec s) rec"
    if "held_key s rec" "verdict \<noteq> Accept" for before s rec c exit verdict
    using that by (cases verdict) (simp_all add: rule_ops_def held_defs page_eval)
qed (simp_all add: held_defs)

section \<open>All pages\<close>

text \<open>The name of a page, its operations, the fields that must be left alone, and what it knows.\<close>

definition edit_pages :: "(jsval \<Rightarrow> jsval option) \<Rightarrow> (string \<times> page_ops \<times> string list \<times> (edit \<Rightarrow> jsval \<Rightarrow> bool)) list" where
  "edit_pages parseFloat =
     [(''role'', role_ops, [''owner''], held_owner),
      (''model'', model_ops, [''owner''], held_owner),
      (''enforcer'', enforcer_ops, [''owner''], held_owner),
      (''adapter'', adapter_ops, [], held),
      (''group'', group_ops, [''owner''], held_owner),
      (''invitation'', invitation_ops, [''owner''], held_owner),
      (''permission'', permission_ops, [], held),
      (''user'', user_ops, [], held),
      (''organization'', organization_ops, [''owner''], held_in_record),
      (''product'', product_ops, [''owner''], held_owner),
      (''plan'', plan_ops, [''owner''], held_owner),
      (''pricing'', pricing_ops, [''owner''], held_owner),
      (''coupon'', coupon_ops parseFloat, [''owner''], held_in_record),
      (''order'', order_ops, [''owner''], held_owner),
      (''payment'', payment_ops, [''owner''], held_in_record),
      (''subscription'', subscription_ops, [''owner''], held_owner),
      (''transaction'', transaction_ops parseFloat, [''owner''], held_in_record),
      (''ticket'', ticket_ops, [''owner''], held_owner),
      (''cert'', cert_ops, [''owner''], held_owner),
      (''key'', key_ops, [], held),
      (''token'', token_ops, [''owner''], held_in_record),
      (''webhook'', webhook_ops, [''owner''], held_in_record),
      (''form'', form_ops, [''owner''], held_in_record),
      (''syncer'', syncer_ops, [''owner''], held_in_record),
      (''application'', application_ops, [''owner''], held_admin),
      (''provider'', provider_ops, [], held),
      (''agent'', agent_ops, [], held),
      (''entry'', entry_ops, [], held),
      (''server'', server_ops, [], held),
      (''site'', site_ops, [''owner'', ''name''], held_key),
      (''rule'', rule_ops, [''owner'', ''name''], held_key)]"

text \<open>A page that shows the record; applications are kept under the owner \<open>admin\<close>.\<close>

definition opened :: "string \<Rightarrow> jsval \<Rightarrow> edit \<Rightarrow> bool" where
  "opened nm rec s \<longleftrightarrow> is_obj rec \<and> ed_object s = rec \<and> ed_owner s = field rec ''owner''
     \<and> ed_name s = field rec ''name'' \<and> (nm = ''application'' \<longrightarrow> field rec ''owner'' = JStr ''admin'')"

lemma pages_keep_contract:
  "list_all (\<lambda>(nm, ops, frozen, known). saving_page ops frozen known) (edit_pages parseFloat)"
  by (simp add: edit_pages_def
    role.saving_page_axioms model.saving_page_axioms enforcer.saving_page_axioms
    adapter.saving_page_axioms group.saving_page_axioms invitation.saving_page_axioms
    permission.saving_page_axioms user.saving_page_axioms organization.saving_page_axioms
    product.saving_page_axioms plan.saving_page_axioms pricing.saving_page_axioms
    coupon.saving_page_axioms order.saving_page_axioms payment.saving_page_axioms
    subscription.saving_page_axioms transaction.saving_page_axioms ticket.saving_page_axioms
    cert.saving_page_axioms key.saving_page_axioms token.saving_page_axioms webhook.saving_page_axioms
    form.saving_page_axioms syncer.saving_page_axioms application.saving_page_axioms
    provider.saving_page_axioms agent.saving_page_axioms entry.saving_page_axioms
    server.saving_page_axioms site.saving_page_axioms rule.saving_page_axioms)

lemma opened_known:
  "(nm, ops, frozen, known) \<in> set (edit_pages parseFloat) \<Longrightarrow> opened nm rec s \<Longrightarrow> known s rec"
  by (auto simp: edit_pages_def opened_def held_defs)

text \<open>The sample records of the examples and the page that shows one.\<close>

definition sample :: "string \<Rightarrow> jsval" where
  "sample nm = JObj ([(''owner'', JStr (if nm = ''application'' then ''admin'' else ''org-1'')), (''name'', JStr ''n'')]
     @ (if nm = ''product'' then [(''currency'', JStr ''USD''), (''providers'', JArr [JStr ''stripe''])]
        else if nm = ''application'' then [(''providers'', JArr [JObj [(''name'', JStr ''github'')], JObj [(''name'', JStr ''sms'')]])]
        else []))"

definition showing :: "jsval \<Rightarrow> edit" where
  "showing rec = \<lparr>ed_owner = field rec ''owner'', ed_name = field rec ''name'', ed_object = rec, ed_mode = ''edit'',
     ed_open = True, ed_more = (\<lambda>k. if k \<in> set [''organizations'', ''providers''] then JArr [] else JUndefined),
     ed_account = Some empty_account, ed_session = (\<lambda>k. None), ed_effects = []\<rparr>"

text \<open>
  C4. On each of the 31 edit pages, in every sequence of edits and saves in which the page's frozen
  fields are left alone (none on the pages of adapters, keys, permissions, providers, users, agents,
  entries and servers, the owner on most others), whatever saves the server refuses or the network
  loses: the record of the server is the one of the last save that the page reported as successful,
  and a page that is still open sends its next save to that record.
\<close>

theorem saves_reach_the_record:
  assumes "(nm, ops, frozen, known) \<in> set (edit_pages parseFloat)" "opened nm rec s" "leaves_alone frozen evs"
  defines "r \<equiv> run_rounds ops evs (start_run s rec)"
  shows "run_stored r = last (rec # run_acked r)
    \<and> (ed_open (run_page r) \<longrightarrow>
        (\<forall>exit. list_all (\<lambda>c. is_save c \<longrightarrow> reaches c (run_stored r)) (calls (run_page r) (submitted ops exit (run_page r)))))"
proof -
  have page: "saving_page ops frozen known"
    using assms(1) pages_keep_contract [of parseFloat] by (auto simp: list_all_iff)
  note start = opened_known [OF assms(1,2)]
  show ?thesis unfolding r_def
    using saving_page.stored_is_last_acknowledged [OF page start assms(3)]
      saving_page.open_page_in_step [OF page start assms(3)] saving_page.submit_reaches [OF page]
    by (auto simp: list_all_iff)
qed

text \<open>An adapter that gets a new owner and a new name and is saved more than once.\<close>

definition busy_rounds :: "round list" where
  "busy_rounds = [EditField 0 ''owner'' (JStr ''org-2''), EditField 0 ''name'' (JStr ''m''), Save False Accept,
     EditField 0 ''name'' (JStr ''taken''), Save False (Refuse ''exists''), Save False (Drop ''offline''),
     EditField 0 ''table'' (JStr ''t''), Save False Accept]"

theorem saves_reach_the_record_witness:
  "run_stored (run_rounds adapter_ops busy_rounds (start_run (showing (sample ''adapter'')) (sample ''adapter'')))
     = last (sample ''adapter'' # run_acked
         (run_rounds adapter_ops busy_rounds (start_run (showing (sample ''adapter'')) (sample ''adapter''))))"
proof -
  let ?rec = "sample ''adapter''"
  have "(''adapter'', adapter_ops, [], held) \<in> set (edit_pages (\<lambda>v. None))" by (simp add: edit_pages_def)
  moreover have "opened ''adapter'' ?rec (showing ?rec)" by (simp add: opened_def showing_def sample_def)
  moreover have "leaves_alone [] busy_rounds" by (simp add: busy_rounds_def)
  ultimately show ?thesis using saves_reach_the_record by blast
qed

end
