(* ===== verification/Console_Requests.thy ===== *)
theory Console_Requests
  imports Edit_Rules
begin

text \<open>
  The requests of the console: the functions of \<open>web/src/backend/*.js\<close>. Each builds a request from its
  arguments, sends it and reads the answer as JSON. A request is its method, its path, the pairs of its
  query as the template writes them (encoded where the source encodes), the names of the headers it
  sets and the body before \<open>JSON.stringify\<close>. Addresses are relative to \<open>Setting.ServerUrl\<close>; every request
  carries the cookies (\<open>credentials: "include"\<close>). An argument that a template interpolates is its text.
\<close>

section \<open>Requests\<close>

record api_request =
  rq_method :: string
  rq_path :: string
  rq_params :: "(string \<times> string) list"
  rq_headers :: "string list"
  rq_body :: "jsval option"

definition json :: "string list" where "json = [''Content-Type'']"

definition lang :: "string list" where "lang = [''Accept-Language'']"

definition api_fetch :: "string \<Rightarrow> string \<Rightarrow> (string \<times> string) list \<Rightarrow> string list \<Rightarrow> jsval option \<Rightarrow> api_request" where
  "api_fetch verb path params headers body =
     \<lparr>rq_method = verb, rq_path = path, rq_params = params, rq_headers = headers, rq_body = body\<rparr>"

definition query :: "(string \<times> string) list \<Rightarrow> string" where
  "query ps = ''?'' @ js_join ''&'' (map (\<lambda>(k, v). k @ ''='' @ v) ps)"

definition rq_url :: "api_request \<Rightarrow> string" where
  "rq_url r = rq_path r @ (if rq_params r = [] then [] else query (rq_params r))"

text \<open>\<open>`${owner}/${encodeURIComponent(name)}`\<close>.\<close>

definition record_id :: "string \<Rightarrow> string \<Rightarrow> string" where
  "record_id owner name = owner @ ''/'' @ encodeURIComponent name"

section \<open>\<open>AdapterBackend.js\<close>\<close>

definition api_getAdapters :: "string \<Rightarrow> string \<Rightarrow> string \<Rightarrow> string \<Rightarrow> string \<Rightarrow> string \<Rightarrow> string \<Rightarrow> api_request" where
  "api_getAdapters owner page pageSize field' value' sortField sortOrder = api_fetch ''GET'' ''/api/get-adapters''
     [(''owner'', owner), (''p'', page), (''pageSize'', pageSize), (''field'', field'), (''value'', value'),
       (''sortField'', sortField), (''sortOrder'', sortOrder)] lang None"

definition api_getAdapter :: "string \<Rightarrow> string \<Rightarrow> api_request" where
  "api_getAdapter owner name = api_fetch ''GET'' ''/api/get-adapter''
     [(''id'', record_id owner name)] lang None"

definition api_updateAdapter :: "string \<Rightarrow> string \<Rightarrow> jsval \<Rightarrow> api_request" where
  "api_updateAdapter owner name adapter = api_fetch ''POST'' ''/api/update-adapter''
     [(''id'', record_id owner name)] (json @ lang) (Some (deepCopy adapter))"

definition api_addAdapter :: "jsval \<Rightarrow> api_request" where
  "api_addAdapter adapter = api_fetch ''POST'' ''/api/add-adapter''
     [] (json @ lang) (Some (deepCopy adapter))"

definition api_deleteAdapter :: "jsval \<Rightarrow> api_request" where
  "api_deleteAdapter adapter = api_fetch ''POST'' ''/api/delete-adapter''
     [] (json @ lang) (Some (deepCopy adapter))"

definition api_UpdatePolicy :: "string \<Rightarrow> string \<Rightarrow> jsval \<Rightarrow> api_request" where
  "api_UpdatePolicy owner name policy = api_fetch ''POST'' ''/api/update-policy''
     [(''id'', record_id owner name)] (json @ lang) (Some policy)"

definition api_AddPolicy :: "string \<Rightarrow> string \<Rightarrow> jsval \<Rightarrow> api_request" where
  "api_AddPolicy owner name policy = api_fetch ''POST'' ''/api/add-policy''
     [(''id'', record_id owner name)] (json @ lang) (Some policy)"

definition api_RemovePolicy :: "string \<Rightarrow> string \<Rightarrow> jsval \<Rightarrow> api_request" where
  "api_RemovePolicy owner name policy = api_fetch ''POST'' ''/api/remove-policy''
     [(''id'', record_id owner name)] (json @ lang) (Some policy)"

definition api_getPolicies :: "string \<Rightarrow> string \<Rightarrow> string \<Rightarrow> api_request" where
  "api_getPolicies owner name adapterId = api_fetch ''GET'' ''/api/get-policies''
     [(''id'', record_id owner name), (''adapterId'', adapterId)] lang None"

section \<open>\<open>AgentBackend.js\<close>\<close>

definition api_getAgents :: "string \<Rightarrow> string \<Rightarrow> string \<Rightarrow> string \<Rightarrow> string \<Rightarrow> string \<Rightarrow> string \<Rightarrow> api_request" where
  "api_getAgents owner page pageSize field' value' sortField sortOrder = api_fetch ''GET'' ''/api/get-agents''
     [(''owner'', owner), (''p'', page), (''pageSize'', pageSize), (''field'', field'), (''value'', value'),
       (''sortField'', sortField), (''sortOrder'', sortOrder)] [] None"

definition api_getAgent :: "string \<Rightarrow> string \<Rightarrow> api_request" where
  "api_getAgent owner name = api_fetch ''GET'' ''/api/get-agent''
     [(''id'', record_id owner name)] [] None"

definition api_updateAgent :: "string \<Rightarrow> string \<Rightarrow> jsval \<Rightarrow> api_request" where
  "api_updateAgent owner name agent = api_fetch ''POST'' ''/api/update-agent''
     [(''id'', record_id owner name)] json (Some (deepCopy agent))"

definition api_addAgent :: "jsval \<Rightarrow> api_request" where
  "api_addAgent agent = api_fetch ''POST'' ''/api/add-agent''
     [] json (Some (deepCopy agent))"

definition api_deleteAgent :: "jsval \<Rightarrow> api_request" where
  "api_deleteAgent agent = api_fetch ''POST'' ''/api/delete-agent''
     [] json (Some (deepCopy agent))"

section \<open>\<open>ApplicationBackend.js\<close>\<close>

definition api_getApplications :: "string \<Rightarrow> string \<Rightarrow> string \<Rightarrow> string \<Rightarrow> string \<Rightarrow> string \<Rightarrow> string \<Rightarrow> api_request" where
  "api_getApplications owner page pageSize field' value' sortField sortOrder = api_fetch ''GET'' ''/api/get-applications''
     [(''owner'', owner), (''p'', page), (''pageSize'', pageSize), (''field'', field'), (''value'', value'),
       (''sortField'', sortField), (''sortOrder'', sortOrder)] lang None"

definition api_getApplicationsByOrganization :: "string \<Rightarrow> string \<Rightarrow> string \<Rightarrow> string \<Rightarrow> string \<Rightarrow> string \<Rightarrow> string \<Rightarrow> string \<Rightarrow> api_request" where
  "api_getApplicationsByOrganization owner organization page pageSize field' value' sortField sortOrder = api_fetch ''GET'' ''/api/get-organization-applications''
     [(''owner'', owner), (''organization'', organization), (''p'', page), (''pageSize'', pageSize), (''field'',
       field'), (''value'', value'), (''sortField'', sortField), (''sortOrder'', sortOrder)] lang None"

definition api_getApplication :: "string \<Rightarrow> string \<Rightarrow> api_request" where
  "api_getApplication owner name = api_fetch ''GET'' ''/api/get-application''
     [(''id'', record_id owner name)] lang None"

definition api_getUserApplication :: "string \<Rightarrow> string \<Rightarrow> api_request" where
  "api_getUserApplication owner name = api_fetch ''GET'' ''/api/get-user-application''
     [(''id'', record_id owner name)] lang None"

definition api_updateApplication :: "string \<Rightarrow> string \<Rightarrow> jsval \<Rightarrow> api_request" where
  "api_updateApplication owner name application' = api_fetch ''POST'' ''/api/update-application''
     [(''id'', record_id owner name)] (json @ lang) (Some application')"

definition api_addApplication :: "jsval \<Rightarrow> api_request" where
  "api_addApplication application' = api_fetch ''POST'' ''/api/add-application''
     [] (json @ lang) (Some (deepCopy application'))"

definition api_deleteApplication :: "jsval \<Rightarrow> api_request" where
  "api_deleteApplication application' = api_fetch ''POST'' ''/api/delete-application''
     [] (json @ lang) (Some (deepCopy application'))"

section \<open>\<open>CertBackend.js\<close>\<close>

definition api_getCerts :: "string \<Rightarrow> string \<Rightarrow> string \<Rightarrow> string \<Rightarrow> string \<Rightarrow> string \<Rightarrow> string \<Rightarrow> api_request" where
  "api_getCerts owner page pageSize field' value' sortField sortOrder = api_fetch ''GET'' ''/api/get-certs''
     [(''owner'', owner), (''p'', page), (''pageSize'', pageSize), (''field'', field'), (''value'', value'),
       (''sortField'', sortField), (''sortOrder'', sortOrder)] lang None"

definition api_getCert :: "string \<Rightarrow> string \<Rightarrow> api_request" where
  "api_getCert owner name = api_fetch ''GET'' ''/api/get-cert''
     [(''id'', record_id owner name)] lang None"

definition api_updateCert :: "string \<Rightarrow> string \<Rightarrow> jsval \<Rightarrow> api_request" where
  "api_updateCert owner name cert = api_fetch ''POST'' ''/api/update-cert''
     [(''id'', record_id owner name)] (json @ lang) (Some (deepCopy cert))"

definition api_addCert :: "jsval \<Rightarrow> api_request" where
  "api_addCert cert = api_fetch ''POST'' ''/api/add-cert''
     [] (json @ lang) (Some (deepCopy cert))"

definition api_deleteCert :: "jsval \<Rightarrow> api_request" where
  "api_deleteCert cert = api_fetch ''POST'' ''/api/delete-cert''
     [] (json @ lang) (Some (deepCopy cert))"

definition api_refreshDomainExpire :: "string \<Rightarrow> string \<Rightarrow> api_request" where
  "api_refreshDomainExpire owner name = api_fetch ''POST'' ''/api/update-cert-domain-expire''
     [(''id'', record_id owner name)] [] None"

section \<open>\<open>ConsentBackend.js\<close>\<close>

definition api_revokeConsent :: "jsval \<Rightarrow> api_request" where
  "api_revokeConsent consent = api_fetch ''POST'' ''/api/revoke-consent''
     [] (json @ lang) (Some consent)"

section \<open>\<open>CouponBackend.js\<close>\<close>

definition api_getCoupons :: "string \<Rightarrow> string \<Rightarrow> string \<Rightarrow> string \<Rightarrow> string \<Rightarrow> string \<Rightarrow> string \<Rightarrow> api_request" where
  "api_getCoupons owner page pageSize field' value' sortField sortOrder = api_fetch ''GET'' ''/api/get-coupons''
     [(''owner'', owner), (''p'', page), (''pageSize'', pageSize), (''field'', field'), (''value'', value'),
       (''sortField'', sortField), (''sortOrder'', sortOrder)] lang None"

definition api_getCoupon :: "string \<Rightarrow> string \<Rightarrow> api_request" where
  "api_getCoupon owner name = api_fetch ''GET'' ''/api/get-coupon''
     [(''id'', record_id owner name)] lang None"

definition api_updateCoupon :: "string \<Rightarrow> string \<Rightarrow> jsval \<Rightarrow> api_request" where
  "api_updateCoupon owner name coupon = api_fetch ''POST'' ''/api/update-coupon''
     [(''id'', record_id owner name)] (json @ lang) (Some (deepCopy coupon))"

definition api_addCoupon :: "jsval \<Rightarrow> api_request" where
  "api_addCoupon coupon = api_fetch ''POST'' ''/api/add-coupon''
     [] (json @ lang) (Some (deepCopy coupon))"

definition api_deleteCoupon :: "jsval \<Rightarrow> api_request" where
  "api_deleteCoupon coupon = api_fetch ''POST'' ''/api/delete-coupon''
     [] (json @ lang) (Some (deepCopy coupon))"

section \<open>\<open>EnforcerBackend.js\<close>\<close>

definition api_getEnforcers :: "string \<Rightarrow> string \<Rightarrow> string \<Rightarrow> string \<Rightarrow> string \<Rightarrow> string \<Rightarrow> string \<Rightarrow> api_request" where
  "api_getEnforcers owner page pageSize field' value' sortField sortOrder = api_fetch ''GET'' ''/api/get-enforcers''
     [(''owner'', owner), (''p'', page), (''pageSize'', pageSize), (''field'', field'), (''value'', value'),
       (''sortField'', sortField), (''sortOrder'', sortOrder)] lang None"

definition api_getEnforcer :: "string \<Rightarrow> string \<Rightarrow> string \<Rightarrow> api_request" where
  "api_getEnforcer owner name loadModelCfg = api_fetch ''GET'' ''/api/get-enforcer''
     [(''id'', record_id owner name), (''loadModelCfg'', loadModelCfg)] lang None"

definition api_updateEnforcer :: "string \<Rightarrow> string \<Rightarrow> jsval \<Rightarrow> api_request" where
  "api_updateEnforcer owner name enforcer = api_fetch ''POST'' ''/api/update-enforcer''
     [(''id'', record_id owner name)] (json @ lang) (Some (deepCopy enforcer))"

definition api_addEnforcer :: "jsval \<Rightarrow> api_request" where
  "api_addEnforcer enforcer = api_fetch ''POST'' ''/api/add-enforcer''
     [] (json @ lang) (Some (deepCopy enforcer))"

definition api_deleteEnforcer :: "jsval \<Rightarrow> api_request" where
  "api_deleteEnforcer enforcer = api_fetch ''POST'' ''/api/delete-enforcer''
     [] (json @ lang) (Some (deepCopy enforcer))"

section \<open>\<open>EntryBackend.js\<close>\<close>

definition api_getEntries :: "string \<Rightarrow> string \<Rightarrow> string \<Rightarrow> string \<Rightarrow> string \<Rightarrow> string \<Rightarrow> string \<Rightarrow> api_request" where
  "api_getEntries owner page pageSize field' value' sortField sortOrder = api_fetch ''GET'' ''/api/get-entries''
     [(''owner'', owner), (''p'', page), (''pageSize'', pageSize), (''field'', field'), (''value'', value'),
       (''sortField'', sortField), (''sortOrder'', sortOrder)] [] None"

definition api_getEntry :: "string \<Rightarrow> string \<Rightarrow> api_request" where
  "api_getEntry owner name = api_fetch ''GET'' ''/api/get-entry''
     [(''id'', record_id owner name)] [] None"

definition api_getOpenClawSessionGraph :: "string \<Rightarrow> string \<Rightarrow> api_request" where
  "api_getOpenClawSessionGraph owner name = api_fetch ''GET'' ''/api/get-openclaw-session-graph''
     [(''id'', record_id owner name)] [] None"

definition api_updateEntry :: "string \<Rightarrow> string \<Rightarrow> jsval \<Rightarrow> api_request" where
  "api_updateEntry owner name entry = api_fetch ''POST'' ''/api/update-entry''
     [(''id'', record_id owner name)] json (Some (deepCopy entry))"

definition api_addEntry :: "jsval \<Rightarrow> api_request" where
  "api_addEntry entry = api_fetch ''POST'' ''/api/add-entry''
     [] json (Some (deepCopy entry))"

definition api_deleteEntry :: "jsval \<Rightarrow> api_request" where
  "api_deleteEntry entry = api_fetch ''POST'' ''/api/delete-entry''
     [] json (Some (deepCopy entry))"

section \<open>\<open>FormBackend.js\<close>\<close>

definition api_getGlobalForms :: "api_request" where
  "api_getGlobalForms = api_fetch ''GET'' ''/api/get-global-forms''
     [] lang None"

definition api_getForms :: "string \<Rightarrow> string \<Rightarrow> string \<Rightarrow> string \<Rightarrow> string \<Rightarrow> string \<Rightarrow> string \<Rightarrow> api_request" where
  "api_getForms owner page pageSize field' value' sortField sortOrder = api_fetch ''GET'' ''/api/get-forms''
     [(''owner'', owner), (''p'', page), (''pageSize'', pageSize), (''field'', field'), (''value'', value'),
       (''sortField'', sortField), (''sortOrder'', sortOrder)] lang None"

definition api_getForm :: "string \<Rightarrow> string \<Rightarrow> api_request" where
  "api_getForm owner name = api_fetch ''GET'' ''/api/get-form''
     [(''id'', record_id owner name)] lang None"

definition api_updateForm :: "string \<Rightarrow> string \<Rightarrow> jsval \<Rightarrow> api_request" where
  "api_updateForm owner name form = api_fetch ''POST'' ''/api/update-form''
     [(''id'', record_id owner name)] (json @ lang) (Some (deepCopy form))"

definition api_addForm :: "jsval \<Rightarrow> api_request" where
  "api_addForm form = api_fetch ''POST'' ''/api/add-form''
     [] (json @ lang) (Some (deepCopy form))"

definition api_deleteForm :: "jsval \<Rightarrow> api_request" where
  "api_deleteForm form = api_fetch ''POST'' ''/api/delete-form''
     [] (json @ lang) (Some (deepCopy form))"

section \<open>\<open>GroupBackend.js\<close>\<close>

definition api_getGroups :: "string \<Rightarrow> string \<Rightarrow> string \<Rightarrow> string \<Rightarrow> string \<Rightarrow> string \<Rightarrow> string \<Rightarrow> string \<Rightarrow> api_request" where
  "api_getGroups owner withTree page pageSize field' value' sortField sortOrder = api_fetch ''GET'' ''/api/get-groups''
     [(''owner'', owner), (''p'', page), (''pageSize'', pageSize), (''field'', field'), (''value'', value'),
       (''sortField'', sortField), (''sortOrder'', sortOrder), (''withTree'', withTree)] lang None"

definition api_getGroup :: "string \<Rightarrow> string \<Rightarrow> api_request" where
  "api_getGroup owner name = api_fetch ''GET'' ''/api/get-group''
     [(''id'', record_id owner name)] lang None"

definition api_updateGroup :: "string \<Rightarrow> string \<Rightarrow> jsval \<Rightarrow> api_request" where
  "api_updateGroup owner name group' = api_fetch ''POST'' ''/api/update-group''
     [(''id'', record_id owner name)] (json @ lang) (Some (deepCopy group'))"

definition api_addGroup :: "jsval \<Rightarrow> api_request" where
  "api_addGroup group' = api_fetch ''POST'' ''/api/add-group''
     [] (json @ lang) (Some (deepCopy group'))"

definition api_deleteGroup :: "jsval \<Rightarrow> api_request" where
  "api_deleteGroup group' = api_fetch ''POST'' ''/api/delete-group''
     [] (json @ lang) (Some (deepCopy group'))"

section \<open>\<open>InvitationBackend.js\<close>\<close>

definition api_getInvitations :: "string \<Rightarrow> string \<Rightarrow> string \<Rightarrow> string \<Rightarrow> string \<Rightarrow> string \<Rightarrow> string \<Rightarrow> api_request" where
  "api_getInvitations owner page pageSize field' value' sortField sortOrder = api_fetch ''GET'' ''/api/get-invitations''
     [(''owner'', owner), (''p'', page), (''pageSize'', pageSize), (''field'', field'), (''value'', value'),
       (''sortField'', sortField), (''sortOrder'', sortOrder)] lang None"

definition api_getInvitation :: "string \<Rightarrow> string \<Rightarrow> api_request" where
  "api_getInvitation owner name = api_fetch ''GET'' ''/api/get-invitation''
     [(''id'', record_id owner name)] lang None"

definition api_getInvitationCodeInfo :: "string \<Rightarrow> string \<Rightarrow> api_request" where
  "api_getInvitationCodeInfo code applicationName = api_fetch ''GET'' ''/api/get-invitation-info''
     [(''code'', code), (''applicationId'', encodeURIComponent applicationName)] lang None"

definition api_updateInvitation :: "string \<Rightarrow> string \<Rightarrow> jsval \<Rightarrow> api_request" where
  "api_updateInvitation owner name invitation = api_fetch ''POST'' ''/api/update-invitation''
     [(''id'', record_id owner name)] (json @ lang) (Some (deepCopy invitation))"

definition api_addInvitation :: "jsval \<Rightarrow> api_request" where
  "api_addInvitation invitation = api_fetch ''POST'' ''/api/add-invitation''
     [] (json @ lang) (Some (deepCopy invitation))"

definition api_deleteInvitation :: "jsval \<Rightarrow> api_request" where
  "api_deleteInvitation invitation = api_fetch ''POST'' ''/api/delete-invitation''
     [] (json @ lang) (Some (deepCopy invitation))"

definition api_verifyInvitation :: "string \<Rightarrow> string \<Rightarrow> api_request" where
  "api_verifyInvitation owner name = api_fetch ''GET'' ''/api/verify-invitation''
     [(''id'', record_id owner name)] lang None"

section \<open>\<open>KeyBackend.js\<close>\<close>

definition api_getKeys :: "string \<Rightarrow> string \<Rightarrow> string \<Rightarrow> string \<Rightarrow> string \<Rightarrow> string \<Rightarrow> string \<Rightarrow> api_request" where
  "api_getKeys owner page pageSize field' value' sortField sortOrder = api_fetch ''GET'' ''/api/get-keys''
     [(''owner'', owner), (''p'', page), (''pageSize'', pageSize), (''field'', field'), (''value'', value'),
       (''sortField'', sortField), (''sortOrder'', sortOrder)] lang None"

definition api_getGlobalKeys :: "string \<Rightarrow> string \<Rightarrow> string \<Rightarrow> string \<Rightarrow> string \<Rightarrow> string \<Rightarrow> api_request" where
  "api_getGlobalKeys page pageSize field' value' sortField sortOrder = api_fetch ''GET'' ''/api/get-global-keys''
     [(''p'', page), (''pageSize'', pageSize), (''field'', field'), (''value'', value'), (''sortField'', sortField),
       (''sortOrder'', sortOrder)] lang None"

definition api_getKey :: "string \<Rightarrow> string \<Rightarrow> api_request" where
  "api_getKey owner name = api_fetch ''GET'' ''/api/get-key''
     [(''id'', record_id owner name)] lang None"

definition api_updateKey :: "string \<Rightarrow> string \<Rightarrow> jsval \<Rightarrow> api_request" where
  "api_updateKey owner name key = api_fetch ''POST'' ''/api/update-key''
     [(''id'', record_id owner name)] (json @ lang) (Some (deepCopy key))"

definition api_addKey :: "jsval \<Rightarrow> api_request" where
  "api_addKey key = api_fetch ''POST'' ''/api/add-key''
     [] (json @ lang) (Some (deepCopy key))"

definition api_deleteKey :: "jsval \<Rightarrow> api_request" where
  "api_deleteKey key = api_fetch ''POST'' ''/api/delete-key''
     [] (json @ lang) (Some (deepCopy key))"

section \<open>\<open>LdapBackend.js\<close>\<close>

definition api_getLdaps :: "string \<Rightarrow> api_request" where
  "api_getLdaps owner = api_fetch ''GET'' ''/api/get-ldaps''
     [(''owner'', owner)] lang None"

definition api_getLdap :: "string \<Rightarrow> string \<Rightarrow> api_request" where
  "api_getLdap owner name = api_fetch ''GET'' ''/api/get-ldap''
     [(''id'', record_id owner name)] lang None"

definition api_addLdap :: "jsval \<Rightarrow> api_request" where
  "api_addLdap body = api_fetch ''POST'' ''/api/add-ldap''
     [] (json @ lang) (Some body)"

definition api_deleteLdap :: "jsval \<Rightarrow> api_request" where
  "api_deleteLdap body = api_fetch ''POST'' ''/api/delete-ldap''
     [] (json @ lang) (Some body)"

definition api_updateLdap :: "jsval \<Rightarrow> api_request" where
  "api_updateLdap body = api_fetch ''POST'' ''/api/update-ldap''
     [] (json @ lang) (Some body)"

definition api_getLdapUser :: "string \<Rightarrow> string \<Rightarrow> api_request" where
  "api_getLdapUser owner name = api_fetch ''GET'' ''/api/get-ldap-users''
     [(''id'', record_id owner name)] lang None"

definition api_syncUsers :: "string \<Rightarrow> string \<Rightarrow> jsval \<Rightarrow> api_request" where
  "api_syncUsers owner name body = api_fetch ''POST'' ''/api/sync-ldap-users''
     [(''id'', record_id owner name)] (json @ lang) (Some body)"

section \<open>\<open>ModelBackend.js\<close>\<close>

definition api_getModels :: "string \<Rightarrow> string \<Rightarrow> string \<Rightarrow> string \<Rightarrow> string \<Rightarrow> string \<Rightarrow> string \<Rightarrow> api_request" where
  "api_getModels owner page pageSize field' value' sortField sortOrder = api_fetch ''GET'' ''/api/get-models''
     [(''owner'', owner), (''p'', page), (''pageSize'', pageSize), (''field'', field'), (''value'', value'),
       (''sortField'', sortField), (''sortOrder'', sortOrder)] lang None"

definition api_getModel :: "string \<Rightarrow> string \<Rightarrow> api_request" where
  "api_getModel owner name = api_fetch ''GET'' ''/api/get-model''
     [(''id'', record_id owner name)] lang None"

definition api_updateModel :: "string \<Rightarrow> string \<Rightarrow> jsval \<Rightarrow> api_request" where
  "api_updateModel owner name model = api_fetch ''POST'' ''/api/update-model''
     [(''id'', record_id owner name)] (json @ lang) (Some (deepCopy model))"

definition api_addModel :: "jsval \<Rightarrow> api_request" where
  "api_addModel model = api_fetch ''POST'' ''/api/add-model''
     [] (json @ lang) (Some (deepCopy model))"

definition api_deleteModel :: "jsval \<Rightarrow> api_request" where
  "api_deleteModel model = api_fetch ''POST'' ''/api/delete-model''
     [] (json @ lang) (Some (deepCopy model))"

section \<open>\<open>OrderBackend.js\<close>\<close>

definition api_getOrders :: "string \<Rightarrow> string \<Rightarrow> string \<Rightarrow> string \<Rightarrow> string \<Rightarrow> string \<Rightarrow> string \<Rightarrow> api_request" where
  "api_getOrders owner page pageSize field' value' sortField sortOrder = api_fetch ''GET'' ''/api/get-orders''
     [(''owner'', owner), (''p'', page), (''pageSize'', pageSize), (''field'', field'), (''value'', value'),
       (''sortField'', sortField), (''sortOrder'', sortOrder)] lang None"

definition api_payOrder :: "string \<Rightarrow> string \<Rightarrow> string \<Rightarrow> string \<Rightarrow> api_request" where
  "api_payOrder owner name providerName paymentEnv = api_fetch ''POST'' ''/api/pay-order''
     [(''id'', record_id owner name), (''providerName'', encodeURIComponent providerName), (''paymentEnv'',
       paymentEnv)] lang None"

definition api_getUserOrders :: "string \<Rightarrow> string \<Rightarrow> api_request" where
  "api_getUserOrders owner user' = api_fetch ''GET'' ''/api/get-user-orders''
     [(''owner'', owner), (''user'', user')] lang None"

definition api_getOrder :: "string \<Rightarrow> string \<Rightarrow> api_request" where
  "api_getOrder owner name = api_fetch ''GET'' ''/api/get-order''
     [(''id'', record_id owner name)] lang None"

definition api_updateOrder :: "string \<Rightarrow> string \<Rightarrow> jsval \<Rightarrow> api_request" where
  "api_updateOrder owner name order' = api_fetch ''POST'' ''/api/update-order''
     [(''id'', record_id owner name)] (json @ lang) (Some (deepCopy order'))"

definition api_addOrder :: "jsval \<Rightarrow> api_request" where
  "api_addOrder order' = api_fetch ''POST'' ''/api/add-order''
     [] (json @ lang) (Some (deepCopy order'))"

definition api_deleteOrder :: "jsval \<Rightarrow> api_request" where
  "api_deleteOrder order' = api_fetch ''POST'' ''/api/delete-order''
     [] (json @ lang) (Some (deepCopy order'))"

definition api_cancelOrder :: "string \<Rightarrow> string \<Rightarrow> api_request" where
  "api_cancelOrder owner name = api_fetch ''POST'' ''/api/cancel-order''
     [(''id'', record_id owner name)] lang None"

section \<open>\<open>OrganizationBackend.js\<close>\<close>

definition api_getOrganizations :: "string \<Rightarrow> string \<Rightarrow> string \<Rightarrow> string \<Rightarrow> string \<Rightarrow> string \<Rightarrow> string \<Rightarrow> string \<Rightarrow> api_request" where
  "api_getOrganizations owner organizationName page pageSize field' value' sortField sortOrder = api_fetch ''GET'' ''/api/get-organizations''
     [(''owner'', owner), (''organizationName'', organizationName), (''p'', page), (''pageSize'', pageSize),
       (''field'', field'), (''value'', value'), (''sortField'', sortField), (''sortOrder'', sortOrder)] lang None"

definition api_getOrganization :: "string \<Rightarrow> string \<Rightarrow> api_request" where
  "api_getOrganization owner name = api_fetch ''GET'' ''/api/get-organization''
     [(''id'', record_id owner name)] lang None"

definition api_updateOrganization :: "string \<Rightarrow> string \<Rightarrow> jsval \<Rightarrow> api_request" where
  "api_updateOrganization owner name organization = api_fetch ''POST'' ''/api/update-organization''
     [(''id'', record_id owner name)] (json @ lang) (Some (deepCopy organization))"

definition api_addOrganization :: "jsval \<Rightarrow> api_request" where
  "api_addOrganization organization = api_fetch ''POST'' ''/api/add-organization''
     [] (json @ lang) (Some (deepCopy organization))"

definition api_deleteOrganization :: "jsval \<Rightarrow> api_request" where
  "api_deleteOrganization organization = api_fetch ''POST'' ''/api/delete-organization''
     [] (json @ lang) (Some (deepCopy organization))"

definition api_getDefaultApplication :: "string \<Rightarrow> string \<Rightarrow> api_request" where
  "api_getDefaultApplication owner name = api_fetch ''GET'' ''/api/get-default-application''
     [(''id'', record_id owner name)] lang None"

definition api_getOrganizationNames :: "string \<Rightarrow> api_request" where
  "api_getOrganizationNames owner = api_fetch ''GET'' ''/api/get-organization-names''
     [(''owner'', owner)] lang None"

section \<open>\<open>PaymentBackend.js\<close>\<close>

definition api_getPayments :: "string \<Rightarrow> string \<Rightarrow> string \<Rightarrow> string \<Rightarrow> string \<Rightarrow> string \<Rightarrow> string \<Rightarrow> api_request" where
  "api_getPayments owner page pageSize field' value' sortField sortOrder = api_fetch ''GET'' ''/api/get-payments''
     [(''owner'', owner), (''p'', page), (''pageSize'', pageSize), (''field'', field'), (''value'', value'),
       (''sortField'', sortField), (''sortOrder'', sortOrder)] lang None"

definition api_getPayment :: "string \<Rightarrow> string \<Rightarrow> api_request" where
  "api_getPayment owner name = api_fetch ''GET'' ''/api/get-payment''
     [(''id'', record_id owner name)] lang None"

definition api_updatePayment :: "string \<Rightarrow> string \<Rightarrow> jsval \<Rightarrow> api_request" where
  "api_updatePayment owner name payment = api_fetch ''POST'' ''/api/update-payment''
     [(''id'', record_id owner name)] (json @ lang) (Some (deepCopy payment))"

definition api_addPayment :: "jsval \<Rightarrow> api_request" where
  "api_addPayment payment = api_fetch ''POST'' ''/api/add-payment''
     [] (json @ lang) (Some (deepCopy payment))"

definition api_deletePayment :: "jsval \<Rightarrow> api_request" where
  "api_deletePayment payment = api_fetch ''POST'' ''/api/delete-payment''
     [] (json @ lang) (Some (deepCopy payment))"

definition api_invoicePayment :: "string \<Rightarrow> string \<Rightarrow> api_request" where
  "api_invoicePayment owner name = api_fetch ''POST'' ''/api/invoice-payment''
     [(''id'', record_id owner name)] lang None"

section \<open>\<open>PermissionBackend.js\<close>\<close>

definition api_getPermissions :: "string \<Rightarrow> string \<Rightarrow> string \<Rightarrow> string \<Rightarrow> string \<Rightarrow> string \<Rightarrow> string \<Rightarrow> api_request" where
  "api_getPermissions owner page pageSize field' value' sortField sortOrder = api_fetch ''GET'' ''/api/get-permissions''
     [(''owner'', owner), (''p'', page), (''pageSize'', pageSize), (''field'', field'), (''value'', value'),
       (''sortField'', sortField), (''sortOrder'', sortOrder)] lang None"

definition api_getPermissionsBySubmitter :: "api_request" where
  "api_getPermissionsBySubmitter = api_fetch ''GET'' ''/api/get-permissions-by-submitter''
     [] lang None"

definition api_getPermission :: "string \<Rightarrow> string \<Rightarrow> api_request" where
  "api_getPermission owner name = api_fetch ''GET'' ''/api/get-permission''
     [(''id'', record_id owner name)] lang None"

definition api_updatePermission :: "string \<Rightarrow> string \<Rightarrow> jsval \<Rightarrow> api_request" where
  "api_updatePermission owner name permission = api_fetch ''POST'' ''/api/update-permission''
     [(''id'', record_id owner name)] (json @ lang) (Some (deepCopy permission))"

definition api_addPermission :: "jsval \<Rightarrow> api_request" where
  "api_addPermission permission = api_fetch ''POST'' ''/api/add-permission''
     [] (json @ lang) (Some (deepCopy permission))"

definition api_deletePermission :: "jsval \<Rightarrow> api_request" where
  "api_deletePermission permission = api_fetch ''POST'' ''/api/delete-permission''
     [] (json @ lang) (Some (deepCopy permission))"

section \<open>\<open>PlanBackend.js\<close>\<close>

definition api_getPlans :: "string \<Rightarrow> string \<Rightarrow> string \<Rightarrow> string \<Rightarrow> string \<Rightarrow> string \<Rightarrow> string \<Rightarrow> api_request" where
  "api_getPlans owner page pageSize field' value' sortField sortOrder = api_fetch ''GET'' ''/api/get-plans''
     [(''owner'', owner), (''p'', page), (''pageSize'', pageSize), (''field'', field'), (''value'', value'),
       (''sortField'', sortField), (''sortOrder'', sortOrder)] lang None"

definition api_getPlan :: "string \<Rightarrow> string \<Rightarrow> string \<Rightarrow> api_request" where
  "api_getPlan owner name includeOption = api_fetch ''GET'' ''/api/get-plan''
     [(''id'', record_id owner name), (''includeOption'', includeOption)] lang None"

definition api_updatePlan :: "string \<Rightarrow> string \<Rightarrow> jsval \<Rightarrow> api_request" where
  "api_updatePlan owner name plan = api_fetch ''POST'' ''/api/update-plan''
     [(''id'', record_id owner name)] (json @ lang) (Some (deepCopy plan))"

definition api_addPlan :: "jsval \<Rightarrow> api_request" where
  "api_addPlan plan = api_fetch ''POST'' ''/api/add-plan''
     [] (json @ lang) (Some (deepCopy plan))"

definition api_deletePlan :: "jsval \<Rightarrow> api_request" where
  "api_deletePlan plan = api_fetch ''POST'' ''/api/delete-plan''
     [] (json @ lang) (Some (deepCopy plan))"

section \<open>\<open>PricingBackend.js\<close>\<close>

definition api_getPricings :: "string \<Rightarrow> string \<Rightarrow> string \<Rightarrow> string \<Rightarrow> string \<Rightarrow> string \<Rightarrow> string \<Rightarrow> api_request" where
  "api_getPricings owner page pageSize field' value' sortField sortOrder = api_fetch ''GET'' ''/api/get-pricings''
     [(''owner'', owner), (''p'', page), (''pageSize'', pageSize), (''field'', field'), (''value'', value'),
       (''sortField'', sortField), (''sortOrder'', sortOrder)] lang None"

definition api_getPricing :: "string \<Rightarrow> string \<Rightarrow> api_request" where
  "api_getPricing owner name = api_fetch ''GET'' ''/api/get-pricing''
     [(''id'', record_id owner name)] lang None"

definition api_updatePricing :: "string \<Rightarrow> string \<Rightarrow> jsval \<Rightarrow> api_request" where
  "api_updatePricing owner name pricing = api_fetch ''POST'' ''/api/update-pricing''
     [(''id'', record_id owner name)] (json @ lang) (Some (deepCopy pricing))"

definition api_addPricing :: "jsval \<Rightarrow> api_request" where
  "api_addPricing pricing = api_fetch ''POST'' ''/api/add-pricing''
     [] (json @ lang) (Some (deepCopy pricing))"

definition api_deletePricing :: "jsval \<Rightarrow> api_request" where
  "api_deletePricing pricing = api_fetch ''POST'' ''/api/delete-pricing''
     [] (json @ lang) (Some (deepCopy pricing))"

section \<open>\<open>ProductBackend.js\<close>\<close>

definition api_getProducts :: "string \<Rightarrow> string \<Rightarrow> string \<Rightarrow> string \<Rightarrow> string \<Rightarrow> string \<Rightarrow> string \<Rightarrow> api_request" where
  "api_getProducts owner page pageSize field' value' sortField sortOrder = api_fetch ''GET'' ''/api/get-products''
     [(''owner'', owner), (''p'', page), (''pageSize'', pageSize), (''field'', field'), (''value'', value'),
       (''sortField'', sortField), (''sortOrder'', sortOrder)] lang None"

definition api_getProduct :: "string \<Rightarrow> string \<Rightarrow> api_request" where
  "api_getProduct owner name = api_fetch ''GET'' ''/api/get-product''
     [(''id'', record_id owner name)] lang None"

definition api_updateProduct :: "string \<Rightarrow> string \<Rightarrow> jsval \<Rightarrow> api_request" where
  "api_updateProduct owner name product = api_fetch ''POST'' ''/api/update-product''
     [(''id'', record_id owner name)] (json @ lang) (Some (deepCopy product))"

definition api_addProduct :: "jsval \<Rightarrow> api_request" where
  "api_addProduct product = api_fetch ''POST'' ''/api/add-product''
     [] (json @ lang) (Some (deepCopy product))"

definition api_deleteProduct :: "jsval \<Rightarrow> api_request" where
  "api_deleteProduct product = api_fetch ''POST'' ''/api/delete-product''
     [] (json @ lang) (Some (deepCopy product))"

section \<open>\<open>ProviderBackend.js\<close>\<close>

definition api_getProviders :: "string \<Rightarrow> string \<Rightarrow> string \<Rightarrow> string \<Rightarrow> string \<Rightarrow> string \<Rightarrow> string \<Rightarrow> api_request" where
  "api_getProviders owner page pageSize field' value' sortField sortOrder = api_fetch ''GET'' ''/api/get-providers''
     [(''owner'', owner), (''p'', page), (''pageSize'', pageSize), (''field'', field'), (''value'', value'),
       (''sortField'', sortField), (''sortOrder'', sortOrder)] lang None"

definition api_getGlobalProviders :: "string \<Rightarrow> string \<Rightarrow> string \<Rightarrow> string \<Rightarrow> string \<Rightarrow> string \<Rightarrow> api_request" where
  "api_getGlobalProviders page pageSize field' value' sortField sortOrder = api_fetch ''GET'' ''/api/get-global-providers''
     [(''p'', page), (''pageSize'', pageSize), (''field'', field'), (''value'', value'), (''sortField'', sortField),
       (''sortOrder'', sortOrder)] lang None"

definition api_getProvider :: "string \<Rightarrow> string \<Rightarrow> api_request" where
  "api_getProvider owner name = api_fetch ''GET'' ''/api/get-provider''
     [(''id'', record_id owner name)] lang None"

definition api_updateProvider :: "string \<Rightarrow> string \<Rightarrow> jsval \<Rightarrow> api_request" where
  "api_updateProvider owner name provider' = api_fetch ''POST'' ''/api/update-provider''
     [(''id'', record_id owner name)] (json @ lang) (Some (deepCopy provider'))"

definition api_addProvider :: "jsval \<Rightarrow> api_request" where
  "api_addProvider provider' = api_fetch ''POST'' ''/api/add-provider''
     [] (json @ lang) (Some (deepCopy provider'))"

definition api_deleteProvider :: "jsval \<Rightarrow> api_request" where
  "api_deleteProvider provider' = api_fetch ''POST'' ''/api/delete-provider''
     [] (json @ lang) (Some (deepCopy provider'))"

section \<open>\<open>RecordBackend.js\<close>\<close>

definition api_getRecords :: "string \<Rightarrow> string \<Rightarrow> string \<Rightarrow> string \<Rightarrow> string \<Rightarrow> string \<Rightarrow> string \<Rightarrow> api_request" where
  "api_getRecords organizationName page pageSize field' value' sortField sortOrder = api_fetch ''GET'' ''/api/get-records''
     [(''organizationName'', organizationName), (''pageSize'', pageSize), (''p'', page), (''field'', field'),
       (''value'', value'), (''sortField'', sortField), (''sortOrder'', sortOrder)] lang None"

section \<open>\<open>ResourceBackend.js\<close>\<close>

definition api_getResources :: "string \<Rightarrow> string \<Rightarrow> string \<Rightarrow> string \<Rightarrow> string \<Rightarrow> string \<Rightarrow> string \<Rightarrow> string \<Rightarrow> api_request" where
  "api_getResources owner user' page pageSize field' value' sortField sortOrder = api_fetch ''GET'' ''/api/get-resources''
     [(''owner'', owner), (''user'', user'), (''p'', page), (''pageSize'', pageSize), (''field'', field'), (''value'',
       value'), (''sortField'', sortField), (''sortOrder'', sortOrder)] lang None"

definition api_getResource :: "string \<Rightarrow> string \<Rightarrow> api_request" where
  "api_getResource owner name = api_fetch ''GET'' ''/api/get-resource''
     [(''id'', record_id owner name)] lang None"

definition api_updateResource :: "string \<Rightarrow> string \<Rightarrow> jsval \<Rightarrow> api_request" where
  "api_updateResource owner name resource = api_fetch ''POST'' ''/api/update-resource''
     [(''id'', record_id owner name)] (json @ lang) (Some (deepCopy resource))"

definition api_addResource :: "jsval \<Rightarrow> api_request" where
  "api_addResource resource = api_fetch ''POST'' ''/api/add-resource''
     [] (json @ lang) (Some (deepCopy resource))"

definition api_deleteResource :: "jsval \<Rightarrow> string \<Rightarrow> api_request" where
  "api_deleteResource resource provider' = api_fetch ''POST'' ''/api/delete-resource''
     [(''provider'', provider')] (json @ lang) (Some (deepCopy resource))"

section \<open>\<open>RoleBackend.js\<close>\<close>

definition api_getRoles :: "string \<Rightarrow> string \<Rightarrow> string \<Rightarrow> string \<Rightarrow> string \<Rightarrow> string \<Rightarrow> string \<Rightarrow> api_request" where
  "api_getRoles owner page pageSize field' value' sortField sortOrder = api_fetch ''GET'' ''/api/get-roles''
     [(''owner'', owner), (''p'', page), (''pageSize'', pageSize), (''field'', field'), (''value'', value'),
       (''sortField'', sortField), (''sortOrder'', sortOrder)] lang None"

definition api_getRole :: "string \<Rightarrow> string \<Rightarrow> api_request" where
  "api_getRole owner name = api_fetch ''GET'' ''/api/get-role''
     [(''id'', record_id owner name)] lang None"

definition api_updateRole :: "string \<Rightarrow> string \<Rightarrow> jsval \<Rightarrow> api_request" where
  "api_updateRole owner name role = api_fetch ''POST'' ''/api/update-role''
     [(''id'', record_id owner name)] (json @ lang) (Some (deepCopy role))"

definition api_addRole :: "jsval \<Rightarrow> api_request" where
  "api_addRole role = api_fetch ''POST'' ''/api/add-role''
     [] (json @ lang) (Some (deepCopy role))"

definition api_deleteRole :: "jsval \<Rightarrow> api_request" where
  "api_deleteRole role = api_fetch ''POST'' ''/api/delete-role''
     [] (json @ lang) (Some (deepCopy role))"

section \<open>\<open>RuleBackend.js\<close>\<close>

definition api_getRules :: "string \<Rightarrow> string \<Rightarrow> string \<Rightarrow> string \<Rightarrow> string \<Rightarrow> api_request" where
  "api_getRules owner page pageSize sortField sortOrder = api_fetch ''GET'' ''/api/get-rules''
     [(''owner'', owner), (''p'', page), (''pageSize'', pageSize), (''sortField'', sortField), (''sortOrder'',
       sortOrder)] [] None"

definition api_getRule :: "string \<Rightarrow> string \<Rightarrow> api_request" where
  "api_getRule owner name = api_fetch ''GET'' ''/api/get-rule''
     [(''id'', record_id owner name)] [] None"

definition api_addRule :: "jsval \<Rightarrow> api_request" where
  "api_addRule rule' = api_fetch ''POST'' ''/api/add-rule''
     [] json (Some rule')"

definition api_updateRule :: "string \<Rightarrow> string \<Rightarrow> jsval \<Rightarrow> api_request" where
  "api_updateRule owner name rule' = api_fetch ''POST'' ''/api/update-rule''
     [(''id'', record_id owner name)] json (Some rule')"

definition api_deleteRule :: "jsval \<Rightarrow> api_request" where
  "api_deleteRule rule' = api_fetch ''POST'' ''/api/delete-rule''
     [] json (Some rule')"

section \<open>\<open>ServerBackend.js\<close>\<close>

definition api_getServers :: "string \<Rightarrow> string \<Rightarrow> string \<Rightarrow> string \<Rightarrow> string \<Rightarrow> string \<Rightarrow> string \<Rightarrow> api_request" where
  "api_getServers owner page pageSize field' value' sortField sortOrder = api_fetch ''GET'' ''/api/get-servers''
     [(''owner'', owner), (''p'', page), (''pageSize'', pageSize), (''field'', field'), (''value'', value'),
       (''sortField'', sortField), (''sortOrder'', sortOrder)] [] None"

definition api_getOnlineServers :: "api_request" where
  "api_getOnlineServers = api_fetch ''GET'' ''/api/get-online-servers''
     [] [] None"

definition api_getServer :: "string \<Rightarrow> string \<Rightarrow> api_request" where
  "api_getServer owner name = api_fetch ''GET'' ''/api/get-server''
     [(''id'', record_id owner name)] [] None"

definition api_updateServer :: "string \<Rightarrow> string \<Rightarrow> jsval \<Rightarrow> api_request" where
  "api_updateServer owner name server = api_fetch ''POST'' ''/api/update-server''
     [(''id'', record_id owner name)] json (Some (deepCopy server))"

definition api_addServer :: "jsval \<Rightarrow> api_request" where
  "api_addServer server = api_fetch ''POST'' ''/api/add-server''
     [] json (Some (deepCopy server))"

definition api_deleteServer :: "jsval \<Rightarrow> api_request" where
  "api_deleteServer server = api_fetch ''POST'' ''/api/delete-server''
     [] json (Some (deepCopy server))"

definition api_scanProvider :: "string \<Rightarrow> string \<Rightarrow> string \<Rightarrow> api_request" where
  "api_scanProvider owner name target = api_fetch ''GET'' ''/api/scan''
     [(''owner'', encodeURIComponent owner), (''name'', encodeURIComponent name), (''target'', encodeURIComponent
       target)] [] None"

definition api_syncIntranetServers :: "string \<Rightarrow> string \<Rightarrow> api_request" where
  "api_syncIntranetServers owner name = api_fetch ''POST'' ''/api/sync-intranet-servers''
     [(''owner'', encodeURIComponent owner), (''name'', encodeURIComponent name)] [] None"

definition api_getMcpAccessToken :: "string \<Rightarrow> string \<Rightarrow> api_request" where
  "api_getMcpAccessToken owner applicationName = api_fetch ''GET'' ''/api/get-mcp-access-token''
     [(''owner'', encodeURIComponent owner), (''applicationName'', encodeURIComponent applicationName)] [] None"

section \<open>\<open>SessionBackend.js\<close>\<close>

definition api_getSessions :: "string \<Rightarrow> string \<Rightarrow> string \<Rightarrow> string \<Rightarrow> string \<Rightarrow> string \<Rightarrow> string \<Rightarrow> api_request" where
  "api_getSessions owner page pageSize field' value' sortField sortOrder = api_fetch ''GET'' ''/api/get-sessions''
     [(''owner'', owner), (''p'', page), (''pageSize'', pageSize), (''field'', field'), (''value'', value'),
       (''sortField'', sortField), (''sortOrder'', sortOrder)] lang None"

section \<open>\<open>SiteBackend.js\<close>\<close>

definition api_getGlobalSites :: "api_request" where
  "api_getGlobalSites = api_fetch ''GET'' ''/api/get-global-sites''
     [] [] None"

definition api_getSites :: "string \<Rightarrow> string \<Rightarrow> string \<Rightarrow> string \<Rightarrow> string \<Rightarrow> string \<Rightarrow> string \<Rightarrow> api_request" where
  "api_getSites owner page pageSize field' value' sortField sortOrder = api_fetch ''GET'' ''/api/get-sites''
     [(''owner'', owner), (''p'', page), (''pageSize'', pageSize), (''field'', field'), (''value'', value'),
       (''sortField'', sortField), (''sortOrder'', sortOrder)] [] None"

definition api_getSite :: "string \<Rightarrow> string \<Rightarrow> api_request" where
  "api_getSite owner name = api_fetch ''GET'' ''/api/get-site''
     [(''id'', record_id owner name)] [] None"

definition api_updateSite :: "string \<Rightarrow> string \<Rightarrow> jsval \<Rightarrow> api_request" where
  "api_updateSite owner name site = api_fetch ''POST'' ''/api/update-site''
     [(''id'', record_id owner name)] json (Some (deepCopy site))"

definition api_addSite :: "jsval \<Rightarrow> api_request" where
  "api_addSite site = api_fetch ''POST'' ''/api/add-site''
     [] json (Some (deepCopy site))"

definition api_deleteSite :: "jsval \<Rightarrow> api_request" where
  "api_deleteSite site = api_fetch ''POST'' ''/api/delete-site''
     [] json (Some (deepCopy site))"

section \<open>\<open>SubscriptionBackend.js\<close>\<close>

definition api_getSubscriptions :: "string \<Rightarrow> string \<Rightarrow> string \<Rightarrow> string \<Rightarrow> string \<Rightarrow> string \<Rightarrow> string \<Rightarrow> api_request" where
  "api_getSubscriptions owner page pageSize field' value' sortField sortOrder = api_fetch ''GET'' ''/api/get-subscriptions''
     [(''owner'', owner), (''p'', page), (''pageSize'', pageSize), (''field'', field'), (''value'', value'),
       (''sortField'', sortField), (''sortOrder'', sortOrder)] lang None"

definition api_getSubscription :: "string \<Rightarrow> string \<Rightarrow> api_request" where
  "api_getSubscription owner name = api_fetch ''GET'' ''/api/get-subscription''
     [(''id'', record_id owner name)] lang None"

definition api_updateSubscription :: "string \<Rightarrow> string \<Rightarrow> jsval \<Rightarrow> api_request" where
  "api_updateSubscription owner name subscription = api_fetch ''POST'' ''/api/update-subscription''
     [(''id'', record_id owner name)] (json @ lang) (Some (deepCopy subscription))"

definition api_addSubscription :: "jsval \<Rightarrow> api_request" where
  "api_addSubscription subscription = api_fetch ''POST'' ''/api/add-subscription''
     [] (json @ lang) (Some (deepCopy subscription))"

definition api_deleteSubscription :: "jsval \<Rightarrow> api_request" where
  "api_deleteSubscription subscription = api_fetch ''POST'' ''/api/delete-subscription''
     [] (json @ lang) (Some (deepCopy subscription))"

section \<open>\<open>SyncerBackend.js\<close>\<close>

definition api_getSyncers :: "string \<Rightarrow> string \<Rightarrow> string \<Rightarrow> string \<Rightarrow> string \<Rightarrow> string \<Rightarrow> string \<Rightarrow> string \<Rightarrow> api_request" where
  "api_getSyncers owner organization page pageSize field' value' sortField sortOrder = api_fetch ''GET'' ''/api/get-syncers''
     [(''owner'', owner), (''organization'', encodeURIComponent organization), (''p'', page), (''pageSize'',
       pageSize), (''field'', field'), (''value'', value'), (''sortField'', sortField), (''sortOrder'',
       sortOrder)] lang None"

definition api_getSyncer :: "string \<Rightarrow> string \<Rightarrow> string \<Rightarrow> api_request" where
  "api_getSyncer owner name organization = api_fetch ''GET'' ''/api/get-syncer''
     [(''id'', record_id owner name), (''organization'', encodeURIComponent organization)] lang None"

definition api_updateSyncer :: "string \<Rightarrow> string \<Rightarrow> jsval \<Rightarrow> api_request" where
  "api_updateSyncer owner name syncer = api_fetch ''POST'' ''/api/update-syncer''
     [(''id'', record_id owner name)] (json @ lang) (Some (deepCopy syncer))"

definition api_addSyncer :: "jsval \<Rightarrow> api_request" where
  "api_addSyncer syncer = api_fetch ''POST'' ''/api/add-syncer''
     [] (json @ lang) (Some (deepCopy syncer))"

definition api_testSyncerDb :: "jsval \<Rightarrow> api_request" where
  "api_testSyncerDb syncer = api_fetch ''POST'' ''/api/test-syncer-db''
     [] (json @ lang) (Some (deepCopy syncer))"

definition api_deleteSyncer :: "jsval \<Rightarrow> api_request" where
  "api_deleteSyncer syncer = api_fetch ''POST'' ''/api/delete-syncer''
     [] (json @ lang) (Some (deepCopy syncer))"

definition api_runSyncer :: "string \<Rightarrow> string \<Rightarrow> string \<Rightarrow> api_request" where
  "api_runSyncer owner name organization = api_fetch ''GET'' ''/api/run-syncer''
     [(''id'', record_id owner name), (''organization'', encodeURIComponent organization)] lang None"

section \<open>\<open>SystemInfo.js\<close>\<close>

definition api_getSystemInfo :: "api_request" where
  "api_getSystemInfo = api_fetch ''GET'' ''/api/get-system-info''
     [] lang None"

definition api_getVersionInfo :: "api_request" where
  "api_getVersionInfo = api_fetch ''GET'' ''/api/get-version-info''
     [] lang None"

section \<open>\<open>TicketBackend.js\<close>\<close>

definition api_getTickets :: "string \<Rightarrow> string \<Rightarrow> string \<Rightarrow> string \<Rightarrow> string \<Rightarrow> string \<Rightarrow> string \<Rightarrow> api_request" where
  "api_getTickets owner page pageSize field' value' sortField sortOrder = api_fetch ''GET'' ''/api/get-tickets''
     [(''owner'', owner), (''p'', page), (''pageSize'', pageSize), (''field'', field'), (''value'', value'),
       (''sortField'', sortField), (''sortOrder'', sortOrder)] lang None"

definition api_getTicket :: "string \<Rightarrow> string \<Rightarrow> api_request" where
  "api_getTicket owner name = api_fetch ''GET'' ''/api/get-ticket''
     [(''id'', record_id owner name)] lang None"

definition api_updateTicket :: "string \<Rightarrow> string \<Rightarrow> jsval \<Rightarrow> api_request" where
  "api_updateTicket owner name ticket = api_fetch ''POST'' ''/api/update-ticket''
     [(''id'', record_id owner name)] (json @ lang) (Some (deepCopy ticket))"

definition api_addTicket :: "jsval \<Rightarrow> api_request" where
  "api_addTicket ticket = api_fetch ''POST'' ''/api/add-ticket''
     [] (json @ lang) (Some (deepCopy ticket))"

definition api_deleteTicket :: "jsval \<Rightarrow> api_request" where
  "api_deleteTicket ticket = api_fetch ''POST'' ''/api/delete-ticket''
     [] (json @ lang) (Some (deepCopy ticket))"

definition api_addTicketMessage :: "string \<Rightarrow> string \<Rightarrow> jsval \<Rightarrow> api_request" where
  "api_addTicketMessage owner name message = api_fetch ''POST'' ''/api/add-ticket-message''
     [(''id'', record_id owner name)] (json @ lang) (Some message)"

section \<open>\<open>TokenBackend.js\<close>\<close>

definition api_getTokens :: "string \<Rightarrow> string \<Rightarrow> string \<Rightarrow> string \<Rightarrow> string \<Rightarrow> string \<Rightarrow> string \<Rightarrow> string \<Rightarrow> api_request" where
  "api_getTokens owner organization page pageSize field' value' sortField sortOrder = api_fetch ''GET'' ''/api/get-tokens''
     [(''owner'', owner), (''organization'', organization), (''p'', page), (''pageSize'', pageSize), (''field'',
       field'), (''value'', value'), (''sortField'', sortField), (''sortOrder'', sortOrder)] lang None"

definition api_getToken :: "string \<Rightarrow> string \<Rightarrow> string \<Rightarrow> api_request" where
  "api_getToken owner name organization = api_fetch ''GET'' ''/api/get-token''
     [(''id'', record_id owner name), (''organization'', encodeURIComponent organization)] lang None"

definition api_updateToken :: "string \<Rightarrow> string \<Rightarrow> jsval \<Rightarrow> api_request" where
  "api_updateToken owner name token = api_fetch ''POST'' ''/api/update-token''
     [(''id'', record_id owner name)] (json @ lang) (Some (deepCopy token))"

definition api_addToken :: "jsval \<Rightarrow> api_request" where
  "api_addToken token = api_fetch ''POST'' ''/api/add-token''
     [] (json @ lang) (Some (deepCopy token))"

definition api_deleteToken :: "jsval \<Rightarrow> api_request" where
  "api_deleteToken token = api_fetch ''POST'' ''/api/delete-token''
     [] (json @ lang) (Some (deepCopy token))"

section \<open>\<open>TransactionBackend.js\<close>\<close>

definition api_getTransactions :: "string \<Rightarrow> string \<Rightarrow> string \<Rightarrow> string \<Rightarrow> string \<Rightarrow> string \<Rightarrow> string \<Rightarrow> api_request" where
  "api_getTransactions owner page pageSize field' value' sortField sortOrder = api_fetch ''GET'' ''/api/get-transactions''
     [(''owner'', owner), (''p'', page), (''pageSize'', pageSize), (''field'', field'), (''value'', value'),
       (''sortField'', sortField), (''sortOrder'', sortOrder)] lang None"

definition api_getTransaction :: "string \<Rightarrow> string \<Rightarrow> api_request" where
  "api_getTransaction owner name = api_fetch ''GET'' ''/api/get-transaction''
     [(''id'', record_id owner name)] lang None"

definition api_updateTransaction :: "string \<Rightarrow> string \<Rightarrow> jsval \<Rightarrow> api_request" where
  "api_updateTransaction owner name transaction = api_fetch ''POST'' ''/api/update-transaction''
     [(''id'', record_id owner name)] (json @ lang) (Some (deepCopy transaction))"

definition api_addTransaction :: "jsval \<Rightarrow> api_request" where
  "api_addTransaction transaction = api_fetch ''POST'' ''/api/add-transaction''
     [] (json @ lang) (Some (deepCopy transaction))"

definition api_deleteTransaction :: "jsval \<Rightarrow> api_request" where
  "api_deleteTransaction transaction = api_fetch ''POST'' ''/api/delete-transaction''
     [] (json @ lang) (Some (deepCopy transaction))"

section \<open>\<open>UserBackend.js\<close>\<close>

definition api_getGlobalUsers :: "string \<Rightarrow> string \<Rightarrow> string \<Rightarrow> string \<Rightarrow> string \<Rightarrow> string \<Rightarrow> api_request" where
  "api_getGlobalUsers page pageSize field' value' sortField sortOrder = api_fetch ''GET'' ''/api/get-global-users''
     [(''p'', page), (''pageSize'', pageSize), (''field'', field'), (''value'', value'), (''sortField'', sortField),
       (''sortOrder'', sortOrder)] lang None"

definition api_getUsers :: "string \<Rightarrow> string \<Rightarrow> string \<Rightarrow> string \<Rightarrow> string \<Rightarrow> string \<Rightarrow> string \<Rightarrow> string \<Rightarrow> api_request" where
  "api_getUsers owner page pageSize field' value' sortField sortOrder groupName = api_fetch ''GET'' ''/api/get-users''
     [(''owner'', owner), (''p'', page), (''pageSize'', pageSize), (''field'', field'), (''value'', value'),
       (''sortField'', sortField), (''sortOrder'', sortOrder), (''groupName'', groupName)] lang None"

definition api_getUser :: "string \<Rightarrow> string \<Rightarrow> api_request" where
  "api_getUser owner name = api_fetch ''GET'' ''/api/get-user''
     [(''id'', record_id owner name)] lang None"

definition api_updateUser :: "string \<Rightarrow> string \<Rightarrow> jsval \<Rightarrow> api_request" where
  "api_updateUser owner name user' = api_fetch ''POST'' ''/api/update-user''
     [(''id'', record_id owner name)] (json @ lang) (Some (deepCopy user'))"

definition api_addUser :: "jsval \<Rightarrow> api_request" where
  "api_addUser user' = api_fetch ''POST'' ''/api/add-user''
     [] (json @ lang) (Some (deepCopy user'))"

definition api_deleteUser :: "jsval \<Rightarrow> api_request" where
  "api_deleteUser user' = api_fetch ''POST'' ''/api/delete-user''
     [] (json @ lang) (Some (deepCopy user'))"

definition api_verifyCode :: "jsval \<Rightarrow> api_request" where
  "api_verifyCode values = api_fetch ''POST'' ''/api/verify-code''
     [] (json @ lang) (Some values)"

definition api_checkUserPassword :: "jsval \<Rightarrow> api_request" where
  "api_checkUserPassword values = api_fetch ''POST'' ''/api/check-user-password''
     [] [] (Some values)"

section \<open>\<open>VerificationBackend.js\<close>\<close>

definition api_getVerifications :: "string \<Rightarrow> string \<Rightarrow> string \<Rightarrow> string \<Rightarrow> string \<Rightarrow> string \<Rightarrow> string \<Rightarrow> string \<Rightarrow> api_request" where
  "api_getVerifications owner organization page pageSize field' value' sortField sortOrder = api_fetch ''GET'' ''/api/get-verifications''
     [(''owner'', owner), (''p'', page), (''pageSize'', pageSize), (''field'', field'), (''value'', value'),
       (''sortField'', sortField), (''sortOrder'', sortOrder)] lang None"

definition api_getVerification :: "string \<Rightarrow> string \<Rightarrow> api_request" where
  "api_getVerification owner name = api_fetch ''GET'' ''/api/get-verification''
     [(''id'', record_id owner name)] lang None"

section \<open>\<open>WebhookBackend.js\<close>\<close>

definition api_getWebhooks :: "string \<Rightarrow> string \<Rightarrow> string \<Rightarrow> string \<Rightarrow> string \<Rightarrow> string \<Rightarrow> string \<Rightarrow> string \<Rightarrow> api_request" where
  "api_getWebhooks owner organization page pageSize field' value' sortField sortOrder = api_fetch ''GET'' ''/api/get-webhooks''
     [(''owner'', owner), (''organization'', encodeURIComponent organization), (''p'', page), (''pageSize'',
       pageSize), (''field'', field'), (''value'', value'), (''sortField'', sortField), (''sortOrder'',
       sortOrder)] lang None"

definition api_getWebhook :: "string \<Rightarrow> string \<Rightarrow> string \<Rightarrow> api_request" where
  "api_getWebhook owner name organization = api_fetch ''GET'' ''/api/get-webhook''
     [(''id'', record_id owner name), (''organization'', encodeURIComponent organization)] lang None"

definition api_updateWebhook :: "string \<Rightarrow> string \<Rightarrow> jsval \<Rightarrow> api_request" where
  "api_updateWebhook owner name webhook = api_fetch ''POST'' ''/api/update-webhook''
     [(''id'', record_id owner name)] (json @ lang) (Some (deepCopy webhook))"

definition api_addWebhook :: "jsval \<Rightarrow> api_request" where
  "api_addWebhook webhook = api_fetch ''POST'' ''/api/add-webhook''
     [] (json @ lang) (Some (deepCopy webhook))"

definition api_deleteWebhook :: "jsval \<Rightarrow> api_request" where
  "api_deleteWebhook webhook = api_fetch ''POST'' ''/api/delete-webhook''
     [] (json @ lang) (Some (deepCopy webhook))"

section \<open>\<open>WebhookEventBackend.js\<close>\<close>

definition api_replayWebhookEvent :: "string \<Rightarrow> api_request" where
  "api_replayWebhookEvent eventId = api_fetch ''POST'' ''/api/replay-webhook-event''
     [(''id'', encodeURIComponent eventId)] lang None"

lemmas request_defs =
  api_getAdapters_def api_getAdapter_def api_updateAdapter_def api_addAdapter_def api_deleteAdapter_def
  api_UpdatePolicy_def api_AddPolicy_def api_RemovePolicy_def api_getPolicies_def api_getAgents_def
  api_getAgent_def api_updateAgent_def api_addAgent_def api_deleteAgent_def api_getApplications_def
  api_getApplicationsByOrganization_def api_getApplication_def api_getUserApplication_def
  api_updateApplication_def api_addApplication_def api_deleteApplication_def api_getCerts_def api_getCert_def
  api_updateCert_def api_addCert_def api_deleteCert_def api_refreshDomainExpire_def api_revokeConsent_def
  api_getCoupons_def api_getCoupon_def api_updateCoupon_def api_addCoupon_def api_deleteCoupon_def
  api_getEnforcers_def api_getEnforcer_def api_updateEnforcer_def api_addEnforcer_def api_deleteEnforcer_def
  api_getEntries_def api_getEntry_def api_getOpenClawSessionGraph_def api_updateEntry_def api_addEntry_def
  api_deleteEntry_def api_getGlobalForms_def api_getForms_def api_getForm_def api_updateForm_def api_addForm_def
  api_deleteForm_def api_getGroups_def api_getGroup_def api_updateGroup_def api_addGroup_def api_deleteGroup_def
  api_getInvitations_def api_getInvitation_def api_getInvitationCodeInfo_def api_updateInvitation_def
  api_addInvitation_def api_deleteInvitation_def api_verifyInvitation_def api_getKeys_def api_getGlobalKeys_def
  api_getKey_def api_updateKey_def api_addKey_def api_deleteKey_def api_getLdaps_def api_getLdap_def
  api_addLdap_def api_deleteLdap_def api_updateLdap_def api_getLdapUser_def api_syncUsers_def api_getModels_def
  api_getModel_def api_updateModel_def api_addModel_def api_deleteModel_def api_getOrders_def api_payOrder_def
  api_getUserOrders_def api_getOrder_def api_updateOrder_def api_addOrder_def api_deleteOrder_def
  api_cancelOrder_def api_getOrganizations_def api_getOrganization_def api_updateOrganization_def
  api_addOrganization_def api_deleteOrganization_def api_getDefaultApplication_def api_getOrganizationNames_def
  api_getPayments_def api_getPayment_def api_updatePayment_def api_addPayment_def api_deletePayment_def
  api_invoicePayment_def api_getPermissions_def api_getPermissionsBySubmitter_def api_getPermission_def
  api_updatePermission_def api_addPermission_def api_deletePermission_def api_getPlans_def api_getPlan_def
  api_updatePlan_def api_addPlan_def api_deletePlan_def api_getPricings_def api_getPricing_def
  api_updatePricing_def api_addPricing_def api_deletePricing_def api_getProducts_def api_getProduct_def
  api_updateProduct_def api_addProduct_def api_deleteProduct_def api_getProviders_def api_getGlobalProviders_def
  api_getProvider_def api_updateProvider_def api_addProvider_def api_deleteProvider_def api_getRecords_def
  api_getResources_def api_getResource_def api_updateResource_def api_addResource_def api_deleteResource_def
  api_getRoles_def api_getRole_def api_updateRole_def api_addRole_def api_deleteRole_def api_getRules_def
  api_getRule_def api_addRule_def api_updateRule_def api_deleteRule_def api_getServers_def
  api_getOnlineServers_def api_getServer_def api_updateServer_def api_addServer_def api_deleteServer_def
  api_scanProvider_def api_syncIntranetServers_def api_getMcpAccessToken_def api_getSessions_def
  api_getGlobalSites_def api_getSites_def api_getSite_def api_updateSite_def api_addSite_def api_deleteSite_def
  api_getSubscriptions_def api_getSubscription_def api_updateSubscription_def api_addSubscription_def
  api_deleteSubscription_def api_getSyncers_def api_getSyncer_def api_updateSyncer_def api_addSyncer_def
  api_testSyncerDb_def api_deleteSyncer_def api_runSyncer_def api_getSystemInfo_def api_getVersionInfo_def
  api_getTickets_def api_getTicket_def api_updateTicket_def api_addTicket_def api_deleteTicket_def
  api_addTicketMessage_def api_getTokens_def api_getToken_def api_updateToken_def api_addToken_def
  api_deleteToken_def api_getTransactions_def api_getTransaction_def api_updateTransaction_def
  api_addTransaction_def api_deleteTransaction_def api_getGlobalUsers_def api_getUsers_def api_getUser_def
  api_updateUser_def api_addUser_def api_deleteUser_def api_verifyCode_def api_checkUserPassword_def
  api_getVerifications_def api_getVerification_def api_getWebhooks_def api_getWebhook_def api_updateWebhook_def
  api_addWebhook_def api_deleteWebhook_def api_replayWebhookEvent_def

section \<open>Collections\<close>

text \<open>The requests that name a record by its owner and name, those that read and those that
  write; \<open>x\<close> is what else a request takes.\<close>

definition record_gets :: "(string \<Rightarrow> string \<Rightarrow> string \<Rightarrow> api_request) list" where
  "record_gets =
     [\<lambda>w n x. api_getAdapter w n,
      \<lambda>w n x. api_getPolicies w n x,
      \<lambda>w n x. api_getAgent w n,
      \<lambda>w n x. api_getApplication w n,
      \<lambda>w n x. api_getUserApplication w n,
      \<lambda>w n x. api_getCert w n,
      \<lambda>w n x. api_getCoupon w n,
      \<lambda>w n x. api_getEnforcer w n x,
      \<lambda>w n x. api_getEntry w n,
      \<lambda>w n x. api_getOpenClawSessionGraph w n,
      \<lambda>w n x. api_getForm w n,
      \<lambda>w n x. api_getGroup w n,
      \<lambda>w n x. api_getInvitation w n,
      \<lambda>w n x. api_verifyInvitation w n,
      \<lambda>w n x. api_getKey w n,
      \<lambda>w n x. api_getLdap w n,
      \<lambda>w n x. api_getLdapUser w n,
      \<lambda>w n x. api_getModel w n,
      \<lambda>w n x. api_getOrder w n,
      \<lambda>w n x. api_getOrganization w n,
      \<lambda>w n x. api_getDefaultApplication w n,
      \<lambda>w n x. api_getPayment w n,
      \<lambda>w n x. api_getPermission w n,
      \<lambda>w n x. api_getPlan w n x,
      \<lambda>w n x. api_getPricing w n,
      \<lambda>w n x. api_getProduct w n,
      \<lambda>w n x. api_getProvider w n,
      \<lambda>w n x. api_getResource w n,
      \<lambda>w n x. api_getRole w n,
      \<lambda>w n x. api_getRule w n,
      \<lambda>w n x. api_getServer w n,
      \<lambda>w n x. api_getSite w n,
      \<lambda>w n x. api_getSubscription w n,
      \<lambda>w n x. api_getSyncer w n x,
      \<lambda>w n x. api_runSyncer w n x,
      \<lambda>w n x. api_getTicket w n,
      \<lambda>w n x. api_getToken w n x,
      \<lambda>w n x. api_getTransaction w n,
      \<lambda>w n x. api_getUser w n,
      \<lambda>w n x. api_getVerification w n,
      \<lambda>w n x. api_getWebhook w n x]"

definition record_posts :: "(string \<times> (string \<Rightarrow> string \<Rightarrow> string \<Rightarrow> jsval \<Rightarrow> api_request)) list" where
  "record_posts =
     [(''update-adapter'', \<lambda>w n x b. api_updateAdapter w n b),
      (''update-policy'', \<lambda>w n x b. api_UpdatePolicy w n b),
      (''add-policy'', \<lambda>w n x b. api_AddPolicy w n b),
      (''remove-policy'', \<lambda>w n x b. api_RemovePolicy w n b),
      (''update-agent'', \<lambda>w n x b. api_updateAgent w n b),
      (''update-application'', \<lambda>w n x b. api_updateApplication w n b),
      (''update-cert'', \<lambda>w n x b. api_updateCert w n b),
      (''update-cert-domain-expire'', \<lambda>w n x b. api_refreshDomainExpire w n),
      (''update-coupon'', \<lambda>w n x b. api_updateCoupon w n b),
      (''update-enforcer'', \<lambda>w n x b. api_updateEnforcer w n b),
      (''update-entry'', \<lambda>w n x b. api_updateEntry w n b),
      (''update-form'', \<lambda>w n x b. api_updateForm w n b),
      (''update-group'', \<lambda>w n x b. api_updateGroup w n b),
      (''update-invitation'', \<lambda>w n x b. api_updateInvitation w n b),
      (''update-key'', \<lambda>w n x b. api_updateKey w n b),
      (''sync-ldap-users'', \<lambda>w n x b. api_syncUsers w n b),
      (''update-model'', \<lambda>w n x b. api_updateModel w n b),
      (''pay-order'', \<lambda>w n x b. api_payOrder w n x x),
      (''update-order'', \<lambda>w n x b. api_updateOrder w n b),
      (''cancel-order'', \<lambda>w n x b. api_cancelOrder w n),
      (''update-organization'', \<lambda>w n x b. api_updateOrganization w n b),
      (''update-payment'', \<lambda>w n x b. api_updatePayment w n b),
      (''invoice-payment'', \<lambda>w n x b. api_invoicePayment w n),
      (''update-permission'', \<lambda>w n x b. api_updatePermission w n b),
      (''update-plan'', \<lambda>w n x b. api_updatePlan w n b),
      (''update-pricing'', \<lambda>w n x b. api_updatePricing w n b),
      (''update-product'', \<lambda>w n x b. api_updateProduct w n b),
      (''update-provider'', \<lambda>w n x b. api_updateProvider w n b),
      (''update-resource'', \<lambda>w n x b. api_updateResource w n b),
      (''update-role'', \<lambda>w n x b. api_updateRole w n b),
      (''update-rule'', \<lambda>w n x b. api_updateRule w n b),
      (''update-server'', \<lambda>w n x b. api_updateServer w n b),
      (''update-site'', \<lambda>w n x b. api_updateSite w n b),
      (''update-subscription'', \<lambda>w n x b. api_updateSubscription w n b),
      (''update-syncer'', \<lambda>w n x b. api_updateSyncer w n b),
      (''update-ticket'', \<lambda>w n x b. api_updateTicket w n b),
      (''add-ticket-message'', \<lambda>w n x b. api_addTicketMessage w n b),
      (''update-token'', \<lambda>w n x b. api_updateToken w n b),
      (''update-transaction'', \<lambda>w n x b. api_updateTransaction w n b),
      (''update-user'', \<lambda>w n x b. api_updateUser w n b),
      (''update-webhook'', \<lambda>w n x b. api_updateWebhook w n b)]"

text \<open>The requests for a page of a list, by the text that is searched for.\<close>

definition list_gets :: "(string \<Rightarrow> string \<Rightarrow> string \<Rightarrow> string \<Rightarrow> string \<Rightarrow> string \<Rightarrow> string \<Rightarrow> string \<Rightarrow> api_request) list" where
  "list_gets =
     [\<lambda>w p ps fld v sf so x. api_getAdapters w p ps fld v sf so,
      \<lambda>w p ps fld v sf so x. api_getAgents w p ps fld v sf so,
      \<lambda>w p ps fld v sf so x. api_getApplications w p ps fld v sf so,
      \<lambda>w p ps fld v sf so x. api_getCerts w p ps fld v sf so,
      \<lambda>w p ps fld v sf so x. api_getCoupons w p ps fld v sf so,
      \<lambda>w p ps fld v sf so x. api_getEnforcers w p ps fld v sf so,
      \<lambda>w p ps fld v sf so x. api_getEntries w p ps fld v sf so,
      \<lambda>w p ps fld v sf so x. api_getForms w p ps fld v sf so,
      \<lambda>w p ps fld v sf so x. api_getGroups w x p ps fld v sf so,
      \<lambda>w p ps fld v sf so x. api_getInvitations w p ps fld v sf so,
      \<lambda>w p ps fld v sf so x. api_getKeys w p ps fld v sf so,
      \<lambda>w p ps fld v sf so x. api_getModels w p ps fld v sf so,
      \<lambda>w p ps fld v sf so x. api_getOrders w p ps fld v sf so,
      \<lambda>w p ps fld v sf so x. api_getPayments w p ps fld v sf so,
      \<lambda>w p ps fld v sf so x. api_getPermissions w p ps fld v sf so,
      \<lambda>w p ps fld v sf so x. api_getPlans w p ps fld v sf so,
      \<lambda>w p ps fld v sf so x. api_getPricings w p ps fld v sf so,
      \<lambda>w p ps fld v sf so x. api_getProducts w p ps fld v sf so,
      \<lambda>w p ps fld v sf so x. api_getProviders w p ps fld v sf so,
      \<lambda>w p ps fld v sf so x. api_getRoles w p ps fld v sf so,
      \<lambda>w p ps fld v sf so x. api_getServers w p ps fld v sf so,
      \<lambda>w p ps fld v sf so x. api_getSessions w p ps fld v sf so,
      \<lambda>w p ps fld v sf so x. api_getSites w p ps fld v sf so,
      \<lambda>w p ps fld v sf so x. api_getSubscriptions w p ps fld v sf so,
      \<lambda>w p ps fld v sf so x. api_getTickets w p ps fld v sf so,
      \<lambda>w p ps fld v sf so x. api_getTransactions w p ps fld v sf so,
      \<lambda>w p ps fld v sf so x. api_getUsers w p ps fld v sf so x,
      \<lambda>w p ps fld v sf so x. api_getVerifications w x p ps fld v sf so]"

section \<open>What the server reads\<close>

text \<open>
  The query that reaches the server ends at the first \<open>#\<close>. An identifier is split at its first \<open>/\<close>
  (\<open>GetOwnerAndNameFromIdNoCheck\<close> in \<open>util/string.go\<close>).
\<close>

definition sent_params :: "api_request \<Rightarrow> (string \<times> string) list" where
  "sent_params r = URLSearchParams (dropWhile (\<lambda>c. c \<noteq> CHR ''?'') (takeWhile (\<lambda>c. c \<noteq> CHR ''#'') (rq_url r)))"

definition split_id :: "string \<Rightarrow> string \<times> string" where
  "split_id s = (takeWhile (\<lambda>c. c \<noteq> CHR ''/'') s, drop 1 (dropWhile (\<lambda>c. c \<noteq> CHR ''/'') s))"

fun pair_text :: "string \<times> string \<Rightarrow> string" where
  "pair_text (k, v) = k @ CHR ''='' # v"

definition params_text :: "(string \<times> string) list \<Rightarrow> string" where
  "params_text ps = js_join ''&'' (map pair_text ps)"

definition read_param :: "string \<Rightarrow> (string \<times> string) list \<Rightarrow> string option" where
  "read_param k ps = usp_get (parse_pairs (takeWhile (\<lambda>c. c \<noteq> CHR ''#'') (params_text ps))) k"

lemma params_text_simps [simp]:
  "params_text [] = []"
  "params_text [p] = pair_text p"
  "params_text (p # q # ps) = pair_text p @ CHR ''&'' # params_text (q # ps)"
  by (simp_all add: params_text_def)

lemma query_text: "query ps = CHR ''?'' # params_text ps"
proof -
  have "(\<lambda>(k, v). k @ ''='' @ v) = pair_text" by (intro ext) (auto split: prod.splits)
  then show ?thesis by (simp add: query_def params_text_def)
qed

text \<open>An address without a \<open>?\<close> or \<open>#\<close> in its path carries the pairs of its query up to the first \<open>#\<close>.\<close>

definition plain_path :: "string \<Rightarrow> bool" where
  "plain_path p = list_all (\<lambda>c. c \<noteq> CHR ''?'' \<and> c \<noteq> CHR ''#'') p"

lemma takeWhile_pass: "list_all P xs \<Longrightarrow> takeWhile P (xs @ ys) = xs @ takeWhile P ys"
  by (induction xs) auto

lemma dropWhile_pass: "list_all P xs \<Longrightarrow> dropWhile P (xs @ ys) = dropWhile P ys"
  by (induction xs) auto

lemma sent_params_query:
  assumes "plain_path (rq_path r)" "rq_params r \<noteq> []"
  shows "usp_get (sent_params r) k = read_param k (rq_params r)"
proof -
  have "list_all (\<lambda>c. c \<noteq> CHR ''#'') (rq_path r)" "list_all (\<lambda>c. c \<noteq> CHR ''?'') (rq_path r)"
    using assms(1) by (auto simp: plain_path_def list_all_iff)
  then show ?thesis using assms(2)
    by (simp add: sent_params_def rq_url_def query_text takeWhile_pass dropWhile_pass URLSearchParams_def
        read_param_def)
qed

text \<open>The value of the first pair of a query ends at the first \<open>&\<close> or \<open>#\<close> that was not encoded.\<close>

lemma parse_pairs_first:
  assumes "list_all (\<lambda>c. c \<notin> set ''&='') k" "form_decode k = k"
  shows "usp_get (parse_pairs (k @ CHR ''='' # u)) k = Some (form_decode (takeWhile (\<lambda>c. c \<noteq> CHR ''&'') u))"
proof -
  have k: "CHR ''&'' \<notin> set k" "CHR ''='' \<notin> set k" using assms(1) by (auto simp: list_all_iff)
  show ?thesis
  proof (cases "CHR ''&'' \<in> set u")
    case True
    then obtain y z where u: "u = y @ CHR ''&'' # z" "CHR ''&'' \<notin> set y" by (meson split_list_first)
    have "list_all (\<lambda>c. c \<noteq> CHR ''&'') y" using u(2) by (auto simp: list_all_iff)
    then have "takeWhile (\<lambda>c. c \<noteq> CHR ''&'') u = y" by (simp add: u(1) takeWhile_pass)
    then show ?thesis
      using parse_pairs_append [of "k @ CHR ''='' # y" z] parse_pairs_single [OF k u(2)] assms(2)
      by (simp add: u(1) usp_get_append)
  next
    case False
    then have "takeWhile (\<lambda>c. c \<noteq> CHR ''&'') u = u" by (auto simp: takeWhile_eq_all_conv)
    then show ?thesis using parse_pairs_single [OF k False] assms(2) by (simp del: takeWhile_eq_all_conv)
  qed
qed

lemma takeWhile_cut:
  "t = [] \<or> hd t = CHR ''&'' \<Longrightarrow> takeWhile (\<lambda>c. c \<noteq> CHR ''&'') (takeWhile (\<lambda>c. c \<noteq> CHR ''#'') (v @ t))
    = takeWhile (\<lambda>c. c \<notin> set ''&#'') v"
proof (induction v)
  case Nil
  then show ?case by (cases t) auto
qed auto

lemma params_text_Cons:
  "\<exists>t. params_text ((k, v) # ps) = k @ CHR ''='' # v @ t \<and> (t = [] \<or> hd t = CHR ''&'')"
  by (cases ps) auto

lemma read_param_first:
  assumes "list_all (\<lambda>c. c \<notin> set ''&=#'') k" "form_decode k = k"
  shows "read_param k ((k, v) # ps) = Some (form_decode (takeWhile (\<lambda>c. c \<notin> set ''&#'') v))"
proof -
  obtain t where t: "params_text ((k, v) # ps) = k @ CHR ''='' # v @ t" "t = [] \<or> hd t = CHR ''&''"
    using params_text_Cons by blast
  have "list_all (\<lambda>c. c \<notin> set ''&='') k" "list_all (\<lambda>c. c \<noteq> CHR ''#'') k"
    using assms(1) by (auto simp: list_all_iff)
  then show ?thesis
    by (simp add: read_param_def t(1) takeWhile_pass parse_pairs_first assms(2) takeWhile_cut [OF t(2)])
qed

text \<open>A pair with an unreserved key and value is read as it stands and does not disturb the next one.\<close>

lemma form_decode_unreserved: "list_all uri_unreserved s \<Longrightarrow> form_decode s = s"
  by (induction s) (auto dest: uri_unreserved_not_pct)

lemma encode_unreserved: "list_all uri_unreserved s \<Longrightarrow> encodeURIComponent s = s"
  by (induction s) (simp_all add: encodeURIComponent_Cons)

lemma unreserved_no_sep: "list_all uri_unreserved s \<Longrightarrow> list_all (\<lambda>c. c \<notin> set ''&=#?/+%'') s"
  by (induction s) (auto simp: uri_unreserved_def is_alpha_def is_lower_def is_upper_def is_digit_def)

lemma read_param_skip:
  assumes "list_all uri_unreserved k" "list_all uri_unreserved v" "k \<noteq> k'"
  shows "read_param k' ((k, v) # q # ps) = read_param k' (q # ps)"
proof -
  have k: "CHR ''&'' \<notin> set k" "CHR ''='' \<notin> set k" "CHR ''&'' \<notin> set v"
    using unreserved_no_sep [OF assms(1)] unreserved_no_sep [OF assms(2)] by (auto simp: list_all_iff)
  have "list_all (\<lambda>c. c \<noteq> CHR ''#'') (k @ CHR ''='' # v)"
    using unreserved_no_sep [OF assms(1)] unreserved_no_sep [OF assms(2)] by (auto simp: list_all_iff)
  then have "takeWhile (\<lambda>c. c \<noteq> CHR ''#'') (params_text ((k, v) # q # ps))
      = (k @ CHR ''='' # v) @ CHR ''&'' # takeWhile (\<lambda>c. c \<noteq> CHR ''#'') (params_text (q # ps))"
    using takeWhile_pass [of _ "k @ CHR ''='' # v"] by (simp del: list_all_append)
  then show ?thesis
    unfolding read_param_def
    using assms(3) by (simp only: parse_pairs_append parse_pairs_single [OF k] usp_get_append)
      (simp add: form_decode_unreserved assms(1))
qed

lemma form_decode_plain_append:
  "list_all uri_unreserved s \<Longrightarrow> form_decode (s @ t) = s @ form_decode t"
  by (induction s) (auto dest: uri_unreserved_not_pct)

lemma form_decode_record_id:
  "list_all uri_unreserved owner \<Longrightarrow> form_decode (record_id owner name) = owner @ CHR ''/'' # name"
  by (simp add: record_id_def form_decode_plain_append form_decode_encode)

lemma record_id_no_sep:
  assumes "list_all uri_unreserved owner"
  shows "list_all (\<lambda>c. c \<notin> set ''&#'') (record_id owner name)"
proof -
  have "list_all (\<lambda>c. c \<notin> set ''&#'') owner"
    using unreserved_no_sep [OF assms] by (auto simp: list_all_iff)
  moreover have "list_all (\<lambda>c. c \<notin> set ''&#'') (encodeURIComponent name)"
    using encodeURIComponent_no_sep [of "CHR ''&''" name] encodeURIComponent_no_sep [of "CHR ''#''" name]
    by (auto simp: list_all_iff)
  ultimately show ?thesis by (simp add: record_id_def)
qed

lemma split_id_record:
  assumes "list_all uri_unreserved owner"
  shows "split_id (owner @ CHR ''/'' # name) = (owner, name)"
proof -
  have "list_all (\<lambda>c. c \<noteq> CHR ''/'') owner"
    using unreserved_no_sep [OF assms] by (auto simp: list_all_iff)
  then show ?thesis by (simp add: split_id_def takeWhile_pass dropWhile_pass)
qed

text \<open>A request that names a record: its path is plain and its first pair is the identifier.\<close>

definition names_record :: "string \<Rightarrow> string \<Rightarrow> api_request \<Rightarrow> bool" where
  "names_record owner name r \<longleftrightarrow>
     plain_path (rq_path r) \<and> rq_params r \<noteq> [] \<and> hd (rq_params r) = (''id'', record_id owner name)"

lemma names_record_read:
  assumes "names_record owner name r" "list_all uri_unreserved owner"
  shows "map_option split_id (usp_get (sent_params r) ''id'') = Some (owner, name)"
proof -
  obtain ps where ps: "rq_params r = (''id'', record_id owner name) # ps"
    using assms(1) by (cases "rq_params r") (auto simp: names_record_def)
  have "takeWhile (\<lambda>c. c \<notin> set ''&#'') (record_id owner name) = record_id owner name"
    using takeWhile_pass [OF record_id_no_sep [OF assms(2)], of name "[]"] by simp
  then have "usp_get (sent_params r) ''id'' = Some (form_decode (record_id owner name))"
    using assms(1) by (simp add: names_record_def sent_params_query ps read_param_first del: takeWhile_eq_all_conv)
  then show ?thesis by (simp add: form_decode_record_id [OF assms(2)] split_id_record [OF assms(2)])
qed

lemmas request_shape = names_record_def api_fetch_def plain_path_def

lemma record_gets_name:
  "list_all (\<lambda>f. names_record owner name (f owner name x) \<and> rq_method (f owner name x) = ''GET''
     \<and> rq_body (f owner name x) = None) record_gets"
  by (simp add: record_gets_def request_defs request_shape)

lemma record_posts_name:
  "list_all (\<lambda>(api, f). names_record owner name (f owner name x b) \<and> rq_method (f owner name x b) = ''POST''
     \<and> rq_path (f owner name x b) = ''/api/'' @ api) record_posts"
  by (simp add: record_posts_def request_defs request_shape)

lemma edit_pages_saved:
  "list_all (\<lambda>(nm, _). map_of record_posts (''update-'' @ nm) \<noteq> None) (edit_pages parseFloat)"
  by code_simp



lemma list_gets_params:
  "list_all (\<lambda>f. plain_path (rq_path (f w p n c v sf so x))
     \<and> take 5 (rq_params (f w p n c v sf so x)) = [(''owner'', w), (''p'', p), (''pageSize'', n), (''field'', c), (''value'', v)])
     list_gets"
  by (simp add: list_gets_def request_defs api_fetch_def plain_path_def)

text \<open>
  The text that a list is searched for is not encoded: what the server reads as the search value
  ends before its first \<open>&\<close> or \<open>#\<close> on each of the lists, so that another set of rows is found than the one
  asked for.
\<close>

lemma search_text_cut:
  assumes "f \<in> set list_gets" "list_all uri_unreserved owner" "list_all uri_unreserved page"
    "list_all uri_unreserved pageSize" "list_all uri_unreserved col"
    "CHR ''+'' \<notin> set v" "CHR ''%'' \<notin> set v"
  shows "usp_get (sent_params (f owner page pageSize col v sortField sortOrder x)) ''value''
    = Some (takeWhile (\<lambda>c. c \<notin> set ''&#'') v)"
proof -
  let ?r = "f owner page pageSize col v sortField sortOrder x"
  obtain ps where r: "plain_path (rq_path ?r)" "rq_params ?r = [(''owner'', owner), (''p'', page),
      (''pageSize'', pageSize), (''field'', col), (''value'', v)] @ ps"
    using list_gets_params [of owner page pageSize col v sortField sortOrder x] assms(1)
    unfolding list_all_iff by (metis append_take_drop_id)
  have plain: "list_all uri_unreserved ''owner''" "list_all uri_unreserved ''p''"
    "list_all uri_unreserved ''pageSize''" "list_all uri_unreserved ''field''" by code_simp+
  have cut: "form_decode (takeWhile (\<lambda>c. c \<notin> set ''&#'') v) = takeWhile (\<lambda>c. c \<notin> set ''&#'') v"
    using assms(6,7) by (intro form_decode_plain) (auto dest: set_takeWhileD)
  show ?thesis
    using cut by (simp add: sent_params_query r read_param_skip [OF plain(1) assms(2)]
      read_param_skip [OF plain(2) assms(3)] read_param_skip [OF plain(3) assms(4)]
      read_param_skip [OF plain(4) assms(5)] read_param_first)
qed

lemma search_text_cut_example:
  "usp_get (sent_params (api_getRoles ''org-1'' ''1'' ''10'' ''name'' ''R&D'' [] [])) ''value'' = Some ''R''"
proof -
  have "(\<lambda>w p ps fld v sf so x. api_getRoles w p ps fld v sf so) \<in> set list_gets" by (simp add: list_gets_def)
  moreover have "list_all uri_unreserved ''org-1''" "list_all uri_unreserved ''1''"
    "list_all uri_unreserved ''10''" "list_all uri_unreserved ''name''" by code_simp+
  ultimately show ?thesis
    using search_text_cut [of "\<lambda>w p ps fld v sf so x. api_getRoles w p ps fld v sf so" "''org-1''" "''1''" "''10''"
      "''name''" "''R&D''" "[]" "[]" "[]"] by simp
qed

end
