(* ===== verification/List_Page.thy ===== *)
theory List_Page
  imports Console_Requests
begin

text \<open>
  What the list pages share: \<open>web/src/BaseListPage.js\<close> with the state of a table that is filled page by
  page from the server, and the functions of \<open>Setting.js\<close> that choose the organization. A page sends
  requests and goes on; \<open>ls_pending\<close> is the list of continuations that wait for an answer, which may
  come in any order. A request is recorded among the effects as the function of \<open>Console_Requests\<close>
  builds it. A parameter of such a function that is \<open>undefined\<close> takes its default, the empty text.
\<close>

section \<open>State\<close>

text \<open>The page and its size are missing after \<open>removeUserFromGroup\<close>.\<close>

record paging =
  pg_current :: "int option"
  pg_pageSize :: "int option"
  pg_total :: jsval

text \<open>The parameter of \<open>fetch\<close>: what is missing is \<open>undefined\<close>; \<open>lp_filters\<close> are the filters spread into it.\<close>

record list_params =
  lp_pagination :: paging
  lp_searchText :: jsval
  lp_searchedColumn :: jsval
  lp_sortField :: jsval
  lp_sortOrder :: jsval
  lp_filters :: "string \<Rightarrow> jsval"

record list_answer = answer +
  an_data2 :: jsval

datatype list_reply = Listed list_answer | Unanswered string

datatype list_output =
    LPush string
  | LPushMode string string
  | LPushNew string string jsval
  | LShow string string
  | LSend api_request
  | LFire string
  | LStore string string

datatype list_pending =
    RowsFor list_params
  | RowDeleted
  | RowAdded jsval
  | Called string
  | FormWithTag string
  | FormWithoutTag

record list_page =
  ls_data :: "jsval list option"
  ls_pagination :: paging
  ls_loading :: bool
  ls_searchText :: jsval
  ls_searchedColumn :: jsval
  ls_isAuthorized :: bool
  ls_formItems :: jsval
  ls_account :: account
  ls_selected :: "string option"
  ls_organizationName :: string
  ls_routeOrganization :: "string option"
  ls_groupName :: "string option"
  ls_path :: string
  ls_more :: "string \<Rightarrow> jsval"
  ls_pending :: "list_pending list"
  ls_effects :: "list_output list"

type_synonym list_act = "list_page \<Rightarrow> list_page"

named_theorems list_acts \<open>the actions the handlers of list pages are made of\<close>
named_theorems list_defs \<open>the handlers of the list pages\<close>

definition list_effect :: "list_output \<Rightarrow> list_act" where [list_acts]:
  "list_effect e s = s\<lparr>ls_effects := ls_effects s @ [e]\<rparr>"

definition list_show :: "string \<Rightarrow> string \<Rightarrow> list_act" where [list_acts]:
  "list_show kind content = list_effect (LShow kind content)"

definition call_api :: "api_request \<Rightarrow> list_pending \<Rightarrow> list_act" where [list_acts]:
  "call_api rq k s = (list_effect (LSend rq) s)\<lparr>ls_pending := ls_pending s @ [k]\<rparr>"

text \<open>The text of an argument with the default \<open>""\<close>.\<close>

definition opt_arg :: "jsval \<Rightarrow> string" where
  "opt_arg v = (if v = JUndefined then [] else js_text v)"

section \<open>Organizations: \<open>Setting.js\<close>\<close>

text \<open>The browser as the functions of \<open>Sign_In_Rules\<close> see it: the stored choice of an organization.\<close>

definition list_browser :: "list_page \<Rightarrow> browser" where
  "list_browser s = (fresh_browser [] [] [])\<lparr>br_local := (\<lambda>k. if k = ''organization'' then ls_selected s else None)\<rparr>"

text \<open>The message in Chinese is its UTF-8 bytes.\<close>

definition isResponseDenied :: "list_answer \<Rightarrow> bool" where
  "isResponseDenied res =
     (an_msg res = ''Unauthorized operation''
      \<or> an_msg res = map char_of [0xE6, 0x9C, 0xAA, 0xE6, 0x8E, 0x88, 0xE6, 0x9D, 0x83, 0xE7, 0x9A, 0x84,
          0xE6, 0x93, 0x8D, 0xE4, 0xBD, 0x9C :: nat])"

definition request_owner :: "list_page \<Rightarrow> string" where [list_acts]:
  "request_owner s =
     (case getRequestOrganization (list_browser s) (Some (ls_account s)) of Return w \<Rightarrow> w | Throw e \<Rightarrow> [])"

definition all_selected :: "list_page \<Rightarrow> bool" where [list_acts]:
  "all_selected s = isDefaultOrganizationSelected (list_browser s) (Some (ls_account s))"

lemma request_owner_cases:
  "request_owner s = (if ac_owner (ls_account s) = ''built-in''
     then (case ls_selected s of None \<Rightarrow> ''built-in'' | Some g \<Rightarrow> if g = ''All'' then ''built-in'' else g)
     else ac_owner (ls_account s))"
  by (simp add: request_owner_def getRequestOrganization_def isAdminUser_def getOrganization_def list_browser_def
    split: option.splits)

text \<open>\<open>isDefaultOrganizationSelected(account) ? "" : getRequestOrganization(account)\<close>.\<close>

definition selected_owner :: "list_page \<Rightarrow> string" where [list_acts]:
  "selected_owner s = (if all_selected s then [] else request_owner s)"

section \<open>Asking for rows\<close>

definition plain_params :: "paging \<Rightarrow> list_params" where
  "plain_params g = \<lparr>lp_pagination = g, lp_searchText = JUndefined, lp_searchedColumn = JUndefined,
     lp_sortField = JUndefined, lp_sortOrder = JUndefined, lp_filters = (\<lambda>k. JUndefined)\<rparr>"

definition first_page :: paging where
  "first_page = \<lparr>pg_current = Some 1, pg_pageSize = Some 10, pg_total = JUndefined\<rparr>"

text \<open>
  The column and the text that are searched for: the first of the given filters that is set, else what
  the search box says.
\<close>

fun search_for :: "string list \<Rightarrow> list_params \<Rightarrow> jsval \<times> jsval" where
  "search_for [] p = (lp_searchedColumn p, lp_searchText p)"
| "search_for (k # ks) p =
     (if lp_filters p k \<noteq> JUndefined \<and> lp_filters p k \<noteq> JNull then (JStr k, lp_filters p k)
      else search_for ks p)"

text \<open>A request for rows with the arguments page, page size, field, value and order.\<close>

type_synonym rows_request = "string \<Rightarrow> string \<Rightarrow> string \<Rightarrow> string \<Rightarrow> string \<Rightarrow> string \<Rightarrow> api_request"

definition num_arg :: "int option \<Rightarrow> string" where
  "num_arg n = (case n of None \<Rightarrow> [] | Some i \<Rightarrow> show_int i)"

definition ask :: "string list \<Rightarrow> rows_request \<Rightarrow> list_params \<Rightarrow> api_request" where
  "ask filters rq p =
     (let (col, val) = search_for filters p in
      rq (num_arg (pg_current (lp_pagination p))) (num_arg (pg_pageSize (lp_pagination p)))
        (opt_arg col) (opt_arg val) (opt_arg (lp_sortField p)) (opt_arg (lp_sortOrder p)))"

definition fetch_rows :: "(list_page \<Rightarrow> list_params \<Rightarrow> api_request) \<Rightarrow> list_params \<Rightarrow> list_act" where [list_acts]:
  "fetch_rows rq p s = call_api (rq s p) (RowsFor p) (s\<lparr>ls_loading := True\<rparr>)"

section \<open>Answers\<close>

definition rows_of :: "jsval \<Rightarrow> jsval list option" where
  "rows_of v = (case v of JArr xs \<Rightarrow> Some xs | _ \<Rightarrow> None)"

text \<open>\<open>{...params.pagination, total: res.data2}\<close>.\<close>

definition with_total :: "paging \<Rightarrow> list_answer \<Rightarrow> paging" where
  "with_total g res = g\<lparr>pg_total := an_data2 res\<rparr>"

definition show_rows :: "list_params \<Rightarrow> list_answer \<Rightarrow> list_act" where [list_acts]:
  "show_rows p res s = s\<lparr>ls_data := rows_of (an_data res), ls_pagination := with_total (lp_pagination p) res\<rparr>"

definition keep_search :: "list_params \<Rightarrow> list_act" where [list_acts]:
  "keep_search p s = s\<lparr>ls_searchText := lp_searchText p, ls_searchedColumn := lp_searchedColumn p\<rparr>"

definition done_loading :: list_act where [list_acts]:
  "done_loading s = s\<lparr>ls_loading := False\<rparr>"

definition show_found :: "list_params \<Rightarrow> list_answer \<Rightarrow> list_act" where [list_acts]:
  "show_found p res s = keep_search p (show_rows p res s)"

definition denied_or :: "(list_answer \<Rightarrow> list_act) \<Rightarrow> list_answer \<Rightarrow> list_act" where [list_acts]:
  "denied_or other res s = (if isResponseDenied res then s\<lparr>ls_isAuthorized := False\<rparr> else other res s)"

text \<open>
  The continuation of most pages. Without \<open>catch\<close> an answer that does not come changes nothing: the
  table goes on loading.
\<close>

definition rows_answered :: "(list_answer \<Rightarrow> list_act) \<Rightarrow> (list_answer \<Rightarrow> list_act) \<Rightarrow> list_reply \<Rightarrow> list_act" where
  [list_acts]: "rows_answered found refused r s =
     (case r of
        Unanswered err \<Rightarrow> s
      | Listed res \<Rightarrow> (if an_status res = ''ok'' then found res else refused res) (done_loading s))"

definition report :: "string \<Rightarrow> list_answer \<Rightarrow> list_act" where [list_acts]:
  "report intro res = list_show ''error'' (intro @ an_msg res)"

definition rowsFetched :: "list_params \<Rightarrow> list_reply \<Rightarrow> list_act" where [list_acts]:
  "rowsFetched p = rows_answered (show_found p) (denied_or (report []))"

definition lost_connection :: "string \<Rightarrow> list_act" where [list_acts]:
  "lost_connection err = list_show ''error'' (''general:Failed to connect to server: '' @ err)"

section \<open>Adding and deleting\<close>

text \<open>
  After a deletion the page is asked for again, or the one before it when the last row of a later page
  went. An array is needed for its length only on a later page.
\<close>

definition page_after_delete :: "list_page \<Rightarrow> int option result" where
  "page_after_delete s =
     (case pg_current (ls_pagination s) of
        None \<Rightarrow> Return None
      | Some cur \<Rightarrow>
          if cur > 1
          then (case ls_data s of
                  None \<Rightarrow> Throw TypeError
                | Some rows \<Rightarrow> Return (Some (if length rows = 1 then cur - 1 else cur)))
          else Return (Some cur))"

definition refetch_after_delete ::
  "(list_page \<Rightarrow> list_params \<Rightarrow> api_request) \<Rightarrow> (string \<Rightarrow> list_act) \<Rightarrow> list_act" where [list_acts]:
  "refetch_after_delete rq lost s =
     (case page_after_delete s of
        Throw e \<Rightarrow> lost (error_text e) s
      | Return cur \<Rightarrow> fetch_rows rq (plain_params ((ls_pagination s)\<lparr>pg_current := cur\<rparr>)) s)"

text \<open>Where \<open>catch\<close> is missing or empty, \<open>lost\<close> does nothing.\<close>

definition row_deleted ::
  "(list_page \<Rightarrow> list_params \<Rightarrow> api_request) \<Rightarrow> (string \<Rightarrow> list_act) \<Rightarrow> list_reply \<Rightarrow> list_act" where [list_acts]:
  "row_deleted rq lost r s =
     (case r of
        Unanswered err \<Rightarrow> lost err s
      | Listed res \<Rightarrow>
          if an_status res = ''ok''
          then refetch_after_delete rq lost (list_show ''success'' ''general:Successfully deleted'' s)
          else report ''general:Failed to delete: '' res s)"

text \<open>\<open>this.state.data[i]\<close> of \<open>null\<close> throws and nothing is sent.\<close>

definition delete_row :: "(jsval \<Rightarrow> api_request) \<Rightarrow> nat \<Rightarrow> list_act" where [list_acts]:
  "delete_row rq i s =
     (case ls_data s of None \<Rightarrow> s | Some rows \<Rightarrow> call_api (rq (js_at rows (int i))) RowDeleted s)"

definition row_added :: "list_act \<Rightarrow> list_reply \<Rightarrow> list_act" where [list_acts]:
  "row_added go r s =
     (case r of
        Unanswered err \<Rightarrow> lost_connection err s
      | Listed res \<Rightarrow>
          if an_status res = ''ok'' then list_show ''success'' ''general:Successfully added'' (go s)
          else report ''general:Failed to add: '' res s)"

definition open_new :: "string \<Rightarrow> list_act" where [list_acts]:
  "open_new path = list_effect (LPushMode path ''add'')"

text \<open>The texts \<open>`${new.owner}/${new.name}`\<close>.\<close>

definition text_field :: "jsval \<Rightarrow> string \<Rightarrow> string" where
  "text_field rec k = js_text (field rec k)"

definition record_path :: "string \<Rightarrow> string \<Rightarrow> jsval \<Rightarrow> string" where
  "record_path base k rec = base @ ''/'' @ text_field rec k @ ''/'' @ text_field rec ''name''"

definition name_path :: "string \<Rightarrow> jsval \<Rightarrow> string" where
  "name_path base rec = base @ ''/'' @ text_field rec ''name''"

section \<open>Handlers of the table\<close>

text \<open>The operations in which the pages differ.\<close>

record list_ops =
  lo_request :: "list_page \<Rightarrow> list_params \<Rightarrow> api_request"
  lo_fetched :: "list_params \<Rightarrow> list_reply \<Rightarrow> list_act"
  lo_delete :: "nat \<Rightarrow> list_act"
  lo_deleted :: "list_reply \<Rightarrow> list_act"

definition list_fetch :: "list_ops \<Rightarrow> list_params \<Rightarrow> list_act" where
  "list_fetch ops = fetch_rows (lo_request ops)"

definition list_handleSearch :: "list_ops \<Rightarrow> jsval \<Rightarrow> string \<Rightarrow> list_act" where
  "list_handleSearch ops key col s =
     list_fetch ops ((plain_params (ls_pagination s))\<lparr>lp_searchText := key, lp_searchedColumn := JStr col\<rparr>) s"

definition handleReset :: "list_ops \<Rightarrow> list_act" where
  "handleReset ops s = list_fetch ops (plain_params (ls_pagination s)) s"

definition handleTableChange :: "list_ops \<Rightarrow> paging \<Rightarrow> (string \<Rightarrow> jsval) \<Rightarrow> jsval \<Rightarrow> jsval \<Rightarrow> list_act" where
  "handleTableChange ops g filters sortField sortOrder s =
     list_fetch ops \<lparr>lp_pagination = g, lp_searchText = ls_searchText s, lp_searchedColumn = ls_searchedColumn s,
       lp_sortField = sortField, lp_sortOrder = sortOrder, lp_filters = filters\<rparr> s"

text \<open>
  The button \<open>Filter\<close>: \<open>confirm\<close> makes the table report its filters at once, and the search text is set
  afterwards.
\<close>

definition filterLink :: "list_ops \<Rightarrow> paging \<Rightarrow> (string \<Rightarrow> jsval) \<Rightarrow> jsval \<Rightarrow> string \<Rightarrow> list_act" where
  "filterLink ops g filters key col s =
     (handleTableChange ops g filters JUndefined JUndefined s)\<lparr>ls_searchText := key, ls_searchedColumn := JStr col\<rparr>"

definition chosen_organization :: "list_page \<Rightarrow> string" where
  "chosen_organization s =
     (case ls_routeOrganization s of
        Some w \<Rightarrow> if w \<noteq> [] then w else request_owner s
      | None \<Rightarrow> request_owner s)"

definition handleOrganizationChange :: "list_ops \<Rightarrow> list_act" where
  "handleOrganizationChange ops s =
     list_fetch ops (plain_params (ls_pagination s)) (s\<lparr>ls_organizationName := chosen_organization s\<rparr>)"

text \<open>\<open>Setting.setOrganization\<close> stores the choice and fires the event that the page listens to.\<close>

definition pickOrganization :: "list_ops \<Rightarrow> string \<Rightarrow> list_act" where
  "pickOrganization ops organization s =
     handleOrganizationChange ops
       (list_effect (LFire ''storageOrganizationChanged'') (s\<lparr>ls_selected := Some organization\<rparr>))"

section \<open>The form of the table\<close>

definition fetchFormWithoutTag :: "string \<Rightarrow> list_act" where
  "fetchFormWithoutTag formName s = call_api (api_getForm (ac_owner (ls_account s)) formName) FormWithoutTag s"

definition getForm_of :: "string \<Rightarrow> list_act" where
  "getForm_of formType s =
     (let tag = (case ac_props (ls_account s) ''tag'' of None \<Rightarrow> ''undefined'' | Some t \<Rightarrow> t) in
      if tag \<noteq> [] then call_api (api_getForm (ac_owner (ls_account s)) (formType @ ''-tag-'' @ tag)) (FormWithTag formType) s
      else fetchFormWithoutTag formType s)"

definition form_found :: "list_reply \<Rightarrow> jsval option" where
  "form_found r =
     (case r of
        Listed res \<Rightarrow> if an_status res = ''ok'' \<and> js_bool (an_data res) then Some (field (an_data res) ''formItems'') else None
      | Unanswered err \<Rightarrow> None)"

definition formWithTagReceived :: "string \<Rightarrow> list_reply \<Rightarrow> list_act" where
  "formWithTagReceived formType r s =
     (case r of
        Unanswered err \<Rightarrow> s
      | Listed res \<Rightarrow> (case form_found r of
            Some items \<Rightarrow> s\<lparr>ls_formItems := items\<rparr>
          | None \<Rightarrow> fetchFormWithoutTag formType s))"

definition formWithoutTagReceived :: "list_reply \<Rightarrow> list_act" where
  "formWithoutTagReceived r s =
     (case r of
        Unanswered err \<Rightarrow> s
      | Listed res \<Rightarrow> s\<lparr>ls_formItems := (case form_found r of Some items \<Rightarrow> items | None \<Rightarrow> JArr [])\<rparr>)"

text \<open>Mounting: rows and form are asked for; for everybody but the global administrator the choice of the organization is reset.\<close>

definition mount_list :: "list_ops \<Rightarrow> list_act" where
  "mount_list ops s =
     (let s1 = getForm_of (if take 1 (ls_path s) = ''/'' then drop 1 (ls_path s) else ls_path s)
                 (list_fetch ops (plain_params (ls_pagination s)) s) in
      if isAdminUser (Some (ls_account s)) then s1 else pickOrganization ops ''All'' s1)"

definition new_list_page :: "account \<Rightarrow> string option \<Rightarrow> string option \<Rightarrow> string option \<Rightarrow> string \<Rightarrow> list_page" where
  "new_list_page account stored routeOrganization groupName path =
     (let s = \<lparr>ls_data = None, ls_pagination = first_page, ls_loading = False, ls_searchText = JStr [],
        ls_searchedColumn = JStr [], ls_isAuthorized = True, ls_formItems = JArr [], ls_account = account,
        ls_selected = stored, ls_organizationName = [], ls_routeOrganization = routeOrganization,
        ls_groupName = groupName, ls_path = path, ls_more = (\<lambda>k. JUndefined), ls_pending = [], ls_effects = []\<rparr> in
      s\<lparr>ls_organizationName := chosen_organization s\<rparr>)"

end
