(* ===== verification/List_Pages.thy ===== *)
theory List_Pages
  imports List_Page
begin

text \<open>
  The list pages of the console (\<open>web/src/*ListPage.js\<close>), page by page: the record that \<open>Add\<close> sends, what
  happens with the answer, the deletion of a row, the request for a page of rows and its
  continuation. What a new record takes from outside, random texts and the time, is an argument.
\<close>

section \<open>New records\<close>

text \<open>
  \<open>fr_random\<close> is \<open>Setting.getRandomName()\<close>, \<open>fr_number\<close> \<open>Setting.getRandomNumber()\<close>, \<open>fr_code\<close> and \<open>fr_hex\<close> are the
  random texts of invitations and entries, \<open>fr_now\<close> and \<open>fr_later\<close> the time and the time in thirty days as
  \<open>moment\<close> formats them, \<open>fr_application\<close> and \<open>fr_static\<close> settings of \<open>Conf.js\<close>, and \<open>fr_tenth\<close> the number 0.1,
  which is not an integer.
\<close>

record new_values =
  fr_random :: string
  fr_number :: string
  fr_code :: string
  fr_hex :: string
  fr_now :: string
  fr_later :: string
  fr_application :: string
  fr_static :: string
  fr_tenth :: jsval

definition rbacModel :: string where
  "rbacModel = js_join [CHR 0x0A] [''[request_definition]'',
     ''r = sub, obj, act'',
     [],
     ''[policy_definition]'',
     ''p = sub, obj, act'',
     [],
     ''[role_definition]'',
     ''g = _, _'',
     [],
     ''[policy_effect]'',
     ''e = some(where (p.eft == allow))'',
     [],
     ''[matchers]'',
     ''m = g(r.sub, p.sub) && r.obj == p.obj && r.act == p.act'']"

definition providersCss :: string where
  "providersCss = js_join [CHR 0x0A] [''.provider-img {'', '' width: 30px;'', '' margin: 5px;'', '' }'', '' .provider-big-img {'', '' margin-bottom: 10px;'', '' }'', '' '']"

definition country_keys :: "string list" where
  "country_keys = [''en'', ''es'', ''fr'', ''de'', ''ja'', ''zh'', ''vi'', ''pt'', ''tr'', ''pl'', ''uk'']"

text \<open>\<open>a ?? b\<close> and the first country code of an organization.\<close>

definition nullish :: "jsval \<Rightarrow> jsval \<Rightarrow> jsval" where
  "nullish a b = (if a = JUndefined \<or> a = JNull then b else a)"

definition first_code :: "jsval \<Rightarrow> jsval" where
  "first_code codes = (case codes of JArr (c # cs) \<Rightarrow> c | _ \<Rightarrow> JStr [])"

section \<open>What a few pages need\<close>

text \<open>Requests of \<open>CertBackend.js\<close> (its query starts with an empty pair) and \<open>SessionBackend.js\<close>.\<close>

definition api_getGlobalCerts :: "string \<Rightarrow> string \<Rightarrow> string \<Rightarrow> string \<Rightarrow> string \<Rightarrow> string \<Rightarrow> api_request" where
  "api_getGlobalCerts page pageSize field' value' sortField sortOrder =
     api_fetch ''GET'' (''/api/get-global-certs?&'' @ drop 1 (query [(''p'', page), (''pageSize'', pageSize),
       (''field'', field'), (''value'', value'), (''sortField'', sortField), (''sortOrder'', sortOrder)])) [] lang None"

definition api_deleteSession :: "jsval \<Rightarrow> string \<Rightarrow> api_request" where
  "api_deleteSession session sessionId = api_fetch ''POST'' ''/api/delete-session''
     (if sessionId \<noteq> [] then [(''sessionId'', encodeURIComponent sessionId)] else []) (json @ lang) (Some session)"

text \<open>\<open>this.props.groupName\<close>, where an empty name counts as none.\<close>

definition shown_group :: "list_page \<Rightarrow> string option" where
  "shown_group s = (case ls_groupName s of Some g \<Rightarrow> if g \<noteq> [] then Some g else None | None \<Rightarrow> None)"

text \<open>\<open>.catch(error => {this.setState({loading: false}); ...})\<close>.\<close>

definition catch_rows :: "(list_reply \<Rightarrow> list_act) \<Rightarrow> list_reply \<Rightarrow> list_act" where [list_acts]:
  "catch_rows go r s =
     (case r of Unanswered err \<Rightarrow> lost_connection err (done_loading s) | Listed res \<Rightarrow> go r s)"

text \<open>\<open>res.data.includes("Please login first")\<close>; a refusal without data throws, which nobody catches.\<close>

definition login_first :: "list_answer \<Rightarrow> list_act" where [list_acts]:
  "login_first res s =
     (if (case an_data res of JStr t \<Rightarrow> js_includes t ''Please login first''
                            | JArr xs \<Rightarrow> JStr ''Please login first'' \<in> set xs | _ \<Rightarrow> False)
      then s\<lparr>ls_loading := False, ls_isAuthorized := False\<rparr> else s)"

text \<open>Where \<open>catch\<close> is missing or empty.\<close>

definition ignore :: "string \<Rightarrow> list_act" where [list_acts]:
  "ignore err s = s"

text \<open>The pages of sites and rules test for an error and put the new row in front before they ask for
  rows again; there is no front of \<open>null\<close>.\<close>

definition prepend_row :: "(string \<Rightarrow> list_act) \<Rightarrow> list_act \<Rightarrow> jsval \<Rightarrow> list_act" where [list_acts]:
  "prepend_row lost go new s =
     (case ls_data s of
        None \<Rightarrow> lost (error_text TypeError) s
      | Some rows \<Rightarrow> go (s\<lparr>ls_data := Some (prependRow rows new)\<rparr>))"

text \<open>The owner of new certificates and providers, which \<open>componentDidMount\<close> sets.\<close>

definition mounted_owner :: list_act where [list_defs]:
  "mounted_owner s = s\<lparr>ls_more := (ls_more s)(''owner'' :=
     JStr (if isAdminUser (Some (ls_account s)) then ''admin'' else ac_owner (ls_account s)))\<rparr>"

definition new_owner :: "list_page \<Rightarrow> jsval" where
  "new_owner s = (if all_selected s then ls_more s ''owner'' else JStr (request_owner s))"

section \<open>\<open>AdapterListPage.js\<close>\<close>

definition adapterListRequest :: "list_page \<Rightarrow> list_params \<Rightarrow> api_request" where [list_defs]:
  "adapterListRequest s p =
     ask [''type''] (api_getAdapters (selected_owner s)) p"

definition fetchAdapters :: "list_params \<Rightarrow> list_act" where [list_defs]:
  "fetchAdapters = fetch_rows adapterListRequest"

definition adaptersFetched :: "list_params \<Rightarrow> list_reply \<Rightarrow> list_act" where [list_defs]:
  "adaptersFetched p = rowsFetched p"

definition newAdapter :: "new_values \<Rightarrow> list_page \<Rightarrow> jsval" where
  "newAdapter f s = JObj
      [(''owner'', JStr (request_owner s)), (''name'', JStr (''adapter_'' @ fr_random f)),
       (''createdTime'', JStr (fr_now f)), (''table'', JStr ''table_name''), (''useSameDb'', JBool True)]"

definition addAdapter :: "new_values \<Rightarrow> list_act" where [list_defs]:
  "addAdapter f s = (let new = newAdapter f s in call_api (api_addAdapter new) (RowAdded new) s)"

definition adapterAdded :: "jsval \<Rightarrow> list_reply \<Rightarrow> list_act" where [list_defs]:
  "adapterAdded new = row_added (open_new (record_path ''/adapters'' ''owner'' new))"

definition deleteAdapterRow :: "nat \<Rightarrow> list_act" where [list_defs]:
  "deleteAdapterRow = delete_row api_deleteAdapter"

definition adapterRowDeleted :: "list_reply \<Rightarrow> list_act" where [list_defs]:
  "adapterRowDeleted = row_deleted adapterListRequest lost_connection"

section \<open>\<open>AgentListPage.js\<close>\<close>

definition agentListRequest :: "list_page \<Rightarrow> list_params \<Rightarrow> api_request" where [list_defs]:
  "agentListRequest s p =
     ask [] (api_getAgents (request_owner s)) p"

definition fetchAgents :: "list_params \<Rightarrow> list_act" where [list_defs]:
  "fetchAgents = fetch_rows agentListRequest"

definition agentsFetched :: "list_params \<Rightarrow> list_reply \<Rightarrow> list_act" where [list_defs]:
  "agentsFetched p = rows_answered (show_found p) (report ''general:Failed to get: '')"

definition newAgent :: "new_values \<Rightarrow> list_page \<Rightarrow> jsval" where
  "newAgent f s = JObj
      [(''owner'', JStr (request_owner s)), (''name'', JStr (''agent_'' @ fr_random f)), (''createdTime'', JStr (fr_now f)),
       (''displayName'', JStr (''New Agent - '' @ fr_random f)), (''url'', JStr []), (''token'', JStr []),
       (''application'', JStr [])]"

definition addAgent :: "new_values \<Rightarrow> list_act" where [list_defs]:
  "addAgent f s = (let new = newAgent f s in call_api (api_addAgent new) (RowAdded new) s)"

definition agentAdded :: "jsval \<Rightarrow> list_reply \<Rightarrow> list_act" where [list_defs]:
  "agentAdded new = row_added (open_new (record_path ''/agents'' ''owner'' new))"

definition deleteAgentRow :: "nat \<Rightarrow> list_act" where [list_defs]:
  "deleteAgentRow = delete_row api_deleteAgent"

definition agentRowDeleted :: "list_reply \<Rightarrow> list_act" where [list_defs]:
  "agentRowDeleted = row_deleted agentListRequest lost_connection"

section \<open>\<open>ApplicationListPage.js\<close>\<close>

definition applicationListRequest :: "list_page \<Rightarrow> list_params \<Rightarrow> api_request" where [list_defs]:
  "applicationListRequest s p =
     ask [] (if all_selected s then api_getApplications ''admin''
       else api_getApplicationsByOrganization ''admin'' (request_owner s)) p"

definition fetchApplications :: "list_params \<Rightarrow> list_act" where [list_defs]:
  "fetchApplications = fetch_rows applicationListRequest"

definition applicationsFetched :: "list_params \<Rightarrow> list_reply \<Rightarrow> list_act" where [list_defs]:
  "applicationsFetched p = rowsFetched p"

definition newApplication :: "new_values \<Rightarrow> list_page \<Rightarrow> jsval" where
  "newApplication f s = JObj
      [(''owner'', JStr ''admin''), (''name'', JStr (''application_'' @ fr_random f)),
       (''organization'', JStr (request_owner s)), (''createdTime'', JStr (fr_now f)),
       (''displayName'', JStr (''New Application - '' @ fr_random f)), (''category'', JStr ''Default''),
       (''type'', JStr ''All''), (''scopes'', JArr []), (''logo'', JStr ''/img/archguard-logo.png''),
       (''enablePassword'', JBool True), (''enableSignUp'', JBool True), (''disableSignin'', JBool False),
       (''enableSigninSession'', JBool False), (''enableCodeSignin'', JBool False),
       (''enableSamlCompress'', JBool False), (''disableSamlAttributes'', JBool False),
       (''providers'', JArr [JObj [(''name'', JStr ''provider_captcha_default''), (''canSignUp'', JBool False), (''canSignIn'', JBool False), (''canUnlink'', JBool False), (''prompted'', JBool False), (''signupGroup'', JStr []), (''rule'', JStr [])]]),
       (''SigninMethods'', JArr [JObj [(''name'', JStr ''Password''), (''displayName'', JStr ''Password''), (''rule'', JStr ''All'')],
        JObj [(''name'', JStr ''Verification code''), (''displayName'', JStr ''Verification code''), (''rule'', JStr ''All'')],
        JObj [(''name'', JStr ''WebAuthn''), (''displayName'', JStr ''WebAuthn''), (''rule'', JStr ''None'')],
        JObj [(''name'', JStr ''Face ID''), (''displayName'', JStr ''Face ID''), (''rule'', JStr ''None'')]]),
       (''signupItems'', JArr [JObj [(''name'', JStr ''ID''), (''visible'', JBool False), (''required'', JBool True), (''rule'', JStr ''Random'')],
        JObj [(''name'', JStr ''Username''), (''visible'', JBool True), (''required'', JBool True), (''rule'', JStr ''None'')],
        JObj [(''name'', JStr ''Display name''), (''visible'', JBool True), (''required'', JBool True), (''rule'', JStr ''None'')],
        JObj [(''name'', JStr ''Password''), (''visible'', JBool True), (''required'', JBool True), (''rule'', JStr ''None'')],
        JObj [(''name'', JStr ''Confirm password''), (''visible'', JBool True), (''required'', JBool True), (''rule'', JStr ''None'')],
        JObj [(''name'', JStr ''Email''), (''visible'', JBool True), (''required'', JBool True), (''rule'', JStr ''Normal'')],
        JObj [(''name'', JStr ''Phone''), (''visible'', JBool True), (''required'', JBool True), (''rule'', JStr ''None'')],
        JObj [(''name'', JStr ''Agreement''), (''visible'', JBool True), (''required'', JBool True), (''rule'', JStr ''None'')],
        JObj [(''name'', JStr ''Signup button''), (''visible'', JBool True), (''required'', JBool True), (''rule'', JStr ''None'')],
        JObj [(''name'', JStr ''Providers''), (''visible'', JBool True), (''required'', JBool True), (''rule'', JStr ''None''), (''customCss'', JStr providersCss)]]),
       (''grantTypes'', JArr [JStr ''authorization_code'', JStr ''password'', JStr ''client_credentials'', JStr ''token'', JStr ''id_token'', JStr ''refresh_token'']),
       (''cert'', JStr ''cert-built-in''), (''redirectUris'', JArr [JStr ''http://localhost:9000/callback'']),
       (''tokenFormat'', JStr ''JWT''), (''tokenFields'', JArr []), (''expireInHours'', JNum 168),
       (''refreshExpireInHours'', JNum 168), (''cookieExpireInHours'', JNum 720), (''formOffset'', JNum 2)]"

definition addApplication :: "new_values \<Rightarrow> list_act" where [list_defs]:
  "addApplication f s = (let new = newApplication f s in call_api (api_addApplication new) (RowAdded new) s)"

definition applicationAdded :: "jsval \<Rightarrow> list_reply \<Rightarrow> list_act" where [list_defs]:
  "applicationAdded new = row_added (open_new (record_path ''/applications'' ''organization'' new))"

definition deleteApplicationRow :: "nat \<Rightarrow> list_act" where [list_defs]:
  "deleteApplicationRow = delete_row api_deleteApplication"

definition applicationRowDeleted :: "list_reply \<Rightarrow> list_act" where [list_defs]:
  "applicationRowDeleted = row_deleted applicationListRequest lost_connection"

section \<open>\<open>CertListPage.js\<close>\<close>

definition certListRequest :: "list_page \<Rightarrow> list_params \<Rightarrow> api_request" where [list_defs]:
  "certListRequest s p =
     ask [''category'', ''type''] (if all_selected s then api_getGlobalCerts else api_getCerts (request_owner s)) p"

definition fetchCerts :: "list_params \<Rightarrow> list_act" where [list_defs]:
  "fetchCerts = fetch_rows certListRequest"

definition certsFetched :: "list_params \<Rightarrow> list_reply \<Rightarrow> list_act" where [list_defs]:
  "certsFetched p = rowsFetched p"

definition newCert :: "new_values \<Rightarrow> list_page \<Rightarrow> jsval" where
  "newCert f s = JObj
      [(''owner'', new_owner s), (''name'', JStr (''cert_'' @ fr_random f)), (''createdTime'', JStr (fr_now f)),
       (''displayName'', JStr (''New Cert - '' @ fr_random f)), (''scope'', JStr ''JWT''),
       (''type'', JStr ''x509''), (''cryptoAlgorithm'', JStr ''RS256''), (''bitSize'', JNum 4096),
       (''expireInYears'', JNum 20), (''certificate'', JStr []), (''privateKey'', JStr [])]"

definition addCert :: "new_values \<Rightarrow> list_act" where [list_defs]:
  "addCert f s = (let new = newCert f s in call_api (api_addCert new) (RowAdded new) s)"

definition certAdded :: "jsval \<Rightarrow> list_reply \<Rightarrow> list_act" where [list_defs]:
  "certAdded new = row_added (open_new (record_path ''/certs'' ''owner'' new))"

definition deleteCertRow :: "nat \<Rightarrow> list_act" where [list_defs]:
  "deleteCertRow = delete_row api_deleteCert"

definition certRowDeleted :: "list_reply \<Rightarrow> list_act" where [list_defs]:
  "certRowDeleted = row_deleted certListRequest lost_connection"

section \<open>\<open>CouponListPage.js\<close>\<close>

definition couponListRequest :: "list_page \<Rightarrow> list_params \<Rightarrow> api_request" where [list_defs]:
  "couponListRequest s p =
     ask [''type''] (api_getCoupons (selected_owner s)) p"

definition fetchCoupons :: "list_params \<Rightarrow> list_act" where [list_defs]:
  "fetchCoupons = fetch_rows couponListRequest"

definition couponsFetched :: "list_params \<Rightarrow> list_reply \<Rightarrow> list_act" where [list_defs]:
  "couponsFetched p = rowsFetched p"

definition newCoupon :: "new_values \<Rightarrow> list_page \<Rightarrow> jsval" where
  "newCoupon f s = JObj
      [(''owner'', JStr (request_owner s)), (''name'', JStr (''coupon_'' @ fr_random f)),
       (''createdTime'', JStr (fr_now f)), (''displayName'', JStr (''New Coupon - '' @ fr_random f)),
       (''description'', JStr []), (''code'', JStr (js_upper (''CODE_'' @ fr_random f))),
       (''discountType'', JStr ''percentage''), (''discount'', JNum 10), (''maxDiscount'', JNum 0),
       (''scope'', JStr ''universal''), (''products'', JArr []), (''users'', JArr []), (''quantity'', JNum 100),
       (''usedCount'', JNum 0), (''maxUsagePerUser'', JNum 1), (''startTime'', JStr (fr_now f)),
       (''expireTime'', JStr (fr_later f)), (''minOrderAmount'', JNum 0), (''currency'', JStr ''USD''),
       (''state'', JStr ''Active'')]"

definition addCoupon :: "new_values \<Rightarrow> list_act" where [list_defs]:
  "addCoupon f s = (let new = newCoupon f s in call_api (api_addCoupon new) (RowAdded new) s)"

definition couponAdded :: "jsval \<Rightarrow> list_reply \<Rightarrow> list_act" where [list_defs]:
  "couponAdded new = row_added (open_new (record_path ''/coupons'' ''owner'' new))"

definition deleteCouponRow :: "nat \<Rightarrow> list_act" where [list_defs]:
  "deleteCouponRow = delete_row api_deleteCoupon"

definition couponRowDeleted :: "list_reply \<Rightarrow> list_act" where [list_defs]:
  "couponRowDeleted = row_deleted couponListRequest lost_connection"

section \<open>\<open>EnforcerListPage.js\<close>\<close>

definition enforcerListRequest :: "list_page \<Rightarrow> list_params \<Rightarrow> api_request" where [list_defs]:
  "enforcerListRequest s p =
     ask [''type''] (api_getEnforcers (selected_owner s)) p"

definition fetchEnforcers :: "list_params \<Rightarrow> list_act" where [list_defs]:
  "fetchEnforcers = fetch_rows enforcerListRequest"

definition enforcersFetched :: "list_params \<Rightarrow> list_reply \<Rightarrow> list_act" where [list_defs]:
  "enforcersFetched p = rowsFetched p"

definition newEnforcer :: "new_values \<Rightarrow> list_page \<Rightarrow> jsval" where
  "newEnforcer f s = JObj
      [(''owner'', JStr (request_owner s)), (''name'', JStr (''enforcer_'' @ fr_random f)),
       (''createdTime'', JStr (fr_now f)), (''displayName'', JStr (''New Enforcer - '' @ fr_random f))]"

definition addEnforcer :: "new_values \<Rightarrow> list_act" where [list_defs]:
  "addEnforcer f s = (let new = newEnforcer f s in call_api (api_addEnforcer new) (RowAdded new) s)"

definition enforcerAdded :: "jsval \<Rightarrow> list_reply \<Rightarrow> list_act" where [list_defs]:
  "enforcerAdded new = row_added (open_new (record_path ''/enforcers'' ''owner'' new))"

definition deleteEnforcerRow :: "nat \<Rightarrow> list_act" where [list_defs]:
  "deleteEnforcerRow = delete_row api_deleteEnforcer"

definition enforcerRowDeleted :: "list_reply \<Rightarrow> list_act" where [list_defs]:
  "enforcerRowDeleted = row_deleted enforcerListRequest lost_connection"

section \<open>\<open>EntryListPage.js\<close>\<close>

definition entryListRequest :: "list_page \<Rightarrow> list_params \<Rightarrow> api_request" where [list_defs]:
  "entryListRequest s p =
     ask [] (api_getEntries (request_owner s)) p"

definition fetchEntries :: "list_params \<Rightarrow> list_act" where [list_defs]:
  "fetchEntries = fetch_rows entryListRequest"

definition entriesFetched :: "list_params \<Rightarrow> list_reply \<Rightarrow> list_act" where [list_defs]:
  "entriesFetched p = catch_rows (rows_answered (show_found p) (report ''general:Failed to get: ''))"

definition newEntry :: "new_values \<Rightarrow> list_page \<Rightarrow> jsval" where
  "newEntry f s = JObj
      [(''owner'', JStr (request_owner s)), (''name'', JStr (fr_hex f)), (''createdTime'', JStr (fr_now f)),
       (''displayName'', JStr (fr_hex f)), (''provider'', JStr []), (''application'', JStr []),
       (''type'', JStr []), (''clientIp'', JStr []), (''userAgent'', JStr []), (''message'', JStr [])]"

definition addEntry :: "new_values \<Rightarrow> list_act" where [list_defs]:
  "addEntry f s = (let new = newEntry f s in call_api (api_addEntry new) (RowAdded new) s)"

definition entryAdded :: "jsval \<Rightarrow> list_reply \<Rightarrow> list_act" where [list_defs]:
  "entryAdded new = row_added (open_new (record_path ''/entries'' ''owner'' new))"

definition deleteEntryRow :: "nat \<Rightarrow> list_act" where [list_defs]:
  "deleteEntryRow = delete_row api_deleteEntry"

definition entryRowDeleted :: "list_reply \<Rightarrow> list_act" where [list_defs]:
  "entryRowDeleted = row_deleted entryListRequest lost_connection"

section \<open>\<open>FormListPage.js\<close>\<close>

definition formListRequest :: "list_page \<Rightarrow> list_params \<Rightarrow> api_request" where [list_defs]:
  "formListRequest s p =
     ask [] (api_getForms (ac_owner (ls_account s))) p"

definition fetchForms :: "list_params \<Rightarrow> list_act" where [list_defs]:
  "fetchForms = fetch_rows formListRequest"

definition formsFetched :: "list_params \<Rightarrow> list_reply \<Rightarrow> list_act" where [list_defs]:
  "formsFetched p = rowsFetched p"

definition newForm :: "new_values \<Rightarrow> list_page \<Rightarrow> jsval" where
  "newForm f s = JObj
      [(''owner'', JStr (ac_owner (ls_account s))), (''name'', JStr (''form_'' @ fr_random f)),
       (''createdTime'', JStr (fr_now f)), (''displayName'', JStr (''New Form - '' @ fr_random f)),
       (''formItems'', JArr [])]"

definition addForm :: "new_values \<Rightarrow> list_act" where [list_defs]:
  "addForm f s = (let new = newForm f s in call_api (api_addForm new) (RowAdded new) s)"

definition formAdded :: "jsval \<Rightarrow> list_reply \<Rightarrow> list_act" where [list_defs]:
  "formAdded new = row_added (\<lambda>s. open_new (name_path ''/forms'' new) (list_effect (LStore ''formListUrl'' (ls_path s)) s))"

text \<open>The row goes from the table without another request.\<close>

definition deleteFormRow :: "nat \<Rightarrow> list_act" where [list_defs]:
  "deleteFormRow = delete_row api_deleteForm"

definition less_one :: "jsval \<Rightarrow> jsval" where
  "less_one v = (case v of JNum n \<Rightarrow> JNum (n - 1) | _ \<Rightarrow> v)"

definition formRowDeleted :: "jsval \<Rightarrow> list_reply \<Rightarrow> list_act" where [list_defs]:
  "formRowDeleted rec r s =
     (case r of
        Unanswered err \<Rightarrow> list_show ''error'' (''general:Failed to delete: '' @ err) s
      | Listed res \<Rightarrow>
          if an_status res = ''ok''
          then (list_show ''success'' ''general:Successfully deleted'' s)\<lparr>
            ls_data := map_option (filter (\<lambda>item. field item ''name'' \<noteq> field rec ''name'')) (ls_data s),
            ls_pagination := (ls_pagination s)\<lparr>pg_total := less_one (pg_total (ls_pagination s))\<rparr>\<rparr>
          else report ''general:Failed to delete: '' res s)"

section \<open>\<open>GroupListPage.js\<close>\<close>

definition groupListRequest :: "list_page \<Rightarrow> list_params \<Rightarrow> api_request" where [list_defs]:
  "groupListRequest s p =
     ask [''category'', ''type''] (api_getGroups (selected_owner s) ''false'') p"

definition fetchGroups :: "list_params \<Rightarrow> list_act" where [list_defs]:
  "fetchGroups = fetch_rows groupListRequest"

definition groupsFetched :: "list_params \<Rightarrow> list_reply \<Rightarrow> list_act" where [list_defs]:
  "groupsFetched p = catch_rows (rows_answered (show_found p) (denied_or (\<lambda>res s. s)))"

definition newGroup :: "new_values \<Rightarrow> list_page \<Rightarrow> jsval" where
  "newGroup f s = JObj
      [(''owner'', JStr (request_owner s)), (''name'', JStr (''group_'' @ fr_random f)), (''createdTime'', JStr (fr_now f)),
       (''updatedTime'', JStr (fr_now f)), (''displayName'', JStr (''New Group - '' @ fr_random f)),
       (''type'', JStr ''Virtual''), (''parentId'', JStr (ac_owner (ls_account s))),
       (''isTopGroup'', JBool True), (''isEnabled'', JBool True)]"

definition addGroup :: "new_values \<Rightarrow> list_act" where [list_defs]:
  "addGroup f s = (let new = newGroup f s in call_api (api_addGroup new) (RowAdded new) s)"

definition groupAdded :: "jsval \<Rightarrow> list_reply \<Rightarrow> list_act" where [list_defs]:
  "groupAdded new = row_added (open_new (record_path ''/groups'' ''owner'' new))"

definition deleteGroupRow :: "nat \<Rightarrow> list_act" where [list_defs]:
  "deleteGroupRow = delete_row api_deleteGroup"

definition groupRowDeleted :: "list_reply \<Rightarrow> list_act" where [list_defs]:
  "groupRowDeleted = row_deleted groupListRequest lost_connection"

section \<open>\<open>InvitationListPage.js\<close>\<close>

definition invitationListRequest :: "list_page \<Rightarrow> list_params \<Rightarrow> api_request" where [list_defs]:
  "invitationListRequest s p =
     ask [''type''] (api_getInvitations (selected_owner s)) p"

definition fetchInvitations :: "list_params \<Rightarrow> list_act" where [list_defs]:
  "fetchInvitations = fetch_rows invitationListRequest"

definition invitationsFetched :: "list_params \<Rightarrow> list_reply \<Rightarrow> list_act" where [list_defs]:
  "invitationsFetched p = rowsFetched p"

definition newInvitation :: "new_values \<Rightarrow> list_page \<Rightarrow> jsval" where
  "newInvitation f s = JObj
      [(''owner'', JStr (request_owner s)), (''name'', JStr (''invitation_'' @ fr_random f)),
       (''createdTime'', JStr (fr_now f)), (''updatedTime'', JStr (fr_now f)),
       (''displayName'', JStr (''New Invitation - '' @ fr_random f)), (''code'', JStr (fr_code f)),
       (''defaultCode'', JStr (fr_code f)), (''quota'', JNum 1), (''usedCount'', JNum 0),
       (''application'', JStr ''All''), (''username'', JStr []), (''email'', JStr []), (''phone'', JStr []),
       (''signupGroup'', JStr []), (''state'', JStr ''Active'')]"

definition addInvitation :: "new_values \<Rightarrow> list_act" where [list_defs]:
  "addInvitation f s = (let new = newInvitation f s in call_api (api_addInvitation new) (RowAdded new) s)"

definition invitationAdded :: "jsval \<Rightarrow> list_reply \<Rightarrow> list_act" where [list_defs]:
  "invitationAdded new = row_added (open_new (record_path ''/invitations'' ''owner'' new))"

definition deleteInvitationRow :: "nat \<Rightarrow> list_act" where [list_defs]:
  "deleteInvitationRow = delete_row api_deleteInvitation"

definition invitationRowDeleted :: "list_reply \<Rightarrow> list_act" where [list_defs]:
  "invitationRowDeleted = row_deleted invitationListRequest lost_connection"

section \<open>\<open>KeyListPage.js\<close>\<close>

definition keyListRequest :: "list_page \<Rightarrow> list_params \<Rightarrow> api_request" where [list_defs]:
  "keyListRequest s p =
     ask [''type''] (if all_selected s then api_getGlobalKeys else api_getKeys (request_owner s)) p"

definition fetchKeys :: "list_params \<Rightarrow> list_act" where [list_defs]:
  "fetchKeys = fetch_rows keyListRequest"

definition keysFetched :: "list_params \<Rightarrow> list_reply \<Rightarrow> list_act" where [list_defs]:
  "keysFetched p = rowsFetched p"

definition newKey :: "new_values \<Rightarrow> list_page \<Rightarrow> jsval" where
  "newKey f s = JObj
      [(''owner'', JStr (request_owner s)), (''name'', JStr (''key_'' @ fr_random f)), (''createdTime'', JStr (fr_now f)),
       (''updatedTime'', JStr (fr_now f)), (''displayName'', JStr (''New Key - '' @ fr_random f)),
       (''type'', JStr ''Organization''), (''organization'', JStr (request_owner s)), (''application'', JStr []),
       (''user'', JStr []), (''accessKey'', JStr []), (''accessSecret'', JStr []), (''expireTime'', JStr []),
       (''state'', JStr ''Active'')]"

definition addKey :: "new_values \<Rightarrow> list_act" where [list_defs]:
  "addKey f s = (let new = newKey f s in call_api (api_addKey new) (RowAdded new) s)"

definition keyAdded :: "jsval \<Rightarrow> list_reply \<Rightarrow> list_act" where [list_defs]:
  "keyAdded new = row_added (open_new (record_path ''/keys'' ''owner'' new))"

definition deleteKeyRow :: "nat \<Rightarrow> list_act" where [list_defs]:
  "deleteKeyRow = delete_row api_deleteKey"

definition keyRowDeleted :: "list_reply \<Rightarrow> list_act" where [list_defs]:
  "keyRowDeleted = row_deleted keyListRequest lost_connection"

section \<open>\<open>ModelListPage.js\<close>\<close>

definition modelListRequest :: "list_page \<Rightarrow> list_params \<Rightarrow> api_request" where [list_defs]:
  "modelListRequest s p =
     ask [''type''] (api_getModels (selected_owner s)) p"

definition fetchModels :: "list_params \<Rightarrow> list_act" where [list_defs]:
  "fetchModels = fetch_rows modelListRequest"

definition modelsFetched :: "list_params \<Rightarrow> list_reply \<Rightarrow> list_act" where [list_defs]:
  "modelsFetched p = rowsFetched p"

definition newModel :: "new_values \<Rightarrow> list_page \<Rightarrow> jsval" where
  "newModel f s = JObj
      [(''owner'', JStr (request_owner s)), (''name'', JStr (''model_'' @ fr_random f)), (''createdTime'', JStr (fr_now f)),
       (''displayName'', JStr (''New Model - '' @ fr_random f)), (''modelText'', JStr rbacModel)]"

definition addModel :: "new_values \<Rightarrow> list_act" where [list_defs]:
  "addModel f s = (let new = newModel f s in call_api (api_addModel new) (RowAdded new) s)"

definition modelAdded :: "jsval \<Rightarrow> list_reply \<Rightarrow> list_act" where [list_defs]:
  "modelAdded new = row_added (open_new (record_path ''/models'' ''owner'' new))"

definition deleteModelRow :: "nat \<Rightarrow> list_act" where [list_defs]:
  "deleteModelRow = delete_row api_deleteModel"

definition modelRowDeleted :: "list_reply \<Rightarrow> list_act" where [list_defs]:
  "modelRowDeleted = row_deleted modelListRequest lost_connection"

section \<open>\<open>OrderListPage.js\<close>\<close>

definition orderListRequest :: "list_page \<Rightarrow> list_params \<Rightarrow> api_request" where [list_defs]:
  "orderListRequest s p =
     ask [] (api_getOrders (selected_owner s)) p"

definition fetchOrders :: "list_params \<Rightarrow> list_act" where [list_defs]:
  "fetchOrders = fetch_rows orderListRequest"

definition ordersFetched :: "list_params \<Rightarrow> list_reply \<Rightarrow> list_act" where [list_defs]:
  "ordersFetched p = rowsFetched p"

definition newOrder :: "new_values \<Rightarrow> list_page \<Rightarrow> jsval" where
  "newOrder f s = JObj
      [(''owner'', JStr (request_owner s)), (''name'', JStr (''order_'' @ fr_random f)), (''createdTime'', JStr (fr_now f)),
       (''displayName'', JStr (''New Order - '' @ fr_random f)), (''products'', JArr []), (''user'', JStr []),
       (''payment'', JStr []), (''state'', JStr ''Created''), (''message'', JStr [])]"

definition addOrder :: "new_values \<Rightarrow> list_act" where [list_defs]:
  "addOrder f s = (let new = newOrder f s in call_api (api_addOrder new) (RowAdded new) s)"

definition orderAdded :: "jsval \<Rightarrow> list_reply \<Rightarrow> list_act" where [list_defs]:
  "orderAdded new = row_added (open_new (record_path ''/orders'' ''owner'' new))"

definition deleteOrderRow :: "nat \<Rightarrow> list_act" where [list_defs]:
  "deleteOrderRow = delete_row api_deleteOrder"

definition orderRowDeleted :: "list_reply \<Rightarrow> list_act" where [list_defs]:
  "orderRowDeleted = row_deleted orderListRequest lost_connection"

section \<open>\<open>OrganizationListPage.js\<close>\<close>

definition organizationListRequest :: "list_page \<Rightarrow> list_params \<Rightarrow> api_request" where [list_defs]:
  "organizationListRequest s p =
     ask [''passwordType''] (api_getOrganizations ''admin'' (selected_owner s)) p"

definition fetchOrganizations :: "list_params \<Rightarrow> list_act" where [list_defs]:
  "fetchOrganizations = fetch_rows organizationListRequest"

definition organizationsFetched :: "list_params \<Rightarrow> list_reply \<Rightarrow> list_act" where [list_defs]:
  "organizationsFetched p = rowsFetched p"

definition newOrganization :: "new_values \<Rightarrow> list_page \<Rightarrow> jsval" where
  "newOrganization f s = JObj
      [(''owner'', JStr ''admin''), (''name'', JStr (''organization_'' @ fr_random f)),
       (''createdTime'', JStr (fr_now f)), (''displayName'', JStr (''New Organization - '' @ fr_random f)),
       (''websiteUrl'', JStr ''https://door.casdoor.com''),
       (''favicon'', JStr (fr_static f @ ''/img/favicon.png'')), (''passwordType'', JStr ''bcrypt''),
       (''PasswordSalt'', JStr []), (''passwordOptions'', JArr [JStr ''AtLeast6'']),
       (''passwordObfuscatorType'', JStr ''Plain''), (''passwordObfuscatorKey'', JStr []),
       (''passwordExpireDays'', JNum 0), (''countryCodes'', JArr [JStr ''US'']),
       (''defaultAvatar'', JStr (fr_static f @ ''/img/casbin.svg'')), (''defaultApplication'', JStr []),
       (''tags'', JArr []), (''languages'', JArr (map JStr country_keys)), (''masterPassword'', JStr []),
       (''defaultPassword'', JStr []), (''enableSoftDeletion'', JBool False), (''isProfilePublic'', JBool True),
       (''enableTour'', JBool True), (''disableSignin'', JBool False), (''mfaRememberInHours'', JNum 12),
       (''balanceCurrency'', JStr ''USD''),
       (''accountItems'', JArr [JObj [(''name'', JStr ''Organization''), (''visible'', JBool True), (''viewRule'', JStr ''Public''), (''modifyRule'', JStr ''Admin'')],
        JObj [(''name'', JStr ''ID''), (''visible'', JBool True), (''viewRule'', JStr ''Public''), (''modifyRule'', JStr ''Immutable'')],
        JObj [(''name'', JStr ''Name''), (''visible'', JBool True), (''viewRule'', JStr ''Public''), (''modifyRule'', JStr ''Admin'')],
        JObj [(''name'', JStr ''Display name''), (''visible'', JBool True), (''viewRule'', JStr ''Public''), (''modifyRule'', JStr ''Self'')],
        JObj [(''name'', JStr ''First name''), (''visible'', JBool True), (''viewRule'', JStr ''Public''), (''modifyRule'', JStr ''Self'')],
        JObj [(''name'', JStr ''Last name''), (''visible'', JBool True), (''viewRule'', JStr ''Public''), (''modifyRule'', JStr ''Self'')],
        JObj [(''name'', JStr ''Avatar''), (''visible'', JBool True), (''viewRule'', JStr ''Public''), (''modifyRule'', JStr ''Self'')],
        JObj [(''name'', JStr ''User type''), (''visible'', JBool True), (''viewRule'', JStr ''Public''), (''modifyRule'', JStr ''Admin'')],
        JObj [(''name'', JStr ''Password''), (''visible'', JBool True), (''viewRule'', JStr ''Self''), (''modifyRule'', JStr ''Self'')],
        JObj [(''name'', JStr ''Email''), (''visible'', JBool True), (''viewRule'', JStr ''Public''), (''modifyRule'', JStr ''Self'')],
        JObj [(''name'', JStr ''Phone''), (''visible'', JBool True), (''viewRule'', JStr ''Public''), (''modifyRule'', JStr ''Self'')],
        JObj [(''name'', JStr ''Country code''), (''visible'', JBool True), (''viewRule'', JStr ''Public''), (''modifyRule'', JStr ''Self'')],
        JObj [(''name'', JStr ''Country/Region''), (''visible'', JBool True), (''viewRule'', JStr ''Public''), (''modifyRule'', JStr ''Self'')],
        JObj [(''name'', JStr ''Location''), (''visible'', JBool True), (''viewRule'', JStr ''Public''), (''modifyRule'', JStr ''Self'')],
        JObj [(''name'', JStr ''Address''), (''visible'', JBool True), (''viewRule'', JStr ''Public''), (''modifyRule'', JStr ''Self'')],
        JObj [(''name'', JStr ''Addresses''), (''visible'', JBool True), (''viewRule'', JStr ''Public''), (''modifyRule'', JStr ''Self'')],
        JObj [(''name'', JStr ''Affiliation''), (''visible'', JBool True), (''viewRule'', JStr ''Public''), (''modifyRule'', JStr ''Self'')],
        JObj [(''name'', JStr ''Title''), (''visible'', JBool True), (''viewRule'', JStr ''Public''), (''modifyRule'', JStr ''Self'')],
        JObj [(''name'', JStr ''ID card type''), (''visible'', JBool True), (''viewRule'', JStr ''Public''), (''modifyRule'', JStr ''Self'')],
        JObj [(''name'', JStr ''ID card''), (''visible'', JBool True), (''viewRule'', JStr ''Public''), (''modifyRule'', JStr ''Self'')],
        JObj [(''name'', JStr ''ID card info''), (''visible'', JBool True), (''viewRule'', JStr ''Public''), (''modifyRule'', JStr ''Self'')],
        JObj [(''name'', JStr ''Real name''), (''visible'', JBool True), (''viewRule'', JStr ''Public''), (''modifyRule'', JStr ''Self'')],
        JObj [(''name'', JStr ''ID verification''), (''visible'', JBool True), (''viewRule'', JStr ''Self''), (''modifyRule'', JStr ''Self'')],
        JObj [(''name'', JStr ''Homepage''), (''visible'', JBool True), (''viewRule'', JStr ''Public''), (''modifyRule'', JStr ''Self'')],
        JObj [(''name'', JStr ''Bio''), (''visible'', JBool True), (''viewRule'', JStr ''Public''), (''modifyRule'', JStr ''Self'')],
        JObj [(''name'', JStr ''Tag''), (''visible'', JBool True), (''viewRule'', JStr ''Public''), (''modifyRule'', JStr ''Admin'')],
        JObj [(''name'', JStr ''Language''), (''visible'', JBool True), (''viewRule'', JStr ''Public''), (''modifyRule'', JStr ''Admin'')],
        JObj [(''name'', JStr ''Gender''), (''visible'', JBool True), (''viewRule'', JStr ''Public''), (''modifyRule'', JStr ''Admin'')],
        JObj [(''name'', JStr ''Birthday''), (''visible'', JBool True), (''viewRule'', JStr ''Public''), (''modifyRule'', JStr ''Admin'')],
        JObj [(''name'', JStr ''Education''), (''visible'', JBool True), (''viewRule'', JStr ''Public''), (''modifyRule'', JStr ''Admin'')],
        JObj [(''name'', JStr ''Score''), (''visible'', JBool True), (''viewRule'', JStr ''Public''), (''modifyRule'', JStr ''Admin'')],
        JObj [(''name'', JStr ''Karma''), (''visible'', JBool True), (''viewRule'', JStr ''Public''), (''modifyRule'', JStr ''Admin'')],
        JObj [(''name'', JStr ''Ranking''), (''visible'', JBool True), (''viewRule'', JStr ''Public''), (''modifyRule'', JStr ''Admin'')],
        JObj [(''name'', JStr ''Balance''), (''visible'', JBool True), (''viewRule'', JStr ''Public''), (''modifyRule'', JStr ''Admin'')],
        JObj [(''name'', JStr ''Balance credit''), (''visible'', JBool True), (''viewRule'', JStr ''Public''), (''modifyRule'', JStr ''Admin'')],
        JObj [(''name'', JStr ''Balance currency''), (''visible'', JBool True), (''viewRule'', JStr ''Public''), (''modifyRule'', JStr ''Admin'')],
        JObj [(''name'', JStr ''Cart''), (''visible'', JBool True), (''viewRule'', JStr ''Self''), (''modifyRule'', JStr ''Self'')],
        JObj [(''name'', JStr ''Transactions''), (''visible'', JBool True), (''viewRule'', JStr ''Self''), (''modifyRule'', JStr ''Self'')],
        JObj [(''name'', JStr ''Signup application''), (''visible'', JBool True), (''viewRule'', JStr ''Public''), (''modifyRule'', JStr ''Admin'')],
        JObj [(''name'', JStr ''Register type''), (''visible'', JBool True), (''viewRule'', JStr ''Public''), (''modifyRule'', JStr ''Admin'')],
        JObj [(''name'', JStr ''Register source''), (''visible'', JBool True), (''viewRule'', JStr ''Public''), (''modifyRule'', JStr ''Admin'')],
        JObj [(''name'', JStr ''Groups''), (''visible'', JBool True), (''viewRule'', JStr ''Public''), (''modifyRule'', JStr ''Admin'')],
        JObj [(''name'', JStr ''Roles''), (''visible'', JBool True), (''viewRule'', JStr ''Public''), (''modifyRule'', JStr ''Immutable'')],
        JObj [(''name'', JStr ''Permissions''), (''visible'', JBool True), (''viewRule'', JStr ''Public''), (''modifyRule'', JStr ''Immutable'')],
        JObj [(''name'', JStr ''Consents''), (''visible'', JBool True), (''viewRule'', JStr ''Self''), (''modifyRule'', JStr ''Self'')],
        JObj [(''name'', JStr ''3rd-party logins''), (''visible'', JBool True), (''viewRule'', JStr ''Self''), (''modifyRule'', JStr ''Self'')],
        JObj [(''name'', JStr ''Properties''), (''visible'', JBool False), (''viewRule'', JStr ''Admin''), (''modifyRule'', JStr ''Admin'')],
        JObj [(''name'', JStr ''Is online''), (''visible'', JBool True), (''viewRule'', JStr ''Admin''), (''modifyRule'', JStr ''Admin'')],
        JObj [(''name'', JStr ''Is admin''), (''visible'', JBool True), (''viewRule'', JStr ''Admin''), (''modifyRule'', JStr ''Admin'')],
        JObj [(''name'', JStr ''Is forbidden''), (''visible'', JBool True), (''viewRule'', JStr ''Admin''), (''modifyRule'', JStr ''Admin'')],
        JObj [(''name'', JStr ''Is deleted''), (''visible'', JBool True), (''viewRule'', JStr ''Admin''), (''modifyRule'', JStr ''Admin'')],
        JObj [(''name'', JStr ''Multi-factor authentication''), (''visible'', JBool True), (''viewRule'', JStr ''Self''), (''modifyRule'', JStr ''Self'')],
        JObj [(''name'', JStr ''MFA items''), (''visible'', JBool True), (''viewRule'', JStr ''Self''), (''modifyRule'', JStr ''Self'')],
        JObj [(''name'', JStr ''WebAuthn credentials''), (''visible'', JBool True), (''viewRule'', JStr ''Self''), (''modifyRule'', JStr ''Self'')],
        JObj [(''name'', JStr ''Last change password time''), (''visible'', JBool True), (''viewRule'', JStr ''Admin''), (''modifyRule'', JStr ''Admin'')],
        JObj [(''name'', JStr ''Managed accounts''), (''visible'', JBool True), (''viewRule'', JStr ''Self''), (''modifyRule'', JStr ''Self'')],
        JObj [(''name'', JStr ''Face ID''), (''visible'', JBool True), (''viewRule'', JStr ''Self''), (''modifyRule'', JStr ''Self'')],
        JObj [(''name'', JStr ''MFA accounts''), (''visible'', JBool True), (''viewRule'', JStr ''Self''), (''modifyRule'', JStr ''Self'')],
        JObj [(''name'', JStr ''Need update password''), (''visible'', JBool True), (''viewRule'', JStr ''Admin''), (''modifyRule'', JStr ''Admin'')],
        JObj [(''name'', JStr ''IP whitelist''), (''visible'', JBool True), (''viewRule'', JStr ''Admin''), (''modifyRule'', JStr ''Admin'')]])]"

definition addOrganization :: "new_values \<Rightarrow> list_act" where [list_defs]:
  "addOrganization f s = (let new = newOrganization f s in call_api (api_addOrganization new) (RowAdded new) s)"

definition organizationAdded :: "jsval \<Rightarrow> list_reply \<Rightarrow> list_act" where [list_defs]:
  "organizationAdded new r s =
     (let s1 = row_added (open_new (name_path ''/organizations'' new)) r s in
      case r of
        Listed res \<Rightarrow> if an_status res = ''ok'' then list_effect (LFire ''storageOrganizationsChanged'') s1 else s1
      | Unanswered err \<Rightarrow> s1)"

definition deleteOrganizationRow :: "nat \<Rightarrow> list_act" where [list_defs]:
  "deleteOrganizationRow = delete_row api_deleteOrganization"

definition organizationRowDeleted :: "list_reply \<Rightarrow> list_act" where [list_defs]:
  "organizationRowDeleted r s =
     (let s1 = row_deleted organizationListRequest lost_connection r s in
      case (r, page_after_delete s) of
        (Listed res, Return cur) \<Rightarrow> if an_status res = ''ok'' then list_effect (LFire ''storageOrganizationsChanged'') s1 else s1
      | _ \<Rightarrow> s1)"

section \<open>\<open>PaymentListPage.js\<close>\<close>

definition paymentListRequest :: "list_page \<Rightarrow> list_params \<Rightarrow> api_request" where [list_defs]:
  "paymentListRequest s p =
     ask [''type''] (api_getPayments (selected_owner s)) p"

definition fetchPayments :: "list_params \<Rightarrow> list_act" where [list_defs]:
  "fetchPayments = fetch_rows paymentListRequest"

definition paymentsFetched :: "list_params \<Rightarrow> list_reply \<Rightarrow> list_act" where [list_defs]:
  "paymentsFetched p = rowsFetched p"

definition newPayment :: "new_values \<Rightarrow> list_page \<Rightarrow> jsval" where
  "newPayment f s = JObj
      [(''owner'', JStr (request_owner s)), (''name'', JStr (''payment_'' @ fr_random f)),
       (''createdTime'', JStr (fr_now f)), (''displayName'', JStr (''New Payment - '' @ fr_random f)),
       (''provider'', JStr ''provider_pay_paypal''), (''type'', JStr ''PayPal''), (''user'', JStr ''admin''),
       (''products'', JArr []), (''productsDisplayName'', JStr []), (''detail'', JStr ''This is a payment''),
       (''tag'', JStr ''Promotion-1''), (''currency'', JStr ''USD''), (''price'', JNum 300),
       (''payUrl'', JStr ''https://pay.com/pay.php''), (''state'', JStr ''Paid''), (''message'', JStr [])]"

definition addPayment :: "new_values \<Rightarrow> list_act" where [list_defs]:
  "addPayment f s = (let new = newPayment f s in call_api (api_addPayment new) (RowAdded new) s)"

definition paymentAdded :: "jsval \<Rightarrow> list_reply \<Rightarrow> list_act" where [list_defs]:
  "paymentAdded new = row_added (open_new (record_path ''/payments'' ''owner'' new))"

definition deletePaymentRow :: "nat \<Rightarrow> list_act" where [list_defs]:
  "deletePaymentRow = delete_row api_deletePayment"

definition paymentRowDeleted :: "list_reply \<Rightarrow> list_act" where [list_defs]:
  "paymentRowDeleted = row_deleted paymentListRequest lost_connection"

section \<open>\<open>PermissionListPage.js\<close>\<close>

definition permissionListRequest :: "list_page \<Rightarrow> list_params \<Rightarrow> api_request" where [list_defs]:
  "permissionListRequest s p =
     ask [''type''] (if isLocalAdminUser (Some (ls_account s)) then api_getPermissions (selected_owner s)
       else (\<lambda>pg n c v sf so. api_getPermissionsBySubmitter)) p"

definition fetchPermissions :: "list_params \<Rightarrow> list_act" where [list_defs]:
  "fetchPermissions = fetch_rows permissionListRequest"

definition permissionsFetched :: "list_params \<Rightarrow> list_reply \<Rightarrow> list_act" where [list_defs]:
  "permissionsFetched p = rowsFetched p"

definition newPermission :: "new_values \<Rightarrow> list_page \<Rightarrow> jsval" where
  "newPermission f s = JObj
      [(''owner'', JStr (request_owner s)), (''name'', JStr (''permission_'' @ fr_random f)),
       (''createdTime'', JStr (fr_now f)), (''displayName'', JStr (''New Permission - '' @ fr_random f)),
       (''users'', JArr [JStr (ac_owner (ls_account s) @ ''/'' @ ac_name (ls_account s))]),
       (''groups'', JArr []), (''roles'', JArr []), (''domains'', JArr []),
       (''resourceType'', JStr ''Application''), (''resources'', JArr [JStr (fr_application f)]),
       (''actions'', JArr [JStr ''Read'']), (''effect'', JStr ''Allow''), (''isEnabled'', JBool True),
       (''submitter'', JStr (ac_name (ls_account s))), (''approver'', JStr []), (''approveTime'', JStr []),
       (''state'', JStr (if isLocalAdminUser (Some (ls_account s)) then ''Approved'' else ''Pending''))]"

definition addPermission :: "new_values \<Rightarrow> list_act" where [list_defs]:
  "addPermission f s = (let new = newPermission f s in call_api (api_addPermission new) (RowAdded new) s)"

definition permissionAdded :: "jsval \<Rightarrow> list_reply \<Rightarrow> list_act" where [list_defs]:
  "permissionAdded new = row_added (open_new (record_path ''/permissions'' ''owner'' new))"

definition deletePermissionRow :: "nat \<Rightarrow> list_act" where [list_defs]:
  "deletePermissionRow = delete_row api_deletePermission"

definition permissionRowDeleted :: "list_reply \<Rightarrow> list_act" where [list_defs]:
  "permissionRowDeleted = row_deleted permissionListRequest lost_connection"

section \<open>\<open>PlanListPage.js\<close>\<close>

definition planListRequest :: "list_page \<Rightarrow> list_params \<Rightarrow> api_request" where [list_defs]:
  "planListRequest s p =
     ask [''type''] (api_getPlans (selected_owner s)) p"

definition fetchPlans :: "list_params \<Rightarrow> list_act" where [list_defs]:
  "fetchPlans = fetch_rows planListRequest"

definition plansFetched :: "list_params \<Rightarrow> list_reply \<Rightarrow> list_act" where [list_defs]:
  "plansFetched p = rowsFetched p"

definition newPlan :: "new_values \<Rightarrow> list_page \<Rightarrow> jsval" where
  "newPlan f s = JObj
      [(''owner'', JStr (request_owner s)), (''name'', JStr (''plan_'' @ fr_random f)), (''createdTime'', JStr (fr_now f)),
       (''displayName'', JStr (''New Plan - '' @ fr_random f)), (''description'', JStr []),
       (''price'', JNum 10), (''currency'', JStr ''USD''), (''period'', JStr ''Monthly''),
       (''isEnabled'', JBool True), (''paymentProviders'', JArr []), (''role'', JStr []),
       (''options'', JArr [])]"

definition addPlan :: "new_values \<Rightarrow> list_act" where [list_defs]:
  "addPlan f s = (let new = newPlan f s in call_api (api_addPlan new) (RowAdded new) s)"

definition planAdded :: "jsval \<Rightarrow> list_reply \<Rightarrow> list_act" where [list_defs]:
  "planAdded new = row_added (open_new (record_path ''/plans'' ''owner'' new))"

definition deletePlanRow :: "nat \<Rightarrow> list_act" where [list_defs]:
  "deletePlanRow = delete_row api_deletePlan"

definition planRowDeleted :: "list_reply \<Rightarrow> list_act" where [list_defs]:
  "planRowDeleted = row_deleted planListRequest lost_connection"

section \<open>\<open>PricingListPage.js\<close>\<close>

definition pricingListRequest :: "list_page \<Rightarrow> list_params \<Rightarrow> api_request" where [list_defs]:
  "pricingListRequest s p =
     ask [''type''] (api_getPricings (selected_owner s)) p"

definition fetchPricings :: "list_params \<Rightarrow> list_act" where [list_defs]:
  "fetchPricings = fetch_rows pricingListRequest"

definition pricingsFetched :: "list_params \<Rightarrow> list_reply \<Rightarrow> list_act" where [list_defs]:
  "pricingsFetched p = rowsFetched p"

definition newPricing :: "new_values \<Rightarrow> list_page \<Rightarrow> jsval" where
  "newPricing f s = JObj
      [(''owner'', JStr (request_owner s)), (''name'', JStr (''pricing_'' @ fr_random f)),
       (''createdTime'', JStr (fr_now f)), (''plans'', JArr []),
       (''displayName'', JStr (''New Pricing - '' @ fr_random f)), (''isEnabled'', JBool True),
       (''trialDuration'', JNum 7)]"

definition addPricing :: "new_values \<Rightarrow> list_act" where [list_defs]:
  "addPricing f s = (let new = newPricing f s in call_api (api_addPricing new) (RowAdded new) s)"

definition pricingAdded :: "jsval \<Rightarrow> list_reply \<Rightarrow> list_act" where [list_defs]:
  "pricingAdded new = row_added (open_new (record_path ''/pricings'' ''owner'' new))"

definition deletePricingRow :: "nat \<Rightarrow> list_act" where [list_defs]:
  "deletePricingRow = delete_row api_deletePricing"

definition pricingRowDeleted :: "list_reply \<Rightarrow> list_act" where [list_defs]:
  "pricingRowDeleted = row_deleted pricingListRequest lost_connection"

section \<open>\<open>ProductListPage.js\<close>\<close>

definition productListRequest :: "list_page \<Rightarrow> list_params \<Rightarrow> api_request" where [list_defs]:
  "productListRequest s p =
     ask [''type''] (api_getProducts (selected_owner s)) p"

definition fetchProducts :: "list_params \<Rightarrow> list_act" where [list_defs]:
  "fetchProducts = fetch_rows productListRequest"

definition productsFetched :: "list_params \<Rightarrow> list_reply \<Rightarrow> list_act" where [list_defs]:
  "productsFetched p = rowsFetched p"

definition newProduct :: "new_values \<Rightarrow> list_page \<Rightarrow> jsval" where
  "newProduct f s = JObj
      [(''owner'', JStr (request_owner s)), (''name'', JStr (''product_'' @ fr_random f)),
       (''createdTime'', JStr (fr_now f)), (''displayName'', JStr (''New Product - '' @ fr_random f)),
       (''image'', JStr ''/img/archguard-logo.png''), (''tag'', JStr ''ArchGuard Summit 2022''),
       (''currency'', JStr ''USD''), (''price'', JNum 300), (''quantity'', JNum 99), (''sold'', JNum 10),
       (''isRecharge'', JBool False), (''providers'', JArr []), (''state'', JStr ''Published'')]"

definition addProduct :: "new_values \<Rightarrow> list_act" where [list_defs]:
  "addProduct f s = (let new = newProduct f s in call_api (api_addProduct new) (RowAdded new) s)"

definition productAdded :: "jsval \<Rightarrow> list_reply \<Rightarrow> list_act" where [list_defs]:
  "productAdded new = row_added (open_new (record_path ''/products'' ''owner'' new))"

definition deleteProductRow :: "nat \<Rightarrow> list_act" where [list_defs]:
  "deleteProductRow = delete_row api_deleteProduct"

definition productRowDeleted :: "list_reply \<Rightarrow> list_act" where [list_defs]:
  "productRowDeleted = row_deleted productListRequest lost_connection"

section \<open>\<open>ProviderListPage.js\<close>\<close>

definition providerListRequest :: "list_page \<Rightarrow> list_params \<Rightarrow> api_request" where [list_defs]:
  "providerListRequest s p =
     ask [''category'', ''type''] (if all_selected s then api_getGlobalProviders else api_getProviders (request_owner s)) p"

definition fetchProviders :: "list_params \<Rightarrow> list_act" where [list_defs]:
  "fetchProviders = fetch_rows providerListRequest"

definition providersFetched :: "list_params \<Rightarrow> list_reply \<Rightarrow> list_act" where [list_defs]:
  "providersFetched p = rowsFetched p"

definition newProvider :: "new_values \<Rightarrow> list_page \<Rightarrow> jsval" where
  "newProvider f s = JObj
      [(''owner'', new_owner s), (''name'', JStr (''provider_'' @ fr_random f)),
       (''createdTime'', JStr (fr_now f)), (''displayName'', JStr (''New Provider - '' @ fr_random f)),
       (''category'', JStr ''OAuth''), (''type'', JStr ''GitHub''), (''method'', JStr ''Normal''),
       (''clientId'', JStr []), (''clientSecret'', JStr []), (''enableSignUp'', JBool True),
       (''host'', JStr []), (''port'', JNum 0), (''providerUrl'', JStr [])]"

text \<open>A new provider is not sent to the server; it travels with the location.\<close>

definition addProvider :: "new_values \<Rightarrow> list_act" where [list_defs]:
  "addProvider f s =
     (let new = newProvider f s in list_effect (LPushNew (record_path ''/providers'' ''owner'' new) ''add'' new) s)"

definition deleteProviderRow :: "nat \<Rightarrow> list_act" where [list_defs]:
  "deleteProviderRow = delete_row api_deleteProvider"

definition providerRowDeleted :: "list_reply \<Rightarrow> list_act" where [list_defs]:
  "providerRowDeleted = row_deleted providerListRequest lost_connection"

section \<open>\<open>RecordListPage.js\<close>\<close>

definition recordListRequest :: "list_page \<Rightarrow> list_params \<Rightarrow> api_request" where [list_defs]:
  "recordListRequest s p =
     ask [''method''] (api_getRecords (selected_owner s)) p"

definition fetchRecords :: "list_params \<Rightarrow> list_act" where [list_defs]:
  "fetchRecords = fetch_rows recordListRequest"

definition recordsFetched :: "list_params \<Rightarrow> list_reply \<Rightarrow> list_act" where [list_defs]:
  "recordsFetched p = rows_answered (\<lambda>res s. (show_found p res s)\<lparr>ls_more := (ls_more s)(''detailShow'' := JBool False, ''detailRecord'' := JNull)\<rparr>)
       login_first"

section \<open>\<open>ResourceListPage.js\<close>\<close>

definition resourceListRequest :: "list_page \<Rightarrow> list_params \<Rightarrow> api_request" where [list_defs]:
  "resourceListRequest s p =
     ask [] (api_getResources (selected_owner s) (ac_name (ls_account s))) p"

definition fetchResources :: "list_params \<Rightarrow> list_act" where [list_defs]:
  "fetchResources = fetch_rows resourceListRequest"

definition resourcesFetched :: "list_params \<Rightarrow> list_reply \<Rightarrow> list_act" where [list_defs]:
  "resourcesFetched p = rows_answered (show_found p) login_first"

definition deleteResourceRow :: "nat \<Rightarrow> list_act" where [list_defs]:
  "deleteResourceRow = delete_row (\<lambda>r. api_deleteResource r [])"

definition resourceRowDeleted :: "list_reply \<Rightarrow> list_act" where [list_defs]:
  "resourceRowDeleted = row_deleted resourceListRequest lost_connection"

section \<open>\<open>RoleListPage.js\<close>\<close>

definition roleListRequest :: "list_page \<Rightarrow> list_params \<Rightarrow> api_request" where [list_defs]:
  "roleListRequest s p =
     ask [''type''] (api_getRoles (selected_owner s)) p"

definition fetchRoles :: "list_params \<Rightarrow> list_act" where [list_defs]:
  "fetchRoles = fetch_rows roleListRequest"

definition rolesFetched :: "list_params \<Rightarrow> list_reply \<Rightarrow> list_act" where [list_defs]:
  "rolesFetched p = rowsFetched p"

definition newRole :: "new_values \<Rightarrow> list_page \<Rightarrow> jsval" where
  "newRole f s = JObj
      [(''owner'', JStr (request_owner s)), (''name'', JStr (''role_'' @ fr_random f)), (''createdTime'', JStr (fr_now f)),
       (''displayName'', JStr (''New Role - '' @ fr_random f)), (''users'', JArr []), (''groups'', JArr []),
       (''roles'', JArr []), (''domains'', JArr []), (''isEnabled'', JBool True)]"

definition addRole :: "new_values \<Rightarrow> list_act" where [list_defs]:
  "addRole f s = (let new = newRole f s in call_api (api_addRole new) (RowAdded new) s)"

definition roleAdded :: "jsval \<Rightarrow> list_reply \<Rightarrow> list_act" where [list_defs]:
  "roleAdded new = row_added (open_new (record_path ''/roles'' ''owner'' new))"

definition deleteRoleRow :: "nat \<Rightarrow> list_act" where [list_defs]:
  "deleteRoleRow = delete_row api_deleteRole"

definition roleRowDeleted :: "list_reply \<Rightarrow> list_act" where [list_defs]:
  "roleRowDeleted = row_deleted roleListRequest ignore"

section \<open>\<open>RuleListPage.js\<close>\<close>

definition ruleListRequest :: "list_page \<Rightarrow> list_params \<Rightarrow> api_request" where [list_defs]:
  "ruleListRequest s p =
     ask [] (\<lambda>pg n c v sf so. api_getRules (ac_owner (ls_account s)) pg n sf so) p"

definition fetchRules :: "list_params \<Rightarrow> list_act" where [list_defs]:
  "fetchRules = fetch_rows ruleListRequest"

definition rulesFetched :: "list_params \<Rightarrow> list_reply \<Rightarrow> list_act" where [list_defs]:
  "rulesFetched p = rows_answered (show_rows p) (\<lambda>res s. s)"

definition newRule :: "new_values \<Rightarrow> list_page \<Rightarrow> jsval" where
  "newRule f s = JObj
      [(''owner'', JStr (request_owner s)), (''name'', JStr (''rule_'' @ fr_random f)), (''createdTime'', JStr (fr_now f)),
       (''type'', JStr ''User-Agent''), (''expressions'', JArr []), (''action'', JStr ''Block''),
       (''reason'', JStr ''Your request is blocked.'')]"

definition addRule :: "new_values \<Rightarrow> list_act" where [list_defs]:
  "addRule f s = (let new = newRule f s in call_api (api_addRule new) (RowAdded new) s)"

definition ruleAdded :: "jsval \<Rightarrow> list_reply \<Rightarrow> list_act" where [list_defs]:
  "ruleAdded new r s =
     (case r of
        Unanswered err \<Rightarrow> ignore err s
      | Listed res \<Rightarrow>
          if an_status res = ''error'' then report ''Failed to add: '' res s
          else prepend_row ignore (fetchRules (plain_params first_page)) new
                 (list_show ''success'' ''Rule added successfully'' s))"

definition deleteRuleRow :: "nat \<Rightarrow> list_act" where [list_defs]:
  "deleteRuleRow = delete_row api_deleteRule"

definition ruleRowDeleted :: "list_reply \<Rightarrow> list_act" where [list_defs]:
  "ruleRowDeleted r s =
     (case r of
        Unanswered err \<Rightarrow> ignore err s
      | Listed res \<Rightarrow>
          if an_status res = ''error'' then report ''Failed to delete: '' res s
          else refetch_after_delete ruleListRequest ignore (list_show ''success'' ''Deleted successfully'' s))"

section \<open>\<open>ServerListPage.js\<close>\<close>

definition serverListRequest :: "list_page \<Rightarrow> list_params \<Rightarrow> api_request" where [list_defs]:
  "serverListRequest s p =
     ask [] (api_getServers (request_owner s)) p"

definition fetchServers :: "list_params \<Rightarrow> list_act" where [list_defs]:
  "fetchServers = fetch_rows serverListRequest"

definition serversFetched :: "list_params \<Rightarrow> list_reply \<Rightarrow> list_act" where [list_defs]:
  "serversFetched p = rows_answered (show_found p) (report ''general:Failed to get: '')"

definition newServer :: "new_values \<Rightarrow> list_page \<Rightarrow> jsval" where
  "newServer f s = JObj
      [(''owner'', JStr (request_owner s)), (''name'', JStr (''server_'' @ fr_random f)),
       (''createdTime'', JStr (fr_now f)), (''displayName'', JStr (''New Server - '' @ fr_random f)),
       (''url'', JStr []), (''application'', JStr [])]"

definition addServer :: "new_values \<Rightarrow> list_act" where [list_defs]:
  "addServer f s = (let new = newServer f s in call_api (api_addServer new) (RowAdded new) s)"

definition serverAdded :: "jsval \<Rightarrow> list_reply \<Rightarrow> list_act" where [list_defs]:
  "serverAdded new = row_added (open_new (record_path ''/servers'' ''owner'' new))"

definition deleteServerRow :: "nat \<Rightarrow> list_act" where [list_defs]:
  "deleteServerRow = delete_row api_deleteServer"

definition serverRowDeleted :: "list_reply \<Rightarrow> list_act" where [list_defs]:
  "serverRowDeleted = row_deleted serverListRequest lost_connection"

section \<open>\<open>SessionListPage.js\<close>\<close>

definition sessionListRequest :: "list_page \<Rightarrow> list_params \<Rightarrow> api_request" where [list_defs]:
  "sessionListRequest s p =
     ask [''contentType''] (api_getSessions (selected_owner s)) p"

definition fetchSessions :: "list_params \<Rightarrow> list_act" where [list_defs]:
  "fetchSessions = fetch_rows sessionListRequest"

definition sessionsFetched :: "list_params \<Rightarrow> list_reply \<Rightarrow> list_act" where [list_defs]:
  "sessionsFetched p = rowsFetched p"

definition deleteSessionRow :: "nat \<Rightarrow> string \<Rightarrow> list_act" where [list_defs]:
  "deleteSessionRow i sessionId = delete_row (\<lambda>session. api_deleteSession session sessionId) i"

definition sessionRowDeleted :: "list_reply \<Rightarrow> list_act" where [list_defs]:
  "sessionRowDeleted = row_deleted sessionListRequest lost_connection"

text \<open>Closing the tag of a session asks for a confirmation.\<close>

definition handleTagClose :: "nat \<Rightarrow> string \<Rightarrow> list_act" where [list_defs]:
  "handleTagClose rowIndex sessionId s =
     s\<lparr>ls_more := (ls_more s)(''confirmTagKey'' := JStr (show_nat rowIndex @ ''-'' @ sessionId))\<rparr>"

section \<open>\<open>SiteListPage.js\<close>\<close>

definition siteListRequest :: "list_page \<Rightarrow> list_params \<Rightarrow> api_request" where [list_defs]:
  "siteListRequest s p =
     ask [] (\<lambda>pg n c v sf so. if all_selected s then api_getGlobalSites
       else api_getSites (request_owner s) [] [] c v sf so) p"

definition fetchSites :: "list_params \<Rightarrow> list_act" where [list_defs]:
  "fetchSites = fetch_rows siteListRequest"

definition sitesFetched :: "list_params \<Rightarrow> list_reply \<Rightarrow> list_act" where [list_defs]:
  "sitesFetched p = rows_answered (show_rows p) (report ''Failed to get sites: '')"

definition newSite :: "new_values \<Rightarrow> list_page \<Rightarrow> jsval" where
  "newSite f s = JObj
      [(''owner'', JStr (request_owner s)), (''name'', JStr (''site_'' @ fr_random f)), (''createdTime'', JStr (fr_now f)),
       (''displayName'', JStr (''New Site - '' @ fr_random f)), (''domain'', JStr ''door.casdoor.com''),
       (''otherDomains'', JArr []), (''needRedirect'', JBool False), (''disableVerbose'', JBool False),
       (''rules'', JArr []), (''enableAlert'', JBool False), (''alertInterval'', JNum 60),
       (''alertTryTimes'', JNum 3), (''alertProviders'', JArr []), (''challenges'', JArr []),
       (''host'', JStr []), (''port'', JNum 8000), (''hosts'', JArr []), (''sslMode'', JStr ''HTTPS Only''),
       (''sslCert'', JStr []), (''publicIp'', JStr ''8.131.81.162''), (''node'', JStr []),
       (''isSelf'', JBool False), (''nodes'', JArr []), (''casdoorApplication'', JStr []),
       (''organizations'', JArr [])]"

definition addSite :: "new_values \<Rightarrow> list_act" where [list_defs]:
  "addSite f s = (let new = newSite f s in call_api (api_addSite new) (RowAdded new) s)"

definition siteAdded :: "jsval \<Rightarrow> list_reply \<Rightarrow> list_act" where [list_defs]:
  "siteAdded new r s =
     (case r of
        Unanswered err \<Rightarrow> (\<lambda>err. list_show ''error'' (''Site failed to add: '' @ err)) err s
      | Listed res \<Rightarrow>
          if an_status res = ''error'' then report ''Failed to add: '' res s
          else prepend_row (\<lambda>err. list_show ''error'' (''Site failed to add: '' @ err)) (fetchSites (plain_params first_page)) new
                 (list_show ''success'' ''Site added successfully'' s))"

definition deleteSiteRow :: "nat \<Rightarrow> list_act" where [list_defs]:
  "deleteSiteRow = delete_row api_deleteSite"

definition siteRowDeleted :: "list_reply \<Rightarrow> list_act" where [list_defs]:
  "siteRowDeleted r s =
     (case r of
        Unanswered err \<Rightarrow> (\<lambda>err. list_show ''error'' (''Site failed to delete: '' @ err)) err s
      | Listed res \<Rightarrow>
          if an_status res = ''error'' then report ''Failed to delete: '' res s
          else refetch_after_delete siteListRequest (\<lambda>err. list_show ''error'' (''Site failed to delete: '' @ err)) (list_show ''success'' ''Site deleted successfully'' s))"

section \<open>\<open>SubscriptionListPage.js\<close>\<close>

definition subscriptionListRequest :: "list_page \<Rightarrow> list_params \<Rightarrow> api_request" where [list_defs]:
  "subscriptionListRequest s p =
     ask [''type''] (api_getSubscriptions (selected_owner s)) p"

definition fetchSubscriptions :: "list_params \<Rightarrow> list_act" where [list_defs]:
  "fetchSubscriptions = fetch_rows subscriptionListRequest"

definition subscriptionsFetched :: "list_params \<Rightarrow> list_reply \<Rightarrow> list_act" where [list_defs]:
  "subscriptionsFetched p = rowsFetched p"

definition newSubscription :: "new_values \<Rightarrow> list_page \<Rightarrow> jsval" where
  "newSubscription f s = JObj
      [(''owner'', JStr (request_owner s)), (''name'', JStr (''sub_'' @ fr_random f)), (''createdTime'', JStr (fr_now f)),
       (''displayName'', JStr (''New Subscription - '' @ fr_random f)), (''startTime'', JStr (fr_now f)),
       (''endTime'', JStr (fr_later f)), (''period'', JStr ''Monthly''), (''description'', JStr []),
       (''user'', JStr []), (''plan'', JStr []), (''state'', JStr ''Active'')]"

definition addSubscription :: "new_values \<Rightarrow> list_act" where [list_defs]:
  "addSubscription f s = (let new = newSubscription f s in call_api (api_addSubscription new) (RowAdded new) s)"

definition subscriptionAdded :: "jsval \<Rightarrow> list_reply \<Rightarrow> list_act" where [list_defs]:
  "subscriptionAdded new = row_added (open_new (record_path ''/subscriptions'' ''owner'' new))"

definition deleteSubscriptionRow :: "nat \<Rightarrow> list_act" where [list_defs]:
  "deleteSubscriptionRow = delete_row api_deleteSubscription"

definition subscriptionRowDeleted :: "list_reply \<Rightarrow> list_act" where [list_defs]:
  "subscriptionRowDeleted = row_deleted subscriptionListRequest lost_connection"

section \<open>\<open>SyncerListPage.js\<close>\<close>

definition syncerListRequest :: "list_page \<Rightarrow> list_params \<Rightarrow> api_request" where [list_defs]:
  "syncerListRequest s p =
     ask [''type''] (api_getSyncers ''admin'' (selected_owner s)) p"

definition fetchSyncers :: "list_params \<Rightarrow> list_act" where [list_defs]:
  "fetchSyncers = fetch_rows syncerListRequest"

definition syncersFetched :: "list_params \<Rightarrow> list_reply \<Rightarrow> list_act" where [list_defs]:
  "syncersFetched p = rowsFetched p"

definition newSyncer :: "new_values \<Rightarrow> list_page \<Rightarrow> jsval" where
  "newSyncer f s = JObj
      [(''owner'', JStr ''admin''), (''name'', JStr (''syncer_'' @ fr_random f)),
       (''createdTime'', JStr (fr_now f)), (''organization'', JStr (request_owner s)),
       (''type'', JStr ''Database''), (''host'', JStr ''localhost''), (''port'', JNum 3306),
       (''user'', JStr ''root''), (''password'', JStr ''123456''), (''databaseType'', JStr ''mysql''),
       (''database'', JStr ''dbName''), (''table'', JStr ''table_name''), (''tableColumns'', JArr []),
       (''affiliationTable'', JStr []), (''avatarBaseUrl'', JStr []), (''syncInterval'', JNum 10),
       (''isReadOnly'', JBool False), (''isEnabled'', JBool False)]"

definition addSyncer :: "new_values \<Rightarrow> list_act" where [list_defs]:
  "addSyncer f s = (let new = newSyncer f s in call_api (api_addSyncer new) (RowAdded new) s)"

definition syncerAdded :: "jsval \<Rightarrow> list_reply \<Rightarrow> list_act" where [list_defs]:
  "syncerAdded new = row_added (open_new (name_path ''/syncers'' new))"

definition deleteSyncerRow :: "nat \<Rightarrow> list_act" where [list_defs]:
  "deleteSyncerRow = delete_row api_deleteSyncer"

definition syncerRowDeleted :: "list_reply \<Rightarrow> list_act" where [list_defs]:
  "syncerRowDeleted = row_deleted syncerListRequest lost_connection"

section \<open>\<open>TicketListPage.js\<close>\<close>

definition ticketListRequest :: "list_page \<Rightarrow> list_params \<Rightarrow> api_request" where [list_defs]:
  "ticketListRequest s p =
     ask [''type''] (api_getTickets (selected_owner s)) p"

definition fetchTickets :: "list_params \<Rightarrow> list_act" where [list_defs]:
  "fetchTickets = fetch_rows ticketListRequest"

definition ticketsFetched :: "list_params \<Rightarrow> list_reply \<Rightarrow> list_act" where [list_defs]:
  "ticketsFetched p = rowsFetched p"

definition newTicket :: "new_values \<Rightarrow> list_page \<Rightarrow> jsval" where
  "newTicket f s = JObj
      [(''owner'', JStr (request_owner s)), (''name'', JStr (''ticket_'' @ fr_random f)),
       (''createdTime'', JStr (fr_now f)), (''updatedTime'', JStr (fr_now f)),
       (''displayName'', JStr (''New Ticket - '' @ fr_random f)), (''user'', JStr (ac_name (ls_account s))),
       (''title'', JStr []), (''content'', JStr []), (''state'', JStr ''Open''), (''messages'', JArr [])]"

definition addTicket :: "new_values \<Rightarrow> list_act" where [list_defs]:
  "addTicket f s = (let new = newTicket f s in call_api (api_addTicket new) (RowAdded new) s)"

definition ticketAdded :: "jsval \<Rightarrow> list_reply \<Rightarrow> list_act" where [list_defs]:
  "ticketAdded new = row_added (open_new (record_path ''/tickets'' ''owner'' new))"

definition deleteTicketRow :: "nat \<Rightarrow> list_act" where [list_defs]:
  "deleteTicketRow = delete_row api_deleteTicket"

definition ticketRowDeleted :: "list_reply \<Rightarrow> list_act" where [list_defs]:
  "ticketRowDeleted = row_deleted ticketListRequest lost_connection"

section \<open>\<open>TokenListPage.js\<close>\<close>

definition tokenListRequest :: "list_page \<Rightarrow> list_params \<Rightarrow> api_request" where [list_defs]:
  "tokenListRequest s p =
     ask [] (api_getTokens ''admin'' (selected_owner s)) p"

definition fetchTokens :: "list_params \<Rightarrow> list_act" where [list_defs]:
  "fetchTokens = fetch_rows tokenListRequest"

definition tokensFetched :: "list_params \<Rightarrow> list_reply \<Rightarrow> list_act" where [list_defs]:
  "tokensFetched p = rowsFetched p"

definition newToken :: "new_values \<Rightarrow> list_page \<Rightarrow> jsval" where
  "newToken f s = JObj
      [(''owner'', JStr ''admin''), (''name'', JStr (''token_'' @ fr_random f)),
       (''createdTime'', JStr (fr_now f)), (''application'', JStr (fr_application f)),
       (''organization'', JStr (request_owner s)), (''user'', JStr ''admin''), (''accessToken'', JStr []),
       (''expiresIn'', JNum 7200), (''scope'', JStr ''read''), (''tokenType'', JStr ''Bearer'')]"

definition addToken :: "new_values \<Rightarrow> list_act" where [list_defs]:
  "addToken f s = (let new = newToken f s in call_api (api_addToken new) (RowAdded new) s)"

definition tokenAdded :: "jsval \<Rightarrow> list_reply \<Rightarrow> list_act" where [list_defs]:
  "tokenAdded new = row_added (open_new (name_path ''/tokens'' new))"

definition deleteTokenRow :: "nat \<Rightarrow> list_act" where [list_defs]:
  "deleteTokenRow = delete_row api_deleteToken"

definition tokenRowDeleted :: "list_reply \<Rightarrow> list_act" where [list_defs]:
  "tokenRowDeleted = row_deleted tokenListRequest lost_connection"

section \<open>\<open>TransactionListPage.js\<close>\<close>

definition transactionListRequest :: "list_page \<Rightarrow> list_params \<Rightarrow> api_request" where [list_defs]:
  "transactionListRequest s p =
     ask [''type''] (api_getTransactions (selected_owner s)) p"

definition fetchTransactions :: "list_params \<Rightarrow> list_act" where [list_defs]:
  "fetchTransactions = fetch_rows transactionListRequest"

definition transactionsFetched :: "list_params \<Rightarrow> list_reply \<Rightarrow> list_act" where [list_defs]:
  "transactionsFetched p = rowsFetched p"

definition newTransaction :: "new_values \<Rightarrow> list_page \<Rightarrow> jsval" where
  "newTransaction f s = JObj
      [(''owner'', JStr (request_owner s)), (''createdTime'', JStr (fr_now f)),
       (''application'', JStr (fr_application f)), (''domain'', JStr ''https://ai-admin.casibase.com''),
       (''category'', JStr []), (''type'', JStr ''chat_id''), (''subtype'', JStr ''message_id''),
       (''provider'', JStr ''provider_chatgpt''), (''user'', JStr ''admin''), (''tag'', JStr ''AI message''),
       (''amount'', fr_tenth f), (''currency'', JStr ''USD''), (''payment'', JStr ''payment_paypal_001''),
       (''state'', JStr ''Paid'')]"

text \<open>The server chooses the name of a transaction and answers with it.\<close>

definition addTransaction :: "new_values \<Rightarrow> list_act" where [list_defs]:
  "addTransaction f s = (let new = newTransaction f s in call_api (api_addTransaction new) (RowAdded new) s)"

definition transactionAdded :: "jsval \<Rightarrow> list_reply \<Rightarrow> list_act" where [list_defs]:
  "transactionAdded new r =
     row_added (open_new (''/transactions/'' @ text_field new ''owner'' @ ''/''
       @ (case r of Listed res \<Rightarrow> js_text (an_data res) | Unanswered err \<Rightarrow> []))) r"

definition deleteTransactionRow :: "nat \<Rightarrow> list_act" where [list_defs]:
  "deleteTransactionRow = delete_row api_deleteTransaction"

definition transactionRowDeleted :: "list_reply \<Rightarrow> list_act" where [list_defs]:
  "transactionRowDeleted = row_deleted transactionListRequest lost_connection"

section \<open>\<open>UserListPage.js\<close>\<close>

definition userListRequest :: "list_page \<Rightarrow> list_params \<Rightarrow> api_request" where [list_defs]:
  "userListRequest s p =
     ask [] (if ls_path s = ''/users''
       then (if all_selected s then api_getGlobalUsers
             else (\<lambda>pg n c v sf so. api_getUsers (request_owner s) pg n c v sf so []))
       else (\<lambda>pg n c v sf so. api_getUsers (ls_organizationName s) pg n c v sf so
               (case shown_group s of None \<Rightarrow> [] | Some g \<Rightarrow> g))) p"

definition fetchUsers :: "list_params \<Rightarrow> list_act" where [list_defs]:
  "fetchUsers = fetch_rows userListRequest"

definition usersFetched :: "list_params \<Rightarrow> list_reply \<Rightarrow> list_act" where [list_defs]:
  "usersFetched p = rowsFetched p"

text \<open>The organization of the page is \<open>null\<close> until it has been read; reading its fields throws then.\<close>

definition newUser :: "new_values \<Rightarrow> list_page \<Rightarrow> jsval result" where
  "newUser f s =
     (let org = ls_more s ''organization''; grp = shown_group s;
          owner = (if all_selected s \<or> grp \<noteq> None then ls_organizationName s else request_owner s) in
      if \<not> js_bool org then Throw TypeError else Return (JObj
      [(''owner'', JStr owner), (''name'', JStr (''user_'' @ fr_random f)), (''createdTime'', JStr (fr_now f)),
       (''type'', JStr ''normal-user''), (''password'', JStr ''123''), (''passwordSalt'', JStr []),
       (''displayName'', JStr (''New User - '' @ fr_random f)),
       (''avatar'', nullish (field org ''defaultAvatar'') (JStr (fr_static f @ ''/img/casbin.svg''))),
       (''email'', JStr (fr_random f @ ''@example.com'')), (''phone'', JStr (fr_number f)),
       (''countryCode'', first_code (field org ''countryCodes'')), (''address'', JArr []),
       (''groups'', (case grp of None \<Rightarrow> JArr [] | Some g \<Rightarrow> JArr [JStr (owner @ ''/'' @ g)])),
       (''affiliation'', JStr ''Example Inc.''), (''tag'', JStr ''staff''), (''region'', JStr []),
       (''realName'', JStr []), (''isVerified'', JBool False), (''isAdmin'', JBool (owner = ''built-in'')),
       (''IsForbidden'', JBool False), (''score'', field org ''initScore''), (''isDeleted'', JBool False),
       (''properties'', JObj []), (''signupApplication'', field org ''defaultApplication''),
       (''registerType'', JStr ''Add User''),
       (''registerSource'', JStr (ac_owner (ls_account s) @ ''/'' @ ac_name (ls_account s))),
       (''balanceCurrency'', (if js_bool (field org ''balanceCurrency'') then field org ''balanceCurrency'' else JStr ''USD''))]))"

definition addUser :: "new_values \<Rightarrow> list_act" where [list_defs]:
  "addUser f s = (case newUser f s of Throw e \<Rightarrow> s | Return new \<Rightarrow> call_api (api_addUser new) (RowAdded new) s)"

definition userAdded :: "jsval \<Rightarrow> list_reply \<Rightarrow> list_act" where [list_defs]:
  "userAdded new = row_added (\<lambda>s. open_new (record_path ''/users'' ''owner'' new) (list_effect (LStore ''userListUrl'' (ls_path s)) s))"

definition deleteUserRow :: "nat \<Rightarrow> list_act" where [list_defs]:
  "deleteUserRow = delete_row api_deleteUser"

definition userRowDeleted :: "list_reply \<Rightarrow> list_act" where [list_defs]:
  "userRowDeleted = row_deleted userListRequest lost_connection"

section \<open>\<open>VerificationListPage.js\<close>\<close>

definition verificationListRequest :: "list_page \<Rightarrow> list_params \<Rightarrow> api_request" where [list_defs]:
  "verificationListRequest s p =
     ask [''type''] (api_getVerifications [] (selected_owner s)) p"

definition fetchVerifications :: "list_params \<Rightarrow> list_act" where [list_defs]:
  "fetchVerifications = fetch_rows verificationListRequest"

definition verificationsFetched :: "list_params \<Rightarrow> list_reply \<Rightarrow> list_act" where [list_defs]:
  "verificationsFetched p = rowsFetched p"

definition newVerification :: "new_values \<Rightarrow> list_page \<Rightarrow> jsval" where
  "newVerification f s = JObj
      [(''owner'', JStr ''admin''), (''name'', JStr (''Verification_'' @ fr_random f)),
       (''createdTime'', JStr (fr_now f))]"

section \<open>\<open>WebhookListPage.js\<close>\<close>

definition webhookListRequest :: "list_page \<Rightarrow> list_params \<Rightarrow> api_request" where [list_defs]:
  "webhookListRequest s p =
     ask [''contentType''] (api_getWebhooks ''admin'' (selected_owner s)) p"

definition fetchWebhooks :: "list_params \<Rightarrow> list_act" where [list_defs]:
  "fetchWebhooks = fetch_rows webhookListRequest"

definition webhooksFetched :: "list_params \<Rightarrow> list_reply \<Rightarrow> list_act" where [list_defs]:
  "webhooksFetched p = rowsFetched p"

definition newWebhook :: "new_values \<Rightarrow> list_page \<Rightarrow> jsval" where
  "newWebhook f s = JObj
      [(''owner'', JStr ''admin''), (''name'', JStr (''webhook_'' @ fr_random f)),
       (''createdTime'', JStr (fr_now f)), (''organization'', JStr (request_owner s)),
       (''url'', JStr ''https://example.com/callback''), (''method'', JStr ''POST''),
       (''contentType'', JStr ''application/json''), (''headers'', JArr []),
       (''events'', JArr [JStr ''signup'', JStr ''login'', JStr ''logout'', JStr ''update-user'']),
       (''isEnabled'', JBool True)]"

definition addWebhook :: "new_values \<Rightarrow> list_act" where [list_defs]:
  "addWebhook f s = (let new = newWebhook f s in call_api (api_addWebhook new) (RowAdded new) s)"

definition webhookAdded :: "jsval \<Rightarrow> list_reply \<Rightarrow> list_act" where [list_defs]:
  "webhookAdded new = row_added (open_new (name_path ''/webhooks'' new))"

definition deleteWebhookRow :: "nat \<Rightarrow> list_act" where [list_defs]:
  "deleteWebhookRow = delete_row api_deleteWebhook"

definition webhookRowDeleted :: "list_reply \<Rightarrow> list_act" where [list_defs]:
  "webhookRowDeleted = row_deleted webhookListRequest lost_connection"

section \<open>Other operations of the lists\<close>

text \<open>A copy of an application, with a name of its own and without credentials.\<close>

definition copied_application :: "new_values \<Rightarrow> jsval \<Rightarrow> jsval" where
  "copied_application f original =
     (let newName = text_field original ''name'' @ ''_'' @ fr_random f in
      JObj (fold (\<lambda>(k, v). AList.update k v)
        [(''name'', JStr newName), (''createdTime'', JStr (fr_now f)),
         (''displayName'', JStr (''Copy Application - '' @ newName)), (''clientId'', JStr []), (''clientSecret'', JStr [])]
        (case original of JObj ps \<Rightarrow> ps | _ \<Rightarrow> [])))"

definition copyApplication :: "new_values \<Rightarrow> nat \<Rightarrow> list_act" where [list_defs]:
  "copyApplication f i s =
     (case ls_data s of
        Some rows \<Rightarrow> if i < length rows
          then call_api (api_addApplication (copied_application f (rows ! i))) (RowAdded (copied_application f (rows ! i))) s
          else s
      | None \<Rightarrow> s)"

definition applicationCopied :: "jsval \<Rightarrow> list_reply \<Rightarrow> list_act" where [list_defs]:
  "applicationCopied copy r s =
     (case r of
        Unanswered err \<Rightarrow> lost_connection err s
      | Listed res \<Rightarrow>
          if an_status res = ''ok''
          then list_show ''success'' ''general:Successfully copied'' (open_new (record_path ''/applications'' ''organization'' copy) s)
          else report ''general:Failed to copy: '' res s)"

text \<open>Cancelling an order asks for the same page again.\<close>

definition cancelOrder :: "jsval \<Rightarrow> list_act" where [list_defs]:
  "cancelOrder order = call_api (api_cancelOrder (text_field order ''owner'') (text_field order ''name'')) (Called ''cancelOrder'')"

definition orderCanceled :: "list_reply \<Rightarrow> list_act" where [list_defs]:
  "orderCanceled r s =
     (case r of
        Unanswered err \<Rightarrow> lost_connection err s
      | Listed res \<Rightarrow>
          if an_status res = ''ok''
          then fetchOrders (plain_params (ls_pagination s)) (list_show ''success'' ''general:Successfully canceled'' s)
          else report ''general:Failed to cancel: '' res s)"

definition refreshCert :: "nat \<Rightarrow> list_act" where [list_defs]:
  "refreshCert i s =
     (case ls_data s of
        Some rows \<Rightarrow> if i < length rows
          then call_api (api_refreshDomainExpire (text_field (rows ! i) ''owner'') (text_field (rows ! i) ''name''))
                 (Called ''refreshDomainExpire'') s
          else s
      | None \<Rightarrow> s)"

definition certRefreshed :: "list_reply \<Rightarrow> list_act" where [list_defs]:
  "certRefreshed r s =
     (let lost = (\<lambda>err. list_show ''error'' (''Domain expire failed to refresh: '' @ err)) in
      case r of
        Unanswered err \<Rightarrow> lost err s
      | Listed res \<Rightarrow>
          if an_status res = ''error'' then report ''Failed to refresh domain expire: '' res s
          else refetch_after_delete certListRequest lost
                 (list_show ''success'' ''Domain expire refreshed successfully'' s))"

text \<open>\<open>loading\<close> is set before the row is looked up.\<close>

definition runSyncer :: "nat \<Rightarrow> list_act" where [list_defs]:
  "runSyncer i s =
     (let s1 = s\<lparr>ls_loading := True\<rparr> in
      case ls_data s of
        Some rows \<Rightarrow> if i < length rows
          then call_api (api_runSyncer ''admin'' (text_field (rows ! i) ''name'') (text_field (rows ! i) ''organization''))
                 (Called ''runSyncer'') s1
          else s1
      | None \<Rightarrow> s1)"

definition syncerRun :: "list_reply \<Rightarrow> list_act" where [list_defs]:
  "syncerRun r s =
     (case r of
        Unanswered err \<Rightarrow> list_show ''error'' (''general:Failed to sync: '' @ err) (done_loading s)
      | Listed res \<Rightarrow>
          if an_status res = ''ok'' then list_show ''success'' ''general:Successfully synced'' (done_loading s)
          else report ''general:Failed to sync: '' res (done_loading s))"

text \<open>The end of an upload on the lists of groups, roles, permissions and users.\<close>

definition after_upload :: "(list_page \<Rightarrow> list_params \<Rightarrow> api_request) \<Rightarrow> string \<Rightarrow> list_answer \<Rightarrow> list_act" where [list_acts]:
  "after_upload rq msg res s =
     (let s1 = (if an_status res = ''ok'' then fetch_rows rq (plain_params (ls_pagination s)) (list_show ''success'' msg s)
                else if an_status res = ''error'' then report ''general:Failed to upload: '' res s
                else s) in
      s1\<lparr>ls_more := (ls_more s1)(''uploadJsonData'' := JArr [], ''uploadColumns'' := JArr [],
        ''showUploadModal'' := JBool False)\<rparr>)"

definition uploadGroupFile :: "list_answer \<Rightarrow> list_act" where [list_defs]:
  "uploadGroupFile = after_upload groupListRequest ''general:Successfully saved''"

definition uploadRoleFile :: "list_answer \<Rightarrow> list_act" where [list_defs]:
  "uploadRoleFile = after_upload roleListRequest ''Roles uploaded successfully, refreshing the page''"

definition uploadPermissionFile :: "list_answer \<Rightarrow> list_act" where [list_defs]:
  "uploadPermissionFile = after_upload permissionListRequest ''Permissions uploaded successfully, refreshing the page''"

definition uploadUserFile :: "list_answer \<Rightarrow> list_act" where [list_defs]:
  "uploadUserFile = after_upload userListRequest ''Users uploaded successfully, refreshing the page''"

text \<open>
  Removing a user from the shown group takes the row out of the table and replaces the paging by its
  total alone.
\<close>

definition userRemovedFromGroup :: "nat \<Rightarrow> list_reply \<Rightarrow> list_act" where [list_defs]:
  "userRemovedFromGroup i r s =
     (case r of
        Unanswered err \<Rightarrow> lost_connection err s
      | Listed res \<Rightarrow>
          if an_status res = ''ok''
          then (case ls_data s of
                  None \<Rightarrow> lost_connection (error_text TypeError) (list_show ''success'' ''general:Successfully removed'' s)
                | Some rows \<Rightarrow> (list_show ''success'' ''general:Successfully removed'' s)\<lparr>
                    ls_data := Some (deleteRow rows (int i)),
                    ls_pagination := \<lparr>pg_current = None, pg_pageSize = None,
                      pg_total = less_one (pg_total (ls_pagination s))\<rparr>\<rparr>)
          else report ''general:Failed to remove: '' res s)"

definition userOrganizationReceived :: "list_reply \<Rightarrow> list_act" where [list_defs]:
  "userOrganizationReceived r s =
     (case r of
        Unanswered err \<Rightarrow> s
      | Listed res \<Rightarrow>
          if an_status res = ''ok'' then s\<lparr>ls_more := (ls_more s)(''organization'' := an_data res)\<rparr>
          else report ''general:Failed to get: '' res s)"

text \<open>The row of a server that a scan of the intranet has found.\<close>

definition scanned_server :: "new_values \<Rightarrow> list_page \<Rightarrow> jsval \<Rightarrow> jsval" where
  "scanned_server f s scan = JObj
     [(''owner'', JStr (request_owner s)), (''name'', JStr (''server_'' @ fr_random f)), (''createdTime'', JStr (fr_now f)),
      (''displayName'', JStr (''Scanned MCP '' @ text_field scan ''host'' @ '':'' @ text_field scan ''port'')),
      (''url'', field scan ''url''), (''application'', JStr [])]"

definition addScannedServer :: "new_values \<Rightarrow> jsval \<Rightarrow> list_act" where [list_defs]:
  "addScannedServer f scan s =
     call_api (api_addServer (scanned_server f s scan)) (RowAdded (scanned_server f s scan)) s"

definition scannedServerAdded :: "list_reply \<Rightarrow> list_act" where [list_defs]:
  "scannedServerAdded r s =
     (case r of
        Unanswered err \<Rightarrow> lost_connection err s
      | Listed res \<Rightarrow>
          if an_status res = ''ok''
          then fetchServers (plain_params (ls_pagination s)) (list_show ''success'' ''general:Successfully added'' s)
          else report ''general:Failed to add: '' res s)"

text \<open>
  The lists of rules and sites ask for their rows themselves when they are mounted. The size of a page
  that is set in the same handler is not in the state yet when the rows are asked for.
\<close>

definition mountRules :: list_act where [list_defs]:
  "mountRules s = (fetchRules (plain_params (ls_pagination s)) s)\<lparr>ls_pagination :=
     (ls_pagination s)\<lparr>pg_current := Some 1, pg_pageSize := Some 10\<rparr>\<rparr>"

definition mountSites :: list_act where [list_defs]:
  "mountSites s = (fetchSites (plain_params (ls_pagination s)) s)\<lparr>ls_pagination :=
     (ls_pagination s)\<lparr>pg_current := Some 1, pg_pageSize := Some 1000\<rparr>\<rparr>"

end
