(* ===== verification/List_Rules.thy ===== *)
theory List_Rules
  imports List_Pages
begin

text \<open>
  Runs of a list page: what the user does and the answers, in any order. The contract of a list page is
  the locale \<open>paged_list\<close>, that of a page which also keeps the search the locale \<open>searched_list\<close>; they are
  interpreted on the pages.
\<close>

section \<open>Runs\<close>

datatype list_event =
    MountList
  | ChangeTable paging "string \<Rightarrow> jsval" jsval jsval
  | SearchFor jsval string
  | ResetList
  | PressFilter paging "string \<Rightarrow> jsval" jsval string
  | PickOrganization string
  | PressDelete nat
  | AnswerTo nat list_reply

definition deliver_answer :: "list_ops \<Rightarrow> list_pending \<Rightarrow> list_reply \<Rightarrow> list_act" where
  "deliver_answer ops k r =
     (case k of
        RowsFor p \<Rightarrow> lo_fetched ops p r
      | RowDeleted \<Rightarrow> lo_deleted ops r
      | FormWithTag t \<Rightarrow> formWithTagReceived t r
      | FormWithoutTag \<Rightarrow> formWithoutTagReceived r
      | RowAdded new \<Rightarrow> (\<lambda>s. s)
      | Called name \<Rightarrow> (\<lambda>s. s))"

definition without_nth :: "nat \<Rightarrow> 'a list \<Rightarrow> 'a list" where
  "without_nth i xs = take i xs @ drop (Suc i) xs"

definition list_step :: "list_ops \<Rightarrow> list_event \<Rightarrow> list_act" where
  "list_step ops ev s =
     (case ev of
        MountList \<Rightarrow> mount_list ops s
      | ChangeTable g filters sf so \<Rightarrow> handleTableChange ops g filters sf so s
      | SearchFor key col \<Rightarrow> list_handleSearch ops key col s
      | ResetList \<Rightarrow> handleReset ops s
      | PressFilter g filters key col \<Rightarrow> filterLink ops g filters key col s
      | PickOrganization w \<Rightarrow> pickOrganization ops w s
      | PressDelete i \<Rightarrow> lo_delete ops i s
      | AnswerTo i r \<Rightarrow>
          if i < length (ls_pending s)
          then deliver_answer ops (ls_pending s ! i) r (s\<lparr>ls_pending := without_nth i (ls_pending s)\<rparr>)
          else s)"

text \<open>The answer with rows that an event brings, with the parameters that it answers.\<close>

definition rows_brought :: "list_event \<Rightarrow> list_page \<Rightarrow> (list_params \<times> list_answer) list" where
  "rows_brought ev s =
     (case ev of
        AnswerTo i (Listed res) \<Rightarrow>
          if i < length (ls_pending s) \<and> an_status res = ''ok''
          then (case ls_pending s ! i of RowsFor p \<Rightarrow> [(p, res)] | _ \<Rightarrow> [])
          else []
      | _ \<Rightarrow> [])"

fun list_run :: "list_ops \<Rightarrow> list_event list \<Rightarrow> list_page \<Rightarrow> list_page" where
  "list_run ops [] s = s"
| "list_run ops (ev # evs) s = list_run ops evs (list_step ops ev s)"

fun answers_with_rows :: "list_ops \<Rightarrow> list_event list \<Rightarrow> list_page \<Rightarrow> (list_params \<times> list_answer) list" where
  "answers_with_rows ops [] s = []"
| "answers_with_rows ops (ev # evs) s = rows_brought ev s @ answers_with_rows ops evs (list_step ops ev s)"

section \<open>What a table shows\<close>

definition same_rows :: "list_page \<Rightarrow> list_page \<Rightarrow> bool" where
  "same_rows s t \<longleftrightarrow> ls_data t = ls_data s \<and> ls_pagination t = ls_pagination s"

definition same_search :: "list_page \<Rightarrow> list_page \<Rightarrow> bool" where
  "same_search s t \<longleftrightarrow> ls_searchText t = ls_searchText s \<and> ls_searchedColumn t = ls_searchedColumn s"

definition rows_from :: "list_page \<Rightarrow> list_params \<times> list_answer \<Rightarrow> bool" where
  "rows_from s = (\<lambda>(p, res). ls_data s = rows_of (an_data res) \<and> ls_pagination s = with_total (lp_pagination p) res)"

definition search_from :: "list_page \<Rightarrow> list_params \<Rightarrow> bool" where
  "search_from s p \<longleftrightarrow> ls_searchText s = lp_searchText p \<and> ls_searchedColumn s = lp_searchedColumn p"

definition waits_for_rows :: "list_page \<Rightarrow> bool" where
  "waits_for_rows s = list_ex (\<lambda>k. case k of RowsFor p \<Rightarrow> True | _ \<Rightarrow> False) (ls_pending s)"

definition loads_only_waiting :: "list_page \<Rightarrow> bool" where
  "loads_only_waiting s \<longleftrightarrow> (ls_loading s \<longrightarrow> waits_for_rows s)"

lemma same_rows_simps [simp]:
  "same_rows s s" "same_search s s"
  by (simp_all add: same_rows_def same_search_def)

lemma same_rows_trans: "same_rows s t \<Longrightarrow> same_rows t u \<Longrightarrow> same_rows s u"
  by (simp add: same_rows_def)

lemma same_search_trans: "same_search s t \<Longrightarrow> same_search t u \<Longrightarrow> same_search s u"
  by (simp add: same_search_def)

lemma waits_append [simp]:
  "waits_for_rows (s\<lparr>ls_pending := ls_pending s @ [RowsFor p]\<rparr>)"
  by (simp add: waits_for_rows_def)

text \<open>Asking for rows keeps the table, and what loads waits.\<close>

lemma fetch_rows_keeps [simp]:
  "same_rows s (fetch_rows rq p s)" "same_search s (fetch_rows rq p s)"
  "loads_only_waiting (fetch_rows rq p s)"
  "ls_pending (fetch_rows rq p s) = ls_pending s @ [RowsFor p]"
  by (simp_all add: list_acts same_rows_def same_search_def loads_only_waiting_def waits_for_rows_def)


section \<open>The contract\<close>

locale paged_list =
  fixes ops :: list_ops
  assumes fetched_rows: "an_status res = ''ok'' \<Longrightarrow> rows_from (lo_fetched ops p (Listed res) s) (p, res)"
    and refused_rows: "an_status res \<noteq> ''ok'' \<Longrightarrow> same_rows s (lo_fetched ops p (Listed res) s)"
    and lost_rows: "same_rows s (lo_fetched ops p (Unanswered err) s)"
    and fetched_done: "\<not> ls_loading (lo_fetched ops p (Listed res) s)"
    and delete_rows: "same_rows s (lo_delete ops i s)"
    and deleted_rows: "same_rows s (lo_deleted ops r s)"
    and delete_loads: "loads_only_waiting s \<Longrightarrow> loads_only_waiting (lo_delete ops i s)"
    and deleted_loads: "loads_only_waiting s \<Longrightarrow> loads_only_waiting (lo_deleted ops r s)"

locale searched_list = paged_list +
  assumes fetched_search: "an_status res = ''ok'' \<Longrightarrow> search_from (lo_fetched ops p (Listed res) s) p"
    and refused_search: "an_status res \<noteq> ''ok'' \<Longrightarrow> same_search s (lo_fetched ops p (Listed res) s)"
    and lost_search: "same_search s (lo_fetched ops p (Unanswered err) s)"
    and delete_search: "same_search s (lo_delete ops i s)"
    and deleted_search: "same_search s (lo_deleted ops r s)"

text \<open>The handlers that all pages share only ask for rows, and the form of the table is beside it.\<close>

lemmas handler_defs = handleTableChange_def list_handleSearch_def handleReset_def filterLink_def
  pickOrganization_def handleOrganizationChange_def mount_list_def list_fetch_def

lemma call_api_keeps [simp]:
  "same_rows s (call_api rq k s)" "same_search s (call_api rq k s)"
  "ls_loading (call_api rq k s) = ls_loading s" "ls_pending (call_api rq k s) = ls_pending s @ [k]"
  by (simp_all add: list_acts same_rows_def same_search_def)

lemma form_keeps [simp]:
  "same_rows s (fetchFormWithoutTag t s)" "same_search s (fetchFormWithoutTag t s)"
  "same_rows s (getForm_of t s)" "same_search s (getForm_of t s)"
  "same_rows s (formWithTagReceived t r s)" "same_search s (formWithTagReceived t r s)"
  "same_rows s (formWithoutTagReceived r s)" "same_search s (formWithoutTagReceived r s)"
  by (auto simp: fetchFormWithoutTag_def getForm_of_def formWithTagReceived_def formWithoutTagReceived_def
    list_acts same_rows_def same_search_def Let_def split: option.splits list_reply.splits)

lemma loads_append:
  "loads_only_waiting s \<Longrightarrow> ls_loading t = ls_loading s \<Longrightarrow> ls_pending t = ls_pending s @ ks \<Longrightarrow> loads_only_waiting t"
  by (auto simp: loads_only_waiting_def waits_for_rows_def)

lemma form_loads:
  "loads_only_waiting s \<Longrightarrow> loads_only_waiting (getForm_of t s)"
  "loads_only_waiting s \<Longrightarrow> loads_only_waiting (formWithTagReceived t r s)"
  "loads_only_waiting s \<Longrightarrow> loads_only_waiting (formWithoutTagReceived r s)"
  by (auto simp: fetchFormWithoutTag_def getForm_of_def formWithTagReceived_def formWithoutTagReceived_def
    loads_only_waiting_def waits_for_rows_def list_acts Let_def split: option.splits list_reply.splits)

lemma fetch_rows_cong:
  "same_rows s s' \<Longrightarrow> same_rows s (fetch_rows rq p s')" "same_search s s' \<Longrightarrow> same_search s (fetch_rows rq p s')"
  by (blast intro: same_rows_trans same_search_trans fetch_rows_keeps)+

lemma pick_keeps [simp]:
  "same_rows s (pickOrganization ops w s)" "same_search s (pickOrganization ops w s)"
  "loads_only_waiting (pickOrganization ops w s)"
  by (simp_all add: handler_defs fetch_rows_cong list_effect_def same_rows_def same_search_def)
     (simp_all add: list_acts)

lemma mount_keeps [simp]:
  "same_rows s (mount_list ops s)" "same_search s (mount_list ops s)" "loads_only_waiting (mount_list ops s)"
proof -
  let ?t = "\<lambda>f. getForm_of f (fetch_rows (lo_request ops) (plain_params (ls_pagination s)) s)"
  have "same_rows s (?t f)" "same_search s (?t f)" "loads_only_waiting (?t f)" for f
    by (blast intro: same_rows_trans same_search_trans fetch_rows_keeps form_keeps form_loads)+
  then show "same_rows s (mount_list ops s)" "same_search s (mount_list ops s)" "loads_only_waiting (mount_list ops s)"
    unfolding mount_list_def list_fetch_def Let_def
    by (auto intro: same_rows_trans [OF _ pick_keeps(1)] same_search_trans [OF _ pick_keeps(2)])
qed

lemma handlers_keep [simp]:
  "same_rows s (handleTableChange ops g fs sf so s)" "same_search s (handleTableChange ops g fs sf so s)"
  "loads_only_waiting (handleTableChange ops g fs sf so s)"
  "same_rows s (list_handleSearch ops key col s)" "same_search s (list_handleSearch ops key col s)"
  "loads_only_waiting (list_handleSearch ops key col s)"
  "same_rows s (handleReset ops s)" "same_search s (handleReset ops s)" "loads_only_waiting (handleReset ops s)"
  by (simp_all add: handleTableChange_def list_handleSearch_def handleReset_def list_fetch_def)

lemma filterLink_keeps [simp]:
  "same_rows s (filterLink ops g fs key col s)" "loads_only_waiting (filterLink ops g fs key col s)"
  using handlers_keep(1) [of s ops g fs JUndefined JUndefined] handlers_keep(3) [of ops g fs JUndefined JUndefined s]
  by (auto simp: filterLink_def same_rows_def loads_only_waiting_def waits_for_rows_def)

text \<open>Taking a continuation from the waiting ones.\<close>

lemma taken_keeps [simp]:
  "same_rows s (s\<lparr>ls_pending := ks\<rparr>)" "same_search s (s\<lparr>ls_pending := ks\<rparr>)"
  by (simp_all add: same_rows_def same_search_def)

lemma taken_same [simp]:
  "same_rows (s\<lparr>ls_pending := ks\<rparr>) t = same_rows s t" "same_search (s\<lparr>ls_pending := ks\<rparr>) t = same_search s t"
  by (simp_all add: same_rows_def same_search_def)

lemma taken_loads:
  assumes "loads_only_waiting s" "i < length (ls_pending s)" "\<And>p. ls_pending s ! i \<noteq> RowsFor p"
  shows "loads_only_waiting (s\<lparr>ls_pending := without_nth i (ls_pending s)\<rparr>)"
proof -
  have "list_ex P (without_nth i xs)" if "list_ex P xs" "i < length xs" "\<not> P (xs ! i)" for P and xs :: "list_pending list"
  proof -
    have "set xs = set (take i xs @ xs ! i # drop (Suc i) xs)" using id_take_nth_drop [OF that(2)] by simp
    then show ?thesis using that(1,3) by (auto simp: list_ex_iff without_nth_def)
  qed
  from this [of "\<lambda>k. case k of RowsFor p \<Rightarrow> True | _ \<Rightarrow> False" "ls_pending s"] show ?thesis
    using assms by (auto simp: loads_only_waiting_def waits_for_rows_def split: list_pending.splits)
qed


section \<open>Runs of a page that keeps the contract\<close>

definition no_loss :: "list_event \<Rightarrow> bool" where
  "no_loss ev = (case ev of AnswerTo i (Unanswered err) \<Rightarrow> False | _ \<Rightarrow> True)"

definition no_filter :: "list_event \<Rightarrow> bool" where
  "no_filter ev = (case ev of PressFilter g fs key col \<Rightarrow> False | _ \<Rightarrow> True)"

context paged_list
begin

lemma step_rows:
  "same_rows s (list_step ops ev s) \<or> list_ex (rows_from (list_step ops ev s)) (rows_brought ev s)"
proof (cases ev)
  case (AnswerTo i r)
  show ?thesis
  proof (cases "i < length (ls_pending s)")
    case True
    let ?s = "s\<lparr>ls_pending := without_nth i (ls_pending s)\<rparr>"
    show ?thesis
    proof (cases "ls_pending s ! i")
      case (RowsFor p)
      then show ?thesis
        using fetched_rows [of _ p ?s] refused_rows [of _ ?s p] lost_rows [of ?s p] True AnswerTo
        by (cases r; cases "\<exists>res. r = Listed res \<and> an_status res = ''ok''")
           (auto simp: list_step_def deliver_answer_def rows_brought_def)
    next
      case RowDeleted
      then show ?thesis using deleted_rows [of ?s r] True AnswerTo by (simp add: list_step_def deliver_answer_def)
    next
      case (FormWithTag t)
      then show ?thesis using True AnswerTo by (simp add: list_step_def deliver_answer_def same_rows_trans [OF taken_keeps(1) form_keeps(5)])
    next
      case FormWithoutTag
      then show ?thesis using True AnswerTo by (simp add: list_step_def deliver_answer_def same_rows_trans [OF taken_keeps(1) form_keeps(7)])
    qed (simp_all add: AnswerTo True list_step_def deliver_answer_def)
  qed (simp add: AnswerTo list_step_def)
qed (simp_all add: list_step_def delete_rows)

text \<open>What the table shows is the state it started with, or one of the answers.\<close>

lemma run_rows:
  "same_rows s (list_run ops evs s) \<or> list_ex (rows_from (list_run ops evs s)) (answers_with_rows ops evs s)"
proof (induction evs arbitrary: s)
  case (Cons ev evs)
  let ?t = "list_step ops ev s" and ?u = "list_run ops evs (list_step ops ev s)"
  have "same_rows ?t ?u \<Longrightarrow> rows_from ?t x \<Longrightarrow> rows_from ?u x" for x
    by (auto simp: same_rows_def rows_from_def split: prod.splits)
  then show ?case
    using Cons.IH [of ?t] step_rows [of s ev] same_rows_trans [of s ?t ?u] by (auto simp: list_ex_iff)
qed simp

lemma step_loads:
  assumes "loads_only_waiting s" "no_loss ev"
  shows "loads_only_waiting (list_step ops ev s)"
proof (cases ev)
  case (AnswerTo i r)
  then obtain res where r: "r = Listed res" using assms(2) by (cases r) (auto simp: no_loss_def)
  show ?thesis
  proof (cases "i < length (ls_pending s)")
    case True
    let ?s = "s\<lparr>ls_pending := without_nth i (ls_pending s)\<rparr>"
    have step: "list_step ops ev s = deliver_answer ops (ls_pending s ! i) r ?s" by (simp add: list_step_def AnswerTo True)
    show ?thesis
    proof (cases "ls_pending s ! i")
      case (RowsFor p)
      then show ?thesis unfolding step r using fetched_done [of p res ?s] by (simp add: deliver_answer_def loads_only_waiting_def)
    qed (use taken_loads [OF assms(1) True] in \<open>simp_all add: step deliver_answer_def deleted_loads form_loads\<close>)
  qed (simp add: AnswerTo list_step_def assms)
qed (simp_all add: list_step_def delete_loads assms)

lemma run_loads:
  "loads_only_waiting s \<Longrightarrow> list_all no_loss evs \<Longrightarrow> loads_only_waiting (list_run ops evs s)"
  by (induction evs arbitrary: s) (simp_all add: step_loads)

end

context searched_list
begin

definition shows_answer :: "list_page \<Rightarrow> list_params \<times> list_answer \<Rightarrow> bool" where
  "shows_answer s x \<longleftrightarrow> rows_from s x \<and> search_from s (fst x)"

lemma step_table:
  assumes "no_filter ev"
  shows "same_rows s (list_step ops ev s) \<and> same_search s (list_step ops ev s)
    \<or> list_ex (shows_answer (list_step ops ev s)) (rows_brought ev s)"
proof (cases ev)
  case (AnswerTo i r)
  show ?thesis
  proof (cases "i < length (ls_pending s)")
    case True
    let ?s = "s\<lparr>ls_pending := without_nth i (ls_pending s)\<rparr>"
    show ?thesis
    proof (cases "ls_pending s ! i")
      case (RowsFor p)
      then show ?thesis
        using fetched_rows [of _ p ?s] refused_rows [of _ ?s p] lost_rows [of ?s p]
          fetched_search [of _ p ?s] refused_search [of _ ?s p] lost_search [of ?s p] True AnswerTo
        by (cases r; cases "\<exists>res. r = Listed res \<and> an_status res = ''ok''")
           (auto simp: list_step_def deliver_answer_def rows_brought_def shows_answer_def)
    next
      case RowDeleted
      then show ?thesis using deleted_rows [of ?s r] deleted_search [of ?s r] True AnswerTo
        by (simp add: list_step_def deliver_answer_def)
    next
      case (FormWithTag t)
      then show ?thesis using True AnswerTo
        by (simp add: list_step_def deliver_answer_def same_rows_trans [OF taken_keeps(1) form_keeps(5)]
          same_search_trans [OF taken_keeps(2) form_keeps(6)])
    next
      case FormWithoutTag
      then show ?thesis using True AnswerTo
        by (simp add: list_step_def deliver_answer_def same_rows_trans [OF taken_keeps(1) form_keeps(7)]
          same_search_trans [OF taken_keeps(2) form_keeps(8)])
    qed (simp_all add: AnswerTo True list_step_def deliver_answer_def)
  qed (simp add: AnswerTo list_step_def)
qed (use assms in \<open>simp_all add: list_step_def delete_rows delete_search no_filter_def\<close>)

lemma run_table:
  "list_all no_filter evs \<Longrightarrow> same_rows s (list_run ops evs s) \<and> same_search s (list_run ops evs s)
    \<or> list_ex (shows_answer (list_run ops evs s)) (answers_with_rows ops evs s)"
proof (induction evs arbitrary: s)
  case (Cons ev evs)
  let ?t = "list_step ops ev s" and ?u = "list_run ops evs (list_step ops ev s)"
  have "same_rows ?t ?u \<Longrightarrow> same_search ?t ?u \<Longrightarrow> shows_answer ?t x \<Longrightarrow> shows_answer ?u x" for x
    by (auto simp: same_rows_def same_search_def rows_from_def search_from_def shows_answer_def split: prod.splits)
  then show ?case
    using Cons.IH [of ?t] Cons.prems step_table [of ev s] same_rows_trans [of s ?t ?u] same_search_trans [of s ?t ?u]
    by (auto simp: list_ex_iff)
qed simp

end


section \<open>The pages keep the contract\<close>

text \<open>An action beside the table: a message, a stored value, a navigation, the refusal of the page.\<close>

definition harmless :: "list_act \<Rightarrow> bool" where
  "harmless a \<longleftrightarrow> (\<forall>s. same_rows s (a s) \<and> same_search s (a s) \<and> (ls_loading (a s) \<longrightarrow> ls_loading s)
     \<and> ls_pending (a s) = ls_pending s)"

lemma harmless_acts [simp]:
  "harmless (list_show k c)" "harmless (report i res)" "harmless (ignore err)" "harmless (lost_connection err)"
  "harmless (\<lambda>s. s)" "harmless (login_first res)"
  by (simp_all add: harmless_def list_acts same_rows_def same_search_def)

lemma harmless_denied [simp]: "harmless (other res) \<Longrightarrow> harmless (denied_or other res)"
  by (simp add: harmless_def list_acts same_rows_def same_search_def)

lemma harmlessD:
  assumes "harmless a"
  shows "same_rows s (a s)" "same_search s (a s)" "ls_loading (a s) \<Longrightarrow> ls_loading s" "ls_pending (a s) = ls_pending s"
  using assms by (auto simp: harmless_def)

lemma done_loading_keeps [simp]:
  "same_rows s (done_loading s)" "same_search s (done_loading s)" "\<not> ls_loading (done_loading s)"
  by (simp_all add: done_loading_def same_rows_def same_search_def)

text \<open>The continuation of a request for rows.\<close>

definition fetches_well :: "(list_params \<Rightarrow> list_reply \<Rightarrow> list_act) \<Rightarrow> bool" where
  "fetches_well fetched \<longleftrightarrow> (\<forall>p s.
     (\<forall>res. (an_status res = ''ok'' \<longrightarrow> rows_from (fetched p (Listed res) s) (p, res))
        \<and> (an_status res \<noteq> ''ok'' \<longrightarrow> same_rows s (fetched p (Listed res) s))
        \<and> \<not> ls_loading (fetched p (Listed res) s))
     \<and> (\<forall>err. same_rows s (fetched p (Unanswered err) s)))"

definition searches_well :: "(list_params \<Rightarrow> list_reply \<Rightarrow> list_act) \<Rightarrow> bool" where
  "searches_well fetched \<longleftrightarrow> (\<forall>p s.
     (\<forall>res. (an_status res = ''ok'' \<longrightarrow> search_from (fetched p (Listed res) s) p)
        \<and> (an_status res \<noteq> ''ok'' \<longrightarrow> same_search s (fetched p (Listed res) s)))
     \<and> (\<forall>err. same_search s (fetched p (Unanswered err) s)))"

lemma show_found_from:
  "rows_from (show_found p res s) (p, res)" "search_from (show_found p res s) p"
  "ls_loading (show_found p res s) = ls_loading s"
  "rows_from (show_rows p res s) (p, res)" "ls_loading (show_rows p res s) = ls_loading s"
  by (simp_all add: list_acts rows_from_def search_from_def)

lemma refused_keeps:
  assumes "harmless a"
  shows "same_rows s (a (done_loading s))" "same_search s (a (done_loading s))" "\<not> ls_loading (a (done_loading s))"
  using harmlessD [OF assms, of "done_loading s"] done_loading_keeps
  by (blast intro: same_rows_trans same_search_trans)+

lemma found_well:
  assumes "\<And>res. harmless (refused res)"
  shows "fetches_well (\<lambda>p. rows_answered (show_found p) refused)" "searches_well (\<lambda>p. rows_answered (show_found p) refused)"
    "fetches_well (\<lambda>p. rows_answered (show_rows p) refused)"
  using refused_keeps [OF assms]
  by (simp_all add: fetches_well_def searches_well_def rows_answered_def show_found_from done_loading_keeps)

lemma rowsFetched_well: "fetches_well rowsFetched" "searches_well rowsFetched"
  unfolding rowsFetched_def [abs_def] by (rule found_well, simp)+

lemma catch_well:
  "fetches_well f \<Longrightarrow> fetches_well (\<lambda>p. catch_rows (f p))" "searches_well f \<Longrightarrow> searches_well (\<lambda>p. catch_rows (f p))"
  using refused_keeps [OF harmless_acts(4)] by (simp_all add: fetches_well_def searches_well_def catch_rows_def)

text \<open>Deletion and its continuation.\<close>

definition deletes_well :: "(nat \<Rightarrow> list_act) \<Rightarrow> bool" where
  "deletes_well del \<longleftrightarrow> (\<forall>i s. same_rows s (del i s) \<and> same_search s (del i s)
     \<and> (loads_only_waiting s \<longrightarrow> loads_only_waiting (del i s)))"

definition deleted_well :: "(list_reply \<Rightarrow> list_act) \<Rightarrow> bool" where
  "deleted_well del \<longleftrightarrow> (\<forall>r s. same_rows s (del r s) \<and> same_search s (del r s)
     \<and> (loads_only_waiting s \<longrightarrow> loads_only_waiting (del r s)))"

lemma delete_row_well [simp]: "deletes_well (delete_row rq)"
  by (auto simp: deletes_well_def delete_row_def intro: loads_append split: option.splits)

lemma harmless_loads: "harmless a \<Longrightarrow> loads_only_waiting s \<Longrightarrow> loads_only_waiting (a s)"
  by (auto simp: harmless_def loads_only_waiting_def waits_for_rows_def)

lemma refetch_well:
  assumes "\<And>err. harmless (lost err)" "harmless a"
  shows "same_rows s (refetch_after_delete rq lost (a s))" "same_search s (refetch_after_delete rq lost (a s))"
    "loads_only_waiting s \<Longrightarrow> loads_only_waiting (refetch_after_delete rq lost (a s))"
  using harmlessD(1,2) [OF assms(2), of s] harmlessD(1,2) [OF assms(1), of "a s"] harmless_loads [OF assms(2), of s]
    harmless_loads [OF assms(1), of "a s"]
  by (auto simp: refetch_after_delete_def intro: fetch_rows_cong same_rows_trans same_search_trans split: sum.splits)

lemma row_deleted_well:
  assumes "\<And>err. harmless (lost err)"
  shows "deleted_well (row_deleted rq lost)"
  unfolding deleted_well_def row_deleted_def
  using refetch_well [OF assms harmless_acts(1)] harmlessD [OF assms] harmlessD [OF harmless_acts(2)] harmless_loads [OF assms]
    harmless_loads [OF harmless_acts(2)]
  by (auto split: list_reply.splits)

lemma paged_listI:
  assumes "fetches_well (lo_fetched ops)" "deletes_well (lo_delete ops)" "deleted_well (lo_deleted ops)"
  shows "paged_list ops"
  using assms by unfold_locales (auto simp: fetches_well_def deletes_well_def deleted_well_def)

lemma searched_listI:
  assumes "fetches_well (lo_fetched ops)" "searches_well (lo_fetched ops)"
    "deletes_well (lo_delete ops)" "deleted_well (lo_deleted ops)"
  shows "searched_list ops"
  using paged_listI [OF assms(1,3,4)] assms(2-4)
  by (auto simp: searched_list_def searched_list_axioms_def searches_well_def deletes_well_def deleted_well_def)

section \<open>The operations of the pages\<close>

text \<open>Records and verifications are not deleted from their lists.\<close>

definition adapter_list :: list_ops where
  "adapter_list = \<lparr>lo_request = adapterListRequest, lo_fetched = adaptersFetched,
     lo_delete = deleteAdapterRow, lo_deleted = adapterRowDeleted\<rparr>"

definition agent_list :: list_ops where
  "agent_list = \<lparr>lo_request = agentListRequest, lo_fetched = agentsFetched,
     lo_delete = deleteAgentRow, lo_deleted = agentRowDeleted\<rparr>"

definition application_list :: list_ops where
  "application_list = \<lparr>lo_request = applicationListRequest, lo_fetched = applicationsFetched,
     lo_delete = deleteApplicationRow, lo_deleted = applicationRowDeleted\<rparr>"

definition cert_list :: list_ops where
  "cert_list = \<lparr>lo_request = certListRequest, lo_fetched = certsFetched,
     lo_delete = deleteCertRow, lo_deleted = certRowDeleted\<rparr>"

definition coupon_list :: list_ops where
  "coupon_list = \<lparr>lo_request = couponListRequest, lo_fetched = couponsFetched,
     lo_delete = deleteCouponRow, lo_deleted = couponRowDeleted\<rparr>"

definition enforcer_list :: list_ops where
  "enforcer_list = \<lparr>lo_request = enforcerListRequest, lo_fetched = enforcersFetched,
     lo_delete = deleteEnforcerRow, lo_deleted = enforcerRowDeleted\<rparr>"

definition entry_list :: list_ops where
  "entry_list = \<lparr>lo_request = entryListRequest, lo_fetched = entriesFetched,
     lo_delete = deleteEntryRow, lo_deleted = entryRowDeleted\<rparr>"

definition group_list :: list_ops where
  "group_list = \<lparr>lo_request = groupListRequest, lo_fetched = groupsFetched,
     lo_delete = deleteGroupRow, lo_deleted = groupRowDeleted\<rparr>"

definition invitation_list :: list_ops where
  "invitation_list = \<lparr>lo_request = invitationListRequest, lo_fetched = invitationsFetched,
     lo_delete = deleteInvitationRow, lo_deleted = invitationRowDeleted\<rparr>"

definition key_list :: list_ops where
  "key_list = \<lparr>lo_request = keyListRequest, lo_fetched = keysFetched,
     lo_delete = deleteKeyRow, lo_deleted = keyRowDeleted\<rparr>"

definition model_list :: list_ops where
  "model_list = \<lparr>lo_request = modelListRequest, lo_fetched = modelsFetched,
     lo_delete = deleteModelRow, lo_deleted = modelRowDeleted\<rparr>"

definition order_list :: list_ops where
  "order_list = \<lparr>lo_request = orderListRequest, lo_fetched = ordersFetched,
     lo_delete = deleteOrderRow, lo_deleted = orderRowDeleted\<rparr>"

definition organization_list :: list_ops where
  "organization_list = \<lparr>lo_request = organizationListRequest, lo_fetched = organizationsFetched,
     lo_delete = deleteOrganizationRow, lo_deleted = organizationRowDeleted\<rparr>"

definition payment_list :: list_ops where
  "payment_list = \<lparr>lo_request = paymentListRequest, lo_fetched = paymentsFetched,
     lo_delete = deletePaymentRow, lo_deleted = paymentRowDeleted\<rparr>"

definition permission_list :: list_ops where
  "permission_list = \<lparr>lo_request = permissionListRequest, lo_fetched = permissionsFetched,
     lo_delete = deletePermissionRow, lo_deleted = permissionRowDeleted\<rparr>"

definition plan_list :: list_ops where
  "plan_list = \<lparr>lo_request = planListRequest, lo_fetched = plansFetched,
     lo_delete = deletePlanRow, lo_deleted = planRowDeleted\<rparr>"

definition pricing_list :: list_ops where
  "pricing_list = \<lparr>lo_request = pricingListRequest, lo_fetched = pricingsFetched,
     lo_delete = deletePricingRow, lo_deleted = pricingRowDeleted\<rparr>"

definition product_list :: list_ops where
  "product_list = \<lparr>lo_request = productListRequest, lo_fetched = productsFetched,
     lo_delete = deleteProductRow, lo_deleted = productRowDeleted\<rparr>"

definition provider_list :: list_ops where
  "provider_list = \<lparr>lo_request = providerListRequest, lo_fetched = providersFetched,
     lo_delete = deleteProviderRow, lo_deleted = providerRowDeleted\<rparr>"

definition record_list :: list_ops where
  "record_list = \<lparr>lo_request = recordListRequest, lo_fetched = recordsFetched,
     lo_delete = \<lambda>i s. s, lo_deleted = \<lambda>r s. s\<rparr>"

definition resource_list :: list_ops where
  "resource_list = \<lparr>lo_request = resourceListRequest, lo_fetched = resourcesFetched,
     lo_delete = deleteResourceRow, lo_deleted = resourceRowDeleted\<rparr>"

definition role_list :: list_ops where
  "role_list = \<lparr>lo_request = roleListRequest, lo_fetched = rolesFetched,
     lo_delete = deleteRoleRow, lo_deleted = roleRowDeleted\<rparr>"

definition rule_list :: list_ops where
  "rule_list = \<lparr>lo_request = ruleListRequest, lo_fetched = rulesFetched,
     lo_delete = deleteRuleRow, lo_deleted = ruleRowDeleted\<rparr>"

definition server_list :: list_ops where
  "server_list = \<lparr>lo_request = serverListRequest, lo_fetched = serversFetched,
     lo_delete = deleteServerRow, lo_deleted = serverRowDeleted\<rparr>"

definition session_list :: list_ops where
  "session_list = \<lparr>lo_request = sessionListRequest, lo_fetched = sessionsFetched,
     lo_delete = \<lambda>i. deleteSessionRow i [], lo_deleted = sessionRowDeleted\<rparr>"

definition site_list :: list_ops where
  "site_list = \<lparr>lo_request = siteListRequest, lo_fetched = sitesFetched,
     lo_delete = deleteSiteRow, lo_deleted = siteRowDeleted\<rparr>"

definition subscription_list :: list_ops where
  "subscription_list = \<lparr>lo_request = subscriptionListRequest, lo_fetched = subscriptionsFetched,
     lo_delete = deleteSubscriptionRow, lo_deleted = subscriptionRowDeleted\<rparr>"

definition syncer_list :: list_ops where
  "syncer_list = \<lparr>lo_request = syncerListRequest, lo_fetched = syncersFetched,
     lo_delete = deleteSyncerRow, lo_deleted = syncerRowDeleted\<rparr>"

definition ticket_list :: list_ops where
  "ticket_list = \<lparr>lo_request = ticketListRequest, lo_fetched = ticketsFetched,
     lo_delete = deleteTicketRow, lo_deleted = ticketRowDeleted\<rparr>"

definition token_list :: list_ops where
  "token_list = \<lparr>lo_request = tokenListRequest, lo_fetched = tokensFetched,
     lo_delete = deleteTokenRow, lo_deleted = tokenRowDeleted\<rparr>"

definition transaction_list :: list_ops where
  "transaction_list = \<lparr>lo_request = transactionListRequest, lo_fetched = transactionsFetched,
     lo_delete = deleteTransactionRow, lo_deleted = transactionRowDeleted\<rparr>"

definition user_list :: list_ops where
  "user_list = \<lparr>lo_request = userListRequest, lo_fetched = usersFetched,
     lo_delete = deleteUserRow, lo_deleted = userRowDeleted\<rparr>"

definition verification_list :: list_ops where
  "verification_list = \<lparr>lo_request = verificationListRequest, lo_fetched = verificationsFetched,
     lo_delete = \<lambda>i s. s, lo_deleted = \<lambda>r s. s\<rparr>"

definition webhook_list :: list_ops where
  "webhook_list = \<lparr>lo_request = webhookListRequest, lo_fetched = webhooksFetched,
     lo_delete = deleteWebhookRow, lo_deleted = webhookRowDeleted\<rparr>"

text \<open>The continuations that are not the common ones.\<close>

lemma recordsFetched_well: "fetches_well recordsFetched" "searches_well recordsFetched"
  using refused_keeps [OF harmless_acts(6)]
  by (simp_all add: fetches_well_def searches_well_def recordsFetched_def rows_answered_def done_loading_def
    show_found_def keep_search_def show_rows_def rows_from_def search_from_def same_rows_def same_search_def)

lemma checked_deleted_well:
  assumes "\<And>err. harmless (lost err)"
  shows "deleted_well (\<lambda>r s. case r of Unanswered err \<Rightarrow> lost err s
     | Listed res \<Rightarrow> if an_status res = ''error'' then report i res s else refetch_after_delete rq lost (list_show k c s))"
  unfolding deleted_well_def
  using refetch_well [OF assms harmless_acts(1)] harmlessD [OF assms] harmlessD [OF harmless_acts(2)] harmless_loads [OF assms]
    harmless_loads [OF harmless_acts(2)]
  by (auto split: list_reply.splits)

lemma ruleRowDeleted_well: "deleted_well ruleRowDeleted"
  unfolding ruleRowDeleted_def [abs_def] by (rule checked_deleted_well) simp

lemma siteRowDeleted_well: "deleted_well siteRowDeleted"
  unfolding siteRowDeleted_def [abs_def] by (rule checked_deleted_well) simp

lemma harmless_effect: "harmless (list_effect e)"
  by (simp add: harmless_def list_acts same_rows_def same_search_def)

lemma organizationRowDeleted_well: "deleted_well organizationRowDeleted"
proof -
  have base: "deleted_well (row_deleted organizationListRequest lost_connection)" by (rule row_deleted_well) simp
  then have "deleted_well (\<lambda>r s. list_effect (LFire e) (row_deleted organizationListRequest lost_connection r s))" for e
    using harmlessD [OF harmless_effect] harmless_loads [OF harmless_effect]
    unfolding deleted_well_def by (blast intro: same_rows_trans same_search_trans)
  with base show ?thesis
    unfolding deleted_well_def organizationRowDeleted_def Let_def
    by (auto split: list_reply.splits sum.splits)
qed

lemma no_delete_well: "deletes_well (\<lambda>i s. s)" "deleted_well (\<lambda>r s. s)" "deletes_well (\<lambda>i. delete_row (rq j) i)"
  by (simp_all add: deletes_well_def deleted_well_def)
     (auto simp: delete_row_def intro: loads_append split: option.splits)

lemmas well = rowsFetched_well found_well catch_well row_deleted_well no_delete_well

interpretation adapters: searched_list adapter_list
  by (rule searched_listI) (simp_all add: adapter_list_def adaptersFetched_def [abs_def] deleteAdapterRow_def adapterRowDeleted_def well)

interpretation agents: searched_list agent_list
  by (rule searched_listI) (simp_all add: agent_list_def agentsFetched_def [abs_def] deleteAgentRow_def agentRowDeleted_def well)

interpretation applications: searched_list application_list
  by (rule searched_listI) (simp_all add: application_list_def applicationsFetched_def [abs_def] deleteApplicationRow_def applicationRowDeleted_def well)

interpretation certs: searched_list cert_list
  by (rule searched_listI) (simp_all add: cert_list_def certsFetched_def [abs_def] deleteCertRow_def certRowDeleted_def well)

interpretation coupons: searched_list coupon_list
  by (rule searched_listI) (simp_all add: coupon_list_def couponsFetched_def [abs_def] deleteCouponRow_def couponRowDeleted_def well)

interpretation enforcers: searched_list enforcer_list
  by (rule searched_listI) (simp_all add: enforcer_list_def enforcersFetched_def [abs_def] deleteEnforcerRow_def enforcerRowDeleted_def well)

interpretation entries: searched_list entry_list
  by (rule searched_listI) (simp_all add: entry_list_def entriesFetched_def [abs_def] deleteEntryRow_def entryRowDeleted_def well)

interpretation groups: searched_list group_list
  by (rule searched_listI) (simp_all add: group_list_def groupsFetched_def [abs_def] deleteGroupRow_def groupRowDeleted_def well)

interpretation invitations: searched_list invitation_list
  by (rule searched_listI) (simp_all add: invitation_list_def invitationsFetched_def [abs_def] deleteInvitationRow_def invitationRowDeleted_def well)

interpretation keys: searched_list key_list
  by (rule searched_listI) (simp_all add: key_list_def keysFetched_def [abs_def] deleteKeyRow_def keyRowDeleted_def well)

interpretation models: searched_list model_list
  by (rule searched_listI) (simp_all add: model_list_def modelsFetched_def [abs_def] deleteModelRow_def modelRowDeleted_def well)

interpretation orders: searched_list order_list
  by (rule searched_listI) (simp_all add: order_list_def ordersFetched_def [abs_def] deleteOrderRow_def orderRowDeleted_def well)

interpretation organizations: searched_list organization_list
  by (rule searched_listI) (simp_all add: organization_list_def organizationsFetched_def [abs_def] deleteOrganizationRow_def organizationRowDeleted_well well)

interpretation payments: searched_list payment_list
  by (rule searched_listI) (simp_all add: payment_list_def paymentsFetched_def [abs_def] deletePaymentRow_def paymentRowDeleted_def well)

interpretation permissions: searched_list permission_list
  by (rule searched_listI) (simp_all add: permission_list_def permissionsFetched_def [abs_def] deletePermissionRow_def permissionRowDeleted_def well)

interpretation plans: searched_list plan_list
  by (rule searched_listI) (simp_all add: plan_list_def plansFetched_def [abs_def] deletePlanRow_def planRowDeleted_def well)

interpretation pricings: searched_list pricing_list
  by (rule searched_listI) (simp_all add: pricing_list_def pricingsFetched_def [abs_def] deletePricingRow_def pricingRowDeleted_def well)

interpretation products: searched_list product_list
  by (rule searched_listI) (simp_all add: product_list_def productsFetched_def [abs_def] deleteProductRow_def productRowDeleted_def well)

interpretation providers: searched_list provider_list
  by (rule searched_listI) (simp_all add: provider_list_def providersFetched_def [abs_def] deleteProviderRow_def providerRowDeleted_def well)

interpretation records: searched_list record_list
  by (rule searched_listI) (simp_all add: record_list_def recordsFetched_well well)

interpretation resources: searched_list resource_list
  by (rule searched_listI) (simp_all add: resource_list_def resourcesFetched_def [abs_def] deleteResourceRow_def resourceRowDeleted_def well)

interpretation roles: searched_list role_list
  by (rule searched_listI) (simp_all add: role_list_def rolesFetched_def [abs_def] deleteRoleRow_def roleRowDeleted_def well)

interpretation rules: paged_list rule_list
  by (rule paged_listI) (simp_all add: rule_list_def rulesFetched_def [abs_def] deleteRuleRow_def ruleRowDeleted_well well)

interpretation servers: searched_list server_list
  by (rule searched_listI) (simp_all add: server_list_def serversFetched_def [abs_def] deleteServerRow_def serverRowDeleted_def well)

interpretation sessions: searched_list session_list
  by (rule searched_listI) (simp_all add: session_list_def sessionsFetched_def [abs_def] deleteSessionRow_def sessionRowDeleted_def well)

interpretation sites: paged_list site_list
  by (rule paged_listI) (simp_all add: site_list_def sitesFetched_def [abs_def] deleteSiteRow_def siteRowDeleted_well well)

interpretation subscriptions: searched_list subscription_list
  by (rule searched_listI) (simp_all add: subscription_list_def subscriptionsFetched_def [abs_def] deleteSubscriptionRow_def subscriptionRowDeleted_def well)

interpretation syncers: searched_list syncer_list
  by (rule searched_listI) (simp_all add: syncer_list_def syncersFetched_def [abs_def] deleteSyncerRow_def syncerRowDeleted_def well)

interpretation tickets: searched_list ticket_list
  by (rule searched_listI) (simp_all add: ticket_list_def ticketsFetched_def [abs_def] deleteTicketRow_def ticketRowDeleted_def well)

interpretation tokens: searched_list token_list
  by (rule searched_listI) (simp_all add: token_list_def tokensFetched_def [abs_def] deleteTokenRow_def tokenRowDeleted_def well)

interpretation transactions: searched_list transaction_list
  by (rule searched_listI) (simp_all add: transaction_list_def transactionsFetched_def [abs_def] deleteTransactionRow_def transactionRowDeleted_def well)

interpretation users: searched_list user_list
  by (rule searched_listI) (simp_all add: user_list_def usersFetched_def [abs_def] deleteUserRow_def userRowDeleted_def well)

interpretation verifications: searched_list verification_list
  by (rule searched_listI) (simp_all add: verification_list_def verificationsFetched_def [abs_def] well)

interpretation webhooks: searched_list webhook_list
  by (rule searched_listI) (simp_all add: webhook_list_def webhooksFetched_def [abs_def] deleteWebhookRow_def webhookRowDeleted_def well)

section \<open>All list pages\<close>

definition searched_pages :: "(string \<times> list_ops) list" where
  "searched_pages =
     [(''adapter'', adapter_list), (''agent'', agent_list), (''application'', application_list), (''cert'',
      cert_list), (''coupon'', coupon_list), (''enforcer'', enforcer_list), (''entry'', entry_list), (''group'',
      group_list), (''invitation'', invitation_list), (''key'', key_list), (''model'', model_list), (''order'',
      order_list), (''organization'', organization_list), (''payment'', payment_list), (''permission'',
      permission_list), (''plan'', plan_list), (''pricing'', pricing_list), (''product'', product_list),
      (''provider'', provider_list), (''record'', record_list), (''resource'', resource_list), (''role'',
      role_list), (''server'', server_list), (''session'', session_list), (''subscription'', subscription_list),
      (''syncer'', syncer_list), (''ticket'', ticket_list), (''token'', token_list), (''transaction'',
      transaction_list), (''user'', user_list), (''verification'', verification_list), (''webhook'',
      webhook_list)]"

definition list_pages :: "(string \<times> list_ops) list" where
  "list_pages = searched_pages @ [(''rule'', rule_list), (''site'', site_list)]"

lemma searched_pages_contract: "list_all (\<lambda>(nm, ops). searched_list ops) searched_pages"
  by (simp add: searched_pages_def
    adapters.searched_list_axioms agents.searched_list_axioms applications.searched_list_axioms
    certs.searched_list_axioms coupons.searched_list_axioms enforcers.searched_list_axioms
    entries.searched_list_axioms groups.searched_list_axioms invitations.searched_list_axioms
    keys.searched_list_axioms models.searched_list_axioms orders.searched_list_axioms
    organizations.searched_list_axioms payments.searched_list_axioms permissions.searched_list_axioms
    plans.searched_list_axioms pricings.searched_list_axioms products.searched_list_axioms
    providers.searched_list_axioms records.searched_list_axioms resources.searched_list_axioms
    roles.searched_list_axioms servers.searched_list_axioms sessions.searched_list_axioms
    subscriptions.searched_list_axioms syncers.searched_list_axioms tickets.searched_list_axioms
    tokens.searched_list_axioms transactions.searched_list_axioms users.searched_list_axioms
    verifications.searched_list_axioms webhooks.searched_list_axioms)

lemma list_pages_contract: "list_all (\<lambda>(nm, ops). paged_list ops) list_pages"
proof -
  have "list_all (\<lambda>(nm, ops). paged_list ops) searched_pages"
    using searched_pages_contract by (rule list.pred_mono_strong) (auto dest: searched_list.axioms)
  then show ?thesis by (simp add: list_pages_def rules.paged_list_axioms sites.paged_list_axioms)
qed


text \<open>
  A table stops loading: when no answer is lost on the way, the table of a list page is loading only
  while a request for rows waits for its answer.
\<close>

lemma table_loads_only_waiting:
  assumes "(nm, ops) \<in> set list_pages" "ls_loading s \<longrightarrow> waits_for_rows s" "list_all no_loss evs"
    "\<not> waits_for_rows (list_run ops evs s)"
  shows "\<not> ls_loading (list_run ops evs s)"
proof -
  have "paged_list ops" using assms(1) list_pages_contract by (auto simp: list_all_iff)
  from paged_list.run_loads [OF this _ assms(3), of s] assms(2,4) show ?thesis by (auto simp: loads_only_waiting_def)
qed

text \<open>A list of roles whose rows were asked for and have come.\<close>

definition sample_list :: list_page where
  "sample_list = new_list_page empty_account None None None ''/roles''"

definition sample_rows :: list_answer where
  "sample_rows = \<lparr>an_status = ''ok'', an_msg = [], an_data = JArr [JObj [(''name'', JStr ''a'')]], an_data2 = JNum 1\<rparr>"

definition sample_events :: "list_event list" where
  "sample_events = [ResetList, AnswerTo 0 (Listed sample_rows)]"


lemma sample_run:
  "ls_data (list_run role_list sample_events sample_list) = Some [JObj [(''name'', JStr ''a'')]]"
  "\<not> waits_for_rows (list_run role_list sample_events sample_list)"
  by (simp_all add: sample_list_def new_list_page_def list_step_def handleReset_def list_fetch_def role_list_def
    rolesFetched_def deliver_answer_def without_nth_def list_acts sample_rows_def rows_of_def
    waits_for_rows_def Let_def sample_events_def)

lemma table_loads_only_waiting_example:
  "\<not> ls_loading (list_run role_list sample_events sample_list)"
proof (rule table_loads_only_waiting)
  show "(''role'', role_list) \<in> set list_pages" by (simp add: list_pages_def searched_pages_def)
  show "\<not> waits_for_rows (list_run role_list sample_events sample_list)"
    by (rule sample_run)
qed (simp_all add: sample_list_def new_list_page_def no_loss_def Let_def sample_events_def)

text \<open>Most pages have no \<open>catch\<close>: an answer that is lost leaves the table loading.\<close>

lemma lost_answer_keeps_loading:
  "ls_loading (list_run role_list [ResetList, AnswerTo 0 (Unanswered ''offline'')] sample_list)
   \<and> \<not> waits_for_rows (list_run role_list [ResetList, AnswerTo 0 (Unanswered ''offline'')] sample_list)"
  by (simp add: sample_list_def new_list_page_def list_step_def handleReset_def list_fetch_def role_list_def
    rolesFetched_def deliver_answer_def without_nth_def list_acts waits_for_rows_def Let_def)

section \<open>The page after a deletion\<close>

definition deleting_pages :: "(string \<times> list_ops) list" where
  "deleting_pages = filter (\<lambda>(nm, ops). nm \<notin> set [''record'', ''verification'']) list_pages"

definition asks_again :: "list_ops \<Rightarrow> bool" where
  "asks_again ops \<longleftrightarrow> (\<forall>s res cur. an_status res = ''ok'' \<longrightarrow> page_after_delete s = Return cur \<longrightarrow>
     ls_pending (lo_deleted ops (Listed res) s)
       = ls_pending s @ [RowsFor (plain_params ((ls_pagination s)\<lparr>pg_current := cur\<rparr>))])"

lemma page_after_delete_effect [simp]: "page_after_delete (list_effect e s) = page_after_delete s"
  by (simp add: page_after_delete_def list_effect_def split: option.splits)

lemma row_deleted_asks:
  "an_status res = ''ok'' \<Longrightarrow> page_after_delete s = Return cur
    \<Longrightarrow> ls_pending (row_deleted rq lost (Listed res) s)
      = ls_pending s @ [RowsFor (plain_params ((ls_pagination s)\<lparr>pg_current := cur\<rparr>))]"
  "page_after_delete s = Return cur
    \<Longrightarrow> ls_pending (refetch_after_delete rq lost (list_show k c s))
      = ls_pending s @ [RowsFor (plain_params ((ls_pagination s)\<lparr>pg_current := cur\<rparr>))]"
  by (simp_all add: row_deleted_def refetch_after_delete_def list_show_def)
     (simp_all add: list_effect_def)

lemma deleting_pages_ask: "list_all (\<lambda>(nm, ops). asks_again ops) deleting_pages"
  by (simp add: deleting_pages_def list_pages_def searched_pages_def asks_again_def row_deleted_asks
    adapter_list_def adapterRowDeleted_def agent_list_def agentRowDeleted_def application_list_def applicationRowDeleted_def cert_list_def certRowDeleted_def coupon_list_def couponRowDeleted_def enforcer_list_def enforcerRowDeleted_def entry_list_def entryRowDeleted_def group_list_def groupRowDeleted_def invitation_list_def invitationRowDeleted_def key_list_def keyRowDeleted_def model_list_def modelRowDeleted_def order_list_def orderRowDeleted_def organization_list_def organizationRowDeleted_def payment_list_def paymentRowDeleted_def permission_list_def permissionRowDeleted_def plan_list_def planRowDeleted_def pricing_list_def pricingRowDeleted_def product_list_def productRowDeleted_def provider_list_def providerRowDeleted_def resource_list_def resourceRowDeleted_def role_list_def roleRowDeleted_def rule_list_def ruleRowDeleted_def server_list_def serverRowDeleted_def session_list_def sessionRowDeleted_def site_list_def siteRowDeleted_def subscription_list_def subscriptionRowDeleted_def syncer_list_def syncerRowDeleted_def ticket_list_def ticketRowDeleted_def token_list_def tokenRowDeleted_def transaction_list_def transactionRowDeleted_def user_list_def userRowDeleted_def webhook_list_def webhookRowDeleted_def)
     (simp add: list_effect_def row_deleted_asks)

text \<open>
  C31. After the deletion of one of the rows that the table shows, the page asks for a page that still has
  rows, or for the first page: when the table showed page \<open>c\<close> of the \<open>n\<close> rows a page has, out of \<open>len\<close>
  rows, the page asked for begins before the end of the \<open>len - 1\<close> rows that are left. It asks without
  the search and the order that the table had.
\<close>

theorem delete_asks_existing_page:
  assumes "(nm, ops) \<in> set deleting_pages" "an_status res = ''ok''"
    "pg_current (ls_pagination s) = Some c" "pg_pageSize (ls_pagination s) = Some n" "1 \<le> c" "1 \<le> n"
    "ls_data s = Some rows" "rows \<noteq> []" "int (length rows) = min n (len - (c - 1) * n)"
  shows "\<exists>c'. ls_pending (lo_deleted ops (Listed res) s)
        = ls_pending s @ [RowsFor (plain_params ((ls_pagination s)\<lparr>pg_current := Some c'\<rparr>))]
    \<and> 1 \<le> c' \<and> (c' = 1 \<or> (c' - 1) * n < len - 1)"
proof -
  define c' where "c' = (if c > 1 \<and> length rows = 1 then c - 1 else c)"
  have "page_after_delete s = Return (Some c')"
    using assms(3,5,7) by (auto simp: page_after_delete_def c'_def)
  moreover have "asks_again ops" using assms(1) deleting_pages_ask by (auto simp: list_all_iff)
  ultimately have asked: "ls_pending (lo_deleted ops (Listed res) s)
      = ls_pending s @ [RowsFor (plain_params ((ls_pagination s)\<lparr>pg_current := Some c'\<rparr>))]"
    using assms(2) unfolding asks_again_def by blast
  have long: "1 \<le> int (length rows)" "int (length rows) \<le> len - (c - 1) * n"
    using assms(8,9) by (cases rows; simp add: min_def split: if_splits)+
  have "c' = 1 \<or> (c' - 1) * n < len - 1"
  proof (cases "c > 1 \<and> length rows = 1")
    case True
    have "(c - 1 - 1) * n = (c - 1) * n - n" by (simp add: algebra_simps)
    then show ?thesis using True long assms(6) by (auto simp: c'_def)
  next
    case False
    then show ?thesis using long assms(5) by (cases "c = 1") (auto simp: c'_def)
  qed
  moreover have "1 \<le> c'" using assms(5) by (auto simp: c'_def)
  ultimately show ?thesis using asked by blast
qed

text \<open>The only row on the second page of a list of eleven.\<close>

theorem delete_asks_existing_page_witness:
  "\<exists>c'. ls_pending (lo_deleted role_list (Listed sample_rows) (sample_list\<lparr>ls_data := Some [JObj []],
        ls_pagination := first_page\<lparr>pg_current := Some 2\<rparr>\<rparr>))
      = [RowsFor (plain_params (first_page\<lparr>pg_current := Some c'\<rparr>))]
    \<and> 1 \<le> c' \<and> (c' = 1 \<or> (c' - 1) * 10 < 11 - (1::int))"
proof -
  let ?s = "sample_list\<lparr>ls_data := Some [JObj []], ls_pagination := first_page\<lparr>pg_current := Some 2\<rparr>\<rparr>"
  have "(''role'', role_list) \<in> set deleting_pages" by (simp add: deleting_pages_def list_pages_def searched_pages_def)
  moreover have "ls_pending ?s = []" by (simp add: sample_list_def new_list_page_def Let_def)
  ultimately show ?thesis
    using delete_asks_existing_page [of "''role''" role_list sample_rows ?s 2 10 "[JObj []]" 11]
    by (auto simp: sample_rows_def first_page_def)
qed

text \<open>
  Removing a user from a group replaces the paging by the total alone, so that the next deletion asks for
  all rows: without a page and without a size.
\<close>

lemma removal_loses_paging:
  fixes i :: nat
  assumes "an_status res = ''ok''" "ls_data s = Some rows"
  defines "t \<equiv> userRemovedFromGroup i (Listed res) s"
  shows "\<exists>p. ls_pending (userRowDeleted (Listed res) t) = ls_pending s @ [RowsFor p]
    \<and> num_arg (pg_current (lp_pagination p)) = [] \<and> num_arg (pg_pageSize (lp_pagination p)) = []"
proof -
  have t: "pg_current (ls_pagination t) = None" "pg_pageSize (ls_pagination t) = None" "ls_pending t = ls_pending s"
    using assms by (simp_all add: userRemovedFromGroup_def list_acts)
  then have "page_after_delete t = Return None" by (simp add: page_after_delete_def)
  from row_deleted_asks(1) [OF assms(1) this] t show ?thesis
    by (simp add: userRowDeleted_def plain_params_def num_arg_def)
qed

end
