(* ===== verification/Edit_Checks.thy ===== *)
theory Edit_Checks
  imports Edit_Rules
begin

text \<open>
  What the edit pages check before they save, and where they lose what was edited: an owner that the
  page does not follow, a renamed site or rule, the providers of an application whose provider list
  has not arrived, the default mapping that all providers share, a save before the record is there.
\<close>

section \<open>A new owner that the page does not follow\<close>

text \<open>
  A page that addresses its saves with the owner and the name it holds, and that takes over the name
  but not the owner when a save succeeds.
\<close>

definition accepted_reply :: reply where
  "accepted_reply = Reply \<lparr>an_status = ''ok'', an_msg = [], an_data = JStr ''Affected''\<rparr>"

locale owner_blind_page =
  fixes ops :: page_ops and api :: string
  assumes blind_update: "is_obj (ed_object s) \<Longrightarrow> k \<in> {''owner'', ''displayName''} \<Longrightarrow>
      after (op_update ops i k v) s = s\<lparr>ed_object := obj_put (ed_object s) k v\<rparr>"
    and blind_submit: "is_obj (ed_object s) \<Longrightarrow>
      submitted ops exit s = s\<lparr>ed_effects := ed_effects s @ [Send (UpdateRecord api (ed_owner s) (ed_name s) (ed_object s))]\<rparr>"
    and blind_saved: "is_obj (ed_object s) \<Longrightarrow> an_status a = ''ok'' \<Longrightarrow>
      (let t = after (op_saved ops before body False (Reply a)) s in
       ed_owner t = ed_owner s \<and> ed_name t = field (ed_object s) ''name'' \<and> ed_object t = ed_object s
       \<and> ed_open t = ed_open s \<and> quiet (ed_effects s) t)"
begin

lemma accepted_save:
  assumes "is_obj (ed_object (run_page r))" "ed_open (run_page r)"
  defines "c \<equiv> UpdateRecord api (ed_owner (run_page r)) (ed_name (run_page r)) (ed_object (run_page r))"
  shows "let r' = run_round ops r (Save False Accept); s = run_page r in
    ed_owner (run_page r') = ed_owner s \<and> ed_name (run_page r') = field (ed_object s) ''name''
    \<and> ed_object (run_page r') = ed_object s \<and> ed_open (run_page r')
    \<and> run_stored r' = (if reaches c (run_stored r) then ed_object s else run_stored r)
    \<and> run_acked r' = run_acked r @ [ed_object s]"
proof -
  let ?s = "run_page r"
  let ?s1 = "submitted ops False ?s"
  have s1: "?s1 = ?s\<lparr>ed_effects := ed_effects ?s @ [Send c]\<rparr>"
    unfolding c_def by (rule blind_submit [OF assms(1)])
  then have f: "filter is_save (calls ?s ?s1) = [c]" by (simp add: calls_def c_def)
  let ?t = "after (op_saved ops ?s (body_of c) False (server_reply Accept c (run_stored r))) ?s1"
  have "ed_owner ?t = ed_owner ?s \<and> ed_name ?t = field (ed_object ?s) ''name'' \<and> ed_object ?t = ed_object ?s
      \<and> ed_open ?t = ed_open ?s \<and> quiet (ed_effects ?s1) ?t"
    using blind_saved [of ?s1] assms(1) by (simp add: s1 server_reply_def Let_def)
  moreover from this have "settle_save ops ?s c False Accept (run_stored r) ?s1 = ?t"
    by (simp add: settle_save_def quiet_no_gets Let_def)
  ultimately show ?thesis
    using run_round_sent [OF assms(2) f, of Accept] assms(2) by (simp add: Let_def server_stores_def c_def)
qed

lemma edited:
  assumes "is_obj (ed_object (run_page r))" "ed_open (run_page r)" "k \<in> {''owner'', ''displayName''}"
  shows "run_round ops r (EditField i k v)
    = r\<lparr>run_page := (run_page r)\<lparr>ed_object := obj_put (ed_object (run_page r)) k v\<rparr>\<rparr>"
  using assms by (simp add: run_round_def blind_update Let_def)

lemma second_save_lost:
  assumes "opened nm rec s" "ed_open s" "w \<noteq> field rec ''owner''" "x \<noteq> field rec ''displayName''"
  defines "r \<equiv> run_rounds ops [EditField 0 ''owner'' w, Save False Accept,
      EditField 0 ''displayName'' x, Save False Accept] (start_run s rec)"
  shows "length (run_acked r) = 2 \<and> field (last (run_acked r)) ''displayName'' = x
    \<and> field (run_stored r) ''displayName'' = field rec ''displayName''"
proof -
  define r1 where "r1 = run_round ops (start_run s rec) (EditField 0 ''owner'' w)"
  define r2 where "r2 = run_round ops r1 (Save False Accept)"
  define r3 where "r3 = run_round ops r2 (EditField 0 ''displayName'' x)"
  have s: "is_obj rec" "ed_object s = rec" "ed_owner s = field rec ''owner''" "ed_name s = field rec ''name''"
    using assms(1) by (simp_all add: opened_def)
  have r1: "run_page r1 = s\<lparr>ed_object := obj_put rec ''owner'' w\<rparr>" "run_stored r1 = rec" "run_acked r1 = []"
    using edited [of "start_run s rec"] s assms(2) by (simp_all add: r1_def start_run_def)
  have r2: "ed_owner (run_page r2) = field rec ''owner''" "ed_name (run_page r2) = field rec ''name''"
    "ed_object (run_page r2) = obj_put rec ''owner'' w" "ed_open (run_page r2)"
    "run_stored r2 = obj_put rec ''owner'' w" "run_acked r2 = [obj_put rec ''owner'' w]"
    using accepted_save [of r1] s assms(2) by (simp_all add: r1 r2_def key_of_def Let_def)
  have r3: "run_page r3 = (run_page r2)\<lparr>ed_object := obj_put (obj_put rec ''owner'' w) ''displayName'' x\<rparr>"
    "run_stored r3 = run_stored r2" "run_acked r3 = run_acked r2"
    using edited [of r2] s by (simp_all add: r2 r3_def)
  have r: "r = run_round ops r3 (Save False Accept)" by (simp add: r_def r1_def r2_def r3_def)
  show ?thesis unfolding r
    using accepted_save [of r3] assms(3) s by (simp add: r3 r2 key_of_def Let_def)
qed

end

interpretation role_blind: owner_blind_page role_ops "''update-role''"
  by unfold_locales
    (auto simp: role_ops_def page_eval quiet_def parseRoleField_def parse_ints_def)

interpretation model_blind: owner_blind_page model_ops "''update-model''"
  by unfold_locales
    (auto simp: model_ops_def page_eval quiet_def parseModelField_def parse_ints_def)

interpretation enforcer_blind: owner_blind_page enforcer_ops "''update-enforcer''"
  by unfold_locales
    (auto simp: enforcer_ops_def page_eval quiet_def parseEnforcerField_def parse_ints_def)

interpretation invitation_blind: owner_blind_page invitation_ops "''update-invitation''"
  by unfold_locales
    (auto simp: invitation_ops_def page_eval quiet_def parseInvitationField_def parse_ints_def)

interpretation plan_blind: owner_blind_page plan_ops "''update-plan''"
  by unfold_locales
    (auto simp: plan_ops_def page_eval quiet_def parsePlanField_def parse_ints_def)

interpretation pricing_blind: owner_blind_page pricing_ops "''update-pricing''"
  by unfold_locales
    (auto simp: pricing_ops_def page_eval quiet_def parsePricingField_def parse_ints_def)

interpretation subscription_blind: owner_blind_page subscription_ops "''update-subscription''"
  by unfold_locales
    (auto simp: subscription_ops_def page_eval quiet_def parseSubscriptionField_def parse_ints_def)

definition owner_blind_pages :: "(string \<times> page_ops) list" where
  "owner_blind_pages =
     [(''role'', role_ops), (''model'', model_ops), (''enforcer'', enforcer_ops), (''invitation'', invitation_ops),
      (''plan'', plan_ops), (''pricing'', pricing_ops), (''subscription'', subscription_ops)]"

text \<open>
  On the pages of roles, models, enforcers, invitations, plans, pricings and subscriptions a record
  that is moved to another owner and saved, then edited and saved again, is not saved: the server still
  has the old field although both saves are reported as successful.
\<close>

lemma owner_change_loses_save:
  assumes "(nm, ops) \<in> set owner_blind_pages" "opened nm rec s" "ed_open s"
    "w \<noteq> field rec ''owner''" "x \<noteq> field rec ''displayName''"
  defines "r \<equiv> run_rounds ops [EditField 0 ''owner'' w, Save False Accept,
      EditField 0 ''displayName'' x, Save False Accept] (start_run s rec)"
  shows "length (run_acked r) = 2 \<and> field (last (run_acked r)) ''displayName'' = x
    \<and> field (run_stored r) ''displayName'' = field rec ''displayName''"
proof -
  have "\<exists>api. owner_blind_page ops api"
    using assms(1) role_blind.owner_blind_page_axioms model_blind.owner_blind_page_axioms
      enforcer_blind.owner_blind_page_axioms invitation_blind.owner_blind_page_axioms
      plan_blind.owner_blind_page_axioms pricing_blind.owner_blind_page_axioms
      subscription_blind.owner_blind_page_axioms
    by (auto simp: owner_blind_pages_def)
  then show ?thesis unfolding r_def
    using owner_blind_page.second_save_lost assms(2-5) by blast
qed

lemma owner_change_loses_save_example:
  "field (run_stored (run_rounds role_ops [EditField 0 ''owner'' (JStr ''org-2''), Save False Accept,
      EditField 0 ''displayName'' (JStr ''x''), Save False Accept]
      (start_run (showing (sample ''role'')) (sample ''role'')))) ''displayName'' = JUndefined"
  using owner_change_loses_save [of "''role''" role_ops "sample ''role''" "showing (sample ''role'')"
      "JStr ''org-2''" "JStr ''x''"]
  by (simp add: owner_blind_pages_def opened_def showing_def sample_def)

section \<open>Pages that read their record again\<close>

lemma site_rename:
  assumes "opened ''site'' rec s" "ed_open s" "n \<noteq> field rec ''name''"
  shows "let r = run_rounds site_ops [EditField 0 ''name'' n, Save False Accept] (start_run s rec) in
    run_stored r = obj_put rec ''name'' n \<and> ed_object (run_page r) = JNull"
  using assms by (simp add: opened_def site_ops_def run_round_def start_run_def page_eval parseSiteField_def parse_ints_def)

lemma cert_owner:
  assumes "opened ''cert'' rec s" "ed_open s" "w \<noteq> field rec ''owner''"
  shows "let r = run_rounds cert_ops [EditField 0 ''owner'' w, Save False Accept] (start_run s rec) in
    run_stored r = obj_put rec ''owner'' w \<and> last (ed_effects (run_page r)) = Push ''/404''"
  using assms by (simp add: opened_def cert_ops_def run_round_def start_run_def page_eval parseCertField_def parse_ints_def)

text \<open>Two rounds of the page of rules: one field is edited and saved.\<close>

lemma rule_save_field:
  fixes v :: jsval
  assumes "is_obj (ed_object (run_page r))" "ed_open (run_page r)" "k \<noteq> ''type''"
  defines "body \<equiv> obj_put (ed_object (run_page r)) k v"
    and "r' \<equiv> run_rounds rule_ops [EditField 0 k v, Save False Accept] r"
  shows "run_acked r' = run_acked r @ [body]"
    "run_stored r' = (if (ed_owner (run_page r), ed_name (run_page r)) = key_of (run_stored r) then body else run_stored r)"
    "ed_object (run_page r') = body" "ed_open (run_page r')"
    "ed_owner (run_page r') = ed_owner (run_page r)" "ed_name (run_page r') = ed_name (run_page r)"
  using assms(1-3) unfolding r'_def body_def
  by (simp_all add: rule_ops_def run_round_def page_eval rule_with_def)

lemma rule_rename:
  assumes "opened ''rule'' rec s" "ed_open s" "n \<noteq> field rec ''name''" "x \<noteq> field rec ''reason''"
  defines "r \<equiv> run_rounds rule_ops [EditField 0 ''name'' n, Save False Accept,
      EditField 0 ''reason'' x, Save False Accept] (start_run s rec)"
  shows "length (run_acked r) = 2 \<and> field (last (run_acked r)) ''reason'' = x
    \<and> field (run_stored r) ''reason'' = field rec ''reason''"
proof -
  define r1 where "r1 = run_rounds rule_ops [EditField 0 ''name'' n, Save False Accept] (start_run s rec)"
  have s: "is_obj rec" "ed_object s = rec" "ed_owner s = field rec ''owner''" "ed_name s = field rec ''name''"
    using assms(1) by (simp_all add: opened_def)
  have r1: "run_acked r1 = [obj_put rec ''name'' n]" "run_stored r1 = obj_put rec ''name'' n"
    "ed_object (run_page r1) = obj_put rec ''name'' n" "ed_open (run_page r1)"
    "ed_owner (run_page r1) = field rec ''owner''" "ed_name (run_page r1) = field rec ''name''"
    using rule_save_field [of "start_run s rec" "''name''" n] s assms(2)
    by (simp_all add: r1_def start_run_def key_of_def)
  have "r = run_rounds rule_ops [EditField 0 ''reason'' x, Save False Accept] r1"
    by (simp add: r_def r1_def)
  then show ?thesis
    using rule_save_field [of r1 "''reason''" x] s assms(3) by (simp add: r1 key_of_def)
qed

lemma rule_refused:
  fixes msg :: string
  assumes "opened ''rule'' rec s" "ed_open s" "n \<noteq> field rec ''name''"
  defines "r \<equiv> run_rounds rule_ops [EditField 0 ''name'' n, Save False (Refuse msg)] (start_run s rec)"
  shows "run_stored r = rec \<and> ed_object (run_page r) = rec \<and> ed_name (run_page r) = n"
  using assms(1-3) unfolding r_def
  by (simp add: opened_def rule_ops_def run_round_def start_run_def page_eval rule_with_def)

text \<open>
  After a save the pages of sites, certificates and rules act on the wrong record: a renamed site
  is read again under its old name and the page shows nothing; a certificate with a new owner is read
  again under its old owner and the page is left for the page of unknown addresses; the page of rules
  keeps the old name after a successful rename, so that the next save is lost, and takes the new name
  when the rename is refused.
\<close>

lemma renamed_record_lost_from_view:
  assumes "is_obj rec" "ed_object s = rec" "ed_owner s = field rec ''owner''" "ed_name s = field rec ''name''" "ed_open s"
    and "w \<noteq> field rec ''owner''" "n \<noteq> field rec ''name''" "x \<noteq> field rec ''reason''"
  shows "(let r = run_rounds site_ops [EditField 0 ''name'' n, Save False Accept] (start_run s rec) in
        run_stored r = obj_put rec ''name'' n \<and> ed_object (run_page r) = JNull)
    \<and> (let r = run_rounds cert_ops [EditField 0 ''owner'' w, Save False Accept] (start_run s rec) in
        run_stored r = obj_put rec ''owner'' w \<and> last (ed_effects (run_page r)) = Push ''/404'')
    \<and> (let r = run_rounds rule_ops [EditField 0 ''name'' n, Save False Accept,
            EditField 0 ''reason'' x, Save False Accept] (start_run s rec) in
        length (run_acked r) = 2 \<and> field (last (run_acked r)) ''reason'' = x
        \<and> field (run_stored r) ''reason'' = field rec ''reason'')
    \<and> (let r = run_rounds rule_ops [EditField 0 ''name'' n, Save False (Refuse msg)] (start_run s rec) in
        run_stored r = rec \<and> ed_object (run_page r) = rec \<and> ed_name (run_page r) = n)"
  using assms site_rename [of rec s n] cert_owner [of rec s w] rule_rename [of rec s n x] rule_refused [of rec s n msg]
  by (simp add: opened_def Let_def)

lemma renamed_record_lost_from_view_example:
  "ed_object (run_page (run_rounds site_ops [EditField 0 ''name'' (JStr ''m''), Save False Accept]
      (start_run (showing (sample ''site'')) (sample ''site'')))) = JNull"
  using renamed_record_lost_from_view [of "sample ''site''" "showing (sample ''site'')" "JStr ''org-2''" "JStr ''m''" "JStr ''x''"]
  by (simp add: showing_def sample_def Let_def)

section \<open>What is checked before a save\<close>

definition has_elements :: "jsval \<Rightarrow> bool" where
  "has_elements v \<longleftrightarrow> no_elements v = Return False"

definition product_complete :: "jsval \<Rightarrow> bool" where
  "product_complete b \<longleftrightarrow> js_bool (field b ''currency'')
     \<and> (js_bool (field b ''isCreatedByPlan'') \<or> has_elements (field b ''providers''))
     \<and> (js_bool (field b ''isRecharge'') \<and> js_bool (field b ''disableCustomRecharge'')
        \<longrightarrow> has_elements (field b ''rechargeOptions''))"

definition permission_complete :: "account option \<Rightarrow> jsval \<Rightarrow> bool" where
  "permission_complete account b \<longleftrightarrow>
     (has_elements (field b ''users'') \<or> has_elements (field b ''roles''))
     \<and> has_elements (field b ''resources'') \<and> has_elements (field b ''actions'')
     \<and> (isLocalAdminUser account \<or> (\<exists>u. account = Some u \<and> field b ''submitter'' = JStr (ac_name u)))"

definition payment_complete :: "jsval \<Rightarrow> bool" where
  "payment_complete b \<longleftrightarrow> field b ''state'' = JStr ''Paid'' \<and> isValidEmail (field b ''personEmail'')
     \<and> phoneRegex (js_text (field b ''personPhone''))
     \<and> (field b ''invoiceType'' = JStr ''Individual'' \<longrightarrow>
          field b ''invoiceTitle'' = field b ''personName'' \<and> field b ''invoiceTaxId'' = JStr [])
     \<and> (field b ''invoiceType'' \<noteq> JStr ''Individual'' \<longrightarrow>
          field b ''invoiceTitle'' \<noteq> JStr [] \<and> field b ''invoiceTaxId'' \<noteq> JStr [])"

definition organization_complete :: "jsval \<Rightarrow> bool" where
  "organization_complete b \<longleftrightarrow>
     checkPasswordObfuscator (opt_text (field b ''passwordObfuscatorType'')) (opt_text (field b ''passwordObfuscatorKey'')) = []
     \<and> (\<forall>items. field b ''accountItems'' = JArr items \<longrightarrow>
          list_all (\<lambda>item. field item ''name'' \<noteq> JStr ''Please select an account item'') items)"

definition application_complete :: "jsval \<Rightarrow> bool" where
  "application_complete b \<longleftrightarrow>
     (\<exists>scopes. field b ''customScopes'' = JArr scopes \<and> list_all (\<lambda>x. \<exists>t. field x ''scope'' = JStr t \<and> t \<noteq> []) scopes)
     \<and> (\<forall>ms. field b ''signinMethods'' = JArr ms \<longrightarrow> list_all (\<lambda>m. field m ''name'' \<in> set signin_methods) ms)"

lemma calls_single:
  "calls s (s\<lparr>ed_effects := ed_effects s @ [e]\<rparr>) = sent_of e" "calls s s = []"
  by (simp_all add: calls_def)

lemma no_elements_or: "no_elements v = Return b \<Longrightarrow> has_elements v \<longleftrightarrow> \<not> b"
  by (simp add: has_elements_def)

lemma truthy_has_elements: "js_bool v \<Longrightarrow> no_elements v \<noteq> Return True \<Longrightarrow> has_elements v"
  by (cases v) (auto simp: has_elements_def no_elements_def)

lemma product_checked:
  assumes "c \<in> set (calls s (after (submitProductEdit exit) s))"
  shows "product_complete (body_of c)"
proof -
  have "c = UpdateRecord ''update-product'' (ed_owner s) (ed_name s) (deepCopy (ed_object s))
      \<and> product_complete (deepCopy (ed_object s))"
    using assms truthy_has_elements
    by (auto simp: submitProductEdit_def act_defs after_def calls_single Let_def missing_list_def product_complete_def
      split: if_splits)
  then show ?thesis by simp
qed

lemma permission_checked:
  assumes "is_obj (ed_object s)" "c \<in> set (calls s (after (submitPermissionEdit exit) s))"
  shows "permission_complete (ed_account s) (body_of c)"
proof -
  have "c = UpdateRecord ''update-permission'' (ed_owner s) (ed_name s) (ed_object s)
      \<and> permission_complete (ed_account s) (ed_object s)"
    using assms
    by (auto simp: submitPermissionEdit_def act_defs after_def calls_single record_list_empty_def js_get_field
      permission_complete_def has_elements_def bind_result_Inr_iff split: if_splits sum.splits option.splits)
  then show ?thesis by simp
qed

lemma payment_checked:
  assumes "is_obj (ed_object s)" "c \<in> set (calls s (after (submitPaymentEdit exit) s))"
  shows "payment_complete (body_of c)"
proof -
  obtain t where t: "checkError (ed_object s) = Return t" by (simp add: checkError_def js_get_field [OF assms(1)])
  with assms have "c = UpdateRecord ''update-payment'' (field (ed_object s) ''owner'') (ed_name s) (ed_object s) \<and> t = []"
    by (auto simp: submitPaymentEdit_def act_defs after_def calls_single js_get_field split: if_splits)
  moreover from this t have "payment_complete (ed_object s)"
    using assms(1) by (auto simp: checkError_def js_get_field payment_complete_def isValidInvoiceTitle_def isValidTaxId_def
      split: if_splits)
  ultimately show ?thesis by simp
qed

lemma js_filter_all: "js_filter p xs = Return ys \<Longrightarrow> list_all (\<lambda>x. p x = Return True) ys"
  by (induction xs arbitrary: ys) (auto simp: bind_result_Inr_iff split: if_splits)

lemma drop_unselected_items:
  assumes "drop_unselected v = Return (JArr items)"
  shows "list_all (\<lambda>item. field item ''name'' \<noteq> JStr ''Please select an account item'') items"
proof -
  from assms obtain xs where "js_filter (\<lambda>item. bind_result (js_get item ''name'')
      (\<lambda>n. Return (n \<noteq> JStr ''Please select an account item''))) xs = Return items"
    by (auto simp: drop_unselected_def bind_result_Inr_iff split: jsval.splits)
  from js_filter_all [OF this] show ?thesis
    by (rule list.pred_mono_strong) (auto simp: bind_result_Inr_iff field_def elim!: js_get.elims)
qed

lemma organization_checked:
  assumes "is_obj (ed_object s)" "c \<in> set (calls s (after (submitOrganizationEdit exit) s))"
  shows "organization_complete (body_of c)"
proof -
  from assms obtain b where b: "bind_result (drop_unselected (field (ed_object s) ''accountItems''))
        (js_set (ed_object s) ''accountItems'') = Return b"
    and c: "body_of c = b" "checkPasswordObfuscator (opt_text (field b ''passwordObfuscatorType''))
      (opt_text (field b ''passwordObfuscatorKey'')) = []"
    by (auto simp: submitOrganizationEdit_def act_defs after_def calls_single js_get_field Let_def
      split: if_splits sum.splits)
  from b assms(1) obtain v where v: "drop_unselected (field (ed_object s) ''accountItems'') = Return v"
    "field b ''accountItems'' = v" by (auto simp: bind_result_Inr_iff js_set_put)
  show ?thesis using c v drop_unselected_items by (auto simp: organization_complete_def)
qed

lemma keep_named_all:
  assumes "keep_named (Return names) v = Return (JArr ms)"
  shows "list_all (\<lambda>m. field m ''name'' \<in> set names) ms"
proof -
  from assms obtain xs where "js_filter (\<lambda>item. bind_result (Return names) (\<lambda>ns.
      bind_result (js_get item ''name'') (\<lambda>n. Return (n \<in> set ns)))) xs = Return ms"
    by (auto simp: keep_named_def bind_result_Inr_iff split: jsval.splits)
  from js_filter_all [OF this] show ?thesis
    by (rule list.pred_mono_strong) (auto simp: bind_result_Inr_iff field_def elim!: js_get.elims)
qed

lemma application_body_fields:
  assumes "application_body providers v = Return (ok, body)" "is_obj v"
  shows "\<exists>ps ms. keep_named (provider_names providers) (field v ''providers'') = Return ps
    \<and> keep_named (Return signin_methods) (field v ''signinMethods'') = Return ms
    \<and> field body ''providers'' = ps \<and> field body ''signinMethods'' = ms
    \<and> (ok, field body ''customScopes'') = (fst (validateCustomScopes (field v ''customScopes'')),
        JArr (snd (validateCustomScopes (field v ''customScopes''))))"
  using assms by (cases "validateCustomScopes (field v ''customScopes'')")
    (auto simp: application_body_def bind_result_Inr_iff js_set_put)

lemma scopes_trimmed: "list_all (\<lambda>x. \<exists>t. field x ''scope'' = JStr t) (trimCustomScopes v)"
  by (cases v) (auto simp: trimCustomScopes_def list_all_iff trim_scope_def)

lemma application_sent:
  assumes "is_obj (ed_object s)" "c \<in> set (calls s (after (submitApplicationEdit exit) s))"
  shows "application_body (ed_more s ''providers'') (ed_object s) = Return (True, body_of c)"
  using assms by (auto simp: submitApplicationEdit_def act_defs after_def calls_single
    split: if_splits sum.splits prod.splits)

lemma application_checked:
  assumes "is_obj (ed_object s)" "c \<in> set (calls s (after (submitApplicationEdit exit) s))"
  shows "application_complete (body_of c)"
proof -
  from application_body_fields [OF application_sent [OF assms] assms(1)]
  obtain ms where ms: "keep_named (Return signin_methods) (field (ed_object s) ''signinMethods'') = Return ms"
    "field (body_of c) ''signinMethods'' = ms"
    and ok: "fst (validateCustomScopes (field (ed_object s) ''customScopes''))"
    and scopes: "field (body_of c) ''customScopes'' = JArr (trimCustomScopes (field (ed_object s) ''customScopes''))"
    by (auto simp: validateCustomScopes_def Let_def)
  have "list_all (\<lambda>x. \<exists>t. field x ''scope'' = JStr t \<and> t \<noteq> []) (trimCustomScopes (field (ed_object s) ''customScopes''))"
    using ok scopes_trimmed by (fastforce simp: validateCustomScopes_def Let_def list_all_iff list_ex_iff)
  then show ?thesis using ms scopes keep_named_all by (auto simp: application_complete_def)
qed



section \<open>The providers of an application\<close>

text \<open>
  C29. The page of an application keeps the providers whose names are in the list of providers it has
  received, in their order; before that list has arrived, or when it could not be read, a save removes
  every provider from the application.
\<close>

theorem application_keeps_listed_providers:
  assumes "is_obj (ed_object s)" "field (ed_object s) ''providers'' = JArr ps" "list_all is_obj ps"
    and "ed_more s ''providers'' = JArr known" "list_all is_obj known"
    and "c \<in> set (calls s (after (submitApplicationEdit exit) s))"
  shows "field (body_of c) ''providers''
      = JArr (filter (\<lambda>p. field p ''name'' \<in> (\<lambda>q. field q ''name'') ` set known) ps)
    \<and> (known = [] \<longrightarrow> field (body_of c) ''providers'' = JArr [])"
proof -
  have names: "js_names known = Return (map (\<lambda>q. field q ''name'') known)"
    using assms(5) by (induction known) (simp_all add: js_get_field)
  have "js_filter (\<lambda>item. bind_result (js_names known) (\<lambda>ns. bind_result (js_get item ''name'')
      (\<lambda>n. Return (n \<in> set ns)))) ps = Return (filter (\<lambda>p. field p ''name'' \<in> (\<lambda>q. field q ''name'') ` set known) ps)"
    using assms(3) by (intro js_filter_Return) (simp add: names list_all_iff js_get_field)
  then have "keep_named (provider_names (JArr known)) (JArr ps)
      = Return (JArr (filter (\<lambda>p. field p ''name'' \<in> (\<lambda>q. field q ''name'') ` set known) ps))"
    by (simp add: keep_named_def provider_names_def)
  then show ?thesis
    using application_body_fields [OF application_sent [OF assms(1,6)] assms(1)] assms(2,4) by auto
qed

theorem application_keeps_listed_providers_witness:
  "list_all (\<lambda>c. field (body_of c) ''providers'' = JArr [])
     (calls (showing (sample ''application'')) (after (submitApplicationEdit True) (showing (sample ''application''))))"
proof -
  let ?s = "showing (sample ''application'')"
  have "is_obj (ed_object ?s)" "ed_more ?s ''providers'' = JArr []"
    "field (ed_object ?s) ''providers'' = JArr [JObj [(''name'', JStr ''github'')], JObj [(''name'', JStr ''sms'')]]"
    by (simp_all add: showing_def sample_def)
  then show ?thesis using application_keeps_listed_providers [of ?s _ "[]"] by (auto simp: list_all_iff)
qed

section \<open>The default mapping of providers\<close>

text \<open>A page opened later: its own state is new, the objects of the module are the ones left behind.\<close>

definition next_page :: "edit \<Rightarrow> edit \<Rightarrow> edit" where
  "next_page old s = s\<lparr>ed_more := (\<lambda>k.
     if k \<in> set [''defaultUserMapping'', ''defaultEmailMapping'', ''defaultSmsMapping''] then ed_more old k else ed_more s k)\<rparr>"

definition provider_reply :: "jsval \<Rightarrow> reply" where
  "provider_reply rec = Reply \<lparr>an_status = ''ok'', an_msg = [], an_data = rec\<rparr>"

text \<open>
  The default mapping is one object for all providers: a field of the mapping that is changed on a
  provider without a mapping of its own, whether the provider is then saved or not, is in the mapping of
  every provider without a mapping that is opened afterwards.
\<close>

lemma mapping_edit_leaks:
  fixes k :: string
  assumes "is_obj a" "is_obj b" "mapping_source a = Some ''defaultUserMapping''"
    "mapping_source b = Some ''defaultUserMapping''"
    and "ed_more s ''defaultUserMapping'' = m" "is_obj m" "v \<noteq> JStr []"
  defines "s1 \<equiv> after (providerReceived (provider_reply a)) s"
    and "s2 \<equiv> after (updateUserMappingField k v) (after (providerReceived (provider_reply a)) s)"
  shows "field (ed_object s1) ''userMapping'' = m
    \<and> field (field (ed_object (after (providerReceived (provider_reply b)) (next_page s2 t))) ''userMapping'') k = v"
proof -
  have nn: "a \<noteq> JNull" "b \<noteq> JNull" using assms(1,2) by auto
  have s1: "ed_object s1 = obj_put a ''userMapping'' m" "ed_more s1 ''mappingRef'' = JStr ''defaultUserMapping''"
    "ed_more s1 ''defaultUserMapping'' = m"
    using assms(1,3,5) nn by (simp_all add: s1_def after_def provider_reply_def page_defs act_defs js_set_put)
  have "ed_more s2 ''defaultUserMapping'' = obj_put m k v"
    unfolding s2_def s1_def [symmetric]
    using s1 assms(1,6,7) by (simp add: after_def page_defs act_defs js_set_put js_get_field)
  then have "ed_object (after (providerReceived (provider_reply b)) (next_page s2 t)) = obj_put b ''userMapping'' (obj_put m k v)"
    using assms(2,4) nn by (simp add: next_page_def after_def provider_reply_def page_defs act_defs js_set_put)
  then show ?thesis using s1 assms(1,2,6) by simp
qed

lemma mapping_edit_leaks_example:
  "field (field (ed_object (after (providerReceived (provider_reply (JObj [(''name'', JStr ''b'')])))
      (next_page (after (updateUserMappingField ''email'' (JStr ''mail''))
          (after (providerReceived (provider_reply (JObj [(''name'', JStr ''a'')])))
             (showing JNull\<lparr>ed_more := (\<lambda>k. defaultUserMapping)\<rparr>)))
        (showing JNull)))) ''userMapping'') ''email'' = JStr ''mail''"
proof -
  have "mapping_source (JObj [(''name'', JStr n)]) = Some ''defaultUserMapping''" for n
    by (simp add: mapping_source_def)
  then show ?thesis
    using mapping_edit_leaks [of "JObj [(''name'', JStr ''a'')]" "JObj [(''name'', JStr ''b'')]"
        "showing JNull\<lparr>ed_more := (\<lambda>k. defaultUserMapping)\<rparr>" defaultUserMapping "JStr ''mail''" "''email''"]
    by (simp add: defaultUserMapping_def)
qed

section \<open>A save before the record is there\<close>

text \<open>
  The buttons at the foot of these pages are there while the record is still loading: a save then
  sends an empty record to the address of the record.
\<close>

definition always_saving_pages :: "(string \<times> page_ops) list" where
  "always_saving_pages =
     [(''role'', role_ops), (''model'', model_ops), (''enforcer'', enforcer_ops), (''adapter'', adapter_ops),
      (''invitation'', invitation_ops), (''plan'', plan_ops), (''pricing'', pricing_ops),
      (''subscription'', subscription_ops), (''cert'', cert_ops), (''key'', key_ops), (''order'', order_ops),
      (''rule'', rule_ops), (''site'', site_ops)]"

lemma save_while_loading:
  assumes "(nm, ops) \<in> set always_saving_pages" "ed_object s = JNull"
  shows "\<exists>api. calls s (submitted ops exit s) = [UpdateRecord api (ed_owner s) (ed_name s) (JObj [])]"
  using assms by (auto simp: always_saving_pages_def role_ops_def model_ops_def enforcer_ops_def adapter_ops_def
    invitation_ops_def plan_ops_def pricing_ops_def subscription_ops_def cert_ops_def key_ops_def order_ops_def
    rule_ops_def site_ops_def page_defs act_defs after_def calls_single deepCopy_def)

lemma save_while_loading_example:
  "calls (showing JNull) (submitted role_ops True (showing JNull))
     \<in> {[UpdateRecord api JUndefined JUndefined (JObj [])] | api. True}"
  using save_while_loading [of "''role''" role_ops "showing JNull" True]
  by (auto simp: always_saving_pages_def showing_def field_def)

section \<open>The columns of a syncer\<close>

text \<open>What the table of columns offers: the fields of a user (\<open>getUserCommonFields\<close>) and the types of a column.\<close>

definition getUserCommonFields :: "string list" where
  "getUserCommonFields =
     [''Owner'', ''Name'', ''CreatedTime'', ''UpdatedTime'', ''DeletedTime'', ''Id'', ''ExternalId'', ''Type'',
      ''Password'', ''PasswordSalt'', ''PasswordType'', ''DisplayName'', ''FirstName'', ''LastName'',
      ''Avatar'', ''AvatarType'', ''PermanentAvatar'', ''Email'', ''EmailVerified'', ''Phone'',
      ''CountryCode'', ''Location'', ''Address'', ''Affiliation'', ''Title'', ''IdCardType'', ''IdCard'',
      ''RealName'', ''IsVerified'', ''Homepage'', ''Bio'', ''Tag'', ''Region'', ''Language'', ''Gender'',
      ''Birthday'', ''Education'', ''Score'', ''Karma'', ''Ranking'', ''Balance'', ''BalanceCredit'',
      ''Currency'', ''BalanceCurrency'', ''IsDefaultAvatar'', ''IsOnline'', ''IsAdmin'', ''IsForbidden'',
      ''IsDeleted'', ''SignupApplication'', ''RegisterType'', ''RegisterSource'', ''CreatedIp'',
      ''LastSigninTime'', ''LastSigninIp'', ''PreferredMfaType'', ''TotpSecret'', ''RecoveryCodes'',
      ''MfaPhoneEnabled'', ''MfaEmailEnabled'', ''MfaRadiusEnabled'', ''MfaRadiusUsername'',
      ''MfaRadiusProvider'', ''MfaPushEnabled'', ''MfaPushReceiver'', ''MfaPushProvider'',
      ''WebauthnCredentials'', ''FaceIds'', ''Invitation'', ''InvitationCode'', ''Ldap'', ''Properties'',
      ''Groups'']"

definition offered_column_types :: "string list" where
  "offered_column_types = [''string'', ''integer'', ''boolean'']"


definition preset_ok :: "syncer_column list \<Rightarrow> bool" where
  "preset_ok cs \<longleftrightarrow> distinct (map sc_casdoorName cs) \<and> set (map sc_casdoorName cs) \<subseteq> set getUserCommonFields"

definition offered :: "syncer_column list \<Rightarrow> bool" where
  "offered cs = list_all (\<lambda>c. sc_type c \<in> set offered_column_types) cs"

lemma presets_ok:
  "preset_ok keycloak_columns" "preset_ok weCom_columns" "preset_ok azureAD_columns"
  "preset_ok googleWorkspace_columns" "preset_ok dingTalk_columns" "preset_ok activeDirectory_columns"
  "preset_ok lark_columns" "preset_ok okta_columns" "preset_ok scim_columns" "preset_ok awsIam_columns"
  "preset_ok []"
  by code_simp+

lemma presets_offered:
  "offered keycloak_columns" "offered weCom_columns" "offered azureAD_columns"
  "offered googleWorkspace_columns" "offered dingTalk_columns" "offered activeDirectory_columns"
  "\<not> offered lark_columns" "offered okta_columns" "offered scim_columns" "offered awsIam_columns" "offered []"
  by code_simp+

lemma presets_fit:
  assumes "field syncer ''type'' = JStr v"
  shows "preset_ok (getSyncerTableColumns syncer)" "offered (getSyncerTableColumns syncer) \<longleftrightarrow> v \<noteq> ''Lark''"
  by (simp_all add: getSyncerTableColumns_def Let_def assms presets_ok presets_offered)

lemma getSyncerTableColumns_cong:
  "field a ''type'' = field b ''type'' \<Longrightarrow> getSyncerTableColumns a = getSyncerTableColumns b"
  by (simp add: getSyncerTableColumns_def)

lemma changed_type_columns:
  assumes "is_obj (ed_object s)"
  shows "field (ed_object (after (changeSyncerType v) s)) ''type'' = JStr v"
    and "field (ed_object (after (changeSyncerType v) s)) ''tableColumns''
      = JArr (map column_value (getSyncerTableColumns (JObj [(''type'', JStr v)])))"
  using assms getSyncerTableColumns_cong [of "obj_put (ed_object s) ''type'' (JStr v)" "JObj [(''type'', JStr v)]"]
  by (auto simp: changeSyncerType_def updateSyncerField_def parseSyncerField_def parse_ints_def act_defs after_def
    Let_def js_set_put js_get_field is_obj_not_null)

text \<open>
  C30. Changing the type of a syncer fills its table of columns with a preset that the table can show: no
  two rows fill the same field of a user, and every field is one that the table offers. The type of
  every row is one that the table offers too, except in the preset for \<open>Lark\<close>, which has a row of type
  \<open>number\<close>.
\<close>

theorem syncer_presets_fit_table:
  assumes "is_obj (ed_object s)"
  shows "\<exists>cs. field (ed_object (after (changeSyncerType v) s)) ''tableColumns'' = JArr (map column_value cs)
    \<and> distinct (map sc_casdoorName cs) \<and> set (map sc_casdoorName cs) \<subseteq> set getUserCommonFields
    \<and> (list_all (\<lambda>c. sc_type c \<in> set offered_column_types) cs \<longleftrightarrow> v \<noteq> ''Lark'')"
  using changed_type_columns(2) [OF assms, of v] presets_fit [of "JObj [(''type'', JStr v)]" v]
  by (auto simp: preset_ok_def offered_def)

theorem syncer_presets_fit_table_witness:
  "field (ed_object (after (changeSyncerType ''Lark'') (showing (sample ''syncer'')))) ''tableColumns'' \<noteq> JArr []"
proof -
  have "is_obj (ed_object (showing (sample ''syncer'')))" by (simp add: showing_def sample_def)
  from syncer_presets_fit_table [OF this, of "''Lark''"] show ?thesis by (auto simp: list_all_iff)
qed

end
