(* ===== verification/Page_Routes.thy ===== *)
theory Page_Routes
  imports List_Rules Edit_Checks
begin

text \<open>
  From the lists to the edit pages: the routes of \<open>ManagementPage.js\<close>, the constructors of the edit pages
  and the way from a record that a list page has added to the page that shows it.
\<close>

section \<open>Routes\<close>

text \<open>
  The patterns of \<open>react-router\<close> as the routes use them: literal segments, compared without regard to
  case, and parameters, which take a segment that is not empty. A route is exact; a slash at the end of
  a path is allowed. The parameters here are texts that need no decoding.
\<close>

datatype segment = Lit string | Param string

fun match_segments :: "segment list \<Rightarrow> string list \<Rightarrow> (string \<times> string) list option" where
  "match_segments [] [] = Some []"
| "match_segments (Lit t # ps) (x # xs) = (if js_lower x = js_lower t then match_segments ps xs else None)"
| "match_segments (Param k # ps) (x # xs) = (if x \<noteq> [] then map_option (\<lambda>r. (k, x) # r) (match_segments ps xs) else None)"
| "match_segments _ _ = None"

definition path_segments :: "string \<Rightarrow> string list" where
  "path_segments path =
     (let xs = drop 1 (split_char CHR ''/'' path) in if xs \<noteq> [] \<and> last xs = [] then butlast xs else xs)"

fun find_route :: "(segment list \<times> string) list \<Rightarrow> string list \<Rightarrow> (string \<times> (string \<times> string) list) option" where
  "find_route [] xs = None"
| "find_route ((pat, page) # rs) xs =
     (case match_segments pat xs of Some ps \<Rightarrow> Some (page, ps) | None \<Rightarrow> find_route rs xs)"

text \<open>The routes of \<open>renderRouter\<close> in their order; the last one of the source, without a path, shows 404.\<close>

definition management_routes :: "(segment list \<times> string) list" where
  "management_routes =
     [([], ''Dashboard''),
      ([Lit ''apps''], ''AppListPage''),
      ([Lit ''shortcuts''], ''ShortcutsPage''),
      ([Lit ''account''], ''AccountPage''),
      ([Lit ''organizations''], ''OrganizationListPage''),
      ([Lit ''organizations'', Param ''organizationName''], ''OrganizationEditPage''),
      ([Lit ''organizations'', Param ''organizationName'', Lit ''users''], ''UserListPage''),
      ([Lit ''trees'', Param ''organizationName''], ''GroupTreePage''),
      ([Lit ''trees'', Param ''organizationName'', Param ''groupName''], ''GroupTreePage''),
      ([Lit ''groups''], ''GroupListPage''),
      ([Lit ''groups'', Param ''organizationName'', Param ''groupName''], ''GroupEditPage''),
      ([Lit ''users''], ''UserListPage''),
      ([Lit ''users'', Param ''organizationName'', Param ''userName''], ''UserEditPage''),
      ([Lit ''invitations''], ''InvitationListPage''),
      ([Lit ''invitations'', Param ''organizationName'', Param ''invitationName''], ''InvitationEditPage''),
      ([Lit ''applications''], ''ApplicationListPage''),
      ([Lit ''applications'', Param ''organizationName'', Param ''applicationName''], ''ApplicationEditPage''),
      ([Lit ''appearance'', Param ''organizationName'', Param ''applicationName''], ''AppearanceEditorPage''),
      ([Lit ''providers''], ''ProviderListPage''),
      ([Lit ''providers'', Param ''organizationName'', Param ''providerName''], ''ProviderEditPage''),
      ([Lit ''records''], ''RecordListPage''),
      ([Lit ''resources''], ''ResourceListPage''),
      ([Lit ''certs''], ''CertListPage''),
      ([Lit ''certs'', Param ''organizationName'', Param ''certName''], ''CertEditPage''),
      ([Lit ''keys''], ''KeyListPage''),
      ([Lit ''keys'', Param ''organizationName'', Param ''keyName''], ''KeyEditPage''),
      ([Lit ''entries''], ''EntryListPage''),
      ([Lit ''entries'', Param ''organizationName'', Param ''entryName'', Lit ''transcript''], ''OpenClawSessionTranscriptPage''),
      ([Lit ''entries'', Param ''organizationName'', Param ''entryName''], ''EntryEditPage''),
      ([Lit ''sites''], ''SiteListPage''),
      ([Lit ''sites'', Param ''organizationName'', Param ''siteName''], ''SiteEditPage''),
      ([Lit ''rules''], ''RuleListPage''),
      ([Lit ''rules'', Param ''organizationName'', Param ''ruleName''], ''RuleEditPage''),
      ([Lit ''verifications''], ''VerificationListPage''),
      ([Lit ''grants''], ''GrantsPage''),
      ([Lit ''breakglass'', Lit ''request''], ''BreakglassRequestPage''),
      ([Lit ''breakglass'', Lit ''queue''], ''BreakglassQueuePage''),
      ([Lit ''access-review''], ''AccessReviewPage''),
      ([Lit ''access-management''], ''AccessManagementPage''),
      ([Lit ''audit''], ''AuditPage''),
      ([Lit ''health''], ''SubsystemHealthPage''),
      ([Lit ''roles''], ''RoleListPage''),
      ([Lit ''roles'', Param ''organizationName'', Param ''roleName''], ''RoleEditPage''),
      ([Lit ''permissions''], ''PermissionListPage''),
      ([Lit ''permissions'', Param ''organizationName'', Param ''permissionName''], ''PermissionEditPage''),
      ([Lit ''models''], ''ModelListPage''),
      ([Lit ''models'', Param ''organizationName'', Param ''modelName''], ''ModelEditPage''),
      ([Lit ''adapters''], ''AdapterListPage''),
      ([Lit ''adapters'', Param ''organizationName'', Param ''adapterName''], ''AdapterEditPage''),
      ([Lit ''enforcers''], ''EnforcerListPage''),
      ([Lit ''enforcers'', Param ''organizationName'', Param ''enforcerName''], ''EnforcerEditPage''),
      ([Lit ''sessions''], ''SessionListPage''),
      ([Lit ''tokens''], ''TokenListPage''),
      ([Lit ''tokens'', Param ''tokenName''], ''TokenEditPage''),
      ([Lit ''sysinfo''], ''SystemInfo''),
      ([Lit ''forms''], ''FormListPage''),
      ([Lit ''forms'', Param ''formName''], ''FormEditPage''),
      ([Lit ''syncers''], ''SyncerListPage''),
      ([Lit ''syncers'', Param ''organizationName'', Param ''syncerName''], ''SyncerEditPage''),
      ([Lit ''webhooks''], ''WebhookListPage''),
      ([Lit ''webhook-events''], ''WebhookEventListPage''),
      ([Lit ''webhooks'', Param ''webhookName''], ''WebhookEditPage''),
      ([Lit ''tickets''], ''TicketListPage''),
      ([Lit ''tickets'', Param ''organizationName'', Param ''ticketName''], ''TicketEditPage''),
      ([Lit ''ldap'', Param ''organizationName'', Param ''ldapId''], ''LdapEditPage''),
      ([Lit ''ldap'', Lit ''sync'', Param ''organizationName'', Param ''ldapId''], ''LdapSyncPage''),
      ([Lit ''mfa'', Lit ''setup''], ''MfaSetupPage''),
      ([Lit ''.well-known'', Lit ''openid-configuration''], ''OdicDiscoveryPage'')]"

definition route_of :: "string \<Rightarrow> (string \<times> (string \<times> string) list) option" where
  "route_of path = find_route management_routes (path_segments path)"

section \<open>Constructors of the edit pages\<close>

text \<open>
  What a page is given: the parameters of its route, the mode of its location, and the properties that the
  account page passes to the page of the user. The fields of the state that only the view reads (menu,
  texts) are left out.
\<close>

record page_props =
  pp_organizationName :: jsval
  pp_userName :: jsval
  pp_params :: "(string \<times> string) list"
  pp_mode :: jsval
  pp_account :: "account option"

definition route_param :: "page_props \<Rightarrow> string \<Rightarrow> jsval" where
  "route_param ps k = (case map_of (pp_params ps) k of Some v \<Rightarrow> JStr v | None \<Rightarrow> JUndefined)"

text \<open>\<open>props.x !== undefined ? props.x : props.match.params.x\<close> and \<open>a ?? b ?? null\<close>.\<close>

definition given_or :: "jsval \<Rightarrow> jsval \<Rightarrow> jsval" where
  "given_or v w = (if v \<noteq> JUndefined then v else w)"

definition or_null :: "jsval \<Rightarrow> jsval" where
  "or_null v = nullish v JNull"

definition location_mode :: "page_props \<Rightarrow> string" where
  "location_mode ps = (case pp_mode ps of JStr m \<Rightarrow> m | _ \<Rightarrow> ''edit'')"

definition new_edit :: "page_props \<Rightarrow> jsval \<Rightarrow> jsval \<Rightarrow> (string \<times> jsval) list \<Rightarrow> edit" where
  "new_edit ps owner name rest = \<lparr>ed_owner = owner, ed_name = name, ed_object = JNull, ed_mode = location_mode ps,
     ed_open = True, ed_more = (\<lambda>k. case map_of rest k of Some v \<Rightarrow> v | None \<Rightarrow> JUndefined),
     ed_account = pp_account ps, ed_session = (\<lambda>k. None), ed_effects = []\<rparr>"

definition mountRole :: "page_props \<Rightarrow> edit result" where
  "mountRole ps = bind_result (decodeURIComponent (js_text (route_param ps ''roleName'')))
     (\<lambda>n. Return (new_edit ps (given_or (pp_organizationName ps) (route_param ps ''organizationName'')) (JStr n)
       [(''organizations'', JArr [])]))"

definition mountModel :: "page_props \<Rightarrow> edit result" where
  "mountModel ps = Return (new_edit ps (given_or (pp_organizationName ps) (route_param ps ''organizationName'')) (route_param ps ''modelName'')
     [(''organizations'', JArr []), (''users'', JArr [])])"

definition mountEnforcer :: "page_props \<Rightarrow> edit result" where
  "mountEnforcer ps = Return (new_edit ps (given_or (pp_organizationName ps) (route_param ps ''organizationName'')) (route_param ps ''enforcerName'')
     [(''organizations'', JArr []), (''models'', JArr []), (''adapters'', JArr [])])"

definition mountAdapter :: "page_props \<Rightarrow> edit result" where
  "mountAdapter ps = Return (new_edit ps (given_or (pp_organizationName ps) (route_param ps ''organizationName'')) (route_param ps ''adapterName'')
     [(''organizations'', JArr [])])"

definition mountGroup :: "page_props \<Rightarrow> edit result" where
  "mountGroup ps = Return (new_edit ps (given_or (pp_organizationName ps) (route_param ps ''organizationName'')) (route_param ps ''groupName'')
     [(''users'', JArr []), (''groups'', JArr []), (''organizations'', JArr [])])"

definition mountInvitation :: "page_props \<Rightarrow> edit result" where
  "mountInvitation ps = Return (new_edit ps (given_or (pp_organizationName ps) (route_param ps ''organizationName'')) (route_param ps ''invitationName'')
     [(''organizations'', JArr []), (''applications'', JArr []), (''groups'', JArr []), (''sendLoading'',
       JBool False)])"

definition mountPermission :: "page_props \<Rightarrow> edit result" where
  "mountPermission ps = bind_result (decodeURIComponent (js_text (route_param ps ''permissionName'')))
     (\<lambda>n. Return (new_edit ps (given_or (pp_organizationName ps) (route_param ps ''organizationName'')) (JStr n)
       [(''organizations'', JArr []), (''model'', JNull), (''users'', JArr []), (''groups'', JArr []),
       (''roles'', JArr []), (''models'', JArr []), (''resources'', JArr [])]))"

definition mountUser :: "page_props \<Rightarrow> edit result" where
  "mountUser ps = Return (new_edit ps (given_or (pp_organizationName ps) (route_param ps ''organizationName'')) (given_or (pp_userName ps) (route_param ps ''userName''))
     [(''application'', JNull), (''groups'', JNull), (''organizations'', JArr []), (''applications'', JArr
       []), (''loading'', JBool True), (''returnUrl'', JNull), (''openFaceRecognitionModal'', JBool
       False), (''transactions'', JArr []), (''consents'', JArr []), (''menuMode'', JStr
       ''Horizontal'')])"

definition mountOrganization :: "page_props \<Rightarrow> edit result" where
  "mountOrganization ps = Return (new_edit ps (JUndefined) (route_param ps ''organizationName'')
     [(''applications'', JArr []), (''ldaps'', JNull), (''transactions'', JArr [])])"

definition mountProduct :: "page_props \<Rightarrow> edit result" where
  "mountProduct ps = Return (new_edit ps (given_or (pp_organizationName ps) (route_param ps ''organizationName'')) (route_param ps ''productName'')
     [(''providers'', JArr []), (''organizations'', JArr [])])"

definition mountPlan :: "page_props \<Rightarrow> edit result" where
  "mountPlan ps = Return (new_edit ps (nullish (pp_organizationName ps) (or_null (route_param ps ''organizationName''))) (or_null (route_param ps ''planName''))
     [(''organizations'', JArr []), (''users'', JArr []), (''roles'', JArr []), (''paymentProviders'',
       JArr [])])"

definition mountPricing :: "page_props \<Rightarrow> edit result" where
  "mountPricing ps = Return (new_edit ps (given_or (pp_organizationName ps) (route_param ps ''organizationName'')) (route_param ps ''pricingName'')
     [(''organizations'', JArr []), (''applications'', JArr []), (''plans'', JArr [])])"

definition mountCoupon :: "page_props \<Rightarrow> edit result" where
  "mountCoupon ps = Return (new_edit ps (nullish (pp_organizationName ps) (or_null (route_param ps ''organizationName''))) (or_null (route_param ps ''couponName''))
     [(''organizations'', JArr []), (''products'', JArr [])])"

definition mountOrder :: "page_props \<Rightarrow> edit result" where
  "mountOrder ps = Return (new_edit ps (given_or (pp_organizationName ps) (route_param ps ''organizationName'')) (route_param ps ''orderName'')
     [(''products'', JArr []), (''users'', JArr []), (''payments'', JArr [])])"

definition mountPayment :: "page_props \<Rightarrow> edit result" where
  "mountPayment ps = Return (new_edit ps (given_or (pp_organizationName ps) (route_param ps ''organizationName'')) (route_param ps ''paymentName'')
     [(''isModalVisible'', JBool False), (''isInvoiceLoading'', JBool False)])"

definition mountSubscription :: "page_props \<Rightarrow> edit result" where
  "mountSubscription ps = Return (new_edit ps (given_or (pp_organizationName ps) (route_param ps ''organizationName'')) (route_param ps ''subscriptionName'')
     [(''organizations'', JArr []), (''users'', JArr []), (''pricings'', JArr []), (''plans'', JArr []),
       (''providers'', JArr [])])"

definition mountTransaction :: "page_props \<Rightarrow> edit result" where
  "mountTransaction ps = Return (new_edit ps (given_or (pp_organizationName ps) (route_param ps ''organizationName'')) (route_param ps ''transactionName'')
     [(''organizations'', JArr []), (''applications'', JArr []), (''users'', JArr [])])"

definition mountTicket :: "page_props \<Rightarrow> edit result" where
  "mountTicket ps = Return (new_edit ps (given_or (pp_organizationName ps) (route_param ps ''organizationName'')) (route_param ps ''ticketName'')
     [(''messageText'', JStr []), (''sending'', JBool False)])"

definition mountCert :: "page_props \<Rightarrow> edit result" where
  "mountCert ps = Return (new_edit ps (route_param ps ''organizationName'') (route_param ps ''certName'')
     [(''organizations'', JArr [])])"

definition mountKey :: "page_props \<Rightarrow> edit result" where
  "mountKey ps = Return (new_edit ps (route_param ps ''organizationName'') (route_param ps ''keyName'')
     [(''organizations'', JArr []), (''applications'', JArr []), (''users'', JArr [])])"

definition mountToken :: "page_props \<Rightarrow> edit result" where
  "mountToken ps = Return (new_edit ps (JUndefined) (route_param ps ''tokenName'')
     [])"

definition mountWebhook :: "page_props \<Rightarrow> edit result" where
  "mountWebhook ps = Return (new_edit ps (JUndefined) (route_param ps ''webhookName'')
     [(''organizations'', JArr [])])"

definition mountForm :: "page_props \<Rightarrow> edit result" where
  "mountForm ps = Return (new_edit ps (JUndefined) (route_param ps ''formName'')
     [(''formItems'', JArr [])])"

definition mountLdap :: "page_props \<Rightarrow> edit result" where
  "mountLdap ps = Return (new_edit ps (route_param ps ''organizationName'') (route_param ps ''ldapId'')
     [(''organizations'', JArr []), (''groups'', JNull)])"

definition mountSyncer :: "page_props \<Rightarrow> edit result" where
  "mountSyncer ps = Return (new_edit ps (route_param ps ''organizationName'') (route_param ps ''syncerName'')
     [(''certs'', JArr []), (''organizations'', JArr []), (''testDbLoading'', JBool False)])"

definition mountApplication :: "page_props \<Rightarrow> edit result" where
  "mountApplication ps = Return (new_edit ps (given_or (pp_organizationName ps) (route_param ps ''organizationName'')) (route_param ps ''applicationName'')
     [(''organizations'', JArr []), (''certs'', JArr []), (''providers'', JArr []), (''uploading'', JBool
       False), (''tokenAttributes'', JArr []), (''samlAttributes'', JArr []), (''samlMetadata'',
       JNull), (''isAuthorized'', JBool True), (''menuMode'', JStr ''horizontal'')])"

definition mountProvider :: "page_props \<Rightarrow> edit result" where
  "mountProvider ps = Return (new_edit ps (given_or (pp_organizationName ps) (route_param ps ''organizationName'')) (route_param ps ''providerName'')
     [(''providers'', JArr []), (''certs'', JArr []), (''organizations'', JArr []),
       (''nameNotUserEdited'', JBool False), (''displayNameNotUserEdited'', JBool False),
       (''scanLoading'', JBool False), (''scanResult'', JNull), (''scanServers'', JArr [])])"

definition mountAgent :: "page_props \<Rightarrow> edit result" where
  "mountAgent ps = Return (new_edit ps (route_param ps ''organizationName'') (route_param ps ''agentName'')
     [(''organizations'', JArr []), (''applications'', JArr [])])"

definition mountEntry :: "page_props \<Rightarrow> edit result" where
  "mountEntry ps = Return (new_edit ps (route_param ps ''organizationName'') (route_param ps ''entryName'')
     [(''organizations'', JArr [])])"

definition mountServer :: "page_props \<Rightarrow> edit result" where
  "mountServer ps = Return (new_edit ps (route_param ps ''organizationName'') (route_param ps ''serverName'')
     [(''organizations'', JArr []), (''applications'', JArr [])])"

definition mountSite :: "page_props \<Rightarrow> edit result" where
  "mountSite ps = Return (new_edit ps (route_param ps ''organizationName'') (route_param ps ''siteName'')
     [(''rules'', JArr []), (''providers'', JArr []), (''certs'', JNull), (''applications'', JNull),
       (''organizations'', JArr [])])"

definition mountRule :: "page_props \<Rightarrow> edit result" where
  "mountRule ps = Return (new_edit ps (route_param ps ''organizationName'') (route_param ps ''ruleName'')
     [(''organizations'', JArr [])])"

section \<open>From the list to the page\<close>

text \<open>The places a list page has gone to, and the requests a page sends first.\<close>

fun pushed_by :: "list_output list \<Rightarrow> (string \<times> string) list" where
  "pushed_by [] = []"
| "pushed_by (LPushMode path m # es) = (path, m) # pushed_by es"
| "pushed_by (e # es) = pushed_by es"

lemma pushed_by_append [simp]: "pushed_by (es @ fs) = pushed_by es @ pushed_by fs"
  by (induction es rule: pushed_by.induct) simp_all

definition at_route :: "account \<Rightarrow> string \<Rightarrow> (string \<times> string) list \<Rightarrow> page_props" where
  "at_route u m params = \<lparr>pp_organizationName = JUndefined, pp_userName = JUndefined, pp_params = params,
     pp_mode = JStr m, pp_account = Some u\<rparr>"

definition first_requests :: "(page_props \<Rightarrow> edit result) \<Rightarrow> act \<Rightarrow> page_props \<Rightarrow> edit_effect list" where
  "first_requests mount get ps = (case mount ps of Throw e \<Rightarrow> [] | Return s \<Rightarrow> ed_effects (fst (get s)))"

text \<open>
  A list page and its edit page: the new record, the continuation of the request that adds it, the fields
  of the record that name it in the path, the edit page with its constructor and its request.
\<close>

record page_link =
  pl_new :: "new_values \<Rightarrow> list_page \<Rightarrow> jsval result"
  pl_added :: "jsval \<Rightarrow> list_reply \<Rightarrow> list_act"
  pl_keys :: "string list"
  pl_page :: string
  pl_mount :: "page_props \<Rightarrow> edit result"
  pl_get :: act
  pl_endpoint :: string

definition sure :: "(new_values \<Rightarrow> list_page \<Rightarrow> jsval) \<Rightarrow> new_values \<Rightarrow> list_page \<Rightarrow> jsval result" where
  "sure new f s = Return (new f s)"

definition owner_links :: "page_link list" where
  "owner_links =
     [page_link.make (sure newGroup) groupAdded [''owner'', ''name''] ''GroupEditPage'' mountGroup getGroup ''get-group'',
      page_link.make newUser userAdded [''owner'', ''name''] ''UserEditPage'' mountUser getUser ''get-user'',
      page_link.make (sure newInvitation) invitationAdded [''owner'', ''name''] ''InvitationEditPage''
        mountInvitation getInvitation ''get-invitation'',
      page_link.make (sure newCert) certAdded [''owner'', ''name''] ''CertEditPage'' mountCert getCert ''get-cert'',
      page_link.make (sure newKey) keyAdded [''owner'', ''name''] ''KeyEditPage'' mountKey getKey ''get-key'',
      page_link.make (sure newEntry) entryAdded [''owner'', ''name''] ''EntryEditPage'' mountEntry getEntry ''get-entry'',
      page_link.make (sure newRole) roleAdded [''owner'', ''name''] ''RoleEditPage'' mountRole getRole ''get-role'',
      page_link.make (sure newPermission) permissionAdded [''owner'', ''name''] ''PermissionEditPage''
        mountPermission getPermission ''get-permission'',
      page_link.make (sure newModel) modelAdded [''owner'', ''name''] ''ModelEditPage'' mountModel getModel ''get-model'',
      page_link.make (sure newAdapter) adapterAdded [''owner'', ''name''] ''AdapterEditPage''
        mountAdapter getAdapter ''get-adapter'',
      page_link.make (sure newEnforcer) enforcerAdded [''owner'', ''name''] ''EnforcerEditPage''
        mountEnforcer getEnforcer ''get-enforcer'',
      page_link.make (sure newTicket) ticketAdded [''owner'', ''name''] ''TicketEditPage''
        mountTicket getTicket ''get-ticket'']"

definition other_links :: "page_link list" where
  "other_links =
     [page_link.make (sure newApplication) applicationAdded [''organization'', ''name''] ''ApplicationEditPage''
        mountApplication getApplication ''get-application'',
      page_link.make (sure newOrganization) organizationAdded [''name''] ''OrganizationEditPage''
        mountOrganization getOrganizationRecord ''get-organization'',
      page_link.make (sure newToken) tokenAdded [''name''] ''TokenEditPage'' mountToken getToken ''get-token'',
      page_link.make (sure newForm) formAdded [''name''] ''FormEditPage'' mountForm getForm ''get-form'',
      page_link.make (sure newWebhook) webhookAdded [''name''] ''WebhookEditPage'' mountWebhook getWebhook ''get-webhook'']"

text \<open>A field whose text stands for itself in a path.\<close>

definition plain_text :: "string \<Rightarrow> bool" where
  "plain_text t \<longleftrightarrow> t \<noteq> [] \<and> list_all uri_unreserved t"

definition plain_field :: "jsval \<Rightarrow> string \<Rightarrow> bool" where
  "plain_field rec k = (case field rec k of JStr t \<Rightarrow> plain_text t | _ \<Rightarrow> False)"

lemma plain_fieldE:
  assumes "plain_field rec k"
  obtains t where "field rec k = JStr t" "plain_text t"
  using assms by (cases "field rec k") (simp_all add: plain_field_def)

lemma plain_text_no_slash: "plain_text t \<Longrightarrow> CHR ''/'' \<notin> set t"
  using unreserved_no_sep [of t] by (auto simp: plain_text_def list_all_iff)

lemma decode_plain: "plain_text t \<Longrightarrow> decodeURIComponent t = Return t"
  using uri.roundtrip [of t] utf8_valid_ascii [of t] encodeURIComponent_ascii [of t]
  by (simp add: plain_text_def encode_unreserved)

lemma path_segments_two:
  assumes "CHR ''/'' \<notin> set b" "plain_text n"
  shows "path_segments (CHR ''/'' # b @ CHR ''/'' # n) = [b, n]"
proof -
  have "split_char CHR ''/'' (CHR ''/'' # b @ CHR ''/'' # n) = [[], b, n]"
    using assms by (simp add: split_char_append split_char_absent plain_text_no_slash)
  then show ?thesis
    using assms(2) by (simp add: path_segments_def plain_text_def)
qed

lemma path_segments_three:
  assumes "CHR ''/'' \<notin> set b" "plain_text w" "plain_text n"
  shows "path_segments (CHR ''/'' # b @ CHR ''/'' # w @ CHR ''/'' # n) = [b, w, n]"
proof -
  have "split_char CHR ''/'' (CHR ''/'' # b @ CHR ''/'' # w @ CHR ''/'' # n) = [[], b, w, n]"
    using assms by (simp add: split_char_append split_char_absent plain_text_no_slash)
  then show ?thesis
    using assms(3) by (simp add: path_segments_def plain_text_def)
qed

lemma route_words [simp]:
  "js_lower ''apps'' = ''apps''"
  "js_lower ''shortcuts'' = ''shortcuts''"
  "js_lower ''account'' = ''account''"
  "js_lower ''organizations'' = ''organizations''"
  "js_lower ''users'' = ''users''"
  "js_lower ''trees'' = ''trees''"
  "js_lower ''groups'' = ''groups''"
  "js_lower ''invitations'' = ''invitations''"
  "js_lower ''applications'' = ''applications''"
  "js_lower ''appearance'' = ''appearance''"
  "js_lower ''providers'' = ''providers''"
  "js_lower ''records'' = ''records''"
  "js_lower ''resources'' = ''resources''"
  "js_lower ''certs'' = ''certs''"
  "js_lower ''keys'' = ''keys''"
  "js_lower ''entries'' = ''entries''"
  "js_lower ''transcript'' = ''transcript''"
  "js_lower ''sites'' = ''sites''"
  "js_lower ''rules'' = ''rules''"
  "js_lower ''verifications'' = ''verifications''"
  "js_lower ''grants'' = ''grants''"
  "js_lower ''breakglass'' = ''breakglass''"
  "js_lower ''request'' = ''request''"
  "js_lower ''queue'' = ''queue''"
  "js_lower ''access-review'' = ''access-review''"
  "js_lower ''access-management'' = ''access-management''"
  "js_lower ''audit'' = ''audit''"
  "js_lower ''health'' = ''health''"
  "js_lower ''roles'' = ''roles''"
  "js_lower ''permissions'' = ''permissions''"
  "js_lower ''models'' = ''models''"
  "js_lower ''adapters'' = ''adapters''"
  "js_lower ''enforcers'' = ''enforcers''"
  "js_lower ''sessions'' = ''sessions''"
  "js_lower ''tokens'' = ''tokens''"
  "js_lower ''sysinfo'' = ''sysinfo''"
  "js_lower ''forms'' = ''forms''"
  "js_lower ''syncers'' = ''syncers''"
  "js_lower ''webhooks'' = ''webhooks''"
  "js_lower ''webhook-events'' = ''webhook-events''"
  "js_lower ''tickets'' = ''tickets''"
  "js_lower ''ldap'' = ''ldap''"
  "js_lower ''sync'' = ''sync''"
  "js_lower ''mfa'' = ''mfa''"
  "js_lower ''setup'' = ''setup''"
  "js_lower ''.well-known'' = ''.well-known''"
  "js_lower ''openid-configuration'' = ''openid-configuration''"
  by code_simp+

lemma routed:
  assumes "w \<noteq> []" "n \<noteq> []"
  shows
    "find_route management_routes [''groups'', w, n] = Some (''GroupEditPage'', [(''organizationName'', w), (''groupName'', n)])"
    "find_route management_routes [''users'', w, n] = Some (''UserEditPage'', [(''organizationName'', w), (''userName'', n)])"
    "find_route management_routes [''invitations'', w, n] = Some (''InvitationEditPage'', [(''organizationName'', w), (''invitationName'', n)])"
    "find_route management_routes [''applications'', w, n] = Some (''ApplicationEditPage'', [(''organizationName'', w), (''applicationName'', n)])"
    "find_route management_routes [''certs'', w, n] = Some (''CertEditPage'', [(''organizationName'', w), (''certName'', n)])"
    "find_route management_routes [''keys'', w, n] = Some (''KeyEditPage'', [(''organizationName'', w), (''keyName'', n)])"
    "find_route management_routes [''entries'', w, n] = Some (''EntryEditPage'', [(''organizationName'', w), (''entryName'', n)])"
    "find_route management_routes [''roles'', w, n] = Some (''RoleEditPage'', [(''organizationName'', w), (''roleName'', n)])"
    "find_route management_routes [''permissions'', w, n] = Some (''PermissionEditPage'', [(''organizationName'', w), (''permissionName'', n)])"
    "find_route management_routes [''models'', w, n] = Some (''ModelEditPage'', [(''organizationName'', w), (''modelName'', n)])"
    "find_route management_routes [''adapters'', w, n] = Some (''AdapterEditPage'', [(''organizationName'', w), (''adapterName'', n)])"
    "find_route management_routes [''enforcers'', w, n] = Some (''EnforcerEditPage'', [(''organizationName'', w), (''enforcerName'', n)])"
    "find_route management_routes [''tickets'', w, n] = Some (''TicketEditPage'', [(''organizationName'', w), (''ticketName'', n)])"
  using assms by (simp_all add: management_routes_def)

lemma routed_name:
  assumes "n \<noteq> []"
  shows
    "find_route management_routes [''organizations'', n] = Some (''OrganizationEditPage'', [(''organizationName'', n)])"
    "find_route management_routes [''tokens'', n] = Some (''TokenEditPage'', [(''tokenName'', n)])"
    "find_route management_routes [''forms'', n] = Some (''FormEditPage'', [(''formName'', n)])"
    "find_route management_routes [''webhooks'', n] = Some (''WebhookEditPage'', [(''webhookName'', n)])"
    "find_route management_routes [''syncers'', n] = None"
  using assms by (simp_all add: management_routes_def)

text \<open>
  The step from one page to the other for a record with a plain address: what the list pushes and what
  the edit page asks for.
\<close>

definition opens_record :: "page_link \<Rightarrow> list_page \<Rightarrow> jsval \<Rightarrow> bool" where
  "opens_record l s rec \<longleftrightarrow>
     (\<forall>res. an_status res = ''ok'' \<longrightarrow>
        (\<exists>path params.
           pushed_by (ls_effects (pl_added l rec (Listed res) s)) = pushed_by (ls_effects s) @ [(path, ''add'')]
           \<and> route_of path = Some (pl_page l, params)
           \<and> first_requests (pl_mount l) (pl_get l) (at_route (ls_account s) ''add'' params)
               = [Send (GetRecord (pl_endpoint l) (field rec ''owner'') (field rec ''name''))]))"

lemma opens_recordI:
  assumes "\<And>res. an_status res = ''ok'' \<Longrightarrow> pushed_by (ls_effects (pl_added l rec (Listed res) s))
      = pushed_by (ls_effects s) @ [(path, ''add'')]"
    and "find_route management_routes (path_segments path) = Some (pl_page l, params)"
    and "first_requests (pl_mount l) (pl_get l) (at_route (ls_account s) ''add'' params)
      = [Send (GetRecord (pl_endpoint l) (field rec ''owner'') (field rec ''name''))]"
  shows "opens_record l s rec"
  using assms by (auto simp: opens_record_def route_of_def)

lemmas pushes = row_added_def open_new_def list_show_def list_effect_def

lemmas added_defs = groupAdded_def userAdded_def invitationAdded_def certAdded_def keyAdded_def entryAdded_def
  roleAdded_def permissionAdded_def modelAdded_def adapterAdded_def enforcerAdded_def ticketAdded_def
  applicationAdded_def organizationAdded_def tokenAdded_def formAdded_def webhookAdded_def syncerAdded_def

lemmas mount_defs = mountGroup_def mountUser_def mountInvitation_def mountCert_def mountKey_def mountEntry_def
  mountRole_def mountPermission_def mountModel_def mountAdapter_def mountEnforcer_def mountTicket_def
  mountApplication_def mountOrganization_def mountToken_def mountForm_def mountWebhook_def

lemma field_null [simp]: "field JNull k = JUndefined"
  by (simp add: field_def)

lemmas opens = first_requests_def at_route_def new_edit_def route_param_def given_or_def with_state_def send_def
  effect_act_def change_def

lemma record_path_segments:
  assumes "field rec k = JStr w" "field rec ''name'' = JStr n" "plain_text w" "plain_text n" "CHR ''/'' \<notin> set b"
  shows "path_segments (record_path (CHR ''/'' # b) k rec) = [b, w, n]"
  using path_segments_three [OF assms(5,3,4)] by (simp add: record_path_def text_field_def assms(1,2))

lemma name_path_segments:
  assumes "field rec ''name'' = JStr n" "plain_text n" "CHR ''/'' \<notin> set b"
  shows "path_segments (name_path (CHR ''/'' # b) rec) = [b, n]"
  using path_segments_two [OF assms(3,2)] by (simp add: name_path_def text_field_def assms(1))

lemma owner_links_open:
  assumes "plain_field rec ''owner''" "plain_field rec ''name''"
  shows "list_all (\<lambda>l. opens_record l s rec) owner_links"
proof -
  obtain w n where rec: "field rec ''owner'' = JStr w" "field rec ''name'' = JStr n" and plain: "plain_text w" "plain_text n"
    using assms by (elim plain_fieldE) simp
  then have ne: "w \<noteq> []" "n \<noteq> []" by (simp_all add: plain_text_def)
  show ?thesis
    unfolding owner_links_def page_link.make_def list.pred_inject
    by (intro conjI TrueI)
      (rule opens_recordI, simp add: added_defs pushes, simp add: record_path_segments rec plain routed ne,
        simp add: mount_defs opens page_defs Let_def rec decode_plain plain | simp)+
qed

lemma application_opens:
  assumes "plain_field rec ''organization''" "plain_field rec ''name''" "field rec ''owner'' = JStr ''admin''"
  shows "opens_record (page_link.make (sure newApplication) applicationAdded [''organization'', ''name''] ''ApplicationEditPage''
        mountApplication getApplication ''get-application'') s rec"
proof -
  obtain w n where rec: "field rec ''organization'' = JStr w" "field rec ''name'' = JStr n" and plain: "plain_text w" "plain_text n"
    using assms(1,2) by (elim plain_fieldE) simp
  then have ne: "w \<noteq> []" "n \<noteq> []" by (simp_all add: plain_text_def)
  show ?thesis
    unfolding page_link.make_def
    by (rule opens_recordI, simp add: added_defs pushes, simp add: record_path_segments rec plain routed ne,
      simp add: mount_defs opens page_defs rec assms(3))
qed

lemma admin_links_open:
  assumes "plain_field rec ''name''" "field rec ''owner'' = JStr ''admin''"
  shows "opens_record (page_link.make (sure newOrganization) organizationAdded [''name''] ''OrganizationEditPage''
      mountOrganization getOrganizationRecord ''get-organization'') s rec" (is ?organization)
    and "opens_record (page_link.make (sure newToken) tokenAdded [''name''] ''TokenEditPage'' mountToken getToken
      ''get-token'') s rec" (is ?token)
    and "opens_record (page_link.make (sure newWebhook) webhookAdded [''name''] ''WebhookEditPage'' mountWebhook getWebhook
      ''get-webhook'') s rec" (is ?webhook)
proof -
  obtain n where rec: "field rec ''name'' = JStr n" and plain: "plain_text n"
    using assms(1) by (rule plain_fieldE)
  then have ne: "n \<noteq> []" by (simp add: plain_text_def)
  show ?organization ?token ?webhook
    unfolding page_link.make_def
    by (rule opens_recordI, simp add: added_defs pushes, simp add: name_path_segments rec plain routed_name ne,
      simp add: mount_defs opens page_defs rec assms(2))+
qed

lemma form_opens:
  assumes "plain_field rec ''name''" "field rec ''owner'' = JStr (ac_owner (ls_account s))"
  shows "opens_record (page_link.make (sure newForm) formAdded [''name''] ''FormEditPage'' mountForm getForm ''get-form'') s rec"
proof -
  obtain n where rec: "field rec ''name'' = JStr n" and plain: "plain_text n"
    using assms(1) by (rule plain_fieldE)
  then have ne: "n \<noteq> []" by (simp add: plain_text_def)
  show ?thesis
    unfolding page_link.make_def
    by (rule opens_recordI, simp add: added_defs pushes, simp add: name_path_segments rec plain routed_name ne,
      simp add: mount_defs opens page_defs rec assms(2))
qed

text \<open>The owners of the records that \<open>Add\<close> sends.\<close>

lemma new_owners:
  "field (newApplication f s) ''owner'' = JStr ''admin''" "field (newOrganization f s) ''owner'' = JStr ''admin''"
  "field (newToken f s) ''owner'' = JStr ''admin''" "field (newWebhook f s) ''owner'' = JStr ''admin''"
  "field (newForm f s) ''owner'' = JStr (ac_owner (ls_account s))"
  by (simp_all add: newApplication_def newOrganization_def newToken_def newWebhook_def newForm_def)

lemma other_links_open:
  assumes "l \<in> set other_links" "pl_new l f s = Return rec" "list_all (plain_field rec) (pl_keys l)"
  shows "opens_record l s rec"
proof -
  show ?thesis
    using assms unfolding other_links_def list.set insert_iff empty_iff
    by (elim disjE FalseE; hypsubst)
      (auto simp: sure_def page_link.make_def new_owners intro: application_opens [unfolded page_link.make_def]
        admin_links_open [unfolded page_link.make_def] form_opens [unfolded page_link.make_def])
qed

text \<open>
  C32. A new record is found by the page it opens. On every list page that opens the new record after \<open>Add\<close>,
  when the server has accepted the record the browser goes to a path that has a route, the route shows
  the edit page of that kind of record, and the first request of that page asks for exactly the record
  that was sent, with its owner and its name. The fields that make up the path have to be texts that
  need no encoding (the path is not encoded). The syncers are not among these pages.
\<close>

theorem add_opens_new_record:
  assumes "l \<in> set (owner_links @ other_links)" "pl_new l f s = Return rec" "list_all (plain_field rec) (pl_keys l)"
    and "an_status res = ''ok''"
  shows "\<exists>path params.
           pushed_by (ls_effects (pl_added l rec (Listed res) s)) = pushed_by (ls_effects s) @ [(path, ''add'')]
           \<and> route_of path = Some (pl_page l, params)
           \<and> first_requests (pl_mount l) (pl_get l) (at_route (ls_account s) ''add'' params)
               = [Send (GetRecord (pl_endpoint l) (field rec ''owner'') (field rec ''name''))]"
proof -
  have "l \<in> set owner_links \<or> l \<in> set other_links"
    using assms(1) by simp
  then have "opens_record l s rec"
  proof
    assume l: "l \<in> set owner_links"
    then have "pl_keys l = [''owner'', ''name'']"
      by (auto simp: owner_links_def page_link.make_def)
    with assms(3) l show ?thesis
      using owner_links_open [of rec s] by (simp add: list_all_iff)
  qed (rule other_links_open [OF _ assms(2,3)])
  with assms(4) show ?thesis
    by (simp add: opens_record_def)
qed

definition sample_values :: new_values where
  "sample_values = \<lparr>fr_random = ''a1b2c3'', fr_number = ''555'', fr_code = ''code'', fr_hex = ''00ff'', fr_now = ''now'',
     fr_later = ''later'', fr_application = ''app'', fr_static = ''cdn'', fr_tenth = JNull\<rparr>"

definition opening_list :: list_page where
  "opening_list = new_list_page (empty_account\<lparr>ac_owner := ''org-1''\<rparr>) None None None ''/roles''"

theorem add_opens_new_record_witness:
  "\<exists>path params.
     pushed_by (ls_effects (roleAdded (newRole sample_values opening_list) (Listed sample_rows) opening_list)) = [(path, ''add'')]
     \<and> route_of path = Some (''RoleEditPage'', params)
     \<and> first_requests mountRole getRole (at_route (ls_account opening_list) ''add'' params)
         = [Send (GetRecord ''get-role'' (JStr ''org-1'') (JStr ''role_a1b2c3''))]"
proof -
  let ?l = "page_link.make (sure newRole) roleAdded [''owner'', ''name''] ''RoleEditPage'' mountRole getRole ''get-role''"
  have "?l \<in> set (owner_links @ other_links)" by (simp add: owner_links_def)
  moreover have "list_all (plain_field (newRole sample_values opening_list)) [''owner'', ''name'']" by code_simp
  moreover have "an_status sample_rows = ''ok''" by (simp add: sample_rows_def)
  moreover have "field (newRole sample_values opening_list) ''owner'' = JStr ''org-1''"
    "field (newRole sample_values opening_list) ''name'' = JStr ''role_a1b2c3''"
    "ls_effects opening_list = []"
    by (simp_all add: newRole_def sample_values_def opening_list_def new_list_page_def request_owner_cases empty_account_def Let_def)
  ultimately show ?thesis
    using add_opens_new_record [of ?l sample_values opening_list "newRole sample_values opening_list" sample_rows]
    by (simp add: page_link.make_def sure_def)
qed

text \<open>
  A new syncer is not found: after \<open>Add\<close> on the list of syncers the browser goes to a path with the name
  alone, but the route of the edit page has an organization and a name. No route takes the path, so the
  console shows that the page does not exist, while the syncer has been added.
\<close>

lemma new_syncer_not_found:
  assumes "plain_text (fr_random f)" "an_status res = ''ok''"
  shows "\<exists>path. pushed_by (ls_effects (syncerAdded (newSyncer f s) (Listed res) s)) = pushed_by (ls_effects s) @ [(path, ''add'')]
    \<and> route_of path = None"
proof -
  let ?n = "''syncer_'' @ fr_random f"
  have "list_all uri_unreserved ''syncer_''" by code_simp
  with assms(1) have plain: "plain_text ?n" by (simp add: plain_text_def)
  have rec: "field (newSyncer f s) ''name'' = JStr ?n" by (simp add: newSyncer_def)
  have "route_of (name_path ''/syncers'' (newSyncer f s)) = None"
    unfolding route_of_def
    by (subst name_path_segments [OF rec plain]) (simp_all add: routed_name)
  then show ?thesis
    using assms(2) by (auto simp: added_defs pushes)
qed

lemma new_syncer_not_found_example:
  "\<exists>path. pushed_by (ls_effects (syncerAdded (newSyncer sample_values opening_list) (Listed sample_rows) opening_list))
     = [(path, ''add'')] \<and> route_of path = None"
proof -
  have "plain_text (fr_random sample_values)" by code_simp
  then show ?thesis
    using new_syncer_not_found [of sample_values sample_rows opening_list]
    by (simp add: sample_rows_def opening_list_def new_list_page_def Let_def)
qed

text \<open>A new permission may be saved as it is; a new product lacks a payment provider.\<close>

lemma new_permission_complete: "permission_complete (Some (ls_account s)) (newPermission f s)"
  by (simp add: permission_complete_def newPermission_def has_elements_def no_elements_def)

lemma new_product_incomplete: "\<not> product_complete (newProduct f s)"
  by (simp add: product_complete_def newProduct_def has_elements_def no_elements_def)

end
