(* ===== verification/Login_Page.thy ===== *)
theory Login_Page
  imports Auth_Callback Control_Plane Console_Requests
begin

text \<open>
  The sign-in page (\<open>web/src/auth/LoginPage.js\<close>) with the requests of \<open>web/src/auth/AuthBackend.js\<close> and the
  form for a second factor (\<open>web/src/auth/mfa/MfaAuthVerifyForm.js\<close>). A handler is an action on the state
  that may end with an exception. The page sends a request and goes on; \<open>lg_pending\<close> lists the
  continuations that wait for an answer. What the page does outside its state is appended to
  \<open>lg_outputs\<close> in the order of the code. The decisions of the render methods are functions to datatypes
  of what is shown. Texts of \<open>i18next.t\<close> stand for their keys.
\<close>

section \<open>Data\<close>

text \<open>The fields of an application that only this page reads.\<close>

record login_item = signin_item +
  li_visible :: bool
  li_isCustom :: bool
  li_label :: string

record login_method = signin_method +
  lm_displayName :: string

record login_organization =
  lo_obfuscatorType :: "string option"
  lo_obfuscatorKey :: "string option"

record login_application =
  la_app :: application
  la_items :: "login_item list option"
  la_methods :: "login_method list option"
  la_organizationObj :: "login_organization option"
  la_enableSignUp :: bool
  la_enableAutoSignin :: bool
  la_signinHtml :: string
  la_orgChoiceMode :: string
  la_formOffset :: int

text \<open>The application as the rules of \<open>Sign_In_Rules\<close> read it.\<close>

definition base_app :: "login_application \<Rightarrow> application" where
  "base_app a = (la_app a)\<lparr>app_signinItems := map_option (map signin_item.truncate) (la_items a),
     app_signinMethods := map_option (map signin_method.truncate) (la_methods a)\<rparr>"

text \<open>The object \<open>values\<close> of the form, and answers with the fields the page reads.\<close>

type_synonym vals = "(string \<times> jsval) list"

record signin_answer = answer +
  sa_data2 :: jsval
  sa_data3 :: jsval

datatype 'a replied = Answered 'a | NoAnswer string

text \<open>The answer to \<open>getAccount\<close>: the account in \<open>data\<close>, which may be \<open>null\<close>.\<close>

record account_answer =
  aa_status :: string
  aa_msg :: string
  aa_account :: "account option"

text \<open>What \<open>navigator.credentials.get\<close> returns.\<close>

record assertion =
  as_id :: string
  as_type :: string
  as_rawId :: "nat list"
  as_authData :: "nat list"
  as_clientData :: "nat list"
  as_signature :: "nat list"
  as_userHandle :: "nat list"

datatype login_output =
    Did effect
  | Sent api_request
  | Posted string jsval string          \<comment> \<open>\<open>postMessage\<close>: the window, the message, the origin\<close>
  | Refreshed                            \<comment> \<open>\<open>captchaRef.current?.loadCaptcha?.()\<close>\<close>
  | Closed                               \<comment> \<open>\<open>window.close()\<close>\<close>
  | ApplicationUpdated "login_application option"
  | AccountUpdated account
  | CredentialAsked "nat list" "nat list list"

datatype login_pending =
    LoginAnswer vals "oauth_params option" bool
  | CasAnswer vals cas_params bool
  | MfaAnswer login_pending
  | CaptchaStatus vals
  | ApplicationLogin
  | NamedApplication
  | DefaultApplication
  | ConsentAccount
  | PromptAccount oauth_params string
  | FaceBegun vals
  | DeviceCanceled
  | DeviceCompleted "oauth_params option"
  | CredentialOptions string vals "oauth_params option"
  | CredentialGiven vals "oauth_params option"
  | CredentialChecked vals "oauth_params option"

record login_page =
  lg_type :: string
  lg_applicationName :: "string option"
  lg_owner :: "string option"
  lg_mode :: "string option"
  lg_msg :: "string option"
  lg_username :: "string option"
  lg_validEmailOrPhone :: bool
  lg_validEmail :: bool
  lg_loginMethod :: "string option"
  lg_openCaptchaModal :: bool
  lg_openFaceModal :: bool
  lg_values :: vals
  lg_captcha :: "(string \<times> string \<times> string) option"
  lg_samlResponse :: string
  lg_redirectUrl :: string
  lg_relayState :: string
  lg_orgChoiceMode :: "string option"
  lg_userLang :: "string option"
  lg_loading :: bool
  lg_userCode :: "string option"
  lg_userCodeStatus :: string
  lg_prefilled :: "string option"
  lg_haveFaceProvider :: bool
  lg_mfa :: "(login_pending \<times> vals \<times> mfa_prop option) option"
  lg_application :: "login_application option option"
  lg_account :: "account option option"
  lg_inIframe :: bool
  lg_hasOpener :: bool
  lg_path :: "string option"
  lg_preview :: "string option"
  lg_browser :: browser
  lg_pending :: "login_pending list"
  lg_outputs :: "login_output list"

text \<open>\<open>this.props.application\<close> is \<open>undefined\<close> until it is known, \<open>null\<close> when there is none.\<close>

definition getApplicationObj :: "login_page \<Rightarrow> login_application option" where
  "getApplicationObj s = (case lg_application s of Some a \<Rightarrow> a | None \<Rightarrow> None)"

definition the_app :: "login_page \<Rightarrow> application option" where
  "the_app s = map_option base_app (getApplicationObj s)"

section \<open>Actions\<close>

type_synonym lact = "login_page \<Rightarrow> login_page \<times> js_error option"

named_theorems lact_defs \<open>the actions the handlers of the sign-in page are made of\<close>
named_theorems login_defs \<open>the handlers of the sign-in page\<close>

definition l_done :: lact where [lact_defs]:
  "l_done s = (s, None)"

definition l_throw :: "js_error \<Rightarrow> lact" where [lact_defs]:
  "l_throw e s = (s, Some e)"

definition l_set :: "(login_page \<Rightarrow> login_page) \<Rightarrow> lact" where [lact_defs]:
  "l_set f s = (f s, None)"

definition l_seq :: "lact \<Rightarrow> lact \<Rightarrow> lact" where [lact_defs]:
  "l_seq a b s = (case a s of (s', None) \<Rightarrow> b s' | (s', Some e) \<Rightarrow> (s', Some e))"

definition l_with :: "(login_page \<Rightarrow> lact) \<Rightarrow> lact" where [lact_defs]:
  "l_with f s = f s s"

text \<open>The value of an expression that may throw.\<close>

definition l_eval :: "'a result \<Rightarrow> ('a \<Rightarrow> lact) \<Rightarrow> lact" where [lact_defs]:
  "l_eval r f = (case r of Throw e \<Rightarrow> l_throw e | Return v \<Rightarrow> f v)"

text \<open>\<open>obj.field\<close> of an object that may be \<open>null\<close>.\<close>

definition l_need :: "'a option \<Rightarrow> ('a \<Rightarrow> lact) \<Rightarrow> lact" where [lact_defs]:
  "l_need v f = (case v of None \<Rightarrow> l_throw TypeError | Some x \<Rightarrow> f x)"

text \<open>\<open>.finally(...)\<close> and \<open>.catch(...)\<close>.\<close>

definition l_finally :: "lact \<Rightarrow> lact \<Rightarrow> lact" where [lact_defs]:
  "l_finally a b s = (case a s of (s', e) \<Rightarrow> (fst (b s'), e))"

definition l_catch :: "lact \<Rightarrow> (string \<Rightarrow> lact) \<Rightarrow> lact" where [lact_defs]:
  "l_catch a h s = (case a s of (s', None) \<Rightarrow> (s', None) | (s', Some e) \<Rightarrow> h (error_text e) s')"

definition l_out :: "login_output \<Rightarrow> lact" where [lact_defs]:
  "l_out x = l_set (\<lambda>s. s\<lparr>lg_outputs := lg_outputs s @ [x]\<rparr>)"

definition l_message :: "string \<Rightarrow> string \<Rightarrow> lact" where [lact_defs]:
  "l_message kind content = l_out (Did (Message kind content))"

definition l_goToLink :: "string \<Rightarrow> lact" where [lact_defs]:
  "l_goToLink link = l_out (Did (GoToLink link))"

definition l_ask :: "api_request \<Rightarrow> login_pending \<Rightarrow> lact" where [lact_defs]:
  "l_ask rq k = l_seq (l_out (Sent rq)) (l_set (\<lambda>s. s\<lparr>lg_pending := lg_pending s @ [k]\<rparr>))"

definition l_loading :: "bool \<Rightarrow> lact" where [lact_defs]:
  "l_loading b = l_set (\<lambda>s. s\<lparr>lg_loading := b\<rparr>)"

text \<open>\<open>values[k] = v\<close>.\<close>

definition put :: "string \<Rightarrow> jsval \<Rightarrow> vals \<Rightarrow> vals" where
  "put k v vs = AList.update k v vs"

lemma prop_of_put [simp]: "prop_of (put k v vs) k' = (if k' = k then v else prop_of vs k')"
  by (simp add: put_def)

definition val_text :: "vals \<Rightarrow> string \<Rightarrow> string" where
  "val_text vs k = js_text (prop_of vs k)"

definition opt_val :: "string option \<Rightarrow> jsval" where
  "opt_val v = (case v of None \<Rightarrow> JUndefined | Some t \<Rightarrow> JStr t)"

section \<open>Requests: \<open>AuthBackend.js\<close>\<close>

definition api_getAccount :: "string \<Rightarrow> api_request" where
  "api_getAccount q = api_fetch ''GET'' (''/api/get-account'' @ q) [] lang None"

definition api_signup :: "jsval \<Rightarrow> oauth_params option \<Rightarrow> api_request" where
  "api_signup values' ps = api_fetch ''POST'' (''/api/signup'' @ oAuthParamsToQuery ps) [] (json @ lang) (Some values')"

definition api_getEmailAndPhone :: "string \<Rightarrow> string \<Rightarrow> api_request" where
  "api_getEmailAndPhone organization username = api_fetch ''GET'' ''/api/get-email-and-phone''
     [(''organization'', organization), (''username'', encodeURIComponent username)] lang None"

datatype login_params = CasParams cas_login_params | DeviceParams "string option" | OAuthParams "oauth_params option"

definition api_getApplicationLogin :: "login_params \<Rightarrow> api_request" where
  "api_getApplicationLogin ps = api_fetch ''GET'' (''/api/get-app-login'' @
     (case ps of
        CasParams p \<Rightarrow> casLoginParamsToQuery (Some p)
      | DeviceParams userCode \<Rightarrow> ''?userCode='' @ js_null_str userCode @ ''&type=device''
      | OAuthParams p \<Rightarrow> oAuthParamsToQuery p)) [] lang None"

definition api_startDeviceLogin :: "string \<Rightarrow> string \<Rightarrow> api_request" where
  "api_startDeviceLogin clientId scope = api_fetch ''POST'' ''/api/device-auth''
     [(''client_id'', encodeURIComponent clientId), (''scope'', encodeURIComponent scope)] lang None"

definition api_pollDeviceLoginToken :: "string \<Rightarrow> string \<Rightarrow> api_request" where
  "api_pollDeviceLoginToken clientId deviceCode = api_fetch ''POST'' ''/api/login/oauth/access_token''
     [(''client_id'', encodeURIComponent clientId),
      (''grant_type'', encodeURIComponent ''urn:ietf:params:oauth:grant-type:device_code''),
      (''device_code'', encodeURIComponent deviceCode)] lang None"

definition api_cancelDeviceLogin :: "string option \<Rightarrow> string \<Rightarrow> api_request" where
  "api_cancelDeviceLogin userCode cancelToken = api_fetch ''POST'' ''/api/cancel-device-auth''
     [(''userCode'', encodeURIComponent (js_null_str userCode)), (''cancelToken'', encodeURIComponent cancelToken)] lang None"

text \<open>\<open>oAuthParamsToQuery(...).replace("?", "&")\<close> replaces the first question mark.\<close>

fun replace_first :: "char \<Rightarrow> char \<Rightarrow> string \<Rightarrow> string" where
  "replace_first c d [] = []"
| "replace_first c d (x # xs) = (if x = c then d # xs else x # replace_first c d xs)"

definition api_completeDeviceLogin :: "string \<Rightarrow> oauth_params option \<Rightarrow> api_request" where
  "api_completeDeviceLogin deviceCode ps = api_fetch ''POST'' (''/api/device-auth-complete?deviceCode=''
     @ encodeURIComponent deviceCode @ replace_first CHR ''?'' CHR ''&'' (oAuthParamsToQuery ps)) [] lang None"

definition api_login :: "jsval \<Rightarrow> oauth_params option \<Rightarrow> api_request" where
  "api_login values' ps = api_fetch ''POST'' (''/api/login'' @ oAuthParamsToQuery ps) [] (json @ lang) (Some values')"

definition api_loginCas :: "jsval \<Rightarrow> cas_params \<Rightarrow> api_request" where
  "api_loginCas values' ps = api_fetch ''POST'' (''/api/login?service='' @ cas_service ps) [] (json @ lang) (Some values')"

definition api_logout :: api_request where
  "api_logout = api_fetch ''POST'' ''/api/logout'' [] lang None"

definition api_unlink :: "jsval \<Rightarrow> api_request" where
  "api_unlink values' = api_fetch ''POST'' ''/api/unlink'' [] (json @ lang) (Some values')"

definition api_getSamlLogin :: "string \<Rightarrow> string \<Rightarrow> api_request" where
  "api_getSamlLogin providerId relayState = api_fetch ''GET'' ''/api/get-saml-login''
     [(''id'', providerId), (''relayState'', relayState)] lang None"

definition api_loginWithSaml :: "jsval \<Rightarrow> string \<Rightarrow> api_request" where
  "api_loginWithSaml values' param = api_fetch ''POST'' (''/api/login'' @ param) [] (json @ lang) (Some values')"

definition api_getWechatMessageEvent :: "string \<Rightarrow> api_request" where
  "api_getWechatMessageEvent ticket = api_fetch ''GET'' ''/api/get-webhook-event'' [(''ticket'', ticket)] lang None"

definition api_getWechatQRCode :: "string \<Rightarrow> api_request" where
  "api_getWechatQRCode providerId = api_fetch ''GET'' ''/api/get-qrcode'' [(''id'', providerId)] lang None"

definition api_getCaptchaStatus :: "vals \<Rightarrow> api_request" where
  "api_getCaptchaStatus vs = api_fetch ''GET'' ''/api/get-captcha-status''
     [(''organization'', val_text vs ''organization''), (''userId'', val_text vs ''username''),
      (''application'', val_text vs ''application'')] lang None"

section \<open>Opening the page\<close>

text \<open>The properties of the page: the given ones and the parameters of the route.\<close>

record login_props =
  lr_type :: string
  lr_applicationName :: "string option"
  lr_owner :: "string option"
  lr_mode :: "string option"
  lr_userCode :: "string option"
  lr_params :: "(string \<times> string) list"
  lr_path :: "string option"
  lr_preview :: "string option"
  lr_application :: "login_application option option"
  lr_account :: "account option option"
  lr_inIframe :: bool
  lr_hasOpener :: bool

definition given :: "string option \<Rightarrow> login_props \<Rightarrow> string \<Rightarrow> string option" where
  "given v ps k = (case v of Some t \<Rightarrow> Some t | None \<Rightarrow> map_of (lr_params ps) k)"

text \<open>\<open>window.location.pathname + window.location.search\<close>.\<close>

definition here :: "browser \<Rightarrow> string" where
  "here b = br_pathname b @ br_search b"

definition new_login :: "login_props \<Rightarrow> browser \<Rightarrow> login_page" where
  "new_login ps b =
     (let urlParams = URLSearchParams (br_search b);
          cas = lr_type ps = ''cas'' \<and> map_of (lr_params ps) ''casApplicationName'' \<noteq> None in
      \<lparr>lg_type = lr_type ps,
       lg_applicationName = (if cas then map_of (lr_params ps) ''casApplicationName'' else given (lr_applicationName ps) ps ''applicationName''),
       lg_owner = (if cas then map_of (lr_params ps) ''owner'' else given (lr_owner ps) ps ''owner''),
       lg_mode = given (lr_mode ps) ps ''mode'', lg_msg = None, lg_username = None,
       lg_validEmailOrPhone = False, lg_validEmail = False, lg_loginMethod = None,
       lg_openCaptchaModal = False, lg_openFaceModal = False, lg_values = [], lg_captcha = None,
       lg_samlResponse = [], lg_redirectUrl = [], lg_relayState = [],
       lg_orgChoiceMode = usp_get urlParams ''orgChoiceMode'', lg_userLang = None, lg_loading = False,
       lg_userCode = given (lr_userCode ps) ps ''userCode'', lg_userCodeStatus = [],
       lg_prefilled = js_or_opt (usp_get urlParams ''username'') (usp_get urlParams ''login_hint''),
       lg_haveFaceProvider = False, lg_mfa = None, lg_application = lr_application ps, lg_account = lr_account ps,
       lg_inIframe = lr_inIframe ps, lg_hasOpener = lr_hasOpener ps, lg_path = lr_path ps, lg_preview = lr_preview ps,
       lg_browser = set_local ''signinUrl'' (here b) b, lg_pending = [], lg_outputs = []\<rparr>)"

definition getApplicationLogin :: lact where [login_defs]:
  "getApplicationLogin = l_with (\<lambda>s.
     if lg_type s = ''cas''
     then l_eval (getCasLoginParameters (lg_browser s) ''admin'' (js_null_str (lg_applicationName s)))
            (\<lambda>p. l_ask (api_getApplicationLogin (CasParams p)) ApplicationLogin)
     else if lg_type s = ''device''
     then l_ask (api_getApplicationLogin (DeviceParams (lg_userCode s))) ApplicationLogin
     else l_eval (getOAuthGetParameters (lg_browser s) None)
            (\<lambda>p. l_ask (api_getApplicationLogin (OAuthParams p)) ApplicationLogin))"

text \<open>\<open>onUpdateApplication\<close>: the owner of the page sets the property; \<open>for ... in\<close> over no providers does nothing.\<close>

definition onUpdateApplication :: "login_application option \<Rightarrow> lact" where [login_defs]:
  "onUpdateApplication a =
     l_seq (l_seq (l_out (ApplicationUpdated a)) (l_set (\<lambda>s. s\<lparr>lg_application := Some a\<rparr>)))
       (if list_ex (\<lambda>i. map_option pr_category (pi_provider i) = Some ''Face ID'')
             (case Option.bind a (\<lambda>x. app_providers (la_app x)) of None \<Rightarrow> [] | Some items \<Rightarrow> items)
        then l_set (\<lambda>s. s\<lparr>lg_haveFaceProvider := True\<rparr>) else l_done)"

text \<open>The answers with an application: \<open>data\<close> as the model's application, \<open>null\<close> as \<open>None\<close>.\<close>

record application_answer =
  pa_status :: string
  pa_msg :: string
  pa_application :: "login_application option"

definition set_msg :: "string \<Rightarrow> lact" where [lact_defs]:
  "set_msg m = l_set (\<lambda>s. s\<lparr>lg_msg := Some m\<rparr>)"

definition applicationLoginAnswered :: "application_answer replied \<Rightarrow> lact" where [login_defs]:
  "applicationLoginAnswered r =
     (case r of
        NoAnswer err \<Rightarrow> l_done
      | Answered res \<Rightarrow>
          if pa_status res = ''ok'' then onUpdateApplication (pa_application res)
          else l_seq (l_with (\<lambda>s. if lg_type s = ''device'' then l_set (\<lambda>s. s\<lparr>lg_userCodeStatus := ''expired''\<rparr>) else l_done))
                 (l_seq (onUpdateApplication None) (set_msg (pa_msg res))))"

definition getApplicationFor :: lact where [login_defs]:
  "getApplicationFor = l_with (\<lambda>s.
     case lg_applicationName s of
       None \<Rightarrow> l_done
     | Some name \<Rightarrow>
         (case lg_owner s of
            Some owner \<Rightarrow>
              if lg_type s = ''saml'' then l_ask (api_getApplication ''admin'' name) NamedApplication
              else l_ask (api_getDefaultApplication ''admin'' owner) DefaultApplication
          | None \<Rightarrow> l_ask (api_getApplication ''admin'' name) NamedApplication))"

definition namedApplicationAnswered :: "application_answer replied \<Rightarrow> lact" where [login_defs]:
  "namedApplicationAnswered r =
     (case r of
        NoAnswer err \<Rightarrow> l_done
      | Answered res \<Rightarrow>
          if pa_status res = ''error'' then l_seq (onUpdateApplication None) (set_msg (pa_msg res))
          else onUpdateApplication (pa_application res))"

definition defaultApplicationAnswered :: "application_answer replied \<Rightarrow> lact" where [login_defs]:
  "defaultApplicationAnswered r =
     (case r of
        NoAnswer err \<Rightarrow> l_done
      | Answered res \<Rightarrow>
          if pa_status res = ''ok''
          then l_seq (onUpdateApplication (pa_application res))
                 (l_need (pa_application res) (\<lambda>a. l_set (\<lambda>s. s\<lparr>lg_applicationName := Some (app_name (la_app a))\<rparr>)))
          else l_seq (onUpdateApplication None)
                 (l_seq (l_message ''error'' (pa_msg res)) (l_out (Did (HistoryPush ''/404'')))))"

definition login_componentDidMount :: lact where [login_defs]:
  "login_componentDidMount = l_with (\<lambda>s.
     if lg_application s = None
     then if lg_type s = ''login'' \<or> lg_type s = ''saml'' then getApplicationFor
          else if lg_type s = ''code'' \<or> lg_type s = ''cas'' \<or> lg_type s = ''device'' then getApplicationLogin
          else l_message ''error'' (''general:Unknown authentication type: '' @ lg_type s)
     else l_done)"

section \<open>Methods of signing in\<close>

definition getDefaultLoginMethod :: "login_application option \<Rightarrow> string" where
  "getDefaultLoginMethod a =
     (case Option.bind a la_methods of
        Some (m # ms) \<Rightarrow>
          if sm_name m = ''Password'' then ''password''
          else if sm_name m = ''Verification code'' then
            (if sm_rule m = ''All'' then ''verificationCode''
             else if sm_rule m = ''Email only'' then ''verificationCodeEmail''
             else if sm_rule m = ''Phone only'' then ''verificationCodePhone''
             else ''password'')
          else if sm_name m = ''WebAuthn'' then ''webAuthn''
          else if sm_name m = ''LDAP'' then ''ldap''
          else if sm_name m = ''Face ID'' then ''faceId''
          else if sm_name m = ''Device login'' \<and> sm_rule m = ''Tab'' then ''device''
          else ''password''
      | _ \<Rightarrow> ''password'')"

text \<open>\<open>this.state.loginMethod?.includes("verificationCode")\<close>.\<close>

definition by_code :: "string option \<Rightarrow> bool" where
  "by_code m = (case m of None \<Rightarrow> False | Some t \<Rightarrow> js_includes t ''verificationCode'')"

definition getCurrentLoginMethod :: "string option \<Rightarrow> string" where
  "getCurrentLoginMethod m =
     (if m = Some ''password'' then ''Password''
      else if by_code m then ''Verification code''
      else if m = Some ''webAuthn'' then ''WebAuthn''
      else if m = Some ''ldap'' then ''LDAP''
      else if m = Some ''faceId'' then ''Face ID''
      else if m = Some ''device'' then ''Device login''
      else ''Password'')"

definition getPlaceholder :: "string option \<Rightarrow> string \<Rightarrow> string" where
  "getPlaceholder m defaultPlaceholder =
     (if defaultPlaceholder \<noteq> [] then defaultPlaceholder
      else if m = Some ''verificationCode'' then ''login:Email or phone''
      else if m = Some ''verificationCodeEmail'' then ''general:Email''
      else if m = Some ''verificationCodePhone'' then ''general:Phone''
      else if m = Some ''ldap'' then ''login:LDAP username, Email or phone''
      else ''login:username, Email or phone'')"

text \<open>The tabs of \<open>renderMethodChoiceBox\<close>: label and key; a single tab is not shown.\<close>

definition tab_of :: "string \<Rightarrow> string \<Rightarrow> (string \<times> string) option" where
  "tab_of name rule =
     map_of [((''Password'', ''All''), (''general:Password'', ''password'')),
       ((''Password'', ''Non-LDAP''), (''general:Password'', ''password'')),
       ((''Verification code'', ''All''), (''login:Verification code'', ''verificationCode'')),
       ((''Verification code'', ''Email only''), (''login:Verification code'', ''verificationCodeEmail'')),
       ((''Verification code'', ''Phone only''), (''login:Verification code'', ''verificationCodePhone'')),
       ((''WebAuthn'', ''None''), (''login:WebAuthn'', ''webAuthn'')),
       ((''LDAP'', ''None''), (''login:LDAP'', ''ldap'')),
       ((''Face ID'', ''None''), (''login:Face ID'', ''faceId'')),
       ((''Device login'', ''Tab''), (''login:Device login'', ''device'')),
       ((''WeChat'', ''Tab''), (''login:WeChat'', ''wechat'')),
       ((''WeChat'', ''None''), (''login:WeChat'', ''wechat''))] (name, rule)"

text \<open>The translations of the labels are the argument \<open>tr\<close>.\<close>

definition method_tab :: "(string \<Rightarrow> string) \<Rightarrow> string \<Rightarrow> nat \<Rightarrow> login_method \<Rightarrow> (string \<times> string) option" where
  "method_tab tr ty n m =
     (if sm_rule m = ''Hide password'' then None
      else if ty = ''device'' \<and> sm_name m = ''Device login'' then None
      else map_option (\<lambda>(label, key).
        let l = (if sm_name m = lm_displayName m then tr label else lm_displayName m) in
        (if 4 \<le> n \<and> l = ''Verification code'' then ''Code'' else l, key)) (tab_of (sm_name m) (sm_rule m)))"

definition method_tabs :: "(string \<Rightarrow> string) \<Rightarrow> string \<Rightarrow> login_application option \<Rightarrow> (string \<times> string) list" where
  "method_tabs tr ty a =
     (case Option.bind a la_methods of
        None \<Rightarrow> []
      | Some ms \<Rightarrow> List.map_filter (method_tab tr ty (length ms)) ms)"

definition renderMethodChoiceBox :: "(string \<Rightarrow> string) \<Rightarrow> login_page \<Rightarrow> (string \<times> string) list" where
  "renderMethodChoiceBox tr s = (let items = method_tabs tr (lg_type s) (getApplicationObj s) in if length items > 1 then items else [])"

definition chooseMethod :: "string \<Rightarrow> lact" where [login_defs]:
  "chooseMethod key = l_set (\<lambda>s. s\<lparr>lg_loginMethod := Some key\<rparr>)"

section \<open>After the answer to a login request\<close>

definition populateOauthValues :: "login_page \<Rightarrow> vals \<Rightarrow> vals result" where
  "populateOauthValues s vs =
     bind_result (getOAuthGetParameters (lg_browser s) None) (\<lambda>ps.
     let org = (case getApplicationObj s of None \<Rightarrow> [] | Some a \<Rightarrow> app_organization (la_app a));
         v1 = (if org \<noteq> [] then put ''organization'' (JStr org) vs else vs);
         v2 = put ''signinMethod'' (JStr (getCurrentLoginMethod (lg_loginMethod s))) v1;
         v3 = put ''type'' (JStr (case ps of None \<Rightarrow> lg_type s | Some p \<Rightarrow> oa_responseType p)) v2;
         v4 = (if js_truthy (lg_userCode s) then put ''userCode'' (opt_val (lg_userCode s)) v3 else v3) in
     Return (case ps of
        None \<Rightarrow> v4
      | Some p \<Rightarrow>
          if oa_samlRequest p \<noteq> []
          then put ''relayState'' (JStr (oa_relayState p)) (put ''type'' (JStr ''saml'') (put ''samlRequest'' (JStr (oa_samlRequest p)) v4))
          else v4))"

text \<open>\<open>sessionStorage.setItem("signinUrl", ...)\<close> and \<open>/account\<close>.\<close>

definition l_goToAccount :: lact where [login_defs]:
  "l_goToAccount = l_seq (l_set (\<lambda>s. s\<lparr>lg_browser := set_session ''signinUrl'' (here (lg_browser s)) (lg_browser s)\<rparr>))
     (l_goToLink ''/account'')"

definition onLoginSuccess :: "string \<Rightarrow> lact" where [login_defs]:
  "onLoginSuccess url = l_out (Did (LoginSuccess url))"

text \<open>The links of the page: nothing is encoded here.\<close>

definition loginCodeLink :: "oauth_params \<Rightarrow> string \<Rightarrow> string" where
  "loginCodeLink p code = oa_redirectUri p @ concatChar (oa_redirectUri p) @ ''code='' @ code @ ''&state='' @ oa_state p"

definition loginTokenLink :: "oauth_params \<Rightarrow> string \<Rightarrow> string \<Rightarrow> string" where
  "loginTokenLink p responseType token =
     oa_redirectUri p @ ''#'' @ (if responseType = ''token'' then ''access_token'' else responseType) @ ''='' @ token
     @ ''&state='' @ oa_state p @ ''&token_type=bearer''"

definition webAuthnTokenLink :: "oauth_params \<Rightarrow> string \<Rightarrow> string \<Rightarrow> string" where
  "webAuthnTokenLink p responseType token =
     oa_redirectUri p @ ''#'' @ responseType @ ''='' @ token @ ''?state='' @ oa_state p @ ''&token_type=bearer''"

definition popup_type :: "browser \<Rightarrow> string" where
  "popup_type b = js_or (usp_get (URLSearchParams (br_search b)) ''popup_type'') ''window''"

definition is_popup :: "browser \<Rightarrow> bool" where
  "is_popup b = (usp_get (URLSearchParams (br_search b)) ''popup'' = Some ''1'')"

definition sendPopupData :: "urls \<Rightarrow> jsval \<Rightarrow> string option \<Rightarrow> lact" where [login_defs]:
  "sendPopupData u message redirectUri = l_with (\<lambda>s.
     if \<not> is_popup (lg_browser s) then l_done
     else if popup_type (lg_browser s) = ''iframe''
     then l_eval (url_origin u (js_null_str redirectUri)) (\<lambda>origin. l_out (Posted ''parent'' message origin))
     else if lg_hasOpener s then l_out (Posted ''opener'' message (js_null_str redirectUri))
     else l_throw TypeError)"

definition sendSilentSigninData :: "string \<Rightarrow> lact" where [login_defs]:
  "sendSilentSigninData data = l_with (\<lambda>s.
     if lg_inIframe s
     then l_out (Posted ''parent'' (JObj [(''tag'', JStr ''Casdoor''), (''type'', JStr ''SilentSignin''), (''data'', JStr data)]) ''*'')
     else l_done)"

text \<open>
  With \<open>noRedirect\<close> the page closes itself, opens the address in a new window and closes that window from
  a timer, which is not part of the model.
\<close>

definition leave_with_code :: "urls \<Rightarrow> oauth_params \<Rightarrow> jsval \<Rightarrow> lact" where [login_defs]:
  "leave_with_code u p data =
     (let redirectUrl = loginCodeLink p (js_text data) in
      if oa_noRedirect p = ''true''
      then l_seq (l_out Closed) (l_out (Did (OpenWindow redirectUrl)))
      else l_with (\<lambda>s. l_seq
        (if is_popup (lg_browser s) \<and> popup_type (lg_browser s) = ''iframe'' then l_done else l_goToLink redirectUrl)
        (sendPopupData u (JObj [(''type'', JStr ''loginSuccess''),
           (''data'', JObj [(''code'', data), (''state'', JStr (oa_state p))])]) (Some (oa_redirectUri p)))))"

definition is_required :: "jsval \<Rightarrow> bool" where
  "is_required v = (field v ''required'' = JBool True)"

definition postCodeLoginAction :: "urls \<Rightarrow> signin_answer \<Rightarrow> lact" where [login_defs]:
  "postCodeLoginAction u resp = l_with (\<lambda>s.
     l_eval (getOAuthGetParameters (lg_browser s) None) (\<lambda>ps. l_need ps (\<lambda>p.
     if an_data resp = JStr ''RequiredMfa'' then onLoginSuccess (br_href (lg_browser s))
     else if js_bool (sa_data3 resp) then l_goToAccount
     else if is_required (an_data resp) then l_ask (api_getAccount []) ConsentAccount
     else l_need (the_app s) (\<lambda>application.
       if hasPromptPage application then l_ask (api_getAccount []) (PromptAccount p (js_text (an_data resp)))
       else leave_with_code u p (an_data resp)))))"

definition failed_signin :: "string \<Rightarrow> lact" where [login_defs]:
  "failed_signin msg = l_message ''error'' (''application:Failed to sign in: '' @ msg)"

definition consentAccountAnswered :: "account_answer replied \<Rightarrow> lact" where [login_defs]:
  "consentAccountAnswered r =
     (case r of
        NoAnswer err \<Rightarrow> failed_signin err
      | Answered res \<Rightarrow> l_catch
          (if aa_status res = ''ok''
           then l_need (aa_account res) (\<lambda>account. l_seq (l_out (AccountUpdated account)) (l_with (\<lambda>s.
             l_need (the_app s) (\<lambda>application.
               l_out (Did (HistoryPush (''/consent/'' @ app_name application @ ''?'' @ drop 1 (br_search (lg_browser s)))))))))
           else failed_signin (aa_msg res)) failed_signin)"

definition promptAccountAnswered :: "oauth_params \<Rightarrow> string \<Rightarrow> account_answer replied \<Rightarrow> lact" where [login_defs]:
  "promptAccountAnswered p code r =
     (case r of
        NoAnswer err \<Rightarrow> failed_signin err
      | Answered res \<Rightarrow> l_catch
          (if aa_status res = ''ok''
           then l_need (aa_account res) (\<lambda>account. l_seq (l_out (AccountUpdated account)) (l_with (\<lambda>s.
             l_need (the_app s) (\<lambda>application.
               l_eval (isPromptAnswered (Some account) application) (\<lambda>answered.
                 if answered then l_goToLink (loginCodeLink p code)
                 else l_out (Did (HistoryPush (''/prompt/'' @ app_name application @ ''?redirectUri='' @ oa_redirectUri p
                        @ ''&code='' @ code @ ''&state='' @ oa_state p))))))))
           else failed_signin (aa_msg res)) failed_signin)"

text \<open>The token as a form or in the fragment.\<close>

definition leave_with_token :: "oauth_params option \<Rightarrow> string \<Rightarrow> jsval \<Rightarrow> lact" where [login_defs]:
  "leave_with_token ps responseType data =
     l_need ps (\<lambda>p.
       if oa_responseMode p = ''form_post''
       then l_out (Did (createFormAndSubmit (oa_redirectUri p)
              (tokenForm p (js_split responseType '' '') (if js_bool data then js_text data else []))))
       else l_goToLink (loginTokenLink p responseType (js_text data)))"

definition saml_answered :: "oauth_params option \<Rightarrow> signin_answer \<Rightarrow> lact" where [login_defs]:
  "saml_answered ps res =
     l_eval (js_get (sa_data2 res) ''method'') (\<lambda>meth.
     l_eval (js_get (sa_data2 res) ''redirectUrl'') (\<lambda>redirectUrl. l_need ps (\<lambda>p.
       if meth = JStr ''POST''
       then l_set (\<lambda>s. s\<lparr>lg_samlResponse := js_text (an_data res), lg_redirectUrl := js_text redirectUrl,
                         lg_relayState := oa_relayState p\<rparr>)
       else (case redirectUrl of
               JStr url \<Rightarrow> l_goToLink (url @ concatChar url @ ''SAMLResponse='' @ encodeURIComponent (js_text (an_data res))
                             @ ''&RelayState='' @ encodeURIComponent (oa_relayState p))
             | _ \<Rightarrow> l_throw TypeError))))"

text \<open>\<open>loginHandler\<close> of the OAuth branch.\<close>

definition oauthLoginHandler :: "urls \<Rightarrow> vals \<Rightarrow> oauth_params option \<Rightarrow> signin_answer \<Rightarrow> lact" where [login_defs]:
  "oauthLoginHandler u vs ps res =
     (let responseType = val_text vs ''type'' in
      if responseType = ''login''
      then if js_bool (sa_data3 res) then l_goToAccount
           else l_seq (l_message ''success'' ''application:Logged in successfully'') (onLoginSuccess [])
      else if responseType = ''code'' then postCodeLoginAction u res
      else if responseType = ''device''
      then l_seq (l_message ''success'' ''application:Logged in successfully'') (l_set (\<lambda>s. s\<lparr>lg_userCodeStatus := ''success''\<rparr>))
      else if isTokenType responseType
      then if js_bool (sa_data3 res) then l_goToAccount else leave_with_token ps responseType (an_data res)
      else if responseType = ''saml''
      then if an_data res = JStr ''RequiredMfa'' then l_with (\<lambda>s. onLoginSuccess (br_href (lg_browser s)))
           else if js_bool (sa_data3 res) then l_goToAccount
           else saml_answered ps res
      else l_done)"

text \<open>\<open>loginHandler\<close> of the CAS branch.\<close>

definition casLoginHandler :: "urls \<Rightarrow> cas_params \<Rightarrow> signin_answer \<Rightarrow> lact" where [login_defs]:
  "casLoginHandler u p res =
     l_seq (l_message ''success'' (''Logged in successfully. ''
              @ (if cas_service p = [] then ''Now you can visit apps protected by ArchGuard.'' else [])))
       (if cas_service p \<noteq> []
        then l_eval (url_append u (cas_service p) ''ticket'' (js_text (an_data res))) l_goToLink
        else l_done)"

text \<open>
  \<open>Setting.checkLoginMfa\<close> for this page. The form for a second factor keeps the values and the
  continuation with its \<open>loginHandler\<close>; the form empties the password and the user name when it is shown.
\<close>

definition mfa_values :: "vals \<Rightarrow> vals" where
  "mfa_values vs =
     put ''username'' (JStr []) (put ''password'' (JStr [])
       (put ''provider'' (JStr []) (put ''providerBack'' (prop_of vs ''provider'') vs)))"

definition checkMfa :: "login_pending \<Rightarrow> vals \<Rightarrow> signin_answer \<Rightarrow> lact \<Rightarrow> lact" where [login_defs]:
  "checkMfa k vs res handler =
     (if an_data res = JStr ''RequiredMfa'' then l_with (\<lambda>s. onLoginSuccess (br_href (lg_browser s)))
      else if an_data res = JStr ''NextMfa'' then
        (case sa_data2 res of
           JArr ms \<Rightarrow> l_set (\<lambda>s. s\<lparr>lg_mfa := Some (k, mfa_values vs, getPreferredMfaProp (map mfaPropOf ms))\<rparr>)
         | _ \<Rightarrow> l_throw TypeError)
      else if an_data res = JStr ''SelectPlan'' then
        l_eval (js_get (sa_data2 res) ''owner'') (\<lambda>owner. l_eval (js_get (sa_data2 res) ''name'') (\<lambda>name.
          l_goToLink (''/select-plan/'' @ js_text owner @ ''/'' @ js_text name @ ''?user='' @ val_text vs ''username'')))
      else if an_data res = JStr ''BuyPlanResult'' then
        l_eval (js_get (sa_data2 res) ''owner'') (\<lambda>owner. l_eval (js_get (sa_data2 res) ''pricing'') (\<lambda>pricing.
        l_eval (js_get (sa_data2 res) ''name'') (\<lambda>name.
          l_goToLink (''/buy-plan/'' @ js_text owner @ ''/'' @ js_text pricing @ ''/result?subscription='' @ js_text name))))
      else handler)"

definition refresh_if :: "bool \<Rightarrow> lact" where [login_defs]:
  "refresh_if b = (if b then l_out Refreshed else l_done)"

text \<open>The continuations of \<open>login\<close>, with \<open>finally\<close>; there is no \<open>catch\<close>.\<close>

definition casAnswered :: "urls \<Rightarrow> vals \<Rightarrow> cas_params \<Rightarrow> bool \<Rightarrow> signin_answer replied \<Rightarrow> lact" where [login_defs]:
  "casAnswered u vs p refresh r =
     l_finally
       (case r of
          NoAnswer err \<Rightarrow> l_done
        | Answered res \<Rightarrow>
            if an_status res = ''ok'' then checkMfa (CasAnswer vs p refresh) vs res (casLoginHandler u p res)
            else l_seq (failed_signin (an_msg res)) (refresh_if refresh))
       (l_loading False)"

definition loginAnswered :: "urls \<Rightarrow> vals \<Rightarrow> oauth_params option \<Rightarrow> bool \<Rightarrow> signin_answer replied \<Rightarrow> lact" where [login_defs]:
  "loginAnswered u vs ps refresh r =
     l_finally
       (case r of
          NoAnswer err \<Rightarrow> l_done
        | Answered res \<Rightarrow>
            if an_status res = ''ok'' then checkMfa (LoginAnswer vs ps refresh) vs res (oauthLoginHandler u vs ps res)
            else l_seq (failed_signin (an_msg res)) (refresh_if refresh))
       (l_seq (l_set (\<lambda>s. s\<lparr>lg_browser := set_local ''lastLoginOrg''
                 (if js_bool (prop_of vs ''organization'') then val_text vs ''organization'' else []) (lg_browser s)\<rparr>))
          (l_loading False))"

definition shouldRefreshCaptcha :: "login_page \<Rightarrow> bool" where
  "shouldRefreshCaptcha s \<longleftrightarrow> lg_captcha s \<noteq> None \<and> isInlineCaptchaEnabled (the_app s) \<and> \<not> by_code (lg_loginMethod s)"

definition login :: "vals \<Rightarrow> lact" where [login_defs]:
  "login vs = l_with (\<lambda>s.
     let v1 = put ''language'' (JStr (js_nullish (lg_userLang s))) vs in
     if lg_type s = ''cas''
     then let p = getCasParameters (lg_browser s) None;
              v2 = put ''type'' (JStr (lg_type s)) (put ''signinMethod'' (JStr (getCurrentLoginMethod (lg_loginMethod s))) v1) in
          l_ask (api_loginCas (JObj v2) p) (CasAnswer v2 p (shouldRefreshCaptcha s))
     else l_eval (getOAuthGetParameters (lg_browser s) None) (\<lambda>ps.
          l_eval (populateOauthValues s v1) (\<lambda>v2.
            l_ask (api_login (JObj v2) ps) (LoginAnswer v2 ps (shouldRefreshCaptcha s)))))"

text \<open>
  The form for a second factor sends the same kind of request with the code, and gives the answer to
  the \<open>loginHandler\<close> of the login it belongs to. A recovery code is sent without the type of the factor.
\<close>

definition mfa_request :: "login_pending \<Rightarrow> vals \<Rightarrow> lact" where [login_defs]:
  "mfa_request k vs =
     (case k of
        LoginAnswer _ ps _ \<Rightarrow> l_ask (if prop_of vs ''type'' = JStr ''cas'' then api_fetch ''POST'' (''/api/login?service='' @ ''undefined'') []
            (json @ lang) (Some (JObj vs)) else api_login (JObj vs) ps) (MfaAnswer k)
      | CasAnswer _ p _ \<Rightarrow> l_ask (api_loginCas (JObj vs) p) (MfaAnswer k)
      | _ \<Rightarrow> l_done)"

definition mfa_verify :: "jsval \<Rightarrow> jsval \<Rightarrow> lact" where [login_defs]:
  "mfa_verify passcode enableMfaRemember = l_with (\<lambda>s.
     case lg_mfa s of
       None \<Rightarrow> l_done
     | Some (k, vs, m) \<Rightarrow> l_need m (\<lambda>f.
         mfa_request k (put ''mfaType'' (JStr (mp_mfaType f)) (put ''enableMfaRemember'' enableMfaRemember (put ''passcode'' passcode vs)))))"

definition mfa_recover :: "string \<Rightarrow> lact" where [login_defs]:
  "mfa_recover recoveryCode = l_with (\<lambda>s.
     case lg_mfa s of
       None \<Rightarrow> l_done
     | Some (k, vs, m) \<Rightarrow> mfa_request k (put ''recoveryCode'' (JStr recoveryCode) vs))"

definition mfaAnswered :: "urls \<Rightarrow> login_pending \<Rightarrow> signin_answer replied \<Rightarrow> lact" where [login_defs]:
  "mfaAnswered u k r =
     (case r of
        NoAnswer err \<Rightarrow> l_message ''error'' err
      | Answered res \<Rightarrow>
          if an_status res = ''ok''
          then l_catch
            (case k of
               LoginAnswer vs ps _ \<Rightarrow> oauthLoginHandler u vs ps res
             | CasAnswer vs p _ \<Rightarrow> casLoginHandler u p res
             | _ \<Rightarrow> l_done) (l_message ''error'')
          else l_message ''error'' (an_msg res))"

text \<open>The links below the form choose another of the factors.\<close>

definition mfa_select :: "mfa_prop \<Rightarrow> lact" where [login_defs]:
  "mfa_select m = l_set (\<lambda>s. s\<lparr>lg_mfa := map_option (\<lambda>(k, vs, _). (k, vs, Some m)) (lg_mfa s)\<rparr>)"

section \<open>Submitting the form\<close>

definition checkCaptchaStatus :: "vals \<Rightarrow> lact" where [login_defs]:
  "checkCaptchaStatus vs = l_ask (api_getCaptchaStatus vs) (CaptchaStatus vs)"

definition open_captcha :: "vals \<Rightarrow> lact" where [login_defs]:
  "open_captcha vs = l_set (\<lambda>s. s\<lparr>lg_openCaptchaModal := True, lg_values := vs\<rparr>)"

definition captchaStatusAnswered :: "vals \<Rightarrow> signin_answer replied \<Rightarrow> lact" where [login_defs]:
  "captchaStatusAnswered vs r =
     (case r of
        NoAnswer err \<Rightarrow> l_done
      | Answered res \<Rightarrow> if an_status res = ''ok'' \<and> js_bool (an_data res) then open_captcha vs else login vs)"

text \<open>What the obfuscation of a password draws from outside: the ciphers and the random initial vectors.\<close>

record crypto =
  cr_aes :: cipher
  cr_des :: cipher
  cr_iv16 :: "nat list"
  cr_iv8 :: "nat list"

definition obfuscate :: "crypto \<Rightarrow> login_organization option \<Rightarrow> string \<Rightarrow> (string \<times> string) option" where
  "obfuscate c org pw =
     encryptByPasswordObfuscator (cr_aes c) (cr_des c) (cr_iv16 c) (cr_iv8 c) (map char_of)
       (Option.bind org lo_obfuscatorType) (Option.bind org lo_obfuscatorKey) (map of_char pw)"

definition captcha_values :: "(string \<times> string \<times> string) option \<Rightarrow> vals \<Rightarrow> vals" where
  "captcha_values c vs =
     put ''clientSecret'' (opt_val (map_option (snd \<circ> snd) c))
       (put ''captchaToken'' (opt_val (map_option (fst \<circ> snd) c)) (put ''captchaType'' (opt_val (map_option fst c)) vs))"

definition submit_password :: "crypto \<Rightarrow> vals \<Rightarrow> lact" where [login_defs]:
  "submit_password c vs = l_with (\<lambda>s.
     l_need (obfuscate c (Option.bind (getApplicationObj s) la_organizationObj) (val_text vs ''password'')) (\<lambda>(cipher, err).
       if err \<noteq> [] then l_message ''error'' err
       else let v1 = put ''password'' (JStr cipher) vs; rule = getCaptchaRule (the_app s) in
         if \<not> isInlineCaptchaEnabled (the_app s)
         then if rule = ''Always'' then open_captcha v1
              else if rule = ''Dynamic'' \<or> rule = ''Internet-Only'' then checkCaptchaStatus v1
              else login v1
         else login (captcha_values (lg_captcha s) v1)))"

text \<open>The name of the user for WebAuthn and for faces: what was typed, else the value of the form.\<close>

definition typed_name :: "login_page \<Rightarrow> vals \<Rightarrow> jsval" where
  "typed_name s vs = (if js_truthy (lg_username s) then opt_val (lg_username s) else prop_of vs ''username'')"

definition face_begin :: "vals \<Rightarrow> lact" where [login_defs]:
  "face_begin vs = l_with (\<lambda>s. l_need (getApplicationObj s) (\<lambda>a.
     l_ask (api_fetch ''GET'' ''/api/faceid-signin-begin'' [(''owner'', app_organization (la_app a)),
       (''name'', js_text (typed_name s vs))] lang None) (FaceBegun vs)))"

definition faceBegun :: "vals \<Rightarrow> signin_answer replied \<Rightarrow> lact" where [login_defs]:
  "faceBegun vs r =
     (case r of
        NoAnswer err \<Rightarrow> l_done
      | Answered res \<Rightarrow>
          if an_status res = ''error'' then l_seq (l_loading False) (l_message ''error'' (an_msg res))
          else l_set (\<lambda>s. s\<lparr>lg_openFaceModal := True, lg_values := vs\<rparr>))"

text \<open>\<open>signInWithWebAuthn\<close>, cut where it waits.\<close>

definition signInWithWebAuthn :: "jsval \<Rightarrow> vals \<Rightarrow> lact" where [login_defs]:
  "signInWithWebAuthn username vs = l_with (\<lambda>s.
     l_eval (getOAuthGetParameters (lg_browser s) None) (\<lambda>ps.
     l_eval (populateOauthValues s vs) (\<lambda>v1.
     l_need (getApplicationObj s) (\<lambda>a.
       l_ask (api_fetch ''GET'' ''/api/webauthn/signin/begin''
           ((''owner'', app_organization (la_app a)) # (if js_bool username then [(''name'', encodeURIComponent (js_text username))] else []))
           [] None)
         (CredentialOptions (if js_bool username then js_text username else []) v1 ps)))))"

definition onFinish :: "crypto \<Rightarrow> vals \<Rightarrow> lact" where [login_defs]:
  "onFinish c vs = l_seq (l_loading True) (l_with (\<lambda>s.
     if lg_loginMethod s = Some ''webAuthn'' then signInWithWebAuthn (typed_name s vs) vs
     else if lg_loginMethod s = Some ''faceId'' then face_begin vs
     else if lg_loginMethod s = Some ''password'' \<or> lg_loginMethod s = Some ''ldap'' then submit_password c vs
     else login vs))"

text \<open>The dialogues: the captcha and the face.\<close>

definition captcha_onUpdateToken :: "string \<Rightarrow> string \<Rightarrow> string \<Rightarrow> lact" where [login_defs]:
  "captcha_onUpdateToken ty token secret = l_set (\<lambda>s. s\<lparr>lg_captcha := Some (ty, token, secret)\<rparr>)"

definition captcha_onOk :: "string \<Rightarrow> string \<Rightarrow> string \<Rightarrow> lact" where [login_defs]:
  "captcha_onOk ty token secret = l_with (\<lambda>s.
     l_seq (login (captcha_values (Some (ty, token, secret)) (lg_values s))) (l_set (\<lambda>s. s\<lparr>lg_openCaptchaModal := False\<rparr>)))"

definition captcha_onCancel :: lact where [login_defs]:
  "captcha_onCancel = l_set (\<lambda>s. s\<lparr>lg_openCaptchaModal := False, lg_loading := False\<rparr>)"

text \<open>With a provider for faces an image is sent, else the numbers of the face.\<close>

definition face_onOk :: "jsval \<Rightarrow> lact" where [login_defs]:
  "face_onOk face = l_with (\<lambda>s.
     l_seq (login (put (if lg_haveFaceProvider s then ''faceIdImage'' else ''faceId'') face (lg_values s)))
       (l_set (\<lambda>s. s\<lparr>lg_openFaceModal := False\<rparr>)))"

definition face_onCancel :: lact where [login_defs]:
  "face_onCancel = l_set (\<lambda>s. s\<lparr>lg_openFaceModal := False, lg_loading := False\<rparr>)"

section \<open>WebAuthn\<close>

text \<open>The outer \<open>catch\<close> and \<open>finally\<close> of \<open>signInWithWebAuthn\<close>.\<close>

definition webauthn_end :: "lact \<Rightarrow> lact" where [login_defs]:
  "webauthn_end a = l_finally (l_catch a (l_message ''error'')) (l_loading False)"

definition credential_ids :: "jsval \<Rightarrow> nat list list result" where
  "credential_ids v =
     (case v of
        JArr items \<Rightarrow> foldr (\<lambda>item r. bind_result (webAuthnBufferDecode (js_text (field item ''id''))) (\<lambda>d. bind_result r (\<lambda>ds. Return (d # ds))))
          items (Return [])
      | _ \<Rightarrow> Throw TypeError)"

text \<open>
  The options for the authenticator. An answer with a status is a refusal. Without a user name the list
  of credentials is left as it is.
\<close>

definition credentialOptionsAnswered :: "string \<Rightarrow> vals \<Rightarrow> oauth_params option \<Rightarrow> jsval replied \<Rightarrow> lact" where [login_defs]:
  "credentialOptionsAnswered username vs ps r =
     (case r of
        NoAnswer err \<Rightarrow> webauthn_end (l_message ''error'' err)
      | Answered options \<Rightarrow>
          if field options ''status'' \<noteq> JUndefined
          then webauthn_end (l_message ''error'' (js_text (field options ''msg'')))
          else (\<lambda>s.
            case bind_result (js_get options ''publicKey'') (\<lambda>key. bind_result (js_get key ''challenge'') (\<lambda>ch.
                   bind_result (webAuthnBufferDecode (js_text ch)) (\<lambda>challenge.
                   bind_result (if username \<noteq> [] then bind_result (js_get key ''allowCredentials'') credential_ids else Return [])
                     (\<lambda>ids. Return (challenge, ids))))) of
              Throw e \<Rightarrow> webauthn_end (l_throw e) s
            | Return (challenge, ids) \<Rightarrow>
                l_seq (l_out (CredentialAsked challenge ids))
                  (l_set (\<lambda>s. s\<lparr>lg_pending := lg_pending s @ [CredentialGiven vs ps]\<rparr>)) s))"

definition finishUrl :: "vals \<Rightarrow> oauth_params option \<Rightarrow> string result" where
  "finishUrl vs ps =
     (let resourceQuery = (case ps of
            None \<Rightarrow> []
          | Some p \<Rightarrow> if oa_resource p \<noteq> [] then ''&resource='' @ encodeURIComponent (oa_resource p) else []);
          base = ''/api/webauthn/signin/finish?responseType='' @ val_text vs ''type'' in
      if prop_of vs ''type'' = JStr ''code''
      then (case ps of
              None \<Rightarrow> Throw TypeError
            | Some p \<Rightarrow> Return (base @ ''&clientId='' @ oa_clientId p @ ''&scope='' @ oa_scope p @ ''&redirectUri='' @ oa_redirectUri p
                @ ''&nonce='' @ oa_nonce p @ ''&state='' @ oa_state p @ ''&codeChallenge='' @ oa_codeChallenge p
                @ ''&challengeMethod='' @ oa_challengeMethod p @ resourceQuery))
      else Return base)"

definition assertion_body :: "assertion \<Rightarrow> jsval" where
  "assertion_body a = JObj [(''id'', JStr (as_id a)), (''rawId'', JStr (webAuthnBufferEncode (as_rawId a))), (''type'', JStr (as_type a)),
     (''response'', JObj [(''authenticatorData'', JStr (webAuthnBufferEncode (as_authData a))),
        (''clientDataJSON'', JStr (webAuthnBufferEncode (as_clientData a))),
        (''signature'', JStr (webAuthnBufferEncode (as_signature a))),
        (''userHandle'', JStr (webAuthnBufferEncode (as_userHandle a)))])]"

definition credentialGiven :: "vals \<Rightarrow> oauth_params option \<Rightarrow> assertion replied \<Rightarrow> lact" where [login_defs]:
  "credentialGiven vs ps r =
     (case r of
        NoAnswer err \<Rightarrow> webauthn_end (l_message ''error'' err)
      | Answered a \<Rightarrow>
          (case finishUrl vs ps of
             Throw e \<Rightarrow> webauthn_end (l_throw e)
           | Return url \<Rightarrow> l_ask (api_fetch ''POST'' url [] json (Some (assertion_body a))) (CredentialChecked vs ps)))"

definition credentialChecked :: "urls \<Rightarrow> vals \<Rightarrow> oauth_params option \<Rightarrow> signin_answer replied \<Rightarrow> lact" where [login_defs]:
  "credentialChecked u vs ps r = webauthn_end
     (case r of
        NoAnswer err \<Rightarrow> l_message ''error'' (''general:Failed to connect to server'' @ err)
      | Answered res \<Rightarrow> l_catch
          (if an_status res = ''ok''
           then let responseType = val_text vs ''type'' in
             if responseType = ''code'' then postCodeLoginAction u res
             else if responseType = ''token'' \<or> responseType = ''id_token''
             then l_need ps (\<lambda>p. l_goToLink (webAuthnTokenLink p responseType (js_text (an_data res))))
             else l_seq (l_message ''success'' ''login:Successfully logged in with WebAuthn credentials'') (l_goToLink ''/'')
           else l_message ''error'' (an_msg res))
          (\<lambda>err. l_message ''error'' (''general:Failed to connect to server'' @ err)))"

section \<open>Signing in on another device\<close>

definition handleDeviceLoginComplete :: "string \<Rightarrow> lact" where [login_defs]:
  "handleDeviceLoginComplete deviceCode = l_with (\<lambda>s.
     l_eval (getOAuthGetParameters (lg_browser s) None) (\<lambda>ps.
       l_ask (api_completeDeviceLogin deviceCode ps) (DeviceCompleted ps)))"

definition deviceCompleted :: "urls \<Rightarrow> oauth_params option \<Rightarrow> signin_answer replied \<Rightarrow> lact" where [login_defs]:
  "deviceCompleted u ps r =
     (case r of
        NoAnswer err \<Rightarrow> l_message ''error'' err
      | Answered res \<Rightarrow> l_catch
          (if an_status res = ''ok''
           then let responseType = (case ps of None \<Rightarrow> ''login'' | Some p \<Rightarrow> oa_responseType p) in
             if responseType = ''code'' then postCodeLoginAction u res
             else if isTokenType responseType then leave_with_token ps responseType (an_data res)
             else l_seq (l_message ''success'' ''application:Logged in successfully'') (onLoginSuccess [])
           else failed_signin (an_msg res)) (l_message ''error''))"

definition cancelDevice :: lact where [login_defs]:
  "cancelDevice = l_with (\<lambda>s. l_ask (api_cancelDeviceLogin (lg_userCode s)
     (js_or (usp_get (URLSearchParams (br_search (lg_browser s))) ''cancelToken'') [])) DeviceCanceled)"

definition deviceCanceled :: "signin_answer replied \<Rightarrow> lact" where [login_defs]:
  "deviceCanceled r =
     (case r of
        NoAnswer err \<Rightarrow> l_message ''error'' ''general:Failed to cancel''
      | Answered res \<Rightarrow>
          if an_status res = ''ok'' then l_set (\<lambda>s. s\<lparr>lg_userCodeStatus := ''canceled''\<rparr>)
          else l_message ''error'' (if an_msg res \<noteq> [] then an_msg res else ''general:Failed to cancel''))"

section \<open>Accounts and organizations\<close>

definition loginAsAccount :: lact where [login_defs]:
  "loginAsAccount = l_with (\<lambda>s. l_need (getApplicationObj s) (\<lambda>a. login [(''application'', JStr (app_name (la_app a)))]))"

text \<open>
  \<open>componentDidUpdate\<close>; whether the application and the account are other objects than before is an
  argument, and so is the former method. The listener for closing the window is not part of the model.
\<close>

definition login_componentDidUpdate :: "string option \<Rightarrow> bool \<Rightarrow> bool \<Rightarrow> lact" where [login_defs]:
  "login_componentDidUpdate prevMethod newApplication newAccount =
     l_seq (l_with (\<lambda>s. if prevMethod = None \<and> lg_loginMethod s = None \<or> newApplication
              then chooseMethod (getDefaultLoginMethod (getApplicationObj s)) else l_done))
       (l_with (\<lambda>s.
          case lg_account s of
            Some (Some account) \<Rightarrow>
              if (newAccount \<or> newApplication)
                 \<and> map_option (\<lambda>a. app_organization (la_app a)) (getApplicationObj s) = Some (ac_owner account)
              then let silent = usp_get (URLSearchParams (br_search (lg_browser s))) ''silentSignin'' in
                l_seq (if silent \<noteq> None then l_seq (sendSilentSigninData ''signing-in'') loginAsAccount else l_done)
                  (l_need (getApplicationObj s) (\<lambda>a.
                     if la_enableAutoSignin a \<and> silent = None then loginAsAccount else l_done))
              else l_done
          | _ \<Rightarrow> l_done))"

definition clientIdFor :: "string \<Rightarrow> string \<Rightarrow> string" where
  "clientIdFor clientId name = hd (js_split clientId ''-org-'') @ ''-org-'' @ name"

definition switchLoginOrganization :: "string \<Rightarrow> lact" where [login_defs]:
  "switchLoginOrganization name = l_with (\<lambda>s.
     let ps = URLSearchParams (br_search (lg_browser s)); path = br_pathname (lg_browser s) in
     case usp_get ps ''client_id'' of
       Some (c # cs) \<Rightarrow>
         l_goToLink (''/login/oauth/authorize?'' @ usp_toString (usp_set ps ''client_id'' (clientIdFor (c # cs) name)))
     | _ \<Rightarrow>
         if js_startsWith path ''/login/saml/authorize''
         then l_need (getApplicationObj s) (\<lambda>a. l_goToLink (''/login/saml/authorize/'' @ name @ ''/'' @ app_name (la_app a) @ ''-org-'' @ name
                @ ''?'' @ usp_toString ps))
         else if js_startsWith path ''/cas''
         then l_need (getApplicationObj s) (\<lambda>a. l_goToLink (''/cas/'' @ app_name (la_app a) @ ''-org-'' @ name @ ''/'' @ name @ ''/login?'' @ usp_toString ps))
         else l_goToLink (''/login/'' @ name @ ''?'' @ usp_toString (usp_set ps ''orgChoiceMode'' ''None'')))"

definition isOrganizationChoiceBoxVisible :: "login_page \<Rightarrow> string \<Rightarrow> bool" where
  "isOrganizationChoiceBoxVisible s mode \<longleftrightarrow>
     lg_orgChoiceMode s \<noteq> Some ''None''
     \<and> (lg_path s = Some ''/login'' \<or> lg_path s = Some ''/login/:owner'') \<and> (mode = ''Select'' \<or> mode = ''Input'')"

definition chooseOrganization :: "string \<Rightarrow> lact" where [login_defs]:
  "chooseOrganization name = l_goToLink (''/login/'' @ name @ ''?orgChoiceMode=None'')"

section \<open>What is shown\<close>

definition login_isProviderVisible :: "login_page \<Rightarrow> provider_item \<Rightarrow> bool" where
  "login_isProviderVisible s item =
     (if lg_mode s = Some ''signup'' then isProviderVisibleForSignUp item else isProviderVisibleForSignIn item)"

definition app_items :: "application \<Rightarrow> provider_item list" where
  "app_items a = (case app_providers a of None \<Rightarrow> [] | Some items \<Rightarrow> items)"

text \<open>The provider of the captcha dialogue: the first one with the rule in force.\<close>

definition captcha_provider :: "login_page \<Rightarrow> provider option" where
  "captcha_provider s =
     (let rule = getCaptchaRule (the_app s) in
      if rule = ''Never'' then None
      else case filter (\<lambda>i. pi_rule i = rule) (getCaptchaProviderItems (the_app s)) of
        [] \<Rightarrow> None | i # is \<Rightarrow> pi_provider i)"

definition hasVerificationCodeSigninItem :: "login_application option \<Rightarrow> bool" where
  "hasVerificationCodeSigninItem a =
     (case Option.bind a la_items of None \<Rightarrow> False | Some items \<Rightarrow> list_ex (\<lambda>i. sn_name i = ''Verification code'') items)"

datatype login_input = PasswordInput bool | CodeInput | NoInput

text \<open>\<open>renderPasswordOrCodeInput\<close>; the password is disabled when its method is not enabled.\<close>

definition renderPasswordOrCodeInput :: "login_page \<Rightarrow> login_input" where
  "renderPasswordOrCodeInput s =
     (if lg_loginMethod s = Some ''password'' then PasswordInput (\<not> isPasswordEnabled (the_app s))
      else if lg_loginMethod s = Some ''ldap'' then PasswordInput (\<not> isLdapEnabled (the_app s))
      else if by_code (lg_loginMethod s) \<and> \<not> hasVerificationCodeSigninItem (getApplicationObj s) then CodeInput
      else NoInput)"

definition renderCodeInput :: "login_page \<Rightarrow> login_input" where
  "renderCodeInput s =
     (if hasVerificationCodeSigninItem (getApplicationObj s) \<and> by_code (lg_loginMethod s) then CodeInput else NoInput)"

text \<open>The form items of \<open>renderFormItem\<close>.\<close>

datatype form_item =
    LogoItem | BackItem bool | LanguagesItem | MethodsItem | WeChatPanel | DevicePanel | PhoneItem | UsernameItem
  | PasswordItem login_input | CodeItem login_input | ForgotItem bool | AgreementItem | ButtonItem | ProvidersItem
  | CaptchaItem | CustomItem | SignupItem bool | OrganizationItem

definition renderFormItem :: "login_page \<Rightarrow> login_application \<Rightarrow> login_item \<Rightarrow> form_item option" where
  "renderFormItem s a i =
     (let name = sn_name i; m = lg_loginMethod s in
      if \<not> li_visible i \<and> name \<noteq> ''Forgot password?'' then None
      else if name = ''Logo'' then Some LogoItem
      else if name = ''Back button'' then Some (BackItem (lg_orgChoiceMode s = Some ''None'' \<or> lg_preview s = Some ''auto''))
      else if name = ''Languages'' then Some LanguagesItem
      else if name = ''Signin methods'' then Some MethodsItem
      else if name = ''Username'' then
        Some (if m = Some ''wechat'' then WeChatPanel else if m = Some ''device'' then DevicePanel
              else if m = Some ''verificationCodePhone'' then PhoneItem else UsernameItem)
      else if name = ''Password'' then Some (PasswordItem (renderPasswordOrCodeInput s))
      else if name = ''Verification code'' then Some (CodeItem (renderCodeInput s))
      else if name = ''Forgot password?'' then Some (ForgotItem (li_visible i))
      else if name = ''Agreement'' then Some AgreementItem
      else if name = ''Login button'' then
        (if m = Some ''wechat'' \<or> m = Some ''device'' then None else Some ButtonItem)
      else if name = ''Providers'' then Some ProvidersItem
      else if name = ''Captcha'' \<and> sn_rule i = ''inline'' then (if captcha_provider s = None then None else Some CaptchaItem)
      else if js_startsWith name ''Text '' \<or> li_isCustom i then Some CustomItem
      else if name = ''Signup link'' then Some (SignupItem (la_enableSignUp a))
      else if name = ''Select organization'' then Some OrganizationItem
      else None)"

definition show_form :: "login_page \<Rightarrow> bool" where
  "show_form s \<longleftrightarrow> isPasswordEnabled (the_app s) \<or> isCodeSigninEnabled (the_app s) \<or> isWebAuthnEnabled (the_app s)
     \<or> isLdapEnabled (the_app s)"

datatype login_form =
    MessageForm string | SignUpError | SignedIn | DeviceLoginCanceled
  | ItemForm "form_item list" | ProvidersOnly "form_item list"

definition renderForm :: "login_page \<Rightarrow> login_application \<Rightarrow> login_form" where
  "renderForm s a =
     (let items = (case la_items a of None \<Rightarrow> [] | Some is \<Rightarrow> is) in
      case lg_msg s of
        Some m \<Rightarrow> MessageForm m
      | None \<Rightarrow>
          if lg_mode s = Some ''signup'' \<and> \<not> la_enableSignUp a then SignUpError
          else if js_truthy (lg_userCode s) \<and> lg_userCodeStatus s = ''success'' then SignedIn
          else if lg_userCodeStatus s = ''canceled'' then DeviceLoginCanceled
          else if show_form s \<or> isFaceIdEnabled (the_app s) then ItemForm (List.map_filter (renderFormItem s a) items)
          else ProvidersOnly (List.map_filter (\<lambda>i. if sn_name i = ''Providers'' \<or> sn_name i = ''Signup link''
                 then renderFormItem s a i else None) items))"

text \<open>\<open>renderSignedInBox\<close> and the panel; the second factor replaces both.\<close>

definition renderSignedInBox :: "login_page \<Rightarrow> bool \<Rightarrow> bool" where
  "renderSignedInBox s requiredEnableMfa \<longleftrightarrow>
     (case lg_account s of
        Some (Some account) \<Rightarrow> map_option app_organization (the_app s) = Some (ac_owner account)
      | _ \<Rightarrow> False)
     \<and> \<not> requiredEnableMfa \<and> \<not> (js_truthy (lg_userCode s) \<and> lg_userCodeStatus s = ''success'')"

datatype login_view =
    CodeExpired | NothingYet | NoApplication | SamlForm string string string | CustomHtml
  | ToProvider provider | ChooseOrganization string | SecondFactor "mfa_prop option" | LoginPanel bool login_form

definition renderLoginPanel :: "login_page \<Rightarrow> bool \<Rightarrow> login_application \<Rightarrow> login_view" where
  "renderLoginPanel s requiredEnableMfa a =
     (if isOrganizationChoiceBoxVisible s (la_orgChoiceMode a) then ChooseOrganization (la_orgChoiceMode a)
      else case lg_mfa s of
        Some (k, vs, m) \<Rightarrow> SecondFactor m
      | None \<Rightarrow> LoginPanel (renderSignedInBox s requiredEnableMfa) (renderForm s a))"

definition visible_oauth_items :: "login_page \<Rightarrow> application \<Rightarrow> provider_item list" where
  "visible_oauth_items s a =
     filter (\<lambda>i. login_isProviderVisible s i \<and> map_option pr_category (pi_provider i) \<noteq> Some ''SAML'') (app_items a)"

text \<open>With a single provider and no other method the page goes to that provider at once.\<close>

definition login_render :: "login_page \<Rightarrow> bool \<Rightarrow> login_view" where
  "login_render s requiredEnableMfa =
     (if lg_userCodeStatus s = ''expired'' then CodeExpired
      else case lg_application s of
        None \<Rightarrow> NothingYet
      | Some None \<Rightarrow> NoApplication
      | Some (Some a) \<Rightarrow>
          if lg_samlResponse s \<noteq> [] then SamlForm (lg_samlResponse s) (lg_redirectUrl s) (lg_relayState s)
          else if la_signinHtml a \<noteq> [] then CustomHtml
          else if lg_preview s \<noteq> Some ''auto'' \<and> \<not> show_form s \<and> length (visible_oauth_items s (base_app a)) = 1
          then (case pi_provider (hd (visible_oauth_items s (base_app a))) of
                  Some p \<Rightarrow> ToProvider p | None \<Rightarrow> renderLoginPanel s requiredEnableMfa a)
          else renderLoginPanel s requiredEnableMfa a)"

definition parseOffset :: "login_page \<Rightarrow> bool \<Rightarrow> int \<Rightarrow> string option" where
  "parseOffset s mobile offset =
     (if offset = 2 \<or> offset = 4 \<or> lg_inIframe s \<or> mobile then Some ''0 auto''
      else if offset = 1 then Some ''0 10%'' else if offset = 3 then Some ''0 60%'' else None)"

end
