(* ===== verification/Login_Rules.thy ===== *)
theory Login_Rules
  imports Login_Page
begin

text \<open>
  Runs of the sign-in page and what they guarantee: the button comes back, passwords leave the page only
  obfuscated and with the captcha that the application asks for, and which answers reach the client.
\<close>

section \<open>Runs\<close>

datatype login_event =
    Submit vals
  | Choose string
  | TypeName string
  | CaptchaToken string string string
  | CaptchaSolved string string string
  | CaptchaCanceled
  | FaceTaken jsval
  | FaceCanceled
  | Continue
  | VerifyFactor jsval jsval
  | RecoverFactor string
  | SelectFactor mfa_prop
  | CancelDevice
  | DeviceDone string
  | Updated "string option" bool bool
  | SigninAnswer nat "signin_answer replied"
  | AccountAnswer nat "account_answer replied"
  | ApplicationAnswer nat "application_answer replied"
  | OptionsAnswer nat "jsval replied"
  | AssertionAnswer nat "assertion replied"

text \<open>The continuation that an answer belongs to; answers of another kind do not occur for it.\<close>

fun signin_continuation :: "urls \<Rightarrow> login_pending \<Rightarrow> (signin_answer replied \<Rightarrow> lact) option" where
  "signin_continuation u (LoginAnswer vs ps b) = Some (loginAnswered u vs ps b)"
| "signin_continuation u (CasAnswer vs p b) = Some (casAnswered u vs p b)"
| "signin_continuation u (MfaAnswer k) = Some (mfaAnswered u k)"
| "signin_continuation u (CaptchaStatus vs) = Some (captchaStatusAnswered vs)"
| "signin_continuation u (FaceBegun vs) = Some (faceBegun vs)"
| "signin_continuation u DeviceCanceled = Some deviceCanceled"
| "signin_continuation u (DeviceCompleted ps) = Some (deviceCompleted u ps)"
| "signin_continuation u (CredentialChecked vs ps) = Some (credentialChecked u vs ps)"
| "signin_continuation u k = None"

fun account_continuation :: "login_pending \<Rightarrow> (account_answer replied \<Rightarrow> lact) option" where
  "account_continuation ConsentAccount = Some consentAccountAnswered"
| "account_continuation (PromptAccount p code) = Some (promptAccountAnswered p code)"
| "account_continuation k = None"

fun application_continuation :: "login_pending \<Rightarrow> (application_answer replied \<Rightarrow> lact) option" where
  "application_continuation ApplicationLogin = Some applicationLoginAnswered"
| "application_continuation NamedApplication = Some namedApplicationAnswered"
| "application_continuation DefaultApplication = Some defaultApplicationAnswered"
| "application_continuation k = None"

fun options_continuation :: "login_pending \<Rightarrow> (jsval replied \<Rightarrow> lact) option" where
  "options_continuation (CredentialOptions n vs ps) = Some (credentialOptionsAnswered n vs ps)"
| "options_continuation k = None"

fun assertion_continuation :: "login_pending \<Rightarrow> (assertion replied \<Rightarrow> lact) option" where
  "assertion_continuation (CredentialGiven vs ps) = Some (credentialGiven vs ps)"
| "assertion_continuation k = None"

definition without :: "nat \<Rightarrow> 'a list \<Rightarrow> 'a list" where
  "without n xs = take n xs @ drop (Suc n) xs"

definition deliver :: "(login_pending \<Rightarrow> ('r \<Rightarrow> lact) option) \<Rightarrow> nat \<Rightarrow> 'r \<Rightarrow> lact" where
  "deliver cont n r s =
     (if n < length (lg_pending s)
      then case cont (lg_pending s ! n) of
             None \<Rightarrow> (s, None)
           | Some f \<Rightarrow> f r (s\<lparr>lg_pending := without n (lg_pending s)\<rparr>)
      else (s, None))"

text \<open>
  The button takes no clicks while it is loading; the dialogues are answered while they are open. The form
  gives the values of the fields it shows; the password is shown for two of the methods
  (\<open>renderPasswordOrCodeInput\<close>).
\<close>

definition form_values :: "login_page \<Rightarrow> vals \<Rightarrow> vals" where
  "form_values s vs = (case renderPasswordOrCodeInput s of PasswordInput d \<Rightarrow> vs | _ \<Rightarrow> AList.delete ''password'' vs)"

fun login_do :: "crypto \<Rightarrow> urls \<Rightarrow> login_event \<Rightarrow> lact" where
  "login_do c u (Submit vs) = l_with (\<lambda>s. if lg_loading s then l_done else onFinish c (form_values s vs))"
| "login_do c u (Choose key) = chooseMethod key"
| "login_do c u (TypeName t) = l_set (\<lambda>s. s\<lparr>lg_username := Some t\<rparr>)"
| "login_do c u (CaptchaToken ty tok sec) = captcha_onUpdateToken ty tok sec"
| "login_do c u (CaptchaSolved ty tok sec) = l_with (\<lambda>s. if lg_openCaptchaModal s then captcha_onOk ty tok sec else l_done)"
| "login_do c u CaptchaCanceled = captcha_onCancel"
| "login_do c u (FaceTaken v) = l_with (\<lambda>s. if lg_openFaceModal s then face_onOk v else l_done)"
| "login_do c u FaceCanceled = face_onCancel"
| "login_do c u Continue = loginAsAccount"
| "login_do c u (VerifyFactor code remember) = mfa_verify code remember"
| "login_do c u (RecoverFactor code) = mfa_recover code"
| "login_do c u (SelectFactor m) = mfa_select m"
| "login_do c u CancelDevice = cancelDevice"
| "login_do c u (DeviceDone code) = handleDeviceLoginComplete code"
| "login_do c u (Updated prev app acc) = login_componentDidUpdate prev app acc"
| "login_do c u (SigninAnswer n r) = deliver (signin_continuation u) n r"
| "login_do c u (AccountAnswer n r) = deliver account_continuation n r"
| "login_do c u (ApplicationAnswer n r) = deliver application_continuation n r"
| "login_do c u (OptionsAnswer n r) = deliver options_continuation n r"
| "login_do c u (AssertionAnswer n r) = deliver assertion_continuation n r"

fun login_run :: "crypto \<Rightarrow> urls \<Rightarrow> login_event list \<Rightarrow> login_page \<Rightarrow> login_page" where
  "login_run c u [] s = s"
| "login_run c u (e # es) s = login_run c u es (fst (login_do c u e s))"

section \<open>Rules for actions\<close>

text \<open>
  A property of states that an action upholds, whether it ends or throws. The rules follow the shape of
  the actions, so that a proof about a handler is a proof about the places where it changes the state.
\<close>

definition upholds :: "(login_page \<Rightarrow> bool) \<Rightarrow> lact \<Rightarrow> bool" where
  "upholds P a \<longleftrightarrow> (\<forall>s. P s \<longrightarrow> P (fst (a s)))"

named_theorems keeping \<open>rules for the actions that keep a property\<close>

lemma upholdsD: "upholds P a \<Longrightarrow> P s \<Longrightarrow> P (fst (a s))"
  by (simp add: upholds_def)

lemma upholds_basic [keeping]:
  "upholds P l_done" "upholds P (l_throw e)"
  by (simp_all add: upholds_def l_done_def l_throw_def)

lemma upholds_seq [keeping]: "upholds P a \<Longrightarrow> upholds P b \<Longrightarrow> upholds P (l_seq a b)"
  by (auto simp: upholds_def l_seq_def split: prod.splits option.splits; metis fst_conv)

lemma upholds_finally [keeping]: "upholds P a \<Longrightarrow> upholds P b \<Longrightarrow> upholds P (l_finally a b)"
  by (auto simp: upholds_def l_finally_def split: prod.splits; metis fst_conv)

lemma upholds_catch [keeping]: "upholds P a \<Longrightarrow> (\<And>t. upholds P (h t)) \<Longrightarrow> upholds P (l_catch a h)"
  by (auto simp: upholds_def l_catch_def split: prod.splits option.splits; metis fst_conv)

lemma upholds_eval [keeping]: "(\<And>v. r = Return v \<Longrightarrow> upholds P (f v)) \<Longrightarrow> upholds P (l_eval r f)"
  by (cases r) (simp_all add: l_eval_def upholds_basic)

lemma upholds_need [keeping]: "(\<And>v. x = Some v \<Longrightarrow> upholds P (f v)) \<Longrightarrow> upholds P (l_need x f)"
  by (cases x) (simp_all add: l_need_def upholds_basic)

lemma upholds_if [keeping]: "(b \<Longrightarrow> upholds P x) \<Longrightarrow> (\<not> b \<Longrightarrow> upholds P y) \<Longrightarrow> upholds P (if b then x else y)"
  by simp

lemma upholds_with [keeping]: "(\<And>s. P s \<Longrightarrow> upholds P (f s)) \<Longrightarrow> upholds P (l_with f)"
  by (simp add: upholds_def l_with_def)

lemma upholds_replied [keeping]:
  "(\<And>x. r = Answered x \<Longrightarrow> upholds P (g x)) \<Longrightarrow> (\<And>t. r = NoAnswer t \<Longrightarrow> upholds P (f t)) \<Longrightarrow>
    upholds P (case r of Answered x \<Rightarrow> g x | NoAnswer t \<Rightarrow> f t)"
  by (cases r) simp_all

lemma upholds_option [keeping]:
  "(x = None \<Longrightarrow> upholds P f) \<Longrightarrow> (\<And>y. x = Some y \<Longrightarrow> upholds P (g y)) \<Longrightarrow> upholds P (case x of None \<Rightarrow> f | Some y \<Rightarrow> g y)"
  by (cases x) simp_all

lemma upholds_pair [keeping]: "(\<And>x y. z = (x, y) \<Longrightarrow> upholds P (f x y)) \<Longrightarrow> upholds P (case z of (x, y) \<Rightarrow> f x y)"
  by (cases z) simp

lemma upholds_result:
  "(\<And>e. x = Throw e \<Longrightarrow> upholds P (f e)) \<Longrightarrow> (\<And>y. x = Return y \<Longrightarrow> upholds P (g y)) \<Longrightarrow>
    upholds P (case x of Throw e \<Rightarrow> f e | Return y \<Rightarrow> g y)"
  by (cases x) simp_all

lemma upholds_set: "(\<And>s. P s \<Longrightarrow> P (f s)) \<Longrightarrow> upholds P (l_set f)"
  by (simp add: upholds_def l_set_def)

section \<open>Passwords leave the page guarded\<close>

text \<open>
  A password among the values is \<open>sealed\<close> when it is what the obfuscator of the organization made of some
  text; the values are \<open>guarded\<close> when they also carry the token of a captcha that is always required.
\<close>

definition captcha_always :: "login_application \<Rightarrow> bool" where
  "captcha_always a \<longleftrightarrow> getCaptchaRule (Some (base_app a)) = ''Always'' \<and> \<not> isInlineCaptchaEnabled (Some (base_app a))"

definition sealed :: "crypto \<Rightarrow> login_application \<Rightarrow> vals \<Rightarrow> bool" where
  "sealed c a vs \<longleftrightarrow> (js_bool (prop_of vs ''password'') \<longrightarrow>
     (\<exists>plain cipher. obfuscate c (la_organizationObj a) plain = Some (cipher, []) \<and> prop_of vs ''password'' = JStr cipher))"

definition guarded :: "crypto \<Rightarrow> login_application \<Rightarrow> vals \<Rightarrow> bool" where
  "guarded c a vs \<longleftrightarrow> sealed c a vs
     \<and> (captcha_always a \<and> js_bool (prop_of vs ''password'') \<longrightarrow> (\<exists>tok. prop_of vs ''captchaToken'' = JStr tok))"

lemma guarded_cong:
  assumes "prop_of vs ''password'' = prop_of ws ''password''" "prop_of vs ''captchaToken'' = prop_of ws ''captchaToken''"
  shows "guarded c a vs = guarded c a ws"
  using assms by (simp add: guarded_def sealed_def)

lemma no_password_guarded: "\<not> js_bool (prop_of vs ''password'') \<Longrightarrow> guarded c a vs"
  by (simp add: guarded_def sealed_def)

fun rq_guarded :: "crypto \<Rightarrow> login_application \<Rightarrow> api_request \<Rightarrow> bool" where
  "rq_guarded c a rq = (case rq_body rq of Some (JObj vs) \<Rightarrow> guarded c a vs | _ \<Rightarrow> True)"

fun out_guarded :: "crypto \<Rightarrow> login_application \<Rightarrow> login_output \<Rightarrow> bool" where
  "out_guarded c a (Sent rq) = rq_guarded c a rq"
| "out_guarded c a x = True"

fun waits_guarded :: "crypto \<Rightarrow> login_application \<Rightarrow> login_pending \<Rightarrow> bool" where
  "waits_guarded c a (CaptchaStatus vs) = guarded c a vs"
| "waits_guarded c a (FaceBegun vs) = (\<not> js_bool (prop_of vs ''password''))"
| "waits_guarded c a k = True"

definition login_guarded :: "crypto \<Rightarrow> login_application \<Rightarrow> login_page \<Rightarrow> bool" where
  "login_guarded c a s \<longleftrightarrow> lg_application s = Some (Some a)
     \<and> list_all (out_guarded c a) (lg_outputs s) \<and> list_all (waits_guarded c a) (lg_pending s) \<and> sealed c a (lg_values s)
     \<and> (case lg_mfa s of None \<Rightarrow> True | Some (k, vs, m) \<Rightarrow> \<not> js_bool (prop_of vs ''password''))"

lemma upholds_out: "out_guarded c a x \<Longrightarrow> upholds (login_guarded c a) (l_out x)"
  by (simp add: l_out_def upholds_def l_set_def login_guarded_def)

lemma upholds_ask:
  assumes "rq_guarded c a rq" "waits_guarded c a k"
  shows "upholds (login_guarded c a) (l_ask rq k)"
  unfolding l_ask_def
  using assms by (intro upholds_seq upholds_out upholds_set) (simp_all add: login_guarded_def)

lemma upholds_quiet [keeping]:
  "upholds (login_guarded c a) (l_message kind content)" "upholds (login_guarded c a) (l_goToLink link)"
  "upholds (login_guarded c a) (l_out (Did e))" "upholds (login_guarded c a) (l_out (Posted w m t))"
  "upholds (login_guarded c a) (l_out Closed)" "upholds (login_guarded c a) (l_out Refreshed)"
  "upholds (login_guarded c a) (l_out (AccountUpdated x))" "upholds (login_guarded c a) (l_out (CredentialAsked y z))"
  "upholds (login_guarded c a) (l_loading b)"
  by (simp_all add: l_message_def l_goToLink_def l_loading_def upholds_out)
    (simp add: upholds_def l_set_def login_guarded_def)

lemma populate_fields:
  assumes "populateOauthValues s vs = Return ws"
  shows "prop_of ws ''password'' = prop_of vs ''password''" "prop_of ws ''captchaToken'' = prop_of vs ''captchaToken''"
  using assms by (cases "getOAuthGetParameters (lg_browser s) None";
    auto simp: populateOauthValues_def Let_def split: option.splits if_splits)+

lemma upholds_login [keeping]:
  assumes "guarded c a vs"
  shows "upholds (login_guarded c a) (login vs)"
proof -
  have "guarded c a (put ''type'' t (put ''signinMethod'' m (put ''language'' l vs)))" for t m l
    using assms by (subst guarded_cong [of _ vs]) simp_all
  moreover have "guarded c a ws" if "populateOauthValues s (put ''language'' l vs) = Return ws" for s l ws
    using assms populate_fields [OF that] by (subst guarded_cong [of _ vs]) simp_all
  ultimately show ?thesis
    unfolding login_def Let_def
    by (intro keeping upholds_ask) (simp_all add: api_loginCas_def api_login_def api_fetch_def)
qed

text \<open>The changes of the state that the invariant does not look at.\<close>

lemma upholds_changes [keeping]:
  "upholds (login_guarded c a) (l_set (\<lambda>s. s\<lparr>lg_browser := f s\<rparr>))"
  "upholds (login_guarded c a) (l_set (\<lambda>s. s\<lparr>lg_userCodeStatus := t\<rparr>))"
  "upholds (login_guarded c a) (l_set (\<lambda>s. s\<lparr>lg_samlResponse := x, lg_redirectUrl := y, lg_relayState := z\<rparr>))"
  "upholds (login_guarded c a) (l_set (\<lambda>s. s\<lparr>lg_username := n\<rparr>))"
  "upholds (login_guarded c a) (l_set (\<lambda>s. s\<lparr>lg_loginMethod := n\<rparr>))"
  "upholds (login_guarded c a) (l_set (\<lambda>s. s\<lparr>lg_captcha := v\<rparr>))"
  "upholds (login_guarded c a) (l_set (\<lambda>s. s\<lparr>lg_openCaptchaModal := b\<rparr>))"
  "upholds (login_guarded c a) (l_set (\<lambda>s. s\<lparr>lg_openFaceModal := b\<rparr>))"
  "upholds (login_guarded c a) (l_set (\<lambda>s. s\<lparr>lg_openCaptchaModal := b, lg_loading := b'\<rparr>))"
  "upholds (login_guarded c a) (l_set (\<lambda>s. s\<lparr>lg_openFaceModal := b, lg_loading := b'\<rparr>))"
  by (rule upholds_set; simp add: login_guarded_def)+

lemma upholds_plain_ask [keeping]:
  "rq_body rq = None \<Longrightarrow> waits_guarded c a k \<Longrightarrow> upholds (login_guarded c a) (l_ask rq k)"
  by (rule upholds_ask) simp_all

lemma upholds_mfa_set:
  "\<not> js_bool (prop_of vs ''password'') \<Longrightarrow> upholds (login_guarded c a) (l_set (\<lambda>s. s\<lparr>lg_mfa := Some (k, vs, m)\<rparr>))"
  by (rule upholds_set) (simp add: login_guarded_def)

lemma upholds_open_captcha [keeping]: "sealed c a vs \<Longrightarrow> upholds (login_guarded c a) (open_captcha vs)"
  unfolding open_captcha_def by (rule upholds_set) (simp add: login_guarded_def)

lemma upholds_postCode [keeping]: "upholds (login_guarded c a) (postCodeLoginAction u res)"
  unfolding postCodeLoginAction_def l_goToAccount_def onLoginSuccess_def leave_with_code_def sendPopupData_def Let_def
  by (intro keeping) (simp_all add: api_getAccount_def api_fetch_def)

lemma upholds_leave_with_token [keeping]: "upholds (login_guarded c a) (leave_with_token ps t d)"
  unfolding leave_with_token_def by (intro keeping)

lemma upholds_saml [keeping]: "upholds (login_guarded c a) (saml_answered ps res)"
  unfolding saml_answered_def
  by (intro keeping) (auto split: jsval.splits intro: keeping)

lemma upholds_handlers [keeping]:
  "upholds (login_guarded c a) (oauthLoginHandler u vs ps res)" "upholds (login_guarded c a) (casLoginHandler u p res)"
  unfolding oauthLoginHandler_def casLoginHandler_def l_goToAccount_def onLoginSuccess_def Let_def
  by (intro keeping)+

lemma upholds_checkMfa [keeping]:
  assumes "upholds (login_guarded c a) h"
  shows "upholds (login_guarded c a) (checkMfa k vs res h)"
proof -
  have "upholds (login_guarded c a) (case sa_data2 res of
           JArr ms \<Rightarrow> l_set (\<lambda>s. s\<lparr>lg_mfa := Some (k, mfa_values vs, getPreferredMfaProp (map mfaPropOf ms))\<rparr>)
         | _ \<Rightarrow> l_throw TypeError)"
    by (cases "sa_data2 res") (simp_all add: upholds_basic upholds_mfa_set mfa_values_def)
  with assms show ?thesis
    unfolding checkMfa_def onLoginSuccess_def by (intro keeping)
qed

lemma upholds_answers [keeping]:
  "upholds (login_guarded c a) (loginAnswered u vs ps b r)" "upholds (login_guarded c a) (casAnswered u vs p b r)"
  unfolding loginAnswered_def casAnswered_def failed_signin_def refresh_if_def
  by (intro keeping)+

lemma upholds_mfaAnswered [keeping]: "upholds (login_guarded c a) (mfaAnswered u k r)"
proof -
  have "upholds (login_guarded c a) (case k of
      LoginAnswer vs ps b \<Rightarrow> oauthLoginHandler u vs ps res | CasAnswer vs p b \<Rightarrow> casLoginHandler u p res | _ \<Rightarrow> l_done)" for res
    by (cases k) (simp_all add: keeping)
  then show ?thesis
    unfolding mfaAnswered_def by (intro keeping)
qed

lemma upholds_mfa_request [keeping]:
  assumes "\<not> js_bool (prop_of vs ''password'')"
  shows "upholds (login_guarded c a) (mfa_request k vs)"
  using no_password_guarded [OF assms, of c a]
  by (cases k) (auto simp: mfa_request_def api_loginCas_def api_login_def api_fetch_def intro!: upholds_ask upholds_basic)

lemma upholds_mfa_steps [keeping]:
  "upholds (login_guarded c a) (mfa_verify code remember)" "upholds (login_guarded c a) (mfa_recover t)"
  "upholds (login_guarded c a) (mfa_select m)"
proof -
  have "\<not> js_bool (prop_of vs ''password'')" if "login_guarded c a s" "lg_mfa s = Some (k, vs, m)" for s k vs m
    using that by (simp add: login_guarded_def)
  then show "upholds (login_guarded c a) (mfa_verify code remember)" "upholds (login_guarded c a) (mfa_recover t)"
    unfolding mfa_verify_def mfa_recover_def by (intro keeping; auto)+
  show "upholds (login_guarded c a) (mfa_select m)"
    unfolding mfa_select_def by (rule upholds_set) (auto simp: login_guarded_def split: option.splits)
qed

lemma upholds_captchaStatus [keeping]:
  "guarded c a vs \<Longrightarrow> upholds (login_guarded c a) (captchaStatusAnswered vs r)"
  unfolding captchaStatusAnswered_def by (intro keeping) (simp_all add: guarded_def)

lemma upholds_faceBegun [keeping]:
  "\<not> js_bool (prop_of vs ''password'') \<Longrightarrow> upholds (login_guarded c a) (faceBegun vs r)"
  unfolding faceBegun_def
  by (intro keeping upholds_set) (simp_all add: login_guarded_def sealed_def)

lemma upholds_populated_ask:
  "upholds (login_guarded c a) (signInWithWebAuthn n vs)" "upholds (login_guarded c a) (handleDeviceLoginComplete code)"
  "upholds (login_guarded c a) cancelDevice" "\<not> js_bool (prop_of vs ''password'') \<Longrightarrow> upholds (login_guarded c a) (face_begin vs)"
  unfolding signInWithWebAuthn_def handleDeviceLoginComplete_def cancelDevice_def face_begin_def
  by (intro keeping; simp add: api_fetch_def api_completeDeviceLogin_def api_cancelDeviceLogin_def)+

lemma upholds_submit [keeping]: "upholds (login_guarded c a) (submit_password c vs)"
proof -
  have "sealed c a (put ''password'' (JStr cipher) vs)"
    if "login_guarded c a s" "obfuscate c (Option.bind (getApplicationObj s) la_organizationObj) pw = Some (cipher, [])" for s pw cipher
    using that by (auto simp: login_guarded_def getApplicationObj_def sealed_def)
  moreover have "sealed c a (captcha_values v vs') = sealed c a vs'" for v vs'
    by (simp add: sealed_def captcha_values_def)
  moreover have "guarded c a vs'" if "sealed c a vs'" "\<not> captcha_always a" for vs'
    using that by (simp add: guarded_def)
  moreover have "the_app s = Some (base_app a)" if "login_guarded c a s" for s
    using that by (simp add: login_guarded_def the_app_def getApplicationObj_def)
  ultimately show ?thesis
    unfolding submit_password_def checkCaptchaStatus_def Let_def
    by (intro keeping; force simp: captcha_always_def api_getCaptchaStatus_def api_fetch_def)
qed

lemma upholds_onFinish:
  assumes "lg_loginMethod s \<noteq> Some ''password'' \<and> lg_loginMethod s \<noteq> Some ''ldap'' \<Longrightarrow> \<not> js_bool (prop_of vs ''password'')"
    and "login_guarded c a s"
  shows "login_guarded c a (fst (onFinish c vs s))"
proof -
  let ?s = "s\<lparr>lg_loading := True\<rparr>"
  have guarded: "login_guarded c a ?s" using assms(2) by (simp add: login_guarded_def)
  consider "lg_loginMethod s = Some ''password'' \<or> lg_loginMethod s = Some ''ldap''" | "\<not> js_bool (prop_of vs ''password'')"
    using assms(1) by blast
  then show ?thesis
  proof cases
    case 1
    then have "fst (onFinish c vs s) = fst (submit_password c vs ?s)"
      by (auto simp: onFinish_def l_seq_def l_loading_def l_set_def l_with_def)
    then show ?thesis using upholdsD [OF upholds_submit guarded] by simp
  next
    case 2
    then have "upholds (login_guarded c a) (onFinish c vs)"
      unfolding onFinish_def
      by (intro keeping upholds_populated_ask no_password_guarded)
    then show ?thesis using assms(2) by (rule upholdsD)
  qed
qed

lemma form_values_password:
  "lg_loginMethod s \<noteq> Some ''password'' \<and> lg_loginMethod s \<noteq> Some ''ldap'' \<Longrightarrow> \<not> js_bool (prop_of (form_values s vs) ''password'')"
  by (simp add: form_values_def renderPasswordOrCodeInput_def)

lemma upholds_captcha_onOk [keeping]: "upholds (login_guarded c a) (captcha_onOk ty tok sec)"
proof -
  have "guarded c a (captcha_values (Some (ty, tok, sec)) (lg_values s))" if "login_guarded c a s" for s
    using that by (simp add: guarded_def sealed_def captcha_values_def opt_val_def login_guarded_def)
  then show ?thesis
    unfolding captcha_onOk_def by (intro keeping)
qed

lemma upholds_loginAsAccount [keeping]: "upholds (login_guarded c a) loginAsAccount"
  unfolding loginAsAccount_def by (intro keeping no_password_guarded) simp

lemma upholds_update [keeping]: "upholds (login_guarded c a) (login_componentDidUpdate prev x y)"
  unfolding login_componentDidUpdate_def sendSilentSigninData_def chooseMethod_def Let_def
  by (intro keeping)

lemma upholds_rest [keeping]:
  "upholds (login_guarded c a) (deviceCanceled r)" "upholds (login_guarded c a) (deviceCompleted u ps r)"
  "upholds (login_guarded c a) (credentialChecked u vs ps r')" "upholds (login_guarded c a) (consentAccountAnswered q)"
  "upholds (login_guarded c a) (promptAccountAnswered p code q)"
  unfolding deviceCanceled_def deviceCompleted_def credentialChecked_def webauthn_end_def consentAccountAnswered_def
    promptAccountAnswered_def failed_signin_def onLoginSuccess_def Let_def
  by (intro keeping)+

lemma upholds_pending [keeping]:
  "waits_guarded c a k \<Longrightarrow> upholds (login_guarded c a) (l_set (\<lambda>s. s\<lparr>lg_pending := lg_pending s @ [k]\<rparr>))"
  by (rule upholds_set) (simp add: login_guarded_def)

lemma upholds_options [keeping]: "upholds (login_guarded c a) (credentialOptionsAnswered n vs ps r)"
proof -
  have "upholds (login_guarded c a) (\<lambda>s. case x of Throw e \<Rightarrow> f e s | Return y \<Rightarrow> g y s)"
    if "\<And>e. upholds (login_guarded c a) (f e)" "\<And>y. upholds (login_guarded c a) (g y)" for x :: "(nat list \<times> nat list list) result" and f g
    using that by (cases x) simp_all
  note this [keeping]
  show ?thesis
    unfolding credentialOptionsAnswered_def webauthn_end_def
    by (intro keeping) (auto intro!: upholds_seq upholds_quiet upholds_pending)
qed

lemma upholds_credential [keeping]: "upholds (login_guarded c a) (credentialGiven vs ps r)"
proof -
  have "guarded c a [(''id'', x1), (''rawId'', x2), (''type'', x3), (''response'', x4)]" for x1 x2 x3 x4
    by (rule no_password_guarded) simp
  then show ?thesis
    unfolding credentialGiven_def webauthn_end_def
    by (intro keeping upholds_result upholds_ask) (simp_all add: api_fetch_def assertion_body_def)
qed

lemma deliver_upholds:
  assumes "\<And>k f. cont k = Some f \<Longrightarrow> waits_guarded c a k \<Longrightarrow> upholds (login_guarded c a) (f r)"
  shows "upholds (login_guarded c a) (deliver cont n r)"
  unfolding upholds_def
proof (intro allI impI)
  fix s
  assume s: "login_guarded c a s"
  have "set (without n (lg_pending s)) \<subseteq> set (lg_pending s)"
    by (auto simp: without_def dest: in_set_takeD in_set_dropD)
  then have s': "login_guarded c a (s\<lparr>lg_pending := without n (lg_pending s)\<rparr>)"
    using s by (auto simp: login_guarded_def list_all_iff)
  show "login_guarded c a (fst (deliver cont n r s))"
  proof (cases "n < length (lg_pending s)")
    case True
    then have "waits_guarded c a (lg_pending s ! n)"
      using s by (simp add: login_guarded_def list_all_length)
    then show ?thesis
      using assms [of "lg_pending s ! n"] s s' by (auto simp: deliver_def upholds_def split: option.split)
  qed (simp add: deliver_def s)
qed

lemma continuations_uphold:
  "signin_continuation u k = Some f \<Longrightarrow> waits_guarded c a k \<Longrightarrow> upholds (login_guarded c a) (f r)"
  "account_continuation k = Some g \<Longrightarrow> upholds (login_guarded c a) (g q)"
  "options_continuation k = Some h \<Longrightarrow> upholds (login_guarded c a) (h v)"
  "assertion_continuation k = Some i \<Longrightarrow> upholds (login_guarded c a) (i w)"
  by (cases k; force intro: keeping)+

text \<open>Events that leave the application alone, without the sign-in by face.\<close>

fun usual_event :: "login_event \<Rightarrow> bool" where
  "usual_event (FaceTaken v) = False"
| "usual_event (ApplicationAnswer n r) = False"
| "usual_event e = True"

lemma event_guarded:
  assumes "usual_event e" "login_guarded c a s"
  shows "login_guarded c a (fst (login_do c u e s))"
proof (cases e)
  case (Submit vs)
  have "login_guarded c a (fst (onFinish c (form_values s vs) s))"
    by (rule upholds_onFinish [OF form_values_password assms(2)])
  then show ?thesis
    using assms(2) by (simp add: Submit l_with_def l_done_def)
next
  case (SigninAnswer n r)
  then show ?thesis
    using deliver_upholds [of "signin_continuation u" c a r n] continuations_uphold(1) assms(2) by (auto simp: upholds_def)
next
  case (AccountAnswer n r)
  then show ?thesis
    using deliver_upholds [of account_continuation c a r n] continuations_uphold(2) assms(2) by (auto simp: upholds_def)
next
  case (OptionsAnswer n r)
  then show ?thesis
    using deliver_upholds [of options_continuation c a r n] continuations_uphold(3) assms(2) by (auto simp: upholds_def)
next
  case (AssertionAnswer n r)
  then show ?thesis
    using deliver_upholds [of assertion_continuation c a r n] continuations_uphold(4) assms(2) by (auto simp: upholds_def)
next
  case (CaptchaSolved ty tok sec)
  show ?thesis
    unfolding CaptchaSolved login_do.simps
    by (rule upholdsD [where P = "login_guarded c a", OF _ assms(2)]) (intro keeping)
qed (use assms in \<open>auto simp: chooseMethod_def captcha_onUpdateToken_def captcha_onCancel_def face_onCancel_def
    intro!: upholdsD [where P = "login_guarded c a", OF _ assms(2)] keeping upholds_populated_ask\<close>)

lemma run_guarded:
  assumes "list_all usual_event es" "login_guarded c a s"
  shows "login_guarded c a (login_run c u es s)"
  using assms by (induction es arbitrary: s) (simp_all add: event_guarded)


text \<open>An application that always asks for a captcha, and a submission.\<close>

definition demo_crypto :: crypto where
  "demo_crypto = \<lparr>cr_aes = (\<lambda>k iv p. p), cr_des = (\<lambda>k iv p. p), cr_iv16 = [], cr_iv8 = []\<rparr>"

definition captcha_app :: login_application where
  "captcha_app = \<lparr>la_app = empty_application\<lparr>app_name := ''app'', app_organization := ''org-1'',
       app_providers := Some [\<lparr>pi_name = ''captcha'', pi_provider = Some (empty_provider\<lparr>pr_category := ''Captcha''\<rparr>),
         pi_canSignUp = False, pi_canSignIn = False, pi_prompted = False, pi_rule = ''Always''\<rparr>]\<rparr>,
     la_items = None, la_methods = None,
     la_organizationObj = Some \<lparr>lo_obfuscatorType = Some ''Plain'', lo_obfuscatorKey = None\<rparr>,
     la_enableSignUp = True, la_enableAutoSignin = False, la_signinHtml = [], la_orgChoiceMode = [], la_formOffset = 2\<rparr>"

definition sample_login :: login_page where
  "sample_login = (new_login \<lparr>lr_type = ''login'', lr_applicationName = Some ''app'', lr_owner = None, lr_mode = None, lr_userCode = None,
      lr_params = [], lr_path = None, lr_preview = None, lr_application = Some (Some captcha_app), lr_account = None,
      lr_inIframe = False, lr_hasOpener = False\<rparr> (fresh_browser ''https://a'' ''/login'' []))\<lparr>lg_loginMethod := Some ''password''\<rparr>"

definition sample_submission :: "login_event list" where
  "sample_submission = [Submit [(''username'', JStr ''ann''), (''password'', JStr ''pw'')], CaptchaSolved ''Default'' ''tok'' ''sec'']"

definition sample_body :: vals where
  "sample_body = [(''username'', JStr ''ann''), (''password'', JStr ''pw''), (''captchaType'', JStr ''Default''),
     (''captchaToken'', JStr ''tok''), (''clientSecret'', JStr ''sec''), (''language'', JStr []),
     (''organization'', JStr ''org-1''), (''signinMethod'', JStr ''Password''), (''type'', JStr ''login'')]"

fun sent_requests :: "login_output list \<Rightarrow> api_request list" where
  "sent_requests [] = []"
| "sent_requests (Sent rq # xs) = rq # sent_requests xs"
| "sent_requests (x # xs) = sent_requests xs"

lemma set_sent_requests: "rq \<in> set (sent_requests xs) \<Longrightarrow> Sent rq \<in> set xs"
  by (induction xs rule: sent_requests.induct) auto

lemma sample_outputs:
  "sent_requests (lg_outputs (login_run demo_crypto demo_urls sample_submission sample_login)) = [api_login (JObj sample_body) None]"
  by code_simp

lemma sample_start:
  "lg_application sample_login = Some (Some captcha_app)" "lg_outputs sample_login = []" "lg_pending sample_login = []"
  "lg_values sample_login = []" "lg_mfa sample_login = None" "\<not> lg_loading sample_login"
  by (simp_all add: sample_login_def new_login_def Let_def)


section \<open>The button comes back\<close>

text \<open>Continuations that end the loading of the button, and a page that waits for something.\<close>

fun unblocks :: "login_pending \<Rightarrow> bool" where
  "unblocks (LoginAnswer vs ps b) = True"
| "unblocks (CasAnswer vs p b) = True"
| "unblocks (CaptchaStatus vs) = True"
| "unblocks (FaceBegun vs) = True"
| "unblocks (CredentialOptions n vs ps) = True"
| "unblocks (CredentialGiven vs ps) = True"
| "unblocks (CredentialChecked vs ps) = True"
| "unblocks k = False"

definition busy :: "login_page \<Rightarrow> bool" where
  "busy s \<longleftrightarrow> list_ex unblocks (lg_pending s) \<or> lg_openCaptchaModal s \<or> lg_openFaceModal s"

definition steady :: "login_page \<Rightarrow> bool" where
  "steady s \<longleftrightarrow> (lg_loading s \<longrightarrow> busy s)"

named_theorems steadily \<open>actions that leave the button steady\<close>

lemma steady_changes [steadily]:
  "upholds steady (l_set (\<lambda>s. s\<lparr>lg_browser := f s\<rparr>))" "upholds steady (l_set (\<lambda>s. s\<lparr>lg_userCodeStatus := t\<rparr>))"
  "upholds steady (l_set (\<lambda>s. s\<lparr>lg_samlResponse := x, lg_redirectUrl := y, lg_relayState := z\<rparr>))"
  "upholds steady (l_set (\<lambda>s. s\<lparr>lg_username := n\<rparr>))" "upholds steady (l_set (\<lambda>s. s\<lparr>lg_loginMethod := n\<rparr>))"
  "upholds steady (l_set (\<lambda>s. s\<lparr>lg_captcha := v\<rparr>))" "upholds steady (l_set (\<lambda>s. s\<lparr>lg_mfa := g s\<rparr>))"
  "upholds steady (l_set (\<lambda>s. s\<lparr>lg_msg := w\<rparr>))" "upholds steady (l_set (\<lambda>s. s\<lparr>lg_applicationName := w\<rparr>))"
  "upholds steady (l_set (\<lambda>s. s\<lparr>lg_application := q\<rparr>))" "upholds steady (l_set (\<lambda>s. s\<lparr>lg_haveFaceProvider := b\<rparr>))"
  "upholds steady (l_set (\<lambda>s. s\<lparr>lg_openCaptchaModal := True, lg_values := vs\<rparr>))"
  "upholds steady (l_set (\<lambda>s. s\<lparr>lg_openFaceModal := True, lg_values := vs\<rparr>))"
  "upholds steady (l_set (\<lambda>s. s\<lparr>lg_openCaptchaModal := b, lg_loading := False\<rparr>))"
  "upholds steady (l_set (\<lambda>s. s\<lparr>lg_openFaceModal := b, lg_loading := False\<rparr>))"
  "upholds steady (l_loading False)" "upholds steady (l_out e)"
  "upholds steady (l_set (\<lambda>s. s\<lparr>lg_pending := lg_pending s @ [k]\<rparr>))"
  by (auto simp: upholds_def l_set_def l_loading_def l_out_def steady_def busy_def)

lemma steady_parts [steadily]:
  "upholds steady (l_message kind content)" "upholds steady (l_goToLink link)" "upholds steady (l_ask rq k)"
  unfolding l_message_def l_goToLink_def l_ask_def by (intro steadily keeping)+

lemma steady_login [steadily]: "upholds steady (login vs)"
  unfolding login_def Let_def by (intro steadily keeping)

lemma steady_cases: "(\<And>x. upholds steady (f x)) \<Longrightarrow> upholds steady (case v of JArr xs \<Rightarrow> f xs | _ \<Rightarrow> l_throw e)"
  "(\<And>x. upholds steady (g x)) \<Longrightarrow> upholds steady (case v of JStr t \<Rightarrow> g t | _ \<Rightarrow> l_throw e)"
  by (cases v; simp add: upholds_basic)+

lemma steady_answers [steadily]:
  "upholds steady (postCodeLoginAction u res)" "upholds steady (leave_with_token ps t d)" "upholds steady (saml_answered ps res)"
  "upholds steady (casLoginHandler u p res)" "upholds steady (failed_signin t)" "upholds steady (onLoginSuccess t)"
  "upholds steady l_goToAccount" "upholds steady (refresh_if b)"
  unfolding postCodeLoginAction_def l_goToAccount_def onLoginSuccess_def leave_with_code_def sendPopupData_def Let_def
    leave_with_token_def saml_answered_def casLoginHandler_def failed_signin_def refresh_if_def
  by (intro steadily keeping steady_cases)+

lemma steady_oauthLoginHandler [steadily]: "upholds steady (oauthLoginHandler u vs ps res)"
  unfolding oauthLoginHandler_def Let_def by (intro steadily keeping)

lemma steady_checkMfa [steadily]: "upholds steady h \<Longrightarrow> upholds steady (checkMfa k vs res h)"
  unfolding checkMfa_def by (intro steadily keeping steady_cases)

lemma steady_mfaAnswered [steadily]: "upholds steady (mfaAnswered u k r)"
proof -
  have "upholds steady (case k of
      LoginAnswer vs ps b \<Rightarrow> oauthLoginHandler u vs ps res | CasAnswer vs p b \<Rightarrow> casLoginHandler u p res | _ \<Rightarrow> l_done)" for res
    by (cases k) (simp_all add: steadily keeping)
  then show ?thesis unfolding mfaAnswered_def by (intro steadily keeping)
qed

lemma steady_rest [steadily]:
  "upholds steady (deviceCanceled r)" "upholds steady (deviceCompleted u ps r)" "upholds steady (consentAccountAnswered q)"
  "upholds steady (promptAccountAnswered p code q)" "upholds steady (applicationLoginAnswered x)"
  "upholds steady (namedApplicationAnswered x)" "upholds steady (defaultApplicationAnswered x)"
  "upholds steady (login_componentDidUpdate prev y z)" "upholds steady loginAsAccount" "upholds steady cancelDevice"
  "upholds steady (handleDeviceLoginComplete t)" "upholds steady (mfa_select m)" "upholds steady (chooseMethod t)"
  "upholds steady captcha_onCancel" "upholds steady face_onCancel" "upholds steady (captcha_onUpdateToken a1 a2 a3)"
  unfolding deviceCanceled_def deviceCompleted_def consentAccountAnswered_def promptAccountAnswered_def
    applicationLoginAnswered_def namedApplicationAnswered_def defaultApplicationAnswered_def onUpdateApplication_def set_msg_def
    login_componentDidUpdate_def sendSilentSigninData_def loginAsAccount_def cancelDevice_def handleDeviceLoginComplete_def
    mfa_select_def chooseMethod_def captcha_onCancel_def face_onCancel_def captcha_onUpdateToken_def Let_def
  by (intro steadily keeping)+

lemma steady_mfa_request [steadily]: "upholds steady (mfa_request k vs)"
  by (cases k) (auto simp: mfa_request_def intro!: steadily keeping)

lemma steady_mfa_steps [steadily]: "upholds steady (mfa_verify code b)" "upholds steady (mfa_recover t)"
  unfolding mfa_verify_def mfa_recover_def by (intro steadily keeping)+

text \<open>Actions that end the loading whatever happens.\<close>

lemma finally_not_loading: "\<not> lg_loading (fst (l_finally x (l_loading False) s))"
  "\<not> lg_loading (fst (l_finally x (l_seq (l_set f) (l_loading False)) s))"
  by (simp_all add: l_finally_def l_loading_def l_set_def l_seq_def split: prod.split)

lemma not_loading_steady: "\<not> lg_loading s \<Longrightarrow> steady s"
  by (simp add: steady_def)

lemma answered_not_loading:
  "\<not> lg_loading (fst (loginAnswered u vs ps b r s))" "\<not> lg_loading (fst (casAnswered u vs p b r s))"
  "\<not> lg_loading (fst (credentialChecked u vs ps r s))" "\<not> lg_loading (fst (webauthn_end x s))"
  unfolding loginAnswered_def casAnswered_def credentialChecked_def webauthn_end_def by (rule finally_not_loading)+

lemmas answered_steady = answered_not_loading [THEN not_loading_steady]

text \<open>Actions after which the page waits, unless they throw.\<close>

lemma ask_busy: "unblocks k \<Longrightarrow> busy (fst (l_ask rq k s))"
  by (simp add: l_ask_def l_seq_def l_out_def l_set_def busy_def)

lemma captcha_busy: "busy (fst (open_captcha vs s))"
  by (simp add: open_captcha_def l_set_def busy_def)

lemma ask_waits: "unblocks k \<Longrightarrow> list_ex unblocks (lg_pending (fst (l_ask rq k s)))"
  by (simp add: l_ask_def l_seq_def l_out_def l_set_def)

lemma login_waits: "snd (login vs s) = None \<Longrightarrow> list_ex unblocks (lg_pending (fst (login vs s)))"
  by (auto simp: login_def Let_def l_with_def l_eval_def l_throw_def intro!: ask_waits split: sum.splits if_splits)

lemma login_busy: "snd (login vs s) = None \<Longrightarrow> busy (fst (login vs s))"
  by (simp add: busy_def login_waits)

lemma login_then_close:
  assumes "steady s" "\<And>x. lg_pending (f x) = lg_pending x"
  shows "steady (fst (l_seq (login vs) (l_set f) s))"
proof (cases "snd (login vs s)")
  case None
  then have "busy (fst (l_seq (login vs) (l_set f) s))"
    using login_waits [of vs s] assms(2) by (cases "login vs s") (simp add: busy_def l_seq_def l_set_def)
  then show ?thesis by (simp add: steady_def)
next
  case (Some e)
  then have "fst (l_seq (login vs) (l_set f) s) = fst (login vs s)"
    by (cases "login vs s") (simp add: l_seq_def)
  then show ?thesis using upholdsD [OF steady_login assms(1)] by simp
qed

text \<open>The obfuscator refuses the password, which happens when its type or key is not valid.\<close>

definition obfuscator_refuses :: "crypto \<Rightarrow> vals \<Rightarrow> login_page \<Rightarrow> bool" where
  "obfuscator_refuses c vs s \<longleftrightarrow> (lg_loginMethod s = Some ''password'' \<or> lg_loginMethod s = Some ''ldap'')
     \<and> (case obfuscate c (Option.bind (getApplicationObj s) la_organizationObj) (val_text vs ''password'') of
          Some (cipher, err) \<Rightarrow> err \<noteq> [] | None \<Rightarrow> True)"

lemma submit_busy:
  assumes "snd (submit_password c vs s) = None"
    and "\<exists>cipher. obfuscate c (Option.bind (getApplicationObj s) la_organizationObj) (val_text vs ''password'') = Some (cipher, [])"
  shows "busy (fst (submit_password c vs s))"
  using assms
  by (auto simp: submit_password_def l_with_def l_need_def Let_def checkCaptchaStatus_def captcha_busy
      intro!: ask_busy login_busy split: if_splits)

lemma webauthn_busy: "snd (signInWithWebAuthn n vs s) = None \<Longrightarrow> busy (fst (signInWithWebAuthn n vs s))"
  by (auto simp: signInWithWebAuthn_def l_with_def l_eval_def l_need_def l_throw_def intro!: ask_busy split: sum.splits option.splits)

lemma face_busy: "snd (face_begin vs s) = None \<Longrightarrow> busy (fst (face_begin vs s))"
  by (auto simp: face_begin_def l_with_def l_need_def l_throw_def intro!: ask_busy split: option.splits)

lemma onFinish_busy:
  assumes "snd (onFinish c vs s) = None" "\<not> obfuscator_refuses c vs s"
  shows "busy (fst (onFinish c vs s))"
proof -
  have "\<exists>cipher. obfuscate c (Option.bind (getApplicationObj s) la_organizationObj) (val_text vs ''password'') = Some (cipher, [])"
    if "lg_loginMethod s = Some ''password'' \<or> lg_loginMethod s = Some ''ldap''"
    using assms(2) that by (auto simp: obfuscator_refuses_def split: option.splits)
  then show ?thesis
    using assms(1)
    by (auto simp: onFinish_def l_seq_def l_loading_def l_set_def l_with_def getApplicationObj_def
        intro!: submit_busy webauthn_busy face_busy login_busy)
qed

text \<open>
  What has to go well for the button to come back: a submission does not throw and its password is not
  refused, and the answers to the two questions before a login are not lost (they have no \<open>catch\<close>).
\<close>

definition smooth :: "crypto \<Rightarrow> urls \<Rightarrow> login_event \<Rightarrow> login_page \<Rightarrow> bool" where
  "smooth c u e s \<longleftrightarrow>
     (case e of
        Submit vs \<Rightarrow> lg_loading s \<or> snd (login_do c u e s) = None \<and> \<not> obfuscator_refuses c (form_values s vs) s
      | SigninAnswer n r \<Rightarrow> n < length (lg_pending s) \<longrightarrow>
          (case lg_pending s ! n of
             CaptchaStatus vs \<Rightarrow> (\<exists>res. r = Answered res) \<and> snd (login_do c u e s) = None
           | FaceBegun vs \<Rightarrow> (\<exists>res. r = Answered res)
           | _ \<Rightarrow> True)
      | _ \<Rightarrow> True)"

fun smooth_run :: "crypto \<Rightarrow> urls \<Rightarrow> login_event list \<Rightarrow> login_page \<Rightarrow> bool" where
  "smooth_run c u [] s = True"
| "smooth_run c u (e # es) s = (smooth c u e s \<and> smooth_run c u es (fst (login_do c u e s)))"

lemma list_ex_simps_cons: "list_ex P (x # xs) \<longleftrightarrow> P x \<or> list_ex P xs"
  by simp

text \<open>
  A continuation is taken out of the list; when it was one that ends the loading, it has to do so or to
  wait for something else.
\<close>

lemma deliver_steady:
  assumes "steady s"
    and "\<And>k f. n < length (lg_pending s) \<Longrightarrow> lg_pending s ! n = k \<Longrightarrow> cont k = Some f \<Longrightarrow> unblocks k \<Longrightarrow>
      steady (fst (f r (s\<lparr>lg_pending := without n (lg_pending s)\<rparr>)))"
    and "\<And>k f. cont k = Some f \<Longrightarrow> \<not> unblocks k \<Longrightarrow> upholds steady (f r)"
  shows "steady (fst (deliver cont n r s))"
proof (cases "n < length (lg_pending s) \<and> cont (lg_pending s ! n) \<noteq> None")
  case True
  then obtain f where f: "cont (lg_pending s ! n) = Some f" "n < length (lg_pending s)" by auto
  show ?thesis
  proof (cases "unblocks (lg_pending s ! n)")
    case False
    have "lg_pending s = take n (lg_pending s) @ lg_pending s ! n # drop (Suc n) (lg_pending s)"
      using f(2) by (rule id_take_nth_drop)
    then have "list_ex unblocks (lg_pending s) = list_ex unblocks (without n (lg_pending s))"
      using False unfolding without_def by (metis list_ex_append list_ex_simps_cons)
    then have "steady (s\<lparr>lg_pending := without n (lg_pending s)\<rparr>)"
      using assms(1) by (simp add: steady_def busy_def)
    then show ?thesis
      using assms(3) [OF f(1) False] f by (simp add: deliver_def upholds_def)
  qed (use assms(2) [OF f(2) refl f(1)] f in \<open>simp add: deliver_def\<close>)
qed (use assms(1) in \<open>auto simp: deliver_def\<close>)

lemma busy_steady: "busy s \<Longrightarrow> steady s"
  by (simp add: steady_def)

lemma captchaStatus_steady:
  assumes "snd (captchaStatusAnswered vs (Answered res) s) = None"
  shows "steady (fst (captchaStatusAnswered vs (Answered res) s))"
  using assms by (auto simp: captchaStatusAnswered_def intro!: busy_steady captcha_busy login_busy split: if_splits)

lemma faceBegun_steady: "steady (fst (faceBegun vs (Answered res) s))"
  by (simp add: faceBegun_def l_seq_def l_loading_def l_set_def l_message_def l_out_def steady_def busy_def)

lemma options_steady: "steady (fst (credentialOptionsAnswered n vs ps r s))"
  by (auto simp: credentialOptionsAnswered_def answered_not_loading not_loading_steady l_seq_def l_out_def l_set_def steady_def busy_def
      split: replied.split sum.split)

lemma given_steady: "steady (fst (credentialGiven vs ps r s))"
  by (auto simp: credentialGiven_def answered_not_loading not_loading_steady intro!: busy_steady ask_busy
      split: replied.split sum.split)

lemma signin_answer_steady:
  assumes "steady s" "smooth c u (SigninAnswer n r) s"
  shows "steady (fst (deliver (signin_continuation u) n r s))"
proof (rule deliver_steady [OF assms(1)])
  fix k f
  let ?s = "s\<lparr>lg_pending := without n (lg_pending s)\<rparr>"
  assume k: "n < length (lg_pending s)" "lg_pending s ! n = k" "signin_continuation u k = Some f" "unblocks k"
  then have "deliver (signin_continuation u) n r s = f r ?s"
    by (simp add: deliver_def)
  with k assms(2) have smooth: "case k of CaptchaStatus vs \<Rightarrow> (\<exists>res. r = Answered res) \<and> snd (f r ?s) = None
      | FaceBegun vs \<Rightarrow> (\<exists>res. r = Answered res) | _ \<Rightarrow> True"
    by (auto simp: smooth_def split: login_pending.split)
  show "steady (fst (f r ?s))"
    using k smooth
    by (cases k) (auto intro: answered_steady captchaStatus_steady faceBegun_steady)
next
  fix k f
  assume "signin_continuation u k = Some f" "\<not> unblocks k"
  then show "upholds steady (f r)"
    by (cases k) (auto intro: steadily)
qed

lemma event_steady:
  assumes "steady s" "smooth c u e s"
  shows "steady (fst (login_do c u e s))"
proof (cases e)
  case (Submit vs)
  then show ?thesis
    using assms by (auto simp: smooth_def l_with_def l_done_def intro!: busy_steady onFinish_busy)
next
  case (SigninAnswer n r)
  then show ?thesis
    using signin_answer_steady [OF assms(1), of c u n r] assms(2) by simp
next
  case (AccountAnswer n r)
  have "steady (fst (deliver account_continuation n r s))"
    by (rule deliver_steady [OF assms(1)]; case_tac k; auto intro: steadily)
  then show ?thesis by (simp add: AccountAnswer)
next
  case (ApplicationAnswer n r)
  have "steady (fst (deliver application_continuation n r s))"
    by (rule deliver_steady [OF assms(1)]; case_tac k; auto intro: steadily)
  then show ?thesis by (simp add: ApplicationAnswer)
next
  case (OptionsAnswer n r)
  have "steady (fst (deliver options_continuation n r s))"
    by (rule deliver_steady [OF assms(1)]; case_tac k; auto intro: options_steady)
  then show ?thesis by (simp add: OptionsAnswer)
next
  case (AssertionAnswer n r)
  have "steady (fst (deliver assertion_continuation n r s))"
    by (rule deliver_steady [OF assms(1)]; case_tac k; auto intro: given_steady)
  then show ?thesis by (simp add: AssertionAnswer)
next
  case (CaptchaSolved ty tok sec)
  then show ?thesis
    using assms(1) by (auto simp: l_with_def l_done_def captcha_onOk_def intro!: login_then_close)
next
  case (FaceTaken v)
  then show ?thesis
    using assms(1) by (auto simp: l_with_def l_done_def face_onOk_def intro!: login_then_close)
qed (use assms(1) in \<open>auto intro!: upholdsD [where P = steady, OF _ assms(1)] steadily\<close>)

text \<open>
  C33. The button of the sign-in page comes back. In every smooth run (no submission throws or is refused
  by the obfuscator, and the answers about the captcha and the face are not lost) from a page whose
  button is not loading, the button is loading only while a continuation waits that will end the
  loading, or a dialogue is open that will be confirmed or closed. Other answers may be lost, and the
  handlers of answers may throw.
\<close>

theorem signin_button_comes_back:
  assumes "\<not> lg_loading s" "smooth_run c u es s" "lg_loading (login_run c u es s)"
  shows "list_ex unblocks (lg_pending (login_run c u es s))
    \<or> lg_openCaptchaModal (login_run c u es s) \<or> lg_openFaceModal (login_run c u es s)"
proof -
  have "steady (login_run c u es s)" if "steady s" "smooth_run c u es s" for s
    using that by (induction es arbitrary: s) (simp_all add: event_steady)
  with assms show ?thesis
    by (metis steady_def busy_def not_loading_steady)
qed

theorem signin_button_comes_back_witness:
  "lg_loading (login_run demo_crypto demo_urls sample_submission sample_login)
   \<and> (list_ex unblocks (lg_pending (login_run demo_crypto demo_urls sample_submission sample_login))
      \<or> lg_openCaptchaModal (login_run demo_crypto demo_urls sample_submission sample_login)
      \<or> lg_openFaceModal (login_run demo_crypto demo_urls sample_submission sample_login))"
proof -
  have "lg_loading (login_run demo_crypto demo_urls sample_submission sample_login)"
    by code_simp
  moreover have "smooth_run demo_crypto demo_urls sample_submission sample_login"
  proof -
    have "snd (onFinish demo_crypto (form_values sample_login vs) sample_login) = None"
      "\<not> obfuscator_refuses demo_crypto (form_values sample_login vs) sample_login"
      if "vs = [(''username'', JStr ''ann''), (''password'', JStr ''pw'')]" for vs
      unfolding that by code_simp+
    then show ?thesis
      by (simp add: sample_submission_def smooth_def l_with_def sample_start)
  qed
  ultimately show ?thesis
    using signin_button_comes_back [OF sample_start(6)] by blast
qed

text \<open>
  When the obfuscator refuses the password the message is shown, but the button goes on loading although
  nothing waits.
\<close>

lemma refused_password_blocks:
  assumes "\<not> lg_loading s" "\<not> busy s" "lg_loginMethod s = Some ''password''" "obfuscate c (Option.bind (getApplicationObj s) la_organizationObj)
      (val_text (form_values s vs) ''password'') = Some (x, y # ys)"
  shows "lg_loading (fst (login_do c u (Submit vs) s)) \<and> \<not> busy (fst (login_do c u (Submit vs) s))"
  using assms by (simp add: l_with_def onFinish_def l_seq_def l_loading_def l_set_def submit_password_def l_need_def
      getApplicationObj_def l_message_def l_out_def busy_def)

section \<open>What the client reads\<close>

text \<open>The client reads the pairs of the query of its address, or of the fragment.\<close>

definition client_query :: "string \<Rightarrow> (string \<times> string) list" where
  "client_query url = parse_pairs (takeWhile (\<lambda>c. c \<noteq> CHR ''#'') (drop 1 (dropWhile (\<lambda>c. c \<noteq> CHR ''?'') url)))"

definition client_fragment :: "string \<Rightarrow> (string \<times> string) list" where
  "client_fragment url = parse_pairs (drop 1 (dropWhile (\<lambda>c. c \<noteq> CHR ''#'') url))"

lemma concatChar_plain: "CHR ''?'' \<notin> set url \<Longrightarrow> concatChar url = ''?''"
  by (simp add: concatChar_def)

lemma client_query_param:
  assumes "CHR ''?'' \<notin> set url"
  shows "usp_get (client_query (url @ concatChar url @ params_text ps)) k = read_param k ps"
proof -
  have "list_all (\<lambda>c. c \<noteq> CHR ''?'') url" using assms by (auto simp: list_all_iff)
  then show ?thesis
    using assms by (simp add: client_query_def concatChar_plain dropWhile_pass read_param_def)
qed

lemma read_state:
  assumes "list_all uri_unreserved code"
  shows "read_param ''state'' [(''code'', code), (''state'', st)] = Some (form_decode (takeWhile (\<lambda>c. c \<notin> set ''&#'') st))"
proof -
  have "list_all uri_unreserved ''code''" "form_decode ''state'' = ''state''" by code_simp+
  then show ?thesis
    using read_param_skip [of "''code''" code "''state''" "(''state'', st)" "[]"] read_param_first [of "''state''" st "[]"] assms
    by simp
qed

lemma encoded_state: "form_decode (takeWhile (\<lambda>c. c \<notin> set ''&#'') (encodeURIComponent st)) = st"
proof -
  have "list_all (\<lambda>c. c \<notin> set ''&#'') (encodeURIComponent st)"
    using encodeURIComponent_no_sep [of "CHR ''&''" st] encodeURIComponent_no_sep [of "CHR ''#''" st] by (auto simp: list_all_iff)
  then have "takeWhile (\<lambda>c. c \<notin> set ''&#'') (encodeURIComponent st) = encodeURIComponent st"
    using takeWhile_pass [of _ "encodeURIComponent st" "[]"] by simp
  then show ?thesis by (simp add: form_decode_encode del: takeWhile_eq_all_conv)
qed

text \<open>
  C34. The state of an authorization request and its way back to the client, for a client without a query
  in its address and a code of unreserved characters. After a sign-in with an identity provider the
  callback page encodes the state, and the client reads the very state it had sent. After a sign-in on
  this page the state is not encoded: the client reads it up to the first ampersand or hash sign, and
  decoded once more. For a state of unreserved characters both pages go to the same address.
\<close>

theorem code_link_returns_state:
  assumes "CHR ''?'' \<notin> set (oa_redirectUri p)" "list_all uri_unreserved code"
  shows "usp_get (client_query (codeLink p code)) ''state'' = Some (oa_state p)
    \<and> usp_get (client_query (loginCodeLink p code)) ''state''
        = Some (form_decode (takeWhile (\<lambda>c. c \<notin> set ''&#'') (oa_state p)))
    \<and> (list_all uri_unreserved (oa_state p) \<longrightarrow> loginCodeLink p code = codeLink p code)"
proof -
  have "codeLink p code = oa_redirectUri p @ concatChar (oa_redirectUri p) @ params_text [(''code'', code), (''state'', encodeURIComponent (oa_state p))]"
    "loginCodeLink p code = oa_redirectUri p @ concatChar (oa_redirectUri p) @ params_text [(''code'', code), (''state'', oa_state p)]"
    using assms(2) by (simp_all add: codeLink_def loginCodeLink_def encode_unreserved)
  then have "usp_get (client_query (codeLink p code)) ''state'' = Some (oa_state p)"
    "usp_get (client_query (loginCodeLink p code)) ''state'' = Some (form_decode (takeWhile (\<lambda>c. c \<notin> set ''&#'') (oa_state p)))"
    by (simp_all only: client_query_param [OF assms(1)] read_state [OF assms(2)] encoded_state)
  moreover have "loginCodeLink p code = codeLink p code" if "list_all uri_unreserved (oa_state p)"
    using assms(2) that by (simp add: codeLink_def loginCodeLink_def encode_unreserved)
  ultimately show ?thesis by blast
qed

definition sample_oauth :: oauth_params where
  "sample_oauth = \<lparr>oa_clientId = ''id'', oa_responseType = ''code'', oa_redirectUri = ''https://client/back'', oa_scope = [], oa_state = ''a&b'',
     oa_nonce = [], oa_challengeMethod = [], oa_codeChallenge = [], oa_responseMode = [], oa_samlRequest = [], oa_relayState = [],
     oa_noRedirect = [], oa_resource = [], oa_type = ''code''\<rparr>"

theorem code_link_returns_state_witness:
  "usp_get (client_query (codeLink sample_oauth ''xyz'')) ''state'' = Some ''a&b''
   \<and> usp_get (client_query (loginCodeLink sample_oauth ''xyz'')) ''state'' = Some ''a''"
proof -
  have "CHR ''?'' \<notin> set (oa_redirectUri sample_oauth)" "list_all uri_unreserved ''xyz''" by code_simp+
  from code_link_returns_state [OF this] show ?thesis by (simp add: sample_oauth_def)
qed

lemma fragment_pairs:
  assumes "CHR ''#'' \<notin> set url"
  shows "client_fragment (url @ CHR ''#'' # t) = parse_pairs t"
proof -
  have "list_all (\<lambda>c. c \<noteq> CHR ''#'') url" using assms by (auto simp: list_all_iff)
  then show ?thesis by (simp add: client_fragment_def dropWhile_pass)
qed

text \<open>
  The token of a WebAuthn sign-in does not reach the client. After a sign-in with a password for the
  response type \<open>token\<close> the client finds the access token and its state in the fragment. After a
  sign-in with WebAuthn the fragment has neither: the parameter is named \<open>token\<close>, and the state follows a
  question mark, so that it belongs to the value of that parameter.
\<close>

lemma webauthn_token_without_state:
  assumes "CHR ''#'' \<notin> set (oa_redirectUri p)" "list_all uri_unreserved token" "list_all uri_unreserved (oa_state p)"
  shows "usp_get (client_fragment (loginTokenLink p ''token'' token)) ''access_token'' = Some token
    \<and> usp_get (client_fragment (loginTokenLink p ''token'' token)) ''state'' = Some (oa_state p)
    \<and> usp_get (client_fragment (webAuthnTokenLink p ''token'' token)) ''access_token'' = None
    \<and> usp_get (client_fragment (webAuthnTokenLink p ''token'' token)) ''state'' = None"
proof -
  have amp: "CHR ''&'' \<notin> set token" "CHR ''&'' \<notin> set (oa_state p)"
    using unreserved_no_sep [OF assms(2)] unreserved_no_sep [OF assms(3)] by (auto simp: list_all_iff)
  have decode: "form_decode token = token" "form_decode (oa_state p) = oa_state p"
    using assms(2,3) by (simp_all add: form_decode_unreserved)
  have bearer: "parse_pairs ''token_type=bearer'' = [(''token_type'', ''bearer'')]" by code_simp
  have keys: "form_decode ''access_token'' = ''access_token''" "form_decode ''state'' = ''state''" "form_decode ''token'' = ''token''" by code_simp+
  have "loginTokenLink p ''token'' token = oa_redirectUri p @ CHR ''#'' # (''access_token'' @ CHR ''='' # token) @ CHR ''&''
      # (''state'' @ CHR ''='' # oa_state p) @ CHR ''&'' # ''token_type=bearer''"
    by (simp add: loginTokenLink_def)
  then have login: "client_fragment (loginTokenLink p ''token'' token) = [(''access_token'', token), (''state'', oa_state p), (''token_type'', ''bearer'')]"
    using fragment_pairs [OF assms(1)] parse_pairs_single [of "''access_token''" token] parse_pairs_single [of "''state''" "oa_state p"] amp
    by (simp only: parse_pairs_append bearer keys decode) simp
  have "webAuthnTokenLink p ''token'' token = oa_redirectUri p @ CHR ''#'' # (''token'' @ CHR ''='' # (token @ ''?state='' @ oa_state p)) @ CHR ''&''
      # ''token_type=bearer''"
    by (simp add: webAuthnTokenLink_def)
  then have webauthn: "client_fragment (webAuthnTokenLink p ''token'' token) = [(''token'', form_decode (token @ ''?state='' @ oa_state p)), (''token_type'', ''bearer'')]"
    using fragment_pairs [OF assms(1)] parse_pairs_single [of "''token''" "token @ ''?state='' @ oa_state p"] amp
    by (simp only: parse_pairs_append bearer keys) simp
  show ?thesis
    by (simp add: login webauthn usp_get_def)
qed

lemma webauthn_token_without_state_example:
  "usp_get (client_fragment (loginTokenLink (sample_oauth\<lparr>oa_state := ''s1''\<rparr>) ''token'' ''t1'')) ''state'' = Some ''s1''
   \<and> usp_get (client_fragment (webAuthnTokenLink (sample_oauth\<lparr>oa_state := ''s1''\<rparr>) ''token'' ''t1'')) ''state'' = None"
proof -
  let ?p = "sample_oauth\<lparr>oa_state := ''s1''\<rparr>"
  have "CHR ''#'' \<notin> set (oa_redirectUri ?p)" "list_all uri_unreserved ''t1''" "list_all uri_unreserved (oa_state ?p)"
    by code_simp+
  from webauthn_token_without_state [OF this] show ?thesis by simp
qed

section \<open>What is offered\<close>

text \<open>
  The method that is chosen at first is that of the first tab, except that a first tab for WeChat is
  passed over for the password.
\<close>

lemma first_tab_chosen:
  assumes "la_methods a = Some (m # ms)" "method_tab tr ty (Suc (length ms)) m = Some (label, key)"
  shows "hd (method_tabs tr ty (Some a)) = (label, key)
    \<and> getDefaultLoginMethod (Some a) = (if sm_name m = ''WeChat'' then ''password'' else key)"
  using assms
  by (auto simp: method_tabs_def List.map_filter_simps method_tab_def tab_of_def getDefaultLoginMethod_def Let_def split: if_splits)

text \<open>
  An application with Face ID and a single provider never shows the form for Face ID: \<open>render\<close> goes to
  the provider, although \<open>renderForm\<close> would show the form.
\<close>

lemma face_id_not_offered:
  assumes "lg_application s = Some (Some a)" "lg_userCodeStatus s = []" "lg_samlResponse s = []" "la_signinHtml a = []"
    "lg_preview s = None" "lg_msg s = None" "lg_mode s = None" "isFaceIdEnabled (the_app s)" "\<not> show_form s"
    "visible_oauth_items s (base_app a) = [i]" "pi_provider i = Some pr"
  shows "login_render s mfa = ToProvider pr \<and> (\<exists>items. renderForm s a = ItemForm items)"
  using assms by (simp add: login_render_def renderForm_def)

text \<open>Switching the organization twice is switching it once, for client identifiers without hyphens.\<close>

lemma find_sub_after:
  "c \<notin> set s \<Longrightarrow> find_sub (c # p) (s @ (c # p) @ t) = Some (s, t)"
  by (induction s) auto

lemma clientIdFor_again:
  assumes "CHR ''-'' \<notin> set base"
  shows "clientIdFor (clientIdFor base n) m = clientIdFor base m"
proof -
  have none: "find_sub ''-org-'' base = None"
    unfolding find_sub_None using assms by (auto simp: sublist_def)
  have "find_sub ''-org-'' (base @ ''-org-'' @ n) = Some (base, n)"
    using find_sub_after [OF assms, of "''org-''" n] by simp
  with none show ?thesis
    by (simp add: clientIdFor_def js_split.simps [of _ "''-org-''"] del: append_Cons append_assoc)
qed

end
