(* ===== verification/Forget_Page.thy ===== *)
theory Forget_Page
  imports Login_Page
begin

text \<open>
  The page for a forgotten password (\<open>web/src/auth/ForgetPage.js\<close>): a user is named, a code that was sent
  to the user's e-mail address or phone is verified, and a new password is set. A link from an e-mail
  carries a code and starts at the last step. Requests that wait are in \<open>fg_pending\<close>; an exception inside a
  handler ends it and is not reported, so the state stays as it is.
\<close>

section \<open>State\<close>

record forget_organization =
  fo_name :: string
  fo_obfuscatorType :: "string option"
  fo_obfuscatorKey :: "string option"

record forget_application =
  fa_app :: application
  fa_organizationObj :: "forget_organization option"

text \<open>The body of a request for the verification of a code.\<close>

record verification =
  vc_application :: string
  vc_organization :: string
  vc_username :: "string option"
  vc_name :: "string option"
  vc_code :: "string option"

record new_password =
  np_userOwner :: string
  np_userName :: "string option"
  np_newPassword :: string
  np_code :: "string option"

datatype forget_request =
    AskEmailAndPhone string string
  | AskVerify verification
  | AskSetPassword new_password

text \<open>The continuations, with the verification that was asked for.\<close>

datatype forget_pending = EmailAndPhone | Verified verification | VerifiedFor verification string | PasswordSet

record forget_page =
  fg_name :: "string option"
  fg_phone :: string
  fg_email :: string
  fg_dest :: string
  fg_isVerifyTypeFixed :: bool
  fg_verifyType :: string
  fg_current :: nat
  fg_code :: "string option"
  fg_query :: params
  fg_formDest :: string
  fg_formCode :: string
  fg_application :: "forget_application option option"
  fg_browser :: browser
  fg_pending :: "forget_pending list"
  fg_requests :: "forget_request list"
  fg_effects :: "effect list"

type_synonym fact' = "forget_page \<Rightarrow> forget_page"

definition new_forget :: "account option \<Rightarrow> forget_application option option \<Rightarrow> browser \<Rightarrow> forget_page" where
  "new_forget account application b =
     (let q = URLSearchParams (br_search b) in
      \<lparr>fg_name = (case account of Some u \<Rightarrow> Some (ac_name u) | None \<Rightarrow> usp_get q ''username''),
       fg_phone = [], fg_email = [], fg_dest = [], fg_isVerifyTypeFixed = False, fg_verifyType = [],
       fg_current = (if js_truthy (usp_get q ''code'') then 2 else 0), fg_code = usp_get q ''code'', fg_query = q,
       fg_formDest = [], fg_formCode = [], fg_application = application, fg_browser = b,
       fg_pending = [], fg_requests = [], fg_effects = []\<rparr>)"

definition fg_app :: "forget_page \<Rightarrow> forget_application option" where
  "fg_app s = (case fg_application s of Some a \<Rightarrow> a | None \<Rightarrow> None)"

definition fg_show :: "string \<Rightarrow> fact'" where
  "fg_show msg s = s\<lparr>fg_effects := fg_effects s @ [Message ''error'' msg]\<rparr>"

definition fg_send :: "forget_request \<Rightarrow> forget_pending \<Rightarrow> fact'" where
  "fg_send rq k s = s\<lparr>fg_requests := fg_requests s @ [rq], fg_pending := fg_pending s @ [k]\<rparr>"

section \<open>Naming the user\<close>

definition hasProviderOfCategory :: "forget_page \<Rightarrow> string \<Rightarrow> bool" where
  "hasProviderOfCategory s category =
     (case Option.bind (fg_app s) (\<lambda>a. app_providers (fa_app a)) of
        None \<Rightarrow> False
      | Some items \<Rightarrow> list_ex (\<lambda>i. map_option pr_category (pi_provider i) = Some category) items)"

definition forget_step1 :: "string \<Rightarrow> string \<Rightarrow> fact'" where
  "forget_step1 organization username = fg_send (AskEmailAndPhone organization username) EmailAndPhone"

text \<open>The answer: name, phone and e-mail of the user, and which of them (or the name) was typed.\<close>

record contact_answer =
  ca_status :: string
  ca_msg :: string
  ca_name :: string
  ca_phone :: string
  ca_email :: string
  ca_typed :: string

definition saveFields :: "string \<Rightarrow> string \<Rightarrow> bool \<Rightarrow> fact'" where
  "saveFields ty dest fixed s = s\<lparr>fg_verifyType := ty, fg_isVerifyTypeFixed := fixed, fg_dest := dest\<rparr>"

text \<open>The form of the second step starts with the chosen address.\<close>

definition contactsAnswered :: "contact_answer replied \<Rightarrow> fact'" where
  "contactsAnswered r s =
     (case r of
        NoAnswer err \<Rightarrow> s
      | Answered res \<Rightarrow>
          if ca_status res = ''ok''
          then let phone = (if hasProviderOfCategory s ''SMS'' then ca_phone res else []);
                   email = (if hasProviderOfCategory s ''Email'' then ca_email res else []) in
               if phone = [] \<and> email = [] then fg_show ''general:No verification method'' s
               else let s1 = s\<lparr>fg_name := Some (ca_name res), fg_phone := phone, fg_email := email\<rparr>;
                        s2 = (if ca_typed res = ''email''
                              then (if email \<noteq> [] then saveFields ''email'' email True s1 else saveFields ''phone'' phone True s1)
                              else if ca_typed res = ''phone''
                              then (if phone \<noteq> [] then saveFields ''phone'' phone True s1 else saveFields ''email'' email True s1)
                              else if ca_typed res = ''username''
                              then (if phone \<noteq> [] then saveFields ''phone'' phone False s1 else saveFields ''email'' email False s1)
                              else s1) in
                 s2\<lparr>fg_current := 1, fg_formDest := (if fg_current s = 1 then fg_formDest s else fg_dest s2),
                    fg_formCode := (if fg_current s = 1 then fg_formCode s else [])\<rparr>
          else fg_show (ca_msg res) s)"

section \<open>Verifying the code\<close>

definition choose_dest :: "string \<Rightarrow> fact'" where
  "choose_dest dest s =
     (if dest = [] then s\<lparr>fg_formDest := dest\<rparr>
      else s\<lparr>fg_formDest := dest, fg_dest := dest, fg_verifyType := (if CHR ''@'' \<notin> set dest then ''phone'' else ''email'')\<rparr>)"

definition type_code :: "string \<Rightarrow> fact'" where
  "type_code code s = s\<lparr>fg_formCode := code\<rparr>"

definition ask_verification :: "(verification \<Rightarrow> forget_pending) \<Rightarrow> verification \<Rightarrow> fact'" where
  "ask_verification k v = fg_send (AskVerify v) (k v)"

definition forget_step2 :: fact' where
  "forget_step2 s =
     (case fg_app s of
        None \<Rightarrow> s
      | Some a \<Rightarrow> ask_verification Verified \<lparr>vc_application = app_name (fa_app a), vc_organization = app_organization (fa_app a),
          vc_username = Some (fg_formDest s), vc_name = fg_name s, vc_code = Some (fg_formCode s)\<rparr> s)"

text \<open>The code is read from the form once more when the answer comes.\<close>

definition codeVerified :: "answer replied \<Rightarrow> fact'" where
  "codeVerified r s =
     (case r of
        NoAnswer err \<Rightarrow> s
      | Answered res \<Rightarrow>
          if an_status res = ''ok'' then s\<lparr>fg_current := 2, fg_code := Some (fg_formCode s)\<rparr> else fg_show (an_msg res) s)"

section \<open>Setting the password\<close>

definition setPassword_of :: "crypto \<Rightarrow> string \<Rightarrow> fact'" where
  "setPassword_of c pw s =
     (case Option.bind (fg_app s) fa_organizationObj of
        None \<Rightarrow> s
      | Some org \<Rightarrow>
          let sent = (\<lambda>w. fg_send (AskSetPassword \<lparr>np_userOwner = fo_name org, np_userName = fg_name s, np_newPassword = w,
                        np_code = fg_code s\<rparr>) PasswordSet s) in
          if js_truthy (fo_obfuscatorType org) \<and> fo_obfuscatorType org \<noteq> Some ''Plain''
          then (case encryptByPasswordObfuscator (cr_aes c) (cr_des c) (cr_iv16 c) (cr_iv8 c) (map char_of)
                       (fo_obfuscatorType org) (fo_obfuscatorKey org) (map of_char pw) of
                  None \<Rightarrow> s
                | Some (cipher, err) \<Rightarrow> if err \<noteq> [] then fg_show err s else sent cipher)
          else sent pw)"

text \<open>With a code in the address the code is verified first.\<close>

definition forget_onFinish :: "crypto \<Rightarrow> string \<Rightarrow> fact'" where
  "forget_onFinish c pw s =
     (if js_truthy (usp_get (fg_query s) ''code'')
      then (case fg_app s of
              None \<Rightarrow> s
            | Some a \<Rightarrow> (case fa_organizationObj a of
                None \<Rightarrow> s
              | Some org \<Rightarrow> ask_verification (\<lambda>v. VerifiedFor v pw) \<lparr>vc_application = app_name (fa_app a), vc_organization = fo_name org,
                  vc_username = usp_get (fg_query s) ''dest'', vc_name = fg_name s, vc_code = fg_code s\<rparr> s))
      else setPassword_of c pw s)"

definition linkVerified :: "crypto \<Rightarrow> string \<Rightarrow> answer replied \<Rightarrow> fact'" where
  "linkVerified c pw r s =
     (case r of
        NoAnswer err \<Rightarrow> s
      | Answered res \<Rightarrow> if an_status res = ''ok'' then setPassword_of c pw s else fg_show (an_msg res) s)"

definition passwordSet :: "string \<Rightarrow> answer replied \<Rightarrow> fact'" where
  "passwordSet authServer r s =
     (case r of
        NoAnswer err \<Rightarrow> s
      | Answered res \<Rightarrow>
          if an_status res = ''ok''
          then (case br_session (fg_browser s) ''signinUrl'' of
                  Some (x # xs) \<Rightarrow> s\<lparr>fg_effects := fg_effects s @ [HistoryPush (x # xs)]\<rparr>
                | _ \<Rightarrow> s\<lparr>fg_effects := fg_effects s
                         @ br_effects (redirectToLoginPage authServer (map_option fa_app (fg_app s)) ((fg_browser s)\<lparr>br_effects := []\<rparr>))\<rparr>)
          else fg_show (an_msg res) s)"

definition renderOptions :: "forget_page \<Rightarrow> (string \<times> string) list" where
  "renderOptions s = (if fg_phone s \<noteq> [] then [(''phone'', fg_phone s)] else []) @ (if fg_email s \<noteq> [] then [(''email'', fg_email s)] else [])"

section \<open>Runs\<close>

datatype forget_event =
    NameUser string string
  | PickDest string
  | TypeCode string
  | SubmitCode
  | SubmitPassword string
  | Contacts nat "contact_answer replied"
  | Checked nat "answer replied"

definition drop_pending :: "nat \<Rightarrow> fact'" where
  "drop_pending n s = s\<lparr>fg_pending := take n (fg_pending s) @ drop (Suc n) (fg_pending s)\<rparr>"

text \<open>A form is submitted in its own step only.\<close>

fun forget_do :: "crypto \<Rightarrow> string \<Rightarrow> forget_event \<Rightarrow> fact'" where
  "forget_do c w (NameUser organization username) s = (if fg_current s = 0 then forget_step1 organization username s else s)"
| "forget_do c w (PickDest dest) s = (if fg_current s = 1 then choose_dest dest s else s)"
| "forget_do c w (TypeCode code) s = (if fg_current s = 1 then type_code code s else s)"
| "forget_do c w SubmitCode s = (if fg_current s = 1 then forget_step2 s else s)"
| "forget_do c w (SubmitPassword pw) s = (if fg_current s = 2 then forget_onFinish c pw s else s)"
| "forget_do c w (Contacts n r) s =
     (if n < length (fg_pending s) \<and> fg_pending s ! n = EmailAndPhone then contactsAnswered r (drop_pending n s) else s)"
| "forget_do c w (Checked n r) s =
     (if n < length (fg_pending s)
      then (case fg_pending s ! n of
              Verified v \<Rightarrow> codeVerified r (drop_pending n s)
            | VerifiedFor v pw \<Rightarrow> linkVerified c pw r (drop_pending n s)
            | PasswordSet \<Rightarrow> passwordSet w r (drop_pending n s)
            | EmailAndPhone \<Rightarrow> s)
      else s)"

fun forget_run :: "crypto \<Rightarrow> string \<Rightarrow> forget_event list \<Rightarrow> fact'" where
  "forget_run c w [] s = s"
| "forget_run c w (e # es) s = forget_run c w es (forget_do c w e s)"

text \<open>The verifications that the server has confirmed.\<close>

definition confirmed :: "forget_event \<Rightarrow> forget_page \<Rightarrow> verification list" where
  "confirmed e s =
     (case e of
        Checked n (Answered res) \<Rightarrow>
          if n < length (fg_pending s) \<and> an_status res = ''ok''
          then (case fg_pending s ! n of Verified v \<Rightarrow> [v] | VerifiedFor v pw \<Rightarrow> [v] | _ \<Rightarrow> [])
          else []
      | _ \<Rightarrow> [])"

fun confirmations :: "crypto \<Rightarrow> string \<Rightarrow> forget_event list \<Rightarrow> forget_page \<Rightarrow> verification list" where
  "confirmations c w [] s = []"
| "confirmations c w (e # es) s = confirmed e s @ confirmations c w es (forget_do c w e s)"

section \<open>Passwords are set for the user whose code was verified\<close>

text \<open>An orderly user waits for the answer before a form is changed or submitted again.\<close>

definition orderly :: "forget_event \<Rightarrow> forget_page \<Rightarrow> bool" where
  "orderly e s = (case e of Contacts n r \<Rightarrow> True | Checked n r \<Rightarrow> True | _ \<Rightarrow> fg_pending s = [])"

fun orderly_run :: "crypto \<Rightarrow> string \<Rightarrow> forget_event list \<Rightarrow> forget_page \<Rightarrow> bool" where
  "orderly_run c w [] s = True"
| "orderly_run c w (e # es) s = (orderly e s \<and> orderly_run c w es (forget_do c w e s))"

definition by_link :: "forget_page \<Rightarrow> bool" where
  "by_link s \<longleftrightarrow> js_truthy (usp_get (fg_query s) ''code'')"

definition matches :: "string option \<Rightarrow> string option \<Rightarrow> verification \<Rightarrow> bool" where
  "matches name code v \<longleftrightarrow> vc_name v = name \<and> vc_code v = code"

fun request_verified :: "verification list \<Rightarrow> forget_request \<Rightarrow> bool" where
  "request_verified V (AskSetPassword np) = list_ex (matches (np_userName np) (np_code np)) V"
| "request_verified V rq = True"

fun waits_ok :: "forget_pending list \<Rightarrow> nat \<Rightarrow> string option \<Rightarrow> string \<Rightarrow> string option \<Rightarrow> bool" where
  "waits_ok [] step name typed code = True"
| "waits_ok [EmailAndPhone] step name typed code = (step = 0)"
| "waits_ok [Verified v] step name typed code = (step = 1 \<and> matches name (Some typed) v)"
| "waits_ok [VerifiedFor v pw] step name typed code = (step = 2 \<and> matches name code v)"
| "waits_ok [PasswordSet] step name typed code = (step = 2)"
| "waits_ok (k # l # ks) step name typed code = False"

definition waiting_ok :: "forget_page \<Rightarrow> bool" where
  "waiting_ok s = waits_ok (fg_pending s) (fg_current s) (fg_name s) (fg_formCode s) (fg_code s)"

definition forget_ok :: "verification list \<Rightarrow> forget_page \<Rightarrow> bool" where
  "forget_ok V s \<longleftrightarrow> waiting_ok s \<and> list_all (request_verified V) (fg_requests s)
     \<and> (fg_current s = 2 \<and> \<not> by_link s \<longrightarrow> list_ex (matches (fg_name s) (fg_code s)) V)"

lemma request_verified_more: "request_verified V rq \<Longrightarrow> request_verified (V @ W) rq"
  by (cases rq) auto

lemma forget_ok_more: "forget_ok V s \<Longrightarrow> forget_ok (V @ W) s"
  by (auto simp: forget_ok_def list_all_iff request_verified_more)

lemma setPassword_ok:
  assumes "list_ex (matches (fg_name s) (fg_code s)) V" "list_all (request_verified V) (fg_requests s)"
    "fg_pending s = []" "fg_current s = 2"
  shows "forget_ok V (setPassword_of c pw s)"
  using assms by (auto simp: setPassword_of_def fg_send_def fg_show_def forget_ok_def waiting_ok_def Let_def
      split: option.split prod.split)

lemma idle_waiting: "fg_pending s = [] \<Longrightarrow> waiting_ok s"
  by (simp add: waiting_ok_def)

lemma drop_pending_simps [simp]:
  "fg_current (drop_pending n s) = fg_current s" "fg_name (drop_pending n s) = fg_name s" "fg_code (drop_pending n s) = fg_code s"
  "fg_formCode (drop_pending n s) = fg_formCode s" "fg_requests (drop_pending n s) = fg_requests s"
  "by_link (drop_pending n s) = by_link s"
  by (simp_all add: drop_pending_def by_link_def)

lemma forget_ok_effects [simp]: "forget_ok V (s\<lparr>fg_effects := x\<rparr>) = forget_ok V s"
  by (simp add: forget_ok_def waiting_ok_def by_link_def)

lemma forget_ok_show [simp]: "forget_ok V (fg_show m s) = forget_ok V s"
  by (simp add: fg_show_def)

lemma contacts_frame:
  assumes "fg_pending s = []" "fg_current s = 0" "list_all (request_verified V) (fg_requests s)"
  shows "forget_ok V (contactsAnswered r s)"
  using assms
  by (auto simp: contactsAnswered_def saveFields_def fg_show_def forget_ok_def waiting_ok_def Let_def split: replied.split)

lemma onFinish_ok:
  assumes "forget_ok V s" "fg_pending s = []" "fg_current s = 2"
  shows "forget_ok V (forget_onFinish c pw s)"
proof (cases "by_link s")
  case True
  then show ?thesis
    using assms by (auto simp: forget_onFinish_def by_link_def ask_verification_def fg_send_def forget_ok_def waiting_ok_def matches_def
        split: option.split)
next
  case False
  then have "forget_onFinish c pw s = setPassword_of c pw s" by (simp add: forget_onFinish_def by_link_def)
  moreover have "forget_ok V (setPassword_of c pw s)"
    using False assms by (intro setPassword_ok) (simp_all add: forget_ok_def)
  ultimately show ?thesis by simp
qed

text \<open>In an orderly run at most one continuation waits, so an answer is for that one.\<close>

lemma single_pending:
  assumes "waiting_ok s" "n < length (fg_pending s)"
  shows "n = 0 \<and> fg_pending s = [fg_pending s ! 0] \<and> fg_pending (drop_pending n s) = []"
proof (cases "fg_pending s")
  case (Cons k ks)
  then have "ks = []" using assms(1) by (cases k; cases ks) (auto simp: waiting_ok_def)
  then show ?thesis using Cons assms(2) by (simp add: drop_pending_def)
qed (use assms in simp)

lemma checked_ok:
  assumes "forget_ok V s"
  shows "forget_ok (V @ confirmed (Checked n r) s) (forget_do c w (Checked n r) s)"
proof (cases "n < length (fg_pending s)")
  case True
  let ?s = "drop_pending n s"
  have wait: "waiting_ok s" "list_all (request_verified V) (fg_requests s)" "fg_current s = 2 \<and> \<not> by_link s \<longrightarrow> list_ex (matches (fg_name s) (fg_code s)) V"
    using assms by (simp_all add: forget_ok_def)
  from single_pending [OF wait(1) True] obtain k where k: "n = 0" "fg_pending s = [k]" "fg_pending ?s = []" by blast
  have frame: "forget_ok V ?s"
    using wait idle_waiting [OF k(3)] by (simp add: forget_ok_def)
  show ?thesis
  proof (cases k)
    case EmailAndPhone
    then show ?thesis using assms k by (simp add: confirmed_def forget_ok_more split: replied.split)
  next
    case (Verified v)
    then have v: "matches (fg_name s) (Some (fg_formCode s)) v" using wait(1) k(2) by (simp add: waiting_ok_def)
    have "forget_ok (V @ [v]) (?s\<lparr>fg_current := 2, fg_code := Some (fg_formCode ?s)\<rparr>)"
      using v wait(2) k(3) by (auto simp: forget_ok_def idle_waiting list_all_iff request_verified_more)
    then show ?thesis
      using Verified k frame by (auto simp: codeVerified_def confirmed_def split: replied.split)
  next
    case (VerifiedFor v pw)
    then have v: "fg_current s = 2" "matches (fg_name s) (fg_code s) v" using wait(1) k(2) by (simp_all add: waiting_ok_def)
    have "forget_ok (V @ [v]) (setPassword_of c pw ?s)"
      using v wait(2) k(3) by (intro setPassword_ok) (auto simp: list_all_iff request_verified_more)
    then show ?thesis
      using VerifiedFor k frame by (auto simp: linkVerified_def confirmed_def split: replied.split)
  next
    case PasswordSet
    have "forget_ok V (passwordSet w r ?s)"
      using frame by (simp add: passwordSet_def split: replied.split option.split list.split)
    then show ?thesis using PasswordSet k by (simp add: confirmed_def forget_ok_more split: replied.split)
  qed
qed (simp add: assms confirmed_def forget_ok_more split: replied.split)

lemma event_ok:
  assumes "forget_ok V s" "orderly e s"
  shows "forget_ok (V @ confirmed e s) (forget_do c w e s)"
proof (cases e)
  case (Checked n r)
  then show ?thesis using checked_ok [OF assms(1)] by simp
next
  case (Contacts n r)
  have "forget_ok V (contactsAnswered r (drop_pending n s))" if "n < length (fg_pending s)" "fg_pending s ! n = EmailAndPhone"
  proof -
    have "waiting_ok s" using assms(1) by (simp add: forget_ok_def)
    from single_pending [OF this that(1)] that(2) have "n = 0" "fg_pending s = [EmailAndPhone]" "fg_pending (drop_pending n s) = []" by auto
    with assms(1) show ?thesis by (intro contacts_frame) (auto simp: forget_ok_def waiting_ok_def)
  qed
  then show ?thesis using assms(1) Contacts by (simp add: confirmed_def)
next
  case (SubmitPassword pw)
  then show ?thesis using assms onFinish_ok by (simp add: confirmed_def orderly_def)
qed (use assms in \<open>auto simp: confirmed_def orderly_def forget_ok_def waiting_ok_def by_link_def forget_step1_def forget_step2_def
    choose_dest_def type_code_def fg_send_def ask_verification_def matches_def split: option.split\<close>)

lemma run_ok:
  assumes "forget_ok V s" "orderly_run c w es s"
  shows "forget_ok (V @ confirmations c w es s) (forget_run c w es s)"
  using assms
proof (induction es arbitrary: V s)
  case (Cons e es)
  then show ?case using event_ok [of V s e c w] by fastforce
qed simp

text \<open>
  C6. A new password is set only for a user whose code was verified. In every orderly run of the page
  for a forgotten password from the start, whatever the server answers and whether the page was
  reached with a code in a link or not, every request for a new password names a user and carries a
  code that the server has confirmed together in this run. This is what the server asks for before it
  changes the password.
\<close>

theorem new_password_verified:
  assumes "orderly_run c w es (new_forget account application b)"
    and "AskSetPassword np \<in> set (fg_requests (forget_run c w es (new_forget account application b)))"
  shows "\<exists>v \<in> set (confirmations c w es (new_forget account application b)).
    vc_name v = np_userName np \<and> vc_code v = np_code np"
proof -
  have "forget_ok [] (new_forget account application b)"
    by (auto simp: forget_ok_def waiting_ok_def new_forget_def by_link_def Let_def)
  from run_ok [OF this assms(1)] assms(2) show ?thesis
    by (force simp: forget_ok_def list_all_iff list_ex_iff matches_def)
qed

definition mail_app :: forget_application where
  "mail_app = \<lparr>fa_app = empty_application\<lparr>app_name := ''app'', app_organization := ''org-1'',
       app_providers := Some [\<lparr>pi_name = ''mail'', pi_provider = Some (empty_provider\<lparr>pr_category := ''Email''\<rparr>),
         pi_canSignUp = False, pi_canSignIn = False, pi_prompted = False, pi_rule = []\<rparr>]\<rparr>,
     fa_organizationObj = Some \<lparr>fo_name = ''org-1'', fo_obfuscatorType = Some ''Plain'', fo_obfuscatorKey = None\<rparr>\<rparr>"

definition mail_page :: forget_page where
  "mail_page = new_forget None (Some (Some mail_app)) (fresh_browser ''https://a'' ''/forget/app'' [])"

definition contacts_of :: "string \<Rightarrow> contact_answer replied" where
  "contacts_of name = Answered \<lparr>ca_status = ''ok'', ca_msg = [], ca_name = name, ca_phone = [], ca_email = name @ ''@example.com'',
     ca_typed = ''username''\<rparr>"

definition code_ok :: "answer replied" where
  "code_ok = Answered \<lparr>an_status = ''ok'', an_msg = [], an_data = JNull\<rparr>"

definition plain_crypto :: crypto where
  "plain_crypto = \<lparr>cr_aes = (\<lambda>k iv p. p), cr_des = (\<lambda>k iv p. p), cr_iv16 = [], cr_iv8 = []\<rparr>"

definition recovery :: "forget_event list" where
  "recovery = [NameUser ''org-1'' ''ann'', Contacts 0 (contacts_of ''ann''), TypeCode ''123456'', SubmitCode, Checked 0 code_ok,
     SubmitPassword ''secret'']"

definition recovered :: new_password where
  "recovered = \<lparr>np_userOwner = ''org-1'', np_userName = Some ''ann'', np_newPassword = ''secret'', np_code = Some ''123456''\<rparr>"

theorem new_password_verified_witness:
  "AskSetPassword recovered \<in> set (fg_requests (forget_run plain_crypto [] recovery mail_page))
   \<and> list_ex (\<lambda>v. vc_name v = Some ''ann'' \<and> vc_code v = Some ''123456'') (confirmations plain_crypto [] recovery mail_page)"
proof -
  have "orderly_run plain_crypto [] recovery mail_page" by code_simp
  moreover have sent: "AskSetPassword recovered \<in> set (fg_requests (forget_run plain_crypto [] recovery mail_page))" by code_simp
  moreover have "np_userName recovered = Some ''ann''" "np_code recovered = Some ''123456''" by (simp_all add: recovered_def)
  ultimately show ?thesis
    using new_password_verified [of plain_crypto "[]" recovery None "Some (Some mail_app)" "fresh_browser ''https://a'' ''/forget/app'' []" recovered]
    unfolding mail_page_def [symmetric] by (auto simp: list_ex_iff)
qed

text \<open>
  Without the order the pair may differ: two users are named one after the other, the answer for the
  second one comes between the verification for the first and its answer, and the new password is
  sent for the second user with the code of the first. The server refuses it.
\<close>

definition confused :: "forget_event list" where
  "confused = [NameUser ''org-1'' ''ann'', NameUser ''org-1'' ''bob'', Contacts 0 (contacts_of ''ann''), TypeCode ''123456'', SubmitCode,
     Contacts 0 (contacts_of ''bob''), Checked 0 code_ok, SubmitPassword ''secret'']"

lemma second_user_named:
  "AskSetPassword (recovered\<lparr>np_userName := Some ''bob''\<rparr>) \<in> set (fg_requests (forget_run plain_crypto [] confused mail_page))
   \<and> map vc_name (confirmations plain_crypto [] confused mail_page) = [Some ''ann'']"
proof -
  have "AskSetPassword (recovered\<lparr>np_userName := Some ''bob''\<rparr>) \<in> set (fg_requests (forget_run plain_crypto [] confused mail_page))"
    by code_simp
  moreover have "map vc_name (confirmations plain_crypto [] confused mail_page) = [Some ''ann'']" by code_simp
  ultimately show ?thesis by simp
qed

end
