(* ===== verification/Signup_Page.thy ===== *)
theory Signup_Page
  imports Login_Page
begin

text \<open>
  The page for signing up (\<open>web/src/auth/SignupPage.js\<close>): the application and the invitation it reads, the
  submission with its captcha and what follows the answer. The items of the form are not modelled. An
  exception inside a handler ends it.
\<close>

section \<open>State\<close>

datatype signup_pending =
    SignupApplication
  | SignupApplicationLogin
  | InvitationInfo
  | SignupCaptcha vals
  | SignedUp vals "oauth_params option"
  | SignupAccount vals

record signup_page =
  su_applicationName :: "string option"
  su_email :: string
  su_phone :: string
  su_validEmail :: bool
  su_validPhone :: bool
  su_invitationCode :: "string option"
  su_invitation :: jsval
  su_msg :: "string option"
  su_openCaptchaModal :: bool
  su_values :: vals
  su_application :: "application option option"
  su_browser :: browser
  su_pending :: "signup_pending list"
  su_requests :: "api_request list"
  su_effects :: "effect list"

type_synonym sact = "signup_page \<Rightarrow> signup_page"

definition new_signup :: "string option \<Rightarrow> application option option \<Rightarrow> browser \<Rightarrow> signup_page" where
  "new_signup applicationName application b =
     \<lparr>su_applicationName = applicationName, su_email = [], su_phone = [], su_validEmail = False, su_validPhone = False,
      su_invitationCode = None, su_invitation = JUndefined, su_msg = None, su_openCaptchaModal = False, su_values = [],
      su_application = application, su_browser = b, su_pending = [], su_requests = [], su_effects = []\<rparr>"

definition su_app :: "signup_page \<Rightarrow> application option" where
  "su_app s = (case su_application s of Some a \<Rightarrow> a | None \<Rightarrow> None)"

definition su_do :: "effect \<Rightarrow> sact" where
  "su_do e s = s\<lparr>su_effects := su_effects s @ [e]\<rparr>"

definition su_ask :: "api_request \<Rightarrow> signup_pending \<Rightarrow> sact" where
  "su_ask rq k s = s\<lparr>su_requests := su_requests s @ [rq], su_pending := su_pending s @ [k]\<rparr>"

definition su_error :: "string \<Rightarrow> sact" where
  "su_error msg = su_do (Message ''error'' msg)"

definition su_update :: "application option \<Rightarrow> sact" where
  "su_update a s = s\<lparr>su_application := Some a\<rparr>"

section \<open>Opening the page\<close>

definition setInvitationCode :: "application option \<Rightarrow> sact" where
  "setInvitationCode application s =
     (case usp_get (URLSearchParams (br_search (su_browser s))) ''invitationCode'' of
        None \<Rightarrow> s
      | Some code \<Rightarrow>
          let s1 = s\<lparr>su_invitationCode := Some code\<rparr> in
          if code \<noteq> []
          then su_ask (api_getInvitationCodeInfo code
                 (''admin/'' @ (case application of Some a \<Rightarrow> app_name a | None \<Rightarrow> js_null_str (su_applicationName s)))) InvitationInfo s1
          else s1)"

text \<open>\<open>pathname.replace("/signup/oauth/authorize", "/login/oauth/authorize")\<close>, the first occurrence.\<close>

definition signin_path :: "string \<Rightarrow> string" where
  "signin_path path =
     (case find_sub ''/signup/oauth/authorize'' path of
        None \<Rightarrow> path | Some (a, b) \<Rightarrow> a @ ''/login/oauth/authorize'' @ b)"

definition signup_componentDidMount :: sact where
  "signup_componentDidMount s =
     (case getOAuthGetParameters (su_browser s) None of
        Throw e \<Rightarrow> s
      | Return ps \<Rightarrow>
          let s1 = (if ps \<noteq> None then s\<lparr>su_browser := set_session ''signinUrl''
                      (signin_path (br_pathname (su_browser s)) @ br_search (su_browser s)) (su_browser s)\<rparr> else s) in
          if su_application s1 \<noteq> None then s1
          else case su_applicationName s1 of
            Some name \<Rightarrow> setInvitationCode None (su_ask (api_getApplication ''admin'' name) SignupApplication s1)
          | None \<Rightarrow>
              if ps \<noteq> None then su_ask (api_getApplicationLogin (OAuthParams ps)) SignupApplicationLogin s1
              else su_update None (su_error ''general:Unknown application name: null'' s1))"

record signup_app_answer =
  ua_status :: string
  ua_msg :: string
  ua_application :: "application option"

definition signupApplicationAnswered :: "signup_app_answer replied \<Rightarrow> sact" where
  "signupApplicationAnswered r s =
     (case r of
        NoAnswer err \<Rightarrow> s
      | Answered res \<Rightarrow> if ua_status res = ''error'' then su_error (ua_msg res) s else su_update (ua_application res) s)"

definition signupLoginAnswered :: "signup_app_answer replied \<Rightarrow> sact" where
  "signupLoginAnswered r s =
     (case r of
        NoAnswer err \<Rightarrow> s
      | Answered res \<Rightarrow>
          if ua_status res = ''ok'' then setInvitationCode (ua_application res) (su_update (ua_application res) s)
          else (su_update None s)\<lparr>su_msg := Some (ua_msg res)\<rparr>)"

definition invitationAnswered :: "answer replied \<Rightarrow> sact" where
  "invitationAnswered r s =
     (case r of
        NoAnswer err \<Rightarrow> s
      | Answered res \<Rightarrow>
          if an_status res = ''error'' then su_error (an_msg res) s
          else let d = an_data res; s1 = s\<lparr>su_invitation := d\<rparr>;
                   s2 = (if js_bool (field d ''email'') then s1\<lparr>su_validEmail := True, su_email := js_text (field d ''email'')\<rparr> else s1) in
            if js_bool (field d ''phone'') then s2\<lparr>su_validPhone := True, su_phone := js_text (field d ''phone'')\<rparr> else s2)"

section \<open>Submitting\<close>

text \<open>\<open>if (Array.isArray(values[k])) {values[k] = values[k].join(", ")}\<close>.\<close>

definition join_choices :: "string \<Rightarrow> vals \<Rightarrow> vals" where
  "join_choices k vs =
     (case prop_of vs k of
        JArr xs \<Rightarrow> put k (JStr (js_join '', '' (map (\<lambda>x. if x = JUndefined \<or> x = JNull then [] else js_text x) xs))) vs
      | _ \<Rightarrow> vs)"

definition null_val :: "string option \<Rightarrow> jsval" where
  "null_val v = (case v of None \<Rightarrow> JNull | Some t \<Rightarrow> JStr t)"

definition signup_values :: "signup_page \<Rightarrow> vals \<Rightarrow> vals" where
  "signup_values s vs =
     (let v1 = join_choices ''education'' (join_choices ''tag'' (join_choices ''bio'' (join_choices ''gender'' vs)));
          v2 = (if js_truthy (su_invitationCode s) \<and> \<not> js_bool (prop_of v1 ''invitationCode'')
                then put ''invitationCode'' (opt_val (su_invitationCode s)) v1 else v1);
          q = URLSearchParams (br_search (su_browser s)) in
      put ''pricing'' (null_val (usp_get q ''pricing'')) (put ''plan'' (null_val (usp_get q ''plan'')) v2))"

definition submitSignup :: "vals \<Rightarrow> sact" where
  "submitSignup vs s =
     (case getOAuthGetParameters (su_browser s) None of
        Throw e \<Rightarrow> s
      | Return ps \<Rightarrow> su_ask (api_signup (JObj vs) ps) (SignedUp vs ps) s)"

definition signup_open_captcha :: "vals \<Rightarrow> sact" where
  "signup_open_captcha vs s = s\<lparr>su_openCaptchaModal := True, su_values := vs\<rparr>"

definition signup_onFinish :: "vals \<Rightarrow> sact" where
  "signup_onFinish vs s =
     (let v = signup_values s vs; rule = getCaptchaRule (su_app s) in
      if rule = ''Always'' then signup_open_captcha v s
      else if rule = ''Dynamic'' \<or> rule = ''Internet-Only'' then su_ask (api_getCaptchaStatus v) (SignupCaptcha v) s
      else submitSignup v s)"

definition signupCaptchaAnswered :: "vals \<Rightarrow> signin_answer replied \<Rightarrow> sact" where
  "signupCaptchaAnswered vs r s =
     (case r of
        NoAnswer err \<Rightarrow> s
      | Answered res \<Rightarrow> if an_status res = ''ok'' \<and> js_bool (an_data res) then signup_open_captcha vs s else submitSignup vs s)"

definition signup_captcha_onOk :: "string \<Rightarrow> string \<Rightarrow> string \<Rightarrow> sact" where
  "signup_captcha_onOk ty tok sec s =
     (submitSignup (put ''clientSecret'' (JStr sec) (put ''captchaToken'' (JStr tok) (put ''captchaType'' (JStr ty) (su_values s)))) s)
       \<lparr>su_openCaptchaModal := False\<rparr>"

definition signup_captcha_onCancel :: sact where
  "signup_captcha_onCancel s = s\<lparr>su_openCaptchaModal := False\<rparr>"

section \<open>After the answer\<close>

definition paid :: "vals \<Rightarrow> bool" where
  "paid vs \<longleftrightarrow> js_bool (prop_of vs ''plan'') \<and> js_bool (prop_of vs ''pricing'')"

definition getResultPath :: "string \<Rightarrow> browser \<Rightarrow> application \<Rightarrow> vals \<Rightarrow> string result" where
  "getResultPath appName b a vs =
     (if paid vs
      then Return (''/buy-plan/'' @ app_organization a @ ''/'' @ val_text vs ''pricing'' @ ''?user='' @ val_text vs ''username''
             @ ''&plan='' @ val_text vs ''plan'')
      else if appName = app_name a then Return ''/result''
      else bind_result (getOAuthGetParameters b None) (\<lambda>ps.
        Return (if hasPromptPage a then ''/prompt/'' @ app_name a @ ''?oauth='' @ (if ps \<noteq> None then ''true'' else ''false'')
                else ''/result/'' @ app_name a)))"

definition go_to_result :: "string \<Rightarrow> vals \<Rightarrow> sact" where
  "go_to_result appName vs s =
     (case su_app s of
        None \<Rightarrow> s
      | Some a \<Rightarrow> (case getResultPath appName (su_browser s) a vs of Throw e \<Rightarrow> s | Return path \<Rightarrow> su_do (HistoryPush path) s))"

text \<open>The name in the identifier \<open>owner/name\<close> that the server returns.\<close>

definition named_by :: "jsval \<Rightarrow> vals \<Rightarrow> vals" where
  "named_by data vs =
     (case data of
        JStr t \<Rightarrow> put ''username'' (case js_split t ''/'' of x # y # ys \<Rightarrow> JStr y | _ \<Rightarrow> JUndefined) vs
      | _ \<Rightarrow> vs)"

definition signup_done :: "string \<Rightarrow> vals \<Rightarrow> sact" where
  "signup_done appName vs s =
     (case su_app s of
        None \<Rightarrow> s
      | Some a \<Rightarrow> if hasPromptPage a \<and> \<not> paid vs then su_ask (api_getAccount []) (SignupAccount vs) s else go_to_result appName vs s)"

definition signedUp :: "string \<Rightarrow> vals \<Rightarrow> oauth_params option \<Rightarrow> answer replied \<Rightarrow> sact" where
  "signedUp appName vs ps r s =
     (case r of
        NoAnswer err \<Rightarrow> s
      | Answered res \<Rightarrow>
          if an_status res \<noteq> ''ok'' then su_error (an_msg res) s
          else case (ps, an_data res) of
            (Some p, JStr (c # cs)) \<Rightarrow>
              if CHR ''/'' \<notin> set (c # cs) then su_do (GoToLink (loginCodeLink p (c # cs))) s
              else signup_done appName (named_by (an_data res) vs) s
          | (Some p, JObj fs) \<Rightarrow>
              if prop_of fs ''required'' = JBool True
              then (case su_app s of
                      None \<Rightarrow> s
                    | Some a \<Rightarrow> su_do (GoToLink (''/consent/'' @ app_name a @ ''?'' @ drop 1 (br_search (su_browser s)))) s)
              else signup_done appName vs s
          | _ \<Rightarrow> signup_done appName (named_by (an_data res) vs) s)"

definition signupAccountAnswered :: "string \<Rightarrow> vals \<Rightarrow> account_answer replied \<Rightarrow> sact" where
  "signupAccountAnswered appName vs r s =
     (case r of
        NoAnswer err \<Rightarrow> s
      | Answered res \<Rightarrow>
          if aa_status res = ''ok''
          then (case aa_account res of None \<Rightarrow> s | Some account \<Rightarrow> go_to_result appName vs s)
          else su_error (''application:Failed to sign in: '' @ aa_msg res) s)"

section \<open>Runs\<close>

datatype signup_event =
    SignUp vals
  | SolveCaptcha string string string
  | CancelCaptcha
  | CaptchaNeeded nat "signin_answer replied"
  | SignupAnswer nat "answer replied"
  | SignupAccountAnswer nat "account_answer replied"

definition su_drop :: "nat \<Rightarrow> sact" where
  "su_drop n s = s\<lparr>su_pending := take n (su_pending s) @ drop (Suc n) (su_pending s)\<rparr>"

fun signup_do :: "string \<Rightarrow> signup_event \<Rightarrow> sact" where
  "signup_do w (SignUp vs) s = signup_onFinish vs s"
| "signup_do w (SolveCaptcha ty tok sec) s = (if su_openCaptchaModal s then signup_captcha_onOk ty tok sec s else s)"
| "signup_do w CancelCaptcha s = signup_captcha_onCancel s"
| "signup_do w (CaptchaNeeded n r) s =
     (if n < length (su_pending s)
      then (case su_pending s ! n of SignupCaptcha vs \<Rightarrow> signupCaptchaAnswered vs r (su_drop n s) | _ \<Rightarrow> s) else s)"
| "signup_do w (SignupAnswer n r) s =
     (if n < length (su_pending s)
      then (case su_pending s ! n of SignedUp vs ps \<Rightarrow> signedUp w vs ps r (su_drop n s) | InvitationInfo \<Rightarrow> invitationAnswered r (su_drop n s) | _ \<Rightarrow> s)
      else s)"
| "signup_do w (SignupAccountAnswer n r) s =
     (if n < length (su_pending s)
      then (case su_pending s ! n of SignupAccount vs \<Rightarrow> signupAccountAnswered w vs r (su_drop n s) | _ \<Rightarrow> s) else s)"

fun signup_run :: "string \<Rightarrow> signup_event list \<Rightarrow> sact" where
  "signup_run w [] s = s"
| "signup_run w (e # es) s = signup_run w es (signup_do w e s)"

section \<open>The captcha of a sign-up\<close>

text \<open>
  Values of the form do not have the fields of the captcha. The request to sign up is made with values
  that have them, or no captcha is needed: the rule is not \<open>Always\<close>.
\<close>

definition with_captcha :: "jsval \<Rightarrow> bool" where
  "with_captcha v = (\<exists>tok. field v ''captchaToken'' = JStr tok)"

definition captcha_kept :: "application \<Rightarrow> signup_page \<Rightarrow> bool" where
  "captcha_kept a s \<longleftrightarrow> su_application s = Some (Some a)
     \<and> list_all (\<lambda>rq. case rq_body rq of Some v \<Rightarrow> with_captcha v | None \<Rightarrow> True) (su_requests s)
     \<and> list_all (\<lambda>k. case k of SignupCaptcha vs \<Rightarrow> False | _ \<Rightarrow> True) (su_pending s)"

lemma kept_do [simp]: "captcha_kept a (su_do e s) = captcha_kept a s" "captcha_kept a (su_error m s) = captcha_kept a s"
  by (simp_all add: captcha_kept_def su_do_def su_error_def)

lemma kept_ask: "captcha_kept a s \<Longrightarrow> (case rq_body rq of Some v \<Rightarrow> with_captcha v | None \<Rightarrow> True)
    \<Longrightarrow> (case k of SignupCaptcha vs \<Rightarrow> False | _ \<Rightarrow> True) \<Longrightarrow> captcha_kept a (su_ask rq k s)"
  by (simp add: captcha_kept_def su_ask_def)

lemma kept_drop: "captcha_kept a s \<Longrightarrow> captcha_kept a (su_drop n s)"
  by (auto simp: captcha_kept_def su_drop_def list_all_iff dest: in_set_takeD in_set_dropD)

lemma kept_signup_done: "captcha_kept a s \<Longrightarrow> captcha_kept a (signup_done w vs s)"
  by (auto simp: signup_done_def go_to_result_def api_getAccount_def api_fetch_def intro!: kept_ask split: option.split sum.split)

lemma kept_signedUp: "captcha_kept a s \<Longrightarrow> captcha_kept a (signedUp w vs ps r s)"
  by (auto simp: signedUp_def intro!: kept_signup_done split: replied.split option.split jsval.split list.split)

lemma kept_submit:
  "captcha_kept a s \<Longrightarrow> with_captcha (JObj vs) \<Longrightarrow> captcha_kept a (submitSignup vs s)"
  by (auto simp: submitSignup_def api_signup_def api_fetch_def intro!: kept_ask split: sum.split)

lemma kept_event:
  assumes "getCaptchaRule (Some a) = ''Always''" "captcha_kept a s"
  shows "captcha_kept a (signup_do w e s)"
proof (cases e)
  case (SignUp vs)
  then show ?thesis
    using assms by (simp add: signup_onFinish_def signup_open_captcha_def captcha_kept_def su_app_def Let_def)
next
  case (SolveCaptcha ty tok sec)
  let ?v = "put ''clientSecret'' (JStr sec) (put ''captchaToken'' (JStr tok) (put ''captchaType'' (JStr ty) (su_values s)))"
  have "captcha_kept a (submitSignup ?v s)"
    by (rule kept_submit [OF assms(2)]) (simp add: with_captcha_def)
  then have "captcha_kept a ((submitSignup ?v s)\<lparr>su_openCaptchaModal := False\<rparr>)" by (simp add: captcha_kept_def)
  then show ?thesis using SolveCaptcha assms(2) by (simp add: signup_captcha_onOk_def)
next
  case CancelCaptcha
  then show ?thesis using assms(2) by (simp add: signup_captcha_onCancel_def captcha_kept_def)
next
  case (CaptchaNeeded n r)
  have "\<not> (\<exists>vs. su_pending s ! n = SignupCaptcha vs)" if "n < length (su_pending s)"
    using assms(2) that by (auto simp: captcha_kept_def list_all_length split: signup_pending.splits)
  then show ?thesis using CaptchaNeeded assms(2) by (auto split: signup_pending.split)
next
  case (SignupAnswer n r)
  have "captcha_kept a (invitationAnswered r (su_drop n s))"
    using kept_drop [OF assms(2), of n] by (auto simp: invitationAnswered_def captcha_kept_def su_error_def su_do_def Let_def split: replied.split)
  then show ?thesis
    using SignupAnswer assms(2) kept_signedUp [OF kept_drop [OF assms(2)]] by (auto split: signup_pending.split)
next
  case (SignupAccountAnswer n r)
  have "captcha_kept a (signupAccountAnswered w vs r (su_drop n s))" for vs
    using kept_drop [OF assms(2), of n] by (auto simp: signupAccountAnswered_def go_to_result_def split: replied.split option.split sum.split)
  then show ?thesis using SignupAccountAnswer assms(2) by (auto split: signup_pending.split)
qed

text \<open>
  When the application asks for a captcha always, every request to sign up carries the token of the
  dialogue, in every run of the page.
\<close>

lemma signup_with_captcha:
  assumes "getCaptchaRule (Some a) = ''Always''" "captcha_kept a s" "rq \<in> set (su_requests (signup_run w es s))" "rq_body rq = Some v"
  shows "with_captcha v"
proof -
  have "captcha_kept a (signup_run w es s)"
    using assms(1,2) by (induction es arbitrary: s) (simp_all add: kept_event)
  with assms(3,4) show ?thesis by (auto simp: captcha_kept_def list_all_iff)
qed

text \<open>A user with a plan goes to the page where it is bought, everybody else to the prompt or the result.\<close>

lemma paid_goes_to_plan:
  assumes "su_app s = Some a" "paid (named_by d vs)" "an_status res = ''ok''" "an_data res = d" "ps = None"
  shows "su_effects (signedUp w vs ps (Answered res) s) = su_effects s @ [HistoryPush (''/buy-plan/'' @ app_organization a @ ''/''
    @ val_text (named_by d vs) ''pricing'' @ ''?user='' @ val_text (named_by d vs) ''username'' @ ''&plan='' @ val_text (named_by d vs) ''plan'')]"
  using assms by (simp add: signedUp_def signup_done_def go_to_result_def getResultPath_def su_do_def)

end
