(* ===== verification/Prompt_Page.thy ===== *)
theory Prompt_Page
  imports Login_Page
begin

text \<open>
  The page that asks a new user for what the application still wants to know
  (\<open>web/src/auth/PromptPage.js\<close>): providers to link, the country, the affiliation. React runs
  \<open>componentDidUpdate\<close> after every change of the state; it makes the steps of the page once, when the
  user and the application are known, and the elements it makes are kept in the state.
\<close>

section \<open>State\<close>

datatype prompt_request =
    ReadUser string string
  | ReadApplication string string
  | WriteUser string string account
  | EndSession

datatype prompt_pending = UserRead | ApplicationRead | UserWritten bool | SessionEnded

text \<open>A step holds its name, and of its button whether it is enabled.\<close>

record prompt_step =
  ps_name :: string
  ps_enabled :: bool

record prompt_page =
  pp_account :: "account option"
  pp_applicationName :: "string option"
  pp_props :: "application option option"
  pp_application :: "application option"
  pp_user :: "account option"
  pp_steps :: "prompt_step list option"
  pp_finished :: bool
  pp_browser :: browser
  pp_pending :: "prompt_pending list"
  pp_requests :: "prompt_request list"
  pp_effects :: "effect list"

type_synonym pact = "prompt_page \<Rightarrow> prompt_page"

definition new_prompt :: "account option \<Rightarrow> string option \<Rightarrow> application option option \<Rightarrow> browser \<Rightarrow> prompt_page" where
  "new_prompt account applicationName props b =
     \<lparr>pp_account = account, pp_applicationName = applicationName, pp_props = props, pp_application = None, pp_user = None,
      pp_steps = None, pp_finished = False, pp_browser = b, pp_pending = [], pp_requests = [], pp_effects = []\<rparr>"

definition pp_app :: "prompt_page \<Rightarrow> application option" where
  "pp_app s = (case pp_props s of Some (Some a) \<Rightarrow> Some a | _ \<Rightarrow> pp_application s)"

definition pp_send :: "prompt_request \<Rightarrow> prompt_pending \<Rightarrow> pact" where
  "pp_send rq k s = s\<lparr>pp_requests := pp_requests s @ [rq], pp_pending := pp_pending s @ [k]\<rparr>"

definition pp_show :: "string \<Rightarrow> string \<Rightarrow> pact" where
  "pp_show ty msg s = s\<lparr>pp_effects := pp_effects s @ [Message ty msg]\<rparr>"

section \<open>Loading\<close>

definition prompt_getUser :: pact where
  "prompt_getUser s = (case pp_account s of None \<Rightarrow> s | Some a \<Rightarrow> pp_send (ReadUser (ac_owner a) (ac_name a)) UserRead s)"

definition prompt_getApplication :: pact where
  "prompt_getApplication s =
     (case pp_applicationName s of None \<Rightarrow> s | Some n \<Rightarrow> pp_send (ReadApplication ''admin'' n) ApplicationRead s)"

text \<open>Reading the account of a user who is not signed in throws, before the application is asked for.\<close>

definition prompt_willMount :: pact where
  "prompt_willMount s =
     (if pp_account s = None then s
      else let s1 = prompt_getUser s in if pp_app s1 = None then prompt_getApplication s1 else s1)"

record user_read =
  ur_status :: string
  ur_msg :: string
  ur_user :: "account option"

definition userRead :: "user_read replied \<Rightarrow> pact" where
  "userRead r s =
     (case r of
        NoAnswer err \<Rightarrow> s
      | Answered res \<Rightarrow> if ur_status res = ''error'' then pp_show ''error'' (ur_msg res) s else s\<lparr>pp_user := ur_user res\<rparr>)"

record application_read =
  ar_status :: string
  ar_msg :: string
  ar_application :: "application option"

definition applicationRead :: "application_read replied \<Rightarrow> pact" where
  "applicationRead r s =
     (case r of
        NoAnswer err \<Rightarrow> s
      | Answered res \<Rightarrow>
          if ar_status res = ''error'' then pp_show ''error'' (ar_msg res) s
          else s\<lparr>pp_props := Some (ar_application res), pp_application := ar_application res\<rparr>)"

text \<open>The steps are made with the user of this moment.\<close>

definition initSteps :: "account option \<Rightarrow> application \<Rightarrow> pact" where
  "initSteps user application s =
     (if \<not> hasPromptPage application then s\<lparr>pp_steps := Some []\<rparr>
      else case isPromptAnswered user application of
        Throw e \<Rightarrow> s
      | Return answered \<Rightarrow> s\<lparr>pp_steps := Some [\<lparr>ps_name = ''provider'', ps_enabled = answered\<rparr>]\<rparr>)"

definition prompt_didUpdate :: pact where
  "prompt_didUpdate s =
     (case (pp_user s, pp_app s, pp_steps s) of
        (Some u, Some a, None) \<Rightarrow> initSteps (Some u) a s
      | _ \<Rightarrow> s)"

section \<open>Answering\<close>

text \<open>\<open>user[key] = value\<close>.\<close>

definition set_user_field :: "string \<Rightarrow> string \<Rightarrow> account \<Rightarrow> account" where
  "set_user_field k v u = (if k = ''affiliation'' then u\<lparr>ac_affiliation := v\<rparr> else u\<lparr>ac_props := (ac_props u)(k \<mapsto> v)\<rparr>)"

definition updateUserFieldWithoutSubmit :: "string \<Rightarrow> string \<Rightarrow> pact" where
  "updateUserFieldWithoutSubmit k v s =
     (case pp_user s of None \<Rightarrow> s | Some u \<Rightarrow> s\<lparr>pp_user := Some (set_user_field k v u)\<rparr>)"

definition prompt_submitUserEdit :: "bool \<Rightarrow> pact" where
  "prompt_submitUserEdit isFinal s =
     (case pp_user s of None \<Rightarrow> s | Some u \<Rightarrow> pp_send (WriteUser (ac_owner u) (ac_name u) u) (UserWritten isFinal) s)"

definition prompt_updateUserField :: "string \<Rightarrow> string \<Rightarrow> pact" where
  "prompt_updateUserField k v s = prompt_submitUserEdit False (updateUserFieldWithoutSubmit k v s)"

definition getRedirectUrl :: "browser \<Rightarrow> string option" where
  "getRedirectUrl b =
     (let q = URLSearchParams (br_search b) in
      case (usp_get q ''redirectUri'', usp_get q ''code'', usp_get q ''state'') of
        (Some redirectUri, Some code, Some state) \<Rightarrow> Some (redirectUri @ ''?code='' @ code @ ''&state='' @ state)
      | _ \<Rightarrow> if usp_get q ''oauth'' = Some ''true'' then br_session b ''signinUrl'' else Some [])"

definition finishAndJump :: "string \<Rightarrow> pact" where
  "finishAndJump appName s =
     (let s1 = s\<lparr>pp_finished := True\<rparr> in
      case getRedirectUrl (pp_browser s) of
        Some (c # cs) \<Rightarrow> s1\<lparr>pp_effects := pp_effects s1 @ [GoToLink (c # cs)]\<rparr>
      | _ \<Rightarrow> s1\<lparr>pp_effects := pp_effects s1 @ br_effects (redirectToLoginPage appName (pp_app s1) ((pp_browser s1)\<lparr>br_effects := []\<rparr>))\<rparr>)"

definition userWritten :: "string \<Rightarrow> bool \<Rightarrow> answer replied \<Rightarrow> pact" where
  "userWritten appName isFinal r s =
     (if \<not> isFinal then s
      else case r of
        NoAnswer err \<Rightarrow> pp_show ''error'' (''general:Failed to connect to server: '' @ err) s
      | Answered res \<Rightarrow>
          if an_status res = ''ok'' then finishAndJump appName (pp_show ''success'' ''general:Successfully saved'' s)
          else pp_show ''error'' (an_msg res) s)"

definition prompt_logout :: pact where
  "prompt_logout = pp_send EndSession SessionEnded"

definition sessionEnded :: "answer replied \<Rightarrow> pact" where
  "sessionEnded r s =
     (case r of
        NoAnswer err \<Rightarrow> s
      | Answered res \<Rightarrow> if an_status res = ''ok'' then s\<lparr>pp_account := None\<rparr> else pp_show ''error'' (an_msg res) s)"

text \<open>\<open>unlinked\<close>: a provider was unlinked in its widget.\<close>

definition unlinked :: pact where
  "unlinked = prompt_getUser"

section \<open>Runs\<close>

datatype prompt_event =
    ChooseField string string
  | ChooseRegion string
  | Unlinked
  | PressSubmit
  | UserAnswer nat "user_read replied"
  | ApplicationAnswer nat "application_read replied"
  | WriteAnswer nat "answer replied"

definition pp_drop :: "nat \<Rightarrow> pact" where
  "pp_drop n s = s\<lparr>pp_pending := take n (pp_pending s) @ drop (Suc n) (pp_pending s)\<rparr>"

text \<open>The button and the widgets are those of the step; a button that is not enabled does nothing.\<close>

definition button_enabled :: "prompt_page \<Rightarrow> bool" where
  "button_enabled s \<longleftrightarrow> (case pp_steps s of Some (st # sts) \<Rightarrow> ps_enabled st | _ \<Rightarrow> False)"

fun prompt_handle :: "string \<Rightarrow> prompt_event \<Rightarrow> pact" where
  "prompt_handle w (ChooseField k v) s = prompt_updateUserField k v s"
| "prompt_handle w (ChooseRegion v) s = updateUserFieldWithoutSubmit ''region'' v s"
| "prompt_handle w Unlinked s = unlinked s"
| "prompt_handle w PressSubmit s = (if button_enabled s then prompt_submitUserEdit True s else s)"
| "prompt_handle w (UserAnswer n r) s = (if n < length (pp_pending s) \<and> pp_pending s ! n = UserRead then userRead r (pp_drop n s) else s)"
| "prompt_handle w (ApplicationAnswer n r) s =
     (if n < length (pp_pending s) \<and> pp_pending s ! n = ApplicationRead then applicationRead r (pp_drop n s) else s)"
| "prompt_handle w (WriteAnswer n r) s =
     (if n < length (pp_pending s)
      then (case pp_pending s ! n of UserWritten f \<Rightarrow> userWritten w f r (pp_drop n s) | SessionEnded \<Rightarrow> sessionEnded r (pp_drop n s) | _ \<Rightarrow> s)
      else s)"

fun prompt_run :: "string \<Rightarrow> prompt_event list \<Rightarrow> pact" where
  "prompt_run w [] s = s"
| "prompt_run w (e # es) s = prompt_run w es (prompt_didUpdate (prompt_handle w e s))"

section \<open>Who passes the page\<close>

lemmas prompt_defs = userRead_def applicationRead_def updateUserFieldWithoutSubmit_def prompt_submitUserEdit_def
  prompt_updateUserField_def finishAndJump_def userWritten_def sessionEnded_def unlinked_def prompt_getUser_def
  pp_send_def pp_show_def pp_drop_def

text \<open>No handler touches the steps once they are made.\<close>

lemma steps_handle [simp]: "pp_steps (prompt_handle w e s) = pp_steps s"
  by (cases e) (simp_all add: prompt_defs Let_def split: option.split replied.split prompt_pending.split list.split)

lemma steps_once: "pp_steps s = Some st \<Longrightarrow> prompt_didUpdate (prompt_handle w e s) = prompt_handle w e s"
  by (simp add: prompt_didUpdate_def split: option.split)

lemma steps_kept: "pp_steps s = Some st \<Longrightarrow> pp_steps (prompt_run w es s) = Some st"
  by (induction es arbitrary: s) (simp_all add: steps_once)

text \<open>A page on which the button is not enabled, nothing final has been sent and nothing is finished.\<close>

definition held_back :: "prompt_page \<Rightarrow> bool" where
  "held_back s \<longleftrightarrow> pp_steps s \<noteq> None \<and> \<not> button_enabled s \<and> UserWritten True \<notin> set (pp_pending s) \<and> \<not> pp_finished s"

lemma held_back_handle:
  assumes "held_back s"
  shows "held_back (prompt_handle w e s)"
proof -
  have b: "button_enabled (prompt_handle w e s) = button_enabled s" by (simp add: button_enabled_def)
  have "UserWritten True \<notin> set (pp_pending (prompt_handle w e s)) \<and> \<not> pp_finished (prompt_handle w e s)"
  proof (cases e)
    case (WriteAnswer n r)
    have "pp_pending s ! n \<noteq> UserWritten True" if "n < length (pp_pending s)"
      using assms that by (metis held_back_def nth_mem)
    then show ?thesis
      using assms WriteAnswer
      by (auto simp: prompt_defs held_back_def split: option.split replied.split prompt_pending.split dest: in_set_takeD in_set_dropD)
  qed (use assms in \<open>auto simp: prompt_defs held_back_def split: option.split replied.split dest: in_set_takeD in_set_dropD\<close>)
  with assms b show ?thesis by (simp add: held_back_def)
qed

lemma held_back_run: "held_back s \<Longrightarrow> held_back (prompt_run w es s)"
proof (induction es arbitrary: s)
  case (Cons e es)
  then obtain st where "pp_steps s = Some st" by (auto simp: held_back_def)
  with Cons held_back_handle [OF Cons.prems, of w e] show ?case by (simp add: steps_once)
qed simp

text \<open>Pressing the button of a page that is ready, with a successful answer, finishes the page.\<close>

lemma press_finishes:
  assumes "button_enabled s" "pp_user s = Some u"
  shows "pp_finished (prompt_run w [PressSubmit, WriteAnswer (length (pp_pending s)) (Answered \<lparr>an_status = ''ok'', an_msg = [], an_data = JNull\<rparr>)] s)"
proof -
  obtain st where st: "pp_steps s = Some st" using assms(1) by (auto simp: button_enabled_def split: option.splits)
  have "prompt_run w [PressSubmit, WriteAnswer (length (pp_pending s)) (Answered \<lparr>an_status = ''ok'', an_msg = [], an_data = JNull\<rparr>)] s
      = prompt_handle w (WriteAnswer (length (pp_pending s)) (Answered \<lparr>an_status = ''ok'', an_msg = [], an_data = JNull\<rparr>)) (prompt_handle w PressSubmit s)"
    by (simp only: prompt_run.simps steps_once [OF st] steps_once [of "prompt_handle w PressSubmit s" st] steps_handle st)
  then show ?thesis
    using assms by (simp add: prompt_defs Let_def split: option.split list.split)
qed

text \<open>
  C35. When the page has loaded its user and its application, the user can pass it, by whatever sequence of
  answers, choices and presses of the button, exactly when every question was already answered in the
  record that was loaded: the button is part of the steps, and the steps are made once. A country or an
  affiliation that is chosen on the page does not enable it.
\<close>

theorem prompt_passed_iff_answered_before:
  assumes "pp_user s = Some u" "pp_app s = Some a" "pp_steps s = None" "hasPromptPage a"
    "app_providers a = Some ps" "app_signupItems a = Some ss"
    "UserWritten True \<notin> set (pp_pending s)" "\<not> pp_finished s"
  shows "(\<exists>es. pp_finished (prompt_run w es (prompt_didUpdate s))) \<longleftrightarrow> list_all (answers u) (questions a)"
proof -
  let ?s = "prompt_didUpdate s" and ?ok = "list_all (answers u) (questions a)"
  have s: "?s = s\<lparr>pp_steps := Some [\<lparr>ps_name = ''provider'', ps_enabled = ?ok\<rparr>]\<rparr>"
    using assms(1-4) isPromptAnswered_questions [OF assms(5,6), of u] by (simp add: prompt_didUpdate_def initSteps_def)
  show ?thesis
  proof (cases ?ok)
    case True
    then have "button_enabled ?s" by (simp add: s button_enabled_def)
    moreover have "pp_user ?s = Some u" using assms(1) by (simp add: s)
    ultimately have "\<exists>es. pp_finished (prompt_run w es ?s)" using press_finishes [of ?s u w] by blast
    with True show ?thesis by blast
  next
    case False
    then have "held_back ?s" using assms(7,8) by (simp add: held_back_def s button_enabled_def)
    then have "\<not> pp_finished (prompt_run w es ?s)" for es using held_back_run [of ?s w es] by (simp add: held_back_def)
    with False show ?thesis by simp
  qed
qed

definition region_app :: application where
  "region_app = empty_application\<lparr>app_name := ''shop'', app_providers := Some [],
     app_signupItems := Some [\<lparr>si_name = ''Country/Region'', si_visible = True, si_prompted = True\<rparr>]\<rparr>"

definition asked_page :: prompt_page where
  "asked_page = (new_prompt (Some empty_account) (Some ''shop'') (Some (Some region_app)) (fresh_browser [] ''/prompt/shop'' []))
     \<lparr>pp_user := Some empty_account\<rparr>"

text \<open>A user without a country, of an application that asks for it, stays on the page.\<close>

theorem prompt_passed_iff_answered_before_witness:
  "\<not> pp_finished (prompt_run ''app-built-in'' [ChooseRegion ''BR'', PressSubmit, WriteAnswer 0 (Answered \<lparr>an_status = ''ok'', an_msg = [], an_data = JNull\<rparr>)]
     (prompt_didUpdate asked_page))"
proof -
  have "hasPromptPage region_app" "\<not> list_all (answers empty_account) (questions region_app)"
    by (code_simp, code_simp)
  moreover have "pp_user asked_page = Some empty_account" "pp_app asked_page = Some region_app" "pp_steps asked_page = None"
      "pp_pending asked_page = []" "\<not> pp_finished asked_page"
    by (simp_all add: asked_page_def new_prompt_def pp_app_def)
  moreover have "app_providers region_app = Some []"
      "app_signupItems region_app = Some [\<lparr>si_name = ''Country/Region'', si_visible = True, si_prompted = True\<rparr>]"
    by (simp_all add: region_app_def)
  ultimately have "\<not> (\<exists>es. pp_finished (prompt_run ''app-built-in'' es (prompt_didUpdate asked_page)))"
    using prompt_passed_iff_answered_before [of asked_page empty_account region_app "[]" _ "''app-built-in''"] by fastforce
  then show ?thesis by blast
qed

text \<open>
  The address of the client is extended by a question mark even when it has one, unlike on the sign-in
  page: the code becomes part of the value of the parameter before it.
\<close>

lemma redirect_with_query:
  "map_option (\<lambda>u. usp_get (URLSearchParams (drop 16 u)) ''code'')
     (getRedirectUrl (fresh_browser [] ''/prompt/shop'' ''?redirectUri=https%3A%2F%2Fa.b%2Fcb%3Fx%3D1&code=c9&state=s'')) = Some None"
  by code_simp

end
