(* ===== verification/Consent_Page.thy ===== *)
theory Consent_Page
  imports Login_Page Control_Pages
begin

text \<open>
  The page on which a user allows an application what it asks for (\<open>web/src/auth/ConsentPage.js\<close>) and the
  request for it (\<open>web/src/backend/ConsentBackend.js\<close>). \<open>componentDidUpdate\<close> runs after every change of the
  application.
\<close>

section \<open>State\<close>

record custom_scope =
  cs_scope :: string
  cs_displayName :: string
  cs_description :: string

record consent_application =
  co_app :: application
  co_customScopes :: "custom_scope option list option"

text \<open>A line of the list. A scope with the name of a property that every object has is found in the prototype.\<close>

record scope_description =
  sd_scope :: "string option"
  sd_displayName :: "string option"
  sd_description :: "string option"

datatype consent_pending = ConsentApplication | ConsentGranted

record consent_page =
  cn_applicationName :: "string option"
  cn_scopeDescriptions :: "scope_description list"
  cn_granting :: bool
  cn_oAuthParams :: "oauth_params option"
  cn_application :: "consent_application option option"
  cn_pending :: "consent_pending list"
  cn_requests :: "api_request list"
  cn_effects :: "effect list"

type_synonym cact = "consent_page \<Rightarrow> consent_page"

definition new_consent :: "string option \<Rightarrow> browser \<Rightarrow> consent_application option option \<Rightarrow> consent_page result" where
  "new_consent routeName b application =
     bind_result (getOAuthGetParameters b None) (\<lambda>ps. Return
       \<lparr>cn_applicationName = (if js_truthy routeName then routeName else usp_get (URLSearchParams (br_search b)) ''application''),
        cn_scopeDescriptions = [], cn_granting = False, cn_oAuthParams = ps, cn_application = application,
        cn_pending = [], cn_requests = [], cn_effects = []\<rparr>)"

definition cn_app :: "consent_page \<Rightarrow> consent_application option" where
  "cn_app s = (case cn_application s of Some a \<Rightarrow> a | None \<Rightarrow> None)"

definition cn_ask :: "api_request \<Rightarrow> consent_pending \<Rightarrow> cact" where
  "cn_ask rq k s = s\<lparr>cn_requests := cn_requests s @ [rq], cn_pending := cn_pending s @ [k]\<rparr>"

definition cn_do :: "effect \<Rightarrow> cact" where
  "cn_do e s = s\<lparr>cn_effects := cn_effects s @ [e]\<rparr>"

section \<open>The scopes\<close>

definition requested_scopes :: "string \<Rightarrow> string list" where
  "requested_scopes scope = filter (\<lambda>s. s \<noteq> []) (map js_trim (js_split scope '' ''))"

text \<open>
  \<open>customScopesMap[scope]\<close>: a later entry replaces an earlier one; an entry cannot be found under
  \<open>__proto__\<close>.
\<close>

definition customScope :: "custom_scope option list \<Rightarrow> string \<Rightarrow> custom_scope option" where
  "customScope items scope =
     (if scope = ''__proto__'' then None
      else find (\<lambda>c. cs_scope c = scope) (rev (filter (\<lambda>c. cs_scope c \<noteq> []) (List.map_filter id items))))"

definition describe_scope :: "custom_scope option list \<Rightarrow> string \<Rightarrow> scope_description" where
  "describe_scope items scope =
     (case customScope items scope of
        Some c \<Rightarrow> \<lparr>sd_scope = Some (cs_scope c), sd_displayName = Some (if cs_displayName c \<noteq> [] then cs_displayName c else cs_scope c),
                  sd_description = Some (cs_description c)\<rparr>
      | None \<Rightarrow>
          if scope \<in> set object_prototype then \<lparr>sd_scope = None, sd_displayName = None, sd_description = None\<rparr>
          else \<lparr>sd_scope = Some scope, sd_displayName = Some scope,
                sd_description = Some ''consent:This scope is not defined in the application''\<rparr>)"

definition loadScopeDescriptions :: cact where
  "loadScopeDescriptions s =
     (case (cn_oAuthParams s, cn_app s) of
        (Some p, Some a) \<Rightarrow>
          if oa_scope p = [] then s
          else s\<lparr>cn_scopeDescriptions :=
                 map (describe_scope (case co_customScopes a of None \<Rightarrow> [] | Some items \<Rightarrow> items)) (requested_scopes (oa_scope p))\<rparr>
      | _ \<Rightarrow> s)"

section \<open>Loading\<close>

definition consent_getApplication :: cact where
  "consent_getApplication s =
     (case cn_applicationName s of
        Some (c # cs) \<Rightarrow> cn_ask (api_getApplication ''admin'' (c # cs)) ConsentApplication s
      | _ \<Rightarrow> s)"

definition consent_didMount :: cact where
  "consent_didMount s = loadScopeDescriptions (consent_getApplication s)"

record consent_app_answer =
  cq_status :: string
  cq_msg :: string
  cq_application :: "consent_application option"

text \<open>The parent takes the application over, and the page is updated with it.\<close>

definition consentApplicationAnswered :: "consent_app_answer replied \<Rightarrow> cact" where
  "consentApplicationAnswered r s =
     (case r of
        NoAnswer err \<Rightarrow> s
      | Answered res \<Rightarrow>
          if cq_status res = ''error'' then cn_do (Message ''error'' (cq_msg res)) s
          else loadScopeDescriptions (s\<lparr>cn_application := Some (cq_application res)\<rparr>))"

section \<open>Allowing and denying\<close>

definition or_text :: "string \<Rightarrow> string \<Rightarrow> jsval" where
  "or_text a b = JStr (if a \<noteq> [] then a else b)"

definition api_grantConsent :: "(string \<times> jsval) list \<Rightarrow> oauth_params \<Rightarrow> api_request" where
  "api_grantConsent consent p = api_fetch ''POST'' ''/api/grant-consent'' [] (json @ lang)
     (Some (JObj (consent @
       [(''clientId'', JStr (oa_clientId p)), (''provider'', JStr []), (''signinMethod'', JStr []),
        (''responseType'', or_text (oa_responseType p) ''code''), (''redirectUri'', JStr (oa_redirectUri p)),
        (''scope'', JStr (oa_scope p)), (''state'', JStr (oa_state p)), (''nonce'', JStr (oa_nonce p)),
        (''challenge'', JStr (oa_codeChallenge p)), (''resource'', JStr [])])))"

text \<open>\<open>undefined\<close> in an array is written as \<open>null\<close>.\<close>

definition consent_of :: "application \<Rightarrow> scope_description list \<Rightarrow> (string \<times> jsval) list" where
  "consent_of a ds =
     [(''owner'', JStr (app_owner a)), (''application'', JStr (app_owner a @ ''/'' @ app_name a)),
      (''grantedScopes'', JArr (map (\<lambda>d. case sd_scope d of None \<Rightarrow> JNull | Some t \<Rightarrow> JStr t) ds))]"

text \<open>Without parameters the request throws after \<open>granting\<close> is set.\<close>

definition handleGrant :: cact where
  "handleGrant s =
     (case cn_app s of
        None \<Rightarrow> s\<lparr>cn_granting := True\<rparr>
      | Some a \<Rightarrow> (case cn_oAuthParams s of
          None \<Rightarrow> s\<lparr>cn_granting := True\<rparr>
        | Some p \<Rightarrow> cn_ask (api_grantConsent (consent_of (co_app a) (cn_scopeDescriptions s)) p) ConsentGranted (s\<lparr>cn_granting := True\<rparr>)))"

definition consentGranted :: "answer replied \<Rightarrow> cact" where
  "consentGranted r s =
     (case r of
        NoAnswer err \<Rightarrow> s
      | Answered res \<Rightarrow>
          if an_status res = ''ok''
          then (case cn_oAuthParams s of None \<Rightarrow> s | Some p \<Rightarrow> cn_do (GoToLink (loginCodeLink p (js_text (an_data res)))) s)
          else (cn_do (Message ''error'' (an_msg res)) s)\<lparr>cn_granting := False\<rparr>)"

definition denyLink :: "oauth_params \<Rightarrow> string" where
  "denyLink p = oa_redirectUri p @ concatChar (oa_redirectUri p)
     @ ''error=access_denied&error_description=User denied consent&state='' @ oa_state p"

definition handleDeny :: cact where
  "handleDeny s = (case cn_oAuthParams s of None \<Rightarrow> s | Some p \<Rightarrow> cn_do (GoToLink (denyLink p)) s)"

definition consent_disabled :: "consent_page \<Rightarrow> bool" where
  "consent_disabled s \<longleftrightarrow> cn_granting s \<or> cn_scopeDescriptions s = [] \<or> cn_app s = None"

section \<open>Runs\<close>

datatype consent_event = Allow | Deny | ConsentApp nat "consent_app_answer replied" | GrantAnswer nat "answer replied"

definition cn_drop :: "nat \<Rightarrow> cact" where
  "cn_drop n s = s\<lparr>cn_pending := take n (cn_pending s) @ drop (Suc n) (cn_pending s)\<rparr>"

fun consent_do :: "consent_event \<Rightarrow> cact" where
  "consent_do Allow s = (if consent_disabled s then s else handleGrant s)"
| "consent_do Deny s = (if consent_disabled s then s else handleDeny s)"
| "consent_do (ConsentApp n r) s =
     (if n < length (cn_pending s) \<and> cn_pending s ! n = ConsentApplication then consentApplicationAnswered r (cn_drop n s) else s)"
| "consent_do (GrantAnswer n r) s =
     (if n < length (cn_pending s) \<and> cn_pending s ! n = ConsentGranted then consentGranted r (cn_drop n s) else s)"

definition consent_run :: "consent_event list \<Rightarrow> cact" where
  "consent_run es s = fold consent_do es s"

section \<open>What a user allows\<close>

lemmas consent_defs = consentApplicationAnswered_def consentGranted_def handleGrant_def handleDeny_def cn_ask_def cn_do_def
  cn_drop_def consent_getApplication_def consent_didMount_def

lemma customScope_named: "customScope items scope = Some c \<Longrightarrow> cs_scope c = scope"
  by (auto simp: customScope_def find_Some_iff split: if_splits)

text \<open>A described scope keeps its name unless it is found in the prototype of objects.\<close>

lemma describe_scope_named: "scope \<notin> set object_prototype \<Longrightarrow> sd_scope (describe_scope items scope) = Some scope"
  by (auto simp: describe_scope_def dest: customScope_named split: option.split)

definition scopes_shown :: "string list \<Rightarrow> consent_page \<Rightarrow> bool" where
  "scopes_shown ws s \<longleftrightarrow> cn_scopeDescriptions s = [] \<or> map sd_scope (cn_scopeDescriptions s) = map Some ws"

fun grants :: "oauth_params \<Rightarrow> string list \<Rightarrow> api_request \<Rightarrow> bool" where
  "grants p ws rq \<longleftrightarrow> (case rq_body rq of None \<Rightarrow> True | Some v \<Rightarrow>
     field v ''grantedScopes'' = JArr (map JStr ws) \<and> field v ''clientId'' = JStr (oa_clientId p)
     \<and> field v ''scope'' = JStr (oa_scope p) \<and> field v ''state'' = JStr (oa_state p)
     \<and> field v ''redirectUri'' = JStr (oa_redirectUri p) \<and> field v ''challenge'' = JStr (oa_codeChallenge p))"

definition consent_ok :: "oauth_params \<Rightarrow> string list \<Rightarrow> consent_page \<Rightarrow> bool" where
  "consent_ok p ws s \<longleftrightarrow> cn_oAuthParams s = Some p \<and> scopes_shown ws s \<and> list_all (grants p ws) (cn_requests s)"

lemma load_ok:
  assumes "consent_ok p (requested_scopes (oa_scope p)) s" "list_all (\<lambda>w. w \<notin> set object_prototype) (requested_scopes (oa_scope p))"
  shows "consent_ok p (requested_scopes (oa_scope p)) (loadScopeDescriptions s)"
proof -
  have "map (sd_scope \<circ> describe_scope items) (requested_scopes (oa_scope p)) = map Some (requested_scopes (oa_scope p))" for items
    using assms(2) by (intro map_cong refl) (simp add: list_all_iff describe_scope_named)
  then show ?thesis
    using assms(1) by (auto simp: loadScopeDescriptions_def consent_ok_def scopes_shown_def split: option.split)
qed

lemma grants_granted:
  assumes "map sd_scope ds = map Some ws"
  shows "grants p ws (api_grantConsent (consent_of a ds) p)"
proof -
  have "map (\<lambda>d. case sd_scope d of None \<Rightarrow> JNull | Some t \<Rightarrow> JStr t) ds
      = map (\<lambda>x. case x of None \<Rightarrow> JNull | Some t \<Rightarrow> JStr t) (map sd_scope ds)"
    by simp
  also have "\<dots> = map JStr ws" by (simp only: assms) simp
  finally show ?thesis by (simp add: api_grantConsent_def consent_of_def api_fetch_def)
qed

lemma grants_get [simp]: "grants p ws (api_getApplication w n)"
  by (simp add: api_getApplication_def api_fetch_def)

lemma consent_do_ok:
  assumes "consent_ok p (requested_scopes (oa_scope p)) s" "list_all (\<lambda>w. w \<notin> set object_prototype) (requested_scopes (oa_scope p))"
  shows "consent_ok p (requested_scopes (oa_scope p)) (consent_do e s)"
proof (cases e)
  case Allow
  have "map sd_scope (cn_scopeDescriptions s) = map Some (requested_scopes (oa_scope p))" if "\<not> consent_disabled s"
    using assms(1) that by (auto simp: consent_ok_def scopes_shown_def consent_disabled_def)
  from grants_granted [OF this] show ?thesis
    using assms(1) Allow
    by (auto simp: consent_defs consent_ok_def scopes_shown_def simp del: grants.simps split: option.split)
next
  case (ConsentApp n r)
  have "consent_ok p (requested_scopes (oa_scope p)) (s\<lparr>cn_pending := ks, cn_application := a\<rparr>)" for ks a
    using assms(1) by (simp add: consent_ok_def scopes_shown_def)
  from load_ok [OF this assms(2)] show ?thesis
    using assms(1) ConsentApp by (auto simp: consent_defs consent_ok_def scopes_shown_def simp del: grants.simps split: replied.split)
qed (use assms(1) in \<open>auto simp: consent_defs consent_ok_def scopes_shown_def simp del: grants.simps split: replied.split option.split\<close>)

text \<open>
  C36. However the page is used, every consent it sends grants exactly the scopes of the request that the user
  came with, in their order, whether or not the application defines them, for the client, state, redirect
  address and challenge of that request. Scopes with the names of properties that every object has are
  excepted: they are granted as \<open>null\<close>.
\<close>

theorem consent_grants_requested:
  assumes "new_consent routeName b application = Return s" "cn_oAuthParams s = Some p"
    "list_all (\<lambda>w. w \<notin> set object_prototype) (requested_scopes (oa_scope p))"
    "rq \<in> set (cn_requests (consent_run es (consent_didMount s)))"
  shows "grants p (requested_scopes (oa_scope p)) rq"
proof -
  have "consent_ok p (requested_scopes (oa_scope p)) (consent_getApplication s)"
    using assms(1,2)
    by (auto simp: new_consent_def bind_result_Inr_iff consent_ok_def scopes_shown_def consent_defs simp del: grants.simps split: option.split list.split)
  from load_ok [OF this assms(3)] have "consent_ok p (requested_scopes (oa_scope p)) (consent_didMount s)"
    by (simp add: consent_didMount_def)
  then have "consent_ok p (requested_scopes (oa_scope p)) (consent_run es (consent_didMount s))"
    unfolding consent_run_def
    by (induction es arbitrary: rule: rev_induct) (simp_all add: consent_do_ok [OF _ assms(3)])
  then show ?thesis using assms(4) by (simp add: consent_ok_def list_all_iff del: grants.simps)
qed

definition consent_params :: oauth_params where
  "consent_params = \<lparr>oa_clientId = ''c1'', oa_responseType = ''code'', oa_redirectUri = ''https://a.b/cb'', oa_scope = ''openid  mail'',
     oa_state = ''s1'', oa_nonce = [], oa_challengeMethod = [], oa_codeChallenge = ''x9'', oa_responseMode = [], oa_samlRequest = [],
     oa_relayState = [], oa_noRedirect = [], oa_resource = [], oa_type = ''code''\<rparr>"

definition consent_start :: consent_page where
  "consent_start = \<lparr>cn_applicationName = Some ''shop'', cn_scopeDescriptions = [], cn_granting = False, cn_oAuthParams = Some consent_params,
     cn_application = None, cn_pending = [], cn_requests = [], cn_effects = []\<rparr>"

definition consent_events :: "consent_event list" where
  "consent_events = [ConsentApp 0 (Answered \<lparr>cq_status = ''ok'', cq_msg = [],
     cq_application = Some \<lparr>co_app = empty_application, co_customScopes = Some [Some \<lparr>cs_scope = ''mail'', cs_displayName = ''Mail'', cs_description = []\<rparr>]\<rparr>\<rparr>), Allow]"

theorem consent_grants_requested_witness:
  "grants consent_params [''openid'', ''mail''] (last (cn_requests (consent_run consent_events (consent_didMount consent_start))))
   \<and> rq_path (last (cn_requests (consent_run consent_events (consent_didMount consent_start)))) = ''/api/grant-consent''"
proof -
  have "new_consent (Some ''shop'') (fresh_browser [] ''/consent/shop''
      ''?client_id=c1&response_type=code&redirect_uri=https%3A%2F%2Fa.b%2Fcb&scope=openid%20%20mail&state=s1&code_challenge=x9'') None = Return consent_start"
    by code_simp
  moreover have "cn_oAuthParams consent_start = Some consent_params" by (simp add: consent_start_def)
  moreover have w: "requested_scopes (oa_scope consent_params) = [''openid'', ''mail'']" by code_simp
  moreover have "list_all (\<lambda>w. w \<notin> set object_prototype) [''openid'', ''mail'']" by code_simp
  moreover have "cn_requests (consent_run consent_events (consent_didMount consent_start)) \<noteq> []" by code_simp
  ultimately have "grants consent_params (requested_scopes (oa_scope consent_params))
      (last (cn_requests (consent_run consent_events (consent_didMount consent_start))))"
    by (intro consent_grants_requested [where es = consent_events]) (auto simp del: grants.simps)
  moreover have "rq_path (last (cn_requests (consent_run consent_events (consent_didMount consent_start)))) = ''/api/grant-consent''" by code_simp
  ultimately show ?thesis by (simp only: w simp_thms)
qed

text \<open>
  The request for a resource is not part of the consent: the field is always empty, where the sign-in
  page sends the resource of the request.
\<close>

lemma consent_without_resource:
  "map_option (\<lambda>v. field v ''resource'') (rq_body (api_grantConsent c p)) = Some (JStr []) \<or> ''resource'' \<in> fst ` set c"
  by (induction c) (auto simp: api_grantConsent_def api_fetch_def prop_of_def)

text \<open>A scope called \<open>constructor\<close> is shown without a name and granted as \<open>null\<close>.\<close>

lemma prototype_scope_null:
  "sd_scope (describe_scope [] ''constructor'') = None"
  by code_simp

end
