(* ===== verification/Mfa_Setup.thy ===== *)
theory Mfa_Setup
  imports Login_Page
begin

text \<open>
  Setting up a second factor: the page \<open>web/src/auth/MfaSetupPage.js\<close> with its forms
  (\<open>auth/mfa/CheckPasswordForm.js\<close>, \<open>MfaVerifyForm.js\<close>, \<open>MfaVerifySmsForm.js\<close>, \<open>MfaEnableForm.js\<close>) and the
  requests of \<open>backend/MfaBackend.js\<close>. The page goes from the password (step 0) over the verification of a
  code (step 1) to the request that enables the factor (step 2). The server does not compare that request
  with an earlier verification (\<open>controllers/mfa.go\<close>), so the order of the steps on the page is what makes
  sure that a factor works before a sign-in asks for it.
\<close>

section \<open>State\<close>

record mfa_props =
  ms_mfaType :: string
  ms_secret :: string
  ms_url :: string
  ms_recoveryCodes :: "string list"
  ms_countryCode :: string

text \<open>The form data of the requests for verifying and for enabling.\<close>

record mfa_check =
  mk_owner :: string
  mk_name :: string
  mk_mfaType :: string
  mk_passcode :: string
  mk_secret :: string
  mk_dest :: string
  mk_countryCode :: string

record mfa_enable =
  me_mfaType :: string
  me_owner :: string
  me_name :: string
  me_secret :: string
  me_recoveryCodes :: string
  me_dest :: string
  me_countryCode :: string

datatype mfa_setup_request =
    AskApplication string string
  | AskUserApplication string string
  | AskPassword account string
  | AskInitiate string string string
  | AskVerifySetup mfa_check
  | AskEnable mfa_enable

datatype mfa_setup_pending =
    PasswordAsked
  | InitTimer
  | InitAsked string
  | VerifyAsked mfa_check "string option" "string option"
  | EnableAsked

record mfa_page =
  mu_user :: account
  mu_applicationName :: string
  mu_application :: "application option"
  mu_applicationError :: "string option"
  mu_current :: nat
  mu_props :: "mfa_props option"
  mu_mfaType :: string
  mu_isPromptPage :: bool
  mu_loading :: bool
  mu_dest :: "string option"
  mu_countryCode :: "string option"
  mu_enabling :: bool
  mu_required :: bool
  mu_browser :: browser
  mu_askedApplication :: bool
  mu_pending :: "mfa_setup_pending list"
  mu_requests :: "mfa_setup_request list"
  mu_effects :: "effect list"

type_synonym mact = "mfa_page \<Rightarrow> mfa_page"

text \<open>
  The constructor: a page that another page pushed with its own address (\<open>location.state.from\<close>) skips the
  password.
\<close>

definition new_mfa_page :: "account \<Rightarrow> bool \<Rightarrow> bool \<Rightarrow> bool \<Rightarrow> browser \<Rightarrow> mfa_page" where
  "new_mfa_page user promptProp from required b =
     \<lparr>mu_user = user,
      mu_applicationName = (case ac_props user ''signupApplication'' of Some n \<Rightarrow> n
        | None \<Rightarrow> (case br_local b ''applicationName'' of Some n \<Rightarrow> n | None \<Rightarrow> [])),
      mu_application = None, mu_applicationError = None, mu_current = (if from then 1 else 0), mu_props = None,
      mu_mfaType = (case usp_get (URLSearchParams (br_search b)) ''mfaType'' of Some t \<Rightarrow> t | None \<Rightarrow> ''sms''),
      mu_isPromptPage = (promptProp \<or> from), mu_loading = False, mu_dest = None, mu_countryCode = None, mu_enabling = False,
      mu_required = required, mu_browser = b, mu_askedApplication = False, mu_pending = [], mu_requests = [], mu_effects = []\<rparr>"

definition mu_send :: "mfa_setup_request \<Rightarrow> mfa_setup_pending \<Rightarrow> mact" where
  "mu_send rq k s = s\<lparr>mu_requests := mu_requests s @ [rq], mu_pending := mu_pending s @ [k]\<rparr>"

definition mu_do :: "effect \<Rightarrow> mact" where
  "mu_do e s = s\<lparr>mu_effects := mu_effects s @ [e]\<rparr>"

section \<open>Requests\<close>

text \<open>
  \<open>{key: value, ...user}[key]\<close>: a property of the user wins over a value given before it. \<open>FormData.append\<close>
  writes a missing value as \<open>undefined\<close>.
\<close>

definition spread_field :: "account \<Rightarrow> string \<Rightarrow> string \<Rightarrow> string" where
  "spread_field user k before = (case ac_props user k of Some v \<Rightarrow> v | None \<Rightarrow> before)"

definition form_text :: "string option \<Rightarrow> string" where
  "form_text v = (case v of None \<Rightarrow> ''undefined'' | Some t \<Rightarrow> t)"

definition MfaSetupInitiate :: "account \<Rightarrow> string \<Rightarrow> mfa_setup_request" where
  "MfaSetupInitiate user mfaType = AskInitiate (ac_owner user) (ac_name user) (spread_field user ''mfaType'' mfaType)"

definition MfaSetupVerify :: "account \<Rightarrow> mfa_props \<Rightarrow> string \<Rightarrow> string option \<Rightarrow> string option \<Rightarrow> mfa_check" where
  "MfaSetupVerify user p passcode countryCode dest =
     \<lparr>mk_owner = ac_owner user, mk_name = ac_name user, mk_mfaType = spread_field user ''mfaType'' (ms_mfaType p),
      mk_passcode = spread_field user ''passcode'' passcode, mk_secret = spread_field user ''secret'' (ms_secret p),
      mk_dest = spread_field user ''dest'' (form_text dest), mk_countryCode = spread_field user ''countryCode'' (form_text countryCode)\<rparr>"

text \<open>\<open>recoveryCodes[0]\<close>.\<close>

definition recovery_code :: "mfa_props \<Rightarrow> string" where
  "recovery_code p = (case ms_recoveryCodes p of c # cs \<Rightarrow> c | [] \<Rightarrow> ''undefined'')"

definition MfaSetupEnable :: "account \<Rightarrow> string \<Rightarrow> mfa_props \<Rightarrow> string option \<Rightarrow> string option \<Rightarrow> mfa_enable" where
  "MfaSetupEnable user mfaType p dest countryCode =
     \<lparr>me_mfaType = spread_field user ''mfaType'' mfaType, me_owner = ac_owner user, me_name = ac_name user,
      me_secret = spread_field user ''secret'' (ms_secret p), me_recoveryCodes = recovery_code p,
      me_dest = spread_field user ''dest'' (form_text dest), me_countryCode = spread_field user ''countryCode'' (form_text countryCode)\<rparr>"

section \<open>Loading\<close>

definition mfa_getApplication :: mact where
  "mfa_getApplication s = s\<lparr>mu_askedApplication := True, mu_requests := mu_requests s @
     [if mu_applicationName s \<noteq> [] then AskApplication ''admin'' (mu_applicationName s)
      else AskUserApplication (ac_owner (mu_user s)) (ac_name (mu_user s))]\<rparr>"

definition initMfaProps :: mact where
  "initMfaProps s = mu_send (MfaSetupInitiate (mu_user s) (mu_mfaType s)) (InitAsked (spread_field (mu_user s) ''mfaType'' (mu_mfaType s))) s"

definition mfa_componentDidMount :: mact where
  "mfa_componentDidMount s =
     (let s1 = mfa_getApplication s in
      if mu_current s1 = 1 then s1\<lparr>mu_loading := True, mu_pending := mu_pending s1 @ [InitTimer]\<rparr> else s1)"

text \<open>\<open>componentDidUpdate\<close>: the first argument is the state before the change.\<close>

definition mfa_componentDidUpdate :: "mfa_page \<Rightarrow> mact" where
  "mfa_componentDidUpdate prev s =
     (if (mu_mfaType s \<noteq> mu_mfaType prev \<or> mu_current s \<noteq> mu_current prev) \<and> mu_current s = 1 then initMfaProps s else s)"

record mfa_app_answer =
  mq_status :: string
  mq_msg :: string
  mq_application :: "application option"

definition application_failed :: "string \<Rightarrow> mact" where
  "application_failed msg s = mu_do (Message ''error'' msg) (s\<lparr>mu_applicationError := Some msg\<rparr>)"

definition mfaApplicationAnswered :: "mfa_app_answer option replied \<Rightarrow> mact" where
  "mfaApplicationAnswered r s =
     (case r of
        NoAnswer err \<Rightarrow> s
      | Answered None \<Rightarrow> application_failed ''general:Failed to get'' s
      | Answered (Some res) \<Rightarrow>
          if mq_status res = ''error'' then application_failed (mq_msg res) s
          else if mq_application res = None then application_failed ''general:Failed to get'' s
          else s\<lparr>mu_application := mq_application res\<rparr>)"

record init_answer =
  ia_status :: string
  ia_props :: mfa_props

definition mfaInitiated :: "init_answer replied \<Rightarrow> mact" where
  "mfaInitiated r s =
     (case r of
        NoAnswer err \<Rightarrow> s
      | Answered res \<Rightarrow>
          if ia_status res = ''ok'' then s\<lparr>mu_props := Some (ia_props res), mu_loading := False\<rparr>
          else mu_do (Message ''error'' ''mfa:Failed to initiate MFA'') s)"

section \<open>The password\<close>

definition checkPassword :: "string \<Rightarrow> mact" where
  "checkPassword pw s = mu_send (AskPassword (mu_user s) pw) PasswordAsked s"

definition passwordChecked :: "answer replied \<Rightarrow> mact" where
  "passwordChecked r s =
     (case r of
        NoAnswer err \<Rightarrow> s
      | Answered res \<Rightarrow>
          if an_status res = ''ok'' then s\<lparr>mu_current := mu_current s + 1\<rparr>
          else mu_do (Message ''error'' (''mfa:Failed to initiate MFA: '' @ an_msg res)) s)"

section \<open>The verification\<close>

text \<open>The links to the other types, in the order of the page.\<close>

definition mfa_types :: "string list" where
  "mfa_types = [''sms'', ''email'', ''app'', ''radius'', ''push'']"

definition mfa_type_links :: "mfa_page \<Rightarrow> string list" where
  "mfa_type_links s = (if mu_isPromptPage s then [] else filter (\<lambda>t. t \<noteq> mu_mfaType s) mfa_types)"

definition switch_type :: "string \<Rightarrow> mact" where
  "switch_type t s = mu_do (HistoryPush (''/mfa/setup?mfaType='' @ t)) (s\<lparr>mu_mfaType := t\<rparr>)"

definition provider_secret :: "provider \<Rightarrow> string" where
  "provider_secret p = pr_owner p @ ''/'' @ pr_name p"

definition find_provider :: "(provider \<Rightarrow> bool) \<Rightarrow> application \<Rightarrow> provider option result" where
  "find_provider P a =
     (case app_providers a of
        None \<Rightarrow> Throw TypeError
      | Some items \<Rightarrow> bind_result
          (js_find (\<lambda>i. case pi_provider i of None \<Rightarrow> Throw TypeError | Some p \<Rightarrow> Return (P p)) items)
          (\<lambda>found. Return (Option.bind found pi_provider)))"

text \<open>Radius and push name their provider as the secret, in the object that the page holds.\<close>

definition with_secret :: "application \<Rightarrow> mfa_props \<Rightarrow> mfa_props result" where
  "with_secret a p =
     (if ms_mfaType p = ''radius''
      then bind_result (find_provider (\<lambda>q. pr_type q = ''RADIUS'') a) (\<lambda>found.
        case found of None \<Rightarrow> Throw TypeError | Some q \<Rightarrow> Return (p\<lparr>ms_secret := provider_secret q\<rparr>))
      else if ms_mfaType p = ''push''
      then bind_result (find_provider (\<lambda>q. pr_category q = ''Notification'') a) (\<lambda>found.
        Return (case found of None \<Rightarrow> p | Some q \<Rightarrow> p\<lparr>ms_secret := provider_secret q\<rparr>))
      else Return p)"

definition mfa_verify_onFinish :: "string \<Rightarrow> string option \<Rightarrow> string option \<Rightarrow> mact" where
  "mfa_verify_onFinish passcode countryCode dest s =
     (case (mu_props s, mu_application s) of
        (Some p, Some a) \<Rightarrow>
          (case with_secret a p of
             Throw e \<Rightarrow> s
           | Return p' \<Rightarrow>
               let c = MfaSetupVerify (mu_user s) p' passcode countryCode dest in
               mu_send (AskVerifySetup c) (VerifyAsked c dest countryCode) (s\<lparr>mu_props := Some p'\<rparr>))
      | _ \<Rightarrow> s)"

definition mfaVerified :: "string option \<Rightarrow> string option \<Rightarrow> answer replied \<Rightarrow> mact" where
  "mfaVerified dest countryCode r s =
     (case r of
        NoAnswer err \<Rightarrow> mu_do (Message ''error'' (''general:Failed to connect to server: '' @ err)) s
      | Answered res \<Rightarrow>
          if an_status res = ''ok'' then s\<lparr>mu_dest := dest, mu_countryCode := countryCode, mu_current := mu_current s + 1\<rparr>
          else mu_do (Message ''error'' (''general:Failed to verify: '' @ an_msg res)) s)"

text \<open>Whether a form for the code is on the page.\<close>

definition verify_form :: "mfa_page \<Rightarrow> bool" where
  "verify_form s \<longleftrightarrow> mu_current s = 1 \<and> \<not> js_truthy (mu_applicationError s) \<and> mu_application s \<noteq> None
     \<and> (case mu_props s of None \<Rightarrow> False | Some p \<Rightarrow> ms_mfaType p \<in> set mfa_types)"

text \<open>The form for a code by text message or mail: the address it starts with, and whether the address is fixed.\<close>

definition sms_dest :: "bool \<Rightarrow> mfa_props \<Rightarrow> account \<Rightarrow> string option" where
  "sms_dest auth p user =
     (if auth then Some (ms_secret p)
      else if ms_mfaType p = ''sms'' then ac_props user ''phone''
      else if ms_mfaType p = ''email'' then ac_props user ''email'' else Some [])"

definition isShowText :: "bool \<Rightarrow> mfa_props \<Rightarrow> account \<Rightarrow> bool" where
  "isShowText auth p user \<longleftrightarrow> auth \<or> ms_mfaType p = ''sms'' \<and> ac_props user ''phone'' \<noteq> Some []
     \<or> ms_mfaType p = ''email'' \<and> ac_props user ''email'' \<noteq> Some []"

section \<open>Enabling\<close>

definition requestEnableMfa :: mact where
  "requestEnableMfa s =
     (case mu_props s of
        None \<Rightarrow> s
      | Some p \<Rightarrow> mu_send (AskEnable (MfaSetupEnable (mu_user s) (mu_mfaType s) p (mu_dest s) (mu_countryCode s))) EnableAsked
                   (s\<lparr>mu_enabling := True\<rparr>))"

definition mfaEnabled :: "answer replied \<Rightarrow> mact" where
  "mfaEnabled r s =
     (case r of
        NoAnswer err \<Rightarrow> s\<lparr>mu_enabling := False\<rparr>
      | Answered res \<Rightarrow>
          if an_status res = ''ok''
          then let s1 = (mu_do (Message ''success'' ''general:Enabled successfully'') s)\<lparr>mu_required := False\<rparr> in
               (case br_local (mu_browser s) ''mfaRedirectUrl'' of
                  Some url \<Rightarrow> (mu_do (GoToLink url) s1)\<lparr>mu_browser := remove_local ''mfaRedirectUrl'' (mu_browser s), mu_enabling := False\<rparr>
                | None \<Rightarrow> (mu_do (HistoryPush ''/account'') s1)\<lparr>mu_enabling := False\<rparr>)
          else (mu_do (Message ''error'' (''general:Failed to enable: '' @ an_msg res)) s)\<lparr>mu_enabling := False\<rparr>)"

section \<open>Runs\<close>

datatype mfa_event =
    GivePassword string
  | PickType string
  | GiveCode string "string option" "string option"
  | PressEnable
  | TimerFires nat
  | ApplicationReply "mfa_app_answer option replied"
  | InitReply nat "init_answer replied"
  | StepReply nat "answer replied"

definition mu_drop :: "nat \<Rightarrow> mact" where
  "mu_drop n s = s\<lparr>mu_pending := take n (mu_pending s) @ drop (Suc n) (mu_pending s)\<rparr>"

definition mu_waits :: "nat \<Rightarrow> mfa_page \<Rightarrow> mfa_setup_pending option" where
  "mu_waits n s = (if n < length (mu_pending s) then Some (mu_pending s ! n) else None)"

fun mfa_handle :: "mfa_event \<Rightarrow> mact" where
  "mfa_handle (GivePassword pw) s = (if mu_current s = 0 then checkPassword pw s else s)"
| "mfa_handle (PickType t) s =
     (if mu_current s = 1 \<and> \<not> js_truthy (mu_applicationError s) \<and> t \<in> set (mfa_type_links s) then switch_type t s else s)"
| "mfa_handle (GiveCode passcode cc dest) s = (if verify_form s then mfa_verify_onFinish passcode cc dest s else s)"
| "mfa_handle PressEnable s = (if mu_current s = 2 \<and> \<not> mu_enabling s then requestEnableMfa s else s)"
| "mfa_handle (TimerFires n) s = (if mu_waits n s = Some InitTimer then initMfaProps (mu_drop n s) else s)"
| "mfa_handle (ApplicationReply r) s = (if mu_askedApplication s then mfaApplicationAnswered r (s\<lparr>mu_askedApplication := False\<rparr>) else s)"
| "mfa_handle (InitReply n r) s = (case mu_waits n s of Some (InitAsked t) \<Rightarrow> mfaInitiated r (mu_drop n s) | _ \<Rightarrow> s)"
| "mfa_handle (StepReply n r) s =
     (case mu_waits n s of
        Some PasswordAsked \<Rightarrow> passwordChecked r (mu_drop n s)
      | Some (VerifyAsked c dest cc) \<Rightarrow> mfaVerified dest cc r (mu_drop n s)
      | Some EnableAsked \<Rightarrow> mfaEnabled r (mu_drop n s)
      | _ \<Rightarrow> s)"

definition mfa_do :: "mfa_event \<Rightarrow> mact" where
  "mfa_do e s = mfa_componentDidUpdate s (mfa_handle e s)"

fun mfa_run :: "mfa_event list \<Rightarrow> mact" where
  "mfa_run [] s = s"
| "mfa_run (e # es) s = mfa_run es (mfa_do e s)"

section \<open>A factor is enabled as it was verified\<close>

text \<open>
  An orderly run: the user waits for the answers, and the server answers every request for the data of a
  type with the data of that type.
\<close>

definition mfa_orderly :: "mfa_event \<Rightarrow> mfa_page \<Rightarrow> bool" where
  "mfa_orderly e s =
     (case e of
        InitReply n r \<Rightarrow>
          (case (mu_waits n s, r) of
             (Some (InitAsked t), Answered res) \<Rightarrow> ia_status res = ''ok'' \<and> ms_mfaType (ia_props res) = t
           | (Some (InitAsked t), NoAnswer err) \<Rightarrow> False
           | _ \<Rightarrow> True)
      | TimerFires n \<Rightarrow> True
      | ApplicationReply r \<Rightarrow> True
      | StepReply n r \<Rightarrow> True
      | _ \<Rightarrow> mu_pending s = [])"

fun mfa_orderly_run :: "mfa_event list \<Rightarrow> mfa_page \<Rightarrow> bool" where
  "mfa_orderly_run [] s = True"
| "mfa_orderly_run (e # es) s = (mfa_orderly e s \<and> mfa_orderly_run es (mfa_do e s))"

text \<open>The verifications that the server has confirmed.\<close>

definition mfa_confirmed :: "mfa_event \<Rightarrow> mfa_page \<Rightarrow> mfa_check list" where
  "mfa_confirmed e s =
     (case e of
        StepReply n (Answered res) \<Rightarrow>
          if an_status res = ''ok'' then (case mu_waits n s of Some (VerifyAsked c d cc) \<Rightarrow> [c] | _ \<Rightarrow> []) else []
      | _ \<Rightarrow> [])"

fun mfa_confirmations :: "mfa_event list \<Rightarrow> mfa_page \<Rightarrow> mfa_check list" where
  "mfa_confirmations [] s = []"
| "mfa_confirmations (e # es) s = mfa_confirmed e s @ mfa_confirmations es (mfa_do e s)"

definition same_factor :: "mfa_enable \<Rightarrow> mfa_check \<Rightarrow> bool" where
  "same_factor e c \<longleftrightarrow> me_owner e = mk_owner c \<and> me_name e = mk_name c \<and> me_mfaType e = mk_mfaType c
     \<and> me_secret e = mk_secret c \<and> me_dest e = mk_dest c \<and> me_countryCode e = mk_countryCode c"

fun enable_verified :: "mfa_check list \<Rightarrow> mfa_setup_request \<Rightarrow> bool" where
  "enable_verified V (AskEnable e) = list_ex (same_factor e) V"
| "enable_verified V rq = True"

text \<open>What would be enabled with given data.\<close>

definition to_enable :: "mfa_page \<Rightarrow> mfa_props \<Rightarrow> string option \<Rightarrow> string option \<Rightarrow> mfa_enable" where
  "to_enable s p dest cc = MfaSetupEnable (mu_user s) (mu_mfaType s) p dest cc"

definition props_fit :: "mfa_page \<Rightarrow> bool" where
  "props_fit s \<longleftrightarrow> (case mu_props s of None \<Rightarrow> False | Some p \<Rightarrow> ms_mfaType p = mu_mfaType s)"

fun mfa_waits_ok :: "mfa_setup_pending list \<Rightarrow> mfa_page \<Rightarrow> bool" where
  "mfa_waits_ok [] s = (mu_current s = 1 \<longrightarrow> props_fit s)"
| "mfa_waits_ok [PasswordAsked] s = (mu_current s = 0)"
| "mfa_waits_ok [InitTimer] s = (mu_current s = 1)"
| "mfa_waits_ok [InitAsked t] s = (mu_current s = 1 \<and> t = mu_mfaType s)"
| "mfa_waits_ok [VerifyAsked c dest cc] s =
     (mu_current s = 1 \<and> props_fit s \<and> (case mu_props s of None \<Rightarrow> False | Some p \<Rightarrow> same_factor (to_enable s p dest cc) c))"
| "mfa_waits_ok [EnableAsked] s = (mu_current s = 2)"
| "mfa_waits_ok (k # l # ks) s = False"

definition ready_to_enable :: "mfa_check list \<Rightarrow> mfa_page \<Rightarrow> bool" where
  "ready_to_enable V s \<longleftrightarrow>
     (case mu_props s of None \<Rightarrow> False | Some p \<Rightarrow> list_ex (same_factor (to_enable s p (mu_dest s) (mu_countryCode s))) V)"

definition mfa_ok :: "mfa_check list \<Rightarrow> mfa_page \<Rightarrow> bool" where
  "mfa_ok V s \<longleftrightarrow> ac_props (mu_user s) ''mfaType'' = None \<and> mfa_waits_ok (mu_pending s) s
     \<and> list_all (enable_verified V) (mu_requests s) \<and> mu_current s \<le> 2 \<and> (mu_current s = 2 \<longrightarrow> ready_to_enable V s)"

lemmas mfa_acts = mu_send_def mu_do_def mu_drop_def initMfaProps_def checkPassword_def passwordChecked_def switch_type_def
  mfaApplicationAnswered_def application_failed_def mfaInitiated_def mfaVerified_def requestEnableMfa_def mfaEnabled_def
  mfa_verify_onFinish_def mfa_componentDidUpdate_def MfaSetupInitiate_def

lemmas mfa_inv = mfa_ok_def props_fit_def ready_to_enable_def to_enable_def

lemma enable_verified_more: "enable_verified V rq \<Longrightarrow> enable_verified (V @ W) rq"
  by (cases rq) auto

lemma mfa_ok_more: "mfa_ok V s \<Longrightarrow> mfa_ok (V @ W) s"
  by (auto simp: mfa_ok_def ready_to_enable_def list_all_iff enable_verified_more split: option.splits)

lemma with_secret_type: "with_secret a p = Return p' \<Longrightarrow> ms_mfaType p' = ms_mfaType p"
  by (auto simp: with_secret_def bind_result_Inr_iff split: if_splits option.splits)

text \<open>What a page would verify it would enable, when its type is the type of its data.\<close>

lemma verify_enable:
  assumes "ac_props u ''mfaType'' = None" "ms_mfaType p = t"
  shows "same_factor (MfaSetupEnable u t p dest cc) (MfaSetupVerify u p passcode cc dest)"
  using assms by (simp add: same_factor_def MfaSetupEnable_def MfaSetupVerify_def spread_field_def)

lemma single_wait:
  assumes "mfa_waits_ok (mu_pending s) s" "mu_waits n s = Some k"
  shows "mu_pending s = [k] \<and> mu_pending (mu_drop n s) = []"
proof -
  obtain l where "mu_pending s = [l]"
    using assms by (cases "mu_pending s" rule: remdups_adj.cases) (auto simp: mu_waits_def split: if_splits)
  with assms(2) show ?thesis by (simp add: mu_waits_def mu_drop_def split: if_splits)
qed

lemma reply_ok:
  assumes "mfa_ok V s" "mu_waits n s = Some k"
  shows "k = PasswordAsked \<Longrightarrow> mfa_ok V (mfa_componentDidUpdate s (passwordChecked r (mu_drop n s)))"
    and "k = VerifyAsked c dest cc \<Longrightarrow>
      mfa_ok (V @ (case r of Answered res \<Rightarrow> if an_status res = ''ok'' then [c] else [] | NoAnswer err \<Rightarrow> []))
        (mfa_componentDidUpdate s (mfaVerified dest cc r (mu_drop n s)))"
    and "k = EnableAsked \<Longrightarrow> mfa_ok V (mfa_componentDidUpdate s (mfaEnabled r (mu_drop n s)))"
proof -
  have p: "mu_pending s = [k]" "take n [k] @ drop (Suc n) [k] = []"
    using single_wait [OF _ assms(2)] assms(1) by (auto simp: mfa_ok_def mu_drop_def)
  show "mfa_ok V (mfa_componentDidUpdate s (passwordChecked r (mu_drop n s)))" if "k = PasswordAsked"
    using that p assms(1) by (auto simp: mfa_acts mfa_inv spread_field_def split: replied.split)
  show "mfa_ok V (mfa_componentDidUpdate s (mfaEnabled r (mu_drop n s)))" if "k = EnableAsked"
    using that p assms(1) by (auto simp: mfa_acts mfa_inv Let_def split: replied.split option.split)
  show "mfa_ok (V @ (case r of Answered res \<Rightarrow> if an_status res = ''ok'' then [c] else [] | NoAnswer err \<Rightarrow> []))
        (mfa_componentDidUpdate s (mfaVerified dest cc r (mu_drop n s)))" if "k = VerifyAsked c dest cc"
    using that p assms(1)
    by (auto simp: mfa_acts mfa_inv list_all_iff enable_verified_more split: replied.split option.splits)
qed

text \<open>The invariant reads these parts of the page only.\<close>

lemma mfa_ok_frame:
  assumes "mu_current t = mu_current s" "mu_props t = mu_props s" "mu_mfaType t = mu_mfaType s" "mu_user t = mu_user s"
    "mu_pending t = mu_pending s" "mu_requests t = mu_requests s" "mu_dest t = mu_dest s" "mu_countryCode t = mu_countryCode s"
  shows "mfa_ok V t = mfa_ok V s"
proof -
  have "mfa_waits_ok ks t = mfa_waits_ok ks s" for ks
    using assms by (induction ks t rule: mfa_waits_ok.induct) (simp_all add: props_fit_def to_enable_def split: option.split)
  with assms show ?thesis by (simp add: mfa_ok_def ready_to_enable_def to_enable_def split: option.split)
qed

lemma didUpdate_same [simp]: "mfa_componentDidUpdate s s = s"
  by (simp add: mfa_componentDidUpdate_def)

lemma mfa_do_ok:
  assumes "mfa_ok V s" "mfa_orderly e s"
  shows "mfa_ok (V @ mfa_confirmed e s) (mfa_do e s)"
proof (cases e)
  case (GiveCode passcode cc dest)
  have "ac_props (mu_user s) ''mfaType'' = None" "props_fit s" if "verify_form s"
    using assms that GiveCode by (auto simp: mfa_ok_def verify_form_def mfa_orderly_def)
  then show ?thesis
    using assms GiveCode
    by (auto simp: mfa_do_def mfa_confirmed_def mfa_acts mfa_inv mfa_orderly_def Let_def verify_form_def
        dest: with_secret_type intro!: verify_enable split: option.splits sum.split)
next
  case (InitReply n r)
  show ?thesis
  proof (cases "mu_waits n s")
    case (Some k)
    from single_wait [OF _ Some] assms(1) have "mu_pending s = [k]" "take n [k] @ drop (Suc n) [k] = []"
      by (auto simp: mfa_ok_def mu_drop_def)
    then show ?thesis
      using assms InitReply Some
      by (cases k) (auto simp: mfa_do_def mfa_confirmed_def mfa_acts mfa_inv mfa_orderly_def split: replied.splits)
  qed (use assms InitReply in \<open>simp add: mfa_do_def mfa_confirmed_def\<close>)
next
  case (TimerFires n)
  show ?thesis
  proof (cases "mu_waits n s = Some InitTimer")
    case True
    from single_wait [OF _ True] assms(1) have "mu_pending s = [InitTimer]" "take n [InitTimer] @ drop (Suc n) [InitTimer] = []"
      by (auto simp: mfa_ok_def mu_drop_def)
    then show ?thesis
      using assms TimerFires True by (auto simp: mfa_do_def mfa_confirmed_def mfa_acts mfa_inv spread_field_def)
  qed (use assms TimerFires in \<open>simp add: mfa_do_def mfa_confirmed_def\<close>)
next
  case (StepReply n r)
  show ?thesis
  proof (cases "mu_waits n s")
    case (Some k)
    show ?thesis
    proof (cases k)
      case (VerifyAsked c dest cc)
      then show ?thesis
        using reply_ok(2) [OF assms(1) Some, of c dest cc r] StepReply Some
        by (cases r) (simp_all add: mfa_do_def mfa_confirmed_def split: if_splits)
    qed (use reply_ok [OF assms(1) Some] assms(1) StepReply Some in \<open>simp_all add: mfa_do_def mfa_confirmed_def split: replied.split\<close>)
  qed (use assms StepReply in \<open>simp add: mfa_do_def mfa_confirmed_def split: replied.split\<close>)
next
  case (ApplicationReply r)
  have "mfa_ok V (mfa_handle e s) = mfa_ok V s"
    by (rule mfa_ok_frame) (simp_all add: ApplicationReply mfa_acts split: replied.split option.split)
  moreover have "mfa_do e s = mfa_handle e s"
    by (simp add: mfa_do_def ApplicationReply mfa_acts split: replied.split option.split)
  ultimately show ?thesis using assms(1) by (simp add: mfa_confirmed_def ApplicationReply)
qed (use assms in \<open>auto simp: mfa_do_def mfa_confirmed_def mfa_acts mfa_inv mfa_orderly_def spread_field_def split: option.splits\<close>)

lemma mfa_run_ok:
  "mfa_ok V s \<Longrightarrow> mfa_orderly_run es s \<Longrightarrow> mfa_ok (V @ mfa_confirmations es s) (mfa_run es s)"
proof (induction es arbitrary: V s)
  case (Cons e es)
  from Cons.IH [OF mfa_do_ok [OF Cons.prems(1)]] Cons.prems(2) show ?case by simp
qed simp

text \<open>
  C7. When the user waits for the answers and the server answers every request for the data of a factor,
  every request that enables a factor names the user, the type, the secret, the address and the country
  code of a verification that the server has confirmed on this page, wherever the page was opened from and
  however often the type was changed in between.
\<close>

theorem mfa_enabled_as_verified:
  assumes "ac_props user ''mfaType'' = None" "s = mfa_componentDidMount (new_mfa_page user promptProp from required b)"
    "mfa_orderly_run es s" "AskEnable e \<in> set (mu_requests (mfa_run es s))"
  shows "\<exists>c \<in> set (mfa_confirmations es s). same_factor e c"
proof -
  have "mfa_ok [] s"
    using assms(1) by (simp add: assms(2) mfa_ok_def mfa_componentDidMount_def mfa_getApplication_def new_mfa_page_def Let_def)
  from mfa_run_ok [OF this assms(3)] have "list_all (enable_verified (mfa_confirmations es s)) (mu_requests (mfa_run es s))"
    by (simp add: mfa_ok_def)
  then have "enable_verified (mfa_confirmations es s) (AskEnable e)" using assms(4) by (auto simp: list_all_iff)
  then show ?thesis by (simp add: list_ex_iff)
qed

definition totp_props :: mfa_props where
  "totp_props = \<lparr>ms_mfaType = ''app'', ms_secret = ''k3y'', ms_url = [], ms_recoveryCodes = [''r1''], ms_countryCode = []\<rparr>"

definition step_ok :: "answer replied" where
  "step_ok = Answered \<lparr>an_status = ''ok'', an_msg = [], an_data = JNull\<rparr>"

definition app_found :: "mfa_app_answer option replied" where
  "app_found = Answered (Some \<lparr>mq_status = ''ok'', mq_msg = [], mq_application = Some empty_application\<rparr>)"

definition totp_browser :: browser where
  "totp_browser = fresh_browser [] ''/mfa/setup'' ''?mfaType=app''"

definition totp_events :: "mfa_event list" where
  "totp_events = [ApplicationReply app_found, GivePassword ''pw'', StepReply 0 step_ok,
     InitReply 0 (Answered \<lparr>ia_status = ''ok'', ia_props = totp_props\<rparr>), GiveCode ''123456'' None None, StepReply 0 step_ok, PressEnable]"

definition totp_start :: mfa_page where
  "totp_start = mfa_componentDidMount (new_mfa_page empty_account False False False totp_browser)"

definition totp_enable :: mfa_enable where
  "totp_enable = \<lparr>me_mfaType = ''app'', me_owner = [], me_name = [], me_secret = ''k3y'', me_recoveryCodes = ''r1'', me_dest = ''undefined'',
     me_countryCode = ''undefined''\<rparr>"

definition enabled_in :: "mfa_setup_request list \<Rightarrow> mfa_enable list" where
  "enabled_in rqs = List.map_filter (\<lambda>rq. case rq of AskEnable e \<Rightarrow> Some e | _ \<Rightarrow> None) rqs"

lemma enabled_in_iff: "e \<in> set (enabled_in rqs) \<longleftrightarrow> AskEnable e \<in> set rqs"
  by (induction rqs) (auto simp: enabled_in_def List.map_filter_simps split: mfa_setup_request.splits)

theorem mfa_enabled_as_verified_witness:
  "enabled_in (mu_requests (mfa_run totp_events totp_start)) = [totp_enable]
   \<and> list_ex (same_factor totp_enable) (mfa_confirmations totp_events totp_start)"
proof -
  have e: "enabled_in (mu_requests (mfa_run totp_events totp_start)) = [totp_enable]" by code_simp
  then have "AskEnable totp_enable \<in> set (mu_requests (mfa_run totp_events totp_start))"
    by (simp add: enabled_in_iff [symmetric])
  moreover have "mfa_orderly_run totp_events totp_start" by code_simp
  ultimately have "\<exists>c \<in> set (mfa_confirmations totp_events totp_start). same_factor totp_enable c"
    using mfa_enabled_as_verified [of empty_account totp_start False False False totp_browser totp_events totp_enable]
    by (simp add: totp_start_def empty_account_def)
  with e show ?thesis by (simp add: list_ex_iff)
qed

section \<open>Where the order of the steps is lost\<close>

text \<open>
  A step counts up when its answer comes, whatever the step then is: when the password is submitted twice,
  the second answer skips the verification. No verification is confirmed and the factor is enabled.
\<close>

definition hasty_events :: "mfa_event list" where
  "hasty_events = [ApplicationReply app_found, GivePassword ''pw'', GivePassword ''pw'', StepReply 0 step_ok,
     InitReply 1 (Answered \<lparr>ia_status = ''ok'', ia_props = totp_props\<rparr>), StepReply 0 step_ok, PressEnable]"

lemma double_password_skips_verification:
  "enabled_in (mu_requests (mfa_run hasty_events totp_start)) = [totp_enable] \<and> mfa_confirmations hasty_events totp_start = []"
  by code_simp

text \<open>
  When the server refuses the data of a type that was chosen, the page keeps the data of the type before:
  that one is verified and the chosen one is enabled, with its secret.
\<close>

definition refused_events :: "mfa_event list" where
  "refused_events = [ApplicationReply app_found, GivePassword ''pw'', StepReply 0 step_ok,
     InitReply 0 (Answered \<lparr>ia_status = ''ok'', ia_props = totp_props\<rparr>), PickType ''email'',
     InitReply 0 (Answered \<lparr>ia_status = ''error'', ia_props = totp_props\<rparr>), GiveCode ''123456'' None None, StepReply 0 step_ok, PressEnable]"

lemma refused_type_enabled:
  "map me_mfaType (enabled_in (mu_requests (mfa_run refused_events totp_start))) = [''email'']
   \<and> map mk_mfaType (mfa_confirmations refused_events totp_start) = [''app'']"
  by code_simp

text \<open>
  The country code that is chosen for a new phone is not sent when the user has one: the properties of the
  user come after it.
\<close>

lemma chosen_country_ignored:
  "ac_props user ''countryCode'' = Some cc' \<Longrightarrow> mk_countryCode (MfaSetupVerify user p passcode (Some cc) dest) = cc'"
  by (simp add: MfaSetupVerify_def spread_field_def)

text \<open>A page that skips the password loads until the data of its type come, for ever when they are refused.\<close>

lemma refused_init_loads:
  "mu_loading s \<Longrightarrow> ia_status res \<noteq> ''ok'' \<Longrightarrow> mu_loading (mfaInitiated (Answered res) s)"
  by (simp add: mfaInitiated_def mu_do_def)

section \<open>The dialogue of an administrator\<close>

text \<open>
  \<open>common/modal/EnableMfaModal.js\<close>: an administrator enables a factor for another user. The requests are
  their form data; \<open>FormData.append\<close> turns every value into a text.
\<close>

record mfa_modal =
  mm_open :: bool
  mm_loading :: bool
  mm_requests :: "(string \<times> (string \<times> string) list) list"
  mm_effects :: "effect list"
  mm_succeeded :: bool

definition new_mfa_modal :: mfa_modal where
  "new_mfa_modal = \<lparr>mm_open = False, mm_loading = False, mm_requests = [], mm_effects = [], mm_succeeded = False\<rparr>"

definition spread_text :: "string \<Rightarrow> jsval \<Rightarrow> string \<Rightarrow> string" where
  "spread_text mfaType user k =
     js_text (case user of
        JObj ps \<Rightarrow> if k = ''mfaType'' \<and> map_of ps k = None then JStr mfaType else prop_of ps k
      | _ \<Rightarrow> if k = ''mfaType'' then JStr mfaType else JUndefined)"

definition mm_show :: "string \<Rightarrow> string \<Rightarrow> mfa_modal \<Rightarrow> mfa_modal" where
  "mm_show ty msg m = m\<lparr>mm_effects := mm_effects m @ [Message ty msg]\<rparr>"

definition mm_isValid :: "string \<Rightarrow> jsval \<Rightarrow> bool" where
  "mm_isValid mfaType user = (if mfaType = ''email'' then field user ''email'' \<noteq> JStr [] else field user ''phone'' \<noteq> JStr [])"

text \<open>Opening the dialogue asks for the data of the factor, which are not used.\<close>

definition mm_showModal :: "string \<Rightarrow> jsval \<Rightarrow> mfa_modal \<Rightarrow> mfa_modal" where
  "mm_showModal mfaType user m =
     (if \<not> mm_isValid mfaType user
      then mm_show ''error'' (if mfaType = ''email'' then ''login:Please input your Email!'' else ''signup:Please input your phone number!'') m
      else if mm_open m then m
      else m\<lparr>mm_open := True, mm_requests := mm_requests m @
             [(''initiate'', map (\<lambda>k. (k, spread_text mfaType user k)) [''owner'', ''name'', ''mfaType''])]\<rparr>)"

definition mm_initiated :: "answer replied \<Rightarrow> mfa_modal \<Rightarrow> mfa_modal" where
  "mm_initiated r m =
     (case r of
        NoAnswer err \<Rightarrow> m
      | Answered res \<Rightarrow> if an_status res = ''error'' then mm_show ''error'' ''mfa:Failed to initiate MFA'' m else m)"

definition mm_handleOk :: "string \<Rightarrow> jsval \<Rightarrow> mfa_modal \<Rightarrow> mfa_modal" where
  "mm_handleOk mfaType user m = m\<lparr>mm_loading := True, mm_requests := mm_requests m @
     [(''enable'', map (\<lambda>k. (k, spread_text mfaType user k))
        [''mfaType'', ''owner'', ''name'', ''secret'', ''recoveryCodes'', ''dest'', ''countryCode''])]\<rparr>"

definition mm_enabled :: "answer replied \<Rightarrow> mfa_modal \<Rightarrow> mfa_modal" where
  "mm_enabled r m =
     (case r of
        NoAnswer err \<Rightarrow> m\<lparr>mm_loading := False\<rparr>
      | Answered res \<Rightarrow>
          if an_status res = ''ok''
          then (mm_show ''success'' ''general:Enabled successfully'' m)\<lparr>mm_open := False, mm_succeeded := True, mm_loading := False\<rparr>
          else (mm_show ''error'' (''general:Failed to enable: '' @ an_msg res) m)\<lparr>mm_loading := False\<rparr>)"

definition mm_handleCancel :: "mfa_modal \<Rightarrow> mfa_modal" where
  "mm_handleCancel m = m\<lparr>mm_open := False\<rparr>"


definition served_user :: "string \<Rightarrow> jsval" where
  "served_user name = JObj [(''owner'', JStr ''org''), (''name'', JStr name), (''email'', JStr ''a@b''), (''recoveryCodes'', JNull)]"


end
