(* ===== verification/App_Shell.thy ===== *)
theory App_Shell
  imports Login_Page
begin

text \<open>
  The frame of the console (\<open>web/src/App.js\<close>, with the guards of \<open>EntryPage.js\<close> and \<open>ManagementPage.js\<close>): the
  account and the credentials in the address of the page, the menu, the second factor that an
  organization requires, signing out. Themes, logos and the tour are not modelled.
\<close>

section \<open>The account\<close>

text \<open>The state \<open>account\<close> is \<open>undefined\<close> until the server has answered and \<open>null\<close> when nobody is signed in.\<close>

record signed_in =
  sg_account :: account
  sg_organization :: "organization option"
  sg_accessToken :: "string option"
  sg_needUpdatePassword :: bool
  sg_navItems :: jsval
  sg_userNavItems :: jsval

datatype account_state = AccountUnknown | SignedOut | SignedIn signed_in

datatype app_pending = AccountAsked | SignOutAsked

record app_shell =
  sh_account :: account_state
  sh_accessToken :: "string option"
  sh_uri :: "string option"
  sh_selectedMenuKey :: "string option"
  sh_requiredEnableMfa :: bool
  sh_browser :: browser
  sh_pending :: "app_pending list"
  sh_requests :: "api_request list"
  sh_effects :: "effect list"

type_synonym hact = "app_shell \<Rightarrow> app_shell"

definition new_shell :: "browser \<Rightarrow> app_shell" where
  "new_shell b = \<lparr>sh_account = AccountUnknown, sh_accessToken = None, sh_uri = None, sh_selectedMenuKey = Some ''0'',
     sh_requiredEnableMfa = False, sh_browser = b, sh_pending = [], sh_requests = [], sh_effects = []\<rparr>"

definition sh_do :: "effect \<Rightarrow> hact" where
  "sh_do e s = s\<lparr>sh_effects := sh_effects s @ [e]\<rparr>"

fun account_of :: "account_state \<Rightarrow> account option" where
  "account_of (SignedIn a) = Some (sg_account a)"
| "account_of _ = None"

fun organization_of :: "account_state \<Rightarrow> organization option" where
  "organization_of (SignedIn a) = sg_organization a"
| "organization_of _ = None"

section \<open>The menu\<close>

definition shown_nav :: "account_state \<Rightarrow> jsval" where
  "shown_nav a =
     (if isLocalAdminUser (account_of a)
      then (case a of SignedIn g \<Rightarrow> if sg_organization g = None then JUndefined else sg_navItems g | _ \<Rightarrow> JUndefined)
      else (case a of
              SignedIn g \<Rightarrow> if sg_organization g = None \<or> sg_userNavItems g \<in> {JUndefined, JNull} then JArr [] else sg_userNavItems g
            | _ \<Rightarrow> JArr []))"

definition validMenuItems :: "string list" where
  "validMenuItems =
     [''/'', ''/shortcuts'', ''/apps'', ''/organizations'', ''/groups'', ''/users'', ''/invitations'',
      ''/applications'', ''/providers'', ''/resources'', ''/certs'', ''/keys'',
      ''/roles'', ''/permissions'', ''/models'', ''/adapters'', ''/enforcers'', ''/entries'', ''/sites'', ''/rules'',
      ''/sessions'', ''/records'', ''/tokens'', ''/verifications'',
      ''/sysinfo'', ''/forms'', ''/syncers'', ''/webhooks'', ''/webhook-events'', ''/tickets'', ''/swagger'']"

definition shouldFlattenMenu :: "nat \<Rightarrow> account_state \<Rightarrow> bool" where
  "shouldFlattenMenu maxItems a =
     (case shown_nav a of
        JArr items \<Rightarrow> JStr ''all'' \<notin> set items \<and> length (filter (\<lambda>i. i \<in> JStr ` set validMenuItems) items) \<le> maxItems
      | _ \<Rightarrow> False)"

text \<open>\<open>uri.includes(a) || uri.includes(b) || ...\<close>, and the first of them that the address has.\<close>

definition has_any :: "string \<Rightarrow> string list \<Rightarrow> bool" where
  "has_any uri parts = list_ex (js_includes uri) parts"

definition first_part :: "string \<Rightarrow> string list \<Rightarrow> string option" where
  "first_part uri parts = find (js_includes uri) parts"

definition getSelectedMenuKeyForFlatMenu :: "string \<Rightarrow> string option" where
  "getSelectedMenuKeyForFlatMenu uri =
     (if uri = ''/'' \<or> has_any uri [''/shortcuts'', ''/apps'']
      then (if uri = ''/'' then Some ''/'' else first_part uri [''/shortcuts'', ''/apps''])
      else if has_any uri [''/organizations'', ''/trees'', ''/groups'', ''/users'', ''/invitations'']
      then first_part uri [''/organizations'', ''/groups'', ''/users'', ''/invitations'']
      else if has_any uri [''/applications'', ''/providers'', ''/resources'', ''/certs'']
      then first_part uri [''/applications'', ''/providers'', ''/resources'', ''/certs'']
      else if has_any uri [''/keys''] then Some ''/keys''
      else if has_any uri [''/entries'', ''/sites'', ''/rules''] then first_part uri [''/entries'', ''/sites'', ''/rules'']
      else if has_any uri [''/roles'', ''/permissions'', ''/models'', ''/adapters'', ''/enforcers'']
      then first_part uri [''/roles'', ''/permissions'', ''/models'', ''/adapters'', ''/enforcers'']
      else if has_any uri [''/records'', ''/tokens'', ''/sessions'', ''/verifications'']
      then first_part uri [''/sessions'', ''/records'', ''/tokens'', ''/verifications'']
      else if has_any uri [''/sysinfo'', ''/forms'', ''/syncers'', ''/webhooks'', ''/webhook-events'', ''/tickets'']
      then first_part uri [''/sysinfo'', ''/forms'', ''/syncers'', ''/webhook-events'', ''/webhooks'', ''/tickets'']
      else first_part uri [''/signup'', ''/login'', ''/result''])"

definition groupedMenuKey :: "string \<Rightarrow> string option" where
  "groupedMenuKey uri =
     (if uri = ''/'' \<or> has_any uri [''/shortcuts'', ''/apps''] then Some ''/home''
      else if has_any uri [''/organizations'', ''/trees'', ''/groups'', ''/users'', ''/invitations''] then Some ''/orgs''
      else if has_any uri [''/applications'', ''/providers'', ''/resources'', ''/certs'', ''/keys''] then Some ''/identity''
      else if has_any uri [''/entries'', ''/sites'', ''/rules''] then Some ''/gateway''
      else if has_any uri [''/roles'', ''/permissions'', ''/models'', ''/adapters'', ''/enforcers''] then Some ''/auth''
      else if has_any uri [''/records'', ''/tokens'', ''/sessions'', ''/verifications''] then Some ''/logs''
      else if has_any uri [''/sysinfo'', ''/forms'', ''/syncers'', ''/webhooks'', ''/webhook-events'', ''/tickets''] then Some ''/admin''
      else first_part uri [''/signup'', ''/login'', ''/result''])"

text \<open>The key \<open>-1\<close>, for an address without an item, is \<open>None\<close>.\<close>

definition updateMenuKey :: "nat \<Rightarrow> hact" where
  "updateMenuKey maxItems s =
     (let uri = br_pathname (sh_browser s) in
      s\<lparr>sh_uri := Some uri, sh_selectedMenuKey :=
          (if shouldFlattenMenu maxItems (sh_account s) then getSelectedMenuKeyForFlatMenu uri else groupedMenuKey uri)\<rparr>)"

text \<open>A click on an item of the menu.\<close>

definition menu_onClick :: "string \<Rightarrow> hact" where
  "menu_onClick key s =
     (if key \<noteq> ''/swagger'' \<and> key \<noteq> ''/records''
      then (if sh_requiredEnableMfa s then sh_do (Message ''info'' ''Please enable MFA first!'') s else sh_do (HistoryPush key) s)
      else s)"

section \<open>Credentials in the address\<close>

definition getAccessTokenParam :: "params \<Rightarrow> string" where
  "getAccessTokenParam q = (case usp_get q ''access_token'' of None \<Rightarrow> [] | Some t \<Rightarrow> ''?accessToken='' @ t)"

definition getCredentialParams :: "params \<Rightarrow> string" where
  "getCredentialParams q =
     (case (usp_get q ''username'', usp_get q ''password'') of
        (Some u, Some p) \<Rightarrow> ''?username='' @ u @ ''&password='' @ p
      | _ \<Rightarrow> [])"

definition getUrlWithoutQuery :: "browser \<Rightarrow> string" where
  "getUrlWithoutQuery b = js_replace (br_href b) (br_search b) []"

definition getLanguageParam :: "params \<Rightarrow> browser \<Rightarrow> string \<times> browser" where
  "getLanguageParam q b =
     (case usp_get q ''language'' of
        None \<Rightarrow> ([], b)
      | Some l \<Rightarrow> (''language='' @ l, set_local ''language'' l b))"

text \<open>
  \<open>history.replaceState\<close> with an address of this origin, absolute or from the root: path, query and
  fragment are what the address says.
\<close>

definition replaceState :: "string \<Rightarrow> browser \<Rightarrow> browser" where
  "replaceState url b =
     (let rest = (if js_startsWith url (br_origin b) then drop (length (br_origin b)) url else url);
          path = takeWhile (\<lambda>c. c \<noteq> CHR ''?'' \<and> c \<noteq> CHR ''#'') rest;
          query = takeWhile (\<lambda>c. c \<noteq> CHR ''#'') (drop (length path) rest) in
      b\<lparr>br_href := br_origin b @ rest, br_pathname := path, br_search := query\<rparr>)"

text \<open>
  \<open>url.replace(new RegExp(`[?&]${query}`), "")\<close>. The text of a query with letters, digits, hyphens and the
  equals sign is a pattern for itself; any other pattern is up to the argument, which may throw.
\<close>

fun cut_param :: "string \<Rightarrow> string \<Rightarrow> string" where
  "cut_param q [] = []"
| "cut_param q (c # cs) = (if c \<in> {CHR ''?'', CHR ''&''} \<and> prefix q cs then drop (length q) cs else c # cut_param q cs)"

definition plain_pattern :: "string \<Rightarrow> bool" where
  "plain_pattern q = list_all (\<lambda>c. is_alpha c \<or> is_digit c \<or> c \<in> {CHR ''-'', CHR ''_'', CHR ''=''}) q"

definition without_language :: "(string \<Rightarrow> string \<Rightarrow> string result) \<Rightarrow> string \<Rightarrow> string \<Rightarrow> string result" where
  "without_language regexp q url = (if plain_pattern q then Return (cut_param q url) else regexp q url)"

definition app_getAccount :: "(string \<Rightarrow> string \<Rightarrow> string result) \<Rightarrow> app_shell \<Rightarrow> app_shell result" where
  "app_getAccount regexp s =
     (let b = sh_browser s; params = URLSearchParams (br_search b);
          query = (if getAccessTokenParam params \<noteq> [] then getAccessTokenParam params else getCredentialParams params);
          (query2, b1) = getLanguageParam params b in
      bind_result
        (if query2 \<noteq> [] then bind_result (without_language regexp query2 (br_href b1)) (\<lambda>url. Return (replaceState url b1)) else Return b1)
        (\<lambda>b2.
          let b3 = (if query \<noteq> []
                    then (case usp_get params ''returnUrl'' of
                            Some (c # cs) \<Rightarrow> replaceState (br_pathname b2 @ ''?'' @ usp_toString (usp_set [] ''returnUrl'' (c # cs))) b2
                          | _ \<Rightarrow> replaceState (getUrlWithoutQuery b2) b2)
                    else b2) in
          Return (s\<lparr>sh_browser := b3, sh_requests := sh_requests s @ [api_getAccount query], sh_pending := sh_pending s @ [AccountAsked]\<rparr>)))"

record shell_answer =
  sa_status :: string
  sa_msg :: string
  sa_text :: string
  sa_account :: signed_in

definition appAccountAnswered :: "shell_answer replied \<Rightarrow> hact" where
  "appAccountAnswered r s =
     (case r of
        NoAnswer err \<Rightarrow> s
      | Answered res \<Rightarrow>
          if sa_status res = ''ok'' then s\<lparr>sh_account := SignedIn (sa_account res), sh_accessToken := sg_accessToken (sa_account res)\<rparr>
          else (if sa_text res \<noteq> ''Please login first'' then sh_do (Message ''error'' (''application:Failed to sign in: '' @ sa_msg res)) s else s)
                 \<lparr>sh_account := SignedOut, sh_accessToken := None\<rparr>)"

text \<open>\<open>componentDidUpdate\<close>: the first argument says whether the account was replaced.\<close>

definition app_componentDidUpdate :: "nat \<Rightarrow> bool \<Rightarrow> hact" where
  "app_componentDidUpdate maxItems newAccount s =
     (let s1 = (if sh_uri s \<noteq> Some (br_pathname (sh_browser s)) then updateMenuKey maxItems s else s) in
      if \<not> newAccount then s1
      else let required = isRequiredEnableMfa (account_of (sh_account s1)) (organization_of (sh_account s1));
               s2 = s1\<lparr>sh_requiredEnableMfa := required\<rparr> in
        if \<not> required then s2
        else case find (\<lambda>i. mi_rule i = ''Required'')
                    (getMfaItemsByRules (account_of (sh_account s1)) (organization_of (sh_account s1)) [''Required'']) of
               None \<Rightarrow> s2
             | Some i \<Rightarrow> sh_do (HistoryPush (''/mfa/setup?mfaType='' @ mi_name i)) s2)"

definition app_onLoginSuccess :: "(string \<Rightarrow> string \<Rightarrow> string result) \<Rightarrow> string option \<Rightarrow> app_shell \<Rightarrow> app_shell result" where
  "app_onLoginSuccess regexp redirectUrl s =
     app_getAccount regexp (case redirectUrl of
        Some (c # cs) \<Rightarrow> s\<lparr>sh_browser := set_local ''mfaRedirectUrl'' (c # cs) (sh_browser s)\<rparr>
      | _ \<Rightarrow> s)"

text \<open>\<open>onfinish\<close> of the page that sets a factor up, and \<open>setLogoutState\<close>.\<close>

definition app_onfinish :: hact where
  "app_onfinish s = s\<lparr>sh_requiredEnableMfa := False\<rparr>"

definition setLogoutState :: hact where
  "setLogoutState s = s\<lparr>sh_account := SignedOut\<rparr>"

section \<open>Guards and signing out\<close>

datatype guarded = ShowComponent | ShowNothing | RedirectTo string

definition renderHomeIfLoggedIn :: "account_state \<Rightarrow> guarded" where
  "renderHomeIfLoggedIn a = (case a of SignedIn g \<Rightarrow> RedirectTo ''/'' | _ \<Rightarrow> ShowComponent)"

definition entry_renderLoginIfNotLoggedIn :: "account_state \<Rightarrow> browser \<Rightarrow> guarded \<times> browser" where
  "entry_renderLoginIfNotLoggedIn a b =
     (case a of
        SignedOut \<Rightarrow> (RedirectTo ''/login'', set_session ''from'' (br_pathname b) b)
      | AccountUnknown \<Rightarrow> (ShowNothing, b)
      | SignedIn g \<Rightarrow> (ShowComponent, b))"

definition renderLoginIfNotLoggedIn :: "account_state \<Rightarrow> browser \<Rightarrow> guarded \<times> browser" where
  "renderLoginIfNotLoggedIn a b =
     (case a of
        SignedOut \<Rightarrow>
          (RedirectTo (case br_local b ''lastLoginOrg'' of Some (c # cs) \<Rightarrow> ''/login/'' @ c # cs | _ \<Rightarrow> ''/login''),
           set_session ''from'' (br_pathname b) b)
      | AccountUnknown \<Rightarrow> (ShowNothing, b)
      | SignedIn g \<Rightarrow>
          (if sg_needUpdatePassword g \<and> br_pathname b \<noteq> ''/account'' then RedirectTo ''/account'' else ShowComponent, b))"

definition management_logout :: hact where
  "management_logout s =
     s\<lparr>sh_requests := sh_requests s @ [api_logout], sh_pending := sh_pending s @ [SignOutAsked]\<rparr>"

record logout_answer =
  lo_status :: string
  lo_msg :: string
  lo_redirectUri :: "string option"

text \<open>Without an account the handler throws before anything happens.\<close>

definition signedOut :: "logout_answer replied \<Rightarrow> hact" where
  "signedOut r s =
     (case r of
        NoAnswer err \<Rightarrow> s
      | Answered res \<Rightarrow>
          if lo_status res = ''ok''
          then (case sh_account s of
                  SignedIn g \<Rightarrow>
                    let s1 = sh_do (Message ''success'' ''application:Logged out successfully'') (setLogoutState s) in
                    (case lo_redirectUri res of
                       Some (c # cs) \<Rightarrow> sh_do (GoToLink (c # cs)) s1
                     | _ \<Rightarrow> if ac_owner (sg_account g) \<noteq> ''built-in''
                            then sh_do (GoToLink (br_origin (sh_browser s) @ ''/login/'' @ ac_owner (sg_account g))) s1
                            else sh_do (HistoryPush ''/'') s1)
                | _ \<Rightarrow> s)
          else sh_do (Message ''error'' (''general:Failed to log out: '' @ lo_msg res)) s)"

section \<open>Both menus agree\<close>

definition menu_group :: "string \<Rightarrow> string" where
  "menu_group k =
     (if k \<in> {''/'', ''/shortcuts'', ''/apps''} then ''/home''
      else if k \<in> {''/organizations'', ''/groups'', ''/users'', ''/invitations''} then ''/orgs''
      else if k \<in> {''/applications'', ''/providers'', ''/resources'', ''/certs'', ''/keys''} then ''/identity''
      else if k \<in> {''/entries'', ''/sites'', ''/rules''} then ''/gateway''
      else if k \<in> {''/roles'', ''/permissions'', ''/models'', ''/adapters'', ''/enforcers''} then ''/auth''
      else if k \<in> {''/sessions'', ''/records'', ''/tokens'', ''/verifications''} then ''/logs''
      else if k \<in> {''/sysinfo'', ''/forms'', ''/syncers'', ''/webhook-events'', ''/webhooks'', ''/tickets''} then ''/admin''
      else k)"

lemma first_part_group:
  assumes "first_part uri parts = Some k" "list_all (\<lambda>k. menu_group k = g k) parts"
  shows "menu_group k = g k"
proof -
  have "k \<in> set parts" using assms(1) by (auto simp: first_part_def find_Some_iff)
  then show ?thesis using assms(2) by (simp add: list_all_iff)
qed

text \<open>The two chains of conditions, with what a chosen item must satisfy in each case.\<close>

lemma chains_agree:
  assumes "(if a0 then (if z then Some k0 else f0) else if a1 then f1 else if a2 then f2 else if a3 then Some k3 else if a4 then f4
      else if a5 then f5 else if a6 then f6 else if a7 then f7 else f8) = Some k"
    "g k0 = h0" "\<And>k. f0 = Some k \<Longrightarrow> g k = h0" "\<And>k. f1 = Some k \<Longrightarrow> g k = h1" "\<And>k. f2 = Some k \<Longrightarrow> g k = h2" "g k3 = h2"
    "\<And>k. f4 = Some k \<Longrightarrow> g k = h4" "\<And>k. f5 = Some k \<Longrightarrow> g k = h5" "\<And>k. f6 = Some k \<Longrightarrow> g k = h6"
    "\<And>k. f7 = Some k \<Longrightarrow> g k = h7" "\<And>k. f8 = Some k \<Longrightarrow> g k = k"
  shows "(if a0 then Some h0 else if a1 then Some h1 else if a2 \<or> a3 then Some h2 else if a4 then Some h4 else if a5 then Some h5
      else if a6 then Some h6 else if a7 then Some h7 else f8) = Some (g k)"
  using assms by (auto split: if_splits)

text \<open>The item that the flat menu selects is one of the group that the grouped menu selects, for every address.\<close>

lemma flat_key_in_group:
  assumes "getSelectedMenuKeyForFlatMenu uri = Some k"
  shows "groupedMenuKey uri = Some (menu_group k)"
proof -
  have keys: "has_any uri [''/applications'', ''/providers'', ''/resources'', ''/certs'', ''/keys'']
      = (has_any uri [''/applications'', ''/providers'', ''/resources'', ''/certs''] \<or> has_any uri [''/keys''])"
    by (simp add: has_any_def)
  show ?thesis
    using assms unfolding getSelectedMenuKeyForFlatMenu_def groupedMenuKey_def keys
    by (rule chains_agree) ((erule first_part_group, code_simp) | code_simp)+
qed

section \<open>Required factors\<close>

text \<open>
  After an account was replaced, a click on the menu leads away only when no factor is required of it.
\<close>

lemma menu_held_until_mfa:
  assumes "key \<noteq> ''/swagger''" "key \<noteq> ''/records''" "t = app_componentDidUpdate n True s"
  shows "HistoryPush key \<in> set (drop (length (sh_effects t)) (sh_effects (menu_onClick key t)))
    \<longleftrightarrow> \<not> isRequiredEnableMfa (account_of (sh_account s)) (organization_of (sh_account s))"
proof -
  have "sh_requiredEnableMfa t = isRequiredEnableMfa (account_of (sh_account s)) (organization_of (sh_account s))"
    by (auto simp: assms(3) app_componentDidUpdate_def updateMenuKey_def Let_def sh_do_def split: option.split)
  then show ?thesis using assms(1,2) by (simp add: menu_onClick_def sh_do_def)
qed

section \<open>Credentials do not stay in the address\<close>

text \<open>A browser whose parts of the address fit together, with the fragment.\<close>

definition located :: "browser \<Rightarrow> string \<Rightarrow> bool" where
  "located b fragment \<longleftrightarrow>
     br_href b = br_origin b @ br_pathname b @ br_search b @ fragment
     \<and> CHR ''?'' \<notin> set (br_origin b) \<and> \<not> prefix ''/'' (br_origin b)
     \<and> prefix ''/'' (br_pathname b) \<and> CHR ''?'' \<notin> set (br_pathname b) \<and> CHR ''#'' \<notin> set (br_pathname b)
     \<and> CHR ''#'' \<notin> set (br_search b) \<and> (br_search b = [] \<or> prefix ''?'' (br_search b))
     \<and> (fragment = [] \<or> prefix ''#'' fragment)"

lemma find_sub_at:
  assumes "c \<notin> set a"
  shows "find_sub (c # cs) (a @ (c # cs) @ r) = Some (a, r)"
  using assms by (induction a) (auto simp: prefix_def)

lemma takeWhile_stop: "list_all P xs \<Longrightarrow> ys = [] \<or> \<not> P (hd ys) \<Longrightarrow> takeWhile P (xs @ ys) = xs"
  by (induction xs) (auto simp: takeWhile_eq_Nil_iff)

lemma form_unreserved_hash: "form_unreserved c \<Longrightarrow> c \<noteq> CHR ''#''"
  by (auto simp: form_unreserved_def is_alpha_def is_lower_def is_upper_def is_digit_def)

lemma pct_byte_hash: "CHR ''#'' \<notin> set (pct_byte c)"
proof -
  have "hex_digit n \<noteq> CHR ''#''" if "n < 16" for n
    using hex_digit_alnum [OF that] by (auto simp: is_digit_def is_upper_def)
  from this [OF div16_less [of c]] this [of "of_char c mod 16"] show ?thesis by (auto simp: pct_byte_def)
qed

lemma form_encode_hash: "CHR ''#'' \<notin> set (form_encode t)"
  using form_unreserved_hash pct_byte_hash by (auto simp: form_encode_def form_encode_char_def)

text \<open>The query of \<open>returnUrl\<close> alone.\<close>

lemma replaceState_returnUrl:
  assumes "located b fragment" "q = ''?'' @ usp_toString [(k, v)]"
  shows "br_search (replaceState (br_pathname b @ q) b) = q \<and> br_pathname (replaceState (br_pathname b @ q) b) = br_pathname b"
proof -
  have o: "br_origin b = []" if "js_startsWith (br_pathname b @ q) (br_origin b)"
    using assms(1) that by (cases "br_origin b") (auto simp: located_def prefix_def Cons_eq_append_conv)
  have "list_all (\<lambda>c. c \<noteq> CHR ''?'' \<and> c \<noteq> CHR ''#'') (br_pathname b)"
    using assms(1) by (auto simp: located_def list_all_iff)
  from takeWhile_stop [OF this, of q] have path: "takeWhile (\<lambda>c. c \<noteq> CHR ''?'' \<and> c \<noteq> CHR ''#'') (br_pathname b @ q) = br_pathname b"
    by (simp add: assms(2))
  have "CHR ''#'' \<notin> set q" using form_encode_hash by (simp add: assms(2) usp_toString_def)
  then have "takeWhile (\<lambda>c. c \<noteq> CHR ''#'') q = q"
    by (intro takeWhile_eq_all_conv [THEN iffD2] ballI notI) (simp only:)
  moreover have "(if js_startsWith (br_pathname b @ q) (br_origin b) then drop (length (br_origin b)) (br_pathname b @ q) else br_pathname b @ q)
      = br_pathname b @ q"
    using o by (cases "js_startsWith (br_pathname b @ q) (br_origin b)") simp_all
  ultimately show ?thesis by (simp add: replaceState_def Let_def path)
qed

lemma replaceState_without_query:
  assumes "located b fragment" "br_search b \<noteq> []"
  shows "br_search (replaceState (getUrlWithoutQuery b) b) = [] \<and> br_pathname (replaceState (getUrlWithoutQuery b) b) = br_pathname b"
proof -
  obtain cs where cs: "br_search b = CHR ''?'' # cs" using assms by (auto simp: located_def prefix_def)
  have "CHR ''?'' \<notin> set (br_origin b @ br_pathname b)" using assms(1) by (simp add: located_def)
  from find_sub_at [OF this, of cs fragment] have url: "getUrlWithoutQuery b = br_origin b @ br_pathname b @ fragment"
    using assms(1) by (simp add: getUrlWithoutQuery_def js_replace_def located_def cs)
  have f: "fragment = [] \<or> hd fragment = CHR ''#''" using assms(1) by (auto simp: located_def prefix_def)
  have "list_all (\<lambda>c. c \<noteq> CHR ''?'' \<and> c \<noteq> CHR ''#'') (br_pathname b)"
    using assms(1) by (auto simp: located_def list_all_iff)
  from takeWhile_stop [OF this, of fragment] f
  have "takeWhile (\<lambda>c. c \<noteq> CHR ''?'' \<and> c \<noteq> CHR ''#'') (br_pathname b @ fragment) = br_pathname b" by auto
  moreover have "takeWhile (\<lambda>c. c \<noteq> CHR ''#'') fragment = []" using f by (cases fragment) auto
  ultimately show ?thesis by (simp add: url replaceState_def Let_def)
qed

text \<open>
  C38. When the console is opened with an access token, or with a name and a password, in a query without a
  language, the request for the account is made and the address keeps its path and none of its parameters
  except \<open>returnUrl\<close>: the credentials are not left in the address bar and the history.
\<close>

theorem credentials_leave_address:
  assumes "located (sh_browser s) fragment" "params = URLSearchParams (br_search (sh_browser s))"
    "usp_get params ''language'' = None"
    "getAccessTokenParam params \<noteq> [] \<or> getCredentialParams params \<noteq> []" "k \<noteq> ''returnUrl''"
  shows "\<exists>t. app_getAccount regexp s = Return t
    \<and> usp_get (URLSearchParams (br_search (sh_browser t))) k = None
    \<and> br_pathname (sh_browser t) = br_pathname (sh_browser s)
    \<and> sh_requests t = sh_requests s @
        [api_getAccount (if getAccessTokenParam params \<noteq> [] then getAccessTokenParam params else getCredentialParams params)]"
proof -
  let ?b = "sh_browser s"
  have "br_search ?b \<noteq> []"
  proof
    assume "br_search ?b = []"
    then have "params = []" by (simp add: assms(2) URLSearchParams_def parse_pairs_def)
    with assms(4) show False by (simp add: getAccessTokenParam_def getCredentialParams_def)
  qed
  from replaceState_without_query [OF assms(1) this] have plain:
    "usp_get (URLSearchParams (br_search (replaceState (getUrlWithoutQuery ?b) ?b))) k = None"
    "br_pathname (replaceState (getUrlWithoutQuery ?b) ?b) = br_pathname ?b"
    by (simp_all add: URLSearchParams_def parse_pairs_def)
  have kept: "usp_get (URLSearchParams (br_search (replaceState (br_pathname ?b @ ''?'' @ usp_toString [(''returnUrl'', v)]) ?b))) k = None"
    "br_pathname (replaceState (br_pathname ?b @ ''?'' @ usp_toString [(''returnUrl'', v)]) ?b) = br_pathname ?b" for v
    using replaceState_returnUrl [OF assms(1) refl, of "''returnUrl''" v] assms(5) URLSearchParams_toString [of "[(''returnUrl'', v)]"]
    by simp_all
  show ?thesis
    using assms(2-4) plain kept
    by (auto simp: app_getAccount_def getLanguageParam_def Let_def split: option.split list.split)
qed

definition shop_shell :: app_shell where
  "shop_shell = new_shell (fresh_browser ''https://x'' ''/users'' ''?access_token=s3&returnUrl=%2Fa%23b'')"

theorem credentials_leave_address_witness:
  "\<exists>t. app_getAccount (\<lambda>q url. Throw SyntaxError) shop_shell = Return t
    \<and> usp_get (URLSearchParams (br_search (sh_browser t))) ''access_token'' = None
    \<and> br_pathname (sh_browser t) = ''/users'' \<and> map rq_path (sh_requests t) = [''/api/get-account?accessToken=s3'']"
proof -
  let ?p = "URLSearchParams (br_search (sh_browser shop_shell))"
  have "located (sh_browser shop_shell) []" by code_simp
  moreover have "usp_get ?p ''language'' = None" by code_simp
  moreover have a: "getAccessTokenParam ?p = ''?accessToken=s3''" by code_simp
  ultimately obtain t where "app_getAccount (\<lambda>q url. Throw SyntaxError) shop_shell = Return t"
    "usp_get (URLSearchParams (br_search (sh_browser t))) ''access_token'' = None"
    "br_pathname (sh_browser t) = br_pathname (sh_browser shop_shell)"
    "sh_requests t = sh_requests shop_shell @ [api_getAccount ''?accessToken=s3'']"
    using credentials_leave_address [of shop_shell "[]" ?p "''access_token''" "\<lambda>q url. Throw SyntaxError"] by auto
  moreover have "br_pathname (sh_browser shop_shell) = ''/users''" "sh_requests shop_shell = []"
    by (simp_all add: shop_shell_def new_shell_def fresh_browser_def)
  ultimately show ?thesis by (auto simp: api_getAccount_def api_fetch_def)
qed

text \<open>
  With a language as the first parameter its question mark is cut off with it. The rest of the query then
  belongs to the path, the query is empty, and the token stays.
\<close>

lemma language_first_keeps_token:
  "map_sum id (\<lambda>t. (br_href (sh_browser t), br_search (sh_browser t)))
     (app_getAccount (\<lambda>q url. Throw SyntaxError) (new_shell (fresh_browser ''https://x'' ''/users'' ''?language=en&access_token=s3'')))
   = Return (''https://x/users&access_token=s3'', [])"
  by code_simp

end
