(* ===== verification/Shop_Cart.thy ===== *)
theory Shop_Cart
  imports Login_Page
begin

text \<open>
  The cart of a user: adding to it on the page of a product (\<open>web/src/ProductBuyPage.js\<close>) and in the store
  (\<open>ProductStorePage.js\<close>), and the cart itself (\<open>CartListPage.js\<close>) with its quantities, its total and its
  order. The cart is a field of the user's record: every change reads the record, changes its copy and
  writes it back. The copy that the cart page makes (\<open>Setting.deepCopy\<close>) shares the list of items with the
  state, so an item that is removed or changed there is removed or changed in the state at once. Prices and quantities are integers; a value that is not a number is \<open>None\<close>.
\<close>

section \<open>Data\<close>

record cart_item =
  ci_name :: string
  ci_createdTime :: string
  ci_price :: "int arg"
  ci_currency :: string
  ci_pricingName :: string
  ci_planName :: string
  ci_quantity :: "int arg"

record product =
  pd_owner :: string
  pd_name :: string
  pd_price :: int
  pd_currency :: string
  pd_isRecharge :: bool

record cart_user =
  cu_owner :: string
  cu_name :: string
  cu_cart :: "cart_item list option"

definition cart_of :: "cart_user \<Rightarrow> cart_item list" where
  "cart_of u = (case cu_cart u of None \<Rightarrow> [] | Some items \<Rightarrow> items)"

text \<open>\<open>cart.findIndex(p)\<close>, with \<open>None\<close> for \<open>-1\<close>.\<close>

definition find_index :: "('a \<Rightarrow> bool) \<Rightarrow> 'a list \<Rightarrow> nat option" where
  "find_index P xs = (let n = length (takeWhile (\<lambda>x. \<not> P x) xs) in if n < length xs then Some n else None)"

text \<open>The test with which all handlers look for an item.\<close>

definition same_item :: "string \<Rightarrow> bool \<Rightarrow> int arg \<Rightarrow> string \<Rightarrow> string \<Rightarrow> cart_item \<Rightarrow> bool" where
  "same_item name isRecharge price pricing plan i \<longleftrightarrow>
     ci_name i = name \<and> (isRecharge \<longrightarrow> ci_price i = price) \<and> ci_pricingName i = pricing \<and> ci_planName i = plan"

section \<open>Adding\<close>

text \<open>\<open>(quantity ?? 1) + added\<close>.\<close>

definition more_quantity :: "int arg \<Rightarrow> int \<Rightarrow> int arg" where
  "more_quantity q n = Val ((case q of Val m \<Rightarrow> m | _ \<Rightarrow> 1) + n)"

definition other_currency :: "cart_item list \<Rightarrow> product \<Rightarrow> bool" where
  "other_currency cart p \<longleftrightarrow> (case cart of
     i # is \<Rightarrow> ci_currency i \<noteq> [] \<and> pd_currency p \<noteq> [] \<and> ci_currency i \<noteq> pd_currency p | [] \<Rightarrow> False)"

definition buy_cart :: "string \<Rightarrow> product \<Rightarrow> int \<Rightarrow> string \<Rightarrow> string \<Rightarrow> int \<Rightarrow> cart_item list \<Rightarrow> cart_item list" where
  "buy_cart now p actualPrice pricing plan quantity cart =
     (case find_index (same_item (pd_name p) (pd_isRecharge p) (Val actualPrice) pricing plan) cart of
        Some n \<Rightarrow> cart[n := (cart ! n)\<lparr>ci_quantity := more_quantity (ci_quantity (cart ! n)) quantity\<rparr>]
      | None \<Rightarrow> cart @ [\<lparr>ci_name = pd_name p, ci_createdTime = now, ci_price = (if pd_isRecharge p then Val actualPrice else Null),
                 ci_currency = pd_currency p, ci_pricingName = pricing, ci_planName = plan, ci_quantity = Val quantity\<rparr>])"

definition store_cart :: "string \<Rightarrow> product \<Rightarrow> int \<Rightarrow> cart_item list \<Rightarrow> cart_item list" where
  "store_cart now p quantity cart =
     (case find_index (\<lambda>i. ci_name i = pd_name p) cart of
        Some n \<Rightarrow> cart[n := (cart ! n)\<lparr>ci_quantity := more_quantity (ci_quantity (cart ! n)) quantity\<rparr>]
      | None \<Rightarrow> cart @ [\<lparr>ci_name = pd_name p, ci_createdTime = now, ci_price = Undefined,
                 ci_currency = pd_currency p, ci_pricingName = [], ci_planName = [], ci_quantity = Val quantity\<rparr>])"

text \<open>The page of a product.\<close>

datatype shop_request =
    GetUser string string
  | UpdateUser string string cart_user
  | GetProduct string string
  | PlaceOrder string "(string \<times> int arg \<times> int arg \<times> string \<times> string) list" string

datatype buy_pending = UserForCart product | CartSaved nat | OrderPlaced

record buy_page =
  by_user :: "(string \<times> string) option"
  by_pricingName :: "string option"
  by_planName :: "string option"
  by_userName :: "string option"
  by_isPlacingOrder :: bool
  by_isAddingToCart :: bool
  by_customPrice :: int
  by_buyQuantity :: int
  by_cartItemCount :: nat
  by_pending :: "buy_pending list"
  by_requests :: "shop_request list"
  by_effects :: "effect list"

type_synonym bact = "buy_page \<Rightarrow> buy_page"

definition or_blank :: "string option \<Rightarrow> string" where
  "or_blank v = (case v of None \<Rightarrow> [] | Some t \<Rightarrow> t)"

definition by_show :: "string \<Rightarrow> string \<Rightarrow> bact" where
  "by_show ty msg s = s\<lparr>by_effects := by_effects s @ [Message ty msg]\<rparr>"

definition by_ask :: "shop_request \<Rightarrow> buy_pending \<Rightarrow> bact" where
  "by_ask rq k s = s\<lparr>by_requests := by_requests s @ [rq], by_pending := by_pending s @ [k]\<rparr>"

definition end_adding :: bact where
  "end_adding s = s\<lparr>by_isAddingToCart := False\<rparr>"

definition buy_addToCart :: "product \<Rightarrow> bact" where
  "buy_addToCart p s =
     (if by_isAddingToCart s then s
      else case by_user s of
        None \<Rightarrow> s\<lparr>by_isAddingToCart := True\<rparr>
      | Some (w, n) \<Rightarrow> by_ask (GetUser w n) (UserForCart p) (s\<lparr>by_isAddingToCart := True\<rparr>))"

record user_answer =
  us_status :: string
  us_msg :: string
  us_user :: cart_user

definition buy_userFetched :: "string \<Rightarrow> product \<Rightarrow> user_answer replied \<Rightarrow> bact" where
  "buy_userFetched now p r s =
     (case r of
        NoAnswer err \<Rightarrow> end_adding (by_show ''error'' (''general:Failed to connect to server: '' @ err) s)
      | Answered res \<Rightarrow>
          if us_status res \<noteq> ''ok'' then end_adding (by_show ''error'' (''general:Failed to connect to server: '' @ us_msg res) s)
          else let u = us_user res; cart = cart_of u; price = (if pd_isRecharge p then by_customPrice s else pd_price p) in
            if pd_isRecharge p \<and> price \<le> 0
            then end_adding (by_show ''error'' ''product:Custom price should be greater than zero'' s)
            else if other_currency cart p
            then end_adding (by_show ''error'' ''product:The currency of the product you are adding is different from the currency of the items in the cart'' s)
            else let cart' = buy_cart now p price (or_blank (by_pricingName s)) (or_blank (by_planName s)) (by_buyQuantity s) cart in
              by_ask (UpdateUser (cu_owner u) (cu_name u) (u\<lparr>cu_cart := Some cart'\<rparr>)) (CartSaved (length cart')) s)"

definition buy_cartSaved :: "nat \<Rightarrow> answer replied \<Rightarrow> bact" where
  "buy_cartSaved n r s = end_adding
     (case r of
        NoAnswer err \<Rightarrow> by_show ''error'' (''general:Failed to connect to server: '' @ err) s
      | Answered res \<Rightarrow>
          if an_status res = ''ok'' then (by_show ''success'' ''general:Successfully added'' s)\<lparr>by_cartItemCount := n\<rparr>
          else by_show ''error'' (an_msg res) s)"

definition buy_placeOrder :: "product \<Rightarrow> bact" where
  "buy_placeOrder p s = by_ask (PlaceOrder (pd_owner p)
     [(pd_name p, Val (if pd_isRecharge p then by_customPrice s else pd_price p), Val (by_buyQuantity s),
       or_blank (by_pricingName s), or_blank (by_planName s))] (or_blank (by_userName s))) OrderPlaced (s\<lparr>by_isPlacingOrder := True\<rparr>)"

definition buy_orderPlaced :: "answer replied \<Rightarrow> bact" where
  "buy_orderPlaced r s =
     (case r of
        NoAnswer err \<Rightarrow> (by_show ''error'' (''general:Failed to connect to server: '' @ err) s)\<lparr>by_isPlacingOrder := False\<rparr>
      | Answered res \<Rightarrow>
          if an_status res = ''ok''
          then (let s1 = by_show ''success'' ''product:Order created successfully'' s in
                s1\<lparr>by_effects := by_effects s1 @
                  [GoToLink (''/orders/'' @ js_text (field (an_data res) ''owner'') @ ''/'' @ js_text (field (an_data res) ''name'') @ ''/pay'')]\<rparr>)
          else (by_show ''error'' (''product:Failed to create order: '' @ an_msg res) s)\<lparr>by_isPlacingOrder := False\<rparr>)"

section \<open>The cart page\<close>

record cart_row =
  rw_name :: string
  rw_createdTime :: string
  rw_price :: "int arg"
  rw_currency :: string
  rw_pricingName :: string
  rw_planName :: string
  rw_quantity :: "int arg"
  rw_isRecharge :: bool
  rw_isInvalid :: bool

record product_answer =
  pa_status :: string
  pa_product :: "product option"

text \<open>The row of an item, with the product that the server has for it.\<close>

definition row_of :: "cart_item \<Rightarrow> product_answer replied \<Rightarrow> cart_row" where
  "row_of i r =
     (let broken = \<lparr>rw_name = ci_name i, rw_createdTime = ci_createdTime i, rw_price = ci_price i, rw_currency = ci_currency i,
            rw_pricingName = ci_pricingName i, rw_planName = ci_planName i, rw_quantity = ci_quantity i,
            rw_isRecharge = False, rw_isInvalid = True\<rparr> in
      case r of
        NoAnswer err \<Rightarrow> broken
      | Answered res \<Rightarrow>
          (case (pa_status res = ''ok'', pa_product res) of
             (True, Some p) \<Rightarrow>
               \<lparr>rw_name = pd_name p, rw_createdTime = ci_createdTime i, rw_price = (if pd_isRecharge p then ci_price i else Val (pd_price p)),
                rw_currency = pd_currency p, rw_pricingName = ci_pricingName i, rw_planName = ci_planName i, rw_quantity = ci_quantity i,
                rw_isRecharge = pd_isRecharge p,
                rw_isInvalid = (ci_currency i \<noteq> [] \<and> pd_currency p \<noteq> [] \<and> ci_currency i \<noteq> pd_currency p)\<rparr>
           | _ \<Rightarrow> broken))"

text \<open>Numbers in a product: \<open>undefined\<close> is not a number, \<open>null\<close> is zero.\<close>

definition as_number :: "int arg \<Rightarrow> int option" where
  "as_number v = (case v of Undefined \<Rightarrow> None | Null \<Rightarrow> Some 0 | Val n \<Rightarrow> Some n)"

definition times :: "int arg \<Rightarrow> int arg \<Rightarrow> int option" where
  "times a b = (case (as_number a, as_number b) of (Some m, Some n) \<Rightarrow> Some (m * n) | _ \<Rightarrow> None)"

definition plus_num :: "int option \<Rightarrow> int option \<Rightarrow> int option" where
  "plus_num a b = (case (a, b) of (Some m, Some n) \<Rightarrow> Some (m + n) | _ \<Rightarrow> None)"

definition cart_total :: "cart_row list \<Rightarrow> int option" where
  "cart_total rows = foldl (\<lambda>t r. plus_num t (times (rw_price r) (rw_quantity r))) (Some 0) (filter (\<lambda>r. \<not> rw_isInvalid r) rows)"

definition cart_currency :: "cart_row list \<Rightarrow> string" where
  "cart_currency rows =
     (case filter (\<lambda>r. \<not> rw_isInvalid r) rows of
        r # rs \<Rightarrow> rw_currency r
      | [] \<Rightarrow> (case rows of r # rs \<Rightarrow> if rw_currency r \<noteq> [] then rw_currency r else ''USD'' | [] \<Rightarrow> []))"

text \<open>\<open>b.createdTime - a.createdTime\<close> of two texts is not a number, which counts as zero: the order is kept.\<close>

definition sort_rows :: "(cart_row \<Rightarrow> cart_row \<Rightarrow> int) option \<Rightarrow> cart_row list \<Rightarrow> cart_row list" where
  "sort_rows cmp rows = (case cmp of Some c \<Rightarrow> js_sort c rows | None \<Rightarrow> js_sort (\<lambda>a b. 0) rows)"

datatype cart_pending =
    CartFetched
  | CartWritten string
  | QuantityWritten string cart_user
  | CartOrder

record cart_page =
  ct_owner :: string
  ct_name :: string
  ct_data :: "cart_row list"
  ct_user :: "cart_user option"
  ct_updating :: "string list"
  ct_isPlacingOrder :: bool
  ct_loading :: bool
  ct_pending :: "cart_pending list"
  ct_requests :: "shop_request list"
  ct_effects :: "effect list"

type_synonym ract = "cart_page \<Rightarrow> cart_page"

definition new_cart_page :: "string \<Rightarrow> string \<Rightarrow> cart_page" where
  "new_cart_page w n = \<lparr>ct_owner = w, ct_name = n, ct_data = [], ct_user = None, ct_updating = [], ct_isPlacingOrder = False,
     ct_loading = False, ct_pending = [], ct_requests = [], ct_effects = []\<rparr>"

definition ct_show :: "string \<Rightarrow> string \<Rightarrow> ract" where
  "ct_show ty msg s = s\<lparr>ct_effects := ct_effects s @ [Message ty msg]\<rparr>"

definition ct_ask :: "shop_request \<Rightarrow> cart_pending \<Rightarrow> ract" where
  "ct_ask rq k s = s\<lparr>ct_requests := ct_requests s @ [rq], ct_pending := ct_pending s @ [k]\<rparr>"

definition cart_fetch :: ract where
  "cart_fetch s = ct_ask (GetUser (ct_owner s) (ct_name s)) CartFetched (s\<lparr>ct_loading := True\<rparr>)"

text \<open>The answers about the products are all awaited; they are given in the order of the items.\<close>

definition cartFetched :: "(cart_row \<Rightarrow> cart_row \<Rightarrow> int) option \<Rightarrow> product_answer replied list \<Rightarrow> user_answer replied \<Rightarrow> ract" where
  "cartFetched cmp products r s =
     (case r of
        NoAnswer err \<Rightarrow> ct_show ''error'' (''general:Failed to connect to server: '' @ err) (s\<lparr>ct_loading := False\<rparr>)
      | Answered res \<Rightarrow>
          if us_status res \<noteq> ''ok'' then ct_show ''error'' (us_msg res) (s\<lparr>ct_loading := False\<rparr>)
          else let cart = cart_of (us_user res); rows = map2 row_of cart products; sorted = sort_rows cmp rows;
                   bad = (\<lambda>ty rs. map (\<lambda>w. Message ty (''product:Product not found or invalid: '' @ rw_name w)) (filter rw_isInvalid rs)) in
            s\<lparr>ct_loading := False, ct_data := sorted, ct_user := Some (us_user res),
              ct_requests := ct_requests s @ map (\<lambda>i. GetProduct (ct_owner s) (ci_name i)) cart,
              ct_effects := ct_effects s @ bad ''warning'' rows @ bad ''error'' sorted\<rparr>)"

definition write_cart :: "string \<Rightarrow> cart_user \<Rightarrow> cart_item list \<Rightarrow> ract" where
  "write_cart what u cart = ct_ask (UpdateUser (cu_owner u) (cu_name u) (u\<lparr>cu_cart := Some cart\<rparr>)) (CartWritten what)"

text \<open>Clearing a cart that is not loaded: the copy of \<open>null\<close> is an object without owner and name.\<close>

definition nobody_cleared :: shop_request where
  "nobody_cleared = UpdateUser ''undefined'' ''undefined'' \<lparr>cu_owner = [], cu_name = [], cu_cart = Some []\<rparr>"

definition clearCart :: ract where
  "clearCart s =
     (case ct_user s of
        None \<Rightarrow> ct_ask nobody_cleared (CartWritten ''delete'') s
      | Some u \<Rightarrow> write_cart ''delete'' u [] s)"

definition cartWritten :: "answer replied \<Rightarrow> ract" where
  "cartWritten r s =
     (case r of
        NoAnswer err \<Rightarrow> ct_show ''error'' (''general:Failed to connect to server: '' @ err) s
      | Answered res \<Rightarrow>
          if an_status res = ''ok'' then cart_fetch (ct_show ''success'' ''general:Successfully deleted'' s)
          else ct_show ''error'' (''general:Failed to delete: '' @ an_msg res) s)"

definition row_item :: "cart_row \<Rightarrow> cart_item \<Rightarrow> bool" where
  "row_item r = same_item (rw_name r) (rw_isRecharge r) (rw_price r) (rw_pricingName r) (rw_planName r)"

definition deleteCart :: "cart_row \<Rightarrow> ract" where
  "deleteCart r s =
     (case ct_user s of
        None \<Rightarrow> ct_show ''error'' ''general:Failed to delete'' s
      | Some u \<Rightarrow> (case cu_cart u of
          None \<Rightarrow> ct_show ''error'' ''general:Failed to delete'' s
        | Some cart \<Rightarrow> (case find_index (row_item r) cart of
            None \<Rightarrow> ct_show ''error'' ''general:Failed to delete'' s
          | Some n \<Rightarrow>
              let cart' = take n cart @ drop (Suc n) cart in write_cart ''delete'' u cart' (s\<lparr>ct_user := Some (u\<lparr>cu_cart := Some cart'\<rparr>)\<rparr>))))"

definition price_text :: "int arg \<Rightarrow> string" where
  "price_text v = (case v of Undefined \<Rightarrow> ''undefined'' | Null \<Rightarrow> ''null'' | Val n \<Rightarrow> show_int n)"

definition itemKey :: "cart_row \<Rightarrow> string" where
  "itemKey r = rw_name r @ ''-'' @ price_text (rw_price r) @ ''-'' @ rw_pricingName r @ ''-'' @ rw_planName r"

definition same_row :: "cart_row \<Rightarrow> cart_row \<Rightarrow> bool" where
  "same_row r d \<longleftrightarrow> rw_name d = rw_name r \<and> (rw_price r \<noteq> Null \<longrightarrow> rw_price d = rw_price r)
     \<and> rw_pricingName d = rw_pricingName r \<and> rw_planName d = rw_planName r"

definition updateCartItemQuantity :: "cart_row \<Rightarrow> int \<Rightarrow> ract" where
  "updateCartItemQuantity r q s =
     (if q < 1 \<or> itemKey r \<in> set (ct_updating s) then s
      else case ct_user s of
        None \<Rightarrow> s\<lparr>ct_updating := itemKey r # ct_updating s\<rparr>
      | Some u \<Rightarrow> (case cu_cart u of
          None \<Rightarrow> s\<lparr>ct_updating := itemKey r # ct_updating s\<rparr>
        | Some cart \<Rightarrow> (case find_index (row_item r) cart of
            None \<Rightarrow> s
          | Some n \<Rightarrow>
              let u' = u\<lparr>cu_cart := Some (cart[n := (cart ! n)\<lparr>ci_quantity := Val q\<rparr>])\<rparr>;
                  data = (case find_index (same_row r) (ct_data s) of
                            None \<Rightarrow> ct_data s | Some m \<Rightarrow> (ct_data s)[m := (ct_data s ! m)\<lparr>rw_quantity := Val q\<rparr>]) in
              ct_ask (UpdateUser (cu_owner u) (cu_name u) u') (QuantityWritten (itemKey r) u')
                (s\<lparr>ct_updating := itemKey r # ct_updating s, ct_data := data, ct_user := Some u'\<rparr>))))"

definition quantityWritten :: "string \<Rightarrow> cart_user \<Rightarrow> answer replied \<Rightarrow> ract" where
  "quantityWritten k u r s =
     (let s1 = (case r of
                  NoAnswer err \<Rightarrow> cart_fetch (ct_show ''error'' (''general:Failed to connect to server: '' @ err) s)
                | Answered res \<Rightarrow> if an_status res = ''ok'' then s\<lparr>ct_user := Some u\<rparr> else cart_fetch (ct_show ''error'' (an_msg res) s)) in
      s1\<lparr>ct_updating := removeAll k (ct_updating s1)\<rparr>)"

definition cart_order :: "cart_row list \<Rightarrow> (string \<times> int arg \<times> int arg \<times> string \<times> string) list" where
  "cart_order rows = map (\<lambda>r. (rw_name r, rw_price r, rw_quantity r, rw_pricingName r, rw_planName r)) rows"

definition cart_placeOrder :: ract where
  "cart_placeOrder s =
     (if ct_isPlacingOrder s then s
      else if list_ex rw_isInvalid (ct_data s)
      then ct_show ''error'' ''product:Cart contains invalid products, please delete them before placing an order'' s
      else if ct_data s = [] then ct_show ''error'' ''product:Product list cannot be empty'' s
      else ct_ask (PlaceOrder (case ct_user s of Some u \<Rightarrow> if cu_owner u \<noteq> [] then cu_owner u else ct_owner s | None \<Rightarrow> ct_owner s)
             (cart_order (ct_data s)) (case ct_user s of Some u \<Rightarrow> cu_name u | None \<Rightarrow> [])) CartOrder (s\<lparr>ct_isPlacingOrder := True\<rparr>))"

definition cartOrdered :: "answer replied \<Rightarrow> ract" where
  "cartOrdered r s =
     (case r of
        NoAnswer err \<Rightarrow> (ct_show ''error'' (''general:Failed to connect to server: '' @ err) s)\<lparr>ct_isPlacingOrder := False\<rparr>
      | Answered res \<Rightarrow>
          if an_status res = ''ok''
          then (let s1 = ct_show ''success'' ''product:Order created successfully'' (s\<lparr>ct_requests := ct_requests s @
                     [case ct_user s of None \<Rightarrow> nobody_cleared | Some u \<Rightarrow> UpdateUser (cu_owner u) (cu_name u) (u\<lparr>cu_cart := Some []\<rparr>)]\<rparr>) in
                s1\<lparr>ct_effects := ct_effects s1 @
                  [GoToLink (''/orders/'' @ js_text (field (an_data res) ''owner'') @ ''/'' @ js_text (field (an_data res) ''name'') @ ''/pay'')]\<rparr>)
          else (ct_show ''error'' (''product:Failed to create order: '' @ an_msg res) s)\<lparr>ct_isPlacingOrder := False\<rparr>)"

section \<open>Finding an item\<close>

lemma find_index_Some:
  assumes "find_index P xs = Some n"
  shows "n < length xs" "P (xs ! n)" "m < n \<Longrightarrow> \<not> P (xs ! m)"
proof -
  let ?t = "takeWhile (\<lambda>x. \<not> P x) xs"
  have n: "n = length ?t" "n < length xs" using assms by (auto simp: find_index_def Let_def split: if_splits)
  then show "n < length xs" "P (xs ! n)" using nth_length_takeWhile [of "\<lambda>x. \<not> P x" xs] by auto
  show "\<not> P (xs ! m)" if "m < n"
    using that n by (metis nth_mem set_takeWhileD takeWhile_nth)
qed

lemma find_index_None: "find_index P xs = None \<longleftrightarrow> \<not> list_ex P xs"
proof -
  have "find_index P xs = None \<longleftrightarrow> length (takeWhile (\<lambda>x. \<not> P x) xs) = length xs"
    using length_takeWhile_le [of "\<lambda>x. \<not> P x" xs] by (auto simp: find_index_def Let_def)
  also have "\<dots> \<longleftrightarrow> takeWhile (\<lambda>x. \<not> P x) xs = xs"
    by (metis takeWhile_dropWhile_id append_Nil2 append_eq_append_conv)
  finally show ?thesis by (auto simp: list_ex_iff)
qed

text \<open>When one item alone satisfies the test, it is the one that is found.\<close>

lemma find_index_only:
  assumes "n < length xs" "P (xs ! n)" "\<And>m. m < length xs \<Longrightarrow> P (xs ! m) \<Longrightarrow> m = n"
  shows "find_index P xs = Some n"
proof (cases "find_index P xs")
  case None
  then show ?thesis using assms(1,2) by (auto simp: find_index_None list_ex_length)
next
  case (Some k)
  then show ?thesis using assms(3) find_index_Some(1,2) by blast
qed

section \<open>Items are told apart\<close>

text \<open>
  Given which products are recharges, no two items of a cart are the same one for the handlers: they differ
  in name, pricing, plan or, for a recharge, in the price.
\<close>

definition told_apart :: "(string \<Rightarrow> bool) \<Rightarrow> cart_item \<Rightarrow> cart_item \<Rightarrow> bool" where
  "told_apart recharge i j \<longleftrightarrow> \<not> same_item (ci_name i) (recharge (ci_name i)) (ci_price i) (ci_pricingName i) (ci_planName i) j"

definition cart_distinct :: "(string \<Rightarrow> bool) \<Rightarrow> cart_item list \<Rightarrow> bool" where
  "cart_distinct recharge cart \<longleftrightarrow>
     (\<forall>m < length cart. \<forall>n < length cart. m \<noteq> n \<longrightarrow> told_apart recharge (cart ! m) (cart ! n))"

lemma told_apart_sym: "told_apart recharge i j \<longleftrightarrow> told_apart recharge j i"
  by (auto simp: told_apart_def same_item_def)

lemma told_apart_quantity [simp]:
  "told_apart recharge (i\<lparr>ci_quantity := q\<rparr>) j = told_apart recharge i j"
  "told_apart recharge i (j\<lparr>ci_quantity := q\<rparr>) = told_apart recharge i j"
  by (simp_all add: told_apart_def same_item_def)

lemma cart_distinct_quantity:
  "cart_distinct recharge cart \<Longrightarrow> n < length cart \<Longrightarrow> cart_distinct recharge (cart[n := (cart ! n)\<lparr>ci_quantity := q\<rparr>])"
  by (auto simp: cart_distinct_def nth_list_update)

lemma cart_distinct_add:
  assumes "cart_distinct recharge cart" "\<And>i. i \<in> set cart \<Longrightarrow> told_apart recharge i x"
  shows "cart_distinct recharge (cart @ [x])"
proof -
  have "told_apart recharge ((cart @ [x]) ! m) ((cart @ [x]) ! n)" if "m < Suc (length cart)" "n < Suc (length cart)" "m \<noteq> n" for m n
  proof (cases "m < length cart \<and> n < length cart")
    case True
    then show ?thesis using assms(1) that(3) by (simp add: cart_distinct_def nth_append)
  next
    case False
    with that have "m < length cart \<and> n = length cart \<or> n < length cart \<and> m = length cart" by linarith
    then show ?thesis using assms(2) [of "cart ! m"] assms(2) [of "cart ! n"] told_apart_sym [of recharge x]
      by (auto simp: nth_append)
  qed
  then show ?thesis by (simp add: cart_distinct_def)
qed

lemma cart_distinct_remove:
  assumes "cart_distinct recharge cart"
  shows "cart_distinct recharge (take n cart @ drop (Suc n) cart)"
proof -
  have "(take n cart @ drop (Suc n) cart) ! m = cart ! (if m < n then m else Suc m)" if "m < length (take n cart @ drop (Suc n) cart)" for m
    using that by (auto simp: nth_append min_def)
  then show ?thesis using assms by (auto simp: cart_distinct_def split: if_splits)
qed

text \<open>Both ways of adding keep the items apart.\<close>

lemma buy_cart_distinct:
  assumes "cart_distinct recharge cart" "recharge (pd_name p) = pd_isRecharge p"
  shows "cart_distinct recharge (buy_cart now p price pricing plan q cart)"
proof (cases "find_index (same_item (pd_name p) (pd_isRecharge p) (Val price) pricing plan) cart")
  case None
  then have "\<not> same_item (pd_name p) (pd_isRecharge p) (Val price) pricing plan i" if "i \<in> set cart" for i
    using that by (auto simp: find_index_None list_ex_iff)
  then have "told_apart recharge i \<lparr>ci_name = pd_name p, ci_createdTime = now, ci_price = (if pd_isRecharge p then Val price else Null),
      ci_currency = pd_currency p, ci_pricingName = pricing, ci_planName = plan, ci_quantity = Val q\<rparr>" if "i \<in> set cart" for i
    using that assms(2) by (fastforce simp: told_apart_def same_item_def split: if_splits)
  from cart_distinct_add [OF assms(1) this] None show ?thesis by (simp add: buy_cart_def)
next
  case (Some n)
  then show ?thesis using find_index_Some(1) [OF Some] assms(1) by (simp add: buy_cart_def cart_distinct_quantity)
qed

lemma store_cart_distinct:
  assumes "cart_distinct recharge cart"
  shows "cart_distinct recharge (store_cart now p q cart)"
proof (cases "find_index (\<lambda>i. ci_name i = pd_name p) cart")
  case None
  then have "told_apart recharge i x" if "i \<in> set cart" "ci_name x = pd_name p" for i x
    using that by (auto simp: find_index_None list_ex_iff told_apart_def same_item_def)
  then show ?thesis using None assms by (simp add: store_cart_def cart_distinct_add)
next
  case (Some n)
  then show ?thesis using find_index_Some(1) [OF Some] assms by (simp add: store_cart_def cart_distinct_quantity)
qed

text \<open>The row of an item, when the server has its product, stands for that item only.\<close>

lemma row_item_only:
  assumes "cart_distinct recharge cart" "n < length cart" "row_of (cart ! n) (Answered res) = r"
    "pa_status res = ''ok''" "pa_product res = Some p" "pd_name p = ci_name (cart ! n)" "pd_isRecharge p = recharge (pd_name p)"
  shows "find_index (row_item r) cart = Some n"
proof (rule find_index_only [OF assms(2)])
  have eq: "row_item r i \<longleftrightarrow> \<not> told_apart recharge (cart ! n) i" for i
    using assms(3-7) by (auto simp: row_item_def row_of_def told_apart_def same_item_def Let_def)
  show "row_item r (cart ! n)" using eq by (simp add: told_apart_def same_item_def)
  show "m = n" if "m < length cart" "row_item r (cart ! m)" for m
    using that assms(1,2) eq unfolding cart_distinct_def by metis
qed

section \<open>Histories of a cart\<close>

datatype cart_change =
    Buy product int string string int
  | Store product int
  | Remove nat
  | SetQuantity nat int

fun cart_changed :: "string \<Rightarrow> cart_change \<Rightarrow> cart_item list \<Rightarrow> cart_item list" where
  "cart_changed now (Buy p price pricing plan q) cart = buy_cart now p price pricing plan q cart"
| "cart_changed now (Store p q) cart = store_cart now p q cart"
| "cart_changed now (Remove n) cart = take n cart @ drop (Suc n) cart"
| "cart_changed now (SetQuantity n q) cart = (if n < length cart then cart[n := (cart ! n)\<lparr>ci_quantity := Val q\<rparr>] else cart)"

definition fits :: "(string \<Rightarrow> bool) \<Rightarrow> cart_change \<Rightarrow> bool" where
  "fits recharge c = (case c of Buy p price pricing plan q \<Rightarrow> recharge (pd_name p) = pd_isRecharge p | _ \<Rightarrow> True)"

lemma history_distinct:
  "list_all (fits recharge) cs \<Longrightarrow> cart_distinct recharge cart \<Longrightarrow> cart_distinct recharge (foldl (\<lambda>t c. cart_changed now c t) cart cs)"
proof (induction cs arbitrary: cart)
  case (Cons c cs)
  have "cart_distinct recharge (cart_changed now c cart)"
    using Cons.prems
    by (cases c) (auto simp: fits_def buy_cart_distinct store_cart_distinct cart_distinct_remove cart_distinct_quantity)
  with Cons show ?case by simp
qed simp

text \<open>
  C39. Whatever was added in the store and on the pages of products, removed and changed, the row that the cart
  page shows for an item whose product the server still has stands for that item alone: deleting the row
  writes the cart without exactly that item, and changing its quantity writes the cart with exactly that
  quantity changed.
\<close>

theorem cart_rows_act_on_their_item:
  assumes "list_all (fits recharge) cs" "cart = foldl (\<lambda>t c. cart_changed now c t) [] cs" "n < length cart"
    "pa_status res = ''ok''" "pa_product res = Some p" "pd_name p = ci_name (cart ! n)" "pd_isRecharge p = recharge (pd_name p)"
    "ct_user s = Some u" "cu_cart u = Some cart" "itemKey (row_of (cart ! n) (Answered res)) \<notin> set (ct_updating s)" "q \<ge> 1"
  shows "ct_requests (deleteCart (row_of (cart ! n) (Answered res)) s)
      = ct_requests s @ [UpdateUser (cu_owner u) (cu_name u) (u\<lparr>cu_cart := Some (take n cart @ drop (Suc n) cart)\<rparr>)]
    \<and> ct_requests (updateCartItemQuantity (row_of (cart ! n) (Answered res)) q s)
      = ct_requests s @ [UpdateUser (cu_owner u) (cu_name u) (u\<lparr>cu_cart := Some (cart[n := (cart ! n)\<lparr>ci_quantity := Val q\<rparr>])\<rparr>)]"
proof -
  have "cart_distinct recharge cart"
    using history_distinct [OF assms(1), of "[]" now] by (simp add: assms(2) cart_distinct_def)
  from row_item_only [OF this assms(3) refl assms(4-7)] show ?thesis
    using assms(8-11) by (simp add: deleteCart_def updateCartItemQuantity_def write_cart_def ct_ask_def Let_def)
qed

section \<open>Totals\<close>

text \<open>The price that an order adds up to.\<close>

definition order_total :: "(string \<times> int arg \<times> int arg \<times> string \<times> string) list \<Rightarrow> int option" where
  "order_total infos = foldl (\<lambda>t (name, price, quantity, pricing, plan). plus_num t (times price quantity)) (Some 0) infos"

text \<open>An order is worth what the page shows as the total of the cart.\<close>

lemma order_worth_total:
  assumes "ct_requests (cart_placeOrder s) = ct_requests s @ [PlaceOrder w infos name]"
  shows "order_total infos = cart_total (ct_data s) \<and> infos \<noteq> []"
proof -
  have valid: "\<not> list_ex rw_isInvalid (ct_data s)" "ct_data s \<noteq> []" "infos = cart_order (ct_data s)"
    using assms by (auto simp: cart_placeOrder_def ct_show_def ct_ask_def split: if_splits)
  have "filter (\<lambda>r. \<not> rw_isInvalid r) (ct_data s) = ct_data s"
    using valid(1) by (simp add: list_ex_iff filter_id_conv)
  then show ?thesis
    using valid(2,3) by (simp add: order_total_def cart_total_def cart_order_def foldl_map)
qed

text \<open>The rows stay in the order of the items: the times of two items are texts, and their difference is not a number.\<close>

lemma cart_order_kept: "sort_rows None rows = rows"
proof -
  have "insert_by (\<lambda>a b. 0) x ys = x # ys" for x :: cart_row and ys by (cases ys) simp_all
  then show ?thesis by (induction rows) (simp_all add: sort_rows_def js_sort_def)
qed

section \<open>Examples\<close>

definition book :: product where
  "book = \<lparr>pd_owner = ''org'', pd_name = ''book'', pd_price = 20, pd_currency = ''USD'', pd_isRecharge = False\<rparr>"

definition credit :: product where
  "credit = \<lparr>pd_owner = ''org'', pd_name = ''credit'', pd_price = 0, pd_currency = ''USD'', pd_isRecharge = True\<rparr>"

definition shopping :: "cart_change list" where
  "shopping = [Store book 1, Buy credit 50 [] [] 1, Buy credit 100 [] [] 2, Store book 2]"

definition shopped :: "cart_item list" where
  "shopped = foldl (\<lambda>t c. cart_changed ''now'' c t) [] shopping"

definition buyer :: cart_user where
  "buyer = \<lparr>cu_owner = ''org'', cu_name = ''ann'', cu_cart = Some shopped\<rparr>"

definition found :: "product \<Rightarrow> product_answer" where
  "found p = \<lparr>pa_status = ''ok'', pa_product = Some p\<rparr>"

definition shop_page :: cart_page where
  "shop_page = (new_cart_page ''org'' ''ann'')\<lparr>ct_user := Some buyer\<rparr>"

theorem cart_rows_act_on_their_item_witness:
  "ct_requests (deleteCart (row_of (shopped ! 2) (Answered (found credit))) shop_page)
     = [UpdateUser ''org'' ''ann'' (buyer\<lparr>cu_cart := Some (take 2 shopped)\<rparr>)]"
proof -
  let ?r = "\<lambda>k. k = ''credit''"
  have facts: "list_all (fits ?r) shopping" "2 < length shopped" "pd_name credit = ci_name (shopped ! 2)"
      "pd_isRecharge credit = ?r (pd_name credit)" "drop (Suc 2) shopped = []"
    by code_simp+
  have page: "ct_user shop_page = Some buyer" "cu_cart buyer = Some shopped" "ct_updating shop_page = []" "ct_requests shop_page = []"
      "cu_owner buyer = ''org''" "cu_name buyer = ''ann''" "pa_status (found credit) = ''ok''" "pa_product (found credit) = Some credit"
    by (simp_all add: shop_page_def buyer_def new_cart_page_def found_def)
  have "itemKey (row_of (shopped ! 2) (Answered (found credit))) \<notin> set (ct_updating shop_page)" by (simp only: page) simp
  from cart_rows_act_on_their_item [OF facts(1) shopped_def facts(2) page(7,8) facts(3,4) page(1,2) this, of 1] facts(5)
  show ?thesis by (simp only: page append_Nil append_Nil2)
qed

text \<open>
  A row whose product is gone does not say that it was a recharge: deleting the row of one amount removes the
  item with another.
\<close>

lemma gone_recharge_deletes_other:
  "ct_requests (deleteCart (row_of (shopped ! 2) (NoAnswer [])) shop_page)
     = [UpdateUser ''org'' ''ann'' (buyer\<lparr>cu_cart := Some [shopped ! 0, shopped ! 2]\<rparr>)]"
  by code_simp

text \<open>The store adds to any item of the name, also to one with a plan.\<close>

lemma store_adds_to_plan:
  "map (\<lambda>i. (ci_planName i, ci_quantity i)) (store_cart ''now'' book 3 (buy_cart ''now'' book 20 ''pricing'' ''plan'' 1 []))
     = [(''plan'', Val 4)]"
  by code_simp

text \<open>
  An item whose deletion the server refuses is gone from the list that the page holds: it is deleted with the
  next change of a quantity.
\<close>

lemma refused_delete_comes_later:
  "map (\<lambda>rq. case rq of UpdateUser w n u \<Rightarrow> map ci_name (cart_of u) | _ \<Rightarrow> [])
     (ct_requests (updateCartItemQuantity (row_of (shopped ! 0) (Answered (found book))) 5
       (cartWritten (Answered \<lparr>an_status = ''error'', an_msg = [], an_data = JNull\<rparr>)
         (deleteCart (row_of (shopped ! 2) (Answered (found credit))) shop_page))))
   = [[''book'', ''credit''], [''book'', ''credit'']]"
  by code_simp

end
