(* ===== verification/Spec2Isabelle.thy ===== *)
theory Spec2Isabelle
  imports Callback_Handover Provider_Hint Sign_In_Rules Send_Code Password
    Step_Up_Rules Control_Pages Table_Rules Keyed_Tables Policy_Table Paginate_Select Session_Layout
    Console_Requests Page_Routes Login_Rules Forget_Page Signup_Page
    Prompt_Page Consent_Page Mfa_Setup App_Shell Shop_Cart
begin

text \<open>
  A verification library for the web console of ArchGuard, a fork of Casdoor: the JavaScript under
  \<open>src/web\<close>. The console is a React application that signs users in (\<open>web/src/auth\<close>), administers
  organizations, applications, users and providers (the edit pages with the tables of
  \<open>web/src/table\<close>), and operates a control plane (\<open>web/src/backend/ControlPlaneBackend.js\<close>). Two
  scripts without React, \<open>web/public/AuthCallbackHandler.js\<close> and \<open>web/public/ProviderHintRedirect.js\<close>,
  repeat parts of the sign-in so that a redirect does not wait for the application to load.

  \<^bold>\<open>Foundations.\<close>
  \<open>Prelude\<close> has errors and results (an exception is the left summand of \<open>js_error + 'a\<close>), truthiness,
  template strings and the string methods the sources use. \<open>Web_Platform\<close> models what the code uses of
  the browser: the URI and form codings with the locale \<open>codec\<close> and its interpretations,
  \<open>URLSearchParams\<close>, base64, \<open>btoa\<close> and \<open>atob\<close>, storages. \<open>Js_Object\<close> has JavaScript values, objects as
  property lists in insertion order and arrays with their out-of-range behaviour. \<open>Console_Types\<close> has
  the records of providers, organizations, accounts and applications, and the browser with its
  address, storages and the list of effects (navigations, forms, messages) in the order they happen.
  Strings are their UTF-8 bytes, numbers of the model are integers.

  \<^bold>\<open>Signing in.\<close>
  \<open>Auth_Util\<close>: the request parameters and the packing of a request into the OAuth \<open>state\<close>
  (\<open>auth/Util.js\<close>). \<open>Provider_Catalogue\<close>: the provider types and their data (\<open>Setting.js\<close>).
  \<open>OAuth_Provider\<close>: the addresses of identity providers and PKCE (\<open>auth/Provider.js\<close>).
  \<open>Auth_Callback\<close>: the return from the identity provider in \<open>auth/AuthCallback.js\<close> and, definition by
  definition beside it, in \<open>AuthCallbackHandler.js\<close>. Shown: a request survives the trip through the
  provider; both pages send the same login request and lead to the same destination.
  \<open>Callback_Handover\<close>: when the static page hands an answer over to the React page, the React page
  does what it would have done itself. \<open>Provider_Hint\<close>: the redirect script builds the same address
  as \<open>Provider.js\<close> and always leaves the page. \<open>Sign_In_Rules\<close>: which providers, questions, second
  factors and captchas apply to an application and an account (\<open>Setting.js\<close>), with the prompt page
  refined from what a user still owes. \<open>Send_Code\<close>: the verification code input, its captcha and its
  countdown (\<open>common/SendCodeInput.js\<close>). \<open>Password\<close>: password rules on UTF-16 code units as 16-bit words,
  and the obfuscator (\<open>common/PasswordChecker.js\<close>, \<open>auth/Obfuscator.js\<close>).

  \<^bold>\<open>The pages of the sign-in.\<close>
  \<open>Login_Page\<close> and \<open>Login_Rules\<close>: the state, the handlers and the continuations of \<open>auth/LoginPage.js\<close> with
  the requests of \<open>auth/AuthBackend.js\<close> and the second factor. A run is any order of what the user does
  and what the server answers. Shown: a password leaves the page only obfuscated and with the captcha
  the application asks for, the button stops loading, and what the client gets back. \<open>Forget_Page\<close>: the
  recovery of a password (\<open>auth/ForgetPage.js\<close>) as a state machine over its three steps; a new password is
  requested with a name and a code that were confirmed together. \<open>Signup_Page\<close>: opening, submission and
  captcha of \<open>auth/SignupPage.js\<close> and where a new user is sent. \<open>Prompt_Page\<close>: the page with the questions
  an application still has; who can pass it. \<open>Consent_Page\<close>: the scopes a user allows. \<open>Mfa_Setup\<close>: setting up
  a second factor over its three steps, and the dialogue of administrators; a factor is enabled as it was
  verified, and how that order can be lost. \<open>App_Shell\<close>: the frame of the console (\<open>App.js\<close>): credentials in
  the address, the menu, the required factor, guards and signing out.

  \<^bold>\<open>The control plane.\<close>
  \<open>Control_Plane\<close>: requests, endpoints, errors and the test for a step-up challenge. \<open>Step_Up\<close>: a step
  relation for \<open>cpRequest\<close> running against \<open>common/StepUpModal.js\<close>; an event is what the event loop can
  deliver next, so a reachable state is the result of any interleaving of calls, answers, user
  actions and authenticator prompts. The locales \<open>console_stable\<close> and \<open>console_invariant\<close> carry an
  invariant from single events to all runs; they are interpreted with the history of every call,
  the references between the parts, the state of the dialogue, and a call whose challenge was
  replaced. \<open>Step_Up_Rules\<close> has the theorems: fail closed with at most one repetition, open exactly
  while a call waits, every challenge can be ended when they come one at a time, and the two ways in
  which the code falls short (a second challenge, and the pages on which the dialogue is mounted).
  \<open>Control_Pages\<close>: the pages of the control plane, with what they show for every answer of the client:
  the health banner, the indicator of the audit chain, access review, grants and break-glass.

  \<^bold>\<open>Editing.\<close>
  \<open>Row_Operations\<close>: the row helpers of \<open>Setting.js\<close>. \<open>Table_Editors\<close>: the locale \<open>row_editor\<close>, the
  contract between a table and its page, interpreted on fourteen tables of \<open>web/src/table\<close>.
  \<open>Table_Rules\<close>: the tables with rules of their own (one required second factor, one key column,
  provider selection, scopes, new names). \<open>Keyed_Tables\<close>: tables that own their rows (properties and
  accounts). \<open>Policy_Table\<close>: editing, cancelling and saving of policies. \<open>Paginate_Select\<close>: the paginated
  selection box under every order of answers (\<open>common/PaginateSelect.js\<close>).

  \<^bold>\<open>Pages that edit and list records.\<close>
  \<open>Console_Requests\<close>: the requests of \<open>web/src/backend\<close> with their addresses, methods and bodies; the
  server reads back the record that was named. \<open>Edit_Page\<close> has what the edit pages share (the record as a
  JavaScript object, loading, updating a field, saving with its message and its navigation);
  \<open>Identity_Pages\<close>, \<open>Shop_Pages\<close>, \<open>Resource_Pages\<close> and \<open>Gateway_Pages\<close> have the 31 edit pages, each with its
  own conversions, checks and continuations; \<open>Edit_Runs\<close> the sequences of edits and saves against a server;
  \<open>Edit_Rules\<close> and \<open>Edit_Checks\<close> the theorems: saves reach the record, forms leave their page complete, and
  the places where the pages lose or leak data. \<open>List_Page\<close> has what the list pages share (\<open>BaseListPage.js\<close>:
  search, paging, the request for rows), \<open>List_Pages\<close> the 34 pages with their new records, \<open>List_Rules\<close> the
  theorems over every interleaving of user and answers. \<open>Page_Routes\<close>: the routes of \<open>ManagementPage.js\<close>
  and the state each edit page starts in; from the button Add to the page of the new record.
  \<open>Shop_Cart\<close>: the cart of a user, filled on the pages of products and in the store, and the page that shows
  it (\<open>CartListPage.js\<close>); a row acts on its item alone, an order is worth the total that is shown, and the
  ways in which a deletion hits the wrong item or comes late.
  State changes inside a continuation are batched, as React 18 does, so a continuation reads the state
  it started with. The server of \<open>Edit_Runs\<close> answers an update of an unknown address with success and
  changes nothing (\<open>controllers/base.go\<close>). Random texts and the time that new records contain are an
  argument (the record \<open>new_values\<close>), so is \<open>parseFloat\<close>.

  \<^bold>\<open>Session graphs.\<close>
  \<open>Session_Graph\<close> and \<open>Session_Layout\<close>: texts, colours, tree indexes and the layout of
  \<open>OpenClawSessionGraphUtils.js\<close>, with the locale \<open>layout_index\<close> for what the placement needs of the
  index.

  \<^bold>\<open>Fuel.\<close> The only bounded recursion is the placement of nodes (\<open>placeNode\<close>): the depth of nested
  calls is limited by the nodes not yet on the stack, the fuel given is the number of nodes plus one,
  and \<open>flow_elements_total\<close> shows that it is enough for every graph. All other loops terminate by
  measures or structural recursion.

  \<^bold>\<open>Parameters.\<close> Code outside the repository is an argument of the definitions that use it: the hash
  and the random bytes of PKCE, the ciphers of \<open>crypto-js\<close>, the translations of \<open>i18next\<close>, the parsing of
  absolute addresses, the answers of the server, the authenticator. What a theorem needs of them is
  a hypothesis of the theorem, with a witness that meets it.

  \<^bold>\<open>Not modelled.\<close> Rendering: the JSX of pages and tables, styles, captions, icons and the
  translation files; of the sign-in page and the lists only the decisions of the render methods. The
  items of the sign-up form, the items of the menu, themes and the tour; how the product and store pages
  load what they show, and the pages that follow a payment.
  Components that drive third-party widgets (captcha, face recognition, the WeChat dialogue, editors,
  charts). The server (\<open>controllers\<close>, \<open>object\<close>, \<open>internal\<close> and the other Go packages), deployment files,
  documentation and tests.
\<close>

end
